(* ===== verification/Konf_Errors.thy ===== *)
theory Konf_Errors
  imports Konf_Prelude
begin

text \<open>
  The error types of the substrate (\<^verbatim>\<open>konflux-substrate/src/error.rs\<close>) and of the runtime
  (\<^verbatim>\<open>konf-runtime/src/error.rs\<close>), with the text their \<^verbatim>\<open>Display\<close> instances print:
  other components store, journal and inspect that text.
\<close>

section \<open>Printing\<close>

fun show_nat :: "nat \<Rightarrow> string" where
  "show_nat n =
     (if n < 10 then [char_of (48 + n)] else show_nat (n div 10) @ [char_of (48 + n mod 10)])"

declare show_nat.simps [simp del]

definition show_u64 :: "'a::len word \<Rightarrow> string" where
  "show_u64 n = show_nat (unat n)"

text \<open>The UTF-8 bytes of the arrow and of the em dash that two messages contain.\<close>

definition arrow :: string where
  "arrow = [CHR 0xE2, CHR 0x86, CHR 0x92]"

definition em_dash :: string where
  "em_dash = [CHR 0xE2, CHR 0x80, CHR 0x94]"

definition quoted :: "string \<Rightarrow> string" where
  "quoted s = CHR 0x27 # s @ [CHR 0x27]"

fun join_str :: "string \<Rightarrow> string list \<Rightarrow> string" where
  "join_str sep [] = []"
| "join_str sep [w] = w"
| "join_str sep (w # ws) = w @ sep @ join_str sep ws"

lemma of_char_char_of_digit: "n < 10 \<Longrightarrow> of_char (char_of (48 + n)) = 48 + (n::nat)"
  by simp

lemma is_digit_char_of: "n < 10 \<Longrightarrow> is_digit (char_of (48 + n :: nat))"
  by (simp add: is_digit_def Let_def)

lemma digits_value_append:
  "digits_value acc (s @ [c]) = 10 * digits_value acc s + (of_char c - 48)"
  by (induction s arbitrary: acc) auto

lemma list_all_is_digit_show_nat: "list_all is_digit (show_nat n)"
proof (induction n rule: show_nat.induct)
  case (1 n)
  then show ?case
    by (subst show_nat.simps) (auto simp: is_digit_char_of)
qed

lemma show_nat_nonempty [simp]: "show_nat n \<noteq> []"
  by (subst show_nat.simps) simp

lemma digits_value_show_nat: "digits_value 0 (show_nat n) = n"
proof (induction n rule: show_nat.induct)
  case (1 n)
  show ?case
  proof (cases "n < 10")
    case True
    then show ?thesis by (subst show_nat.simps) simp
  next
    case False
    with 1 have "digits_value 0 (show_nat (n div 10)) = n div 10" by simp
    with False show ?thesis
      by (subst show_nat.simps) (simp add: digits_value_append)
  qed
qed

lemma parse_digits_show_nat: "parse_digits (show_nat n) = Some n"
  by (simp add: parse_digits_def list_all_is_digit_show_nat digits_value_show_nat)

section \<open>Errors of the substrate\<close>

datatype ToolError =
    InvalidInput string "string option"
  | ExecutionFailed string bool
  | ToolTimeout u64
  | ToolCapabilityDenied string
  | AccessDenied string
  | ToolNotFound string

datatype ParseError =
    InvalidYaml string
  | MissingField string string
  | InvalidValue string string

datatype ValidationError =
    CycleDetected "string list"
  | OrphanedNode string
  | UnknownNode string string
  | UnknownTool string string
  | MissingCapability string
  | NoEntryNode
  | NoReturnNode

datatype ExecutionError =
    NodeFailed string string string
  | ExecTimeout string string u64
  | MaxStepsExceeded string nat
  | JoinFailed string string string
  | Cancelled string

datatype KonfluxError =
    KParse ParseError
  | KValidation ValidationError
  | KExecution ExecutionError
  | KTool ToolError
  | KCapabilityDenied string

fun show_ToolError :: "ToolError \<Rightarrow> string" where
  "show_ToolError (InvalidInput message field) = ''invalid input: '' @ message"
| "show_ToolError (ExecutionFailed message retryable) = ''execution failed: '' @ message"
| "show_ToolError (ToolTimeout after_ms) = ''timeout after '' @ show_u64 after_ms @ ''ms''"
| "show_ToolError (ToolCapabilityDenied capability) = ''capability denied: '' @ capability"
| "show_ToolError (AccessDenied message) = ''access denied: '' @ message"
| "show_ToolError (ToolNotFound tool_id) = ''tool not found: '' @ tool_id"

fun show_ParseError :: "ParseError \<Rightarrow> string" where
  "show_ParseError (InvalidYaml message) = ''invalid YAML: '' @ message"
| "show_ParseError (MissingField field context) =
     ''missing required field '' @ quoted field @ '' in '' @ context"
| "show_ParseError (InvalidValue field message) =
     ''invalid value for '' @ quoted field @ '': '' @ message"

fun show_ValidationError :: "ValidationError \<Rightarrow> string" where
  "show_ValidationError (CycleDetected path) =
     ''cycle detected: '' @ join_str ('' '' @ arrow @ '' '') path"
| "show_ValidationError (OrphanedNode node) =
     ''orphaned node '' @ quoted node @ '' '' @ em_dash @ '' not reachable from entry''"
| "show_ValidationError (UnknownNode node src) =
     ''unknown node '' @ quoted node @ '' referenced in edge from '' @ quoted src"
| "show_ValidationError (UnknownTool tool node) =
     ''unknown tool '' @ quoted tool @ '' in node '' @ quoted node"
| "show_ValidationError (MissingCapability capability) =
     ''capability '' @ quoted capability @ '' required but not granted''"
| "show_ValidationError NoEntryNode = ''no entry node found''"
| "show_ValidationError NoReturnNode = ''no return node found''"

definition bracketed :: "string \<Rightarrow> string" where
  "bracketed w = ''['' @ w @ ''] ''"

fun show_ExecutionError :: "ExecutionError \<Rightarrow> string" where
  "show_ExecutionError (NodeFailed workflow_id node message) =
     bracketed workflow_id @ ''node '' @ quoted node @ '' failed: '' @ message"
| "show_ExecutionError (ExecTimeout workflow_id node timeout_ms) =
     bracketed workflow_id @ ''node '' @ quoted node @ '' timed out after ''
       @ show_u64 timeout_ms @ ''ms''"
| "show_ExecutionError (MaxStepsExceeded workflow_id limit) =
     bracketed workflow_id @ ''max steps exceeded ('' @ show_nat limit @ '')''"
| "show_ExecutionError (JoinFailed workflow_id node message) =
     bracketed workflow_id @ ''join failed on node '' @ quoted node @ '': '' @ message"
| "show_ExecutionError (Cancelled workflow_id) = bracketed workflow_id @ ''workflow cancelled''"

fun show_KonfluxError :: "KonfluxError \<Rightarrow> string" where
  "show_KonfluxError (KParse e) = ''parse error: '' @ show_ParseError e"
| "show_KonfluxError (KValidation e) = ''validation error: '' @ show_ValidationError e"
| "show_KonfluxError (KExecution e) = ''execution error: '' @ show_ExecutionError e"
| "show_KonfluxError (KTool e) = ''tool error: '' @ show_ToolError e"
| "show_KonfluxError (KCapabilityDenied c) = ''capability denied: '' @ c"

section \<open>Errors of the runtime\<close>

type_synonym RunId = uuid

datatype JournalError =
    JStorage string
  | JSerialization string
  | JNotFound

datatype RuntimeError =
    RNotFound RunId
  | RNotRunning RunId
  | ResourceLimit string nat
  | RCapabilityDenied string
  | DeadlineExceeded string
  | RTool string string
  | REngine KonfluxError
  | RJoinFailed string
  | RJournal JournalError

end
