(* ===== verification/Capability.thy ===== *)
theory Capability
  imports Konf_Errors
begin

text \<open>
  The capability lattice: \<^verbatim>\<open>Capability\<close> and \<^verbatim>\<open>CapSet\<close> of
  \<^verbatim>\<open>konflux-substrate/src/envelope.rs\<close> and the string wrappers of
  \<^verbatim>\<open>konflux-substrate/src/capability.rs\<close>. A pattern is \<open>*\<close>, a prefix
  \<open>p:*\<close>, or an exact tool name. The locale \<open>attenuating\<close> states what the rest of the
  system relies on: deriving an authority never adds a permission.
\<close>

section \<open>Definitions\<close>

datatype Capability = Capability (pattern: string)

datatype CapSet = CapSet (caps: "Capability list")

definition Capability_matches :: "Capability \<Rightarrow> string \<Rightarrow> bool" where
  "Capability_matches c tool_name =
     (if pattern c = ''*'' then True
      else (case strip_suffix (pattern c) '':*'' of
              Some prfx \<Rightarrow>
                starts_with tool_name prfx \<and> byte_at tool_name (length prfx) = Some (CHR '':'')
            | None \<Rightarrow> pattern c = tool_name))"

definition CapSet_from_patterns :: "string list \<Rightarrow> CapSet" where
  "CapSet_from_patterns patterns = CapSet (map Capability patterns)"

definition CapSet_from_capabilities :: "Capability list \<Rightarrow> CapSet" where
  "CapSet_from_capabilities cs = CapSet cs"

definition CapSet_default :: CapSet where
  "CapSet_default = CapSet []"

definition CapSet_check_access :: "CapSet \<Rightarrow> string \<Rightarrow> ToolError + unit" where
  "CapSet_check_access cs tool_name =
     (if caps cs = [] then Inl (ToolCapabilityDenied ''ALL (empty capability set)'')
      else if list_ex (\<lambda>c. Capability_matches c tool_name) (caps cs) then Inr ()
      else Inl (ToolCapabilityDenied tool_name))"

definition CapSet_attenuate :: "CapSet \<Rightarrow> string list \<Rightarrow> string + CapSet" where
  "CapSet_attenuate cs child_patterns =
     (if child_patterns = [] then Inr CapSet_default
      else if caps cs = [] then Inl ''parent has no capabilities to grant from''
      else rbind
        (check_all
          (\<lambda>pat. if \<not> list_ex (\<lambda>parent. Capability_matches parent pat) (caps cs)
                 then Inl (''capability '' @ quoted pat @ '' cannot be granted '' @ em_dash
                           @ '' parent does not have it'')
                 else Inr ())
          child_patterns)
        (\<lambda>_. Inr (CapSet_from_patterns child_patterns)))"

definition CapSet_patterns :: "CapSet \<Rightarrow> string list" where
  "CapSet_patterns cs = map pattern (caps cs)"

definition CapSet_is_empty :: "CapSet \<Rightarrow> bool" where
  "CapSet_is_empty cs = (caps cs = [])"

definition CapSet_len :: "CapSet \<Rightarrow> nat" where
  "CapSet_len cs = length (caps cs)"

definition check_tool_access :: "string \<Rightarrow> string list \<Rightarrow> ToolError + unit" where
  "check_tool_access tool_name capabilities =
     CapSet_check_access (CapSet_from_patterns capabilities) tool_name"

definition validate_grant :: "string list \<Rightarrow> string list \<Rightarrow> string + unit" where
  "validate_grant grant parent_capabilities =
     map_ok (\<lambda>_. ()) (CapSet_attenuate (CapSet_from_patterns parent_capabilities) grant)"

section \<open>The interface: authorities that only attenuate\<close>

text \<open>A sequence of derivations, each from the result of the one before.\<close>

fun derive_chain :: "('a \<Rightarrow> 'p \<Rightarrow> 'e + 'a) \<Rightarrow> 'a \<Rightarrow> 'p list \<Rightarrow> 'e + 'a" where
  "derive_chain derive a [] = Inr a"
| "derive_chain derive a (p # ps) = rbind (derive a p) (\<lambda>a'. derive_chain derive a' ps)"

text \<open>
  An authority permits tools; \<open>derive\<close> makes a child authority from a request. The law
  is the invariant documented on \<^verbatim>\<open>CapSet\<close>: what the child may do, the parent may do.
\<close>

locale attenuating =
  fixes permits :: "'a \<Rightarrow> string \<Rightarrow> bool"
    and derive :: "'a \<Rightarrow> 'p \<Rightarrow> 'e + 'a"
  assumes derive_attenuates: "derive a p = Inr a' \<Longrightarrow> permits a' t \<Longrightarrow> permits a t"
begin

lemma chain_attenuates: "derive_chain derive a ps = Inr a' \<Longrightarrow> permits a' t \<Longrightarrow> permits a t"
proof (induction ps arbitrary: a)
  case Nil
  then show ?case by simp
next
  case (Cons p ps)
  from Cons.prems(1) obtain b where b: "derive a p = Inr b" "derive_chain derive b ps = Inr a'"
    by (auto simp: rbind_eq_Inr)
  from Cons.IH [OF b(2) Cons.prems(2)] have "permits b t" .
  with b(1) show ?case by (rule derive_attenuates)
qed

lemma forbidden_stays_forbidden:
  "derive_chain derive a ps = Inr a' \<Longrightarrow> \<not> permits a t \<Longrightarrow> \<not> permits a' t"
  using chain_attenuates by blast

lemma chain_append:
  "derive_chain derive a (ps @ qs) = rbind (derive_chain derive a ps) (\<lambda>b. derive_chain derive b qs)"
proof (induction ps arbitrary: a)
  case (Cons p ps)
  then show ?case by (cases "derive a p") auto
qed simp

end

section \<open>Lemmas on patterns\<close>

lemma byte_at_prefix: "byte_at (p @ c # r) (length p) = Some c"
  by (simp add: byte_at_def)

lemma prefix_colon_iff:
  "starts_with s p \<and> byte_at s (length p) = Some c \<longleftrightarrow> prefix (p @ [c]) s"
proof
  assume "starts_with s p \<and> byte_at s (length p) = Some c"
  then obtain r where r: "s = p @ r" and "r \<noteq> []" "hd r = c"
    by (auto simp: starts_with_def prefix_def byte_at_def nth_append hd_conv_nth split: if_splits)
  then obtain r' where "r = c # r'" by (cases r) auto
  with r show "prefix (p @ [c]) s" by simp
next
  assume "prefix (p @ [c]) s"
  then show "starts_with s p \<and> byte_at s (length p) = Some c"
    by (auto simp: prefix_def starts_with_def byte_at_def nth_append)
qed

lemma Capability_matches_cases:
  "Capability_matches (Capability P) t \<longleftrightarrow>
     P = ''*'' \<or> (\<exists>p. P = p @ '':*'' \<and> prefix (p @ '':'') t)
     \<or> (P = t \<and> P \<noteq> ''*'' \<and> (\<forall>p. P \<noteq> p @ '':*''))"
proof (cases "strip_suffix P '':*''")
  case None
  then have "\<forall>p. P \<noteq> p @ '':*''" by (simp add: strip_suffix_eq_None)
  with None show ?thesis by (auto simp: Capability_matches_def)
next
  case (Some p)
  then have P: "P = p @ '':*''" by (simp add: strip_suffix_eq_Some)
  then have "P \<noteq> ''*''" by (auto simp: append_eq_Cons_conv)
  with Some P show ?thesis
    by (simp add: Capability_matches_def prefix_colon_iff)
qed

text \<open>A prefix pattern below another: dropping the star keeps the prefix.\<close>

lemma prefix_pattern_trans:
  assumes "prefix (p @ '':'') (q @ '':*'')"
  shows "prefix (p @ '':'') (q @ '':'')"
proof -
  have "prefix (p @ '':'') ((q @ '':'') @ [CHR ''*''])" using assms by simp
  then show ?thesis by (subst (asm) prefix_snoc) auto
qed

lemma Capability_matches_trans:
  assumes "Capability_matches (Capability P) q" and "Capability_matches (Capability q) t"
  shows "Capability_matches (Capability P) t"
proof -
  consider "P = ''*''" | p where "P = p @ '':*''" "prefix (p @ '':'') q" | "P = q"
    using assms(1) by (auto simp: Capability_matches_cases)
  then show ?thesis
  proof cases
    case 1
    then show ?thesis by (simp add: Capability_matches_def)
  next
    case (2 p)
    have "CHR '':'' \<in> set q" using 2(2) by (auto dest: set_mono_prefix)
    then have "q \<noteq> ''*''" by auto
    with assms(2) have "(\<exists>r. q = r @ '':*'' \<and> prefix (r @ '':'') t) \<or> q = t"
      by (auto simp: Capability_matches_cases)
    then have "prefix (p @ '':'') t"
    proof
      assume "\<exists>r. q = r @ '':*'' \<and> prefix (r @ '':'') t"
      then obtain r where "q = r @ '':*''" "prefix (r @ '':'') t" by blast
      with 2(2) have "prefix (p @ '':'') (r @ '':'')" by (intro prefix_pattern_trans) simp
      then show ?thesis using \<open>prefix (r @ '':'') t\<close> by (rule prefix_order.trans)
    qed (use 2 in simp)
    with 2(1) show ?thesis by (auto simp: Capability_matches_cases)
  next
    case 3
    with assms(2) show ?thesis by simp
  qed
qed

definition CapSet_permits :: "CapSet \<Rightarrow> string \<Rightarrow> bool" where
  "CapSet_permits cs t = is_ok (CapSet_check_access cs t)"

lemma CapSet_permits_iff: "CapSet_permits cs t \<longleftrightarrow> (\<exists>c \<in> set (caps cs). Capability_matches c t)"
  by (auto simp: CapSet_permits_def CapSet_check_access_def list_ex_iff)

lemma CapSet_attenuate_Inr:
  "CapSet_attenuate cs ps = Inr cs' \<longleftrightarrow>
     cs' = CapSet_from_patterns ps \<and>
     (\<forall>p \<in> set ps. \<exists>c \<in> set (caps cs). Capability_matches c p)"
  by (cases "caps cs")
    (auto simp: CapSet_attenuate_def CapSet_default_def CapSet_from_patterns_def list_ex_iff
      result_simps split: if_splits)

interpretation capset: attenuating CapSet_permits CapSet_attenuate
proof unfold_locales
  fix a p a' t
  assume "CapSet_attenuate a p = Inr a'" and "CapSet_permits a' t"
  then obtain q c where "q \<in> set p" "Capability_matches (Capability q) t"
    and c: "c \<in> set (caps a)" "Capability_matches c q"
    by (auto simp: CapSet_attenuate_Inr CapSet_permits_iff CapSet_from_patterns_def)
  then have "Capability_matches c t"
    using Capability_matches_trans by (metis Capability.exhaust)
  with c(1) show "CapSet_permits a t" by (auto simp: CapSet_permits_iff)
qed

lemma check_access_iff_permits: "CapSet_check_access cs t = Inr () \<longleftrightarrow> CapSet_permits cs t"
  by (simp add: CapSet_permits_def CapSet_check_access_def)

section \<open>Properties\<close>

text \<open>
  C16. Capabilities only attenuate: however many times a capability set is attenuated in a
  row, every tool the last set grants access to is a tool the first set grants access to.
\<close>

theorem attenuate_chain_never_amplifies:
  assumes "derive_chain CapSet_attenuate cs requests = Inr cs'"
    and "CapSet_check_access cs' tool = Inr ()"
  shows "CapSet_check_access cs tool = Inr ()"
  using capset.chain_attenuates [OF assms(1)] assms(2) by (simp add: check_access_iff_permits)

theorem attenuate_chain_never_amplifies_witness:
  "derive_chain CapSet_attenuate (CapSet_from_patterns [''memory:*'', ''ai:complete''])
      [[''memory:graph:*'', ''ai:complete''], [''memory:graph:search'']]
     = Inr (CapSet_from_patterns [''memory:graph:search'']) \<and>
   CapSet_check_access (CapSet_from_patterns [''memory:*'', ''ai:complete'']) ''memory:graph:search''
     = Inr ()"
proof -
  have d: "derive_chain CapSet_attenuate (CapSet_from_patterns [''memory:*'', ''ai:complete''])
      [[''memory:graph:*'', ''ai:complete''], [''memory:graph:search'']]
     = Inr (CapSet_from_patterns [''memory:graph:search''])"
    by code_simp
  have a: "CapSet_check_access (CapSet_from_patterns [''memory:graph:search''])
      ''memory:graph:search'' = Inr ()"
    by code_simp
  show ?thesis using d attenuate_chain_never_amplifies [OF d a] by blast
qed

text \<open>
  The outcome of an attenuation, errors included: with no pattern requested the child
  set is empty; otherwise an empty parent refuses, the first pattern no parent capability
  covers is refused by name, and if every pattern is covered the child holds exactly the
  requested patterns.
\<close>

theorem attenuate_outcome:
  "CapSet_attenuate (CapSet cs) ps =
     (if ps = [] then Inr (CapSet [])
      else if cs = [] then Inl ''parent has no capabilities to grant from''
      else (case filter (\<lambda>p. \<not> (\<exists>c \<in> set cs. Capability_matches c p)) ps of
              p # _ \<Rightarrow> Inl (''capability '' @ quoted p @ '' cannot be granted '' @ em_dash
                             @ '' parent does not have it'')
            | [] \<Rightarrow> Inr (CapSet (map Capability ps))))"
proof -
  let ?refuse = "\<lambda>p. ''capability '' @ quoted p @ '' cannot be granted '' @ em_dash
    @ '' parent does not have it''"
  let ?bad = "\<lambda>p. \<not> list_ex (\<lambda>c. Capability_matches c p) cs"
  have "check_all (\<lambda>p. if ?bad p then Inl (?refuse p) else Inr ()) ps =
      (case filter ?bad ps of p # _ \<Rightarrow> Inl (?refuse p) | [] \<Rightarrow> Inr ())"
    by (induction ps) auto
  then show ?thesis
    by (auto simp: CapSet_attenuate_def CapSet_default_def CapSet_from_patterns_def list_ex_iff
        split: list.splits)
qed

end
