(* ===== verification/Envelope.thy ===== *)
theory Envelope
  imports Capability
begin

text \<open>
  The typed envelope of \<^verbatim>\<open>konflux-substrate/src/envelope.rs\<close> and the per-dispatch
  \<^verbatim>\<open>ExecutionContext\<close> of \<^verbatim>\<open>konf-runtime/src/execution_context.rs\<close>. The identifier
  newtypes are their contents. \<^verbatim>\<open>Uuid::new_v4()\<close> and \<^verbatim>\<open>Utc::now()\<close> are arguments
  (\<open>fresh\<close>, \<open>now\<close>) of the constructors that call them.
\<close>

section \<open>Time and maps\<close>

text \<open>A \<^verbatim>\<open>DateTime<Utc>\<close> is its nanosecond count from the epoch.\<close>

type_synonym datetime = int

definition timestamp_micros :: "datetime \<Rightarrow> int" where
  "timestamp_micros t = t div 1000"

definition timestamp_millis :: "datetime \<Rightarrow> int" where
  "timestamp_millis t = t div 1000000"

lemma timestamp_micros_mono: "s \<le> t \<Longrightarrow> timestamp_micros s \<le> timestamp_micros t"
  by (simp add: timestamp_micros_def zdiv_mono1)

lemma timestamp_millis_mono: "s \<le> t \<Longrightarrow> timestamp_millis s \<le> timestamp_millis t"
  by (simp add: timestamp_millis_def zdiv_mono1)

text \<open>String-keyed maps are association lists in key order; a hash map's own order is not used.\<close>

type_synonym 'v smap = "(string \<times> 'v) list"

section \<open>The envelope\<close>

datatype QoSClass = Critical | Normal | BestEffort

record 'p Envelope =
  env_id :: uuid
  env_trace_id :: uuid
  env_parent_id :: "uuid option"
  env_actor_id :: string
  env_namespace :: string
  env_capabilities :: CapSet
  env_target :: string
  env_payload_type :: string
  env_payload :: 'p
  env_emitted_at :: datetime
  env_step_index :: u64
  env_stream_id :: string
  env_deadline :: "datetime option"
  env_idempotency_key :: "string option"
  env_qos_class :: "QoSClass option"
  env_references :: "uuid list option"
  env_metadata :: "json smap"

definition respond :: "uuid \<Rightarrow> datetime \<Rightarrow> 'p Envelope \<Rightarrow> 'q \<Rightarrow> 'q Envelope" where
  "respond fresh now e p =
     \<lparr> env_id = fresh,
       env_trace_id = env_trace_id e,
       env_parent_id = Some (env_id e),
       env_actor_id = env_actor_id e,
       env_namespace = env_namespace e,
       env_capabilities = env_capabilities e,
       env_target = env_target e,
       env_payload_type = env_payload_type e,
       env_payload = p,
       env_emitted_at = now,
       env_step_index = env_step_index e + 1,
       env_stream_id = env_stream_id e,
       env_deadline = env_deadline e,
       env_idempotency_key = None,
       env_qos_class = env_qos_class e,
       env_references = None,
       env_metadata = env_metadata e \<rparr>"

definition for_tool_dispatch ::
  "uuid \<Rightarrow> datetime \<Rightarrow> string \<Rightarrow> json \<Rightarrow> string list \<Rightarrow> uuid \<Rightarrow> string \<Rightarrow> string \<Rightarrow> string \<Rightarrow> json Envelope" where
  "for_tool_dispatch fresh now target payload capabilities trace_id namespace actor_id stream_id =
     \<lparr> env_id = fresh,
       env_trace_id = trace_id,
       env_parent_id = None,
       env_actor_id = actor_id,
       env_namespace = namespace,
       env_capabilities = CapSet_from_patterns capabilities,
       env_target = target,
       env_payload_type = ''tool_input'',
       env_payload = payload,
       env_emitted_at = now,
       env_step_index = 0,
       env_stream_id = stream_id,
       env_deadline = None,
       env_idempotency_key = None,
       env_qos_class = None,
       env_references = None,
       env_metadata = [] \<rparr>"

section \<open>The execution context\<close>

record ExecutionContext =
  ctx_trace_id :: uuid
  ctx_parent_interaction_id :: "uuid option"
  ctx_session_id :: string
  ctx_deadline :: "datetime option"
  ctx_idempotency_key :: "string option"

definition new_root :: "uuid \<Rightarrow> string \<Rightarrow> ExecutionContext" where
  "new_root fresh session_id =
     \<lparr> ctx_trace_id = fresh, ctx_parent_interaction_id = None, ctx_session_id = session_id,
       ctx_deadline = None, ctx_idempotency_key = None \<rparr>"

definition with_trace :: "uuid \<Rightarrow> string \<Rightarrow> ExecutionContext" where
  "with_trace trace_id session_id =
     \<lparr> ctx_trace_id = trace_id, ctx_parent_interaction_id = None, ctx_session_id = session_id,
       ctx_deadline = None, ctx_idempotency_key = None \<rparr>"

definition ctx_from_envelope :: "json Envelope \<Rightarrow> ExecutionContext" where
  "ctx_from_envelope env =
     \<lparr> ctx_trace_id = env_trace_id env,
       ctx_parent_interaction_id = env_parent_id env,
       ctx_session_id =
         (case Option.bind (obj_get (env_metadata env) ''session_id'') as_str of
            Some s \<Rightarrow> s | None \<Rightarrow> ''workflow_tool''),
       ctx_deadline = env_deadline env,
       ctx_idempotency_key = env_idempotency_key env \<rparr>"

definition ctx_child :: "ExecutionContext \<Rightarrow> uuid \<Rightarrow> string option \<Rightarrow> ExecutionContext" where
  "ctx_child ctx parent_interaction_id session_id =
     \<lparr> ctx_trace_id = ctx_trace_id ctx,
       ctx_parent_interaction_id = Some parent_interaction_id,
       ctx_session_id = (case session_id of Some s \<Rightarrow> s | None \<Rightarrow> ctx_session_id ctx),
       ctx_deadline = ctx_deadline ctx,
       ctx_idempotency_key = None \<rparr>"

section \<open>Causal propagation\<close>

text \<open>
  The interface of a value that carries causality: a successor keeps the trace, the tenant,
  the authority and the deadline, and points at its cause.
\<close>

locale causal =
  fixes trace :: "'a \<Rightarrow> uuid" and deadline :: "'a \<Rightarrow> datetime option" and dedupe :: "'a \<Rightarrow> string option"
    and next_of :: "'s \<Rightarrow> 'a \<Rightarrow> 'a"
  assumes trace_next: "trace (next_of s a) = trace a"
    and deadline_next: "deadline (next_of s a) = deadline a"
    and dedupe_next: "dedupe (next_of s a) = None"
begin

lemma trace_fold: "trace (fold next_of ss a) = trace a"
  by (induction ss arbitrary: a) (auto simp: trace_next)

lemma deadline_fold: "deadline (fold next_of ss a) = deadline a"
  by (induction ss arbitrary: a) (auto simp: deadline_next)

lemma dedupe_fold: "ss \<noteq> [] \<Longrightarrow> dedupe (fold next_of ss a) = None"
  by (induction ss arbitrary: a rule: rev_induct) (auto simp: dedupe_next)

end

interpretation env_causal: causal env_trace_id env_deadline env_idempotency_key
  "\<lambda>(fresh, now, p) e. respond fresh now e p"
  by unfold_locales (auto simp: respond_def)

interpretation ctx_causal: causal ctx_trace_id ctx_deadline ctx_idempotency_key
  "\<lambda>(parent, session) c. ctx_child c parent session"
  by unfold_locales (auto simp: ctx_child_def)

text \<open>The chain of responses to an envelope, one per \<open>(fresh id, time, payload)\<close>.\<close>

fun respond_chain :: "'p Envelope \<Rightarrow> (uuid \<times> datetime \<times> 'p) list \<Rightarrow> 'p Envelope" where
  "respond_chain e [] = e"
| "respond_chain e ((fresh, now, p) # rs) = respond_chain (respond fresh now e p) rs"

lemma respond_chain_fold:
  "respond_chain e rs = fold (\<lambda>(fresh, now, p) e. respond fresh now e p) rs e"
  by (induction e rs rule: respond_chain.induct) auto

lemma respond_keeps [simp]:
  "env_namespace (respond f n e p) = env_namespace e"
  "env_capabilities (respond f n e p) = env_capabilities e"
  "env_actor_id (respond f n e p) = env_actor_id e"
  "env_metadata (respond f n e p) = env_metadata e"
  "env_step_index (respond f n e p) = env_step_index e + 1"
  "env_payload (respond f n e p) = p"
  "env_parent_id (respond f n e p) = Some (env_id e)"
  by (simp_all add: respond_def)

text \<open>
  Causal propagation along any chain of responses: the trace, the namespace, the actor,
  the capabilities, the metadata and the deadline are those of the first envelope; the step
  index has grown by the number of responses (modulo \<open>2^64\<close>); no response of the chain
  carries the idempotency key of the request.
\<close>

theorem respond_chain_propagates:
  "env_trace_id (respond_chain e rs) = env_trace_id e \<and>
   env_namespace (respond_chain e rs) = env_namespace e \<and>
   env_actor_id (respond_chain e rs) = env_actor_id e \<and>
   env_capabilities (respond_chain e rs) = env_capabilities e \<and>
   env_metadata (respond_chain e rs) = env_metadata e \<and>
   env_deadline (respond_chain e rs) = env_deadline e \<and>
   env_step_index (respond_chain e rs) = env_step_index e + of_nat (length rs) \<and>
   env_idempotency_key (respond_chain e rs) =
     (if rs = [] then env_idempotency_key e else None)"
proof -
  have "env_namespace (respond_chain e rs) = env_namespace e \<and>
      env_actor_id (respond_chain e rs) = env_actor_id e \<and>
      env_capabilities (respond_chain e rs) = env_capabilities e \<and>
      env_metadata (respond_chain e rs) = env_metadata e \<and>
      env_step_index (respond_chain e rs) = env_step_index e + of_nat (length rs)"
    by (induction e rs rule: respond_chain.induct) (auto simp: algebra_simps)
  then show ?thesis
    using env_causal.trace_fold [of rs e] env_causal.deadline_fold [of rs e]
      env_causal.dedupe_fold [of rs e]
    by (simp add: respond_chain_fold)
qed

end
