(* ===== verification/Scope.thy ===== *)
theory Scope
  imports Envelope
begin

text \<open>
  Execution scopes (\<^verbatim>\<open>konf-runtime/src/scope.rs\<close>): capability grants with parameter
  bindings, resource limits, actors and roles, the derivation of child scopes, and the
  passage of a scope through an envelope. \<open>validate_start\<close>, which consults the process
  table, is in \<open>Process_Table\<close>.
\<close>

section \<open>Definitions\<close>

datatype ActorRole =
    InfraAdmin | ProductAdmin | User | InfraAgent | ProductAgent | UserAgent | System

record Actor =
  actor_id :: string
  actor_role :: ActorRole

record CapabilityGrant =
  grant_pattern :: string
  grant_bindings :: "json smap"

record ResourceLimits =
  max_steps :: nat
  max_workflow_timeout_ms :: u64
  max_concurrent_nodes :: nat
  max_child_depth :: nat
  max_active_runs_per_namespace :: nat
  event_bus_capacity :: nat

record ExecutionScope =
  scope_namespace :: string
  scope_capabilities :: "CapabilityGrant list"
  scope_limits :: ResourceLimits
  scope_actor :: Actor
  scope_depth :: nat

definition CapabilityGrant_new :: "string \<Rightarrow> CapabilityGrant" where
  "CapabilityGrant_new p = \<lparr> grant_pattern = p, grant_bindings = [] \<rparr>"

definition with_bindings :: "string \<Rightarrow> json smap \<Rightarrow> CapabilityGrant" where
  "with_bindings p b = \<lparr> grant_pattern = p, grant_bindings = b \<rparr>"

definition CapabilityGrant_matches :: "CapabilityGrant \<Rightarrow> string \<Rightarrow> json smap option" where
  "CapabilityGrant_matches g tool_name =
     (if Capability_matches (Capability (grant_pattern g)) tool_name
      then Some (grant_bindings g) else None)"

fun first_grant :: "CapabilityGrant list \<Rightarrow> string \<Rightarrow> json smap option" where
  "first_grant [] tool_name = None"
| "first_grant (g # gs) tool_name =
     (case CapabilityGrant_matches g tool_name of
        Some b \<Rightarrow> Some b
      | None \<Rightarrow> first_grant gs tool_name)"

definition check_tool :: "ExecutionScope \<Rightarrow> string \<Rightarrow> RuntimeError + json smap" where
  "check_tool scope tool_name =
     (case first_grant (scope_capabilities scope) tool_name of
        Some bindings \<Rightarrow> Inr bindings
      | None \<Rightarrow> Inl (RCapabilityDenied
          (''tool '' @ quoted tool_name @ '' not granted in scope '' @ quoted (scope_namespace scope))))"

text \<open>The closure in \<open>child_scope\<close> that decides whether a parent grant covers a child grant.\<close>

definition grant_covers :: "CapabilityGrant \<Rightarrow> CapabilityGrant \<Rightarrow> bool" where
  "grant_covers parent child =
     (if grant_pattern parent = ''*'' then True
      else if grant_pattern parent = grant_pattern child then True
      else (case strip_suffix (grant_pattern parent) '':*'' of
              Some parent_prefix \<Rightarrow>
                if \<not> ends_with (grant_pattern child) '':*'' then
                  Capability_matches (Capability (grant_pattern parent)) (grant_pattern child)
                else (case strip_suffix (grant_pattern child) '':*'' of
                        Some child_prefix \<Rightarrow>
                          starts_with child_prefix parent_prefix \<and>
                          (child_prefix = parent_prefix \<or>
                           byte_at child_prefix (length parent_prefix) = Some (CHR '':''))
                      | None \<Rightarrow> False)
            | None \<Rightarrow> False))"

definition child_scope ::
  "ExecutionScope \<Rightarrow> CapabilityGrant list \<Rightarrow> string option \<Rightarrow> RuntimeError + ExecutionScope" where
  "child_scope scope child_capabilities child_namespace =
     rbind
       (check_all
         (\<lambda>child_grant.
            if \<not> list_ex (\<lambda>parent_grant. grant_covers parent_grant child_grant)
                  (scope_capabilities scope)
            then Inl (RCapabilityDenied
              (''capability '' @ quoted (grant_pattern child_grant) @ '' cannot be granted ''
               @ em_dash @ '' parent scope '' @ quoted (scope_namespace scope)
               @ '' does not have it''))
            else Inr ())
         child_capabilities)
       (\<lambda>_. Inr \<lparr> scope_namespace =
                     (case child_namespace of Some n \<Rightarrow> n | None \<Rightarrow> scope_namespace scope),
                  scope_capabilities = child_capabilities,
                  scope_limits = scope_limits scope,
                  scope_actor = scope_actor scope,
                  scope_depth = scope_depth scope + 1 \<rparr>)"

definition ResourceLimits_default :: ResourceLimits where
  "ResourceLimits_default =
     \<lparr> max_steps = 1000, max_workflow_timeout_ms = 300000, max_concurrent_nodes = 50,
       max_child_depth = 10, max_active_runs_per_namespace = 20, event_bus_capacity = 1024 \<rparr>"

definition ResourceLimits_validate :: "ResourceLimits \<Rightarrow> string + unit" where
  "ResourceLimits_validate l =
     (if max_steps l = 0 then Inl ''max_steps must be > 0 (prevents infinite loops)''
      else if max_workflow_timeout_ms l = 0
        then Inl ''max_workflow_timeout_ms must be > 0 (prevents runaway workflows)''
      else if max_concurrent_nodes l = 0 then Inl ''max_concurrent_nodes must be > 0''
      else if max_child_depth l = 0 then Inl ''max_child_depth must be > 0''
      else if max_active_runs_per_namespace l = 0
        then Inl ''max_active_runs_per_namespace must be > 0''
      else if event_bus_capacity l = 0 then Inl ''event_bus_capacity must be > 0''
      else Inr ())"

text \<open>The role names read from envelope metadata.\<close>

definition role_of_metadata :: "string \<Rightarrow> ActorRole" where
  "role_of_metadata s =
     (if s = ''infra_admin'' then InfraAdmin
      else if s = ''product_admin'' then ProductAdmin
      else if s = ''user'' then User
      else if s = ''infra_agent'' then InfraAgent
      else if s = ''product_agent'' then ProductAgent
      else if s = ''user_agent'' then UserAgent
      else if s = ''system'' then System
      else User)"

definition scope_from_envelope :: "json Envelope \<Rightarrow> ExecutionScope" where
  "scope_from_envelope env =
     \<lparr> scope_namespace = env_namespace env,
       scope_capabilities = map CapabilityGrant_new (CapSet_patterns (env_capabilities env)),
       scope_limits = ResourceLimits_default,
       scope_actor =
         \<lparr> actor_id = env_actor_id env,
           actor_role =
             (case Option.bind (obj_get (env_metadata env) ''actor_role'') as_str of
                Some s \<Rightarrow> role_of_metadata s
              | None \<Rightarrow> System) \<rparr>,
       scope_depth =
         (case Option.bind (obj_get (env_metadata env) ''depth'') as_u64 of
            Some d \<Rightarrow> unat d
          | None \<Rightarrow> 0) \<rparr>"

definition capability_patterns :: "ExecutionScope \<Rightarrow> string list" where
  "capability_patterns scope = map grant_pattern (scope_capabilities scope)"

definition to_envelope ::
  "uuid \<Rightarrow> datetime \<Rightarrow> ExecutionScope \<Rightarrow> string \<Rightarrow> json \<Rightarrow> uuid \<Rightarrow> string \<Rightarrow> json Envelope" where
  "to_envelope fresh now scope target payload trace_id stream_id =
     for_tool_dispatch fresh now target payload (capability_patterns scope) trace_id
       (scope_namespace scope) (actor_id (scope_actor scope)) stream_id"

definition role_of_name :: "string \<Rightarrow> ActorRole" where
  "role_of_name role_name =
     (if role_name = ''infra_admin'' then InfraAdmin
      else if role_name = ''product_admin'' \<or> role_name = ''admin'' then ProductAdmin
      else if role_name = ''user'' then User
      else if role_name = ''infra_agent'' then InfraAgent
      else if role_name = ''product_agent'' \<or> role_name = ''agent'' then ProductAgent
      else if role_name = ''user_agent'' then UserAgent
      else if role_name = ''system'' then System
      else User)"

definition scope_from_role ::
  "string \<Rightarrow> string \<Rightarrow> string \<Rightarrow> string list \<Rightarrow> string option \<Rightarrow> ResourceLimits \<Rightarrow> ExecutionScope" where
  "scope_from_role aid role_name product_namespace role_capabilities namespace_suffix limits =
     \<lparr> scope_namespace =
         (case namespace_suffix of
            Some sfx \<Rightarrow> product_namespace @ '':'' @ sfx
          | None \<Rightarrow> product_namespace),
       scope_capabilities = map CapabilityGrant_new role_capabilities,
       scope_limits = limits,
       scope_actor = \<lparr> actor_id = aid, actor_role = role_of_name role_name \<rparr>,
       scope_depth = 0 \<rparr>"

definition dev_scope :: "string \<Rightarrow> ExecutionScope" where
  "dev_scope product_namespace =
     scope_from_role ''dev_user'' ''infra_admin'' product_namespace [''*''] None
       ResourceLimits_default"

text \<open>
  The text of a role, written by \<open>Runtime::build_execution_metadata\<close> and by
  \<open>Dispatcher::dispatch_tool\<close>.
\<close>

fun actor_role_str :: "ActorRole \<Rightarrow> string" where
  "actor_role_str InfraAdmin = ''infra_admin''"
| "actor_role_str ProductAdmin = ''product_admin''"
| "actor_role_str User = ''user''"
| "actor_role_str InfraAgent = ''infra_agent''"
| "actor_role_str ProductAgent = ''product_agent''"
| "actor_role_str UserAgent = ''user_agent''"
| "actor_role_str System = ''system''"

section \<open>Lemmas\<close>

definition scope_permits :: "ExecutionScope \<Rightarrow> string \<Rightarrow> bool" where
  "scope_permits scope t = is_ok (check_tool scope t)"

lemma first_grant_Some_iff:
  "(\<exists>b. first_grant gs t = Some b) \<longleftrightarrow>
     (\<exists>g \<in> set gs. Capability_matches (Capability (grant_pattern g)) t)"
  by (induction gs) (auto simp: CapabilityGrant_matches_def)

lemma scope_permits_iff:
  "scope_permits scope t \<longleftrightarrow>
     (\<exists>g \<in> set (scope_capabilities scope). Capability_matches (Capability (grant_pattern g)) t)"
  unfolding first_grant_Some_iff [symmetric]
  by (auto simp: scope_permits_def check_tool_def split: option.splits)

text \<open>The coverage test of \<open>child_scope\<close> is the pattern match of the substrate.\<close>

lemma star_prefix_ends: "suffix '':*'' s \<longleftrightarrow> (\<exists>p. s = p @ '':*'')"
  by (auto simp: suffix_def)

lemma prefix_covers_iff:
  "starts_with q p \<and> (q = p \<or> byte_at q (length p) = Some (CHR '':'')) \<longleftrightarrow>
     prefix (p @ '':'') (q @ '':*'')"
proof -
  have "prefix (p @ '':'') ((q @ '':'') @ [CHR ''*'']) \<longleftrightarrow> prefix (p @ '':'') (q @ '':'')"
    by (subst prefix_snoc) auto
  moreover have "prefix (p @ '':'') (q @ '':'') \<longleftrightarrow> p = q \<or> prefix (p @ '':'') q"
    by (subst prefix_snoc) auto
  ultimately have "prefix (p @ '':'') (q @ '':*'') \<longleftrightarrow> p = q \<or> prefix (p @ '':'') q"
    by simp
  then show ?thesis
    unfolding prefix_colon_iff [symmetric] by (auto simp: starts_with_def)
qed

lemma Capability_matches_refl: "Capability_matches (Capability P) P"
  by (cases "\<exists>p. P = p @ '':*''") (auto simp: Capability_matches_cases)

lemma grant_covers_iff_matches:
  "grant_covers parent child \<longleftrightarrow>
     Capability_matches (Capability (grant_pattern parent)) (grant_pattern child)"
proof (cases "strip_suffix (grant_pattern parent) '':*''")
  case None
  then show ?thesis
    by (auto simp: grant_covers_def Capability_matches_def)
next
  case (Some p)
  then have P: "grant_pattern parent = p @ '':*''" by (simp add: strip_suffix_eq_Some)
  show ?thesis
  proof (cases "strip_suffix (grant_pattern child) '':*''")
    case None
    then have "\<not> ends_with (grant_pattern child) '':*''"
      by (simp add: strip_suffix_eq_None ends_with_def star_prefix_ends)
    with Some show ?thesis
      using Capability_matches_refl [of "grant_pattern child"]
      by (auto simp: grant_covers_def Capability_matches_def)
  next
    case (Some q)
    then have Q: "grant_pattern child = q @ '':*''" by (simp add: strip_suffix_eq_Some)
    then have e: "ends_with (grant_pattern child) '':*''"
      by (simp add: ends_with_def star_prefix_ends)
    have ne: "grant_pattern parent \<noteq> ''*''" using P by (auto simp: append_eq_Cons_conv)
    have "grant_covers parent child \<longleftrightarrow>
        p = q \<or> (starts_with q p \<and> (q = p \<or> byte_at q (length p) = Some (CHR '':'')))"
      using Some \<open>strip_suffix (grant_pattern parent) '':*'' = Some p\<close> e ne P Q
      by (auto simp: grant_covers_def)
    also have "\<dots> \<longleftrightarrow> prefix (p @ '':'') (q @ '':*'')"
      unfolding prefix_covers_iff by auto
    also have "\<dots> \<longleftrightarrow> Capability_matches (Capability (grant_pattern parent)) (grant_pattern child)"
      using ne P Q by (auto simp: Capability_matches_cases)
    finally show ?thesis .
  qed
qed

lemma child_scope_Inr:
  "child_scope scope gs ns = Inr scope' \<longleftrightarrow>
     (\<forall>g \<in> set gs. \<exists>p \<in> set (scope_capabilities scope). grant_covers p g) \<and>
     scope' = \<lparr> scope_namespace = (case ns of Some n \<Rightarrow> n | None \<Rightarrow> scope_namespace scope),
       scope_capabilities = gs, scope_limits = scope_limits scope,
       scope_actor = scope_actor scope, scope_depth = scope_depth scope + 1 \<rparr>"
  by (auto simp: child_scope_def list_ex_iff result_simps split: if_splits)

interpretation scope: attenuating scope_permits "\<lambda>s (gs, ns). child_scope s gs ns"
proof unfold_locales
  fix a and p :: "CapabilityGrant list \<times> string option" and a' t
  assume "(case p of (gs, ns) \<Rightarrow> child_scope a gs ns) = Inr a'" and "scope_permits a' t"
  then obtain g q where "Capability_matches (Capability (grant_pattern g)) t"
    and q: "q \<in> set (scope_capabilities a)" "grant_covers q g"
    by (auto simp: child_scope_Inr scope_permits_iff split: prod.splits)
  then have "Capability_matches (Capability (grant_pattern q)) t"
    by (auto simp: grant_covers_iff_matches intro: Capability_matches_trans)
  with q(1) show "scope_permits a t" by (auto simp: scope_permits_iff)
qed

lemma role_roundtrip: "role_of_metadata (actor_role_str r) = r"
  by (cases r) (simp_all add: role_of_metadata_def)

section \<open>Properties\<close>

definition derive_child :: "ExecutionScope \<Rightarrow> CapabilityGrant list \<times> string option \<Rightarrow> RuntimeError + ExecutionScope" where
  "derive_child scope request = (case request of (gs, ns) \<Rightarrow> child_scope scope gs ns)"

lemma derive_child_pair [simp]: "derive_child s (gs, ns) = child_scope s gs ns"
  by (simp add: derive_child_def)

lemma derive_child_eq: "derive_child = (\<lambda>s (gs, ns). child_scope s gs ns)"
  by (simp add: derive_child_def fun_eq_iff)

lemma child_chain_keeps:
  "derive_chain derive_child s reqs = Inr s' \<Longrightarrow>
     scope_depth s' = scope_depth s + length reqs \<and>
     scope_actor s' = scope_actor s \<and> scope_limits s' = scope_limits s"
proof (induction reqs arbitrary: s)
  case (Cons r reqs)
  obtain gs ns where r: "r = (gs, ns)" by force
  from Cons.prems obtain b where b: "child_scope s gs ns = Inr b" "derive_chain derive_child b reqs = Inr s'"
    by (auto simp: rbind_eq_Inr r)
  from Cons.IH [OF b(2)] b(1) show ?case by (auto simp: child_scope_Inr)
qed simp

text \<open>
  C2. Nested scopes never amplify: after any number of nested child scopes, a tool the
  innermost scope grants is granted by the outermost one; the depth has grown by one per
  level, and the actor and the resource limits are inherited unchanged.
\<close>

theorem nested_child_scopes_never_amplify:
  assumes "derive_chain derive_child s requests = Inr s'"
    and "check_tool s' tool = Inr bindings"
  shows "(\<exists>b. check_tool s tool = Inr b) \<and> scope_depth s' = scope_depth s + length requests \<and>
    scope_actor s' = scope_actor s \<and> scope_limits s' = scope_limits s"
proof -
  have "scope_permits s' tool" using assms(2) by (simp add: scope_permits_def)
  with assms(1) have "scope_permits s tool"
    unfolding derive_child_eq by (rule scope.chain_attenuates)
  then have "\<exists>b. check_tool s tool = Inr b"
    by (auto simp: scope_permits_def is_ok_def split: sum.splits)
  with child_chain_keeps [OF assms(1)] show ?thesis by blast
qed

definition example_root :: ExecutionScope where
  "example_root = scope_from_role ''alice'' ''admin'' ''konf:shop'' [''memory:*'', ''ai:complete'']
     None ResourceLimits_default"

theorem nested_child_scopes_never_amplify_witness:
  "\<exists>s'. derive_chain derive_child example_root
        [([CapabilityGrant_new ''memory:graph:*''], Some ''konf:shop:bob''),
         ([with_bindings ''memory:graph:search'' [(''namespace'', JString ''konf:shop:bob'')]], None)]
        = Inr s' \<and>
      check_tool s' ''memory:graph:search'' = Inr [(''namespace'', JString ''konf:shop:bob'')] \<and>
      (\<exists>b. check_tool example_root ''memory:graph:search'' = Inr b) \<and> scope_depth s' = 2"
proof -
  let ?reqs = "[([CapabilityGrant_new ''memory:graph:*''], Some ''konf:shop:bob''),
     ([with_bindings ''memory:graph:search'' [(''namespace'', JString ''konf:shop:bob'')]], None)]"
  let ?s = "\<lparr> scope_namespace = ''konf:shop:bob'',
      scope_capabilities = [with_bindings ''memory:graph:search''
        [(''namespace'', JString ''konf:shop:bob'')]],
      scope_limits = ResourceLimits_default,
      scope_actor = \<lparr> actor_id = ''alice'', actor_role = ProductAdmin \<rparr>, scope_depth = 2 \<rparr>"
  have d: "derive_chain derive_child example_root ?reqs = Inr ?s" by code_simp
  have c: "check_tool ?s ''memory:graph:search'' = Inr [(''namespace'', JString ''konf:shop:bob'')]"
    by code_simp
  show ?thesis using d c nested_child_scopes_never_amplify [OF d c] by auto
qed

text \<open>
  The two implementations of the lattice agree: the runtime's \<open>child_scope\<close> accepts a
  list of child grants exactly when the substrate's \<open>CapSet::attenuate\<close> accepts their
  patterns under the parent's patterns.
\<close>

theorem child_scope_agrees_with_attenuate:
  "is_ok (child_scope s gs ns) \<longleftrightarrow>
     is_ok (CapSet_attenuate (CapSet_from_patterns (capability_patterns s)) (map grant_pattern gs))"
proof -
  have ok: "is_ok r \<longleftrightarrow> (\<exists>x. r = Inr x)" for r :: "'e + 'x"
    by (cases r) auto
  show ?thesis
    unfolding ok child_scope_Inr CapSet_attenuate_Inr
    by (auto simp: grant_covers_iff_matches CapSet_from_patterns_def capability_patterns_def)
qed

text \<open>
  What survives the passage of a scope through the envelope that \<open>to_envelope\<close> builds:
  namespace, actor id and capability patterns do. The role comes back as \<open>System\<close>, the
  depth as 0, the limits as the defaults, and every parameter binding is gone.
\<close>

theorem scope_through_plain_envelope:
  "scope_from_envelope (to_envelope fresh now s target payload trace stream) =
     \<lparr> scope_namespace = scope_namespace s,
       scope_capabilities = map (\<lambda>g. CapabilityGrant_new (grant_pattern g)) (scope_capabilities s),
       scope_limits = ResourceLimits_default,
       scope_actor = \<lparr> actor_id = actor_id (scope_actor s), actor_role = System \<rparr>,
       scope_depth = 0 \<rparr>"
  by (simp add: scope_from_envelope_def to_envelope_def for_tool_dispatch_def CapSet_patterns_def
      CapSet_from_patterns_def capability_patterns_def obj_get_def)

end
