(* ===== verification/Glob.thy ===== *)
theory Glob
  imports Konf_Prelude
begin

text \<open>
  The glob matcher of \<^verbatim>\<open>konf-runtime/src/guard.rs\<close> (\<open>glob_matches\<close>): one loop with a
  single backtracking point, against a declarative reading of \<open>*\<close> and \<open>?\<close>. A position
  of a pattern or text is an index into its characters; the loop's exit is \<open>Some pi\<close>, its early
  \<open>return false\<close> is \<open>None\<close>.
\<close>

section \<open>Characters\<close>

text \<open>
  \<open>str::chars().collect()\<close>: a \<^verbatim>\<open>char\<close> is kept as the bytes that encode it, and a
  character starts at every byte that is not a continuation byte.
\<close>

type_synonym utf8_char = string

definition is_continuation :: "char \<Rightarrow> bool" where
  "is_continuation c = (let n = of_char c :: nat in 128 \<le> n \<and> n < 192)"

fun utf8_chars :: "string \<Rightarrow> utf8_char list" where
  "utf8_chars [] = []"
| "utf8_chars (c # cs) =
     (case utf8_chars cs of
        [] \<Rightarrow> [[c]]
      | w # ws \<Rightarrow> if is_continuation (hd w) then (c # w) # ws else [c] # w # ws)"

lemma concat_utf8_chars: "concat (utf8_chars s) = s"
  by (induction s) (auto split: list.splits if_splits)

lemma star_notin_utf8_chars: "CHR ''*'' \<notin> set s \<Longrightarrow> ''*'' \<notin> set (utf8_chars s)"
  using concat_utf8_chars [of s] by (metis in_set_conv_decomp_first list.set_intros(1)
      UN_I set_concat)

section \<open>The matcher\<close>

function glob_loop ::
  "utf8_char list \<Rightarrow> utf8_char list \<Rightarrow> nat \<Rightarrow> nat \<Rightarrow> nat option \<Rightarrow> nat option \<Rightarrow> nat option" where
  "glob_loop p t pi ti star_p star_t =
     (if ti < length t then
        if pi < length p \<and> (p ! pi = ''?'' \<or> p ! pi = t ! ti) then
          glob_loop p t (pi + 1) (ti + 1) star_p star_t
        else if pi < length p \<and> p ! pi = ''*'' then
          glob_loop p t (pi + 1) ti (Some (pi + 1)) (Some ti)
        else (case (star_p, star_t) of
                (Some sp, Some st) \<Rightarrow> glob_loop p t sp (st + 1) (Some sp) (Some (st + 1))
              | _ \<Rightarrow> None)
      else Some pi)"
  by pat_completeness auto
termination
proof (relation "measures
    [\<lambda>(p, t, pi, ti, sp, st). if (case st of Some s \<Rightarrow> s > ti | None \<Rightarrow> False) then 1 else 0,
     \<lambda>(p, t, pi, ti, sp, st). case st of Some s \<Rightarrow> length t - s | None \<Rightarrow> length t + 1,
     \<lambda>(p, t, pi, ti, sp, st). length p - pi]", goal_cases)
qed (auto split: option.splits)

declare glob_loop.simps [simp del]

function skip_stars :: "utf8_char list \<Rightarrow> nat \<Rightarrow> nat" where
  "skip_stars p pi = (if pi < length p \<and> p ! pi = ''*'' then skip_stars p (pi + 1) else pi)"
  by pat_completeness auto
termination
  by (relation "measure (\<lambda>(p, pi). length p - pi)") auto

declare skip_stars.simps [simp del]

definition glob_matches :: "string \<Rightarrow> string \<Rightarrow> bool" where
  "glob_matches pattern subject =
     (let p_vec = utf8_chars pattern; t_vec = utf8_chars subject in
      case glob_loop p_vec t_vec 0 0 None None of
        None \<Rightarrow> False
      | Some pi \<Rightarrow> skip_stars p_vec pi = length p_vec)"

section \<open>The specification\<close>

text \<open>\<open>*\<close> stands for any text, \<open>?\<close> for any one character, anything else for itself.\<close>

fun glob_spec :: "utf8_char list \<Rightarrow> utf8_char list \<Rightarrow> bool" where
  "glob_spec [] t = (t = [])"
| "glob_spec (c # p) t =
     (if c = ''*'' then (\<exists>i \<le> length t. glob_spec p (drop i t))
      else (case t of [] \<Rightarrow> False | d # t' \<Rightarrow> (c = ''?'' \<or> c = d) \<and> glob_spec p t'))"

section \<open>Correctness\<close>

lemma skip_stars_end:
  "pi \<le> length p \<Longrightarrow> skip_stars p pi = length p \<longleftrightarrow> glob_spec (drop pi p) []"
proof (induction p pi rule: skip_stars.induct)
  case (1 p pi)
  show ?case
  proof (cases "pi < length p")
    case False
    with 1 show ?thesis by (subst skip_stars.simps) simp
  next
    case True
    then have "drop pi p = p ! pi # drop (Suc pi) p" by (simp add: Cons_nth_drop_Suc)
    with True 1 show ?thesis by (subst skip_stars.simps) auto
  qed
qed

lemma glob_spec_star: "glob_spec (''*'' # p) t \<longleftrightarrow> (\<exists>k \<le> length t. glob_spec p (drop k t))"
  by simp

lemma drop_nth_Cons: "i < length xs \<Longrightarrow> drop i xs = xs ! i # drop (Suc i) xs"
  by (simp add: Cons_nth_drop_Suc)

lemma glob_spec_step:
  assumes "pi < length p" "ti < length t" "p ! pi = ''?'' \<or> p ! pi = t ! ti"
    and "glob_spec (drop (pi + 1) p) (drop (ti + 1) t)"
  shows "glob_spec (drop pi p) (drop ti t)"
proof (cases "p ! pi = ''*''")
  case False
  with assms show ?thesis by (simp add: drop_nth_Cons)
next
  case True
  have "1 \<le> length (drop ti t)" using assms(2) by simp
  with True assms(1,2,4) show ?thesis
    by (subst drop_nth_Cons [OF assms(1)]) (auto intro!: exI [of _ 1])
qed

text \<open>
  Soundness. The current attempt and every later restart of the last star lead to a match
  of the whole.
\<close>

definition glob_sound_inv ::
  "utf8_char list \<Rightarrow> utf8_char list \<Rightarrow> nat \<Rightarrow> nat \<Rightarrow> nat option \<Rightarrow> nat option \<Rightarrow> bool" where
  "glob_sound_inv p t pi ti star_p star_t \<longleftrightarrow>
     pi \<le> length p \<and> ti \<le> length t \<and>
     (glob_spec (drop pi p) (drop ti t) \<longrightarrow> glob_spec p t) \<and>
     (\<forall>sp st. star_p = Some sp \<and> star_t = Some st \<longrightarrow>
        sp \<le> length p \<and> st \<le> ti \<and>
        (\<forall>k. st \<le> k \<and> k \<le> length t \<and> glob_spec (drop sp p) (drop k t) \<longrightarrow> glob_spec p t))"

lemma glob_sound_star:
  assumes "glob_sound_inv p t pi ti sp st" "ti < length t" "pi < length p" "p ! pi = ''*''"
  shows "glob_sound_inv p t (pi + 1) ti (Some (pi + 1)) (Some ti)"
proof -
  have star: "glob_spec p t"
    if "ti \<le> k" "k \<le> length t" "glob_spec (drop (pi + 1) p) (drop k t)" for k
  proof -
    have "glob_spec (drop (pi + 1) p) (drop (k - ti) (drop ti t))"
      using that by simp
    then have "glob_spec (drop pi p) (drop ti t)"
      using that assms(3,4) by (subst drop_nth_Cons) (auto intro!: exI [of _ "k - ti"])
    with assms(1) show ?thesis by (simp add: glob_sound_inv_def)
  qed
  from star [of ti] star assms show ?thesis by (auto simp: glob_sound_inv_def)
qed

text \<open>The four ways one iteration of the loop can go.\<close>

lemma glob_loop_cases:
  obtains (exit) "\<not> ti < length t" "glob_loop p t pi ti star_p star_t = Some pi"
  | (lit) "ti < length t" "pi < length p" "p ! pi = ''?'' \<or> p ! pi = t ! ti"
      "glob_loop p t pi ti star_p star_t = glob_loop p t (pi + 1) (ti + 1) star_p star_t"
  | (star) "ti < length t" "pi < length p" "p ! pi = ''*''"
      "glob_loop p t pi ti star_p star_t = glob_loop p t (pi + 1) ti (Some (pi + 1)) (Some ti)"
  | (retry) sp st where "ti < length t" "star_p = Some sp" "star_t = Some st"
      "pi < length p \<Longrightarrow> p ! pi \<noteq> ''*'' \<and> p ! pi \<noteq> ''?'' \<and> p ! pi \<noteq> t ! ti"
      "glob_loop p t pi ti star_p star_t = glob_loop p t sp (st + 1) (Some sp) (Some (st + 1))"
  | (fail) "ti < length t" "star_p = None \<or> star_t = None"
      "pi < length p \<Longrightarrow> p ! pi \<noteq> ''*'' \<and> p ! pi \<noteq> ''?'' \<and> p ! pi \<noteq> t ! ti"
      "glob_loop p t pi ti star_p star_t = None"
proof -
  note unfolded = glob_loop.simps [of p t pi ti star_p star_t]
  consider "\<not> ti < length t"
    | "ti < length t" "pi < length p" "p ! pi = ''?'' \<or> p ! pi = t ! ti"
    | "ti < length t" "pi < length p" "p ! pi \<noteq> ''?''" "p ! pi \<noteq> t ! ti" "p ! pi = ''*''"
    | "ti < length t"
      "pi < length p \<longrightarrow> p ! pi \<noteq> ''*'' \<and> p ! pi \<noteq> ''?'' \<and> p ! pi \<noteq> t ! ti"
    by blast
  then show thesis
  proof cases
    case 1
    with unfolded show ?thesis by (intro exit) simp_all
  next
    case 2
    with unfolded show ?thesis by (intro lit) simp_all
  next
    case 3
    with unfolded show ?thesis by (intro star) simp_all
  next
    case 4
    then have "glob_loop p t pi ti star_p star_t =
        (case (star_p, star_t) of
           (Some sp, Some st) \<Rightarrow> glob_loop p t sp (st + 1) (Some sp) (Some (st + 1)) | _ \<Rightarrow> None)"
      by (subst unfolded) auto
    with 4 show ?thesis
      by (cases star_p; cases star_t) (auto intro: retry fail)
  qed
qed

lemma glob_loop_sound:
  assumes "glob_sound_inv p t pi ti star_p star_t"
    and "glob_loop p t pi ti star_p star_t = Some r" and "skip_stars p r = length p"
  shows "glob_spec p t"
  using assms
proof (induction p t pi ti star_p star_t rule: glob_loop.induct)
  case (1 p t pi ti star_p star_t)
  note inv = "1.prems"(1) and res = "1.prems"(2) and fin = "1.prems"(3)
  show ?case
  proof (cases rule: glob_loop_cases [of ti t p pi star_p star_t])
    case exit
    with res have "r = pi" by simp
    with fin inv have "glob_spec (drop pi p) []"
      by (simp add: glob_sound_inv_def skip_stars_end [symmetric])
    with exit inv show ?thesis by (simp add: glob_sound_inv_def)
  next
    case lit
    then have "glob_sound_inv p t (pi + 1) (ti + 1) star_p star_t"
      using inv glob_spec_step [of pi p ti t] by (auto simp: glob_sound_inv_def)
    then show ?thesis using lit res fin by (intro "1.IH"(1)) simp_all
  next
    case star
    with inv have inv': "glob_sound_inv p t (pi + 1) ti (Some (pi + 1)) (Some ti)"
      by (blast intro: glob_sound_star)
    show ?thesis
    proof (cases "p ! pi = ''?'' \<or> p ! pi = t ! ti")
      case True
      then have "glob_sound_inv p t (pi + 1) (ti + 1) star_p star_t"
        using inv star glob_spec_step [of pi p ti t] by (auto simp: glob_sound_inv_def)
      moreover have "glob_loop p t (pi + 1) (ti + 1) star_p star_t = Some r"
        using True star(1,2) res by (subst (asm) glob_loop.simps) simp
      ultimately show ?thesis using True star fin by (intro "1.IH"(1)) simp_all
    next
      case False
      then show ?thesis using inv' star res fin by (intro "1.IH"(2)) simp_all
    qed
  next
    case (retry sp st)
    with inv have "glob_sound_inv p t sp (st + 1) (Some sp) (Some (st + 1))"
      by (auto simp: glob_sound_inv_def)
    then show ?thesis using retry res fin by (intro "1.IH"(3)) auto
  next
    case fail
    with res show ?thesis by simp
  qed
qed

text \<open>
  Completeness, for texts without the character \<open>*\<close>. What has been consumed since the last
  star is star-free and matched one to one, so an attempt that stays possible starts at the
  star's position or later.
\<close>

definition glob_complete_inv ::
  "utf8_char list \<Rightarrow> utf8_char list \<Rightarrow> nat \<Rightarrow> nat \<Rightarrow> nat option \<Rightarrow> nat option \<Rightarrow> bool" where
  "glob_complete_inv p t pi ti star_p star_t \<longleftrightarrow>
     pi \<le> length p \<and> ti \<le> length t \<and>
     (case (star_p, star_t) of
        (Some sp, Some st) \<Rightarrow>
          (\<exists>n. pi = sp + n \<and> ti = st + n \<and> (\<forall>j < n. p ! (sp + j) \<noteq> ''*'')) \<and>
          (\<exists>k. st \<le> k \<and> k \<le> length t \<and> glob_spec (drop sp p) (drop k t))
      | _ \<Rightarrow> glob_spec (drop pi p) (drop ti t))"

lemma glob_spec_segment:
  assumes "\<forall>j < n. p ! (a + j) \<noteq> ''*''" "a + n \<le> length p" "k \<le> length t"
    and "glob_spec (drop a p) (drop k t)"
  shows "k + n \<le> length t \<and> glob_spec (drop (a + n) p) (drop (k + n) t)"
  using assms
proof (induction n)
  case (Suc n)
  then have IH: "k + n \<le> length t" "glob_spec (drop (a + n) p) (drop (k + n) t)"
    and here: "p ! (a + n) \<noteq> ''*''" "a + n < length p" by auto
  then show ?case
    by (cases "k + n < length t") (auto simp: drop_nth_Cons)
qed simp

lemma glob_complete_now:
  assumes "glob_complete_inv p t pi ti star_p star_t"
  obtains k where "ti \<le> k" "k \<le> length t" "glob_spec (drop pi p) (drop k t)"
proof (cases "(star_p, star_t)")
  case (Pair a b)
  show ?thesis
  proof (cases "\<exists>sp st. a = Some sp \<and> b = Some st")
    case True
    with Pair assms obtain sp st n k where
      "pi = sp + n" "ti = st + n" "\<forall>j < n. p ! (sp + j) \<noteq> ''*''" "st \<le> k" "k \<le> length t"
      "glob_spec (drop sp p) (drop k t)" "pi \<le> length p"
      by (auto simp: glob_complete_inv_def)
    with glob_spec_segment [of n p sp k t] that [of "k + n"] show ?thesis by auto
  next
    case False
    with Pair assms that [of ti] show ?thesis
      by (auto simp: glob_complete_inv_def split: option.splits)
  qed
qed

lemma glob_complete_star:
  assumes "glob_complete_inv p t pi ti sp st" "ti < length t" "pi < length p" "p ! pi = ''*''"
  shows "glob_complete_inv p t (pi + 1) ti (Some (pi + 1)) (Some ti)"
proof -
  obtain k where k: "ti \<le> k" "k \<le> length t" "glob_spec (drop pi p) (drop k t)"
    by (rule glob_complete_now [OF assms(1)])
  with assms(3,4) obtain i where "i \<le> length t - k" "glob_spec (drop (pi + 1) p) (drop (k + i) t)"
    by (auto simp: drop_nth_Cons add.commute)
  with k assms show ?thesis
    by (auto simp: glob_complete_inv_def intro!: exI [of _ "k + i"])
qed

lemma glob_spec_mismatch:
  assumes "ti < length t" "pi \<le> length p"
    and "pi < length p \<Longrightarrow> p ! pi \<noteq> ''*'' \<and> p ! pi \<noteq> ''?'' \<and> p ! pi \<noteq> t ! ti"
  shows "\<not> glob_spec (drop pi p) (drop ti t)"
  using assms by (cases "pi < length p") (auto simp: drop_nth_Cons)

lemma glob_complete_back:
  assumes inv: "glob_complete_inv p t pi ti (Some sp) (Some st)" and ti: "ti < length t"
    and mis: "pi < length p \<Longrightarrow> p ! pi \<noteq> ''*'' \<and> p ! pi \<noteq> ''?'' \<and> p ! pi \<noteq> t ! ti"
  shows "glob_complete_inv p t sp (st + 1) (Some sp) (Some (st + 1))"
proof -
  from inv obtain n k where nk: "pi = sp + n" "ti = st + n" "\<forall>j < n. p ! (sp + j) \<noteq> ''*''"
    "st \<le> k" "k \<le> length t" "glob_spec (drop sp p) (drop k t)" "pi \<le> length p"
    by (auto simp: glob_complete_inv_def)
  have "k \<noteq> st"
  proof
    assume "k = st"
    with nk glob_spec_segment [of n p sp k t] have "glob_spec (drop pi p) (drop ti t)" by simp
    with glob_spec_mismatch [OF ti nk(7) mis] show False by blast
  qed
  with nk ti show ?thesis by (auto simp: glob_complete_inv_def intro!: exI [of _ k])
qed

lemma glob_complete_lit:
  assumes "glob_complete_inv p t pi ti star_p star_t" "ti < length t" "pi < length p"
    and "p ! pi = ''?'' \<or> p ! pi = t ! ti" "p ! pi \<noteq> ''*''"
  shows "glob_complete_inv p t (pi + 1) (ti + 1) star_p star_t"
proof (cases "\<exists>sp st. star_p = Some sp \<and> star_t = Some st")
  case True
  then obtain sp st where s: "star_p = Some sp" "star_t = Some st" by blast
  with assms(1) obtain n where n: "pi = sp + n" "ti = st + n" "\<forall>j < n. p ! (sp + j) \<noteq> ''*''"
    by (auto simp: glob_complete_inv_def)
  with assms(5) have "\<forall>j < Suc n. p ! (sp + j) \<noteq> ''*''" by (auto simp: less_Suc_eq)
  with assms s n show ?thesis
    by (auto simp: glob_complete_inv_def intro!: exI [of _ "Suc n"])
next
  case False
  with assms show ?thesis
    by (auto simp: glob_complete_inv_def drop_nth_Cons split: option.splits)
qed

lemma glob_loop_complete:
  assumes "glob_complete_inv p t pi ti star_p star_t" and "''*'' \<notin> set t"
  shows "\<exists>r. glob_loop p t pi ti star_p star_t = Some r \<and> skip_stars p r = length p"
  using assms
proof (induction p t pi ti star_p star_t rule: glob_loop.induct)
  case (1 p t pi ti star_p star_t)
  note inv = "1.prems"(1) and nostar = "1.prems"(2)
  have subject: "t ! ti \<noteq> ''*''" if "ti < length t" using that nostar by (metis nth_mem)
  show ?case
  proof (cases rule: glob_loop_cases [of ti t p pi star_p star_t])
    case exit
    obtain k where "ti \<le> k" "k \<le> length t" "glob_spec (drop pi p) (drop k t)"
      by (rule glob_complete_now [OF inv])
    with exit have "glob_spec (drop pi p) []" by simp
    with exit inv show ?thesis by (simp add: glob_complete_inv_def skip_stars_end)
  next
    case lit
    then have "p ! pi \<noteq> ''*''" using subject by auto
    with lit inv have "glob_complete_inv p t (pi + 1) (ti + 1) star_p star_t"
      by (blast intro: glob_complete_lit)
    with lit "1.IH"(1) nostar show ?thesis by simp
  next
    case star
    then have "glob_complete_inv p t (pi + 1) ti (Some (pi + 1)) (Some ti)"
      using inv by (blast intro: glob_complete_star)
    with star subject "1.IH"(2) nostar show ?thesis by simp
  next
    case (retry sp st)
    then have "glob_complete_inv p t sp (st + 1) (Some sp) (Some (st + 1))"
      using inv by (intro glob_complete_back [of p t pi ti]) auto
    with retry "1.IH"(3) nostar show ?thesis by auto
  next
    case fail
    with inv glob_spec_mismatch [of ti t pi p] show ?thesis
      by (auto simp: glob_complete_inv_def split: option.splits)
  qed
qed

section \<open>Properties\<close>

text \<open>
  C24. \<open>glob_matches\<close> never accepts a text that the pattern does not describe (\<open>*\<close> any
  text, \<open>?\<close> one character), and on every text without the character \<open>*\<close> its
  single-backtrack loop accepts exactly the texts the pattern describes.
\<close>

theorem glob_matches_correct:
  "(glob_matches pattern subject \<longrightarrow> glob_spec (utf8_chars pattern) (utf8_chars subject)) \<and>
   (CHR ''*'' \<notin> set subject \<longrightarrow>
      glob_matches pattern subject = glob_spec (utf8_chars pattern) (utf8_chars subject))"
proof -
  let ?p = "utf8_chars pattern" and ?t = "utf8_chars subject"
  have sound: "glob_spec ?p ?t" if "glob_matches pattern subject"
  proof -
    have "glob_sound_inv ?p ?t 0 0 None None" by (simp add: glob_sound_inv_def)
    with that show ?thesis
      by (auto simp: glob_matches_def Let_def intro: glob_loop_sound split: option.splits)
  qed
  have "glob_matches pattern subject" if "''*'' \<notin> set ?t" "glob_spec ?p ?t"
    using that glob_loop_complete [of ?p ?t 0 0 None None]
    by (auto simp: glob_matches_def Let_def glob_complete_inv_def)
  with sound star_notin_utf8_chars [of subject] show ?thesis by blast
qed

theorem glob_matches_correct_witness:
  "glob_matches ''rm -rf*'' ''rm -rf /'' \<and> glob_spec (utf8_chars ''rm -rf*'') (utf8_chars ''rm -rf /'') \<and>
   \<not> glob_matches ''a*b*c'' ''axbx'' \<and> \<not> glob_spec (utf8_chars ''a*b*c'') (utf8_chars ''axbx'')"
proof -
  have "glob_matches ''rm -rf*'' ''rm -rf /''" "\<not> glob_matches ''a*b*c'' ''axbx''"
    by code_simp+
  with glob_matches_correct [of "''rm -rf*''" "''rm -rf /''"]
    glob_matches_correct [of "''a*b*c''" "''axbx''"]
  show ?thesis by simp
qed

lemma glob_loop_common_prefix:
  assumes "n \<le> length p"
  shows "glob_loop (p @ q) (p @ t) 0 0 None None = glob_loop (p @ q) (p @ t) n n None None"
  using assms
proof (induction n)
  case (Suc n)
  then have "glob_loop (p @ q) (p @ t) n n None None =
      glob_loop (p @ q) (p @ t) (Suc n) (Suc n) None None"
    by (subst glob_loop.simps) (simp add: nth_append)
  with Suc show ?case by simp
qed simp

lemma utf8_chars_ascii:
  "list_all (\<lambda>c. (of_char c :: nat) < 128) s \<Longrightarrow> utf8_chars s = map (\<lambda>c. [c]) s"
  by (induction s) (auto simp: is_continuation_def split: list.splits)

lemma glob_spec_same: "''*'' \<notin> set p \<Longrightarrow> glob_spec (p @ q) (p @ t) = glob_spec q t"
  by (induction p) auto

text \<open>
  A text that contains the character \<open>*\<close> escapes its pattern: in the loop the
  comparison \<open>p_vec[pi] == t_vec[ti]\<close> comes before the test for the wildcard, so the
  wildcard is spent on that one character and no backtracking point is recorded. For every
  wildcard-free ASCII \<open>p\<close> and non-empty ASCII \<open>s\<close>, the pattern \<open>p*\<close> describes
  the text \<open>p*s\<close> and the matcher rejects it.
\<close>

theorem glob_star_in_text_escapes:
  assumes "list_all (\<lambda>c. (of_char c :: nat) < 128) (p @ s)" "CHR ''*'' \<notin> set p" "s \<noteq> []"
  shows "glob_spec (utf8_chars (p @ ''*'')) (utf8_chars (p @ ''*'' @ s)) \<and>
    \<not> glob_matches (p @ ''*'') (p @ ''*'' @ s)"
proof -
  let ?f = "map (\<lambda>c. [c])"
  have chars: "utf8_chars (p @ ''*'') = ?f p @ [''*'']"
    "utf8_chars (p @ ''*'' @ s) = ?f p @ ''*'' # ?f s"
    using assms(1) by (subst utf8_chars_ascii; simp)+
  have "''*'' \<notin> set (?f p)" using assms(2) by auto
  then have "glob_spec (?f p @ [''*'']) (?f p @ ''*'' # ?f s)"
    by (simp add: glob_spec_same) (auto intro: exI [of _ "Suc (length s)"])
  moreover have "glob_loop (?f p @ [''*'']) (?f p @ ''*'' # ?f s) 0 0 None None = None"
  proof -
    have "glob_loop (?f p @ [''*'']) (?f p @ ''*'' # ?f s) (length p) (length p) None None = None"
      using assms(3) by (subst glob_loop.simps, simp add: nth_append)
        (subst glob_loop.simps, simp)
    then show ?thesis
      by (subst glob_loop_common_prefix [where n = "length p"]) simp_all
  qed
  ultimately show ?thesis by (simp only: glob_matches_def chars Let_def) simp
qed

theorem glob_star_in_text_escapes_witness:
  "\<not> glob_matches ''rm *'' ''rm *.txt''"
  using glob_star_in_text_escapes [of "''rm ''" "''.txt''"] by simp

end
