(* ===== verification/Keyed_Store.thy ===== *)
theory Keyed_Store
  imports Konf_Prelude "HOL-Library.AList"
begin

text \<open>
  The keyed in-memory and on-disk tables of the runtime: the budget cells, the process table
  and the tables of the journal, the scheduler and the runner. A table is an association list
  without repeated keys; iteration order, which the hash maps of the source leave open, is
  the order of the list, and no result below depends on it.

  The interface \<open>keyed_store\<close> states what its clients use: a lookup sees the last write.
\<close>

section \<open>The interface\<close>

datatype ('k, 'v) store_op = Put 'k 'v | Del 'k

fun store_apply :: "('k \<Rightarrow> 'v \<Rightarrow> 's \<Rightarrow> 's) \<Rightarrow> ('k \<Rightarrow> 's \<Rightarrow> 's) \<Rightarrow> ('k, 'v) store_op \<Rightarrow> 's \<Rightarrow> 's" where
  "store_apply put del (Put k v) s = put k v s"
| "store_apply put del (Del k) s = del k s"

text \<open>The effect on one key of a sequence of writes: untouched, deleted or set.\<close>

fun last_write :: "'k \<Rightarrow> ('k, 'v) store_op list \<Rightarrow> 'v option option" where
  "last_write k [] = None"
| "last_write k (op # ops) =
     (case last_write k ops of
        Some w \<Rightarrow> Some w
      | None \<Rightarrow> (case op of
          Put k' v \<Rightarrow> if k' = k then Some (Some v) else None
        | Del k' \<Rightarrow> if k' = k then Some None else None))"

locale keyed_store =
  fixes lookup :: "'s \<Rightarrow> 'k \<Rightarrow> 'v option"
    and put :: "'k \<Rightarrow> 'v \<Rightarrow> 's \<Rightarrow> 's"
    and del :: "'k \<Rightarrow> 's \<Rightarrow> 's"
  assumes lookup_put: "lookup (put k v s) k' = (if k' = k then Some v else lookup s k')"
    and lookup_del: "lookup (del k s) k' = (if k' = k then None else lookup s k')"
begin

lemma lookup_put_same [simp]: "lookup (put k v s) k = Some v"
  by (simp add: lookup_put)

lemma lookup_del_same [simp]: "lookup (del k s) k = None"
  by (simp add: lookup_del)

lemma lookup_writes:
  "lookup (fold (store_apply put del) ops s) k =
     (case last_write k ops of None \<Rightarrow> lookup s k | Some w \<Rightarrow> w)"
  by (induction ops arbitrary: s)
     (auto simp: lookup_put lookup_del split: option.splits store_op.splits)

lemma lookup_dels: "lookup (fold del ks s) k = (if k \<in> set ks then None else lookup s k)"
  by (induction ks arbitrary: s) (auto simp: lookup_del)

end

section \<open>Tables\<close>

type_synonym ('k, 'v) table = "('k \<times> 'v) list"

definition tbl_get :: "('k, 'v) table \<Rightarrow> 'k \<Rightarrow> 'v option" where
  "tbl_get t k = map_of t k"

definition tbl_put :: "'k \<Rightarrow> 'v \<Rightarrow> ('k, 'v) table \<Rightarrow> ('k, 'v) table" where
  "tbl_put k v t = AList.update k v t"

definition tbl_del :: "'k \<Rightarrow> ('k, 'v) table \<Rightarrow> ('k, 'v) table" where
  "tbl_del k t = AList.delete k t"

text \<open>In-place update of an entry that is present.\<close>

definition tbl_modify :: "'k \<Rightarrow> ('v \<Rightarrow> 'v) \<Rightarrow> ('k, 'v) table \<Rightarrow> bool \<times> ('k, 'v) table" where
  "tbl_modify k f t =
     (case tbl_get t k of
        Some v \<Rightarrow> (True, tbl_put k (f v) t)
      | None \<Rightarrow> (False, t))"

definition tbl_ok :: "('k, 'v) table \<Rightarrow> bool" where
  "tbl_ok t = distinct (map fst t)"

interpretation tbl: keyed_store tbl_get tbl_put tbl_del
  by unfold_locales (simp_all add: tbl_get_def tbl_put_def tbl_del_def update_conv' delete_conv')

lemma tbl_get_Nil [simp]: "tbl_get [] k = None"
  by (simp add: tbl_get_def)

lemma tbl_ok_Nil [simp]: "tbl_ok []"
  by (simp add: tbl_ok_def)

lemma tbl_ok_put [simp, intro]: "tbl_ok t \<Longrightarrow> tbl_ok (tbl_put k v t)"
  by (simp add: tbl_ok_def tbl_put_def distinct_update)

lemma tbl_ok_del [simp, intro]: "tbl_ok t \<Longrightarrow> tbl_ok (tbl_del k t)"
  by (simp add: tbl_ok_def tbl_del_def distinct_delete)

lemma tbl_ok_dels: "tbl_ok t \<Longrightarrow> tbl_ok (fold tbl_del ks t)"
  by (induction ks arbitrary: t) auto

lemma tbl_ok_modify [simp, intro]: "tbl_ok t \<Longrightarrow> tbl_ok (snd (tbl_modify k f t))"
  by (simp add: tbl_modify_def split: option.split)

lemma tbl_get_modify:
  "tbl_get (snd (tbl_modify k f t)) k' =
     (if k' = k then map_option f (tbl_get t k) else tbl_get t k')"
  by (auto simp: tbl_modify_def tbl.lookup_put split: option.split)

lemma tbl_modify_found [simp]: "fst (tbl_modify k f t) \<longleftrightarrow> tbl_get t k \<noteq> None"
  by (simp add: tbl_modify_def split: option.split)

lemma tbl_get_iff: "tbl_ok t \<Longrightarrow> tbl_get t k = Some v \<longleftrightarrow> (k, v) \<in> set t"
  by (simp add: tbl_ok_def tbl_get_def)

lemma tbl_get_None_iff: "tbl_get t k = None \<longleftrightarrow> k \<notin> fst ` set t"
  by (simp add: tbl_get_def map_of_eq_None_iff)

text \<open>How a write changes the number of entries that satisfy a condition.\<close>

definition tbl_count :: "('v \<Rightarrow> bool) \<Rightarrow> ('k, 'v) table \<Rightarrow> nat" where
  "tbl_count P t = length (List.filter (\<lambda>(k, v). P v) t)"

lemma tbl_count_put_new:
  "tbl_get t k = None \<Longrightarrow> tbl_count P (tbl_put k v t) = tbl_count P t + (if P v then 1 else 0)"
  by (induction t) (auto simp: tbl_get_def tbl_put_def tbl_count_def split: if_splits)

lemma tbl_count_put_old:
  "tbl_get t k = Some u \<Longrightarrow>
     tbl_count P (tbl_put k v t) + (if P u then 1 else 0) = tbl_count P t + (if P v then 1 else 0)"
  by (induction t) (auto simp: tbl_get_def tbl_put_def tbl_count_def split: if_splits)

section \<open>Ordered tables\<close>

text \<open>An ordered on-disk table: an association list in strictly ascending key order.\<close>

fun btree_insert :: "'k::linorder \<Rightarrow> 'v \<Rightarrow> ('k \<times> 'v) list \<Rightarrow> ('k \<times> 'v) list" where
  "btree_insert k v [] = [(k, v)]"
| "btree_insert k v ((k', v') # m) =
     (if k < k' then (k, v) # (k', v') # m
      else if k = k' then (k, v) # m
      else (k', v') # btree_insert k v m)"

definition btree_remove :: "'k \<Rightarrow> ('k \<times> 'v) list \<Rightarrow> ('k \<times> 'v) list" where
  "btree_remove k m = List.filter (\<lambda>(k', v). k' \<noteq> k) m"

definition btree_ok :: "('k::linorder \<times> 'v) list \<Rightarrow> bool" where
  "btree_ok m = sorted_wrt (<) (map fst m)"

interpretation btree: keyed_store map_of btree_insert btree_remove
proof unfold_locales
  show "map_of (btree_insert k v s) k' = (if k' = k then Some v else map_of s k')" for k v s k'
    by (induction s) auto
  show "map_of (btree_remove k s) k' = (if k' = k then None else map_of s k')" for k s k'
    by (induction s) (auto simp: btree_remove_def)
qed

lemma btree_insert_last:
  "\<forall>x \<in> set m. fst x < k \<Longrightarrow> btree_insert k v m = m @ [(k, v)]"
  by (induction m) auto

lemma set_btree_insert: "fst ` set (btree_insert k v m) = insert k (fst ` set m)"
  by (induction k v m rule: btree_insert.induct) (simp_all add: insert_commute)

lemma btree_ok_Nil [simp]: "btree_ok []"
  by (simp add: btree_ok_def)

lemma btree_ok_insert [intro, simp]: "btree_ok m \<Longrightarrow> btree_ok (btree_insert k v m)"
proof (induction m)
  case (Cons e m)
  obtain k' v' where e: "e = (k', v')" by force
  have "\<forall>x \<in> fst ` set (btree_insert k v m). k' < x" if "k' < k" "\<forall>x \<in> fst ` set m. k' < x"
    using that by (auto simp: set_btree_insert)
  with Cons show ?case by (auto simp: btree_ok_def e)
qed (simp add: btree_ok_def)

lemma btree_ok_remove [intro, simp]: "btree_ok m \<Longrightarrow> btree_ok (btree_remove k m)"
  by (induction m) (auto simp: btree_ok_def btree_remove_def)

lemma btree_ok_filter: "btree_ok m \<Longrightarrow> btree_ok (List.filter P m)"
  by (induction m) (auto simp: btree_ok_def)

lemma btree_ok_distinct: "btree_ok m \<Longrightarrow> distinct (map fst m)"
  by (simp add: btree_ok_def strict_sorted_iff)

lemma btree_get_iff: "btree_ok m \<Longrightarrow> map_of m k = Some v \<longleftrightarrow> (k, v) \<in> set m"
  by (simp add: btree_ok_distinct)

end
