(* ===== verification/Tool_Guard.thy ===== *)
theory Tool_Guard
  imports Glob Envelope Keyed_Store
begin

text \<open>
  Tools, their registry and the two decorators the runtime wraps around them:
  \<^verbatim>\<open>konflux-substrate/src/tool.rs\<close> (\<open>Tool\<close>, \<open>ToolInfo\<close>, \<open>ToolRegistry\<close>),
  \<^verbatim>\<open>konf-runtime/src/guard.rs\<close> (\<open>GuardedTool\<close>, \<open>Rule\<close>, \<open>Predicate\<close>) and
  \<^verbatim>\<open>konf-runtime/src/context.rs\<close> (\<open>VirtualizedTool\<close>).

  What an undecorated tool does when invoked is the parameter \<open>raw\<close>: it takes the tool's
  metadata, the envelope and the state of the outside world. The streaming entry point of a
  decorator runs the same check and then the inner tool's streaming entry point, so
  \<open>invoke\<close> at the streaming \<open>raw\<close> models it.
\<close>

section \<open>Tools and their registry\<close>

record ToolAnnotations =
  read_only :: bool
  destructive :: bool
  idempotent :: bool
  open_world :: bool

record ToolInfo =
  info_name :: string
  info_description :: string
  info_input_schema :: json
  info_output_schema :: "json option"
  info_capabilities :: "string list"
  info_supports_streaming :: bool
  info_annotations :: ToolAnnotations

datatype Predicate =
    Contains string string
  | Matches string string
  | Equals string json
  | Exists string
  | Not_pred Predicate
  | All_preds "Predicate list"
  | Any_preds "Predicate list"

datatype Rule = Deny Predicate string | Allow Predicate

datatype DefaultAction = DefaultAllow | DefaultDeny

definition DefaultAction_default :: DefaultAction where
  "DefaultAction_default = DefaultDeny"

datatype Tool =
    RawTool ToolInfo
  | VirtualizedTool Tool "json smap"
  | GuardedTool Tool "Rule list" DefaultAction

fun info :: "Tool \<Rightarrow> ToolInfo" where
  "info (RawTool i) = i"
| "info (VirtualizedTool inner bindings) = info inner"
| "info (GuardedTool inner rules default_action) = info inner"

type_synonym ToolRegistry = "Tool smap"

definition register :: "Tool \<Rightarrow> ToolRegistry \<Rightarrow> ToolRegistry" where
  "register tool reg = obj_insert (info_name (info tool)) tool reg"

definition registry_remove :: "string \<Rightarrow> ToolRegistry \<Rightarrow> bool \<times> ToolRegistry" where
  "registry_remove name reg =
     (obj_get reg name \<noteq> None, List.filter (\<lambda>(k, t). k \<noteq> name) reg)"

definition registry_get :: "ToolRegistry \<Rightarrow> string \<Rightarrow> Tool option" where
  "registry_get reg name = obj_get reg name"

definition registry_list :: "ToolRegistry \<Rightarrow> ToolInfo list" where
  "registry_list reg = map (\<lambda>(k, t). info t) reg"

definition registry_contains :: "ToolRegistry \<Rightarrow> string \<Rightarrow> bool" where
  "registry_contains reg name = (obj_get reg name \<noteq> None)"

text \<open>The registry is a keyed store: a name resolves to the tool registered last under it.\<close>

interpretation registry: keyed_store registry_get obj_insert "\<lambda>name reg. snd (registry_remove name reg)"
  by unfold_locales
     (auto simp: registry_get_def obj_get_insert registry_remove_def obj_get_def map_of_filter_key)

section \<open>Predicates and rules\<close>

text \<open>\<open>PartialEq\<close> of \<^verbatim>\<open>f64\<close> on bit patterns: the two zeros are equal, a NaN equals nothing.\<close>

definition f64_is_nan :: "f64 \<Rightarrow> bool" where
  "f64_is_nan x = (unat (drop_bit 52 (take_bit 63 x)) = 2047 \<and> unat (take_bit 52 x) \<noteq> 0)"

definition f64_is_zero :: "f64 \<Rightarrow> bool" where
  "f64_is_zero x = (take_bit 63 x = 0)"

definition f64_eq :: "f64 \<Rightarrow> f64 \<Rightarrow> bool" where
  "f64_eq x y = (\<not> f64_is_nan x \<and> \<not> f64_is_nan y \<and> (x = y \<or> (f64_is_zero x \<and> f64_is_zero y)))"

text \<open>\<open>PartialEq\<close> of \<^verbatim>\<open>serde_json::Value\<close>.\<close>

fun jnum_eq :: "jnum \<Rightarrow> jnum \<Rightarrow> bool" where
  "jnum_eq (PosInt a) (PosInt b) = (a = b)"
| "jnum_eq (NegInt a) (NegInt b) = (a = b)"
| "jnum_eq (Float a) (Float b) = f64_eq a b"
| "jnum_eq _ _ = False"

fun json_eq :: "json \<Rightarrow> json \<Rightarrow> bool"
  and jsons_eq :: "json list \<Rightarrow> json list \<Rightarrow> bool"
  and fields_eq :: "jobject \<Rightarrow> jobject \<Rightarrow> bool" where
  "json_eq JNull JNull = True"
| "json_eq (JBool a) (JBool b) = (a = b)"
| "json_eq (JNumber a) (JNumber b) = jnum_eq a b"
| "json_eq (JString a) (JString b) = (a = b)"
| "json_eq (JArray as) (JArray bs) = jsons_eq as bs"
| "json_eq (JObject a) (JObject b) = fields_eq a b"
| "json_eq _ _ = False"
| "jsons_eq [] [] = True"
| "jsons_eq (a # as) (b # bs) = (json_eq a b \<and> jsons_eq as bs)"
| "jsons_eq _ _ = False"
| "fields_eq [] [] = True"
| "fields_eq ((k, a) # as) ((l, b) # bs) = (k = l \<and> json_eq a b \<and> fields_eq as bs)"
| "fields_eq _ _ = False"

fun resolve_segments :: "json \<Rightarrow> string list \<Rightarrow> json option" where
  "resolve_segments current [] = Some current"
| "resolve_segments current (segment # rest) =
     (case current of
        JObject m \<Rightarrow>
          (case obj_get m segment of
             Some v \<Rightarrow> resolve_segments v rest
           | None \<Rightarrow> None)
      | JArray arr \<Rightarrow>
          (case parse_u64 segment of
             Some idx \<Rightarrow>
               if unat idx < length arr then resolve_segments (arr ! unat idx) rest else None
           | None \<Rightarrow> None)
      | _ \<Rightarrow> None)"

definition resolve_path :: "json \<Rightarrow> string \<Rightarrow> json option" where
  "resolve_path value path = resolve_segments value (split_on CHR ''.'' path)"

fun Predicate_matches :: "Predicate \<Rightarrow> json \<Rightarrow> bool" where
  "Predicate_matches (Contains path value) input =
     (case Option.bind (resolve_path input path) as_str of
        Some s \<Rightarrow> contains_str s value | None \<Rightarrow> False)"
| "Predicate_matches (Matches path pat) input =
     (case Option.bind (resolve_path input path) as_str of
        Some s \<Rightarrow> glob_matches pat s | None \<Rightarrow> False)"
| "Predicate_matches (Equals path value) input =
     (case resolve_path input path of Some v \<Rightarrow> json_eq v value | None \<Rightarrow> False)"
| "Predicate_matches (Exists path) input =
     (case resolve_path input path of Some v \<Rightarrow> v \<noteq> JNull | None \<Rightarrow> False)"
| "Predicate_matches (Not_pred predicate) input = (\<not> Predicate_matches predicate input)"
| "Predicate_matches (All_preds predicates) input = list_all (\<lambda>p. Predicate_matches p input) predicates"
| "Predicate_matches (Any_preds predicates) input = list_ex (\<lambda>p. Predicate_matches p input) predicates"

fun evaluate_rules :: "string \<Rightarrow> DefaultAction \<Rightarrow> Rule list \<Rightarrow> json \<Rightarrow> ToolError + unit" where
  "evaluate_rules name default_action (Deny predicate message # rules) input =
     (if Predicate_matches predicate input
      then Inl (ToolCapabilityDenied (''guard denied: '' @ message))
      else evaluate_rules name default_action rules input)"
| "evaluate_rules name default_action (Allow predicate # rules) input =
     (if Predicate_matches predicate input then Inr ()
      else evaluate_rules name default_action rules input)"
| "evaluate_rules name DefaultAllow [] input = Inr ()"
| "evaluate_rules name DefaultDeny [] input =
     Inl (ToolCapabilityDenied
       (''guard denied: no rule matched for tool '' @ quoted name @ '' (default: deny)''))"

section \<open>Invocation\<close>

definition inject_bindings :: "json smap \<Rightarrow> json Envelope \<Rightarrow> ToolError + json Envelope" where
  "inject_bindings bindings env =
     (if bindings = [] then Inr env
      else (case env_payload env of
              JObject m \<Rightarrow>
                Inr (env\<lparr> env_payload := JObject (fold (\<lambda>(k, v) m. obj_insert k v m) bindings m) \<rparr>)
            | _ \<Rightarrow> Inl (InvalidInput
                ''payload must be a JSON object when bindings are present'' None)))"

type_synonym 'w raw_tool = "ToolInfo \<Rightarrow> json Envelope \<Rightarrow> 'w \<Rightarrow> (ToolError + json Envelope) \<times> 'w"

fun invoke :: "'w raw_tool \<Rightarrow> Tool \<Rightarrow> json Envelope \<Rightarrow> 'w \<Rightarrow> (ToolError + json Envelope) \<times> 'w" where
  "invoke raw (RawTool i) env w = raw i env w"
| "invoke raw (VirtualizedTool inner bindings) env w =
     (case inject_bindings bindings env of
        Inl e \<Rightarrow> (Inl e, w)
      | Inr env' \<Rightarrow> invoke raw inner env' w)"
| "invoke raw (GuardedTool inner rules default_action) env w =
     (case evaluate_rules (info_name (info inner)) default_action rules (env_payload env) of
        Inl e \<Rightarrow> (Inl e, w)
      | Inr _ \<Rightarrow> invoke raw inner env w)"

section \<open>Decorators\<close>

text \<open>
  The contract the runtime relies on when it stacks decorators: a decorator keeps the
  metadata, either rejects the call before the inner tool sees it or passes on an envelope
  that differs in the payload only.
\<close>

locale decorator =
  fixes raw :: "'w raw_tool"
    and wrap :: "Tool \<Rightarrow> Tool"
    and pre :: "Tool \<Rightarrow> json Envelope \<Rightarrow> ToolError + json Envelope"
  assumes info_wrap: "info (wrap t) = info t"
    and invoke_wrap: "invoke raw (wrap t) env w =
      (case pre t env of Inl e \<Rightarrow> (Inl e, w) | Inr env' \<Rightarrow> invoke raw t env' w)"
    and pre_payload_only: "pre t env = Inr env' \<Longrightarrow> env' = env\<lparr> env_payload := env_payload env' \<rparr>"
begin

lemma rejected_has_no_effect: "pre t env = Inl e \<Longrightarrow> invoke raw (wrap t) env w = (Inl e, w)"
  by (simp add: invoke_wrap)

lemma register_wrap: "registry_get (register (wrap t) reg) (info_name (info t)) = Some (wrap t)"
  by (simp add: register_def registry_get_def info_wrap)

lemma passed_keeps_context:
  assumes "pre t env = Inr env'"
  shows "invoke raw (wrap t) env w = invoke raw t env' w \<and>
    env_capabilities env' = env_capabilities env \<and> env_namespace env' = env_namespace env \<and>
    env_trace_id env' = env_trace_id env"
proof -
  obtain p where "env' = env\<lparr> env_payload := p \<rparr>"
    using pre_payload_only [OF assms] by blast
  with assms show ?thesis by (simp add: invoke_wrap)
qed

end

definition guard_pre ::
  "Rule list \<Rightarrow> DefaultAction \<Rightarrow> Tool \<Rightarrow> json Envelope \<Rightarrow> ToolError + json Envelope" where
  "guard_pre rules d t env =
     map_ok (\<lambda>_. env) (evaluate_rules (info_name (info t)) d rules (env_payload env))"

interpretation virtualized: decorator raw "\<lambda>t. VirtualizedTool t bindings"
  "\<lambda>t. inject_bindings bindings"
  for raw bindings
  by unfold_locales (auto simp: inject_bindings_def split: if_splits json.splits sum.splits)

interpretation guarded: decorator raw "\<lambda>t. GuardedTool t rules d" "guard_pre rules d"
  for raw rules d
  by unfold_locales (auto simp: guard_pre_def map_ok_def split: sum.splits)

section \<open>Properties\<close>

fun rule_predicate :: "Rule \<Rightarrow> Predicate" where
  "rule_predicate (Deny p m) = p"
| "rule_predicate (Allow p) = p"

text \<open>
  The verdict of a guard is that of the first rule whose predicate matches the payload,
  and of the default action when no rule matches: a matching \<open>Deny\<close> rejects with its
  message, a matching \<open>Allow\<close> lets the call through whatever rules follow.
\<close>

theorem guard_first_match_wins:
  "evaluate_rules name d rules input =
     (case find (\<lambda>r. Predicate_matches (rule_predicate r) input) rules of
        Some (Deny p message) \<Rightarrow> Inl (ToolCapabilityDenied (''guard denied: '' @ message))
      | Some (Allow p) \<Rightarrow> Inr ()
      | None \<Rightarrow>
          (if d = DefaultAllow then Inr ()
           else Inl (ToolCapabilityDenied
             (''guard denied: no rule matched for tool '' @ quoted name @ '' (default: deny)''))))"
proof (induction rules)
  case Nil
  then show ?case by (cases d) auto
next
  case (Cons r rules)
  then show ?case by (cases r) auto
qed

lemma map_of_rev_distinct: "distinct (map fst b) \<Longrightarrow> map_of (rev b) = map_of b"
  by (subst map_of_inject_set) (simp_all add: rev_map [symmetric])

text \<open>
  Parameter virtualization cannot be overridden. When a tool wrapped with bindings is
  called with an object payload, the inner tool is invoked on the same envelope with a
  payload that has the bound value at every bound key, whatever the caller put there, and the
  caller's value at every other key. A non-object payload is rejected before the inner tool
  is reached and leaves the world unchanged.
\<close>

theorem virtualized_bindings_win:
  assumes "bindings \<noteq> []" "distinct (map fst bindings)"
  shows "case env_payload env of
      JObject m \<Rightarrow> \<exists>m'. invoke raw (VirtualizedTool t bindings) env w =
          invoke raw t (env\<lparr> env_payload := JObject m' \<rparr>) w \<and>
        (\<forall>k. obj_get m' k =
          (case map_of bindings k of Some v \<Rightarrow> Some v | None \<Rightarrow> obj_get m k))
    | _ \<Rightarrow> invoke raw (VirtualizedTool t bindings) env w =
        (Inl (InvalidInput ''payload must be a JSON object when bindings are present'' None), w)"
proof (cases "env_payload env")
  case (JObject m)
  let ?m' = "fold (\<lambda>(k, v) m. obj_insert k v m) bindings m"
  have "invoke raw (VirtualizedTool t bindings) env w =
      invoke raw t (env\<lparr> env_payload := JObject ?m' \<rparr>) w"
    using assms(1) JObject by (simp add: inject_bindings_def)
  moreover have "obj_get ?m' k =
      (case map_of bindings k of Some v \<Rightarrow> Some v | None \<Rightarrow> obj_get m k)" for k
    using assms(2) by (simp add: obj_get_fold_insert map_of_rev_distinct)
  ultimately show ?thesis using JObject by (auto simp del: invoke.simps)
qed (use assms(1) in \<open>simp_all add: inject_bindings_def\<close>)

text \<open>A tool that echoes its envelope, called with a forged namespace.\<close>

definition echo_raw :: "nat raw_tool" where
  "echo_raw i env w = (Inr env, Suc w)"

definition sample_info :: "string \<Rightarrow> ToolInfo" where
  "sample_info name =
     \<lparr> info_name = name, info_description = [], info_input_schema = JNull,
       info_output_schema = None, info_capabilities = [], info_supports_streaming = False,
       info_annotations = \<lparr> read_only = False, destructive = False, idempotent = False,
         open_world = False \<rparr> \<rparr>"

definition sample_env :: "json \<Rightarrow> json Envelope" where
  "sample_env payload =
     for_tool_dispatch 1 0 ''memory:search'' payload [''memory:*''] 2 ''konf:a'' ''u'' ''run:1''"

theorem virtualized_bindings_win_witness:
  "\<exists>m'. invoke echo_raw (VirtualizedTool (RawTool (sample_info ''memory:search''))
          [(''namespace'', JString ''konf:a'')])
        (sample_env (JObject [(''namespace'', JString ''konf:admin''), (''query'', JString ''q'')])) 0 =
      (Inr (sample_env (JObject m')), 1) \<and>
    obj_get m' ''namespace'' = Some (JString ''konf:a'') \<and> obj_get m' ''query'' = Some (JString ''q'')"
proof -
  let ?b = "[(''namespace'', JString ''konf:a'')]"
  let ?m = "[(''namespace'', JString ''konf:admin''), (''query'', JString ''q'')]"
  have payload: "env_payload (sample_env (JObject ?m)) = JObject ?m"
    "sample_env (JObject ?m)\<lparr> env_payload := JObject m' \<rparr> = sample_env (JObject m')" for m'
    by (simp_all add: sample_env_def for_tool_dispatch_def)
  have "\<exists>m'. invoke echo_raw (VirtualizedTool (RawTool (sample_info ''memory:search'')) ?b)
          (sample_env (JObject ?m)) 0 =
        invoke echo_raw (RawTool (sample_info ''memory:search''))
          ((sample_env (JObject ?m))\<lparr> env_payload := JObject m' \<rparr>) 0 \<and>
        (\<forall>k. obj_get m' k = (case map_of ?b k of Some v \<Rightarrow> Some v | None \<Rightarrow> obj_get ?m k))"
    using virtualized_bindings_win [where bindings = ?b and raw = echo_raw and w = 0 and
        env = "sample_env (JObject ?m)" and t = "RawTool (sample_info ''memory:search'')"] payload(1) by simp
  then obtain m' where
    eq: "invoke echo_raw (VirtualizedTool (RawTool (sample_info ''memory:search'')) ?b)
          (sample_env (JObject ?m)) 0 =
        invoke echo_raw (RawTool (sample_info ''memory:search'')) (sample_env (JObject m')) 0"
    and get: "\<And>k. obj_get m' k = (case map_of ?b k of Some v \<Rightarrow> Some v | None \<Rightarrow> obj_get ?m k)"
    unfolding payload by blast
  from eq have "invoke echo_raw (VirtualizedTool (RawTool (sample_info ''memory:search'')) ?b)
      (sample_env (JObject ?m)) 0 = (Inr (sample_env (JObject m')), 1)"
    by (simp add: echo_raw_def)
  moreover have "obj_get m' ''namespace'' = Some (JString ''konf:a'')"
    "obj_get m' ''query'' = Some (JString ''q'')"
    by (simp_all only: get) (simp_all add: obj_get_def)
  ultimately show ?thesis by blast
qed

end
