(* ===== verification/Graph_Search.thy ===== *)
theory Graph_Search
  imports Main
begin

text \<open>
  The abstract depth-first search that both cycle checks of the engine refine: the
  three-colour search of \<^verbatim>\<open>Workflow::detect_cycles\<close> and the path-and-visited search of the
  YAML validator. \<open>visit\<close> takes the vertices still to look at, the current path (the grey
  vertices) and the vertices seen so far (grey or black). Its fuel bounds the length of the
  path; \<open>visit_enough_fuel\<close> shows that the number of unseen vertices suffices.
\<close>

section \<open>The search\<close>

fun visit :: "nat \<Rightarrow> ('a \<Rightarrow> 'a list) \<Rightarrow> 'a list \<Rightarrow> 'a list \<Rightarrow> 'a set \<Rightarrow> ('a list + 'a set) option" where
  "visit n succ [] path seen = Some (Inr seen)"
| "visit n succ (x # xs) path seen =
     (if x \<in> set path then Some (Inl (path @ [x]))
      else if x \<in> seen then visit n succ xs path seen
      else (case n of
              0 \<Rightarrow> None
            | Suc m \<Rightarrow>
                (case visit m succ (succ x) (path @ [x]) (insert x seen) of
                   Some (Inr seen') \<Rightarrow> visit n succ xs path seen'
                 | r \<Rightarrow> r)))"

definition arcs :: "('a \<Rightarrow> 'a list) \<Rightarrow> ('a \<times> 'a) set" where
  "arcs succ = {(u, v). v \<in> set (succ u)}"

text \<open>A walk: every element is a successor of the one before it.\<close>

definition walk :: "('a \<Rightarrow> 'a list) \<Rightarrow> 'a list \<Rightarrow> bool" where
  "walk succ = successively (\<lambda>u v. v \<in> set (succ u))"

lemma walk_simps [simp]: "walk succ []" "walk succ [x]"
  by (simp_all add: walk_def)

lemma walk_snoc: "walk succ (p @ [x]) \<longleftrightarrow> walk succ p \<and> (p \<noteq> [] \<longrightarrow> x \<in> set (succ (last p)))"
  by (auto simp: walk_def successively_append_iff)

lemma walk_trancl:
  assumes "walk succ (a # p @ [b])"
  shows "(a, b) \<in> (arcs succ)\<^sup>+"
  using assms
proof (induction p arbitrary: a)
  case Nil
  then show ?case by (auto simp: walk_def arcs_def)
next
  case (Cons c p)
  then have "(a, c) \<in> arcs succ" "(c, b) \<in> (arcs succ)\<^sup>+"
    by (auto simp: walk_def arcs_def)
  then show ?case by (rule trancl_into_trancl2)
qed

lemma walk_suffix: "walk succ (p @ q) \<Longrightarrow> walk succ q"
  by (simp add: walk_def successively_append_iff)

text \<open>What a reported path shows: it closes a cycle.\<close>

lemma closed_walk_cycle:
  assumes "walk succ (path @ [x])" "x \<in> set path"
  shows "(x, x) \<in> (arcs succ)\<^sup>+"
proof -
  from assms(2) obtain p q where "path = p @ x # q" by (auto simp: in_set_conv_decomp)
  with assms(1) have "walk succ (p @ (x # q @ [x]))" by simp
  then have "walk succ (x # q @ [x])" by (rule walk_suffix)
  then show ?thesis by (rule walk_trancl)
qed

lemma visit_mono: "visit n succ xs path seen = Some (Inr seen') \<Longrightarrow> seen \<subseteq> seen'"
proof (induction n succ xs path seen arbitrary: seen' rule: visit.induct)
  case (2 n succ x xs path seen)
  have nin: "x \<notin> set path" using "2.prems" by (auto split: if_splits)
  show ?case
  proof (cases "x \<in> seen")
    case True
    with nin "2.prems" have "visit n succ xs path seen = Some (Inr seen')" by simp
    with "2.IH"(1) [OF nin True] show ?thesis by simp
  next
    case False
    with nin "2.prems" obtain m mid where n: "n = Suc m"
      and v1: "visit m succ (succ x) (path @ [x]) (insert x seen) = Some (Inr mid)"
      and v2: "visit n succ xs path mid = Some (Inr seen')"
      by (auto split: nat.splits option.splits sum.splits)
    have "insert x seen \<subseteq> mid" by (rule "2.IH"(2) [OF nin False n v1])
    moreover have "mid \<subseteq> seen'" by (rule "2.IH"(3) [OF nin False n v1 refl v2])
    ultimately show ?thesis by auto
  qed
qed simp

text \<open>Searching a list is searching its first element, then the rest.\<close>

lemma visit_Cons:
  "visit n succ (x # xs) path seen =
     (case visit n succ [x] path seen of Some (Inr seen') \<Rightarrow> visit n succ xs path seen' | r \<Rightarrow> r)"
  by (auto split: nat.splits option.splits sum.splits)

section \<open>Correctness\<close>

text \<open>The finished (black) vertices are closed under successors and lie on no cycle.\<close>

definition finished :: "('a \<Rightarrow> 'a list) \<Rightarrow> 'a set \<Rightarrow> bool" where
  "finished succ B \<longleftrightarrow>
     (\<forall>b \<in> B. set (succ b) \<subseteq> B) \<and> (\<forall>b \<in> B. (b, b) \<notin> (arcs succ)\<^sup>+)"

lemma finished_empty [simp]: "finished succ {}"
  by (simp add: finished_def)

lemma finished_trancl:
  assumes "finished succ B" "(a, b) \<in> (arcs succ)\<^sup>+" "a \<in> B"
  shows "b \<in> B"
  using assms(2,3)
proof (induction rule: trancl_induct)
  case (base y)
  with assms(1) show ?case by (auto simp: finished_def arcs_def)
next
  case (step y z)
  with assms(1) show ?case by (auto simp: finished_def arcs_def)
qed

lemma finished_insert:
  assumes B: "finished succ B" and x: "x \<notin> B" "set (succ x) \<subseteq> B"
  shows "finished succ (insert x B)"
proof -
  have "(x, x) \<notin> (arcs succ)\<^sup>+"
  proof
    assume "(x, x) \<in> (arcs succ)\<^sup>+"
    then obtain y where y: "(x, y) \<in> arcs succ" "y = x \<or> (y, x) \<in> (arcs succ)\<^sup>+"
      by (meson tranclD rtranclD)
    then have "y \<in> B" using x by (auto simp: arcs_def)
    with y x finished_trancl [OF B, of y x] show False by auto
  qed
  with B x show ?thesis by (auto simp: finished_def)
qed

lemma finished_acyclic_on: "finished succ B \<Longrightarrow> b \<in> B \<Longrightarrow> (b, b) \<notin> (arcs succ)\<^sup>+"
  by (simp add: finished_def)

lemma subset_through:
  "s' \<subseteq> m \<union> B \<Longrightarrow> m \<subseteq> insert x s \<union> A \<Longrightarrow> A \<subseteq> C \<Longrightarrow> x \<in> C \<Longrightarrow> B \<subseteq> C \<Longrightarrow> s' \<subseteq> s \<union> C"
  by blast

text \<open>A search that ends without a cycle has finished everything it was asked to look at.\<close>

lemma visit_Inr:
  assumes "visit n succ xs path seen = Some (Inr seen')"
    and "set path \<subseteq> seen" "finished succ (seen - set path)"
  shows "seen \<subseteq> seen' \<and> set xs \<subseteq> seen' - set path \<and> finished succ (seen' - set path) \<and>
    seen' \<subseteq> seen \<union> (arcs succ)\<^sup>* `` set xs"
  using assms
proof (induction n succ xs path seen arbitrary: seen' rule: visit.induct)
  case (1 n succ path seen)
  then show ?case by simp
next
  case (2 n succ x xs path seen)
  have nin: "x \<notin> set path" using "2.prems"(1) by (auto split: if_splits)
  show ?case
  proof (cases "x \<in> seen")
    case True
    with nin "2.prems"(1) have "visit n succ xs path seen = Some (Inr seen')" by simp
    from "2.IH"(1) [OF nin True this "2.prems"(2,3)] True nin show ?thesis by auto
  next
    case False
    with nin "2.prems"(1) obtain m mid where n: "n = Suc m"
      and v1: "visit m succ (succ x) (path @ [x]) (insert x seen) = Some (Inr mid)"
      and v2: "visit n succ xs path mid = Some (Inr seen')"
      by (auto split: nat.splits option.splits sum.splits)
    have "set (path @ [x]) \<subseteq> insert x seen" using "2.prems"(2) by auto
    moreover have "insert x seen - set (path @ [x]) = seen - set path"
      using False "2.prems"(2) by auto
    ultimately have inner: "insert x seen \<subseteq> mid" "set (succ x) \<subseteq> mid - set (path @ [x])"
      "finished succ (mid - set (path @ [x]))"
      "mid \<subseteq> insert x seen \<union> (arcs succ)\<^sup>* `` set (succ x)"
      using "2.IH"(2) [OF nin False n v1] "2.prems"(3) by simp_all
    have "mid - set path = insert x (mid - set (path @ [x]))" using inner(1) nin by auto
    then have fin: "finished succ (mid - set path)"
      using inner finished_insert [of succ "mid - set (path @ [x])" x] by auto
    have "set path \<subseteq> mid" using inner(1) "2.prems"(2) by auto
    with "2.IH"(3) [OF nin False n v1 _ v2] fin
    have outer: "mid \<subseteq> seen'" "set xs \<subseteq> seen' - set path" "finished succ (seen' - set path)"
      "seen' \<subseteq> mid \<union> (arcs succ)\<^sup>* `` set xs"
      by simp_all
    have "(arcs succ)\<^sup>* `` set (succ x) \<subseteq> (arcs succ)\<^sup>* `` set (x # xs)"
      by (auto simp: arcs_def intro: converse_rtrancl_into_rtrancl)
    moreover have "x \<in> (arcs succ)\<^sup>* `` set (x # xs)"
      "(arcs succ)\<^sup>* `` set xs \<subseteq> (arcs succ)\<^sup>* `` set (x # xs)" by auto
    ultimately have "seen' \<subseteq> seen \<union> (arcs succ)\<^sup>* `` set (x # xs)"
      using subset_through [OF outer(4) inner(4)] by metis
    moreover have "x \<in> seen' - set path" using inner(1) outer(1) nin by auto
    moreover have "seen \<subseteq> seen'" using inner(1) outer(1) by auto
    ultimately show ?thesis using outer(2,3) by simp
  qed
qed

text \<open>A reported path is a walk that returns to one of its vertices.\<close>

lemma visit_Inl:
  assumes "visit n succ xs path seen = Some (Inl c)" "walk succ path"
    and "path \<noteq> [] \<Longrightarrow> set xs \<subseteq> set (succ (last path))"
  shows "\<exists>p x. c = p @ [x] \<and> x \<in> set p \<and> walk succ c"
  using assms
proof (induction n succ xs path seen rule: visit.induct)
  case (2 n succ x xs path seen)
  have walk: "walk succ (path @ [x])" using "2.prems"(2,3) by (auto simp: walk_snoc)
  consider "x \<in> set path" | "x \<notin> set path" "x \<in> seen" | "x \<notin> set path" "x \<notin> seen" by blast
  then show ?case
  proof cases
    case 1
    with "2.prems"(1) walk show ?thesis by auto
  next
    case 2
    with "2.IH"(1) "2.prems" show ?thesis by simp
  next
    case 3
    with "2.prems"(1) obtain m where n: "n = Suc m" by (auto split: nat.splits)
    show ?thesis
    proof (cases "visit m succ (succ x) (path @ [x]) (insert x seen)")
      case None
      with 3 n "2.prems"(1) show ?thesis by simp
    next
      case (Some r)
      with 3 n "2.IH"(2,3) "2.prems" walk show ?thesis by (cases r) auto
    qed
  qed
qed simp

section \<open>Fuel\<close>

lemma visit_enough_fuel:
  assumes "finite U" "card (U - seen) \<le> n" "set xs \<subseteq> U" "\<And>u. u \<in> U \<Longrightarrow> set (succ u) \<subseteq> U"
  shows "\<exists>r. visit n succ xs path seen = Some r \<and> (\<forall>seen'. r = Inr seen' \<longrightarrow> seen \<subseteq> seen')"
  using assms
proof (induction n succ xs path seen rule: visit.induct)
  case (2 n succ x xs path seen)
  consider "x \<in> set path" | "x \<notin> set path" "x \<in> seen" | "x \<notin> set path" "x \<notin> seen" by blast
  then show ?case
  proof cases
    case 1
    then show ?thesis by simp
  next
    case 2
    with "2.IH"(1) "2.prems" show ?thesis by simp
  next
    case 3
    have x: "x \<in> U - seen" using 3 "2.prems"(3) by simp
    then have less: "card (U - insert x seen) < card (U - seen)"
      using "2.prems"(1) by (intro psubset_card_mono) auto
    with "2.prems"(2) obtain m where n: "n = Suc m" by (cases n) auto
    have "card (U - insert x seen) \<le> m" using less "2.prems"(2) n by simp
    with "2.IH"(2) [OF 3 n] "2.prems" x obtain r where
      r: "visit m succ (succ x) (path @ [x]) (insert x seen) = Some r"
      "\<forall>seen'. r = Inr seen' \<longrightarrow> insert x seen \<subseteq> seen'" by auto
    show ?thesis
    proof (cases r)
      case (Inl c)
      with 3 n r show ?thesis by simp
    next
      case (Inr mid)
      then have "card (U - mid) \<le> n"
        using r(2) "2.prems"(1,2) card_mono [of "U - seen" "U - mid"] Diff_mono [of U U seen mid]
        by (simp add: order_trans)
      then obtain r' where
        "visit n succ xs path mid = Some r'" "\<forall>seen'. r' = Inr seen' \<longrightarrow> mid \<subseteq> seen'"
        using "2.IH"(3) [OF 3 n, of "Inr mid" mid] r Inr "2.prems" by auto
      moreover have "visit n succ (x # xs) path seen = visit n succ xs path mid"
        using 3 n r(1) Inr by simp
      ultimately show ?thesis using r(2) Inr by auto
    qed
  qed
qed simp

section \<open>Consequences of a search from the empty path\<close>

lemma visit_root_Inr:
  assumes "visit n succ xs [] seen = Some (Inr seen')" "finished succ seen"
  shows "finished succ seen' \<and> seen \<union> set xs \<subseteq> seen' \<and> seen' \<subseteq> seen \<union> (arcs succ)\<^sup>* `` set xs"
  using visit_Inr [OF assms(1)] assms(2) by auto

lemma visit_root_Inl:
  assumes "visit n succ xs [] seen = Some (Inl c)"
  shows "\<exists>x. x \<in> set c \<and> (x, x) \<in> (arcs succ)\<^sup>+"
  using visit_Inl [OF assms] closed_walk_cycle by fastforce

lemma finished_rtrancl:
  assumes "finished succ B"
  shows "(arcs succ)\<^sup>* `` B \<subseteq> B"
  using finished_trancl [OF assms] by (auto simp: rtrancl_eq_or_trancl)

end
