(* ===== verification/Workflow_IR.thy ===== *)
theory Workflow_IR
  imports Konf_Errors Graph_Search Envelope
begin

text \<open>
  The workflow intermediate representation, \<^verbatim>\<open>konflux-substrate/src/workflow.rs\<close>: its
  types, constructors and \<open>Workflow::validate\<close> with the three-colour cycle detection.
  Identifier newtypes are their strings, a \<^verbatim>\<open>Duration\<close> is its length in nanoseconds.
\<close>

section \<open>Types\<close>

type_synonym StepId = string
type_synonym ToolId = string
type_synonym duration = nat

definition from_millis :: "u64 \<Rightarrow> duration" where
  "from_millis n = unat n * 1000000"

definition from_secs :: "u64 \<Rightarrow> duration" where
  "from_secs n = unat n * 1000000000"

definition as_millis :: "duration \<Rightarrow> nat" where
  "as_millis d = d div 1000000"

datatype Expr = Literal string | Ref string | Template string | Json json

datatype EdgeTarget = StepTarget StepId | Return

record Edge =
  edge_target :: EdgeTarget
  edge_condition :: "string option"
  edge_priority :: i32

datatype JoinPolicy = JoinAll | JoinAny | Quorum u32 | Lenient

datatype ErrorAction = Fail | Skip | Fallback string | Goto StepId

datatype BackoffStrategy = Fixed | Exponential | Linear duration

record RetryPolicy =
  max_attempts :: u32
  backoff :: BackoffStrategy
  base_delay :: duration
  max_delay :: duration

record PipeStep =
  pipe_tool :: ToolId
  pipe_input :: "Expr smap"

datatype StreamMode = StreamDefault | Passthrough

record RepeatConfig =
  repeat_until :: string
  repeat_max :: u32
  repeat_as_var :: "string option"

record Step =
  step_id :: StepId
  step_tool :: ToolId
  step_input :: "Expr smap"
  step_edges :: "Edge list"
  step_depends_on :: "StepId list"
  step_join :: JoinPolicy
  step_on_error :: ErrorAction
  step_retry :: "RetryPolicy option"
  step_timeout :: "duration option"
  step_credentials :: "string smap"
  step_grant :: "string list option"
  step_pipe :: "PipeStep list"
  step_stream :: StreamMode
  step_repeat :: "RepeatConfig option"

record Workflow =
  wf_id :: string
  wf_name :: string
  wf_version :: string
  wf_entry :: StepId
  wf_steps :: "Step list"
  wf_capabilities :: "string list"
  wf_metadata :: "string smap"
  wf_description :: "string option"
  wf_input_schema :: "json option"
  wf_output_schema :: "json option"
  wf_register_as_tool :: bool

section \<open>Constructors\<close>

definition Workflow_new :: "string \<Rightarrow> string \<Rightarrow> string \<Rightarrow> Workflow" where
  "Workflow_new i name entry =
     \<lparr> wf_id = i, wf_name = name, wf_version = ''0.1.0'', wf_entry = entry, wf_steps = [],
       wf_capabilities = [], wf_metadata = [], wf_description = None, wf_input_schema = None,
       wf_output_schema = None, wf_register_as_tool = False \<rparr>"

definition add_step :: "Step \<Rightarrow> Workflow \<Rightarrow> Workflow" where
  "add_step s w = w\<lparr> wf_steps := wf_steps w @ [s] \<rparr>"

definition with_capabilities :: "string list \<Rightarrow> Workflow \<Rightarrow> Workflow" where
  "with_capabilities cs w = w\<lparr> wf_capabilities := cs \<rparr>"

definition with_metadata :: "string \<Rightarrow> string \<Rightarrow> Workflow \<Rightarrow> Workflow" where
  "with_metadata k v w = w\<lparr> wf_metadata := obj_insert k v (wf_metadata w) \<rparr>"

definition Step_new :: "string \<Rightarrow> string \<Rightarrow> Step" where
  "Step_new i tool =
     \<lparr> step_id = i, step_tool = tool, step_input = [], step_edges = [], step_depends_on = [],
       step_join = JoinAll, step_on_error = Fail, step_retry = None, step_timeout = None,
       step_credentials = [], step_grant = None, step_pipe = [], step_stream = StreamDefault,
       step_repeat = None \<rparr>"

definition with_input :: "string \<Rightarrow> Expr \<Rightarrow> Step \<Rightarrow> Step" where
  "with_input k e s = s\<lparr> step_input := obj_insert k e (step_input s) \<rparr>"

definition with_edge :: "EdgeTarget \<Rightarrow> Step \<Rightarrow> Step" where
  "with_edge t s = s\<lparr> step_edges := step_edges s @
     [\<lparr> edge_target = t, edge_condition = None, edge_priority = 0 \<rparr>] \<rparr>"

definition with_depends_on :: "string \<Rightarrow> Step \<Rightarrow> Step" where
  "with_depends_on d s = s\<lparr> step_depends_on := step_depends_on s @ [d] \<rparr>"

definition get_step :: "Workflow \<Rightarrow> StepId \<Rightarrow> Step option" where
  "get_step w i = find (\<lambda>s. step_id s = i) (wf_steps w)"

section \<open>Cycle detection\<close>

datatype Color = Gray | Black

type_synonym coloring = "StepId \<Rightarrow> Color option"
type_synonym adjacency = "StepId \<Rightarrow> StepId list option"

fun edge_step :: "Edge \<Rightarrow> StepId option" where
  "edge_step e = (case edge_target e of StepTarget i \<Rightarrow> Some i | Return \<Rightarrow> None)"

definition step_targets :: "Step \<Rightarrow> StepId list" where
  "step_targets s = List.map_filter edge_step (step_edges s)"

definition adjacency_of :: "Workflow \<Rightarrow> adjacency" where
  "adjacency_of w = fold (\<lambda>s m. m(step_id s \<mapsto> step_targets s)) (wf_steps w) Map.empty"

text \<open>
  The recursion is bounded by fuel; \<open>None\<close> is running out of it, which
  \<open>detect_cycles_fuel\<close> excludes for the fuel \<open>detect_cycles\<close> passes.
\<close>

fun dfs_detect_cycle ::
    "nat \<Rightarrow> StepId \<Rightarrow> adjacency \<Rightarrow> coloring \<Rightarrow> StepId list \<Rightarrow> (bool \<times> coloring \<times> StepId list) option"
  and dfs_neighbors ::
    "nat \<Rightarrow> StepId list \<Rightarrow> adjacency \<Rightarrow> coloring \<Rightarrow> StepId list \<Rightarrow> (bool \<times> coloring \<times> StepId list) option"
where
  "dfs_detect_cycle 0 node adj color path = None"
| "dfs_detect_cycle (Suc n) node adj color path =
     (let color = color(node \<mapsto> Gray);
          path = path @ [node];
          neighbors = (case adj node of Some ns \<Rightarrow> ns | None \<Rightarrow> [])
      in case dfs_neighbors n neighbors adj color path of
           Some (False, color, path) \<Rightarrow> Some (False, color(node \<mapsto> Black), butlast path)
         | r \<Rightarrow> r)"
| "dfs_neighbors n [] adj color path = Some (False, color, path)"
| "dfs_neighbors n (neighbor # rest) adj color path =
     (case color neighbor of
        Some Gray \<Rightarrow> Some (True, color, path @ [neighbor])
      | Some Black \<Rightarrow> dfs_neighbors n rest adj color path
      | None \<Rightarrow>
          (case dfs_detect_cycle n neighbor adj color path of
             Some (False, color, path) \<Rightarrow> dfs_neighbors n rest adj color path
           | r \<Rightarrow> r))"

text \<open>The loop over the remaining steps, after the search from the entry.\<close>

fun detect_rest ::
  "nat \<Rightarrow> Step list \<Rightarrow> adjacency \<Rightarrow> coloring \<Rightarrow> StepId list \<Rightarrow> (ValidationError + unit) option" where
  "detect_rest n [] adj color path = Some (Inr ())"
| "detect_rest n (s # steps) adj color path =
     (if color (step_id s) = None then
        (case dfs_detect_cycle n (step_id s) adj color path of
           None \<Rightarrow> None
         | Some (True, color, path) \<Rightarrow> Some (Inl (CycleDetected path))
         | Some (False, color, path) \<Rightarrow> detect_rest n steps adj color path)
      else detect_rest n steps adj color path)"

definition cycle_fuel :: "Workflow \<Rightarrow> nat" where
  "cycle_fuel w = 1 + length (wf_steps w) + length (concat (map step_targets (wf_steps w)))"

definition detect_cycles_opt :: "Workflow \<Rightarrow> (ValidationError + unit) option" where
  "detect_cycles_opt w =
     (let adj = adjacency_of w; n = cycle_fuel w in
      case dfs_detect_cycle n (wf_entry w) adj Map.empty [] of
        None \<Rightarrow> None
      | Some (True, color, path) \<Rightarrow> Some (Inl (CycleDetected path))
      | Some (False, color, path) \<Rightarrow> detect_rest n (wf_steps w) adj color path)"

definition detect_cycles :: "Workflow \<Rightarrow> ValidationError + unit" where
  "detect_cycles w = the (detect_cycles_opt w)"

section \<open>Validation\<close>

definition validate_edges :: "Workflow \<Rightarrow> Step \<Rightarrow> ValidationError + unit" where
  "validate_edges w s = check_all
     (\<lambda>e. case edge_target e of
            StepTarget t \<Rightarrow>
              if get_step w t = None then Inl (UnknownNode t (step_id s)) else Inr ()
          | Return \<Rightarrow> Inr ()) (step_edges s)"

definition validate_depends :: "Workflow \<Rightarrow> Step \<Rightarrow> ValidationError + unit" where
  "validate_depends w s = check_all
     (\<lambda>d. if get_step w d = None then Inl (UnknownNode d (''depends_on:'' @ step_id s))
           else Inr ()) (step_depends_on s)"

definition has_return :: "Workflow \<Rightarrow> bool" where
  "has_return w = list_ex (\<lambda>s. list_ex (\<lambda>e. edge_target e = Return) (step_edges s)) (wf_steps w)"

definition Workflow_validate :: "Workflow \<Rightarrow> ValidationError + unit" where
  "Workflow_validate w =
     (if get_step w (wf_entry w) = None then Inl NoEntryNode
      else rbind (check_all (\<lambda>s. rbind (validate_edges w s) (\<lambda>_. validate_depends w s)) (wf_steps w))
        (\<lambda>_. if \<not> has_return w then Inl NoReturnNode else detect_cycles w))"

section \<open>The cycle search refines the abstract search\<close>

definition succ_of :: "adjacency \<Rightarrow> StepId \<Rightarrow> StepId list" where
  "succ_of adj i = (case adj i of Some ns \<Rightarrow> ns | None \<Rightarrow> [])"

definition wf_succ :: "Workflow \<Rightarrow> StepId \<Rightarrow> StepId list" where
  "wf_succ w = succ_of (adjacency_of w)"

text \<open>A colouring represents a path and a set of seen vertices.\<close>

definition represents :: "coloring \<Rightarrow> StepId list \<Rightarrow> StepId set \<Rightarrow> bool" where
  "represents color path seen \<longleftrightarrow>
     set path \<subseteq> seen \<and>
     (\<forall>v. color v = (if v \<in> set path then Some Gray else if v \<in> seen then Some Black else None))"

text \<open>The outcome of the abstract search, as the concrete one reports it.\<close>

definition outcome_agrees ::
  "StepId list \<Rightarrow> (bool \<times> coloring \<times> StepId list) option \<Rightarrow> (StepId list + StepId set) option \<Rightarrow> bool" where
  "outcome_agrees path c a \<longleftrightarrow>
     (case a of
        None \<Rightarrow> c = None
      | Some (Inl p) \<Rightarrow> (\<exists>color. c = Some (True, color, p))
      | Some (Inr seen) \<Rightarrow> (\<exists>color. c = Some (False, color, path) \<and> represents color path seen))"

lemma represents_push:
  "represents color path seen \<Longrightarrow> v \<notin> seen \<Longrightarrow>
   represents (color(v \<mapsto> Gray)) (path @ [v]) (insert v seen)"
  by (auto simp: represents_def)

lemma represents_pop:
  "represents color (path @ [v]) seen \<Longrightarrow> v \<notin> set path \<Longrightarrow>
   represents (color(v \<mapsto> Black)) path seen"
  by (auto simp: represents_def)

lemma dfs_detect_cycle_Suc:
  "dfs_detect_cycle (Suc n) node adj color path =
     (case dfs_neighbors n (succ_of adj node) adj (color(node \<mapsto> Gray)) (path @ [node]) of
        Some (False, color, path) \<Rightarrow> Some (False, color(node \<mapsto> Black), butlast path)
      | r \<Rightarrow> r)"
  by (simp add: succ_of_def Let_def)

lemma dfs_refines_visit:
  "represents color path seen \<Longrightarrow> node \<notin> seen \<Longrightarrow>
      outcome_agrees path (dfs_detect_cycle n node adj color path)
        (visit n (succ_of adj) [node] path seen)"
  "represents color path seen \<Longrightarrow>
      outcome_agrees path (dfs_neighbors n neighbors adj color path)
        (visit n (succ_of adj) neighbors path seen)"
proof (induction n node adj color path and n neighbors adj color path
    arbitrary: seen and seen rule: dfs_detect_cycle_dfs_neighbors.induct)
  case (1 node adj color path)
  then have "node \<notin> set path" by (auto simp: represents_def)
  with 1 show ?case by (simp add: outcome_agrees_def)
next
  case (2 n node adj color path)
  then have node: "node \<notin> set path" by (auto simp: represents_def)
  have rep: "represents (color(node \<mapsto> Gray)) (path @ [node]) (insert node seen)"
    using 2 represents_push by blast
  have IH: "outcome_agrees (path @ [node])
      (dfs_neighbors n (succ_of adj node) adj (color(node \<mapsto> Gray)) (path @ [node]))
      (visit n (succ_of adj) (succ_of adj node) (path @ [node]) (insert node seen))"
    using "2.IH" [OF refl refl refl rep] by (simp only: succ_of_def [of adj node])
  show ?case
  proof (cases "visit n (succ_of adj) (succ_of adj node) (path @ [node]) (insert node seen)")
    case None
    with IH node "2.prems" show ?thesis by (simp add: outcome_agrees_def dfs_detect_cycle_Suc del: dfs_detect_cycle.simps)
  next
    case (Some r)
    show ?thesis
    proof (cases r)
      case (Inl p)
      with Some IH node "2.prems" show ?thesis
        by (auto simp: outcome_agrees_def dfs_detect_cycle_Suc simp del: dfs_detect_cycle.simps)
    next
      case (Inr seen')
      with Some IH node "2.prems" show ?thesis
        by (auto simp: outcome_agrees_def dfs_detect_cycle_Suc simp del: dfs_detect_cycle.simps
            intro: represents_pop)
    qed
  qed
next
  case (3 n adj color path)
  then show ?case by (auto simp: outcome_agrees_def)
next
  case (4 n neighbor rest adj color path)
  note rep = "4.prems"
  consider "neighbor \<in> set path" | "neighbor \<notin> set path" "neighbor \<in> seen"
    | "neighbor \<notin> set path" "neighbor \<notin> seen" by blast
  then show ?case
  proof cases
    case 1
    with rep show ?thesis by (auto simp: outcome_agrees_def represents_def)
  next
    case 2
    with rep have "color neighbor = Some Black" by (auto simp: represents_def)
    with 2 4 show ?thesis by simp
  next
    case 3
    with rep have c: "color neighbor = None" by (auto simp: represents_def)
    note first = "4.IH"(1) [OF c rep 3(2)]
    show ?thesis
    proof (cases "visit n (succ_of adj) [neighbor] path seen")
      case None
      with first 3 c show ?thesis
        by (auto simp: outcome_agrees_def split: nat.splits option.splits sum.splits)
    next
      case (Some r)
      show ?thesis
      proof (cases r)
        case (Inl p)
        with Some first 3 c show ?thesis
          by (auto simp: outcome_agrees_def split: nat.splits option.splits sum.splits)
      next
        case (Inr seen')
        with Some first obtain color' where d:
          "dfs_detect_cycle n neighbor adj color path = Some (False, color', path)"
          "represents color' path seen'" by (auto simp: outcome_agrees_def)
        have "visit n (succ_of adj) (neighbor # rest) path seen = visit n (succ_of adj) rest path seen'"
          using Some Inr 3 by (auto split: nat.splits option.splits sum.splits)
        with "4.IH"(2) [OF c d(1) refl refl refl d(2)] d(1) c show ?thesis by simp
      qed
    qed
  qed
qed

section \<open>Correctness of the cycle detection\<close>

lemma adjacency_fold_dom:
  "dom (fold (\<lambda>s m. m(step_id s \<mapsto> step_targets s)) ss m) = step_id ` set ss \<union> dom m"
  by (induction ss arbitrary: m) auto

lemma adjacency_fold_ran:
  "fold (\<lambda>s m. m(step_id s \<mapsto> step_targets s)) ss m i = Some ns \<Longrightarrow>
   (\<exists>s \<in> set ss. step_id s = i \<and> ns = step_targets s) \<or> m i = Some ns"
proof (induction ss arbitrary: m)
  case (Cons s ss)
  from Cons.prems have "fold (\<lambda>s m. m(step_id s \<mapsto> step_targets s)) ss
      (m(step_id s \<mapsto> step_targets s)) i = Some ns" by (simp only: fold_Cons comp_apply)
  from Cons.IH [OF this] show ?case by (auto split: if_splits)
qed simp

lemma wf_succ_edge:
  assumes "v \<in> set (wf_succ w u)"
  obtains s where "s \<in> set (wf_steps w)" "step_id s = u" "v \<in> set (step_targets s)"
proof -
  from assms obtain ns where "adjacency_of w u = Some ns" "v \<in> set ns"
    by (cases "adjacency_of w u") (auto simp: wf_succ_def succ_of_def)
  with adjacency_fold_ran [of "wf_steps w" Map.empty u ns] that show thesis
    by (auto simp: adjacency_of_def)
qed

lemma wf_succ_nonstep: "u \<notin> step_id ` set (wf_steps w) \<Longrightarrow> wf_succ w u = []"
  using adjacency_fold_dom [of "wf_steps w" Map.empty]
  by (auto simp: wf_succ_def succ_of_def adjacency_of_def split: option.splits)

text \<open>The vertices the search can meet, and that the fuel counts them.\<close>

definition wf_vertices :: "Workflow \<Rightarrow> StepId list" where
  "wf_vertices w = wf_entry w # map step_id (wf_steps w) @ concat (map step_targets (wf_steps w))"

lemma wf_succ_vertices: "set (wf_succ w u) \<subseteq> set (wf_vertices w)"
  by (auto simp: wf_vertices_def elim!: wf_succ_edge)

lemma visit_fuel:
  assumes "set xs \<subseteq> set (wf_vertices w)"
  shows "visit (cycle_fuel w) (wf_succ w) xs path seen \<noteq> None"
proof -
  have "card (set (wf_vertices w) - seen) \<le> card (set (wf_vertices w))"
    by (intro card_mono) auto
  also have "\<dots> \<le> cycle_fuel w"
    using card_length [of "wf_vertices w"] by (simp add: wf_vertices_def cycle_fuel_def)
  finally show ?thesis
    using visit_enough_fuel [of "set (wf_vertices w)" seen "cycle_fuel w" xs "wf_succ w" path]
      assms wf_succ_vertices by auto
qed

text \<open>One search from the empty path: its outcome in graph terms.\<close>

lemma dfs_root:
  assumes rep: "represents color [] seen" and fin: "finished (wf_succ w) seen"
    and node: "node \<in> set (wf_vertices w)" "node \<notin> seen"
  shows "(\<exists>color' p. dfs_detect_cycle (cycle_fuel w) node (adjacency_of w) color [] =
            Some (True, color', p) \<and> (\<exists>x \<in> set p. (x, x) \<in> (arcs (wf_succ w))\<^sup>+)) \<or>
         (\<exists>color' seen'. dfs_detect_cycle (cycle_fuel w) node (adjacency_of w) color [] =
            Some (False, color', []) \<and> represents color' [] seen' \<and> finished (wf_succ w) seen' \<and>
            insert node seen \<subseteq> seen')"
proof -
  let ?v = "visit (cycle_fuel w) (wf_succ w) [node] [] seen"
  let ?d = "dfs_detect_cycle (cycle_fuel w) node (adjacency_of w) color []"
  have agree: "outcome_agrees [] ?d ?v"
    using dfs_refines_visit(1) [OF rep node(2)] by (simp only: wf_succ_def)
  obtain r where r: "?v = Some r" using visit_fuel [of "[node]" w "[]" seen] node(1) by auto
  show ?thesis
  proof (cases r)
    case (Inl p)
    then have v: "?v = Some (Inl p)" using r by simp
    with agree obtain color' where "?d = Some (True, color', p)"
      by (auto simp only: outcome_agrees_def option.case sum.case)
    with visit_root_Inl [OF v] show ?thesis by blast
  next
    case (Inr seen')
    then have v: "?v = Some (Inr seen')" using r by simp
    with agree obtain color' where "?d = Some (False, color', [])" "represents color' [] seen'"
      by (auto simp only: outcome_agrees_def option.case sum.case)
    with visit_root_Inr [OF v fin] show ?thesis by auto
  qed
qed

lemma detect_rest_outcome:
  assumes "represents color [] seen" "finished (wf_succ w) seen"
    and "step_id ` set ss \<subseteq> set (wf_vertices w)"
  shows "(\<exists>p. detect_rest (cycle_fuel w) ss (adjacency_of w) color [] = Some (Inl (CycleDetected p)) \<and>
            (\<exists>x \<in> set p. (x, x) \<in> (arcs (wf_succ w))\<^sup>+)) \<or>
         (detect_rest (cycle_fuel w) ss (adjacency_of w) color [] = Some (Inr ()) \<and>
            (\<exists>seen'. finished (wf_succ w) seen' \<and> seen \<union> step_id ` set ss \<subseteq> seen'))"
  using assms
proof (induction ss arbitrary: color seen)
  case (Cons s ss)
  show ?case
  proof (cases "color (step_id s) = None")
    case True
    then have "step_id s \<notin> seen" using Cons.prems(1) by (auto simp: represents_def)
    then consider (cycle) color' p where
        "dfs_detect_cycle (cycle_fuel w) (step_id s) (adjacency_of w) color [] = Some (True, color', p)"
        "\<exists>x \<in> set p. (x, x) \<in> (arcs (wf_succ w))\<^sup>+"
      | (none) color' seen' where
        "dfs_detect_cycle (cycle_fuel w) (step_id s) (adjacency_of w) color [] = Some (False, color', [])"
        "represents color' [] seen'" "finished (wf_succ w) seen'" "insert (step_id s) seen \<subseteq> seen'"
      using dfs_root [OF Cons.prems(1,2), of "step_id s"] Cons.prems(3) by auto
    then show ?thesis
    proof cases
      case cycle
      with True show ?thesis by simp
    next
      case none
      then have "detect_rest (cycle_fuel w) (s # ss) (adjacency_of w) color [] =
          detect_rest (cycle_fuel w) ss (adjacency_of w) color' []" using True by simp
      moreover have "step_id ` set ss \<subseteq> set (wf_vertices w)" using Cons.prems(3) by simp
      moreover have "seen \<union> step_id ` set (s # ss) \<subseteq> s'" if "seen' \<union> step_id ` set ss \<subseteq> s'" for s'
        using that none(4) by auto
      ultimately show ?thesis using Cons.IH [OF none(2,3)] by metis
    qed
  next
    case False
    then have "step_id s \<in> seen" using Cons.prems(1) by (auto simp: represents_def split: if_splits)
    moreover have "detect_rest (cycle_fuel w) (s # ss) (adjacency_of w) color [] =
        detect_rest (cycle_fuel w) ss (adjacency_of w) color []" using False by auto
    moreover have "step_id ` set ss \<subseteq> set (wf_vertices w)" using Cons.prems(3) by simp
    ultimately show ?thesis using Cons.IH [OF Cons.prems(1,2)] by auto
  qed
qed (use assms in auto)

lemma detect_cycles_outcome:
  "(\<exists>p. detect_cycles_opt w = Some (Inl (CycleDetected p)) \<and>
      (\<exists>x \<in> set p. (x, x) \<in> (arcs (wf_succ w))\<^sup>+)) \<or>
   (detect_cycles_opt w = Some (Inr ()) \<and> acyclic (arcs (wf_succ w)))"
proof -
  have rep: "represents Map.empty [] {}" by (simp add: represents_def)
  consider (cycle) color p where
      "dfs_detect_cycle (cycle_fuel w) (wf_entry w) (adjacency_of w) Map.empty [] = Some (True, color, p)"
      "\<exists>x \<in> set p. (x, x) \<in> (arcs (wf_succ w))\<^sup>+"
    | (none) color seen where
      "dfs_detect_cycle (cycle_fuel w) (wf_entry w) (adjacency_of w) Map.empty [] = Some (False, color, [])"
      "represents color [] seen" "finished (wf_succ w) seen"
    using dfs_root [OF rep finished_empty [of "wf_succ w"], of "wf_entry w"] by (auto simp: wf_vertices_def)
  then show ?thesis
  proof cases
    case cycle
    then show ?thesis by (simp add: detect_cycles_opt_def Let_def)
  next
    case none
    have acyc: "acyclic (arcs (wf_succ w))"
      if "finished (wf_succ w) seen'" "step_id ` set (wf_steps w) \<subseteq> seen'" for seen'
    proof -
      have "(x, x) \<notin> (arcs (wf_succ w))\<^sup>+" for x
      proof (cases "x \<in> seen'")
        case True
        with that(1) show ?thesis by (rule finished_acyclic_on)
      next
        case False
        with that(2) have "wf_succ w x = []" by (intro wf_succ_nonstep) auto
        then show ?thesis by (auto simp: arcs_def dest: tranclD)
      qed
      then show ?thesis by (simp add: acyclic_def)
    qed
    have "step_id ` set (wf_steps w) \<subseteq> set (wf_vertices w)" by (auto simp: wf_vertices_def)
    from detect_rest_outcome [OF none(2,3) this] none(1) acyc show ?thesis
      by (auto simp: detect_cycles_opt_def Let_def)
  qed
qed

text \<open>The fuel is enough, so \<open>detect_cycles\<close> is the value the search returns.\<close>

lemma detect_cycles_fuel: "detect_cycles_opt w = Some (detect_cycles w)"
  using detect_cycles_outcome [of w] by (auto simp: detect_cycles_def)

lemma detect_cycles_Inr_iff: "detect_cycles w = Inr () \<longleftrightarrow> acyclic (arcs (wf_succ w))"
  using detect_cycles_outcome [of w] by (auto simp: detect_cycles_def acyclic_def)

section \<open>Properties\<close>

text \<open>
  C15. \<open>detect_cycles\<close> always returns. It accepts a workflow exactly when the graph of its
  step edges has no cycle, in the part the entry reaches and elsewhere; when it rejects, the
  path it reports contains a step that lies on a cycle.
\<close>

theorem detect_cycles_correct:
  "detect_cycles_opt w = Some (detect_cycles w) \<and>
   (case detect_cycles w of
      Inr _ \<Rightarrow> acyclic (arcs (wf_succ w))
    | Inl e \<Rightarrow> \<exists>p x. e = CycleDetected p \<and> x \<in> set p \<and> (x, x) \<in> (arcs (wf_succ w))\<^sup>+)"
proof (cases "detect_cycles w")
  case (Inl e)
  with detect_cycles_fuel [of w] detect_cycles_outcome [of w] show ?thesis by auto
next
  case (Inr u)
  with detect_cycles_fuel [of w] detect_cycles_Inr_iff [of w] show ?thesis by auto
qed

end
