(* ===== verification/Parser.thy ===== *)
theory Parser
  imports Workflow_IR
begin

text \<open>
  The first half of the YAML workflow parser: the engine configuration
  (\<^verbatim>\<open>konflux-substrate/src/engine.rs\<close>), the schema types
  (\<^verbatim>\<open>parser/schema.rs\<close>) and the validator with its reachability and cycle search
  (\<^verbatim>\<open>parser/validator.rs\<close>).

  An \<^verbatim>\<open>IndexMap\<close> is the association list of its entries in insertion order; a hash map is
  the list of its entries in the order it iterates. A hash set of names is a list without
  duplicates, whose order is not significant.
\<close>

section \<open>Engine configuration\<close>

record EngineConfig =
  cfg_max_steps :: nat
  cfg_default_timeout_ms :: u64
  cfg_max_workflow_timeout_ms :: u64
  cfg_stream_buffer :: nat
  cfg_finished_channel_size :: nat
  cfg_default_retry_backoff_ms :: u64
  cfg_max_yaml_size :: nat
  cfg_max_concurrent_nodes :: nat
  cfg_default_retry_base_delay_ms :: u64
  cfg_default_retry_max_delay_ms :: u64

definition EngineConfig_default :: EngineConfig where
  "EngineConfig_default =
     \<lparr> cfg_max_steps = 1000, cfg_default_timeout_ms = 30000,
       cfg_max_workflow_timeout_ms = 300000, cfg_stream_buffer = 256,
       cfg_finished_channel_size = 100, cfg_default_retry_backoff_ms = 250,
       cfg_max_yaml_size = 10 * 1024 * 1024, cfg_max_concurrent_nodes = 50,
       cfg_default_retry_base_delay_ms = 1000, cfg_default_retry_max_delay_ms = 30000 \<rparr>"

definition EngineConfig_validate :: "EngineConfig \<Rightarrow> string + unit" where
  "EngineConfig_validate c =
     (if cfg_max_steps c = 0 then Inl ''max_steps must be > 0''
      else if cfg_default_timeout_ms c = 0 then Inl ''default_timeout_ms must be > 0''
      else if cfg_stream_buffer c = 0 then Inl ''stream_buffer must be > 0''
      else if cfg_finished_channel_size c = 0 then Inl ''finished_channel_size must be > 0''
      else if cfg_max_yaml_size c = 0 then Inl ''max_yaml_size must be > 0''
      else if cfg_max_concurrent_nodes c = 0 then Inl ''max_concurrent_nodes must be > 0''
      else if cfg_default_retry_base_delay_ms c = 0
        then Inl ''default_retry_base_delay_ms must be > 0''
      else if cfg_default_retry_max_delay_ms c = 0
        then Inl ''default_retry_max_delay_ms must be > 0''
      else Inr ())"

section \<open>Schema\<close>

record ParallelTaskConfig =
  task_tool :: string
  task_with :: "json option"

datatype DoBlock = Single string | Parallel "(string \<times> ParallelTaskConfig) list list"

datatype PipeStepSchema =
    PipeSimple string
  | WithArgs "(string \<times> json) list"
  | PipeFull string "json option"

record ThenBranchSchema =
  then_when :: "string option"
  then_then :: "string option"
  then_goto :: "string option"
  then_else :: "bool option"

datatype ThenBlock =
    Unconditional string
  | Multiple "string list"
  | Conditional "ThenBranchSchema list"

record CatchBranchSchema =
  catch_when :: "json option"
  catch_do :: "string option"
  catch_with :: "json option"
  catch_then :: "string option"
  catch_else :: "bool option"

datatype CatchBlock = CatchSimple string | Branches "CatchBranchSchema list"

record RetryConfigSchema =
  retry_times :: u32
  retry_delay :: "string option"
  retry_backoff :: "string option"
  retry_max_delay :: "string option"
  retry_on :: "string list option"

record RepeatConfigSchema =
  rep_until :: string
  rep_max :: u32
  rep_as :: "string option"

record JoinConfigSchema =
  join_wait_for :: "string list"
  join_policy :: "string option"

datatype StreamConfigSchema = StreamNone | StreamEnabled bool | StreamModeName string

record NodeSchema =
  node_do :: "DoBlock option"
  node_with :: "json option"
  node_pipe :: "PipeStepSchema list"
  node_then :: "ThenBlock option"
  node_catch :: CatchBlock
  node_retry :: "RetryConfigSchema option"
  node_timeout :: "string option"
  node_entry :: "bool option"
  node_repeat :: "RepeatConfigSchema option"
  node_stream :: StreamConfigSchema
  node_return :: "json option"
  node_join :: "JoinConfigSchema option"
  node_credentials :: "string smap"
  node_grant :: "string list option"

record WorkflowSchema =
  sch_workflow :: string
  sch_version :: string
  sch_description :: "string option"
  sch_capabilities :: "string list"
  sch_input_schema :: "json option"
  sch_output_schema :: "json option"
  sch_register_as_tool :: bool
  sch_nodes :: "(string \<times> NodeSchema) list"

definition catch_is_match :: "CatchBranchSchema \<Rightarrow> bool" where
  "catch_is_match b =
     (if catch_else b = Some True then True
      else (case catch_when b of
              None \<Rightarrow> True
            | Some (JBool v) \<Rightarrow> v
            | Some (JString s) \<Rightarrow> s = ''true''
            | _ \<Rightarrow> False))"

fun to_mode :: "StreamConfigSchema \<Rightarrow> StreamMode" where
  "to_mode StreamNone = StreamDefault"
| "to_mode (StreamEnabled True) = Passthrough"
| "to_mode (StreamEnabled False) = StreamDefault"
| "to_mode (StreamModeName s) =
     (let l = to_lowercase s in
      if l = ''passthrough'' \<or> l = ''pass'' \<or> l = ''stream'' then Passthrough else StreamDefault)"

definition node_names :: "WorkflowSchema \<Rightarrow> string list" where
  "node_names sch = map fst (sch_nodes sch)"

section \<open>Validator\<close>

text \<open>The closure of the validator's \<open>check_tool\<close>, for one declared capability.\<close>

definition cap_allows :: "string \<Rightarrow> string \<Rightarrow> bool" where
  "cap_allows tool cap =
     (if cap = ''*'' then True
      else (case strip_suffix cap '':*'' of
              Some p \<Rightarrow> starts_with tool p \<and> byte_at tool (length p) = Some (CHR '':'')
            | None \<Rightarrow> cap = tool))"

definition validator_check_tool :: "WorkflowSchema \<Rightarrow> string \<Rightarrow> ValidationError + unit" where
  "validator_check_tool sch tool =
     (if sch_capabilities sch \<noteq> [] \<and> \<not> list_ex (cap_allows tool) (sch_capabilities sch)
      then Inl (MissingCapability tool) else Inr ())"

definition check_known :: "WorkflowSchema \<Rightarrow> string \<Rightarrow> string \<Rightarrow> ValidationError + unit" where
  "check_known sch name target =
     (if target \<in> set (node_names sch) then Inr () else Inl (UnknownNode target name))"

definition branch_target :: "ThenBranchSchema \<Rightarrow> string option" where
  "branch_target b = (case then_then b of Some t \<Rightarrow> Some t | None \<Rightarrow> then_goto b)"

definition check_optional :: "('a \<Rightarrow> ValidationError + unit) \<Rightarrow> 'a option \<Rightarrow> ValidationError + unit" where
  "check_optional f x = (case x of Some t \<Rightarrow> f t | None \<Rightarrow> Inr ())"

definition validate_do :: "WorkflowSchema \<Rightarrow> NodeSchema \<Rightarrow> ValidationError + unit" where
  "validate_do sch node =
     (case node_do node of
        None \<Rightarrow> Inr ()
      | Some (Single tool) \<Rightarrow> validator_check_tool sch tool
      | Some (Parallel tasks) \<Rightarrow>
          check_all (\<lambda>task_map.
            check_all (\<lambda>(k, task). validator_check_tool sch (task_tool task)) task_map) tasks)"

definition validate_pipe :: "WorkflowSchema \<Rightarrow> NodeSchema \<Rightarrow> ValidationError + unit" where
  "validate_pipe sch node = check_all
     (\<lambda>p. case p of
            PipeSimple tool \<Rightarrow> validator_check_tool sch tool
          | WithArgs m \<Rightarrow> (case m of (tool, args) # _ \<Rightarrow> validator_check_tool sch tool | [] \<Rightarrow> Inr ())
          | PipeFull do_tool w \<Rightarrow> validator_check_tool sch do_tool) (node_pipe node)"

definition validate_then :: "WorkflowSchema \<Rightarrow> string \<Rightarrow> NodeSchema \<Rightarrow> ValidationError + unit" where
  "validate_then sch name node =
     (case node_then node of
        None \<Rightarrow> Inr ()
      | Some (Unconditional target) \<Rightarrow> check_known sch name target
      | Some (Multiple targets) \<Rightarrow> check_all (check_known sch name) targets
      | Some (Conditional branches) \<Rightarrow>
          check_all (\<lambda>b. check_optional (check_known sch name) (branch_target b)) branches)"

definition validate_catch :: "WorkflowSchema \<Rightarrow> string \<Rightarrow> NodeSchema \<Rightarrow> ValidationError + unit" where
  "validate_catch sch name node =
     (case node_catch node of
        CatchSimple target \<Rightarrow> check_known sch name target
      | Branches branches \<Rightarrow> check_all
          (\<lambda>b. rbind (check_optional (check_known sch name) (catch_then b)) (\<lambda>_.
             check_optional (\<lambda>d.
               if d \<noteq> ''skip'' \<and> d \<noteq> ''continue'' \<and> \<not> starts_with d ''fallback:''
               then validator_check_tool sch d else Inr ()) (catch_do b))) branches)"

definition validate_node :: "WorkflowSchema \<Rightarrow> string \<Rightarrow> NodeSchema \<Rightarrow> ValidationError + unit" where
  "validate_node sch name node =
     rbind (validate_do sch node) (\<lambda>_.
     rbind (validate_pipe sch node) (\<lambda>_.
     rbind (validate_then sch name node) (\<lambda>_.
     validate_catch sch name node)))"

text \<open>The successors the search follows: the targets of \<open>then\<close>, then those of \<open>catch\<close>.\<close>

definition then_targets :: "NodeSchema \<Rightarrow> string list" where
  "then_targets node =
     (case node_then node of
        None \<Rightarrow> []
      | Some (Unconditional target) \<Rightarrow> [target]
      | Some (Multiple targets) \<Rightarrow> targets
      | Some (Conditional branches) \<Rightarrow> List.map_filter branch_target branches)"

definition catch_targets :: "NodeSchema \<Rightarrow> string list" where
  "catch_targets node =
     (case node_catch node of
        CatchSimple target \<Rightarrow> [target]
      | Branches branches \<Rightarrow> List.map_filter catch_then branches)"

definition sch_succ :: "WorkflowSchema \<Rightarrow> string \<Rightarrow> string list" where
  "sch_succ sch current =
     (case map_of (sch_nodes sch) current of
        Some node \<Rightarrow> then_targets node @ catch_targets node
      | None \<Rightarrow> [])"

type_synonym dfs_state = "string set \<times> string list \<times> string set"

fun validator_dfs ::
    "nat \<Rightarrow> WorkflowSchema \<Rightarrow> string \<Rightarrow> dfs_state \<Rightarrow> (ValidationError + dfs_state) option"
  and validator_dfs_all ::
    "nat \<Rightarrow> WorkflowSchema \<Rightarrow> string list \<Rightarrow> dfs_state \<Rightarrow> (ValidationError + dfs_state) option"
where
  "validator_dfs n sch current (visited, path, reachable) =
     (if current \<in> set path then Some (Inl (CycleDetected (path @ [current])))
      else if current \<in> visited then Some (Inr (visited, path, insert current reachable))
      else (case n of
              0 \<Rightarrow> None
            | Suc m \<Rightarrow>
                (case validator_dfs_all m sch (sch_succ sch current)
                        (insert current visited, path @ [current], insert current reachable) of
                   Some (Inr (visited', path', reachable')) \<Rightarrow>
                     Some (Inr (visited', butlast path', reachable'))
                 | r \<Rightarrow> r)))"
| "validator_dfs_all n sch [] st = Some (Inr st)"
| "validator_dfs_all n sch (target # targets) st =
     (case validator_dfs n sch target st of
        Some (Inr st') \<Rightarrow> validator_dfs_all n sch targets st'
      | r \<Rightarrow> r)"

definition search_fuel :: "WorkflowSchema \<Rightarrow> nat" where
  "search_fuel sch =
     1 + length (sch_nodes sch) +
     length (concat (map (\<lambda>(k, node). then_targets node @ catch_targets node) (sch_nodes sch)))"

definition check_reachability_and_cycles_opt ::
  "WorkflowSchema \<Rightarrow> string \<Rightarrow> (ValidationError + unit) option" where
  "check_reachability_and_cycles_opt sch entry_id =
     (case validator_dfs (search_fuel sch) sch entry_id ({}, [], {}) of
        None \<Rightarrow> None
      | Some (Inl e) \<Rightarrow> Some (Inl e)
      | Some (Inr (visited, path, reachable)) \<Rightarrow>
          Some (check_all (\<lambda>n. if n \<in> reachable then Inr () else Inl (OrphanedNode n))
                  (node_names sch)))"

definition check_reachability_and_cycles :: "WorkflowSchema \<Rightarrow> string \<Rightarrow> ValidationError + unit" where
  "check_reachability_and_cycles sch entry_id = the (check_reachability_and_cycles_opt sch entry_id)"

definition check_terminals :: "WorkflowSchema \<Rightarrow> ValidationError + unit" where
  "check_terminals sch =
     (if list_ex (\<lambda>(k, node). node_return node \<noteq> None) (sch_nodes sch)
      then Inr () else Inl NoReturnNode)"

definition validator_validate :: "WorkflowSchema \<Rightarrow> ValidationError + unit" where
  "validator_validate sch =
     (case sch_nodes sch of
        [] \<Rightarrow> Inl NoEntryNode
      | (entry_id, _) # _ \<Rightarrow>
          rbind (check_all (\<lambda>(name, node). validate_node sch name node) (sch_nodes sch)) (\<lambda>_.
          rbind (check_reachability_and_cycles sch entry_id) (\<lambda>_.
          check_terminals sch)))"

section \<open>The validator's search refines the abstract search\<close>

definition validator_outcome ::
  "string list \<Rightarrow> (string list + string set) option \<Rightarrow> (ValidationError + dfs_state) option" where
  "validator_outcome path a =
     map_option (\<lambda>r. case r of Inl c \<Rightarrow> Inl (CycleDetected c) | Inr V \<Rightarrow> Inr (V, path, V)) a"

lemma validator_dfs_refines_visit:
  "set path \<subseteq> V \<Longrightarrow> validator_dfs n sch x (V, path, V) =
     validator_outcome path (visit n (sch_succ sch) [x] path V)"
  "set path \<subseteq> V \<Longrightarrow> validator_dfs_all n sch xs (V, path, V) =
     validator_outcome path (visit n (sch_succ sch) xs path V)"
proof (induction n sch x "(V, path, V)" and n sch xs "(V, path, V)"
    arbitrary: V path and V path rule: validator_dfs_validator_dfs_all.induct)
  case (1 n sch x V path)
  consider "x \<in> set path" | "x \<notin> set path" "x \<in> V" | "x \<notin> set path" "x \<notin> V" by blast
  then show ?case
  proof cases
    case 1
    then show ?thesis by (simp add: validator_outcome_def)
  next
    case 2
    then show ?thesis by (simp add: validator_outcome_def insert_absorb)
  next
    case 3
    show ?thesis
    proof (cases n)
      case 0
      with 3 show ?thesis by (simp add: validator_outcome_def)
    next
      case (Suc m)
      have "set (path @ [x]) \<subseteq> insert x V" using "1.prems" by auto
      with "1.hyps" [OF 3 Suc] 3 Suc show ?thesis
        by (auto simp: validator_outcome_def split: option.splits sum.splits)
    qed
  qed
next
  case (2 n sch V path)
  then show ?case by (simp add: validator_outcome_def)
next
  case (3 n sch t ts V path)
  note head = "3.hyps"(1) [OF "3.prems"]
  show ?case
  proof (cases "visit n (sch_succ sch) [t] path V")
    case None
    with head show ?thesis
      by (simp add: validator_outcome_def visit_Cons [of _ _ t ts] del: visit.simps(2)
          validator_dfs.simps)
  next
    case (Some r)
    show ?thesis
    proof (cases r)
      case (Inl c)
      with Some head show ?thesis
        by (simp add: validator_outcome_def visit_Cons [of _ _ t ts] del: visit.simps(2)
            validator_dfs.simps)
    next
      case (Inr V')
      then have eq: "validator_dfs n sch t (V, path, V) = Some (Inr (V', path, V'))"
        using Some head by (simp add: validator_outcome_def del: visit.simps(2) validator_dfs.simps)
      have "set path \<subseteq> V'" using visit_mono [of n "sch_succ sch" "[t]" path V V'] Some Inr "3.prems"
        by (simp del: visit.simps(2))
      from "3.hyps"(2) [OF eq refl this] eq Some Inr show ?thesis
        by (simp add: visit_Cons [of _ _ t ts] del: visit.simps(2) validator_dfs.simps)
    qed
  qed
qed

section \<open>What the node checks establish\<close>

text \<open>The tools a node names: in \<open>do\<close>, in \<open>pipe\<close>, and in \<open>catch\<close> actions.\<close>

definition do_tools :: "NodeSchema \<Rightarrow> string list" where
  "do_tools node =
     (case node_do node of
        None \<Rightarrow> []
      | Some (Single tool) \<Rightarrow> [tool]
      | Some (Parallel tasks) \<Rightarrow> map (task_tool \<circ> snd) (concat tasks))"

definition pipe_tools :: "NodeSchema \<Rightarrow> string list" where
  "pipe_tools node = concat (map
     (\<lambda>p. case p of PipeSimple t \<Rightarrow> [t] | WithArgs m \<Rightarrow> map fst (take 1 m) | PipeFull t w \<Rightarrow> [t])
     (node_pipe node))"

definition catch_tools :: "NodeSchema \<Rightarrow> string list" where
  "catch_tools node =
     (case node_catch node of
        CatchSimple t \<Rightarrow> []
      | Branches bs \<Rightarrow> List.filter
          (\<lambda>d. d \<noteq> ''skip'' \<and> d \<noteq> ''continue'' \<and> \<not> starts_with d ''fallback:'')
          (List.map_filter catch_do bs))"

definition node_tools :: "NodeSchema \<Rightarrow> string list" where
  "node_tools node = do_tools node @ pipe_tools node @ catch_tools node"

text \<open>A schema that declares capabilities permits what its capability set permits.\<close>

definition sch_permits :: "WorkflowSchema \<Rightarrow> string \<Rightarrow> bool" where
  "sch_permits sch tool \<longleftrightarrow>
     sch_capabilities sch = [] \<or> CapSet_permits (CapSet_from_patterns (sch_capabilities sch)) tool"

lemma cap_allows_iff: "cap_allows tool cap = Capability_matches (Capability cap) tool"
  by (simp add: cap_allows_def Capability_matches_def split: option.split)

lemma validator_check_tool_iff [result_simps]:
  "validator_check_tool sch tool = Inr () \<longleftrightarrow> sch_permits sch tool"
  by (auto simp: validator_check_tool_def sch_permits_def CapSet_permits_iff
      CapSet_from_patterns_def cap_allows_iff list_ex_iff)

lemma check_known_iff [result_simps]:
  "check_known sch name target = Inr () \<longleftrightarrow> target \<in> set (node_names sch)"
  by (simp add: check_known_def)

lemma check_optional_iff [result_simps]:
  "check_optional f x = Inr () \<longleftrightarrow> (\<forall>t. x = Some t \<longrightarrow> f t = Inr ())"
  by (cases x) (auto simp: check_optional_def)

lemma set_map_filter: "set (List.map_filter f xs) = {y. \<exists>x \<in> set xs. f x = Some y}"
  by (force simp: List.map_filter_def)

lemma validate_do_iff:
  "validate_do sch node = Inr () \<longleftrightarrow> (\<forall>t \<in> set (do_tools node). sch_permits sch t)"
proof (cases "node_do node")
  case (Some d)
  then show ?thesis
  proof (cases d)
    case (Parallel tasks)
    have "validate_do sch node = Inr () \<longleftrightarrow>
        (\<forall>m \<in> set tasks. \<forall>kt \<in> set m. sch_permits sch (task_tool (snd kt)))"
      by (simp add: Some Parallel validate_do_def check_all_eq_Inr case_prod_beta
          validator_check_tool_iff)
    then show ?thesis by (simp add: Some Parallel do_tools_def)
  qed (simp add: validate_do_def do_tools_def validator_check_tool_iff)
qed (simp add: validate_do_def do_tools_def)

lemma validate_pipe_iff:
  "validate_pipe sch node = Inr () \<longleftrightarrow> (\<forall>t \<in> set (pipe_tools node). sch_permits sch t)"
proof -
  have "(case p of
      PipeSimple tool \<Rightarrow> validator_check_tool sch tool
    | WithArgs m \<Rightarrow> (case m of (tool, args) # _ \<Rightarrow> validator_check_tool sch tool | [] \<Rightarrow> Inr ())
    | PipeFull do_tool w \<Rightarrow> validator_check_tool sch do_tool) = Inr () \<longleftrightarrow>
    (\<forall>t \<in> set (case p of PipeSimple t \<Rightarrow> [t] | WithArgs m \<Rightarrow> map fst (take 1 m)
                  | PipeFull t w \<Rightarrow> [t]). sch_permits sch t)" for p
    by (cases p) (auto simp: validator_check_tool_iff split: list.split)
  then show ?thesis
    by (simp add: validate_pipe_def pipe_tools_def check_all_eq_Inr del: One_nat_def)
qed

lemma validate_then_iff:
  "validate_then sch name node = Inr () \<longleftrightarrow> set (then_targets node) \<subseteq> set (node_names sch)"
  by (auto simp: validate_then_def then_targets_def result_simps set_map_filter
      split: option.split ThenBlock.split)

lemma validate_catch_iff:
  "validate_catch sch name node = Inr () \<longleftrightarrow>
     set (catch_targets node) \<subseteq> set (node_names sch) \<and>
     (\<forall>t \<in> set (catch_tools node). sch_permits sch t)"
proof (cases "node_catch node")
  case (CatchSimple t)
  then show ?thesis
    by (simp add: validate_catch_def catch_targets_def catch_tools_def result_simps)
next
  case (Branches bs)
  have "validate_catch sch name node = Inr () \<longleftrightarrow>
      (\<forall>b \<in> set bs. (\<forall>t. catch_then b = Some t \<longrightarrow> t \<in> set (node_names sch)) \<and>
        (\<forall>d. catch_do b = Some d \<longrightarrow> d \<noteq> ''skip'' \<and> d \<noteq> ''continue'' \<and>
           \<not> starts_with d ''fallback:'' \<longrightarrow> sch_permits sch d))"
    unfolding validate_catch_def Branches CatchBlock.case check_all_eq_Inr
    by (simp add: rbind_eq_Inr check_optional_iff check_known_iff validator_check_tool_iff) blast
  then show ?thesis
    by (auto simp: Branches catch_targets_def catch_tools_def set_map_filter)
qed

definition node_ok :: "WorkflowSchema \<Rightarrow> NodeSchema \<Rightarrow> bool" where
  "node_ok sch node \<longleftrightarrow>
     (\<forall>t \<in> set (node_tools node). sch_permits sch t) \<and>
     set (then_targets node @ catch_targets node) \<subseteq> set (node_names sch)"

lemma validate_node_iff: "validate_node sch name node = Inr () \<longleftrightarrow> node_ok sch node"
  by (auto simp: validate_node_def node_ok_def node_tools_def rbind_eq_Inr validate_do_iff
      validate_pipe_iff validate_then_iff validate_catch_iff)

section \<open>Correctness of the reachability and cycle check\<close>

lemma sch_succ_node:
  assumes "v \<in> set (sch_succ sch u)"
  obtains node where "(u, node) \<in> set (sch_nodes sch)" "v \<in> set (then_targets node @ catch_targets node)"
  using assms that by (cases "map_of (sch_nodes sch) u") (auto simp: sch_succ_def dest: map_of_SomeD)

lemma sch_succ_nonnode: "u \<notin> set (node_names sch) \<Longrightarrow> sch_succ sch u = []"
  using map_of_eq_None_iff [of "sch_nodes sch" u] by (simp add: node_names_def sch_succ_def)

definition sch_vertices :: "WorkflowSchema \<Rightarrow> string \<Rightarrow> string list" where
  "sch_vertices sch entry = entry # map fst (sch_nodes sch) @
     concat (map (\<lambda>(k, node). then_targets node @ catch_targets node) (sch_nodes sch))"

lemma sch_search_fuel: "visit (search_fuel sch) (sch_succ sch) [entry] [] {} \<noteq> None"
proof -
  let ?U = "set (sch_vertices sch entry)"
  have "card ?U \<le> search_fuel sch"
    using card_length [of "sch_vertices sch entry"] by (simp add: sch_vertices_def search_fuel_def)
  moreover have "set (sch_succ sch u) \<subseteq> ?U" for u
    by (force simp: sch_vertices_def elim!: sch_succ_node)
  moreover have "set [entry] \<subseteq> ?U" by (simp add: sch_vertices_def)
  ultimately show ?thesis
    using visit_enough_fuel [of ?U "{}" "search_fuel sch" "[entry]" "sch_succ sch" "[]"]
    by (metis Diff_empty List.finite_set option.discI)
qed

lemma sch_search_outcome:
  "(\<exists>c. check_reachability_and_cycles_opt sch entry = Some (Inl (CycleDetected c)) \<and>
      (\<exists>x \<in> set c. (x, x) \<in> (arcs (sch_succ sch))\<^sup>+)) \<or>
   (\<exists>V. check_reachability_and_cycles_opt sch entry =
        Some (check_all (\<lambda>n. if n \<in> V then Inr () else Inl (OrphanedNode n)) (node_names sch)) \<and>
      finished (sch_succ sch) V \<and> V = (arcs (sch_succ sch))\<^sup>* `` {entry})"
proof -
  let ?v = "visit (search_fuel sch) (sch_succ sch) [entry] [] {}"
  have d: "validator_dfs (search_fuel sch) sch entry ({}, [], {}) = validator_outcome [] ?v"
    by (rule validator_dfs_refines_visit) simp
  obtain r where r: "?v = Some r" using sch_search_fuel [of sch entry] by auto
  show ?thesis
  proof (cases r)
    case (Inl c)
    with r have v: "?v = Some (Inl c)" by simp
    have "check_reachability_and_cycles_opt sch entry = Some (Inl (CycleDetected c))"
      unfolding check_reachability_and_cycles_opt_def d v by (simp add: validator_outcome_def)
    with visit_root_Inl [OF v] show ?thesis by blast
  next
    case (Inr V)
    with r have v: "?v = Some (Inr V)" by simp
    have "check_reachability_and_cycles_opt sch entry =
        Some (check_all (\<lambda>n. if n \<in> V then Inr () else Inl (OrphanedNode n)) (node_names sch))"
      unfolding check_reachability_and_cycles_opt_def d v by (simp add: validator_outcome_def)
    moreover have "finished (sch_succ sch) V" "V = (arcs (sch_succ sch))\<^sup>* `` {entry}"
      using visit_root_Inr [OF v finished_empty] finished_rtrancl [of "sch_succ sch" V] by auto
    ultimately show ?thesis by blast
  qed
qed

lemma acyclic_if_finished:
  assumes "finished (sch_succ sch) V" "set (node_names sch) \<subseteq> V"
  shows "acyclic (arcs (sch_succ sch))"
proof -
  have "(x, x) \<notin> (arcs (sch_succ sch))\<^sup>+" for x
  proof (cases "x \<in> V")
    case True
    with assms(1) show ?thesis by (rule finished_acyclic_on)
  next
    case False
    with assms(2) have "sch_succ sch x = []" by (intro sch_succ_nonnode) auto
    then show ?thesis by (auto simp: arcs_def dest: tranclD)
  qed
  then show ?thesis by (simp add: acyclic_def)
qed

lemma check_reachability_iff:
  "check_reachability_and_cycles sch entry = Inr () \<longleftrightarrow>
     (\<forall>n \<in> set (node_names sch). (entry, n) \<in> (arcs (sch_succ sch))\<^sup>*) \<and>
     acyclic (arcs (sch_succ sch))"
  using sch_search_outcome [of sch entry]
proof (elim disjE exE conjE)
  fix c assume "check_reachability_and_cycles_opt sch entry = Some (Inl (CycleDetected c))"
    "\<exists>x \<in> set c. (x, x) \<in> (arcs (sch_succ sch))\<^sup>+"
  then show ?thesis by (auto simp: check_reachability_and_cycles_def acyclic_def)
next
  fix V assume "check_reachability_and_cycles_opt sch entry =
      Some (check_all (\<lambda>n. if n \<in> V then Inr () else Inl (OrphanedNode n)) (node_names sch))"
    "finished (sch_succ sch) V" and V: "V = (arcs (sch_succ sch))\<^sup>* `` {entry}"
  then show ?thesis using acyclic_if_finished [of sch V]
    by (auto simp: check_reachability_and_cycles_def check_all_eq_Inr)
qed

lemma check_reachability_fuel:
  "check_reachability_and_cycles_opt sch entry = Some (check_reachability_and_cycles sch entry)"
  using sch_search_outcome [of sch entry] by (auto simp: check_reachability_and_cycles_def)

lemma validator_Inr_iff:
  "validator_validate sch = Inr () \<longleftrightarrow>
     (\<exists>entry first rest. sch_nodes sch = (entry, first) # rest \<and>
       (\<forall>n \<in> set (node_names sch). (entry, n) \<in> (arcs (sch_succ sch))\<^sup>*)) \<and>
     (\<forall>(name, node) \<in> set (sch_nodes sch). node_ok sch node) \<and>
     acyclic (arcs (sch_succ sch)) \<and>
     (\<exists>(name, node) \<in> set (sch_nodes sch). node_return node \<noteq> None)"
proof (cases "sch_nodes sch")
  case Nil
  then show ?thesis by (simp add: validator_validate_def)
next
  case (Cons e rest)
  obtain entry first where e: "e = (entry, first)" by force
  have terminals: "check_terminals sch = Inr () \<longleftrightarrow>
      (\<exists>(name, node) \<in> set (sch_nodes sch). node_return node \<noteq> None)"
    by (simp add: check_terminals_def list_ex_iff)
  have nodes: "check_all (\<lambda>(name, node). validate_node sch name node) (sch_nodes sch) = Inr () \<longleftrightarrow>
      (\<forall>(name, node) \<in> set (sch_nodes sch). node_ok sch node)"
    by (simp add: check_all_eq_Inr validate_node_iff case_prod_beta)
  have first: "(\<exists>entry first rest. sch_nodes sch = (entry, first) # rest \<and> P entry) \<longleftrightarrow> P entry" for P
    by (simp add: Cons e)
  have "validator_validate sch = Inr () \<longleftrightarrow>
      check_all (\<lambda>(name, node). validate_node sch name node) (sch_nodes sch) = Inr () \<and>
      check_reachability_and_cycles sch entry = Inr () \<and> check_terminals sch = Inr ()"
    unfolding validator_validate_def by (subst Cons) (simp only: e list.case prod.case rbind_eq_Inr, simp)
  then show ?thesis
    unfolding first terminals nodes check_reachability_iff by blast
qed

section \<open>Properties\<close>


end
