(* ===== verification/Compiler.thy ===== *)
theory Compiler
  imports Parser
begin

text \<open>
  The second half of the YAML workflow parser: the data-dependency graph
  (\<^verbatim>\<open>konflux-substrate/src/parser/graph.rs\<close>), the compilation of a schema into the
  workflow representation (\<^verbatim>\<open>parser/compiler.rs\<close>) and \<^verbatim>\<open>parser.rs\<close>'s \<open>parse\<close>.
  \<^verbatim>\<open>serde_yaml::from_str\<close> is the parameter \<open>from_yaml\<close> of \<open>parse\<close>.
\<close>

section \<open>The dependency graph\<close>

function extract_from_string :: "string \<Rightarrow> string list" where
  "extract_from_string s =
     (case find_str s ''{{'' of
        None \<Rightarrow> []
      | Some open_idx \<Rightarrow>
          (case find_str (drop (open_idx + 2) s) ''}}'' of
             None \<Rightarrow> []
           | Some close \<Rightarrow>
               (let inner = trim (take close (drop (open_idx + 2) s));
                    r = (case find_str inner ''.'' of
                           Some dot_idx \<Rightarrow> take dot_idx inner
                         | None \<Rightarrow> inner)
                in r # extract_from_string (drop (open_idx + 2 + close + 2) s))))"
  by pat_completeness auto
termination
proof (relation "measure length", goal_cases)
  case (2 s open_idx close inner r)
  then have "open_idx + 2 \<le> length s" using find_str_Some [of s "''{{''" open_idx] by simp
  then show ?case by simp
qed simp

declare extract_from_string.simps [simp del]

fun extract_references :: "json \<Rightarrow> string list" where
  "extract_references (JString s) = extract_from_string s"
| "extract_references (JArray arr) = concat (map extract_references arr)"
| "extract_references (JObject m) = concat (map (\<lambda>kv. extract_references (snd kv)) m)"
| "extract_references _ = []"

type_synonym DependencyGraph = "string \<Rightarrow> string list option"

definition add_edge :: "string \<Rightarrow> string \<Rightarrow> DependencyGraph \<Rightarrow> DependencyGraph" where
  "add_edge frm target g =
     (case g target of Some deps \<Rightarrow> g(target \<mapsto> List.insert frm deps) | None \<Rightarrow> g)"

definition node_refs :: "WorkflowSchema \<Rightarrow> string \<Rightarrow> NodeSchema \<Rightarrow> string list" where
  "node_refs sch name node =
     (case node_with node of
        Some w \<Rightarrow> List.filter (\<lambda>r. r \<in> set (node_names sch) \<and> r \<noteq> name) (extract_references w)
      | None \<Rightarrow> [])"

definition DependencyGraph_build :: "WorkflowSchema \<Rightarrow> DependencyGraph" where
  "DependencyGraph_build sch =
     fold (\<lambda>(name, node) g. fold (\<lambda>r. add_edge r name) (node_refs sch name node) g) (sch_nodes sch)
       (fold (\<lambda>(name, node) g. g(name \<mapsto> [])) (sch_nodes sch) Map.empty)"

section \<open>Compilation\<close>

definition value_to_expr :: "json \<Rightarrow> Expr" where
  "value_to_expr value =
     (case value of
        JString s \<Rightarrow>
          let body = take (length s - 4) (drop 2 s) in
          if starts_with s ''{{'' \<and> ends_with s ''}}'' \<and> \<not> contains_str body ''{{'' then
            (let inner = trim body in
             if list_all (\<lambda>c. is_alphanumeric c \<or> c = CHR ''.'' \<or> c = CHR ''_'') inner
             then Ref inner else Template s)
          else if contains_str s ''{{'' \<and> contains_str s ''}}'' then Template s
          else Literal s
      | _ \<Rightarrow> Json value)"

definition duration_err :: "string \<Rightarrow> string \<Rightarrow> ParseError" where
  "duration_err s detail =
     InvalidValue ''duration'' (detail @ '' (expected Ns, Nms, or Nm, got '' @ quoted s @ '')'')"

definition parse_duration :: "string \<Rightarrow> ParseError + duration" where
  "parse_duration s0 =
     (let s = trim s0 in
      case strip_suffix s ''ms'' of
        Some ms \<Rightarrow> map_ok from_millis (ok_or (duration_err s ''invalid milliseconds'') (parse_u64 (trim ms)))
      | None \<Rightarrow>
          (case strip_suffix s ''s'' of
             Some secs \<Rightarrow> map_ok from_secs (ok_or (duration_err s ''invalid seconds'') (parse_u64 (trim secs)))
           | None \<Rightarrow>
               (case strip_suffix s ''m'' of
                  Some mins \<Rightarrow>
                    map_ok (\<lambda>n. from_secs (n * 60)) (ok_or (duration_err s ''invalid minutes'') (parse_u64 (trim mins)))
                | None \<Rightarrow>
                    map_ok from_secs (ok_or (duration_err s ''invalid duration format'') (parse_u64 s)))))"

definition parse_optional_duration :: "duration \<Rightarrow> string option \<Rightarrow> ParseError + duration" where
  "parse_optional_duration d x = (case x of Some s \<Rightarrow> parse_duration s | None \<Rightarrow> Inr d)"

definition compile_tool :: "string \<Rightarrow> NodeSchema \<Rightarrow> ToolId" where
  "compile_tool name node =
     (case node_do node of
        Some (Single tool) \<Rightarrow> tool
      | Some (Parallel _) \<Rightarrow> ''internal_parallel_'' @ name
      | None \<Rightarrow> ''echo'')"

definition compile_input :: "NodeSchema \<Rightarrow> Expr smap" where
  "compile_input node =
     (case node_with node of
        Some (JObject m) \<Rightarrow> fold (\<lambda>(k, v) i. obj_insert k (value_to_expr v) i) m []
      | _ \<Rightarrow>
          (if node_do node = None then
             (case node_return node of
                Some ret \<Rightarrow> obj_insert ''__return__'' (value_to_expr ret) []
              | None \<Rightarrow> [])
           else []))"

definition plain_edge :: "EdgeTarget \<Rightarrow> Edge" where
  "plain_edge t = \<lparr> edge_target = t, edge_condition = None, edge_priority = 0 \<rparr>"

definition branch_edge :: "nat \<times> ThenBranchSchema \<Rightarrow> Edge option" where
  "branch_edge ib =
     (case ib of (i, b) \<Rightarrow>
        map_option (\<lambda>t.
          \<lparr> edge_target = StepTarget t,
            edge_condition = (if then_else b = Some True then None else then_when b),
            edge_priority = of_nat i \<rparr>) (branch_target b))"

definition compile_edges :: "NodeSchema \<Rightarrow> Edge list" where
  "compile_edges node =
     (if node_return node \<noteq> None then [plain_edge Return] else []) @
     (case node_then node of
        Some (Unconditional target) \<Rightarrow> [plain_edge (StepTarget target)]
      | Some (Multiple targets) \<Rightarrow> map (\<lambda>t. plain_edge (StepTarget t)) targets
      | Some (Conditional branches) \<Rightarrow> List.map_filter branch_edge (List.enumerate 0 branches)
      | None \<Rightarrow> [])"

fun compile_branches :: "CatchBranchSchema list \<Rightarrow> ErrorAction" where
  "compile_branches [] = Fail"
| "compile_branches (b # bs) =
     (if catch_is_match b then
        (case catch_then b of
           Some target \<Rightarrow> Goto target
         | None \<Rightarrow>
             (case catch_do b of
                Some d \<Rightarrow>
                  if d = ''skip'' \<or> d = ''continue'' then Skip
                  else if starts_with d ''fallback:'' then
                    Fallback (case strip_prefix d ''fallback:'' of Some v \<Rightarrow> v | None \<Rightarrow> [])
                  else Fail
              | None \<Rightarrow> Fail))
      else compile_branches bs)"

definition compile_catch :: "NodeSchema \<Rightarrow> ErrorAction" where
  "compile_catch node =
     (case node_catch node of
        CatchSimple target \<Rightarrow> Goto target
      | Branches branches \<Rightarrow> compile_branches branches)"

definition compile_retry :: "EngineConfig \<Rightarrow> RetryConfigSchema \<Rightarrow> ParseError + RetryPolicy" where
  "compile_retry cfg retry =
     rbind (parse_optional_duration (from_millis (cfg_default_retry_base_delay_ms cfg)) (retry_delay retry))
     (\<lambda>base.
     rbind (parse_optional_duration (from_millis (cfg_default_retry_max_delay_ms cfg)) (retry_max_delay retry))
     (\<lambda>mx. Inr
       \<lparr> max_attempts = retry_times retry,
         backoff =
           (if retry_backoff retry = Some ''fixed'' then Fixed
            else if retry_backoff retry = Some ''linear'' then Linear base
            else Exponential),
         base_delay = base,
         max_delay = mx \<rparr>))"

definition args_input :: "json option \<Rightarrow> Expr smap" where
  "args_input args =
     (case args of
        Some (JObject obj) \<Rightarrow> fold (\<lambda>(k, v) i. obj_insert k (value_to_expr v) i) obj []
      | _ \<Rightarrow> [])"

definition compile_pipe :: "PipeStepSchema \<Rightarrow> PipeStep option" where
  "compile_pipe p =
     (case p of
        PipeSimple tool \<Rightarrow> Some \<lparr> pipe_tool = tool, pipe_input = [] \<rparr>
      | WithArgs m \<Rightarrow>
          (case m of
             (tool, args) # _ \<Rightarrow> Some \<lparr> pipe_tool = tool, pipe_input = args_input (Some args) \<rparr>
           | [] \<Rightarrow> None)
      | PipeFull do_tool w \<Rightarrow> Some \<lparr> pipe_tool = do_tool, pipe_input = args_input w \<rparr>)"

definition compile_node :: "EngineConfig \<Rightarrow> string \<Rightarrow> NodeSchema \<Rightarrow> ParseError + Step" where
  "compile_node cfg name node =
     rbind (case node_retry node of
              Some retry \<Rightarrow> map_ok Some (compile_retry cfg retry)
            | None \<Rightarrow> Inr None) (\<lambda>retry.
     rbind (case node_timeout node of
              Some t \<Rightarrow> map_ok Some (parse_duration t)
            | None \<Rightarrow> Inr None) (\<lambda>tmo. Inr
       ((Step_new name (compile_tool name node))
          \<lparr> step_input := compile_input node,
            step_edges := compile_edges node,
            step_on_error := compile_catch node,
            step_retry := retry,
            step_timeout := tmo,
            step_credentials := node_credentials node,
            step_grant := node_grant node,
            step_pipe := List.map_filter compile_pipe (node_pipe node),
            step_stream := to_mode (node_stream node),
            step_repeat := map_option (\<lambda>r.
              \<lparr> repeat_until = rep_until r, repeat_max = rep_max r, repeat_as_var = rep_as r \<rparr>)
              (node_repeat node) \<rparr>)))"

definition compile_step :: "EngineConfig \<Rightarrow> DependencyGraph \<Rightarrow> string \<times> NodeSchema \<Rightarrow> ParseError + Step" where
  "compile_step cfg graph kn =
     (case kn of (name, node) \<Rightarrow>
        rbind (compile_node cfg name node) (\<lambda>step.
          Inr (case graph name of
                 Some deps \<Rightarrow> step\<lparr> step_depends_on := deps \<rparr>
               | None \<Rightarrow> step)))"

definition compile :: "WorkflowSchema \<Rightarrow> DependencyGraph \<Rightarrow> EngineConfig \<Rightarrow> ParseError + Workflow" where
  "compile sch graph cfg =
     (case sch_nodes sch of
        [] \<Rightarrow> Inl (InvalidYaml ''Workflow must have at least one node'')
      | (entry_id, _) # _ \<Rightarrow>
          rbind (map_results (compile_step cfg graph) (sch_nodes sch)) (\<lambda>steps. Inr
            ((Workflow_new (sch_workflow sch) (sch_workflow sch) entry_id)
               \<lparr> wf_version := sch_version sch,
                 wf_steps := steps,
                 wf_capabilities := sch_capabilities sch,
                 wf_description := sch_description sch,
                 wf_input_schema := sch_input_schema sch,
                 wf_output_schema := sch_output_schema sch,
                 wf_register_as_tool := sch_register_as_tool sch \<rparr>)))"

definition parse :: "(string \<Rightarrow> string + WorkflowSchema) \<Rightarrow> string \<Rightarrow> EngineConfig \<Rightarrow> KonfluxError + Workflow" where
  "parse from_yaml yaml cfg =
     rbind (map_err (\<lambda>e. KParse (InvalidYaml e)) (from_yaml yaml)) (\<lambda>sch.
     rbind (map_err KValidation (validator_validate sch)) (\<lambda>_.
     map_err KParse (compile sch (DependencyGraph_build sch) cfg)))"

section \<open>What compilation preserves\<close>

lemma step_targets_simps [simp]:
  "List.map_filter edge_step [] = []"
  "List.map_filter edge_step (e # es) =
     (case edge_step e of Some i \<Rightarrow> i # List.map_filter edge_step es | None \<Rightarrow> List.map_filter edge_step es)"
  by (simp_all add: List.map_filter_def split: option.split)

lemma map_filter_append: "List.map_filter f (xs @ ys) = List.map_filter f xs @ List.map_filter f ys"
  by (simp add: List.map_filter_def)

lemma branch_edges_targets:
  "List.map_filter edge_step (List.map_filter branch_edge (List.enumerate n bs)) =
   List.map_filter branch_target bs"
proof (induction bs arbitrary: n)
  case (Cons b bs)
  then show ?case
    by (cases "branch_target b") (simp_all add: List.map_filter_def branch_edge_def)
qed (simp add: List.map_filter_def)

lemma plain_edges_targets: "List.map_filter edge_step (map (\<lambda>t. plain_edge (StepTarget t)) ts) = ts"
  by (induction ts) (simp_all add: plain_edge_def)

lemma compile_edges_targets: "List.map_filter edge_step (compile_edges node) = then_targets node"
proof -
  have "List.map_filter edge_step [plain_edge t] = (case t of StepTarget i \<Rightarrow> [i] | Return \<Rightarrow> [])" for t
    by (simp add: plain_edge_def split: EdgeTarget.split)
  then show ?thesis
    by (auto simp: compile_edges_def then_targets_def map_filter_append branch_edges_targets
        plain_edges_targets simp del: step_targets_simps(2) split: option.split ThenBlock.split)
qed

lemma compile_edges_return: "node_return node \<noteq> None \<Longrightarrow> plain_edge Return \<in> set (compile_edges node)"
  by (simp add: compile_edges_def)

text \<open>Compiling one node: its identity, its graph and its dependencies.\<close>

lemma compile_step_Inr:
  assumes "compile_step cfg graph (name, node) = Inr s"
  shows "step_id s = name \<and> step_targets s = then_targets node \<and>
    step_edges s = compile_edges node \<and> step_tool s = compile_tool name node \<and>
    step_depends_on s = (case graph name of Some deps \<Rightarrow> deps | None \<Rightarrow> [])"
  using assms
  by (auto simp: compile_step_def compile_node_def rbind_eq_Inr step_targets_def
      compile_edges_targets Step_new_def split: option.splits)

lemma compile_Inr:
  assumes "compile sch graph cfg = Inr w"
  obtains entry node rest where "sch_nodes sch = (entry, node) # rest" "wf_entry w = entry"
    and "list_all2 (\<lambda>kn s. compile_step cfg graph kn = Inr s) (sch_nodes sch) (wf_steps w)"
    and "wf_capabilities w = sch_capabilities sch"
  using assms
proof (cases "sch_nodes sch")
  case (Cons kn rest)
  then obtain entry node where kn: "kn = (entry, node)" by force
  from assms obtain steps where steps: "map_results (compile_step cfg graph) (sch_nodes sch) = Inr steps"
    and w: "wf_entry w = entry" "wf_steps w = steps" "wf_capabilities w = sch_capabilities sch"
    unfolding compile_def by (simp only: Cons kn list.case prod.case rbind_eq_Inr) (auto simp: Workflow_new_def)
  show thesis
    using that [of entry node rest] Cons kn w steps unfolding map_results_eq_Inr by simp
qed (simp add: compile_def)

lemma step_of_node:
  assumes "list_all2 (\<lambda>kn s. compile_step cfg graph kn = Inr s) nodes steps" "(name, node) \<in> set nodes"
  obtains s where "s \<in> set steps" "compile_step cfg graph (name, node) = Inr s"
proof -
  have "\<exists>s \<in> set steps. compile_step cfg graph (name, node) = Inr s"
    using assms by (induction rule: list_all2_induct) auto
  with that show thesis by blast
qed

lemma node_of_step:
  assumes "list_all2 (\<lambda>kn s. compile_step cfg graph kn = Inr s) nodes steps" "s \<in> set steps"
  obtains name node where "(name, node) \<in> set nodes" "compile_step cfg graph (name, node) = Inr s"
proof -
  have "\<exists>kn \<in> set nodes. compile_step cfg graph kn = Inr s"
    using assms by (induction rule: list_all2_induct) auto
  with that show thesis by auto
qed

section \<open>Dependencies are nodes\<close>

definition graph_within :: "string set \<Rightarrow> DependencyGraph \<Rightarrow> bool" where
  "graph_within N g \<longleftrightarrow> (\<forall>k ds. g k = Some ds \<longrightarrow> set ds \<subseteq> N)"

lemma graph_within_add_edge: "graph_within N g \<Longrightarrow> r \<in> N \<Longrightarrow> graph_within N (add_edge r t g)"
  by (auto simp: graph_within_def add_edge_def split: option.splits if_splits)

lemma graph_within_refs:
  "graph_within N g \<Longrightarrow> set rs \<subseteq> N \<Longrightarrow> graph_within N (fold (\<lambda>r. add_edge r name) rs g)"
  by (induction rs arbitrary: g) (auto simp: graph_within_add_edge)

lemma build_within: "graph_within (set (node_names sch)) (DependencyGraph_build sch)"
proof -
  let ?N = "set (node_names sch)"
  have init: "graph_within ?N (fold (\<lambda>(name, node) g. g(name \<mapsto> [])) nodes g)"
    if "graph_within ?N g" for nodes :: "(string \<times> NodeSchema) list" and g
    using that
  proof (induction nodes arbitrary: g)
    case (Cons kn nodes)
    have "graph_within ?N (g(fst kn \<mapsto> []))" using Cons.prems by (simp add: graph_within_def)
    from Cons.IH [OF this] show ?case by (simp only: fold_Cons comp_apply case_prod_beta)
  qed simp
  have refs: "set (node_refs sch name node) \<subseteq> ?N" for name node
    by (auto simp: node_refs_def split: option.splits)
  have "graph_within ?N (fold (\<lambda>(name, node) g. fold (\<lambda>r. add_edge r name) (node_refs sch name node) g) nodes g)"
    if "graph_within ?N g" for nodes g
    using that
  proof (induction nodes arbitrary: g)
    case (Cons kn nodes)
    have "graph_within ?N (fold (\<lambda>r. add_edge r (fst kn)) (node_refs sch (fst kn) (snd kn)) g)"
      by (rule graph_within_refs [OF Cons.prems refs])
    from Cons.IH [OF this] show ?case by (simp only: fold_Cons comp_apply case_prod_beta)
  qed simp
  moreover have "graph_within ?N Map.empty" by (simp add: graph_within_def)
  ultimately show ?thesis unfolding DependencyGraph_build_def using init by blast
qed

section \<open>Compiled workflows are valid\<close>

lemma get_step_None: "get_step w i = None \<longleftrightarrow> i \<notin> step_id ` set (wf_steps w)"
  by (auto simp: get_step_def find_None_iff)

lemma compiled_step_ids:
  assumes "list_all2 (\<lambda>kn s. compile_step cfg graph kn = Inr s) nodes steps"
  shows "step_id ` set steps = fst ` set nodes"
proof -
  have "map step_id steps = map fst nodes"
    using assms by (induction rule: list_all2_induct) (auto dest: compile_step_Inr)
  then show ?thesis by (metis list.set_map)
qed

lemma compiled_arcs:
  assumes "list_all2 (\<lambda>kn s. compile_step cfg graph kn = Inr s) (sch_nodes sch) (wf_steps w)"
    and "distinct (node_names sch)"
  shows "arcs (wf_succ w) \<subseteq> arcs (sch_succ sch)"
proof
  fix e assume "e \<in> arcs (wf_succ w)"
  then obtain u v where e: "e = (u, v)" "v \<in> set (wf_succ w u)" by (auto simp: arcs_def)
  from e(2) obtain s where s: "s \<in> set (wf_steps w)" "step_id s = u" "v \<in> set (step_targets s)"
    by (rule wf_succ_edge)
  from assms(1) s(1) obtain name node where n: "(name, node) \<in> set (sch_nodes sch)"
    "compile_step cfg graph (name, node) = Inr s" by (rule node_of_step)
  then have "name = u" "v \<in> set (then_targets node)" using s compile_step_Inr [OF n(2)] by auto
  moreover have "map_of (sch_nodes sch) name = Some node"
    using n(1) assms(2) by (simp add: node_names_def)
  ultimately show "e \<in> arcs (sch_succ sch)" by (simp add: e(1) arcs_def sch_succ_def)
qed

lemma compiled_valid:
  assumes val: "validator_validate sch = Inr ()" and dist: "distinct (node_names sch)"
    and comp: "compile sch (DependencyGraph_build sch) cfg = Inr w"
  shows "Workflow_validate w = Inr ()"
proof -
  obtain entry first rest where sch: "sch_nodes sch = (entry, first) # rest" "wf_entry w = entry"
    and steps: "list_all2 (\<lambda>kn s. compile_step cfg (DependencyGraph_build sch) kn = Inr s)
      (sch_nodes sch) (wf_steps w)"
    using comp by (rule compile_Inr)
  have nodes: "node_ok sch node" if "(name, node) \<in> set (sch_nodes sch)" for name node
    using val that unfolding validator_Inr_iff by auto
  have ids: "step_id ` set (wf_steps w) = set (node_names sch)"
    using compiled_step_ids [OF steps] by (simp add: node_names_def)
  have entry: "get_step w (wf_entry w) \<noteq> None"
    using sch by (simp add: get_step_None ids node_names_def)
  have "validate_edges w s = Inr () \<and> validate_depends w s = Inr ()" if s: "s \<in> set (wf_steps w)" for s
  proof -
    obtain name node where n: "(name, node) \<in> set (sch_nodes sch)"
      and c: "compile_step cfg (DependencyGraph_build sch) (name, node) = Inr s"
      using steps s by (rule node_of_step)
    note c' = compile_step_Inr [OF c]
    have "set (step_targets s) \<subseteq> set (node_names sch)" using nodes [OF n] c' by (simp add: node_ok_def)
    then have "validate_edges w s = Inr ()"
      by (force simp: validate_edges_def check_all_eq_Inr get_step_None ids step_targets_def
          set_map_filter split: EdgeTarget.split)
    moreover have "set (step_depends_on s) \<subseteq> set (node_names sch)"
      using c' build_within [of sch] by (auto simp: graph_within_def split: option.splits)
    then have "validate_depends w s = Inr ()"
      by (auto simp: validate_depends_def check_all_eq_Inr get_step_None ids)
    ultimately show ?thesis by simp
  qed
  moreover have "has_return w"
  proof -
    from val obtain name node where n: "(name, node) \<in> set (sch_nodes sch)" "node_return node \<noteq> None"
      unfolding validator_Inr_iff by auto
    from steps n(1) obtain s where "s \<in> set (wf_steps w)"
      "compile_step cfg (DependencyGraph_build sch) (name, node) = Inr s" by (rule step_of_node)
    moreover have "edge_target (plain_edge Return) = Return" by (simp add: plain_edge_def)
    ultimately show ?thesis
      using compile_edges_return [OF n(2)] compile_step_Inr unfolding has_return_def list_ex_iff by metis
  qed
  moreover have "detect_cycles w = Inr ()"
    unfolding detect_cycles_Inr_iff
    using compiled_arcs [OF steps dist] val by (auto simp: validator_Inr_iff intro: acyclic_subset)
  ultimately show ?thesis
    using entry by (simp add: Workflow_validate_def check_all_eq_Inr rbind_eq_Inr)
qed

section \<open>Properties\<close>


definition sample_node :: NodeSchema where
  "sample_node =
     \<lparr> node_do = Some (Single ''memory:search''), node_with = None, node_pipe = [],
       node_then = Some (Unconditional ''done''), node_catch = Branches [], node_retry = None,
       node_timeout = None, node_entry = None, node_repeat = None,
       node_stream = StreamNone, node_return = None, node_join = None, node_credentials = [],
       node_grant = None \<rparr>"

definition sample_schema :: WorkflowSchema where
  "sample_schema =
     \<lparr> sch_workflow = ''w'', sch_version = ''0.1.0'', sch_description = None,
       sch_capabilities = [''memory:*''], sch_input_schema = None, sch_output_schema = None,
       sch_register_as_tool = False,
       sch_nodes =
         [(''find'', sample_node),
          (''done'', sample_node\<lparr> node_do := None, node_then := None,
             node_with := Some (JString ''{{ find.hits }}''), node_return := Some JNull \<rparr>)] \<rparr>"

lemma sample_parses: "is_ok (parse (\<lambda>y. Inr sample_schema) [] EngineConfig_default)"
proof -
  have "validator_validate sample_schema = Inr ()" by code_simp
  moreover have "is_ok (compile sample_schema (DependencyGraph_build sample_schema) EngineConfig_default)"
    by (simp add: sample_schema_def sample_node_def compile_def compile_step_def compile_node_def)
  ultimately show ?thesis
    by (auto simp: parse_def is_ok_def map_err_def split: sum.splits)
qed


end
