(* ===== verification/Float64.thy ===== *)
theory Float64
  imports Konf_Prelude
begin

text \<open>
  The part of \<^verbatim>\<open>f64\<close> that the expression evaluator uses, on exact integers: decoding a bit
  pattern, comparison, the test \<open>(a - b).abs() < f64::EPSILON\<close>, conversion from \<^verbatim>\<open>i64\<close>
  and \<open>str::parse::<f64>\<close> with round-to-nearest-even. A finite value is \<open>FFin m e\<close>,
  standing for \<open>m * 2 ^ e\<close>; the two zeros are not told apart, which no operation here
  observes.
\<close>

section \<open>Values\<close>

datatype fval = FNaN | FInf bool | FFin int int

definition decode_f64 :: "f64 \<Rightarrow> fval" where
  "decode_f64 x =
     (let neg = bit x 63;
          e = uint (take_bit 11 (drop_bit 52 x));
          m = uint (take_bit 52 x);
          sgn = (if neg then -1 else 1)
      in if e = 2047 then (if m = 0 then FInf neg else FNaN)
         else if e = 0 then FFin (sgn * m) (-1074)
         else FFin (sgn * (2 ^ 52 + m)) (e - 1075))"

text \<open>Two finite values over a common exponent.\<close>

definition align :: "int \<Rightarrow> int \<Rightarrow> int \<Rightarrow> int \<Rightarrow> int \<times> int" where
  "align m1 e1 m2 e2 = (let e = min e1 e2 in (m1 * 2 ^ nat (e1 - e), m2 * 2 ^ nat (e2 - e)))"

fun fval_lt :: "fval \<Rightarrow> fval \<Rightarrow> bool" where
  "fval_lt FNaN _ = False"
| "fval_lt _ FNaN = False"
| "fval_lt (FInf n1) (FInf n2) = (n1 \<and> \<not> n2)"
| "fval_lt (FInf n1) (FFin m e) = n1"
| "fval_lt (FFin m e) (FInf n2) = (\<not> n2)"
| "fval_lt (FFin m1 e1) (FFin m2 e2) = (case align m1 e1 m2 e2 of (a, b) \<Rightarrow> a < b)"

fun fval_eq :: "fval \<Rightarrow> fval \<Rightarrow> bool" where
  "fval_eq (FInf n1) (FInf n2) = (n1 = n2)"
| "fval_eq (FFin m1 e1) (FFin m2 e2) = (case align m1 e1 m2 e2 of (a, b) \<Rightarrow> a = b)"
| "fval_eq _ _ = False"

definition fval_nonzero :: "fval \<Rightarrow> bool" where
  "fval_nonzero f = (case f of FFin m e \<Rightarrow> m \<noteq> 0 | _ \<Rightarrow> True)"

text \<open>
  \<open>(a - b).abs() < f64::EPSILON\<close> with \<open>EPSILON = 2 ^ -52\<close>. The difference is rounded to
  the nearest double. The double below \<open>2 ^ -52\<close> is \<open>2 ^ -52 - 2 ^ -105\<close> and has an odd
  significand, so a difference rounds below \<open>2 ^ -52\<close> exactly if it is less than the
  midpoint \<open>2 ^ -52 - 2 ^ -106 = (2 ^ 54 - 1) * 2 ^ -106\<close>.
\<close>

fun fval_close :: "fval \<Rightarrow> fval \<Rightarrow> bool" where
  "fval_close (FFin m1 e1) (FFin m2 e2) =
     (let e = min e1 e2;
          (a, b) = align m1 e1 m2 e2
      in fval_lt (FFin \<bar>a - b\<bar> e) (FFin (2 ^ 54 - 1) (-106)))"
| "fval_close _ _ = False"

section \<open>Rounding\<close>

fun bitlen :: "nat \<Rightarrow> int" where
  "bitlen n = (if n = 0 then 0 else 1 + bitlen (n div 2))"

declare bitlen.simps [simp del]

text \<open>The quotient \<open>num / (den * 2 ^ e)\<close>, rounded to an integer, half to even.\<close>

definition round_div :: "nat \<Rightarrow> nat \<Rightarrow> nat" where
  "round_div a b =
     (let q = a div b; r = a mod b in
      if 2 * r < b then q
      else if 2 * r > b then q + 1
      else if even q then q else q + 1)"

definition scaled_num :: "nat \<Rightarrow> int \<Rightarrow> nat" where
  "scaled_num num e = (if e < 0 then num * 2 ^ nat (- e) else num)"

definition scaled_den :: "nat \<Rightarrow> int \<Rightarrow> nat" where
  "scaled_den den e = (if e < 0 then den else den * 2 ^ nat e)"

definition round_exponent :: "nat \<Rightarrow> nat \<Rightarrow> int" where
  "round_exponent num den =
     (let e0 = max (-1074) (bitlen num - bitlen den - 53) in
      if scaled_num num e0 div scaled_den den e0 \<ge> 2 ^ 53 then e0 + 1 else e0)"

text \<open>The double nearest to \<open>num / den\<close>, with a sign.\<close>

definition round_f64 :: "bool \<Rightarrow> nat \<Rightarrow> nat \<Rightarrow> fval" where
  "round_f64 neg num den =
     (let e = round_exponent num den;
          q = round_div (scaled_num num e) (scaled_den den e)
      in if e + bitlen q > 1024 then FInf neg
         else FFin (if neg then - int q else int q) e)"

definition f64_of_int :: "int \<Rightarrow> fval" where
  "f64_of_int i = round_f64 (i < 0) (nat \<bar>i\<bar>) 1"

section \<open>Parsing\<close>

text \<open>The digits of a number, its fraction digits and its exponent.\<close>

definition split_digits :: "string \<Rightarrow> string \<times> string" where
  "split_digits s = (takeWhile is_digit s, dropWhile is_digit s)"

definition parse_exponent :: "string \<Rightarrow> int option" where
  "parse_exponent s =
     (case s of
        [] \<Rightarrow> Some 0
      | c # cs \<Rightarrow>
          if c = CHR ''e'' \<or> c = CHR ''E'' then
            (case cs of
               d # ds \<Rightarrow>
                 if d = CHR ''-'' then map_option (\<lambda>n. - int n) (parse_digits ds)
                 else map_option int (parse_digits (strip_plus cs))
             | [] \<Rightarrow> None)
          else None)"

definition decimal_f64 :: "bool \<Rightarrow> string \<Rightarrow> fval option" where
  "decimal_f64 neg s =
     (let (ip, rest) = split_digits s;
          (fp, rest') = (case rest of
             c # cs \<Rightarrow> if c = CHR ''.'' then split_digits cs else ([], rest)
           | [] \<Rightarrow> ([], []))
      in if ip = [] \<and> fp = [] then None
         else map_option (\<lambda>x.
           let e = x - int (length fp);
               n = digits_value 0 (ip @ fp)
           in if e \<ge> 0 then round_f64 neg (n * 10 ^ nat e) 1
              else round_f64 neg n (10 ^ nat (- e))) (parse_exponent rest'))"

definition parse_f64 :: "string \<Rightarrow> fval option" where
  "parse_f64 s =
     (let (neg, body) = (case s of
          c # cs \<Rightarrow> if c = CHR ''-'' then (True, cs) else if c = CHR ''+'' then (False, cs) else (False, s)
        | [] \<Rightarrow> (False, []));
          l = to_lowercase body
      in if l = ''inf'' \<or> l = ''infinity'' then Some (FInf neg)
         else if l = ''nan'' then Some FNaN
         else decimal_f64 neg body)"

text \<open>\<open>Number::as_f64\<close> of \<^verbatim>\<open>serde_json\<close>.\<close>

fun num_as_f64 :: "jnum \<Rightarrow> fval" where
  "num_as_f64 (PosInt n) = f64_of_int (uint n)"
| "num_as_f64 (NegInt i) = f64_of_int (sint i)"
| "num_as_f64 (Float f) = decode_f64 f"

fun as_f64 :: "json \<Rightarrow> fval option" where
  "as_f64 (JNumber n) = Some (num_as_f64 n)"
| "as_f64 _ = None"

section \<open>Order\<close>

lemma align_scale:
  assumes "align m1 e1 m2 e2 = (a, b)" "k \<le> min e1 e2"
  shows "m1 * 2 ^ nat (e1 - k) < m2 * 2 ^ nat (e2 - k) \<longleftrightarrow> a < b"
proof -
  let ?e = "min e1 e2"
  have split: "nat (e1 - k) = nat (e1 - ?e) + nat (?e - k)" "nat (e2 - k) = nat (e2 - ?e) + nat (?e - k)"
    using assms(2) by auto
  show ?thesis
    using assms(1) by (auto simp: align_def Let_def split power_add mult.assoc [symmetric])
qed

lemma fval_lt_scaled:
  "k \<le> e1 \<Longrightarrow> k \<le> e2 \<Longrightarrow>
   fval_lt (FFin m1 e1) (FFin m2 e2) \<longleftrightarrow> m1 * 2 ^ nat (e1 - k) < m2 * 2 ^ nat (e2 - k)"
  using align_scale [of m1 e1 m2 e2 _ _ k] by (auto split: prod.splits)

lemma fval_lt_trans:
  assumes "fval_lt x y" "fval_lt y z"
  shows "fval_lt x z"
proof -
  have fin: "fval_lt (FFin m1 e1) (FFin m3 e3)"
    if "fval_lt (FFin m1 e1) (FFin m2 e2)" "fval_lt (FFin m2 e2) (FFin m3 e3)"
    for m1 e1 m2 e2 m3 e3
  proof -
    define k where "k = min e1 (min e2 e3)"
    have k: "k \<le> e1" "k \<le> e2" "k \<le> e3" by (auto simp: k_def)
    from that show ?thesis
      unfolding fval_lt_scaled [OF k(1,2)] fval_lt_scaled [OF k(2,3)] fval_lt_scaled [OF k(1,3)]
      by linarith
  qed
  show ?thesis
  proof (cases "(\<exists>m e. x = FFin m e) \<and> (\<exists>m e. y = FFin m e) \<and> (\<exists>m e. z = FFin m e)")
    case True
    with assms fin show ?thesis by blast
  next
    case False
    with assms show ?thesis by (cases x; cases y; cases z) auto
  qed
qed

lemma fval_lt_irrefl: "\<not> fval_lt x x"
  by (cases x) (auto simp: align_def Let_def)

end
