(* ===== verification/Expr_Eval.thy ===== *)
theory Expr_Eval
  imports Float64 Tool_Guard
begin

text \<open>
  The condition evaluator, \<^verbatim>\<open>konflux-substrate/src/expr.rs\<close>. It works by searching the
  text for separators, so the evaluation of an expression recurses into shorter and shorter
  pieces of it. The derived \<^verbatim>\<open>Debug\<close> rendering of a value, which appears only inside
  error messages, is the parameter \<open>dbg\<close>.
\<close>

section \<open>Values\<close>

datatype ExprValue =
    EBool bool
  | EInt i64
  | EFloat fval
  | EString string
  | EList "ExprValue list"
  | EMap "(string \<times> ExprValue) list"
  | EJson json
  | ENull

datatype ExprError =
    ExprParseError string
  | TypeError string string
  | UnknownReference string
  | DivisionByZero

fun show_ExprError :: "ExprError \<Rightarrow> string" where
  "show_ExprError (ExprParseError m) = ''parse error: '' @ m"
| "show_ExprError (TypeError expected got) = ''type error: expected '' @ expected @ '', got '' @ got"
| "show_ExprError (UnknownReference r) = ''unknown reference: '' @ r"
| "show_ExprError DivisionByZero = ''division by zero''"

type_synonym expr_context = "ExprValue smap"

fun json_to_expr_value :: "json \<Rightarrow> ExprValue" where
  "json_to_expr_value JNull = ENull"
| "json_to_expr_value (JBool b) = EBool b"
| "json_to_expr_value (JNumber n) =
     (case num_as_i64 n of Some i \<Rightarrow> EInt i | None \<Rightarrow> EFloat (num_as_f64 n))"
| "json_to_expr_value (JString s) = EString s"
| "json_to_expr_value (JArray arr) = EList (map json_to_expr_value arr)"
| "json_to_expr_value (JObject obj) = EMap (map (\<lambda>kv. (fst kv, json_to_expr_value (snd kv))) obj)"

fun to_bool :: "ExprValue \<Rightarrow> bool" where
  "to_bool (EBool b) = b"
| "to_bool (EInt n) = (n \<noteq> 0)"
| "to_bool (EFloat f) = fval_nonzero f"
| "to_bool (EString s) = (s \<noteq> [])"
| "to_bool (EList l) = (l \<noteq> [])"
| "to_bool (EMap m) = (m \<noteq> [])"
| "to_bool (EJson j) =
     (case as_bool j of
        Some b \<Rightarrow> b
      | None \<Rightarrow> (case as_str j of Some s \<Rightarrow> s \<noteq> [] | None \<Rightarrow> j \<noteq> JNull))"
| "to_bool ENull = False"

definition expr_equals :: "ExprValue \<Rightarrow> ExprValue \<Rightarrow> bool" where
  "expr_equals a b =
     (case a of
        EBool x \<Rightarrow> (case b of EBool y \<Rightarrow> x = y | _ \<Rightarrow> False)
      | EInt x \<Rightarrow>
          (case b of
             EInt y \<Rightarrow> x = y
           | EJson (JNumber n) \<Rightarrow> Some x = num_as_i64 n
           | _ \<Rightarrow> False)
      | EFloat x \<Rightarrow>
          (case b of
             EFloat y \<Rightarrow> fval_close x y
           | EJson (JNumber n) \<Rightarrow> fval_eq x (num_as_f64 n)
           | _ \<Rightarrow> False)
      | EString x \<Rightarrow>
          (case b of
             EString y \<Rightarrow> x = y
           | EJson (JString s) \<Rightarrow> x = s
           | _ \<Rightarrow> False)
      | EJson x \<Rightarrow>
          (case b of
             EString y \<Rightarrow> (case x of JString s \<Rightarrow> s = y | _ \<Rightarrow> False)
           | EInt y \<Rightarrow> (case x of JNumber n \<Rightarrow> num_as_i64 n = Some y | _ \<Rightarrow> False)
           | EFloat y \<Rightarrow> (case x of JNumber n \<Rightarrow> fval_eq (num_as_f64 n) y | _ \<Rightarrow> False)
           | EJson y \<Rightarrow> json_eq x y
           | _ \<Rightarrow> False)
      | ENull \<Rightarrow> (case b of ENull \<Rightarrow> True | _ \<Rightarrow> False)
      | _ \<Rightarrow> False)"

definition parse_float_err :: "string \<Rightarrow> string" where
  "parse_float_err s =
     quoted s @ '' error: '' @
     (if s = [] then ''cannot parse float from empty string'' else ''invalid float literal'')"

definition to_float :: "(ExprValue \<Rightarrow> string) \<Rightarrow> ExprValue \<Rightarrow> ExprError + fval" where
  "to_float dbg val =
     (case val of
        EInt i \<Rightarrow> Inr (f64_of_int (sint i))
      | EFloat f \<Rightarrow> Inr f
      | EString s \<Rightarrow> ok_or (TypeError ''numeric string'' (parse_float_err s)) (parse_f64 s)
      | EJson (JNumber n) \<Rightarrow> Inr (num_as_f64 n)
      | EJson (JString s) \<Rightarrow> ok_or (TypeError ''numeric string'' (parse_float_err s)) (parse_f64 s)
      | _ \<Rightarrow> Inl (TypeError ''number'' (dbg val)))"

definition expr_compare :: "(ExprValue \<Rightarrow> string) \<Rightarrow> ExprValue \<Rightarrow> ExprValue \<Rightarrow> ExprError + int" where
  "expr_compare dbg a b =
     rbind (to_float dbg a) (\<lambda>va. rbind (to_float dbg b) (\<lambda>vb.
       Inr (if fval_lt va vb then -1 else if fval_lt vb va then 1 else 0)))"

section \<open>Atomic values\<close>

fun walk_parts ::
  "(ExprValue \<Rightarrow> string) \<Rightarrow> string \<Rightarrow> ExprValue \<Rightarrow> string list \<Rightarrow> ExprError + ExprValue" where
  "walk_parts dbg expr current [] = Inr current"
| "walk_parts dbg expr current (part # parts) =
     (case current of
        EMap m \<Rightarrow>
          (case obj_get m part of
             Some v \<Rightarrow> walk_parts dbg expr v parts
           | None \<Rightarrow> Inl (UnknownReference (expr @ '': field '' @ quoted part @ '' not found'')))
      | EJson j \<Rightarrow>
          (case json_get j part of
             Some v \<Rightarrow> walk_parts dbg expr (json_to_expr_value v) parts
           | None \<Rightarrow> Inl (UnknownReference (expr @ '': field '' @ quoted part @ '' not found in JSON'')))
      | _ \<Rightarrow> Inl (TypeError ''map or object'' (dbg current)))"

definition is_quoted_by :: "char \<Rightarrow> string \<Rightarrow> bool" where
  "is_quoted_by q s = (starts_with s [q] \<and> ends_with s [q])"

definition eval_value :: "(ExprValue \<Rightarrow> string) \<Rightarrow> expr_context \<Rightarrow> string \<Rightarrow> ExprError + ExprValue" where
  "eval_value dbg ctx expr0 =
     (let expr = trim expr0 in
      if expr = ''true'' then Inr (EBool True)
      else if expr = ''false'' then Inr (EBool False)
      else if expr = ''null'' \<or> expr = ''None'' then Inr ENull
      else if length expr \<ge> 2 \<and> (is_quoted_by (CHR 34) expr \<or> is_quoted_by (CHR 39) expr)
        then Inr (EString (take (length expr - 2) (drop 1 expr)))
      else (case parse_i64 expr of
              Some n \<Rightarrow> Inr (EInt n)
            | None \<Rightarrow>
                (case parse_f64 expr of
                   Some f \<Rightarrow> Inr (EFloat f)
                 | None \<Rightarrow>
                     (case split_on CHR ''.'' expr of
                        root # parts \<Rightarrow>
                          (case obj_get ctx root of
                             Some v \<Rightarrow> walk_parts dbg expr v parts
                           | None \<Rightarrow> Inl (UnknownReference expr))
                      | [] \<Rightarrow> Inl (UnknownReference expr)))))"

fun expr_is_empty :: "ExprValue \<Rightarrow> bool" where
  "expr_is_empty (EString s) = (s = [])"
| "expr_is_empty (EList l) = (l = [])"
| "expr_is_empty (EMap m) = (m = [])"
| "expr_is_empty (EJson (JArray a)) = (a = [])"
| "expr_is_empty (EJson (JObject obj)) = (obj = [])"
| "expr_is_empty (EJson (JString s)) = (s = [])"
| "expr_is_empty ENull = True"
| "expr_is_empty _ = False"

definition try_keyword_op ::
  "(ExprValue \<Rightarrow> string) \<Rightarrow> expr_context \<Rightarrow> string \<Rightarrow> ExprError + ExprValue option" where
  "try_keyword_op dbg ctx expr =
     (case strip_suffix expr '' exists'' of
        Some stripped \<Rightarrow>
          (case eval_value dbg ctx (trim stripped) of
             Inr val \<Rightarrow> Inr (Some (EBool (val \<noteq> ENull)))
           | Inl _ \<Rightarrow> Inr (Some (EBool False)))
      | None \<Rightarrow>
          (case strip_suffix expr '' is empty'' of
             Some stripped \<Rightarrow>
               rbind (eval_value dbg ctx (trim stripped)) (\<lambda>val.
                 Inr (Some (EBool (expr_is_empty val))))
           | None \<Rightarrow> Inr None))"

section \<open>Expressions\<close>

datatype cmp_op = CmpEq | CmpNe | CmpGe | CmpLe | CmpGt | CmpLt

definition cmp_ops :: "(string \<times> cmp_op) list" where
  "cmp_ops =
     [('' == '', CmpEq), ('' != '', CmpNe), ('' >= '', CmpGe), ('' <= '', CmpLe),
      ('' > '', CmpGt), ('' < '', CmpLt)]"

text \<open>The first separator of the table that occurs, and where it first occurs.\<close>

fun find_op :: "string \<Rightarrow> (string \<times> cmp_op) list \<Rightarrow> (nat \<times> string \<times> cmp_op) option" where
  "find_op expr [] = None"
| "find_op expr ((sep, op) # ops) =
     (case find_str expr sep of
        Some idx \<Rightarrow> Some (idx, sep, op)
      | None \<Rightarrow> find_op expr ops)"

definition apply_op ::
  "(ExprValue \<Rightarrow> string) \<Rightarrow> cmp_op \<Rightarrow> ExprValue \<Rightarrow> ExprValue \<Rightarrow> ExprError + ExprValue" where
  "apply_op dbg op left right =
     (case op of
        CmpEq \<Rightarrow> Inr (EBool (expr_equals left right))
      | CmpNe \<Rightarrow> Inr (EBool (\<not> expr_equals left right))
      | CmpGt \<Rightarrow> map_ok (\<lambda>c. EBool (c > 0)) (expr_compare dbg left right)
      | CmpLt \<Rightarrow> map_ok (\<lambda>c. EBool (c < 0)) (expr_compare dbg left right)
      | CmpGe \<Rightarrow> map_ok (\<lambda>c. EBool (c \<ge> 0)) (expr_compare dbg left right)
      | CmpLe \<Rightarrow> map_ok (\<lambda>c. EBool (c \<le> 0)) (expr_compare dbg left right))"

lemma find_op_Some:
  "find_op expr ops = Some (idx, sep, op) \<Longrightarrow> (sep, op) \<in> set ops \<and> find_str expr sep = Some idx"
  by (induction ops) (auto split: option.splits)

lemma cmp_sep_nonempty: "(sep, op) \<in> set cmp_ops \<Longrightarrow> sep \<noteq> []"
  by (auto simp: cmp_ops_def)

function eval_expr :: "(ExprValue \<Rightarrow> string) \<Rightarrow> expr_context \<Rightarrow> string \<Rightarrow> ExprError + ExprValue" where
  "eval_expr dbg ctx expr0 =
     (let expr = trim expr0 in
      case rfind_str expr '' || '' of
        Some idx \<Rightarrow>
          rbind (eval_expr dbg ctx (take idx expr)) (\<lambda>left.
          rbind (eval_expr dbg ctx (drop (idx + 4) expr)) (\<lambda>right.
          Inr (EBool (to_bool left \<or> to_bool right))))
      | None \<Rightarrow>
          (case rfind_str expr '' && '' of
             Some idx \<Rightarrow>
               rbind (eval_expr dbg ctx (take idx expr)) (\<lambda>left.
               rbind (eval_expr dbg ctx (drop (idx + 4) expr)) (\<lambda>right.
               Inr (EBool (to_bool left \<and> to_bool right))))
           | None \<Rightarrow>
               (case find_op expr cmp_ops of
                  Some (idx, sep, op) \<Rightarrow>
                    rbind (eval_expr dbg ctx (trim (take idx expr))) (\<lambda>left.
                    rbind (eval_expr dbg ctx (trim (drop (idx + length sep) expr))) (\<lambda>right.
                    apply_op dbg op left right))
                | None \<Rightarrow>
                    (case strip_prefix expr ''!'' of
                       Some stripped \<Rightarrow>
                         rbind (eval_expr dbg ctx stripped) (\<lambda>val. Inr (EBool (\<not> to_bool val)))
                     | None \<Rightarrow>
                         rbind (try_keyword_op dbg ctx expr) (\<lambda>kw.
                           case kw of
                             Some res \<Rightarrow> Inr res
                           | None \<Rightarrow> eval_value dbg ctx expr)))))"
  by pat_completeness auto

lemma length_strip_prefix: "strip_prefix s p = Some t \<Longrightarrow> length s = length p + length t"
  by (auto simp: strip_prefix_eq_Some)

lemma connective_shorter:
  assumes "rfind_str (trim e) sep = Some i" "length sep = 4"
  shows "length (take i (trim e)) < length e" "length (drop (i + 4) (trim e)) < length e"
  using rfind_str_Some [OF assms(1)] assms(2) trim_length [of e] by auto

lemma op_shorter:
  assumes "find_op (trim e) cmp_ops = Some (i, sep, op)"
  shows "length (trim (take i (trim e))) < length e"
    "length (trim (drop (i + length sep) (trim e))) < length e"
proof -
  from assms have "find_str (trim e) sep = Some i" "sep \<noteq> []"
    using find_op_Some cmp_sep_nonempty by blast+
  then have "i + length sep \<le> length (trim e)" "0 < length sep"
    using find_str_Some [of "trim e" sep i] by auto
  then show "length (trim (take i (trim e))) < length e"
    "length (trim (drop (i + length sep) (trim e))) < length e"
    using trim_length [of e] trim_length [of "take i (trim e)"]
      trim_length [of "drop (i + length sep) (trim e)"] by (simp_all del: length_greater_0_conv)
qed

lemma strip_not_shorter: "strip_prefix (trim e) ''!'' = Some t \<Longrightarrow> length t < length e"
  using length_strip_prefix [of "trim e" "''!''" t] trim_length [of e] by simp

termination eval_expr
proof (relation "measure (\<lambda>(dbg, ctx, e). length e)", goal_cases)
  case (2 dbg ctx e expr stripped)
  then show ?case using strip_not_shorter [of e stripped] by simp
next
  case (3 dbg ctx e expr r i q sep op)
  then show ?case using op_shorter(1) [of e i sep op] by auto
next
  case (4 dbg ctx e expr r i q sep op v)
  then show ?case using op_shorter(2) [of e i sep op] by auto
next
  case (5 dbg ctx e expr i)
  then show ?case using connective_shorter(1) [of e "'' && ''" i] by simp
next
  case (6 dbg ctx e expr i v)
  then show ?case using connective_shorter(2) [of e "'' && ''" i] by simp
next
  case (7 dbg ctx e expr i)
  then show ?case using connective_shorter(1) [of e "'' || ''" i] by simp
next
  case (8 dbg ctx e expr i v)
  then show ?case using connective_shorter(2) [of e "'' || ''" i] by simp
qed simp

declare eval_expr.simps [simp del]

definition evaluate :: "(ExprValue \<Rightarrow> string) \<Rightarrow> expr_context \<Rightarrow> string \<Rightarrow> ExprError + ExprValue" where
  "evaluate dbg ctx expr0 =
     (let expr = trim expr0 in if expr = [] then Inr (EBool True) else eval_expr dbg ctx expr)"

definition evaluate_as_bool :: "(ExprValue \<Rightarrow> string) \<Rightarrow> expr_context \<Rightarrow> string \<Rightarrow> ExprError + bool" where
  "evaluate_as_bool dbg ctx expr = map_ok to_bool (evaluate dbg ctx expr)"

definition to_expr_context :: "json smap \<Rightarrow> expr_context" where
  "to_expr_context outputs = map (\<lambda>(k, v). (k, json_to_expr_value v)) outputs"

section \<open>Separators\<close>

lemma rfind_str_None_iff: "rfind_str s p = None \<longleftrightarrow> find_str s p = None"
  by (induction s) (auto split: option.splits)

lemma rfind_str_append: "rfind_str m p = Some i \<Longrightarrow> rfind_str (l @ m) p = Some (length l + i)"
  by (induction l) auto

lemma trim_id:
  assumes "s \<noteq> []" "\<not> is_whitespace (hd s)" "\<not> is_whitespace (last s)"
  shows "trim s = s"
proof -
  have "dropWhile is_whitespace s = s" using assms(1,2) by (cases s) auto
  moreover have "dropWhile is_whitespace (rev s) = rev s"
    using assms(1,3) by (cases "rev s") (auto simp: last_rev [of "rev s", simplified])
  ultimately show ?thesis by (simp add: trim_def)
qed

lemma trimmed_ends:
  assumes "trim s = s" "s \<noteq> []"
  shows "\<not> is_whitespace (hd s)" "\<not> is_whitespace (last s)"
proof -
  have "dropWhile is_whitespace s = s"
  proof (rule ccontr)
    assume "dropWhile is_whitespace s \<noteq> s"
    then have "length (dropWhile is_whitespace s) < length s"
      by (metis append_take_drop_id dropWhile_eq_drop length_dropWhile_le nat_less_le
          takeWhile_dropWhile_id append_self_conv2 length_append add_0 add_right_cancel length_0_conv)
    moreover have "length (trim s) \<le> length (dropWhile is_whitespace s)"
      by (metis length_dropWhile_le length_rev trim_def)
    ultimately show False using assms(1) by simp
  qed
  then show "\<not> is_whitespace (hd s)" using assms(2) by (metis dropWhile_eq_self_iff)
  with assms show "\<not> is_whitespace (last s)"
    unfolding trim_def using \<open>dropWhile is_whitespace s = s\<close>
    by (metis dropWhile_eq_self_iff hd_rev rev_is_Nil_conv rev_rev_ident)
qed

text \<open>A clause of a disjunction: trimmed, non-empty, and without the separator in it.\<close>

definition or_clause :: "string \<Rightarrow> bool" where
  "or_clause p \<longleftrightarrow> trim p = p \<and> p \<noteq> [] \<and> \<not> contains_str ('' '' @ p) '' || ''"

abbreviation or_join :: "string list \<Rightarrow> string" where
  "or_join \<equiv> join_str '' || ''"

lemma or_join_snoc: "ps \<noteq> [] \<Longrightarrow> or_join (ps @ [p]) = or_join ps @ '' || '' @ p"
  by (induction "'' || ''" ps rule: join_str.induct) auto

lemma or_join_trimmed:
  assumes "list_all or_clause ps" "ps \<noteq> []"
  shows "or_join ps \<noteq> [] \<and> trim (or_join ps) = or_join ps"
proof -
  have "or_join ps \<noteq> [] \<and> \<not> is_whitespace (hd (or_join ps)) \<and> \<not> is_whitespace (last (or_join ps))"
    using assms
  proof (induction "'' || ''" ps rule: join_str.induct)
    case (2 p)
    then show ?case using trimmed_ends [of p] by (auto simp: or_clause_def)
  next
    case (3 p q ps)
    then show ?case using trimmed_ends [of p] by (auto simp: or_clause_def)
  qed simp
  then show ?thesis using trim_id by blast
qed

lemma rfind_or:
  assumes "or_clause p"
  shows "rfind_str (l @ '' || '' @ p) '' || '' = Some (length l)"
proof -
  have "rfind_str ('' '' @ p) '' || '' = None"
    using assms unfolding or_clause_def contains_str_def rfind_str_None_iff by blast
  then have "rfind_str ('' || '' @ p) '' || '' = Some 0" by (simp del: rfind_str.simps(1) split: option.splits)
  from rfind_str_append [OF this] show ?thesis by simp
qed

lemma map_results_snoc:
  "map_results f (xs @ [x]) = rbind (map_results f xs) (\<lambda>ys. rbind (f x) (\<lambda>y. Inr (ys @ [y])))"
proof (induction xs)
  case Nil
  then show ?case by (cases "f x") auto
next
  case (Cons a xs)
  then show ?case by (cases "f a"; cases "map_results f xs"; cases "f x") auto
qed

section \<open>Properties\<close>

text \<open>
  A disjunction of two or more clauses evaluates every clause, from left to right, and
  is the disjunction of their truth values: an error in any clause is the result (the first
  one, even after a true clause), and otherwise the result is true exactly if some clause
  is.
\<close>

theorem eval_disjunction:
  assumes "list_all or_clause ps" "2 \<le> length ps"
  shows "eval_expr dbg ctx (or_join ps) =
    rbind (map_results (eval_expr dbg ctx) ps) (\<lambda>vs. Inr (EBool (list_ex to_bool vs)))"
  using assms
proof (induction ps rule: rev_induct)
  case (snoc p ps)
  then have ps: "ps \<noteq> []" "list_all or_clause ps" "or_clause p" by auto
  have split: "eval_expr dbg ctx (or_join (ps @ [p])) =
      rbind (eval_expr dbg ctx (or_join ps)) (\<lambda>l. rbind (eval_expr dbg ctx p) (\<lambda>r.
        Inr (EBool (to_bool l \<or> to_bool r))))"
  proof -
    have "trim (or_join (ps @ [p])) = or_join (ps @ [p])"
      using or_join_trimmed [of "ps @ [p]"] snoc.prems by simp
    then show ?thesis
      by (subst eval_expr.simps) (simp add: Let_def or_join_snoc [OF ps(1)] rfind_or [OF ps(3), simplified])
  qed
  show ?case
  proof (cases ps)
    case (Cons q qs)
    show ?thesis
    proof (cases qs)
      case Nil
      with Cons split show ?thesis
        by (cases "eval_expr dbg ctx q"; cases "eval_expr dbg ctx p") simp_all
    next
      case (Cons q2 qs2)
      with \<open>ps = q # qs\<close> have "2 \<le> length ps" by simp
      from snoc.IH [OF ps(2) this] split show ?thesis
        by (cases "map_results (eval_expr dbg ctx) ps"; cases "eval_expr dbg ctx p")
          (simp_all add: map_results_snoc)
    qed
  qed (use ps(1) in simp)
qed simp

theorem eval_disjunction_witness:
  "eval_expr (\<lambda>_. []) [] (or_join [''true'', ''nope'']) = Inl (UnknownReference ''nope'') \<and>
   eval_expr (\<lambda>_. []) [] (or_join [''false'', ''true'']) = Inr (EBool True)"
proof -
  have "list_all or_clause [''true'', ''nope'', ''false'']" by code_simp
  moreover have "eval_expr (\<lambda>_. []) [] ''true'' = Inr (EBool True)"
    "eval_expr (\<lambda>_. []) [] ''false'' = Inr (EBool False)"
    "eval_expr (\<lambda>_. []) [] ''nope'' = Inl (UnknownReference ''nope'')" by code_simp+
  ultimately show ?thesis
    using eval_disjunction [of "[''true'', ''nope'']" "\<lambda>_. []" "[]"]
      eval_disjunction [of "[''false'', ''true'']" "\<lambda>_. []" "[]"] by simp
qed

end
