(* ===== verification/Template_Resolve.thy ===== *)
theory Template_Resolve
  imports Compiler
begin

text \<open>
  Resolution of step inputs against the state of a run,
  \<^verbatim>\<open>konflux-substrate/src/template.rs\<close>. The template engine \<^verbatim>\<open>minijinja\<close> is the
  parameter \<open>minijinja\<close>, a function of the template and the variables.
\<close>

section \<open>Definitions\<close>

datatype jinja_error = JinjaParse string | JinjaRender string

type_synonym minijinja = "string \<Rightarrow> json smap \<Rightarrow> jinja_error + string"

definition render :: "minijinja \<Rightarrow> string \<Rightarrow> json smap \<Rightarrow> string + string" where
  "render minijinja tmpl vars =
     map_err (\<lambda>e. case e of
                 JinjaParse m \<Rightarrow> ''template parse error: '' @ m
               | JinjaRender m \<Rightarrow> ''template render error: '' @ m) (minijinja tmpl vars)"

definition has_templates :: "string \<Rightarrow> bool" where
  "has_templates s = (contains_str s ''{{'' \<and> contains_str s ''}}'')"

definition ref_segment :: "string \<Rightarrow> bool" where
  "ref_segment seg =
     (seg \<noteq> [] \<and> list_all (\<lambda>c. is_alphanumeric c \<or> c = CHR ''_'') seg \<and> \<not> is_digit (hd seg))"

definition try_pure_ref :: "string \<Rightarrow> string option" where
  "try_pure_ref s =
     (case strip_prefix (trim s) ''{{'' of
        None \<Rightarrow> None
      | Some rest \<Rightarrow>
          (case strip_suffix rest ''}}'' of
             None \<Rightarrow> None
           | Some body \<Rightarrow>
               (let inner = trim body in
                if contains_str inner ''{{'' \<or> contains_str inner ''}}'' then None
                else if list_ex (\<lambda>c. c \<in> set ''|()[]+-=<>,'') inner then None
                else if inner = [] then None
                else if \<not> list_all ref_segment (split_on CHR ''.'' inner) then None
                else Some inner)))"

fun follow_parts :: "json \<Rightarrow> string list \<Rightarrow> json option" where
  "follow_parts current [] = Some current"
| "follow_parts current (part # parts) =
     (case json_get current part of
        Some v \<Rightarrow> follow_parts v parts
      | None \<Rightarrow> None)"

definition resolve_ref :: "string \<Rightarrow> json smap \<Rightarrow> json option" where
  "resolve_ref path state =
     (case split_on CHR ''.'' path of
        [] \<Rightarrow> None
      | root # parts \<Rightarrow>
          (case obj_get state root of
             Some v \<Rightarrow> follow_parts v parts
           | None \<Rightarrow> None))"

fun resolve_json_templates :: "minijinja \<Rightarrow> json smap \<Rightarrow> json \<Rightarrow> string + json"
  and resolve_all :: "minijinja \<Rightarrow> json smap \<Rightarrow> json list \<Rightarrow> string + json list"
  and resolve_fields :: "minijinja \<Rightarrow> json smap \<Rightarrow> jobject \<Rightarrow> jobject \<Rightarrow> string + jobject" where
  "resolve_json_templates mj state (JString s) =
     (if has_templates s then
        (case Option.bind (try_pure_ref s) (\<lambda>path. resolve_ref path state) of
           Some value \<Rightarrow> Inr value
         | None \<Rightarrow> map_ok JString (render mj s state))
      else Inr (JString s))"
| "resolve_json_templates mj state (JArray arr) = map_ok JArray (resolve_all mj state arr)"
| "resolve_json_templates mj state (JObject obj) = map_ok JObject (resolve_fields mj state obj [])"
| "resolve_json_templates mj state JNull = Inr JNull"
| "resolve_json_templates mj state (JBool b) = Inr (JBool b)"
| "resolve_json_templates mj state (JNumber n) = Inr (JNumber n)"
| "resolve_all mj state [] = Inr []"
| "resolve_all mj state (v # vs) =
     rbind (resolve_json_templates mj state v) (\<lambda>x.
     rbind (resolve_all mj state vs) (\<lambda>xs. Inr (x # xs)))"
| "resolve_fields mj state [] resolved = Inr resolved"
| "resolve_fields mj state ((k, v) # obj) resolved =
     rbind (resolve_json_templates mj state v) (\<lambda>x.
     resolve_fields mj state obj (obj_insert k x resolved))"

definition resolve_expr :: "minijinja \<Rightarrow> json smap \<Rightarrow> Expr \<Rightarrow> string + json" where
  "resolve_expr mj state expr =
     (case expr of
        Literal s \<Rightarrow> Inr (JString s)
      | Ref path \<Rightarrow> ok_or (''unresolved reference: '' @ path) (resolve_ref path state)
      | Template tmpl \<Rightarrow> map_ok JString (render mj tmpl state)
      | Json val \<Rightarrow> resolve_json_templates mj state val)"

fun resolve_inputs_loop :: "minijinja \<Rightarrow> json smap \<Rightarrow> Expr smap \<Rightarrow> json smap \<Rightarrow> string + json smap" where
  "resolve_inputs_loop mj state [] resolved = Inr resolved"
| "resolve_inputs_loop mj state ((key, expr) # inputs) resolved =
     rbind (resolve_expr mj state expr) (\<lambda>value.
     resolve_inputs_loop mj state inputs (obj_insert key value resolved))"

definition resolve_inputs :: "minijinja \<Rightarrow> Expr smap \<Rightarrow> json smap \<Rightarrow> string + json smap" where
  "resolve_inputs mj inputs state = resolve_inputs_loop mj state inputs []"

section \<open>Values without templates\<close>

text \<open>Objects in key order, as the object map of the library keeps them.\<close>

fun json_sorted :: "json \<Rightarrow> bool" where
  "json_sorted (JArray arr) = list_all json_sorted arr"
| "json_sorted (JObject obj) =
     (sorted_wrt (<) (map fst obj) \<and> list_all (\<lambda>kv. json_sorted (snd kv)) obj)"
| "json_sorted _ = True"

fun template_free :: "json \<Rightarrow> bool" where
  "template_free (JString s) = (\<not> has_templates s)"
| "template_free (JArray arr) = list_all template_free arr"
| "template_free (JObject obj) = list_all (\<lambda>kv. template_free (snd kv)) obj"
| "template_free _ = True"

lemma obj_insert_append:
  "sorted_wrt (<) (map fst m @ [k]) \<Longrightarrow> obj_insert k v m = m @ [(k, v)]"
  by (induction m) (auto simp: sorted_wrt_append)

lemma resolve_template_free_aux:
  "template_free v \<Longrightarrow> json_sorted v \<Longrightarrow> resolve_json_templates mj state v = Inr v"
  "list_all template_free vs \<Longrightarrow> list_all json_sorted vs \<Longrightarrow> resolve_all mj state vs = Inr vs"
  "list_all (\<lambda>kv. template_free (snd kv)) obj \<Longrightarrow> list_all (\<lambda>kv. json_sorted (snd kv)) obj \<Longrightarrow>
   sorted_wrt (<) (map fst (res @ obj)) \<Longrightarrow> resolve_fields mj state obj res = Inr (res @ obj)"
proof (induction mj state v and mj state vs and mj state obj res
    rule: resolve_json_templates_resolve_all_resolve_fields.induct)
  case (10 mj state k v obj resolved)
  have "sorted_wrt (<) (map fst resolved @ [k])" using "10.prems"(3) by (auto simp: sorted_wrt_append)
  then have "obj_insert k v resolved = resolved @ [(k, v)]" by (rule obj_insert_append)
  with 10 show ?case by simp
qed auto

section \<open>References\<close>

lemma ref_segment_chars:
  assumes "list_all ref_segment (split_on CHR ''.'' s)" "c \<in> set s"
  shows "is_alphanumeric c \<or> c = CHR ''_'' \<or> c = CHR ''.''"
proof -
  have "set (join_with d ws) \<subseteq> insert d (\<Union> (set ` set ws))" for d ws
    by (induction d ws rule: join_with.induct) auto
  from this [of "CHR ''.''" "split_on CHR ''.'' s"] assms show ?thesis
    unfolding join_split_on by (fastforce simp: list_all_iff ref_segment_def)
qed

lemma trim_decomp:
  obtains a b where "s = a @ trim s @ b" "list_all is_whitespace a" "list_all is_whitespace b"
proof -
  let ?d = "dropWhile is_whitespace s"
  have "s = takeWhile is_whitespace s @ ?d" by simp
  moreover have "?d = trim s @ rev (takeWhile is_whitespace (rev ?d))"
    unfolding trim_def by (metis rev_append rev_rev_ident takeWhile_dropWhile_id)
  moreover have "list_all is_whitespace (takeWhile is_whitespace s)"
    "list_all is_whitespace (rev (takeWhile is_whitespace (rev ?d)))"
    by (auto simp: list_all_iff dest: set_takeWhileD)
  ultimately show thesis using that by metis
qed

lemma contains_brace: "contains_str s ''{{'' \<Longrightarrow> CHR ''{'' \<in> set s"
  unfolding contains_str_iff by (auto simp: sublist_def)

lemma try_pure_ref_shape:
  assumes "try_pure_ref s = Some path" "trim s = s"
  obtains body where "s = ''{{'' @ body @ ''}}''" "path = trim body"
    and "list_all (\<lambda>c. is_alphanumeric c \<or> c = CHR ''.'' \<or> c = CHR ''_'') path"
    and "CHR ''{'' \<notin> set body"
proof -
  from assms obtain body where b: "s = ''{{'' @ body @ ''}}''" "path = trim body"
    "list_all ref_segment (split_on CHR ''.'' path)"
    by (auto simp: try_pure_ref_def Let_def strip_prefix_eq_Some strip_suffix_eq_Some
        split: option.splits if_splits)
  have chars: "is_alphanumeric c \<or> c = CHR ''_'' \<or> c = CHR ''.''" if "c \<in> set path" for c
    using ref_segment_chars [OF b(3) that] .
  obtain x y where xy: "body = x @ trim body @ y" "list_all is_whitespace x" "list_all is_whitespace y"
    by (rule trim_decomp)
  have "CHR ''{'' \<notin> set body"
  proof
    assume "CHR ''{'' \<in> set body"
    then have "CHR ''{'' \<in> set x \<union> set path \<union> set y" using xy(1) b(2) by (metis set_append Un_assoc)
    moreover have "\<not> is_whitespace (CHR ''{'')" "\<not> is_alphanumeric (CHR ''{'')"
      by (simp_all add: is_whitespace_def is_alphanumeric_def is_alphabetic_def is_digit_def)
    ultimately show False using chars xy(2,3) by (auto simp: list_all_iff)
  qed
  moreover have "list_all (\<lambda>c. is_alphanumeric c \<or> c = CHR ''.'' \<or> c = CHR ''_'') path"
    using chars by (auto simp: list_all_iff)
  ultimately show thesis using that b by blast
qed

section \<open>Properties\<close>

text \<open>
  A value without template markers reaches the tool unchanged, at any depth of arrays
  and objects, whatever the state of the run and the template engine.
\<close>

theorem resolve_template_free:
  assumes "template_free v" "json_sorted v"
  shows "resolve_json_templates mj state v = Inr v"
  using resolve_template_free_aux(1) [OF assms] .

theorem resolve_template_free_witness:
  "resolve_json_templates (\<lambda>_ _. Inl (JinjaParse [])) []
     (JObject [(''a'', JArray [JString ''x {{'', JNull]), (''b'', JBool True)]) =
   Inr (JObject [(''a'', JArray [JString ''x {{'', JNull]), (''b'', JBool True)])"
proof -
  have "template_free (JObject [(''a'', JArray [JString ''x {{'', JNull]), (''b'', JBool True)])"
    "json_sorted (JObject [(''a'', JArray [JString ''x {{'', JNull]), (''b'', JBool True)])"
    by code_simp+
  then show ?thesis by (rule resolve_template_free)
qed

text \<open>
  A pure reference \<open>{{ path }}\<close> means the same wherever it stands: compiled as an
  input of its own (\<open>Ref\<close>) or nested inside a JSON argument, it yields the referenced value
  with its JSON type, not its text, and the template engine is not consulted.
\<close>

theorem pure_ref_passthrough:
  assumes pure: "try_pure_ref s = Some path" and trimmed: "trim s = s"
    and found: "resolve_ref path state = Some value"
  shows "resolve_json_templates mj state (JString s) = Inr value \<and>
    value_to_expr (JString s) = Ref path \<and>
    resolve_expr mj state (value_to_expr (JString s)) = Inr value"
proof -
  obtain body where b: "s = ''{{'' @ body @ ''}}''" "path = trim body"
    and chars: "list_all (\<lambda>c. is_alphanumeric c \<or> c = CHR ''.'' \<or> c = CHR ''_'') path"
    and nobrace: "CHR ''{'' \<notin> set body"
    by (rule try_pure_ref_shape [OF pure trimmed])
  have "sublist ''{{'' s" "sublist ''}}'' s" unfolding b(1) sublist_def
    by (metis append_Nil, metis append.right_neutral append_assoc)
  then have "has_templates s" by (simp add: has_templates_def contains_str_iff)
  then have nested: "resolve_json_templates mj state (JString s) = Inr value"
    using pure found by simp
  have "take (length s - 4) (drop 2 s) = body" by (simp add: b(1))
  moreover have "\<not> contains_str body ''{{''" using contains_brace nobrace by blast
  moreover have "starts_with s ''{{''" "ends_with s ''}}''"
    by (simp_all add: b(1) starts_with_def ends_with_def suffix_def)
  ultimately have "value_to_expr (JString s) = Ref path"
    using chars b(2) by (simp add: value_to_expr_def Let_def)
  with nested found show ?thesis by (simp add: resolve_expr_def)
qed

theorem pure_ref_passthrough_witness:
  "resolve_expr (\<lambda>_ _. Inl (JinjaParse [])) [(''a'', JObject [(''b'', JArray [JNull])])]
     (value_to_expr (JString ''{{ a.b }}'')) = Inr (JArray [JNull])"
proof -
  have "try_pure_ref ''{{ a.b }}'' = Some ''a.b''" "trim ''{{ a.b }}'' = ''{{ a.b }}''"
    "resolve_ref ''a.b'' [(''a'', JObject [(''b'', JArray [JNull])])] = Some (JArray [JNull])"
    by code_simp+
  then show ?thesis using pure_ref_passthrough by blast
qed

end
