(* ===== verification/Step_Exec.thy ===== *)
theory Step_Exec
  imports Expr_Eval Template_Resolve
begin

text \<open>
  The execution of one workflow step, \<^verbatim>\<open>konflux-substrate/src/executor.rs\<close>:
  \<open>execute_step\<close>, \<open>invoke_with_retry\<close>, \<open>calculate_backoff\<close> and
  \<open>evaluate_edges_targets\<close>, with the stream and hook events of \<^verbatim>\<open>stream.rs\<close> and
  \<^verbatim>\<open>hooks.rs\<close>.

  What the executor gets from outside is the record \<open>Effects\<close> over a world \<open>'w\<close>: the
  raw tools, \<^verbatim>\<open>tokio::time::timeout\<close> and \<open>sleep\<close>, the cancellation token, the clock, the
  UUID source and parser, the event recorder, the stream sender and the template engine.
  A panic, which the caller catches, is the value \<open>None\<close>.
\<close>

section \<open>Events\<close>

datatype ProgressType = TextDelta | ToolStart | ToolEnd | Status

datatype StreamEvent =
    StreamStart string
  | Progress string ProgressType json
  | Done json
  | StreamError string string bool

datatype ExecutorEvent =
    NodeStarted string string
  | NodeCompleted string string u64 json
  | NodeFailedEvent string string string
  | ToolRetry string string u32 string

text \<open>What \<open>collect_stream\<close> makes of the events it receives.\<close>

fun collect_events :: "StreamEvent list \<Rightarrow> json option \<Rightarrow> string + json" where
  "collect_events [] last_output = ok_or ''stream closed without Done event'' last_output"
| "collect_events (e # es) last_output =
     (case e of
        Done output \<Rightarrow> collect_events es (Some output)
      | StreamError code message retryable \<Rightarrow> Inl message
      | _ \<Rightarrow> collect_events es last_output)"

definition collect_stream :: "StreamEvent list \<Rightarrow> string + json" where
  "collect_stream es = collect_events es None"

text \<open>\<open>collect_text_stream\<close>: the text deltas up to the first \<open>Done\<close>.\<close>

fun collect_text_stream :: "StreamEvent list \<Rightarrow> string + string" where
  "collect_text_stream [] = Inr []"
| "collect_text_stream (e # es) =
     (case e of
        Progress node_id event_type data \<Rightarrow>
          map_ok (\<lambda>rest. (if event_type = TextDelta then (case as_str data of Some s \<Rightarrow> s | None \<Rightarrow> []) else []) @ rest)
            (collect_text_stream es)
      | StreamError code message retryable \<Rightarrow> Inl message
      | Done output \<Rightarrow> Inr []
      | StreamStart workflow_id \<Rightarrow> collect_text_stream es)"

text \<open>A stream that finished gives the deltas it carried, and fails only with the message of an error event.\<close>

lemma collect_text_deltas:
  "collect_text_stream (map (\<lambda>s. Progress n TextDelta (JString s)) ss @ Done v # es) = Inr (concat ss)"
  by (induction ss) simp_all

section \<open>Effects and context\<close>

datatype call_outcome = Completed "ToolError + json Envelope" | Elapsed | Panicked

record 'w Effects =
  fx_raw :: "'w raw_tool"
  fx_timeout :: "duration \<Rightarrow> ('w \<Rightarrow> (ToolError + json Envelope) \<times> 'w) \<Rightarrow> 'w \<Rightarrow> call_outcome \<times> 'w"
  fx_sleep :: "duration \<Rightarrow> 'w \<Rightarrow> 'w"
  fx_cancelled :: "'w \<Rightarrow> bool"
  fx_now :: "'w \<Rightarrow> datetime"
  fx_elapsed_ms :: "'w \<Rightarrow> 'w \<Rightarrow> u64"
  fx_fresh :: "'w \<Rightarrow> uuid"
  fx_parse_uuid :: "string \<Rightarrow> uuid option"
  fx_on_event :: "ExecutorEvent \<Rightarrow> 'w \<Rightarrow> 'w"
  fx_try_send :: "StreamEvent \<Rightarrow> 'w \<Rightarrow> 'w"
  fx_minijinja :: minijinja
  fx_debug :: "ExprValue \<Rightarrow> string"

record StepContext =
  sc_registry :: ToolRegistry
  sc_capabilities :: "string list"
  sc_config :: EngineConfig
  sc_metadata :: "json smap"
  sc_workflow_id :: string

section \<open>Backoff\<close>

definition duration_max :: nat where
  "duration_max = 2 ^ 64 * 1000000000 - 1"

definition saturating_pow2 :: "nat \<Rightarrow> u64" where
  "saturating_pow2 n = (if n < 64 then 2 ^ n else - 1)"

text \<open>\<open>None\<close> is the panic of \<^verbatim>\<open>Duration * u32\<close> on overflow.\<close>

definition calculate_backoff :: "RetryPolicy option \<Rightarrow> nat \<Rightarrow> EngineConfig \<Rightarrow> duration option" where
  "calculate_backoff policy attempt cfg =
     (case policy of
        None \<Rightarrow> Some (from_millis (cfg_default_retry_backoff_ms cfg))
      | Some p \<Rightarrow>
          map_option (\<lambda>delay. min delay (max_delay p))
            (case backoff p of
               Fixed \<Rightarrow> Some (base_delay p)
             | Exponential \<Rightarrow>
                 Some (from_millis
                   (saturating_mul (of_nat (as_millis (base_delay p))) (saturating_pow2 (attempt - 1))))
             | Linear increment \<Rightarrow>
                 (let inc = increment * (attempt - 1) in
                  if inc > duration_max then None
                  else Some (min duration_max (base_delay p + inc)))))"

section \<open>Invocation with retries\<close>

fun retryable :: "ToolError \<Rightarrow> bool" where
  "retryable (ExecutionFailed message r) = r"
| "retryable (ToolTimeout after_ms) = True"
| "retryable _ = False"

definition attempts_allowed :: "Step \<Rightarrow> nat" where
  "attempts_allowed step =
     (case step_retry step of Some r \<Rightarrow> unat (max_attempts r + 1) | None \<Rightarrow> 1)"

text \<open>The time a call may take: the step's or the default timeout, cut at the deadline.\<close>

definition call_duration :: "'w Effects \<Rightarrow> StepContext \<Rightarrow> Step \<Rightarrow> json Envelope \<Rightarrow> 'w \<Rightarrow> duration" where
  "call_duration fx ctx step env w =
     (let dur = (case step_timeout step of
                   Some d \<Rightarrow> d
                 | None \<Rightarrow> from_millis (cfg_default_timeout_ms (sc_config ctx)))
      in case env_deadline env of
           Some deadline \<Rightarrow> min dur (nat (deadline - fx_now fx w))
         | None \<Rightarrow> dur)"

definition tool_start_event :: "Step \<Rightarrow> Tool \<Rightarrow> nat \<Rightarrow> StreamEvent" where
  "tool_start_event step tool attempt =
     Progress (step_id step) ToolStart
       (JObject [(''attempt'', JNumber (PosInt (of_nat attempt))),
                 (''tool'', JString (info_name (info tool)))])"

definition tool_end_event :: "Step \<Rightarrow> Tool \<Rightarrow> u64 \<Rightarrow> StreamEvent" where
  "tool_end_event step tool duration_ms =
     Progress (step_id step) ToolEnd
       (JObject [(''duration_ms'', JNumber (PosInt duration_ms)),
                 (''tool'', JString (info_name (info tool)))])"

definition past_deadline :: "'w Effects \<Rightarrow> json Envelope \<Rightarrow> 'w \<Rightarrow> bool" where
  "past_deadline fx env w =
     (case env_deadline env of Some deadline \<Rightarrow> fx_now fx w > deadline | None \<Rightarrow> False)"

definition no_attempts_error :: ToolError where
  "no_attempts_error =
     ExecutionFailed ''No execution attempts were permitted by retry policy'' False"

text \<open>One timed call of the tool; \<open>None\<close> is a panic.\<close>

definition timed_call ::
  "'w Effects \<Rightarrow> StepContext \<Rightarrow> Tool \<Rightarrow> json Envelope \<Rightarrow> Step \<Rightarrow> 'w \<Rightarrow>
   (ToolError + json Envelope) option \<times> 'w" where
  "timed_call fx ctx tool env step w =
     (let dur = call_duration fx ctx step env w in
      case fx_timeout fx dur (invoke (fx_raw fx) tool env) w of
        (Completed r, w') \<Rightarrow> (Some r, w')
      | (Elapsed, w') \<Rightarrow> (Some (Inl (ToolTimeout (of_nat (as_millis dur)))), w')
      | (Panicked, w') \<Rightarrow> (None, w'))"

function retry_loop ::
  "'w Effects \<Rightarrow> StepContext \<Rightarrow> Tool \<Rightarrow> json Envelope \<Rightarrow> Step \<Rightarrow> nat \<Rightarrow> ToolError option \<Rightarrow> 'w \<Rightarrow>
   (KonfluxError + json Envelope) option \<times> 'w" where
  "retry_loop fx ctx tool env step attempt last_err w =
     (if attempt > attempts_allowed step then
        (Some (Inl (KTool (case last_err of Some e \<Rightarrow> e | None \<Rightarrow> no_attempts_error))), w)
      else if fx_cancelled fx w then
        (Some (Inl (KExecution (Cancelled (sc_workflow_id ctx)))), w)
      else if past_deadline fx env w then (Some (Inl (KTool (ToolTimeout 0))), w)
      else
        (case (if attempt > 1 then
                 map_option (\<lambda>d. fx_sleep fx d w)
                   (calculate_backoff (step_retry step) (attempt - 1) (sc_config ctx))
               else Some w) of
           None \<Rightarrow> (None, w)
         | Some w1 \<Rightarrow>
             (let w2 = fx_try_send fx (tool_start_event step tool attempt) w1 in
              case timed_call fx ctx tool env step w2 of
                (None, w3) \<Rightarrow> (None, w3)
              | (Some (Inr output), w3) \<Rightarrow>
                  (Some (Inr output),
                   fx_try_send fx (tool_end_event step tool (fx_elapsed_ms fx w2 w3)) w3)
              | (Some (Inl e), w3) \<Rightarrow>
                  if \<not> retryable e \<or> attempt \<ge> attempts_allowed step then
                    (Some (Inl (KTool e)), w3)
                  else
                    retry_loop fx ctx tool env step (attempt + 1) (Some e)
                      (fx_on_event fx (ToolRetry (step_id step) (info_name (info tool))
                        (of_nat attempt) (show_ToolError e)) w3))))"
  by pat_completeness auto
termination
  by (relation "measure (\<lambda>(fx, ctx, tool, env, step, attempt, last_err, w). Suc (attempts_allowed step) - attempt)")
    auto

declare retry_loop.simps [simp del]

definition invoke_with_retry ::
  "'w Effects \<Rightarrow> StepContext \<Rightarrow> Tool \<Rightarrow> json Envelope \<Rightarrow> Step \<Rightarrow> 'w \<Rightarrow>
   (KonfluxError + json Envelope) option \<times> 'w" where
  "invoke_with_retry fx ctx tool env step w = retry_loop fx ctx tool env step 1 None w"

section \<open>One step\<close>

definition metadata_str :: "StepContext \<Rightarrow> string \<Rightarrow> string" where
  "metadata_str ctx k =
     (case Option.bind (obj_get (sc_metadata ctx) k) as_str of Some s \<Rightarrow> s | None \<Rightarrow> ''unknown'')"

definition metadata_trace_id :: "'w Effects \<Rightarrow> StepContext \<Rightarrow> 'w \<Rightarrow> uuid" where
  "metadata_trace_id fx ctx w =
     (case Option.bind (Option.bind (obj_get (sc_metadata ctx) ''trace_id'') as_str) (fx_parse_uuid fx) of
        Some u \<Rightarrow> u
      | None \<Rightarrow> fx_fresh fx w)"

text \<open>The checks before the call: the tool to call and the envelope to call it with.\<close>

definition prepare_step ::
  "'w Effects \<Rightarrow> StepContext \<Rightarrow> Step \<Rightarrow> json smap \<Rightarrow> 'w \<Rightarrow> KonfluxError + Tool \<times> json Envelope" where
  "prepare_step fx ctx step outputs w =
     rbind (map_err (\<lambda>e. KExecution (NodeFailed (sc_workflow_id ctx) (step_id step)
              (''Failed to resolve inputs: '' @ e)))
            (resolve_inputs (fx_minijinja fx) (step_input step) outputs)) (\<lambda>resolved_inputs.
     rbind (map_err KTool (check_tool_access (step_tool step) (sc_capabilities ctx))) (\<lambda>_.
     rbind (ok_or (KTool (ToolNotFound (step_tool step)))
              (registry_get (sc_registry ctx) (step_tool step))) (\<lambda>tool.
     rbind (case step_grant step of
              Some grant \<Rightarrow>
                map_ok (\<lambda>_. grant) (map_err (\<lambda>e. KTool (ToolCapabilityDenied e))
                  (validate_grant grant (sc_capabilities ctx)))
            | None \<Rightarrow> Inr (sc_capabilities ctx)) (\<lambda>tool_capabilities.
     Inr (tool, for_tool_dispatch (fx_fresh fx w) (fx_now fx w) (step_tool step)
            (JObject resolved_inputs) tool_capabilities (metadata_trace_id fx ctx w)
            (metadata_str ctx ''namespace'') (metadata_str ctx ''actor_id'')
            (metadata_str ctx ''session_id''))))))"

definition execute_step ::
  "'w Effects \<Rightarrow> StepContext \<Rightarrow> Step \<Rightarrow> json smap \<Rightarrow> 'w \<Rightarrow> (KonfluxError + json) option \<times> 'w" where
  "execute_step fx ctx step outputs w =
     (let w0 = fx_on_event fx (NodeStarted (step_id step) (step_tool step)) w in
      case prepare_step fx ctx step outputs w0 of
        Inl e \<Rightarrow> (Some (Inl e), w0)
      | Inr (tool, env) \<Rightarrow>
          (case invoke_with_retry fx ctx tool env step w0 of
             (None, w1) \<Rightarrow> (None, w1)
           | (Some (Inr output), w1) \<Rightarrow>
               (Some (Inr (env_payload output)),
                fx_on_event fx (NodeCompleted (step_id step) (step_tool step)
                  (fx_elapsed_ms fx w0 w1) (env_payload output)) w1)
           | (Some (Inl e), w1) \<Rightarrow>
               (Some (Inl e),
                fx_on_event fx (NodeFailedEvent (step_id step) (step_tool step)
                  (show_KonfluxError e)) w1)))"

section \<open>Edges\<close>

definition clean_condition :: "string \<Rightarrow> string" where
  "clean_condition condition =
     trim (case Option.bind (strip_prefix (trim condition) ''{{'') (\<lambda>s. strip_suffix s ''}}'') of
             Some s \<Rightarrow> s
           | None \<Rightarrow> condition)"

fun edge_loop ::
  "(ExprValue \<Rightarrow> string) \<Rightarrow> expr_context \<Rightarrow> Edge list \<Rightarrow> EdgeTarget list \<Rightarrow> ExprError + EdgeTarget list" where
  "edge_loop dbg ctx [] targets = Inr targets"
| "edge_loop dbg ctx (e # es) targets =
     (case edge_condition e of
        Some condition \<Rightarrow>
          rbind (evaluate_as_bool dbg ctx (clean_condition condition)) (\<lambda>b.
            if b then Inr (targets @ [edge_target e]) else edge_loop dbg ctx es targets)
      | None \<Rightarrow> edge_loop dbg ctx es (targets @ [edge_target e]))"

definition evaluate_edges_targets ::
  "(ExprValue \<Rightarrow> string) \<Rightarrow> Step \<Rightarrow> json smap \<Rightarrow> string \<Rightarrow> KonfluxError + EdgeTarget list" where
  "evaluate_edges_targets dbg step outputs workflow_id =
     (if step_edges step = [] then Inr [Return]
      else rbind (map_err (\<lambda>e. KExecution (NodeFailed workflow_id (step_id step)
                    (''Condition evaluation failed: '' @ show_ExprError e)))
                  (edge_loop dbg (to_expr_context outputs)
                     (sort_key (\<lambda>e. sint (edge_priority e)) (step_edges step)) []))
        (\<lambda>targets. Inr (if targets = [] then [Return] else targets)))"

section \<open>Backoff is capped and non-decreasing\<close>

lemma unat_saturating_pow2: "unat (saturating_pow2 n) = min (2 ^ n) u64_max"
proof (cases "n < 64")
  case True
  then have "(2::nat) ^ n < 2 ^ 64" by (intro power_strict_increasing) auto
  moreover have "unat ((2::u64) ^ n) = unat (of_nat (2 ^ n) :: u64)" by simp
  moreover have "\<dots> = 2 ^ n mod 2 ^ 64" by (subst unat_of_nat) simp
  ultimately show ?thesis using True by (simp add: saturating_pow2_def u64_max_def)
next
  case False
  then have "(2::nat) ^ 64 \<le> 2 ^ n" by (intro power_increasing) auto
  with False show ?thesis by (simp add: saturating_pow2_def unat_minus_one_u64 u64_max_def)
qed

lemma exponential_mono:
  assumes "m \<le> n"
  shows "unat (saturating_mul b (saturating_pow2 m)) \<le> unat (saturating_mul b (saturating_pow2 n))"
proof -
  have "(2::nat) ^ m \<le> 2 ^ n" using assms by simp
  then have "min (2 ^ m) u64_max \<le> min (2 ^ n) u64_max" by (intro min.mono) simp_all
  from min.mono [OF mult_le_mono [OF order_refl this] order_refl] show ?thesis
    unfolding unat_saturating_mul unat_saturating_pow2 .
qed

text \<open>
  Retry delays never exceed the policy's maximum and never shrink from one attempt to a
  later one, under every backoff strategy and with the saturating arithmetic of the code.
\<close>

theorem backoff_capped_and_monotone:
  assumes "calculate_backoff (Some p) m cfg = Some d" "calculate_backoff (Some p) n cfg = Some d'"
    and "m \<le> n"
  shows "d \<le> d' \<and> d' \<le> max_delay p"
proof (cases "backoff p")
  case Fixed
  with assms show ?thesis by (auto simp: calculate_backoff_def)
next
  case Exponential
  have "m - 1 \<le> n - 1" using assms(3) by simp
  from exponential_mono [OF this, of "of_nat (as_millis (base_delay p))"] Exponential assms show ?thesis
    by (auto simp: calculate_backoff_def from_millis_def min_def)
next
  case (Linear increment)
  let ?f = "\<lambda>k. min duration_max (base_delay p + increment * (k - 1))"
  have "?f m \<le> ?f n"
    using assms(3) by (intro min.mono add_mono mult_le_mono) auto
  then have "min (?f m) (max_delay p) \<le> min (?f n) (max_delay p)" by (rule min.mono [OF _ order_refl])
  moreover have "d = min (?f m) (max_delay p)" "d' = min (?f n) (max_delay p)"
    using Linear assms(1,2) by (auto simp: calculate_backoff_def Let_def split: if_splits)
  ultimately show ?thesis by simp
qed

theorem backoff_capped_and_monotone_witness:
  "\<exists>d d'. calculate_backoff (Some \<lparr> max_attempts = 3, backoff = Fixed, base_delay = 5, max_delay = 4 \<rparr>)
      1 EngineConfig_default = Some d \<and>
    calculate_backoff (Some \<lparr> max_attempts = 3, backoff = Fixed, base_delay = 5, max_delay = 4 \<rparr>)
      2 EngineConfig_default = Some d' \<and> d \<le> d' \<and> d' \<le> 4"
proof -
  let ?p = "\<lparr> max_attempts = 3, backoff = Fixed, base_delay = 5, max_delay = 4 \<rparr>"
  have "calculate_backoff (Some ?p) k EngineConfig_default = Some 4" for k
    by (simp add: calculate_backoff_def)
  with backoff_capped_and_monotone [of ?p 1 EngineConfig_default 4 2 4] show ?thesis by auto
qed

section \<open>The number of calls\<close>

text \<open>
  How often a world has been called: only a timed call may count, and it counts at most one.
\<close>

definition counts_calls :: "'w Effects \<Rightarrow> ('w \<Rightarrow> nat) \<Rightarrow> bool" where
  "counts_calls fx calls \<longleftrightarrow>
     (\<forall>d f w. calls (snd (fx_timeout fx d f w)) \<le> Suc (calls w)) \<and>
     (\<forall>d w. calls (fx_sleep fx d w) = calls w) \<and>
     (\<forall>e w. calls (fx_on_event fx e w) = calls w) \<and>
     (\<forall>e w. calls (fx_try_send fx e w) = calls w)"

lemma timed_call_counts:
  "counts_calls fx calls \<Longrightarrow> timed_call fx ctx tool env step w = (r, w') \<Longrightarrow> calls w' \<le> Suc (calls w)"
proof -
  assume "counts_calls fx calls" "timed_call fx ctx tool env step w = (r, w')"
  then have "calls (snd (fx_timeout fx (call_duration fx ctx step env w) (invoke (fx_raw fx) tool env) w))
      \<le> Suc (calls w)"
    and "snd (fx_timeout fx (call_duration fx ctx step env w) (invoke (fx_raw fx) tool env) w) = w'"
    by (auto simp: counts_calls_def timed_call_def Let_def split: prod.splits call_outcome.splits)
  then show ?thesis by simp
qed

lemma retry_loop_calls:
  assumes "counts_calls fx calls"
  shows "calls (snd (retry_loop fx ctx tool env step attempt last_err w)) \<le>
    calls w + (Suc (attempts_allowed step) - attempt)"
  using assms
proof (induction fx ctx tool env step attempt last_err w rule: retry_loop.induct)
  case (1 fx ctx tool env step attempt last_err w)
  let ?slept = "if attempt > 1 then map_option (\<lambda>d. fx_sleep fx d w)
      (calculate_backoff (step_retry step) (attempt - 1) (sc_config ctx)) else Some w"
  consider (stop) "attempt > attempts_allowed step \<or> fx_cancelled fx w \<or> past_deadline fx env w \<or>
      ?slept = None"
    | (go) w1 where "attempt \<le> attempts_allowed step" "\<not> fx_cancelled fx w" "\<not> past_deadline fx env w"
      "?slept = Some w1"
    by (cases ?slept) force+
  then show ?case
  proof cases
    case stop
    then have "snd (retry_loop fx ctx tool env step attempt last_err w) = w"
      by (subst retry_loop.simps) (auto split: option.split)
    then show ?thesis by simp
  next
    case go
    let ?w2 = "fx_try_send fx (tool_start_event step tool attempt) w1"
    obtain r w3 where c: "timed_call fx ctx tool env step ?w2 = (r, w3)" by force
    have w1: "calls w1 = calls w"
      using go(4) "1.prems" by (auto simp: counts_calls_def split: if_splits)
    then have w3: "calls w3 \<le> Suc (calls w)"
      using timed_call_counts [OF "1.prems" c] "1.prems" by (simp add: counts_calls_def)
    let ?w4 = "\<lambda>e. fx_on_event fx (ToolRetry (step_id step) (info_name (info tool))
      (of_nat attempt) (show_ToolError e)) w3"
    have w4: "calls (?w4 e) = calls w3" for e using "1.prems" by (simp add: counts_calls_def)
    note unfolded = retry_loop.simps [of fx ctx tool env step attempt last_err w]
    show ?thesis
    proof (cases "\<exists>e. r = Some (Inl e) \<and> retryable e \<and> attempt < attempts_allowed step")
      case True
      then obtain e where e: "r = Some (Inl e)" "retryable e" "attempt < attempts_allowed step" by blast
      have "retry_loop fx ctx tool env step attempt last_err w =
          retry_loop fx ctx tool env step (attempt + 1) (Some e) (?w4 e)"
        using go c e by (subst unfolded) (simp add: Let_def)
      moreover have "calls (snd (retry_loop fx ctx tool env step (attempt + 1) (Some e) (?w4 e))) \<le>
          calls (?w4 e) + (Suc (attempts_allowed step) - (attempt + 1))"
        by (rule "1.IH" [where ?x2.0 = w1]) (use go c e "1.prems" in auto)
      ultimately show ?thesis using w3 w4 e(3) by simp
    next
      case False
      then have "calls (snd (retry_loop fx ctx tool env step attempt last_err w)) = calls w3"
        using go c "1.prems"
        by (subst unfolded) (auto simp: Let_def counts_calls_def not_less split: option.splits sum.splits)
      with w3 go(1) show ?thesis by simp
    qed
  qed
qed

text \<open>
  C25. A step calls its tool at most \<open>retry.times + 1\<close> times, once without a retry policy,
  however the calls fail; with \<open>retry.times = u32::MAX\<close> the addition wraps and the tool is
  never called. \<open>calls\<close> is any measure of the world that only a call can raise.
\<close>

theorem retry_calls_bounded:
  assumes "counts_calls fx calls"
  shows "calls (snd (invoke_with_retry fx ctx tool env step w)) \<le> calls w +
    (case step_retry step of
       Some r \<Rightarrow> if max_attempts r = - 1 then 0 else unat (max_attempts r) + 1
     | None \<Rightarrow> 1)"
proof -
  have "unat (m + 1) = (if m = - 1 then 0 else unat m + 1)" for m :: u32
  proof (cases "m = - 1")
    case False
    moreover have "unat (- 1 :: u32) = 4294967295"
      by (simp add: unsigned_minus_1_eq_mask mask_eq_exp_minus_1)
    ultimately have "unat m \<noteq> 4294967295" by (metis word_unat_eq_iff)
    moreover have "unat m < 2 ^ LENGTH(32)" by (rule unsigned_less)
    ultimately show ?thesis using False by (simp add: unat_word_ariths)
  qed simp
  with retry_loop_calls [OF assms, of ctx tool env step 1 None w] show ?thesis
    by (cases "step_retry step") (simp_all add: invoke_with_retry_def attempts_allowed_def)
qed

text \<open>Effects over a call counter: tools echo their envelope, nothing times out.\<close>

definition sample_fx :: "nat Effects" where
  "sample_fx =
     \<lparr> fx_raw = (\<lambda>i env w. (Inl (ExecutionFailed ''down'' True), w)),
       fx_timeout = (\<lambda>d f w. (Completed (fst (f w)), Suc w)),
       fx_sleep = (\<lambda>d w. w), fx_cancelled = (\<lambda>w. False), fx_now = (\<lambda>w. 0),
       fx_elapsed_ms = (\<lambda>a b. 0), fx_fresh = (\<lambda>w. 7), fx_parse_uuid = (\<lambda>s. None),
       fx_on_event = (\<lambda>e w. w), fx_try_send = (\<lambda>e w. w),
       fx_minijinja = (\<lambda>t vars. Inl (JinjaParse [])), fx_debug = (\<lambda>v. []) \<rparr>"

definition sample_ctx :: "string list \<Rightarrow> StepContext" where
  "sample_ctx cs =
     \<lparr> sc_registry = register (RawTool (sample_info ''echo'')) [], sc_capabilities = cs,
       sc_config = EngineConfig_default, sc_metadata = [], sc_workflow_id = ''w'' \<rparr>"

definition sample_retry_step :: Step where
  "sample_retry_step = (Step_new ''s'' ''echo'')
     \<lparr> step_retry := Some \<lparr> max_attempts = 2, backoff = Fixed, base_delay = 0, max_delay = 0 \<rparr> \<rparr>"

theorem retry_calls_bounded_witness:
  "snd (invoke_with_retry sample_fx (sample_ctx [''*'']) (RawTool (sample_info ''echo''))
     (sample_env JNull) sample_retry_step 0) \<le> 3"
proof -
  have "counts_calls sample_fx (\<lambda>w. w)" by (simp add: counts_calls_def sample_fx_def)
  from retry_calls_bounded [OF this, where step = sample_retry_step and w = 0] show ?thesis
    by (simp add: sample_retry_step_def)
qed

section \<open>Capabilities\<close>

lemma prepare_step_Inr:
  assumes "prepare_step fx ctx step outputs w = Inr (tool, env)"
  shows "CapSet_permits (CapSet_from_patterns (sc_capabilities ctx)) (step_tool step) \<and>
    registry_get (sc_registry ctx) (step_tool step) = Some tool \<and>
    (CapSet_permits (env_capabilities env) t \<longrightarrow>
       CapSet_permits (CapSet_from_patterns (sc_capabilities ctx)) t)"
proof -
  from assms have access: "check_tool_access (step_tool step) (sc_capabilities ctx) = Inr ()"
    and reg: "registry_get (sc_registry ctx) (step_tool step) = Some tool"
    by (auto simp: prepare_step_def rbind_eq_Inr map_err_eq_Inr)
  have "\<exists>cs. env_capabilities env = CapSet_from_patterns cs \<and>
      (cs = sc_capabilities ctx \<or> validate_grant cs (sc_capabilities ctx) = Inr ())"
    using assms
    by (auto simp: prepare_step_def rbind_eq_Inr map_err_eq_Inr map_ok_eq_Inr for_tool_dispatch_def
        split: option.splits)
  then obtain cs where cs: "env_capabilities env = CapSet_from_patterns cs"
    "cs = sc_capabilities ctx \<or> validate_grant cs (sc_capabilities ctx) = Inr ()" by blast
  have "CapSet_permits (CapSet_from_patterns (sc_capabilities ctx)) t"
    if "CapSet_permits (env_capabilities env) t"
  proof (cases "cs = sc_capabilities ctx")
    case False
    with cs obtain c where c: "CapSet_attenuate (CapSet_from_patterns (sc_capabilities ctx)) cs = Inr c"
      by (auto simp: validate_grant_def map_ok_eq_Inr)
    then have "c = CapSet_from_patterns cs"
      by (auto simp: CapSet_attenuate_def CapSet_default_def CapSet_from_patterns_def rbind_eq_Inr
          split: if_splits)
    with c that cs(1) show ?thesis by (auto intro: capset.derive_attenuates)
  qed (use that cs in simp)
  with access reg show ?thesis
    by (simp add: CapSet_permits_def check_tool_access_def)
qed

text \<open>
  A step whose tool the run's capabilities do not permit never reaches the tool: the step
  fails and the only effect is the start event. A step that does reach its tool uses the
  registered tool of that name, and the envelope it hands over permits nothing that the run's
  capabilities do not, whether or not the step narrows them with \<open>grant\<close>.
\<close>

theorem unpermitted_tool_never_called:
  "(\<not> CapSet_permits (CapSet_from_patterns (sc_capabilities ctx)) (step_tool step) \<longrightarrow>
      (\<exists>e. execute_step fx ctx step outputs w =
        (Some (Inl e), fx_on_event fx (NodeStarted (step_id step) (step_tool step)) w))) \<and>
   (\<forall>tool env. prepare_step fx ctx step outputs w = Inr (tool, env) \<longrightarrow>
      registry_get (sc_registry ctx) (step_tool step) = Some tool \<and>
      (\<forall>t. CapSet_permits (env_capabilities env) t \<longrightarrow>
         CapSet_permits (CapSet_from_patterns (sc_capabilities ctx)) t))"
proof (intro conjI impI allI)
  assume denied: "\<not> CapSet_permits (CapSet_from_patterns (sc_capabilities ctx)) (step_tool step)"
  let ?w0 = "fx_on_event fx (NodeStarted (step_id step) (step_tool step)) w"
  show "\<exists>e. execute_step fx ctx step outputs w = (Some (Inl e), ?w0)"
  proof (cases "prepare_step fx ctx step outputs ?w0")
    case (Inl e)
    then show ?thesis by (simp add: execute_step_def Let_def)
  next
    case (Inr te)
    with denied prepare_step_Inr [of fx ctx step outputs ?w0 "fst te" "snd te"] show ?thesis by simp
  qed
next
  fix tool env assume "prepare_step fx ctx step outputs w = Inr (tool, env)"
  from prepare_step_Inr [OF this] show "registry_get (sc_registry ctx) (step_tool step) = Some tool"
    by blast
next
  fix tool env t assume "prepare_step fx ctx step outputs w = Inr (tool, env)"
    and permits: "CapSet_permits (env_capabilities env) t"
  from prepare_step_Inr [OF this(1), of t] permits
  show "CapSet_permits (CapSet_from_patterns (sc_capabilities ctx)) t" by blast
qed

theorem unpermitted_tool_never_called_witness:
  "\<exists>e. execute_step sample_fx (sample_ctx [''memory:*'']) sample_retry_step [] 5 = (Some (Inl e), 5)"
proof -
  have "\<not> CapSet_permits (CapSet_from_patterns [''memory:*'']) ''echo''" by code_simp
  then have "\<not> CapSet_permits (CapSet_from_patterns (sc_capabilities (sample_ctx [''memory:*''])))
      (step_tool sample_retry_step)"
    by (simp add: sample_ctx_def sample_retry_step_def Step_new_def)
  with unpermitted_tool_never_called [where ctx = "sample_ctx [''memory:*'']" and fx = sample_fx
      and step = sample_retry_step and outputs = "[]" and w = 5]
  show ?thesis by (simp add: sample_fx_def)
qed

section \<open>Edges\<close>

text \<open>An edge whose condition holds, and one that could not be decided.\<close>

definition edge_taken :: "(ExprValue \<Rightarrow> string) \<Rightarrow> expr_context \<Rightarrow> Edge \<Rightarrow> bool" where
  "edge_taken dbg ctx e =
     (case edge_condition e of
        Some c \<Rightarrow> evaluate_as_bool dbg ctx (clean_condition c) = Inr True
      | None \<Rightarrow> False)"

definition edge_decided :: "(ExprValue \<Rightarrow> string) \<Rightarrow> expr_context \<Rightarrow> Edge \<Rightarrow> bool" where
  "edge_decided dbg ctx e =
     (case edge_condition e of
        Some c \<Rightarrow> is_ok (evaluate_as_bool dbg ctx (clean_condition c))
      | None \<Rightarrow> True)"

lemma edge_loop_eq:
  assumes "list_all (edge_decided dbg ctx) (takeWhile (\<lambda>e. \<not> edge_taken dbg ctx e) es)"
  shows "edge_loop dbg ctx es acc = Inr (acc @
    map edge_target (filter (\<lambda>e. edge_condition e = None) (takeWhile (\<lambda>e. \<not> edge_taken dbg ctx e) es)) @
    (case find (edge_taken dbg ctx) es of Some e \<Rightarrow> [edge_target e] | None \<Rightarrow> []))"
  using assms
proof (induction es arbitrary: acc)
  case (Cons e es)
  show ?case
  proof (cases "edge_condition e")
    case None
    with Cons show ?thesis by (simp add: edge_taken_def)
  next
    case (Some c)
    show ?thesis
    proof (cases "evaluate_as_bool dbg ctx (clean_condition c)")
      case (Inl x)
      with Some Cons.prems show ?thesis by (simp add: edge_taken_def edge_decided_def)
    next
      case (Inr b)
      with Some Cons show ?thesis by (cases b) (simp_all add: edge_taken_def)
    qed
  qed
qed simp

text \<open>
  Which steps follow. With its edges in priority order (ties in the order of the file),
  a step goes on to the targets of the unconditional edges before the first conditional edge
  whose condition holds, followed by that edge's target; later edges are ignored. If that
  leaves nothing, or there are no edges, it returns. The only hypothesis is that the
  conditions met on the way evaluate without error.
\<close>

theorem edges_first_true_condition_ends:
  fixes step outputs
  defines "es \<equiv> sort_key (\<lambda>e. sint (edge_priority e)) (step_edges step)"
    and "ctx \<equiv> to_expr_context outputs"
  assumes "list_all (edge_decided dbg ctx) (takeWhile (\<lambda>e. \<not> edge_taken dbg ctx e) es)"
  shows "evaluate_edges_targets dbg step outputs wid =
    (let ts = map edge_target (filter (\<lambda>e. edge_condition e = None)
                (takeWhile (\<lambda>e. \<not> edge_taken dbg ctx e) es)) @
              (case find (edge_taken dbg ctx) es of Some e \<Rightarrow> [edge_target e] | None \<Rightarrow> [])
     in Inr (if ts = [] then [Return] else ts))"
proof (cases "step_edges step")
  case Nil
  then show ?thesis by (simp add: evaluate_edges_targets_def es_def)
next
  case (Cons e rest)
  then have "evaluate_edges_targets dbg step outputs wid =
      rbind (map_err (\<lambda>e. KExecution (NodeFailed wid (step_id step)
          (''Condition evaluation failed: '' @ show_ExprError e))) (edge_loop dbg ctx es []))
        (\<lambda>targets. Inr (if targets = [] then [Return] else targets))"
    unfolding evaluate_edges_targets_def es_def ctx_def by (simp only: list.distinct if_False)
  then show ?thesis
    unfolding edge_loop_eq [OF assms(3), of "[]"] map_err_simps rbind_simps Let_def append_Nil .
qed

definition sample_edges_step :: Step where
  "sample_edges_step = (Step_new ''s'' ''t'')
     \<lparr> step_edges :=
        [\<lparr> edge_target = StepTarget ''a'', edge_condition = None, edge_priority = 0 \<rparr>,
         \<lparr> edge_target = StepTarget ''b'', edge_condition = Some ''{{ true }}'', edge_priority = 0 \<rparr>,
         \<lparr> edge_target = StepTarget ''c'', edge_condition = None, edge_priority = 0 \<rparr>] \<rparr>"

theorem edges_first_true_condition_ends_witness:
  "evaluate_edges_targets (\<lambda>_. []) sample_edges_step [] ''w'' = Inr [StepTarget ''a'', StepTarget ''b'']"
proof -
  let ?es = "step_edges sample_edges_step"
  have sorted: "sort_key (\<lambda>e. sint (edge_priority e)) ?es = ?es"
    by (simp add: sample_edges_step_def)
  have "list_all (edge_decided (\<lambda>_. []) (to_expr_context []))
      (takeWhile (\<lambda>e. \<not> edge_taken (\<lambda>_. []) (to_expr_context []) e) ?es)" by code_simp
  moreover have "map edge_target (filter (\<lambda>e. edge_condition e = None)
      (takeWhile (\<lambda>e. \<not> edge_taken (\<lambda>_. []) (to_expr_context []) e) ?es)) = [StepTarget ''a'']"
    "map_option edge_target (find (edge_taken (\<lambda>_. []) (to_expr_context [])) ?es) = Some (StepTarget ''b'')"
    by code_simp+
  ultimately show ?thesis
    using edges_first_true_condition_ends [of "\<lambda>_. []" "[]" sample_edges_step "''w''"]
    unfolding sorted by (auto simp: Let_def)
qed

end
