(* ===== verification/Executor.thy ===== *)
theory Executor
  imports Step_Exec
begin

text \<open>
  The parallel workflow executor, \<^verbatim>\<open>konflux-substrate/src/executor.rs\<close>. A spawned task
  runs a step, then repeats it, continues inline with a single successor or ends;
  \<open>task_iter\<close> is one pass of that loop. The main loop is the step relation
  \<open>exec_step\<close>: in any order, a task makes a pass, a finished task is joined, or a message
  of the completion channel is received.

  A pass of a task is taken as atomic with respect to the other tasks. The completion channel
  is unbounded here; its capacity only delays a sender.
\<close>

section \<open>The shared state\<close>

record ExecutorState =
  rs_outputs :: "json smap"
  rs_errors :: "string smap"

definition set_output :: "string \<Rightarrow> json \<Rightarrow> ExecutorState \<Rightarrow> ExecutorState" where
  "set_output node_id v st = st\<lparr> rs_outputs := obj_insert node_id v (rs_outputs st) \<rparr>"

definition set_error :: "string \<Rightarrow> string \<Rightarrow> ExecutorState \<Rightarrow> ExecutorState" where
  "set_error node_id err st = st\<lparr> rs_errors := obj_insert node_id err (rs_errors st) \<rparr>"

definition is_completed :: "ExecutorState \<Rightarrow> string \<Rightarrow> bool" where
  "is_completed st node_id =
     (obj_get (rs_outputs st) node_id \<noteq> None \<or> obj_get (rs_errors st) node_id \<noteq> None)"

definition can_run :: "Step \<Rightarrow> ExecutorState \<Rightarrow> bool" where
  "can_run step st =
     (if step_depends_on step = [] then True
      else
        (let completed_deps = length (filter (is_completed st) (step_depends_on step)) in
         case step_join step of
           JoinAll \<Rightarrow> completed_deps = length (step_depends_on step)
         | JoinAny \<Rightarrow> completed_deps > 0
         | Quorum m \<Rightarrow> completed_deps \<ge> unat m
         | Lenient \<Rightarrow> True))"

section \<open>One pass of a task\<close>

record Task =
  t_step :: Step
  t_iteration :: u32
  t_steps :: nat

datatype FinishedInfo = FinishedNode string | SpawnNext StepId

record NodeExecutionResult =
  ner_output :: "json option"
  ner_steps :: nat

datatype task_progress =
    Continue Task
  | Finish "FinishedInfo list" "KonfluxError + NodeExecutionResult"

definition announce_iteration :: "Task \<Rightarrow> ExecutorState \<Rightarrow> ExecutorState" where
  "announce_iteration t st =
     (case Option.bind (step_repeat (t_step t)) repeat_as_var of
        Some as_var \<Rightarrow> set_output as_var (JNumber (PosInt (ucast (t_iteration t)))) st
      | None \<Rightarrow> st)"

datatype repeat_verdict = RepeatAgain | RepeatDone | RepeatError ExprError

definition check_repeat :: "'w Effects \<Rightarrow> Task \<Rightarrow> json smap \<Rightarrow> repeat_verdict" where
  "check_repeat fx t outputs =
     (case step_repeat (t_step t) of
        None \<Rightarrow> RepeatDone
      | Some r \<Rightarrow>
          (case evaluate_as_bool (fx_debug fx) (to_expr_context outputs) (repeat_until r) of
             Inr True \<Rightarrow> RepeatDone
           | Inr False \<Rightarrow> if t_iteration t + 1 < repeat_max r then RepeatAgain else RepeatDone
           | Inl e \<Rightarrow> RepeatError e))"

fun spawn_message :: "EdgeTarget \<Rightarrow> FinishedInfo option" where
  "spawn_message (StepTarget target_id) = Some (SpawnNext target_id)"
| "spawn_message Return = None"

text \<open>What a task does after its step has succeeded with \<open>val\<close> (no repetition left).\<close>

definition after_success ::
  "'w Effects \<Rightarrow> StepContext \<Rightarrow> Workflow \<Rightarrow> Step \<Rightarrow> nat \<Rightarrow> json \<Rightarrow> json smap \<Rightarrow> task_progress" where
  "after_success fx ctx wfl step steps val outputs =
     (let result = Inr \<lparr> ner_output = Some val, ner_steps = steps \<rparr>;
          node = FinishedNode (step_id step)
      in case evaluate_edges_targets (fx_debug fx) step outputs (sc_workflow_id ctx) of
           Inl e \<Rightarrow> Finish [node] (Inl e)
         | Inr [StepTarget target_id] \<Rightarrow>
             (case get_step wfl target_id of
                Some next_step \<Rightarrow>
                  if length (step_depends_on next_step) \<le> 1
                  then Continue \<lparr> t_step = next_step, t_iteration = 0, t_steps = steps \<rparr>
                  else Finish [SpawnNext target_id, node] result
              | None \<Rightarrow> Finish [SpawnNext target_id, node] result)
         | Inr targets \<Rightarrow> Finish (List.map_filter spawn_message targets @ [node]) result)"

text \<open>What a task does after its step has failed with \<open>err\<close>.\<close>

definition after_error ::
  "Workflow \<Rightarrow> Step \<Rightarrow> nat \<Rightarrow> KonfluxError \<Rightarrow> ExecutorState \<Rightarrow> task_progress \<times> ExecutorState" where
  "after_error wfl step steps err st =
     (let node_id = step_id step; node = FinishedNode node_id in
      case step_on_error step of
        Fail \<Rightarrow> (Finish [node] (Inl err), set_error node_id (show_KonfluxError err) st)
      | Skip \<Rightarrow>
          (Finish [node] (Inr \<lparr> ner_output = None, ner_steps = steps \<rparr>), set_output node_id JNull st)
      | Fallback value \<Rightarrow>
          (Finish [node] (Inr \<lparr> ner_output = Some (JString value), ner_steps = steps \<rparr>),
           set_output node_id (JString value) st)
      | Goto target \<Rightarrow>
          (case get_step wfl target of
             Some next_step \<Rightarrow>
               (Continue \<lparr> t_step = next_step, t_iteration = 0, t_steps = steps \<rparr>, st)
           | None \<Rightarrow> (Finish [node] (Inl err), st)))"

definition task_iter ::
  "'w Effects \<Rightarrow> StepContext \<Rightarrow> Workflow \<Rightarrow> Task \<Rightarrow> ExecutorState \<Rightarrow> 'w \<Rightarrow> task_progress \<times> ExecutorState \<times> 'w" where
  "task_iter fx ctx wfl t st w =
     (let step = t_step t; node_id = step_id step in
      if fx_cancelled fx w then
        (Finish [FinishedNode node_id] (Inl (KExecution (Cancelled (sc_workflow_id ctx)))), st, w)
      else
        (let steps = t_steps t + 1;
             st1 = announce_iteration t st;
             (res, w1) = execute_step fx ctx step (rs_outputs st1) w
         in case (case res of
                    Some r \<Rightarrow> r
                  | None \<Rightarrow> Inl (KExecution (NodeFailed (sc_workflow_id ctx) node_id
                              ''Tool execution panicked''))) of
              Inr val \<Rightarrow>
                (let st2 = set_output node_id val st1 in
                 case check_repeat fx t (rs_outputs st2) of
                   RepeatAgain \<Rightarrow>
                     (Continue (t\<lparr> t_iteration := t_iteration t + 1, t_steps := steps \<rparr>), st2, w1)
                 | RepeatError e \<Rightarrow>
                     (Finish [FinishedNode node_id] (Inl (KExecution (NodeFailed (sc_workflow_id ctx) node_id
                        (''Repeat condition evaluation failed: '' @ show_ExprError e)))), st2, w1)
                 | RepeatDone \<Rightarrow>
                     (after_success fx ctx wfl step steps val (rs_outputs st2), st2, w1))
            | Inl err \<Rightarrow>
                (case after_error wfl step steps err st1 of (p, st2) \<Rightarrow> (p, st2, w1))))"

section \<open>The main loop\<close>

record 'w Exec =
  ex_state :: ExecutorState
  ex_world :: 'w
  ex_active :: "Task list"
  ex_results :: "(KonfluxError + NodeExecutionResult) list"
  ex_queue :: "FinishedInfo list"
  ex_executed :: "StepId list"
  ex_reachable :: "StepId list"
  ex_spawned :: nat
  ex_finished :: nat
  ex_steps_count :: nat
  ex_final_output :: json

text \<open>\<open>active_tasks.len()\<close>: running tasks and finished ones not yet joined.\<close>

definition active_len :: "'w Exec \<Rightarrow> nat" where
  "active_len ex = length (ex_active ex) + length (ex_results ex)"

definition spawn_node :: "Step \<Rightarrow> 'w Exec \<Rightarrow> 'w Exec" where
  "spawn_node step ex = ex\<lparr> ex_active := ex_active ex @ [\<lparr> t_step = step, t_iteration = 0, t_steps = 0 \<rparr>] \<rparr>"

definition execute_init :: "'w Effects \<Rightarrow> Workflow \<Rightarrow> json \<Rightarrow> 'w \<Rightarrow> KonfluxError + 'w Exec" where
  "execute_init fx wfl input w =
     (let w0 = fx_try_send fx (StreamStart (wf_id wfl)) w in
      case get_step wfl (wf_entry wfl) of
        None \<Rightarrow> Inl (KExecution (NodeFailed (wf_id wfl) (wf_entry wfl) ''Entry node not found''))
      | Some entry_node \<Rightarrow>
          Inr (spawn_node entry_node
            \<lparr> ex_state = set_output ''input'' input \<lparr> rs_outputs = [], rs_errors = [] \<rparr>,
              ex_world = w0, ex_active = [], ex_results = [], ex_queue = [],
              ex_executed = [step_id entry_node], ex_reachable = [step_id entry_node],
              ex_spawned = 1, ex_finished = 0, ex_steps_count = 0, ex_final_output = JNull \<rparr>))"

text \<open>Spawn a step that is not executed yet and whose dependencies allow it.\<close>

definition try_spawn :: "Workflow \<Rightarrow> StepId \<Rightarrow> 'w Exec \<Rightarrow> 'w Exec" where
  "try_spawn wfl i ex =
     (case get_step wfl i of
        Some step \<Rightarrow>
          if step_id step \<notin> set (ex_executed ex) \<and> can_run step (ex_state ex)
          then spawn_node step (ex\<lparr> ex_executed := step_id step # ex_executed ex,
                                     ex_spawned := ex_spawned ex + 1 \<rparr>)
          else ex
      | None \<Rightarrow> ex)"

text \<open>The loop over the reachable nodes, left when the capacity is reached.\<close>

fun spawn_ready :: "EngineConfig \<Rightarrow> Workflow \<Rightarrow> StepId list \<Rightarrow> 'w Exec \<Rightarrow> 'w Exec" where
  "spawn_ready cfg wfl [] ex = ex"
| "spawn_ready cfg wfl (i # is) ex =
     (if active_len ex \<ge> cfg_max_concurrent_nodes cfg then ex
      else spawn_ready cfg wfl is (try_spawn wfl i ex))"

definition handle_finished :: "EngineConfig \<Rightarrow> Workflow \<Rightarrow> FinishedInfo \<Rightarrow> 'w Exec \<Rightarrow> 'w Exec" where
  "handle_finished cfg wfl fin ex =
     (case fin of
        FinishedNode node_id \<Rightarrow>
          spawn_ready cfg wfl (ex_reachable ex) (ex\<lparr> ex_finished := ex_finished ex + 1 \<rparr>)
      | SpawnNext target_id \<Rightarrow>
          (let ex' = ex\<lparr> ex_reachable := List.insert target_id (ex_reachable ex) \<rparr> in
           if active_len ex' < cfg_max_concurrent_nodes cfg then try_spawn wfl target_id ex' else ex'))"

definition loop_exit :: "'w Exec \<Rightarrow> bool" where
  "loop_exit ex = (ex_spawned ex = ex_finished ex \<and> ex_active ex = [] \<and> ex_results ex = [])"

definition join_result :: "NodeExecutionResult \<Rightarrow> 'w Exec \<Rightarrow> 'w Exec" where
  "join_result r ex =
     ex\<lparr> ex_steps_count := ex_steps_count ex + ner_steps r,
         ex_final_output := (case ner_output r of Some v \<Rightarrow> v | None \<Rightarrow> ex_final_output ex) \<rparr>"

definition remove_nth :: "nat \<Rightarrow> 'a list \<Rightarrow> 'a list" where
  "remove_nth i xs = take i xs @ drop (Suc i) xs"

inductive exec_step :: "'w Effects \<Rightarrow> StepContext \<Rightarrow> Workflow \<Rightarrow> 'w Exec \<Rightarrow> 'w Exec \<Rightarrow> bool"
  for fx ctx wfl
where
  pass: "i < length (ex_active ex) \<Longrightarrow>
    task_iter fx ctx wfl (ex_active ex ! i) (ex_state ex) (ex_world ex) = (Continue t', st', w') \<Longrightarrow>
    exec_step fx ctx wfl ex
      (ex\<lparr> ex_active := (ex_active ex)[i := t'], ex_state := st', ex_world := w' \<rparr>)"
| finish: "i < length (ex_active ex) \<Longrightarrow>
    task_iter fx ctx wfl (ex_active ex ! i) (ex_state ex) (ex_world ex) = (Finish msgs r, st', w') \<Longrightarrow>
    exec_step fx ctx wfl ex
      (ex\<lparr> ex_active := remove_nth i (ex_active ex), ex_results := ex_results ex @ [r],
           ex_queue := ex_queue ex @ msgs, ex_state := st', ex_world := w' \<rparr>)"
| join: "\<not> loop_exit ex \<Longrightarrow> i < length (ex_results ex) \<Longrightarrow> ex_results ex ! i = Inr r \<Longrightarrow>
    ex_steps_count ex + ner_steps r \<le> cfg_max_steps (sc_config ctx) \<Longrightarrow>
    exec_step fx ctx wfl ex
      (join_result r (ex\<lparr> ex_results := remove_nth i (ex_results ex) \<rparr>))"
| recv: "\<not> loop_exit ex \<Longrightarrow> ex_queue ex = fin # rest \<Longrightarrow>
    exec_step fx ctx wfl ex (handle_finished (sc_config ctx) wfl fin (ex\<lparr> ex_queue := rest \<rparr>))"

text \<open>How \<open>execute\<close> returns from a configuration.\<close>

inductive exec_returns ::
  "'w Effects \<Rightarrow> StepContext \<Rightarrow> 'w Exec \<Rightarrow> KonfluxError + json \<Rightarrow> bool" for fx ctx
where
  drained: "loop_exit ex \<Longrightarrow> exec_returns fx ctx ex (Inr (ex_final_output ex))"
| cancelled: "fx_cancelled fx (ex_world ex) \<Longrightarrow>
    exec_returns fx ctx ex (Inl (KExecution (Cancelled (sc_workflow_id ctx))))"
| failed: "Inl e \<in> set (ex_results ex) \<Longrightarrow> exec_returns fx ctx ex (Inl e)"
| too_many: "Inr r \<in> set (ex_results ex) \<Longrightarrow>
    ex_steps_count ex + ner_steps r > cfg_max_steps (sc_config ctx) \<Longrightarrow>
    exec_returns fx ctx ex (Inl (KExecution (MaxStepsExceeded (sc_workflow_id ctx)
      (cfg_max_steps (sc_config ctx)))))"

inductive_cases exec_stepE: "exec_step fx ctx wfl ex ex'"

section \<open>Invariants of the main loop\<close>

abbreviation node_count :: "FinishedInfo list \<Rightarrow> nat" where
  "node_count q \<equiv> length (filter (\<lambda>m. \<exists>n. m = FinishedNode n) q)"

lemma spawn_messages_no_node: "node_count (List.map_filter spawn_message ts) = 0"
proof (induction ts)
  case (Cons t ts)
  then show ?case by (cases t) (simp_all add: List.map_filter_def)
qed (simp add: List.map_filter_def)

text \<open>The three ways on from a successful step.\<close>

lemma after_success_cases:
  obtains (error) e where
      "after_success fx ctx wfl step steps val outputs = Finish [FinishedNode (step_id step)] (Inl e)"
  | (inline) i s ts where "evaluate_edges_targets (fx_debug fx) step outputs (sc_workflow_id ctx) = Inr ts"
      "StepTarget i \<in> set ts" "get_step wfl i = Some s" "length (step_depends_on s) \<le> 1"
      "after_success fx ctx wfl step steps val outputs =
        Continue \<lparr> t_step = s, t_iteration = 0, t_steps = steps \<rparr>"
  | (spawn) ts r where "after_success fx ctx wfl step steps val outputs =
        Finish (List.map_filter spawn_message ts @ [FinishedNode (step_id step)]) r"
proof (cases "evaluate_edges_targets (fx_debug fx) step outputs (sc_workflow_id ctx)")
  case (Inl e)
  with error show thesis by (simp add: after_success_def Let_def)
next
  case (Inr ts)
  consider (one) i where "ts = [StepTarget i]" | (other) "\<forall>i. ts \<noteq> [StepTarget i]" by blast
  then show thesis
  proof cases
    case one
    have "List.map_filter spawn_message [StepTarget i] = [SpawnNext i]" by (simp add: List.map_filter_def)
    with one Inr inline [of ts i] spawn [of "[StepTarget i]"] show thesis
      by (cases "get_step wfl i"; cases "length (step_depends_on (the (get_step wfl i))) \<le> 1")
        (simp_all add: after_success_def Let_def)
  next
    case other
    then have "after_success fx ctx wfl step steps val outputs =
        Finish (List.map_filter spawn_message ts @ [FinishedNode (step_id step)])
          (Inr \<lparr> ner_output = Some val, ner_steps = steps \<rparr>)"
      unfolding after_success_def Inr Let_def sum.case
      by (simp split: list.split EdgeTarget.split)
    with spawn show thesis by blast
  qed
qed

lemma after_success_msgs:
  assumes "after_success fx ctx wfl step steps val outputs = Finish msgs r"
  shows "\<exists>ss. msgs = ss @ [FinishedNode (step_id step)] \<and> node_count ss = 0"
proof (cases rule: after_success_cases [of fx ctx wfl step steps val outputs])
  case (error e)
  with assms show ?thesis by simp
next
  case (inline i s ts)
  with assms show ?thesis by simp
next
  case (spawn ts r')
  with assms have "msgs = List.map_filter spawn_message ts @ [FinishedNode (step_id step)]" by simp
  with spawn_messages_no_node [of ts] show ?thesis by blast
qed

lemma task_iter_msgs:
  assumes "task_iter fx ctx wfl t st w = (Finish msgs r, st', w')"
  shows "\<exists>ss. msgs = ss @ [FinishedNode (step_id (t_step t))] \<and> node_count ss = 0"
proof -
  have single: "\<exists>ss. [FinishedNode i] = ss @ [FinishedNode i] \<and> node_count ss = 0" for i
    by (rule exI [of _ "[]"]) simp
  from assms show ?thesis
    by (auto simp: task_iter_def after_error_def Let_def single
        split: if_splits prod.splits option.splits sum.splits repeat_verdict.splits ErrorAction.splits
        dest: after_success_msgs)
qed

text \<open>Completion only grows.\<close>

definition grows :: "ExecutorState \<Rightarrow> ExecutorState \<Rightarrow> bool" where
  "grows st st' \<longleftrightarrow> (\<forall>i. is_completed st i \<longrightarrow> is_completed st' i)"

lemma grows_refl [simp]: "grows st st"
  by (simp add: grows_def)

lemma grows_trans: "grows a b \<Longrightarrow> grows b c \<Longrightarrow> grows a c"
  by (simp add: grows_def)

lemma grows_set_output: "grows st (set_output k v st)"
  by (simp add: grows_def is_completed_def set_output_def obj_get_insert)

lemma grows_set_error: "grows st (set_error k v st)"
  by (simp add: grows_def is_completed_def set_error_def obj_get_insert)

lemma grows_announce: "grows st (announce_iteration t st)"
  by (simp add: announce_iteration_def grows_set_output split: option.split)

lemma grows_after_error: "after_error wfl step steps err st = (p, st') \<Longrightarrow> grows st st'"
  by (auto simp: after_error_def Let_def grows_set_output grows_set_error
      split: ErrorAction.splits option.splits)

lemma task_iter_grows:
  assumes "task_iter fx ctx wfl t st w = (p, st', w')"
  shows "grows st st'"
proof -
  have out: "grows st (set_output i v (announce_iteration t st))" for i v
    using grows_trans grows_announce grows_set_output by blast
  have err: "grows st st''" if "after_error wfl step steps e (announce_iteration t st) = (p', st'')"
    for step steps e p' st''
    using grows_trans grows_announce grows_after_error that by blast
  from assms show ?thesis
    by (auto simp: task_iter_def Let_def out dest: err
        split: if_splits prod.splits option.splits sum.splits repeat_verdict.splits)
qed

lemma can_run_grows: "can_run step st \<Longrightarrow> grows st st' \<Longrightarrow> can_run step st'"
proof -
  assume run: "can_run step st" and g: "grows st st'"
  have "length (filter (is_completed st) ds) \<le> length (filter (is_completed st') ds)" for ds
    using g by (induction ds) (auto simp: grows_def)
  note le = this [of "step_depends_on step"]
  have le': "length (filter (is_completed st') (step_depends_on step)) \<le> length (step_depends_on step)"
    by (rule length_filter_le)
  show ?thesis
    using run le le' by (auto simp: can_run_def Let_def split: if_splits JoinPolicy.splits
        intro: le_antisym)
qed

definition exec_inv :: "EngineConfig \<Rightarrow> Workflow \<Rightarrow> 'w Exec \<Rightarrow> bool" where
  "exec_inv cfg wfl ex \<longleftrightarrow>
     distinct (ex_executed ex) \<and> ex_spawned ex = length (ex_executed ex) \<and>
     ex_spawned ex = ex_finished ex + length (ex_active ex) + node_count (ex_queue ex) \<and>
     (ex_queue ex = [] \<or> (\<exists>n. last (ex_queue ex) = FinishedNode n)) \<and>
     active_len ex \<le> max 1 (cfg_max_concurrent_nodes cfg) \<and>
     (\<forall>i \<in> set (ex_executed ex). i = wf_entry wfl \<or>
        (\<exists>s. get_step wfl i = Some s \<and> can_run s (ex_state ex)))"

lemma get_step_id: "get_step wfl i = Some s \<Longrightarrow> step_id s = i \<and> s \<in> set (wf_steps wfl)"
  by (auto simp: get_step_def find_Some_iff)

lemma exec_inv_init:
  "execute_init fx wfl input w = Inr ex \<Longrightarrow> exec_inv cfg wfl ex"
  by (auto simp: execute_init_def exec_inv_def spawn_node_def active_len_def Let_def
      dest: get_step_id split: option.splits)

lemma exec_inv_try_spawn:
  assumes "exec_inv cfg wfl ex" "active_len ex < cfg_max_concurrent_nodes cfg"
  shows "exec_inv cfg wfl (try_spawn wfl i ex)"
  using assms
  by (auto simp: try_spawn_def exec_inv_def spawn_node_def active_len_def
      dest: get_step_id split: option.splits)

lemma exec_inv_spawn_ready:
  "exec_inv cfg wfl ex \<Longrightarrow> exec_inv cfg wfl (spawn_ready cfg wfl is ex)"
  by (induction cfg wfl "is" ex rule: spawn_ready.induct) (auto simp: exec_inv_try_spawn)

lemma length_remove_nth: "i < length xs \<Longrightarrow> length (remove_nth i xs) = length xs - 1"
  by (simp add: remove_nth_def)

lemma exec_inv_state:
  assumes "exec_inv cfg wfl ex" "grows (ex_state ex) st'"
  shows "exec_inv cfg wfl (ex\<lparr> ex_state := st', ex_world := w' \<rparr>)"
  using assms can_run_grows unfolding exec_inv_def active_len_def by fastforce

lemma exec_inv_step:
  assumes "exec_step fx ctx wfl ex ex'" "exec_inv (sc_config ctx) wfl ex"
  shows "exec_inv (sc_config ctx) wfl ex'"
  using assms
proof (induction rule: exec_step.induct)
  case (pass i ex t' st' w')
  from exec_inv_state [OF pass.prems task_iter_grows [OF pass.hyps(2)], of w'] show ?case
    by (simp add: exec_inv_def active_len_def)
next
  case (finish i ex msgs r st' w')
  obtain ss n where msgs: "msgs = ss @ [FinishedNode n]" "node_count ss = 0"
    using task_iter_msgs [OF finish.hyps(2)] by blast
  from exec_inv_state [OF finish.prems task_iter_grows [OF finish.hyps(2)], of w'] finish.hyps(1)
  show ?case
    by (auto simp: exec_inv_def active_len_def msgs length_remove_nth)
next
  case (join ex i r)
  then show ?case
    by (auto simp: exec_inv_def active_len_def join_result_def length_remove_nth)
next
  case (recv ex fin rest)
  show ?case
  proof (cases fin)
    case (FinishedNode n)
    have "exec_inv (sc_config ctx) wfl (ex\<lparr> ex_queue := rest, ex_finished := ex_finished ex + 1 \<rparr>)"
      using recv FinishedNode by (auto simp: exec_inv_def active_len_def split: if_splits)
    then show ?thesis
      by (simp add: FinishedNode handle_finished_def exec_inv_spawn_ready)
  next
    case (SpawnNext target_id)
    have "exec_inv (sc_config ctx) wfl (ex\<lparr> ex_queue := rest,
        ex_reachable := List.insert target_id (ex_reachable ex) \<rparr>)"
      using recv SpawnNext by (auto simp: exec_inv_def active_len_def split: if_splits)
    then show ?thesis
      by (simp add: SpawnNext handle_finished_def Let_def exec_inv_try_spawn)
  qed
qed

text \<open>Every configuration a run can reach.\<close>

definition exec_reaches ::
  "'w Effects \<Rightarrow> StepContext \<Rightarrow> Workflow \<Rightarrow> json \<Rightarrow> 'w \<Rightarrow> 'w Exec \<Rightarrow> bool" where
  "exec_reaches fx ctx wfl input w ex \<longleftrightarrow>
     (\<exists>ex0. execute_init fx wfl input w = Inr ex0 \<and> (exec_step fx ctx wfl)\<^sup>*\<^sup>* ex0 ex)"

lemma exec_reaches_inv:
  assumes "exec_reaches fx ctx wfl input w ex"
  shows "exec_inv (sc_config ctx) wfl ex"
proof -
  from assms obtain ex0 where "execute_init fx wfl input w = Inr ex0"
    and steps: "(exec_step fx ctx wfl)\<^sup>*\<^sup>* ex0 ex" by (auto simp: exec_reaches_def)
  then have "exec_inv (sc_config ctx) wfl ex0" by (simp add: exec_inv_init)
  with steps show ?thesis
    by (induction rule: rtranclp_induct) (auto intro: exec_inv_step)
qed

section \<open>Tasks end\<close>

text \<open>The graph a task follows inline: edges and \<open>catch\<close> targets.\<close>

definition flow :: "Workflow \<Rightarrow> (StepId \<times> StepId) set" where
  "flow wfl = {(u, v). \<exists>s \<in> set (wf_steps wfl). step_id s = u \<and>
     (v \<in> set (step_targets s) \<or> step_on_error s = Goto v)}"

lemma edge_loop_targets:
  "edge_loop dbg c es acc = Inr ts \<Longrightarrow> set ts \<subseteq> set acc \<union> edge_target ` set es"
proof (induction es arbitrary: acc)
  case (Cons e es)
  then show ?case
    by (fastforce simp: rbind_eq_Inr split: option.splits if_splits)
qed simp

lemma edges_targets_from_step:
  assumes "evaluate_edges_targets dbg step outputs wid = Inr ts" "StepTarget i \<in> set ts"
  shows "i \<in> set (step_targets step)"
proof -
  have "StepTarget i \<in> edge_target ` set (step_edges step)"
    using assms edge_loop_targets [of dbg "to_expr_context outputs"
        "sort_key (\<lambda>e. sint (edge_priority e)) (step_edges step)" "[]"]
    by (auto simp: evaluate_edges_targets_def rbind_eq_Inr map_err_eq_Inr split: if_splits)
  then obtain e where "e \<in> set (step_edges step)" "edge_target e = StepTarget i" by auto
  then have "\<exists>e \<in> set (step_edges step). edge_step e = Some i" by (intro bexI [of _ e]) simp_all
  then show ?thesis by (simp add: step_targets_def set_map_filter)
qed

lemma check_repeat_again:
  "check_repeat fx t outputs = RepeatAgain \<Longrightarrow>
   \<exists>r. step_repeat (t_step t) = Some r \<and> t_iteration t + 1 < repeat_max r"
  by (auto simp: check_repeat_def split: option.splits sum.splits bool.splits if_splits)

text \<open>A task that goes on either repeats its step or moves along the graph.\<close>

lemma task_iter_continue:
  assumes "task_iter fx ctx wfl t st w = (Continue t', st', w')"
  shows "(\<exists>r. step_repeat (t_step t) = Some r \<and> t_iteration t + 1 < repeat_max r \<and>
            t_step t' = t_step t \<and> t_iteration t' = t_iteration t + 1) \<or>
         (\<exists>i. get_step wfl i = Some (t_step t') \<and>
            (i \<in> set (step_targets (t_step t)) \<or> step_on_error (t_step t) = Goto i))"
proof -
  have succ: "\<exists>i. get_step wfl i = Some (t_step t') \<and> i \<in> set (step_targets (t_step t))"
    if "after_success fx ctx wfl (t_step t) steps val outputs = Continue t'" for steps val outputs
    using that
    by (cases rule: after_success_cases [of fx ctx wfl "t_step t" steps val outputs])
      (auto dest: edges_targets_from_step)
  have err: "\<exists>i. get_step wfl i = Some (t_step t') \<and> step_on_error (t_step t) = Goto i"
    if "after_error wfl (t_step t) steps e st1 = (Continue t', st2)" for steps e st1 st2
    using that by (auto simp: after_error_def Let_def split: ErrorAction.splits option.splits)
  from assms show ?thesis
    by (auto simp: task_iter_def Let_def dest: succ err check_repeat_again
        split: if_splits prod.splits option.splits sum.splits repeat_verdict.splits)
qed

definition task_continues :: "'w Effects \<Rightarrow> StepContext \<Rightarrow> Workflow \<Rightarrow> Task \<Rightarrow> Task \<Rightarrow> bool" where
  "task_continues fx ctx wfl t t' \<longleftrightarrow>
     t_step t \<in> set (wf_steps wfl) \<and> (\<exists>st w. fst (task_iter fx ctx wfl t st w) = Continue t')"

definition rounds_left :: "Task \<Rightarrow> nat" where
  "rounds_left t =
     (case step_repeat (t_step t) of
        Some r \<Rightarrow> unat (repeat_max r - (t_iteration t + 1))
      | None \<Rightarrow> 0)"

lemma unat_pred_less: "y \<noteq> 0 \<Longrightarrow> unat (y - 1) < unat (y :: 'a :: len word)"
  using unat_minus_one [of y] by (simp add: unat_gt_0)

lemma flow_finite: "finite (flow wfl)"
proof -
  have "flow wfl \<subseteq> (\<Union>s \<in> set (wf_steps wfl).
      {step_id s} \<times> (set (step_targets s) \<union> {v. step_on_error s = Goto v}))"
    by (auto simp: flow_def)
  moreover have "finite {v. e = Goto v}" for e by (cases e) auto
  ultimately show ?thesis by (auto intro: finite_subset)
qed

lemma task_continues_wf:
  assumes "acyclic (flow wfl)"
  shows "wf {(t', t). task_continues fx ctx wfl t t'}"
proof -
  let ?R = "(flow wfl)\<inverse> <*lex*> less_than"
  have "wf ((flow wfl)\<inverse>)"
    using finite_acyclic_wf_converse [OF flow_finite assms] .
  then have "wf (inv_image ?R (\<lambda>t. (step_id (t_step t), rounds_left t)))" by auto
  moreover have "{(t', t). task_continues fx ctx wfl t t'} \<subseteq>
      inv_image ?R (\<lambda>t. (step_id (t_step t), rounds_left t))"
  proof
    fix p assume "p \<in> {(t', t). task_continues fx ctx wfl t t'}"
    then obtain t t' st w where p: "p = (t', t)" and mem: "t_step t \<in> set (wf_steps wfl)"
      and cont: "fst (task_iter fx ctx wfl t st w) = Continue t'"
      by (auto simp: task_continues_def)
    obtain q st' w' where "task_iter fx ctx wfl t st w = (q, st', w')" by (metis prod_cases3)
    with cont have iter: "task_iter fx ctx wfl t st w = (Continue t', st', w')" by simp
    have "(step_id (t_step t), step_id (t_step t')) \<in> flow wfl \<or>
        step_id (t_step t') = step_id (t_step t) \<and> rounds_left t' < rounds_left t"
      using task_iter_continue [OF iter]
    proof (elim disjE exE conjE)
      fix r assume r: "step_repeat (t_step t) = Some r" "t_iteration t + 1 < repeat_max r"
        "t_step t' = t_step t" "t_iteration t' = t_iteration t + 1"
      let ?y = "repeat_max r - (t_iteration t + 1)"
      have "?y \<noteq> 0" using r(2) by auto
      then have "unat (?y - 1) < unat ?y" by (rule unat_pred_less)
      with r show ?thesis by (simp add: rounds_left_def algebra_simps)
    next
      fix i assume "get_step wfl i = Some (t_step t')" "i \<in> set (step_targets (t_step t))"
      with mem show ?thesis by (auto simp: flow_def dest: get_step_id)
    next
      fix i assume "get_step wfl i = Some (t_step t')" "step_on_error (t_step t) = Goto i"
      with mem show ?thesis by (auto simp: flow_def dest: get_step_id)
    qed
    then show "p \<in> inv_image ?R (\<lambda>t. (step_id (t_step t), rounds_left t))" by (auto simp: p)
  qed
  ultimately show ?thesis by (rule wf_subset)
qed

lemma compile_branches_goto: "compile_branches bs = Goto v \<Longrightarrow> \<exists>b \<in> set bs. catch_then b = Some v"
  by (induction bs) (auto split: if_splits option.splits)

lemma compile_catch_goto: "compile_catch node = Goto v \<Longrightarrow> v \<in> set (catch_targets node)"
  by (auto simp: compile_catch_def catch_targets_def set_map_filter split: CatchBlock.splits
      dest: compile_branches_goto)

lemma compile_step_on_error:
  "compile_step cfg graph (name, node) = Inr s \<Longrightarrow> step_on_error s = compile_catch node"
  by (auto simp: compile_step_def compile_node_def rbind_eq_Inr Step_new_def split: option.splits)

lemma parsed_flow_acyclic:
  assumes yaml: "\<And>y sch. from_yaml y = Inr sch \<Longrightarrow> distinct (node_names sch)"
    and ok: "parse from_yaml yaml cfg = Inr wfl"
  shows "acyclic (flow wfl)"
proof -
  from ok obtain sch where sch: "from_yaml yaml = Inr sch" "validator_validate sch = Inr ()"
    "compile sch (DependencyGraph_build sch) cfg = Inr wfl"
    by (auto simp: parse_def rbind_eq_Inr map_err_eq_Inr)
  from sch(3) obtain entry first rest where
    steps: "list_all2 (\<lambda>kn s. compile_step cfg (DependencyGraph_build sch) kn = Inr s)
      (sch_nodes sch) (wf_steps wfl)" by (rule compile_Inr)
  have "flow wfl \<subseteq> arcs (sch_succ sch)"
  proof
    fix e assume "e \<in> flow wfl"
    then obtain u v s where e: "e = (u, v)" "s \<in> set (wf_steps wfl)" "step_id s = u"
      "v \<in> set (step_targets s) \<or> step_on_error s = Goto v" by (auto simp: flow_def)
    from steps e(2) obtain name node where n: "(name, node) \<in> set (sch_nodes sch)"
      and c: "compile_step cfg (DependencyGraph_build sch) (name, node) = Inr s" by (rule node_of_step)
    have "name = u" "v \<in> set (then_targets node @ catch_targets node)"
      using e compile_step_Inr [OF c] compile_step_on_error [OF c] compile_catch_goto by auto
    moreover have "map_of (sch_nodes sch) name = Some node"
      using n yaml [OF sch(1)] by (simp add: node_names_def)
    ultimately show "e \<in> arcs (sch_succ sch)" by (simp add: e(1) arcs_def sch_succ_def)
  qed
  moreover have "acyclic (arcs (sch_succ sch))" using sch(2) by (simp add: validator_Inr_iff)
  ultimately show ?thesis by (rule acyclic_subset [rotated])
qed

section \<open>A small workflow\<close>

text \<open>One step that fans out to two, run by an echo tool with room for one task.\<close>

definition tiny_config :: EngineConfig where
  "tiny_config =
     \<lparr> cfg_max_steps = 5, cfg_default_timeout_ms = 1, cfg_max_workflow_timeout_ms = 1,
       cfg_stream_buffer = 1, cfg_finished_channel_size = 1, cfg_default_retry_backoff_ms = 1,
       cfg_max_yaml_size = 1, cfg_max_concurrent_nodes = 1, cfg_default_retry_base_delay_ms = 1,
       cfg_default_retry_max_delay_ms = 1 \<rparr>"

definition fan_step :: Step where
  "fan_step = with_edge (StepTarget ''c'') (with_edge (StepTarget ''b'')
     ((Step_new ''a'' ''echo'')\<lparr> step_timeout := Some 0 \<rparr>))"

definition fan_workflow :: Workflow where
  "fan_workflow = add_step (with_edge Return (Step_new ''c'' ''echo''))
     (add_step (with_edge Return (Step_new ''b'' ''echo''))
       (add_step fan_step (Workflow_new ''w'' ''w'' ''a'')))"

definition echo_fx :: "nat Effects" where
  "echo_fx = sample_fx\<lparr> fx_raw := (\<lambda>i env w. (Inr env, w)) \<rparr>"

definition tiny_ctx :: StepContext where
  "tiny_ctx =
     \<lparr> sc_registry = register (RawTool (sample_info ''echo'')) [], sc_capabilities = [''*''],
       sc_config = tiny_config, sc_metadata = [], sc_workflow_id = ''w'' \<rparr>"

definition fan_state :: ExecutorState where
  "fan_state = set_output ''input'' JNull \<lparr> rs_outputs = [], rs_errors = [] \<rparr>"

definition fan_task :: Task where
  "fan_task = \<lparr> t_step = fan_step, t_iteration = 0, t_steps = 0 \<rparr>"

definition fan_init :: "nat Exec" where
  "fan_init =
     \<lparr> ex_state = fan_state, ex_world = 0, ex_active = [fan_task], ex_results = [], ex_queue = [],
       ex_executed = [''a''], ex_reachable = [''a''], ex_spawned = 1, ex_finished = 0,
       ex_steps_count = 0, ex_final_output = JNull \<rparr>"

fun finish_summary :: "task_progress \<times> 's \<Rightarrow> (FinishedInfo list \<times> nat) option" where
  "finish_summary (Finish msgs (Inr r), _) = Some (msgs, ner_steps r)"
| "finish_summary _ = None"

lemma finish_summary_Some:
  "finish_summary q = Some (msgs, n) \<longleftrightarrow> (\<exists>r s. q = (Finish msgs (Inr r), s) \<and> ner_steps r = n)"
  by (cases q rule: finish_summary.cases) auto

lemma fan_init_init: "execute_init echo_fx fan_workflow JNull 0 = Inr fan_init"
  by (simp add: execute_init_def fan_init_def fan_state_def fan_workflow_def add_step_def Workflow_new_def
      get_step_def fan_task_def spawn_node_def echo_fx_def sample_fx_def fan_step_def with_edge_def
      Step_new_def)

lemma fan_task_finishes:
  obtains r st' w' where "task_iter echo_fx tiny_ctx fan_workflow fan_task fan_state 0 =
      (Finish [SpawnNext ''b'', SpawnNext ''c'', FinishedNode ''a''] (Inr r), st', w')" "ner_steps r = 1"
proof -
  have "finish_summary (task_iter echo_fx tiny_ctx fan_workflow fan_task fan_state 0) =
      Some ([SpawnNext ''b'', SpawnNext ''c'', FinishedNode ''a''], 1)"
    by code_simp
  with that show thesis by (auto simp: finish_summary_Some)
qed

lemma fan_lost:
  "\<exists>ex. (exec_step echo_fx tiny_ctx fan_workflow)\<^sup>*\<^sup>* fan_init ex \<and> loop_exit ex \<and>
     ''b'' \<in> set (ex_reachable ex) \<and> ''b'' \<notin> set (ex_executed ex)"
proof -
  obtain r st' w' where t: "task_iter echo_fx tiny_ctx fan_workflow fan_task fan_state 0 =
      (Finish [SpawnNext ''b'', SpawnNext ''c'', FinishedNode ''a''] (Inr r), st', w')" "ner_steps r = 1"
    by (rule fan_task_finishes)
  let ?step = "exec_step echo_fx tiny_ctx fan_workflow"
  define e1 where "e1 = fan_init\<lparr> ex_active := [], ex_results := [Inr r],
      ex_queue := [SpawnNext ''b'', SpawnNext ''c'', FinishedNode ''a''], ex_state := st', ex_world := w' \<rparr>"
  define e2 where "e2 = e1\<lparr> ex_queue := [SpawnNext ''c'', FinishedNode ''a''], ex_reachable := [''b'', ''a''] \<rparr>"
  define e3 where "e3 = e2\<lparr> ex_queue := [FinishedNode ''a''], ex_reachable := [''c'', ''b'', ''a''] \<rparr>"
  define e4 where "e4 = e3\<lparr> ex_queue := [], ex_finished := 1 \<rparr>"
  define e5 where "e5 = join_result r (e4\<lparr> ex_results := [] \<rparr>)"
  note defs = e1_def e2_def e3_def e4_def e5_def fan_init_def tiny_ctx_def tiny_config_def
    active_len_def loop_exit_def remove_nth_def handle_finished_def
  have s1: "?step fan_init e1"
    using finish [of 0 fan_init echo_fx tiny_ctx fan_workflow] t(1)
    by (simp add: e1_def fan_init_def remove_nth_def)
  have s2: "?step e1 e2"
  proof -
    have "handle_finished (sc_config tiny_ctx) fan_workflow (SpawnNext ''b'')
        (e1\<lparr> ex_queue := [SpawnNext ''c'', FinishedNode ''a''] \<rparr>) = e2" by (simp add: defs)
    with recv [of e1 "SpawnNext ''b''" "[SpawnNext ''c'', FinishedNode ''a'']" echo_fx tiny_ctx fan_workflow]
    show ?thesis by (simp add: e1_def fan_init_def loop_exit_def)
  qed
  have s3: "?step e2 e3"
  proof -
    have "handle_finished (sc_config tiny_ctx) fan_workflow (SpawnNext ''c'')
        (e2\<lparr> ex_queue := [FinishedNode ''a''] \<rparr>) = e3" by (simp add: defs)
    with recv [of e2 "SpawnNext ''c''" "[FinishedNode ''a'']" echo_fx tiny_ctx fan_workflow]
    show ?thesis by (simp add: e2_def e1_def fan_init_def loop_exit_def)
  qed
  have s4: "?step e3 e4"
  proof -
    have "handle_finished (sc_config tiny_ctx) fan_workflow (FinishedNode ''a'')
        (e3\<lparr> ex_queue := [] \<rparr>) = e4" by (simp add: defs)
    with recv [of e3 "FinishedNode ''a''" "[]" echo_fx tiny_ctx fan_workflow]
    show ?thesis by (simp add: e3_def e2_def e1_def fan_init_def loop_exit_def)
  qed
  have s5: "?step e4 e5"
  proof -
    have "\<not> loop_exit e4" "0 < length (ex_results e4)" "ex_results e4 ! 0 = Inr r"
      "ex_steps_count e4 + ner_steps r \<le> cfg_max_steps (sc_config tiny_ctx)"
      using t(2) by (simp_all add: defs)
    from join [OF this, of echo_fx fan_workflow] show ?thesis by (simp add: defs)
  qed
  have "?step\<^sup>*\<^sup>* fan_init e5"
    using s1 s2 s3 s4 s5 by (meson converse_rtranclp_into_rtranclp rtranclp.rtrancl_refl)
  moreover have "loop_exit e5" "''b'' \<in> set (ex_reachable e5)" "''b'' \<notin> set (ex_executed e5)"
    by (simp_all add: defs join_result_def)
  ultimately show ?thesis by blast
qed

section \<open>Properties\<close>

text \<open>
  C1. In every state a run can reach, under every interleaving: no step is spawned twice, a
  step other than the entry is spawned only once its join policy is satisfied by completed
  dependencies, the number of tasks stays within \<open>max_concurrent_nodes\<close> (the entry task
  apart), no more completions are counted than steps were spawned, and when the loop leaves
  normally the completion channel is empty.
\<close>

theorem executor_invariant:
  assumes "exec_reaches fx ctx wfl input w ex"
  shows "distinct (ex_executed ex) \<and>
    set (ex_executed ex) \<subseteq>
      insert (wf_entry wfl) {i. \<exists>s. get_step wfl i = Some s \<and> can_run s (ex_state ex)} \<and>
    active_len ex \<le> max 1 (cfg_max_concurrent_nodes (sc_config ctx)) \<and>
    ex_finished ex \<le> ex_spawned ex \<and> ex_spawned ex = length (ex_executed ex) \<and>
    (loop_exit ex \<longrightarrow> ex_queue ex = [])"
proof -
  have inv: "exec_inv (sc_config ctx) wfl ex" using exec_reaches_inv [OF assms] .
  have "ex_queue ex = []" if "loop_exit ex"
  proof (rule ccontr)
    assume "ex_queue ex \<noteq> []"
    then obtain n where "FinishedNode n \<in> set (ex_queue ex)"
      using inv by (metis exec_inv_def last_in_set)
    then have "node_count (ex_queue ex) \<noteq> 0" by (auto simp: filter_empty_conv)
    with inv that show False by (simp add: exec_inv_def loop_exit_def)
  qed
  with inv show ?thesis by (auto simp: exec_inv_def)
qed

theorem executor_invariant_witness:
  "\<exists>ex. exec_reaches echo_fx tiny_ctx fan_workflow JNull 0 ex \<and> loop_exit ex \<and> ex_queue ex = []"
proof -
  from fan_lost obtain ex where "(exec_step echo_fx tiny_ctx fan_workflow)\<^sup>*\<^sup>* fan_init ex" "loop_exit ex"
    by blast
  then have "exec_reaches echo_fx tiny_ctx fan_workflow JNull 0 ex"
    using fan_init_init by (auto simp: exec_reaches_def)
  with executor_invariant [OF this] \<open>loop_exit ex\<close> show ?thesis by blast
qed

text \<open>
  C26. A ready step can be lost at the concurrency limit. There is a run of a valid workflow
  (\<open>a\<close> fans out to \<open>b\<close> and \<open>c\<close>, no dependencies) with \<open>max_concurrent_nodes = 1\<close>
  that ends normally, with a result, although \<open>b\<close> was announced as reachable, may run, and
  was never spawned: the finished task still occupies its slot while its own messages are
  handled, and nothing looks at the reachable steps again when it is joined.
\<close>

theorem executor_can_lose_ready_step:
  "Workflow_validate fan_workflow = Inr () \<and>
   (\<exists>ex s. exec_reaches echo_fx tiny_ctx fan_workflow JNull 0 ex \<and>
      exec_returns echo_fx tiny_ctx ex (Inr (ex_final_output ex)) \<and>
      ''b'' \<in> set (ex_reachable ex) \<and> get_step fan_workflow ''b'' = Some s \<and>
      can_run s (ex_state ex) \<and> ''b'' \<notin> set (ex_executed ex))"
proof -
  from fan_lost obtain ex where ex: "(exec_step echo_fx tiny_ctx fan_workflow)\<^sup>*\<^sup>* fan_init ex"
    "loop_exit ex" "''b'' \<in> set (ex_reachable ex)" "''b'' \<notin> set (ex_executed ex)" by blast
  have "exec_reaches echo_fx tiny_ctx fan_workflow JNull 0 ex"
    using ex(1) fan_init_init by (auto simp: exec_reaches_def)
  moreover have "get_step fan_workflow ''b'' = Some (with_edge Return (Step_new ''b'' ''echo''))"
    by (simp add: fan_workflow_def add_step_def Workflow_new_def get_step_def with_edge_def Step_new_def
        fan_step_def)
  moreover have "can_run (with_edge Return (Step_new ''b'' ''echo'')) (ex_state ex)"
    by (simp add: can_run_def with_edge_def Step_new_def)
  moreover have "Workflow_validate fan_workflow = Inr ()" by code_simp
  ultimately show ?thesis using ex drained [OF ex(2)] by blast
qed

text \<open>
  C13. Every task of a parsed workflow ends. Whatever the tools return, however the other
  tasks change the shared state and whatever the conditions evaluate to, a task makes only
  finitely many passes: it cannot repeat or continue inline for ever, because \<open>repeat\<close> is
  bounded and the \<open>then\<close> and \<open>catch\<close> graph of a parsed workflow has no cycle.
\<close>

theorem parsed_workflow_tasks_end:
  assumes yaml: "\<And>y sch. from_yaml y = Inr sch \<Longrightarrow> distinct (node_names sch)"
    and "parse from_yaml yaml cfg = Inr wfl"
  shows "\<nexists>f. \<forall>n. task_continues fx ctx wfl (f n) (f (Suc n))"
proof -
  have "wf {(t', t). task_continues fx ctx wfl t t'}"
    by (rule task_continues_wf [OF parsed_flow_acyclic [OF assms]])
  then show ?thesis unfolding wf_iff_no_infinite_down_chain by simp
qed

theorem parsed_workflow_tasks_end_witness:
  "\<exists>wfl. parse (\<lambda>y. Inr sample_schema) [] EngineConfig_default = Inr wfl \<and>
     (\<nexists>f. \<forall>n. task_continues echo_fx tiny_ctx wfl (f n) (f (Suc n)))"
proof -
  have dist: "distinct (node_names sample_schema)" by code_simp
  have "is_ok (parse (\<lambda>y. Inr sample_schema) [] EngineConfig_default)" by (rule sample_parses)
  then obtain w where w: "parse (\<lambda>y. Inr sample_schema) [] EngineConfig_default = Inr w"
    by (cases "parse (\<lambda>y. Inr sample_schema) [] EngineConfig_default") auto
  then show ?thesis
    using parsed_workflow_tasks_end [of "\<lambda>y. Inr sample_schema" "[]" EngineConfig_default w] dist by auto
qed

text \<open>
  Inline continuation skips the dependency check. A task that follows a single edge into
  a step with at most one dependency runs that step at once, even if the dependency is some
  other step that has not completed: the next pass executes it although \<open>can_run\<close> is false.
\<close>

lemma inline_continuation_ignores_dependency:
  assumes "evaluate_edges_targets (fx_debug fx) step outputs (sc_workflow_id ctx) = Inr [StepTarget i]"
    and "get_step wfl i = Some s" "step_depends_on s = [d]" "step_join s = JoinAll" "\<not> is_completed st d"
  shows "after_success fx ctx wfl step steps val outputs =
      Continue \<lparr> t_step = s, t_iteration = 0, t_steps = steps \<rparr> \<and> \<not> can_run s st"
  using assms by (simp add: after_success_def can_run_def)

end
