(* ===== verification/Engine.thy ===== *)
theory Engine
  imports Compiler Executor
begin

text \<open>
  The engine (\<^verbatim>\<open>konflux-substrate/src/engine.rs\<close>): its three registries (tools, and the
  resources and prompts of \<^verbatim>\<open>resource.rs\<close> and \<^verbatim>\<open>prompt.rs\<close>), the run wrappers around the
  executor and the size check in front of the parser. Reading a resource and expanding a
  prompt are methods of code outside the registries and are not used here.

  The executor task a run spawns is observed through the events it sent, in order, and the
  way it ended; whether the workflow timeout elapsed first is the argument \<open>elapsed\<close>.
\<close>

section \<open>Resources and prompts\<close>

record ResourceInfo =
  res_uri :: string
  res_name :: string
  res_description :: string
  res_mime_type :: string

record PromptArgument =
  parg_name :: string
  parg_description :: string
  parg_required :: bool

record PromptInfo =
  prm_name :: string
  prm_description :: string
  prm_arguments :: "PromptArgument list"

text \<open>A registered object, with its metadata first.\<close>

type_synonym 'r ResourceRegistry = "(ResourceInfo \<times> 'r) smap"
type_synonym 'q PromptRegistry = "(PromptInfo \<times> 'q) smap"

definition resource_register :: "ResourceInfo \<times> 'r \<Rightarrow> 'r ResourceRegistry \<Rightarrow> 'r ResourceRegistry" where
  "resource_register r reg = obj_insert (res_uri (fst r)) r reg"

definition prompt_register :: "PromptInfo \<times> 'q \<Rightarrow> 'q PromptRegistry \<Rightarrow> 'q PromptRegistry" where
  "prompt_register p reg = obj_insert (prm_name (fst p)) p reg"

definition named_remove :: "string \<Rightarrow> 'v smap \<Rightarrow> bool \<times> 'v smap" where
  "named_remove name reg = (obj_get reg name \<noteq> None, List.filter (\<lambda>(k, v). k \<noteq> name) reg)"

definition resource_list :: "'r ResourceRegistry \<Rightarrow> ResourceInfo list" where
  "resource_list reg = map (\<lambda>(k, r). fst r) reg"

definition prompt_list :: "'q PromptRegistry \<Rightarrow> PromptInfo list" where
  "prompt_list reg = map (\<lambda>(k, p). fst p) reg"

interpretation named: keyed_store obj_get obj_insert "\<lambda>name reg. snd (named_remove name reg)"
  by unfold_locales (auto simp: obj_get_insert named_remove_def obj_get_def map_of_filter_key)

section \<open>The engine\<close>

record ('r, 'q) Engine =
  eng_tools :: ToolRegistry
  eng_resources :: "'r ResourceRegistry"
  eng_prompts :: "'q PromptRegistry"
  eng_config :: EngineConfig
  eng_tool_changed :: u64

definition Engine_with_config :: "EngineConfig \<Rightarrow> ('r, 'q) Engine" where
  "Engine_with_config cfg =
     \<lparr> eng_tools = [], eng_resources = [], eng_prompts = [], eng_config = cfg, eng_tool_changed = 0 \<rparr>"

definition Engine_new :: "('r, 'q) Engine" where
  "Engine_new = Engine_with_config EngineConfig_default"

definition notify_tools_changed :: "('r, 'q) Engine \<Rightarrow> ('r, 'q) Engine" where
  "notify_tools_changed e = e\<lparr> eng_tool_changed := eng_tool_changed e + 1 \<rparr>"

definition register_tool :: "Tool \<Rightarrow> ('r, 'q) Engine \<Rightarrow> ('r, 'q) Engine" where
  "register_tool tool e = e\<lparr> eng_tools := register tool (eng_tools e) \<rparr>"

definition remove_tool :: "string \<Rightarrow> ('r, 'q) Engine \<Rightarrow> bool \<times> ('r, 'q) Engine" where
  "remove_tool name e =
     (fst (registry_remove name (eng_tools e)),
      e\<lparr> eng_tools := snd (registry_remove name (eng_tools e)) \<rparr>)"

definition register_resource :: "ResourceInfo \<times> 'r \<Rightarrow> ('r, 'q) Engine \<Rightarrow> ('r, 'q) Engine" where
  "register_resource r e = e\<lparr> eng_resources := resource_register r (eng_resources e) \<rparr>"

definition register_prompt :: "PromptInfo \<times> 'q \<Rightarrow> ('r, 'q) Engine \<Rightarrow> ('r, 'q) Engine" where
  "register_prompt p e = e\<lparr> eng_prompts := prompt_register p (eng_prompts e) \<rparr>"

definition engine_parse_yaml ::
  "(string \<Rightarrow> string + WorkflowSchema) \<Rightarrow> ('r, 'q) Engine \<Rightarrow> string \<Rightarrow> KonfluxError + Workflow" where
  "engine_parse_yaml from_yaml e yaml =
     (if length yaml > cfg_max_yaml_size (eng_config e)
      then Inl (KParse (InvalidYaml (''YAML size ('' @ show_nat (length yaml)
             @ '' bytes) exceeds maximum ('' @ show_nat (cfg_max_yaml_size (eng_config e)) @ '' bytes)'')))
      else parse from_yaml yaml (eng_config e))"

section \<open>Running a workflow\<close>

text \<open>The receiving loop: the last \<open>Done\<close> output and the last error message.\<close>

fun drain_events :: "StreamEvent list \<Rightarrow> json \<Rightarrow> string option \<Rightarrow> json \<times> string option" where
  "drain_events [] final_output err = (final_output, err)"
| "drain_events (e # es) final_output err =
     (case e of
        Done output \<Rightarrow> drain_events es output err
      | StreamError code message rt \<Rightarrow> drain_events es final_output (Some message)
      | _ \<Rightarrow> drain_events es final_output err)"

text \<open>How the spawned executor task ended: its join error, or what \<open>execute\<close> returned.\<close>

datatype exec_end = JoinErr string | Returned "KonfluxError + unit"

definition engine_run ::
  "('r, 'q) Engine \<Rightarrow> Workflow \<Rightarrow> string list \<Rightarrow> bool \<Rightarrow> StreamEvent list \<Rightarrow> exec_end \<Rightarrow> KonfluxError + json" where
  "engine_run eng wfl granted_capabilities elapsed events ended =
     rbind (map_err KCapabilityDenied (validate_grant (wf_capabilities wfl) granted_capabilities)) (\<lambda>_.
       if cfg_max_workflow_timeout_ms (eng_config eng) > 0 \<and> elapsed
       then Inl (KExecution (ExecTimeout (wf_id wfl) ''workflow''
              (cfg_max_workflow_timeout_ms (eng_config eng))))
       else
         (case drain_events events JNull None of (final_output, err) \<Rightarrow>
            rbind (case ended of
                     JoinErr message \<Rightarrow> Inl (KExecution (JoinFailed (wf_id wfl) ''engine'' message))
                   | Returned r \<Rightarrow> r) (\<lambda>_.
              case err of
                Some msg \<Rightarrow> Inl (KExecution (NodeFailed (wf_id wfl) ''stream'' msg))
              | None \<Rightarrow> Inr final_output)))"

text \<open>
  What the executor task of \<open>run_streaming\<close> appends to the events it sent: an error event
  when \<open>execute\<close> failed. The receiver is returned when the capabilities are granted.
\<close>

definition engine_run_streaming ::
  "('r, 'q) Engine \<Rightarrow> Workflow \<Rightarrow> string list \<Rightarrow> StreamEvent list \<Rightarrow> KonfluxError + unit \<Rightarrow>
   KonfluxError + StreamEvent list" where
  "engine_run_streaming eng wfl granted_capabilities events res =
     map_ok (\<lambda>_. events @ (case res of
         Inl e \<Rightarrow> [StreamError ''execution_error'' (show_KonfluxError e) False]
       | Inr _ \<Rightarrow> []))
       (map_err KCapabilityDenied (validate_grant (wf_capabilities wfl) granted_capabilities))"

text \<open>
  A complete execution: the executor returned \<open>out\<close> from a configuration it can reach; on
  success it sends \<open>Done\<close> last. \<open>sent\<close> are the start and progress events that the
  receiver got before.
\<close>

fun is_progress :: "StreamEvent \<Rightarrow> bool" where
  "is_progress (StreamStart wid) = True"
| "is_progress (Progress node kind data) = True"
| "is_progress (Done output) = False"
| "is_progress (StreamError code message r) = False"

definition executed ::
  "'w Effects \<Rightarrow> StepContext \<Rightarrow> Workflow \<Rightarrow> json \<Rightarrow> 'w \<Rightarrow> StreamEvent list \<Rightarrow> StreamEvent list \<Rightarrow>
   KonfluxError + unit \<Rightarrow> bool" where
  "executed fx ctx wfl input w sent events res \<longleftrightarrow>
     list_all is_progress sent \<and>
     ((\<exists>e. execute_init fx wfl input w = Inl e \<and> res = Inl e \<and> events = sent) \<or>
      (\<exists>ex e. exec_reaches fx ctx wfl input w ex \<and> exec_returns fx ctx ex (Inl e) \<and>
         res = Inl e \<and> events = sent) \<or>
      (\<exists>ex v. exec_reaches fx ctx wfl input w ex \<and> exec_returns fx ctx ex (Inr v) \<and>
         res = Inr () \<and> events = sent @ [Done v]))"

section \<open>Lemmas\<close>

lemma drain_append: "drain_events (xs @ ys) o1 e1 = (case drain_events xs o1 e1 of (o2, e2) \<Rightarrow> drain_events ys o2 e2)"
  by (induction xs arbitrary: o1 e1) (auto split: StreamEvent.splits)

lemma drain_progress [simp]: "list_all is_progress xs \<Longrightarrow> drain_events xs o1 e1 = (o1, e1)"
  by (induction xs arbitrary: o1 e1) (auto elim: is_progress.elims)

lemma register_tool_lookup:
  "registry_get (eng_tools (register_tool tool e)) name =
     (if name = info_name (info tool) then Some tool else registry_get (eng_tools e) name)"
  by (simp add: register_tool_def register_def registry.lookup_put)

lemma streaming_collects:
  "list_all is_progress sent \<Longrightarrow> collect_events (sent @ es) out = collect_events es out"
  by (induction sent arbitrary: out) (auto split: StreamEvent.splits)

text \<open>
  A run returns what its execution computed: with the capabilities granted and no
  timeout, \<open>Engine::run\<close> returns the executor's output or its error unchanged, and a client
  that collects the events of \<open>run_streaming\<close> gets the same output, or the text of the same
  error.
\<close>

theorem engine_run_agrees_with_streaming:
  assumes "validate_grant (wf_capabilities wfl) granted = Inr u"
    and "executed fx ctx wfl input w sent events res"
  shows "(\<exists>ex v. exec_reaches fx ctx wfl input w ex \<and> exec_returns fx ctx ex (Inr v) \<and>
            engine_run eng wfl granted False events (Returned res) = Inr v \<and>
            map_ok collect_stream (engine_run_streaming eng wfl granted events res) = Inr (Inr v)) \<or>
         (\<exists>e. res = Inl e \<and> engine_run eng wfl granted False events (Returned res) = Inl e \<and>
            map_ok collect_stream (engine_run_streaming eng wfl granted events res) =
              Inr (Inl (show_KonfluxError e)))"
proof (cases res)
  case (Inl e)
  then have "events = sent" "list_all is_progress sent"
    using assms(2) by (auto simp: executed_def)
  then show ?thesis
    using assms(1) Inl
    by (simp add: engine_run_def engine_run_streaming_def collect_stream_def streaming_collects)
next
  case (Inr x)
  with assms(2) obtain ex v where ex: "exec_reaches fx ctx wfl input w ex" "exec_returns fx ctx ex (Inr v)"
    and ev: "events = sent @ [Done v]" "list_all is_progress sent"
    by (auto simp: executed_def)
  have "engine_run eng wfl granted False events (Returned res) = Inr v"
    using assms(1) Inr ev by (simp add: engine_run_def drain_append)
  moreover have "map_ok collect_stream (engine_run_streaming eng wfl granted events res) = Inr (Inr v)"
    using assms(1) Inr ev by (simp add: engine_run_streaming_def collect_stream_def streaming_collects)
  ultimately show ?thesis using ex by blast
qed

theorem engine_run_agrees_with_streaming_witness:
  "\<exists>ex v. exec_reaches echo_fx tiny_ctx fan_workflow JNull 0 ex \<and>
     exec_returns echo_fx tiny_ctx ex (Inr v) \<and>
     engine_run (Engine_with_config tiny_config :: (unit, unit) Engine) fan_workflow [''*''] False
       [StreamStart ''w'', Done v] (Returned (Inr ())) = Inr v"
proof -
  let ?eng = "Engine_with_config tiny_config :: (unit, unit) Engine"
  from fan_lost obtain ex where ex: "(exec_step echo_fx tiny_ctx fan_workflow)\<^sup>*\<^sup>* fan_init ex"
    "loop_exit ex" by blast
  let ?v = "ex_final_output ex"
  have r: "exec_reaches echo_fx tiny_ctx fan_workflow JNull 0 ex"
    using ex fan_init_init by (auto simp: exec_reaches_def)
  have g: "validate_grant (wf_capabilities fan_workflow) [''*''] = Inr ()" by code_simp
  have "executed echo_fx tiny_ctx fan_workflow JNull 0 [StreamStart ''w''] [StreamStart ''w'', Done ?v] (Inr ())"
    using r drained [OF ex(2)] unfolding executed_def by fastforce
  from engine_run_agrees_with_streaming [OF g this, of ?eng]
  have "engine_run ?eng fan_workflow [''*''] False [StreamStart ''w'', Done ?v] (Returned (Inr ())) = Inr ?v"
    by (auto simp: engine_run_def g)
  then show ?thesis using r drained [OF ex(2)] by blast
qed

text \<open>
  The workflow timeout guards \<open>run\<close> only: with the time elapsed, \<open>run\<close> fails although the
  executor goes on, and \<open>run_streaming\<close> delivers the same events as without a limit.
\<close>

lemma workflow_timeout_only_in_run:
  assumes "validate_grant (wf_capabilities wfl) granted = Inr u"
    "cfg_max_workflow_timeout_ms (eng_config eng) > 0"
  shows "engine_run eng wfl granted True events ended =
      Inl (KExecution (ExecTimeout (wf_id wfl) ''workflow'' (cfg_max_workflow_timeout_ms (eng_config eng))))"
    and "engine_run_streaming eng wfl granted events res =
      engine_run_streaming (eng\<lparr> eng_config := (eng_config eng)\<lparr> cfg_max_workflow_timeout_ms := 0 \<rparr> \<rparr>)
        wfl granted events res"
  using assms by (simp_all add: engine_run_def engine_run_streaming_def)

end
