(* ===== verification/Interaction.thy ===== *)
theory Interaction
  imports Scope
begin

text \<open>
  Interaction records (\<^verbatim>\<open>konf-runtime/src/interaction.rs\<close>), their JSON form, and the
  comparison of two traces by state hashes (\<^verbatim>\<open>konf-runtime/src/bisimulation.rs\<close>). The
  textual forms of UUIDs and time stamps are the arguments \<open>show_uuid\<close> and
  \<open>show_time\<close>; a SHA-256 digest is its 32 bytes.
\<close>

section \<open>Records\<close>

datatype InteractionKind =
    ToolDispatch | NodeLifecycle | RunLifecycle | ErrorKind | UserInput | LlmResponse
  | ProductDefined string

datatype InteractionStatus = StatusPending | StatusOk | StatusFailed string | StatusObserved

type_synonym digest = "8 word list"

record Interaction =
  in_id :: uuid
  in_parent_id :: "uuid option"
  in_trace_id :: uuid
  in_run_id :: "RunId option"
  in_node_id :: "string option"
  in_actor :: Actor
  in_namespace :: string
  in_target :: string
  in_kind :: InteractionKind
  in_attributes :: json
  in_edge_rules_fired :: "string list"
  in_status :: InteractionStatus
  in_summary :: "string option"
  in_timestamp :: datetime
  in_step_index :: u64
  in_stream_id :: string
  in_state_before_hash :: "digest option"
  in_state_after_hash :: "digest option"
  in_references :: "uuid list"
  in_in_reply_to :: "uuid option"

section \<open>The JSON form\<close>

fun kind_json :: "InteractionKind \<Rightarrow> json" where
  "kind_json ToolDispatch = JObject [(''type'', JString ''tool_dispatch'')]"
| "kind_json NodeLifecycle = JObject [(''type'', JString ''node_lifecycle'')]"
| "kind_json RunLifecycle = JObject [(''type'', JString ''run_lifecycle'')]"
| "kind_json ErrorKind = JObject [(''type'', JString ''error'')]"
| "kind_json UserInput = JObject [(''type'', JString ''user_input'')]"
| "kind_json LlmResponse = JObject [(''type'', JString ''llm_response'')]"
| "kind_json (ProductDefined name) =
     JObject [(''name'', JString name), (''type'', JString ''product_defined'')]"

fun status_json :: "InteractionStatus \<Rightarrow> json" where
  "status_json StatusPending = JObject [(''type'', JString ''pending'')]"
| "status_json StatusOk = JObject [(''type'', JString ''ok'')]"
| "status_json (StatusFailed err) = JObject [(''error'', JString err), (''type'', JString ''failed'')]"
| "status_json StatusObserved = JObject [(''type'', JString ''observed'')]"

definition opt_json :: "('a \<Rightarrow> json) \<Rightarrow> 'a option \<Rightarrow> json" where
  "opt_json f x = (case x of Some v \<Rightarrow> f v | None \<Rightarrow> JNull)"

definition digest_json :: "digest \<Rightarrow> json" where
  "digest_json d = JArray (map (\<lambda>b. JNumber (PosInt (ucast b))) d)"

definition Interaction_to_json ::
  "(uuid \<Rightarrow> string) \<Rightarrow> (datetime \<Rightarrow> string) \<Rightarrow> Interaction \<Rightarrow> json" where
  "Interaction_to_json show_uuid show_time x =
     (let uid = (\<lambda>u. JString (show_uuid u)) in
      JObject (obj_of_list [
        (''id'', uid (in_id x)),
        (''parent_id'', opt_json uid (in_parent_id x)),
        (''trace_id'', uid (in_trace_id x)),
        (''run_id'', opt_json uid (in_run_id x)),
        (''node_id'', opt_json JString (in_node_id x)),
        (''actor'', JObject [(''id'', JString (actor_id (in_actor x))),
                             (''role'', JString (actor_role_str (actor_role (in_actor x))))]),
        (''namespace'', JString (in_namespace x)),
        (''target'', JString (in_target x)),
        (''kind'', kind_json (in_kind x)),
        (''attributes'', in_attributes x),
        (''edge_rules_fired'', JArray (map JString (in_edge_rules_fired x))),
        (''status'', status_json (in_status x)),
        (''summary'', opt_json JString (in_summary x)),
        (''timestamp'', JString (show_time (in_timestamp x))),
        (''step_index'', JNumber (PosInt (in_step_index x))),
        (''stream_id'', JString (in_stream_id x)),
        (''state_before_hash'', opt_json digest_json (in_state_before_hash x)),
        (''state_after_hash'', opt_json digest_json (in_state_after_hash x)),
        (''references'', JArray (map uid (in_references x))),
        (''in_reply_to'', opt_json uid (in_in_reply_to x))]))"

section \<open>Bisimulation of traces\<close>

datatype BisimulationResult = Equivalent | Diverged u64 string

definition stateful :: "Interaction \<Rightarrow> bool" where
  "stateful x \<longleftrightarrow> in_state_before_hash x \<noteq> None \<or> in_state_after_hash x \<noteq> None"

fun compare_pairs :: "(Interaction \<times> Interaction) list \<Rightarrow> BisimulationResult" where
  "compare_pairs [] = Equivalent"
| "compare_pairs ((a, b) # ps) =
     (if in_state_before_hash a \<noteq> in_state_before_hash b
      then Diverged (in_step_index a) ''state_before_hash mismatch''
      else if in_state_after_hash a \<noteq> in_state_after_hash b
      then Diverged (in_step_index a) ''state_after_hash mismatch''
      else compare_pairs ps)"

definition bisimulate :: "Interaction list \<Rightarrow> Interaction list \<Rightarrow> BisimulationResult" where
  "bisimulate trace_a trace_b =
     (let stateful_a = List.filter stateful trace_a; stateful_b = List.filter stateful trace_b in
      if length stateful_a \<noteq> length stateful_b
      then Diverged 0 (''different number of stateful interactions: ''
        @ show_nat (length stateful_a) @ '' vs '' @ show_nat (length stateful_b))
      else compare_pairs (zip stateful_a stateful_b))"

text \<open>The chain of state hashes of a trace: the specification the comparison decides.\<close>

definition hash_chain :: "Interaction list \<Rightarrow> (digest option \<times> digest option) list" where
  "hash_chain xs =
     map (\<lambda>x. (in_state_before_hash x, in_state_after_hash x)) (List.filter stateful xs)"

lemma compare_pairs_equivalent:
  "length xs = length ys \<Longrightarrow> compare_pairs (zip xs ys) = Equivalent \<longleftrightarrow>
     map (\<lambda>x. (in_state_before_hash x, in_state_after_hash x)) xs =
     map (\<lambda>x. (in_state_before_hash x, in_state_after_hash x)) ys"
  by (induction xs ys rule: list_induct2) auto

lemma bisimulate_iff: "bisimulate a b = Equivalent \<longleftrightarrow> hash_chain a = hash_chain b"
proof (cases "length (List.filter stateful a) = length (List.filter stateful b)")
  case True
  then show ?thesis
    by (simp add: bisimulate_def Let_def hash_chain_def compare_pairs_equivalent)
next
  case False
  then show ?thesis
    by (auto simp: bisimulate_def Let_def hash_chain_def dest: map_eq_imp_length_eq)
qed

text \<open>
  \<open>bisimulate\<close> decides equality of the hash chains of the two traces; so it is an
  equivalence on traces, and the stateless interactions in them play no part.
\<close>

theorem bisimulate_decides_hash_chains:
  "(bisimulate a b = Equivalent \<longleftrightarrow> hash_chain a = hash_chain b) \<and>
   (bisimulate (List.filter stateful a) b = Equivalent \<longleftrightarrow> bisimulate a b = Equivalent)"
  unfolding bisimulate_iff by (simp add: hash_chain_def)

text \<open>
  The documented conditions on step indices and on the continuity of the chain are not
  checked: an interaction may take any step index and the chain may break.
\<close>

lemma bisimulate_ignores_step_index:
  "bisimulate (xs @ [x\<lparr> in_step_index := n \<rparr>]) (xs @ [x]) = Equivalent"
  unfolding bisimulate_iff by (simp add: hash_chain_def stateful_def)

end
