(* ===== verification/Journal.thy ===== *)
theory Journal
  imports Keyed_Store Envelope
begin

text \<open>
  The event journal: the trait and filter of \<^verbatim>\<open>konflux-substrate/src/journal.rs\<close>, the redb
  backend \<^verbatim>\<open>konf-runtime/src/journal/redb.rs\<close> and the fan-out store
  \<^verbatim>\<open>konf-runtime/src/journal/fanout.rs\<close>.

  A redb table is an association list in key order, a multimap table a list of key-value
  pairs. Each operation runs in one redb transaction, which takes effect as a whole or not at
  all; \<open>fault = Some e\<close> stands for a transaction that fails with \<open>e\<close>. The codecs
  (\<^verbatim>\<open>postcard\<close>, \<^verbatim>\<open>serde_json\<close>'s text form, \<^verbatim>\<open>chrono\<close>'s range check) are the record
  \<open>codec\<close>, and what is used of them is the round trip of the entries that are written
  (\<open>entry_roundtrips\<close>). \<^verbatim>\<open>Utc::now()\<close> is the argument \<open>now\<close>.
\<close>

section \<open>The journal interface\<close>

record JournalEntry =
  je_run_id :: "RunId option"
  je_session_id :: string
  je_namespace :: string
  je_event_type :: string
  je_payload :: json
  je_valid_to :: "datetime option"
  je_idempotency_key :: "string option"

record JournalRow =
  jr_id :: u64
  jr_run_id :: "RunId option"
  jr_session_id :: string
  jr_namespace :: string
  jr_event_type :: string
  jr_payload :: json
  jr_created_at :: datetime
  jr_valid_to :: "datetime option"
  jr_idempotency_key :: "string option"

record JournalFilter =
  jf_namespace :: "string option"
  jf_event_type :: "string option"
  jf_run_id :: "RunId option"
  jf_session_id :: "string option"
  jf_trace_id :: "uuid option"
  jf_include_expired :: bool

text \<open>\<open>show_uuid\<close> is the textual form of a UUID.\<close>

definition JournalFilter_matches ::
  "(uuid \<Rightarrow> string) \<Rightarrow> datetime \<Rightarrow> JournalFilter \<Rightarrow> JournalRow \<Rightarrow> bool" where
  "JournalFilter_matches show_uuid now f row =
     ((case jf_namespace f of Some ns \<Rightarrow> jr_namespace row = ns | None \<Rightarrow> True) \<and>
      (case jf_event_type f of Some et \<Rightarrow> jr_event_type row = et | None \<Rightarrow> True) \<and>
      (case jf_run_id f of Some rid \<Rightarrow> jr_run_id row = Some rid | None \<Rightarrow> True) \<and>
      (case jf_session_id f of Some sid \<Rightarrow> jr_session_id row = sid | None \<Rightarrow> True) \<and>
      (case jf_trace_id f of
         Some tid \<Rightarrow>
           (case Option.bind (json_get (jr_payload row) ''trace_id'') as_str of
              Some payload_tid \<Rightarrow> payload_tid = show_uuid tid
            | None \<Rightarrow> True)
       | None \<Rightarrow> True) \<and>
      (jf_include_expired f \<or>
       (case jr_valid_to row of Some valid_to \<Rightarrow> \<not> valid_to < now | None \<Rightarrow> True)))"

datatype AggregateQuery = Count_query | MostRecent_query | WindowSum_query string nat

datatype AggregateResult = Count u64 | MostRecent "datetime option" | WindowSum f64

section \<open>The redb backend\<close>

record StoredEntry =
  st_run_id_bytes :: "uuid option"
  st_session_id :: string
  st_namespace :: string
  st_event_type :: string
  st_payload_json :: string
  st_created_at_micros :: int
  st_valid_to_micros :: "int option"
  st_idempotency_key :: "string option"

type_synonym bytes = "8 word list"

record codec =
  cdc_json_to_string :: "json \<Rightarrow> string + string"
  cdc_json_from_str :: "string \<Rightarrow> string + json"
  cdc_encode :: "StoredEntry \<Rightarrow> string + bytes"
  cdc_decode :: "bytes \<Rightarrow> string + StoredEntry"
  cdc_timestamp_micros :: "int \<Rightarrow> datetime option"

definition from_entry :: "codec \<Rightarrow> datetime \<Rightarrow> JournalEntry \<Rightarrow> JournalError + StoredEntry" where
  "from_entry cdc now e =
     rbind (map_err JSerialization (cdc_json_to_string cdc (je_payload e))) (\<lambda>payload.
       Inr \<lparr> st_run_id_bytes = je_run_id e,
             st_session_id = je_session_id e,
             st_namespace = je_namespace e,
             st_event_type = je_event_type e,
             st_payload_json = payload,
             st_created_at_micros = timestamp_micros now,
             st_valid_to_micros = map_option timestamp_micros (je_valid_to e),
             st_idempotency_key = je_idempotency_key e \<rparr>)"

definition into_row :: "codec \<Rightarrow> datetime \<Rightarrow> u64 \<Rightarrow> StoredEntry \<Rightarrow> JournalError + JournalRow" where
  "into_row cdc now i st =
     rbind (map_err JSerialization (cdc_json_from_str cdc (st_payload_json st))) (\<lambda>payload.
       Inr \<lparr> jr_id = i,
             jr_run_id = st_run_id_bytes st,
             jr_session_id = st_session_id st,
             jr_namespace = st_namespace st,
             jr_event_type = st_event_type st,
             jr_payload = payload,
             jr_created_at =
               (case cdc_timestamp_micros cdc (st_created_at_micros st) of
                  Some t \<Rightarrow> t | None \<Rightarrow> now),
             jr_valid_to = Option.bind (st_valid_to_micros st) (cdc_timestamp_micros cdc),
             jr_idempotency_key = st_idempotency_key st \<rparr>)"

record RedbJournal =
  j_events :: "(u64 \<times> bytes) list"
  j_by_run :: "(uuid \<times> u64) list"
  j_by_session :: "(string \<times> u64) list"
  j_by_expiry :: "(int \<times> u64) list"
  j_by_idempotency :: "(string \<times> u64) list"

definition RedbJournal_empty :: RedbJournal where
  "RedbJournal_empty =
     \<lparr> j_events = [], j_by_run = [], j_by_session = [], j_by_expiry = [], j_by_idempotency = [] \<rparr>"

text \<open>The values of a key in a multimap table, ascending.\<close>

definition mm_get :: "('k \<times> u64) list \<Rightarrow> 'k \<Rightarrow> u64 list" where
  "mm_get m k = sort (map snd (List.filter (\<lambda>(k', i). k' = k) m))"

definition mm_insert_opt :: "'k option \<Rightarrow> u64 \<Rightarrow> ('k \<times> u64) list \<Rightarrow> ('k \<times> u64) list" where
  "mm_insert_opt k i m = (case k of Some k' \<Rightarrow> List.insert (k', i) m | None \<Rightarrow> m)"

definition mm_remove_opt :: "'k option \<Rightarrow> u64 \<Rightarrow> ('k \<times> u64) list \<Rightarrow> ('k \<times> u64) list" where
  "mm_remove_opt k i m = (case k of Some k' \<Rightarrow> removeAll (k', i) m | None \<Rightarrow> m)"

definition is_expired :: "datetime \<Rightarrow> JournalRow \<Rightarrow> bool" where
  "is_expired now row = (case jr_valid_to row of Some vt \<Rightarrow> vt < now | None \<Rightarrow> False)"

definition next_event_id :: "RedbJournal \<Rightarrow> u64" where
  "next_event_id j = (case j_events j of [] \<Rightarrow> 1 | _ \<Rightarrow> fst (last (j_events j)) + 1)"

definition journal_append ::
  "codec \<Rightarrow> string option \<Rightarrow> datetime \<Rightarrow> JournalEntry \<Rightarrow> RedbJournal \<Rightarrow>
   (JournalError + u64) \<times> RedbJournal" where
  "journal_append cdc fault now e j =
     (case from_entry cdc now e of
        Inl err \<Rightarrow> (Inl err, j)
      | Inr st \<Rightarrow>
          (case cdc_encode cdc st of
             Inl err \<Rightarrow> (Inl (JSerialization err), j)
           | Inr bs \<Rightarrow>
               (case fault of
                  Some msg \<Rightarrow> (Inl (JStorage msg), j)
                | None \<Rightarrow>
                    (let next_id = next_event_id j in
                     (Inr next_id,
                      \<lparr> j_events = btree_insert next_id bs (j_events j),
                        j_by_run = mm_insert_opt (st_run_id_bytes st) next_id (j_by_run j),
                        j_by_session = List.insert (st_session_id st, next_id) (j_by_session j),
                        j_by_expiry = mm_insert_opt (st_valid_to_micros st) next_id (j_by_expiry j),
                        j_by_idempotency =
                          mm_insert_opt (st_idempotency_key st) next_id (j_by_idempotency j) \<rparr>)))))"

text \<open>One stored event as a row.\<close>

definition decode_row :: "codec \<Rightarrow> datetime \<Rightarrow> u64 \<times> bytes \<Rightarrow> JournalError + JournalRow" where
  "decode_row cdc now ev =
     rbind (map_err JSerialization (cdc_decode cdc (snd ev))) (\<lambda>st. into_row cdc now (fst ev) st)"

text \<open>The loop over index entries; an id without an event is skipped.\<close>

fun rows_of_ids ::
  "codec \<Rightarrow> datetime \<Rightarrow> (u64 \<times> bytes) list \<Rightarrow> u64 list \<Rightarrow> JournalError + JournalRow list" where
  "rows_of_ids cdc now evs [] = Inr []"
| "rows_of_ids cdc now evs (i # is) =
     (case map_of evs i of
        None \<Rightarrow> rows_of_ids cdc now evs is
      | Some bs \<Rightarrow>
          rbind (decode_row cdc now (i, bs)) (\<lambda>row.
            rbind (rows_of_ids cdc now evs is) (\<lambda>rows. Inr (row # rows))))"

definition with_fault :: "string option \<Rightarrow> JournalError + 'a \<Rightarrow> JournalError + 'a" where
  "with_fault fault r = (case fault of Some msg \<Rightarrow> Inl (JStorage msg) | None \<Rightarrow> r)"

definition query_by_run ::
  "codec \<Rightarrow> string option \<Rightarrow> datetime \<Rightarrow> RunId \<Rightarrow> RedbJournal \<Rightarrow> JournalError + JournalRow list" where
  "query_by_run cdc fault now run_id j =
     with_fault fault
       (map_ok (\<lambda>rows. List.filter (\<lambda>r. \<not> is_expired now r) (sort_key jr_id rows))
         (rows_of_ids cdc now (j_events j) (mm_get (j_by_run j) run_id)))"

fun session_rows ::
  "codec \<Rightarrow> datetime \<Rightarrow> (u64 \<times> bytes) list \<Rightarrow> nat \<Rightarrow> u64 list \<Rightarrow> JournalError + JournalRow list" where
  "session_rows cdc now evs limit [] = Inr []"
| "session_rows cdc now evs limit (i # is) =
     (if limit = 0 then Inr []
      else (case map_of evs i of
              None \<Rightarrow> session_rows cdc now evs limit is
            | Some bs \<Rightarrow>
                rbind (decode_row cdc now (i, bs)) (\<lambda>row.
                  if \<not> is_expired now row
                  then map_ok ((#) row) (session_rows cdc now evs (limit - 1) is)
                  else session_rows cdc now evs limit is)))"

definition query_by_session ::
  "codec \<Rightarrow> string option \<Rightarrow> datetime \<Rightarrow> string \<Rightarrow> nat \<Rightarrow> RedbJournal \<Rightarrow>
   JournalError + JournalRow list" where
  "query_by_session cdc fault now session_id limit j =
     with_fault fault
       (session_rows cdc now (j_events j) limit (rev (sort (mm_get (j_by_session j) session_id))))"

definition recent ::
  "codec \<Rightarrow> string option \<Rightarrow> datetime \<Rightarrow> nat \<Rightarrow> RedbJournal \<Rightarrow> JournalError + JournalRow list" where
  "recent cdc fault now limit j =
     with_fault fault
       (map_ok (List.filter (\<lambda>r. \<not> is_expired now r))
         (map_results (decode_row cdc now) (take limit (rev (j_events j)))))"

fun query_scan ::
  "codec \<Rightarrow> datetime \<Rightarrow> (JournalRow \<Rightarrow> bool) \<Rightarrow> nat \<Rightarrow> (u64 \<times> bytes) list \<Rightarrow>
   JournalError + JournalRow list" where
  "query_scan cdc now P limit [] = Inr []"
| "query_scan cdc now P limit (ev # evs) =
     (if limit = 0 then Inr []
      else rbind (decode_row cdc now ev) (\<lambda>row.
             if P row then map_ok ((#) row) (query_scan cdc now P (limit - 1) evs)
             else query_scan cdc now P limit evs))"

definition journal_query ::
  "codec \<Rightarrow> (uuid \<Rightarrow> string) \<Rightarrow> string option \<Rightarrow> datetime \<Rightarrow> JournalFilter \<Rightarrow> nat \<Rightarrow> RedbJournal \<Rightarrow>
   JournalError + JournalRow list" where
  "journal_query cdc show_uuid fault now f limit j =
     with_fault fault
       (query_scan cdc now (JournalFilter_matches show_uuid now f) limit (rev (j_events j)))"

definition aggregate_step ::
  "(JournalRow \<Rightarrow> bool) \<Rightarrow> JournalRow \<Rightarrow> u64 \<times> datetime option \<Rightarrow> u64 \<times> datetime option" where
  "aggregate_step P row acc =
     (if \<not> P row then acc
      else (fst acc + 1,
            (case snd acc of
               None \<Rightarrow> Some (jr_created_at row)
             | Some prev \<Rightarrow> if jr_created_at row > prev then Some (jr_created_at row) else Some prev)))"

definition aggregate ::
  "codec \<Rightarrow> (uuid \<Rightarrow> string) \<Rightarrow> string option \<Rightarrow> datetime \<Rightarrow> JournalFilter \<Rightarrow> AggregateQuery \<Rightarrow>
   RedbJournal \<Rightarrow> JournalError + AggregateResult" where
  "aggregate cdc show_uuid fault now f q j =
     with_fault fault
       (rbind (map_results (decode_row cdc now) (j_events j)) (\<lambda>rows.
          let acc = fold (aggregate_step (JournalFilter_matches show_uuid now f)) rows (0, None) in
          case q of
            Count_query \<Rightarrow> Inr (Count (fst acc))
          | MostRecent_query \<Rightarrow> Inr (MostRecent (snd acc))
          | WindowSum_query field window \<Rightarrow> Inl (JStorage ''WindowSum not yet implemented'')))"

fun best_event ::
  "codec \<Rightarrow> (u64 \<times> bytes) list \<Rightarrow> u64 list \<Rightarrow> (u64 \<times> StoredEntry) option \<Rightarrow>
   JournalError + (u64 \<times> StoredEntry) option" where
  "best_event cdc evs [] best = Inr best"
| "best_event cdc evs (i # is) best =
     (if (case best of Some (prev_id, _) \<Rightarrow> i \<le> prev_id | None \<Rightarrow> False)
      then best_event cdc evs is best
      else (case map_of evs i of
              None \<Rightarrow> best_event cdc evs is best
            | Some bs \<Rightarrow>
                rbind (map_err JSerialization (cdc_decode cdc bs)) (\<lambda>st.
                  best_event cdc evs is (Some (i, st)))))"

definition get_by_idempotency_key ::
  "codec \<Rightarrow> string option \<Rightarrow> datetime \<Rightarrow> string \<Rightarrow> RedbJournal \<Rightarrow> JournalError + JournalRow option" where
  "get_by_idempotency_key cdc fault now key j =
     with_fault fault
       (rbind (best_event cdc (j_events j) (mm_get (j_by_idempotency j) key) None) (\<lambda>best.
          case best of
            Some (i, st) \<Rightarrow>
              map_ok (\<lambda>row. if is_expired now row then None else Some row) (into_row cdc now i st)
          | None \<Rightarrow> Inr None))"

text \<open>Removal of one expired event from every table.\<close>

definition delete_event :: "u64 \<times> StoredEntry \<Rightarrow> RedbJournal \<Rightarrow> RedbJournal" where
  "delete_event ev j =
     (case ev of (i, st) \<Rightarrow>
       \<lparr> j_events = List.filter (\<lambda>(k, v). k \<noteq> i) (j_events j),
         j_by_run = mm_remove_opt (st_run_id_bytes st) i (j_by_run j),
         j_by_session = removeAll (st_session_id st, i) (j_by_session j),
         j_by_expiry = mm_remove_opt (st_valid_to_micros st) i (j_by_expiry j),
         j_by_idempotency = mm_remove_opt (st_idempotency_key st) i (j_by_idempotency j) \<rparr>)"

definition due :: "datetime \<Rightarrow> StoredEntry \<Rightarrow> bool" where
  "due now st = (case st_valid_to_micros st of Some vt \<Rightarrow> vt \<le> timestamp_micros now | None \<Rightarrow> False)"

definition delete_expired ::
  "codec \<Rightarrow> string option \<Rightarrow> datetime \<Rightarrow> RedbJournal \<Rightarrow> (JournalError + u64) \<times> RedbJournal" where
  "delete_expired cdc fault now j =
     (case with_fault fault
         (map_results (\<lambda>(i, bs). map_ok (Pair i) (map_err JSerialization (cdc_decode cdc bs)))
           (j_events j)) of
        Inl err \<Rightarrow> (Inl err, j)
      | Inr evs \<Rightarrow>
          (let expired = List.filter (\<lambda>(i, st). due now st) evs in
           (Inr (of_nat (length expired)), fold delete_event expired j)))"

section \<open>Reconciliation of interrupted runs\<close>

definition terminal_events :: "string set" where
  "terminal_events = {''workflow_completed'', ''workflow_failed'', ''workflow_cancelled''}"

definition scan_started ::
  "StoredEntry \<Rightarrow> (uuid, string \<times> string) table \<Rightarrow> (uuid, string \<times> string) table" where
  "scan_started st started =
     (case st_run_id_bytes st of
        Some r \<Rightarrow>
          if st_event_type st = ''workflow_started'' \<and> tbl_get started r = None
          then started @ [(r, (st_session_id st, st_namespace st))] else started
      | None \<Rightarrow> started)"

definition scan_terminal :: "StoredEntry \<Rightarrow> uuid list \<Rightarrow> uuid list" where
  "scan_terminal st terminal =
     (case st_run_id_bytes st of
        Some r \<Rightarrow> if st_event_type st \<in> terminal_events then List.insert r terminal else terminal
      | None \<Rightarrow> terminal)"

definition zombie_entry :: "uuid \<times> string \<times> string \<Rightarrow> JournalEntry" where
  "zombie_entry z =
     (case z of (r, session_id, namespace) \<Rightarrow>
       \<lparr> je_run_id = Some r, je_session_id = session_id, je_namespace = namespace,
         je_event_type = ''workflow_failed'',
         je_payload = JObject [
           (''error'', JString (''System restart '' @ em_dash @ '' workflow was interrupted'')),
           (''reconciled'', JBool True)],
         je_valid_to = None, je_idempotency_key = None \<rparr>)"

definition zombies_of :: "StoredEntry list \<Rightarrow> JournalEntry list" where
  "zombies_of sts =
     (let terminal = fold scan_terminal sts [] in
      map zombie_entry (List.filter (\<lambda>(r, _). r \<notin> set terminal) (fold scan_started sts [])))"

text \<open>The appends of the second phase; the \<open>k\<close>-th one may fail and has its own time.\<close>

fun append_all ::
  "codec \<Rightarrow> (nat \<Rightarrow> string option) \<Rightarrow> (nat \<Rightarrow> datetime) \<Rightarrow> nat \<Rightarrow> JournalEntry list \<Rightarrow> RedbJournal \<Rightarrow>
   (JournalError + unit) \<times> RedbJournal" where
  "append_all cdc faults clock k [] j = (Inr (), j)"
| "append_all cdc faults clock k (e # es) j =
     (case journal_append cdc (faults k) (clock k) e j of
        (Inl err, j') \<Rightarrow> (Inl err, j')
      | (Inr _, j') \<Rightarrow> append_all cdc faults clock (Suc k) es j')"

definition reconcile_zombies ::
  "codec \<Rightarrow> (nat \<Rightarrow> string option) \<Rightarrow> (nat \<Rightarrow> datetime) \<Rightarrow> RedbJournal \<Rightarrow>
   (JournalError + u64) \<times> RedbJournal" where
  "reconcile_zombies cdc faults clock j =
     (case with_fault (faults 0)
         (map_results (\<lambda>(i, bs). map_err JSerialization (cdc_decode cdc bs)) (j_events j)) of
        Inl err \<Rightarrow> (Inl err, j)
      | Inr sts \<Rightarrow>
          (let zombies = zombies_of sts in
           case append_all cdc faults clock 1 zombies j of
             (Inl err, j') \<Rightarrow> (Inl err, j')
           | (Inr _, j') \<Rightarrow> (Inr (of_nat (length zombies)), j')))"

section \<open>The log a journal stores\<close>

definition event_log :: "codec \<Rightarrow> RedbJournal \<Rightarrow> (u64 \<times> StoredEntry) list" where
  "event_log cdc j = map (\<lambda>(i, bs). (i, projr (cdc_decode cdc bs))) (j_events j)"

text \<open>A stored entry that can be read back, and the row it gives.\<close>

definition readable :: "codec \<Rightarrow> StoredEntry \<Rightarrow> bool" where
  "readable cdc st \<longleftrightarrow>
     is_ok (cdc_json_from_str cdc (st_payload_json st)) \<and>
     cdc_timestamp_micros cdc (st_created_at_micros st) \<noteq> None"

definition row_of :: "codec \<Rightarrow> u64 \<times> StoredEntry \<Rightarrow> JournalRow" where
  "row_of cdc ev = projr (into_row cdc 0 (fst ev) (snd ev))"

definition index_ok ::
  "(StoredEntry \<Rightarrow> 'k option) \<Rightarrow> (u64 \<times> StoredEntry) list \<Rightarrow> ('k \<times> u64) list \<Rightarrow> bool" where
  "index_ok key lg m \<longleftrightarrow>
     distinct m \<and> (\<forall>k i. (k, i) \<in> set m \<longleftrightarrow> (\<exists>st. (i, st) \<in> set lg \<and> key st = Some k))"

definition events_ok :: "codec \<Rightarrow> (u64 \<times> bytes) list \<Rightarrow> bool" where
  "events_ok cdc evs \<longleftrightarrow>
     sorted_wrt (<) (map fst evs) \<and>
     (\<forall>ev \<in> set evs. \<exists>st. cdc_decode cdc (snd ev) = Inr st \<and> readable cdc st)"

definition journal_wf :: "codec \<Rightarrow> RedbJournal \<Rightarrow> bool" where
  "journal_wf cdc j \<longleftrightarrow>
     events_ok cdc (j_events j) \<and>
     index_ok st_run_id_bytes (event_log cdc j) (j_by_run j) \<and>
     index_ok (Some \<circ> st_session_id) (event_log cdc j) (j_by_session j) \<and>
     index_ok st_valid_to_micros (event_log cdc j) (j_by_expiry j) \<and>
     index_ok st_idempotency_key (event_log cdc j) (j_by_idempotency j)"

text \<open>
  What an append needs of the codecs: the entry it writes is read back as it was, and its
  time stamps, cut to microseconds, are in range.
\<close>

definition entry_stored :: "codec \<Rightarrow> datetime \<Rightarrow> JournalEntry \<Rightarrow> StoredEntry" where
  "entry_stored cdc now e = projr (from_entry cdc now e)"

definition entry_roundtrips :: "codec \<Rightarrow> datetime \<Rightarrow> JournalEntry \<Rightarrow> bool" where
  "entry_roundtrips cdc now e \<longleftrightarrow>
     (\<exists>s bs. cdc_json_to_string cdc (je_payload e) = Inr s \<and>
        cdc_json_from_str cdc s = Inr (je_payload e) \<and>
        cdc_encode cdc (entry_stored cdc now e) = Inr bs \<and>
        cdc_decode cdc bs = Inr (entry_stored cdc now e)) \<and>
     cdc_timestamp_micros cdc (timestamp_micros now) = Some (timestamp_micros now * 1000)"

definition id_room :: "RedbJournal \<Rightarrow> bool" where
  "id_room j \<longleftrightarrow> list_all (\<lambda>(i, _). i \<noteq> - 1) (j_events j)"

section \<open>Lemmas on the tables\<close>

lemma readable_into_row: "readable cdc st \<Longrightarrow> into_row cdc now i st = Inr (row_of cdc (i, st))"
  by (cases "cdc_json_from_str cdc (st_payload_json st)")
     (auto simp: readable_def row_of_def into_row_def)

lemma row_of_id [simp]: "readable cdc st \<Longrightarrow> jr_id (row_of cdc (i, st)) = i"
  by (cases "cdc_json_from_str cdc (st_payload_json st)")
     (auto simp: readable_def row_of_def into_row_def)

lemma events_ok_decode:
  "events_ok cdc evs \<Longrightarrow> ev \<in> set evs \<Longrightarrow>
     decode_row cdc now ev = Inr (row_of cdc (fst ev, projr (cdc_decode cdc (snd ev))))"
  by (auto simp: events_ok_def decode_row_def readable_into_row dest!: bspec)

lemma events_ok_readable:
  "events_ok cdc evs \<Longrightarrow> ev \<in> set evs \<Longrightarrow> readable cdc (projr (cdc_decode cdc (snd ev)))"
  by (auto simp: events_ok_def dest!: bspec)

lemma map_results_total:
  "\<forall>x \<in> set xs. f x = Inr (g x) \<Longrightarrow> map_results f xs = Inr (map g xs)"
  by (induction xs) auto

lemma sorted_fst_distinct: "sorted_wrt (<) (map fst (m :: ('k::linorder \<times> 'v) list)) \<Longrightarrow> distinct (map fst m)"
  using strict_sorted_iff by blast

lemma fst_event_log [simp]: "map fst (event_log cdc j) = map fst (j_events j)"
  by (simp add: event_log_def comp_def split_beta)

lemma event_log_lookup:
  "map_of (event_log cdc j) i = map_option (\<lambda>bs. projr (cdc_decode cdc bs)) (map_of (j_events j) i)"
  by (simp add: event_log_def map_of_map)

lemma word_less_succ:
  assumes "x \<noteq> (- 1 :: u64)"
  shows "x < x + 1"
proof -
  have "unat x \<noteq> unat (- 1 :: u64)" using assms word_unat_eq_iff by blast
  moreover have "unat x < 2 ^ LENGTH(64)" by (rule unsigned_less)
  ultimately have "unat x + 1 < 2 ^ 64"
    by (simp add: unat_minus_one_u64 u64_max_def)
  then have "unat (x + 1) = unat x + 1" by (simp add: unat_word_ariths)
  then show ?thesis by (simp add: word_less_nat_alt)
qed

text \<open>An index read is a scan of the log.\<close>

lemma mm_get_scan:
  assumes "index_ok key lg m" "sorted_wrt (<) (map fst lg)"
  shows "mm_get m k = map fst (List.filter (\<lambda>(i, st). key st = Some k) lg)"
proof (rule sorted_distinct_set_unique)
  show "sorted (mm_get m k)" by (simp add: mm_get_def)
  have "distinct (map snd (List.filter (\<lambda>(k', i). k' = k) m))"
    using assms(1) by (auto simp: index_ok_def distinct_map inj_on_def)
  then show "distinct (mm_get m k)" by (simp add: mm_get_def)
  have "sorted_wrt (<) (map fst (List.filter (\<lambda>(i, st). key st = Some k) lg))"
    using assms(2) by (simp add: sorted_wrt_map sorted_wrt_filter)
  then show "sorted (map fst (List.filter (\<lambda>(i, st). key st = Some k) lg))"
    "distinct (map fst (List.filter (\<lambda>(i, st). key st = Some k) lg))"
    by (simp_all add: strict_sorted_iff)
  show "set (mm_get m k) = set (map fst (List.filter (\<lambda>(i, st). key st = Some k) lg))"
    using assms(1) by (force simp: mm_get_def index_ok_def)
qed

lemma rows_of_present:
  assumes "events_ok cdc evs" "set is \<subseteq> fst ` set evs"
  shows "rows_of_ids cdc now evs is =
    Inr (map (\<lambda>i. row_of cdc (i, projr (cdc_decode cdc (the (map_of evs i))))) is)"
  using assms(2)
proof (induction "is")
  case Nil
  then show ?case by simp
next
  case (Cons i "is")
  then have "i \<in> fst ` set evs" by simp
  then obtain bs where bs: "map_of evs i = Some bs"
    using map_of_eq_None_iff [of evs i] by (cases "map_of evs i") auto
  then have "(i, bs) \<in> set evs" by (rule map_of_SomeD)
  from events_ok_decode [OF assms(1) this] have
    "decode_row cdc now (i, bs) = Inr (row_of cdc (i, projr (cdc_decode cdc bs)))" by simp
  with Cons bs show ?case by simp
qed

lemma log_filter_lookup:
  assumes "events_ok cdc (j_events j)"
  shows "map (\<lambda>i. row_of cdc (i, projr (cdc_decode cdc (the (map_of (j_events j) i)))))
      (map fst (List.filter P (event_log cdc j))) =
    map (row_of cdc) (List.filter P (event_log cdc j))"
proof -
  have d: "distinct (map fst (j_events j))"
    using assms sorted_fst_distinct unfolding events_ok_def by blast
  have "projr (cdc_decode cdc (the (map_of (j_events j) i))) = st"
    if ev: "(i, st) \<in> set (event_log cdc j)" for i st
  proof -
    obtain bs where "(i, bs) \<in> set (j_events j)" "st = projr (cdc_decode cdc bs)"
      using ev by (auto simp: event_log_def)
    with d show ?thesis by simp
  qed
  then show ?thesis by auto
qed


section \<open>Preservation of well-formedness\<close>

lemma entry_stored_from_entry:
  "entry_roundtrips cdc now e \<Longrightarrow> from_entry cdc now e = Inr (entry_stored cdc now e)"
  by (auto simp: entry_roundtrips_def entry_stored_def from_entry_def)

lemma entry_stored_readable: "entry_roundtrips cdc now e \<Longrightarrow> readable cdc (entry_stored cdc now e)"
  by (auto simp: entry_roundtrips_def readable_def entry_stored_def from_entry_def)

lemma last_id_greatest:
  assumes "sorted_wrt (<) (map fst evs)" "x \<in> set evs"
  shows "fst x \<le> (fst (last evs) :: u64)"
proof (cases "x = last evs")
  case False
  have "evs = butlast evs @ [last evs]" using assms(2) by (metis append_butlast_last_id in_set_conv_decomp_first list.distinct(1) Nil_is_append_conv)
  with False assms have "x \<in> set (butlast evs)" by (metis rotate1.simps(2) set_ConsD set_rotate1)
  moreover have "sorted_wrt (<) (map fst (butlast evs) @ [fst (last evs)])"
    using assms(1) \<open>evs = butlast evs @ [last evs]\<close> by (metis map_append list.map(1) list.map(2))
  ultimately show ?thesis by (auto simp: sorted_wrt_append)
qed simp

lemma next_id_fresh:
  assumes "events_ok cdc (j_events j)" "id_room j" "x \<in> set (j_events j)"
  shows "fst x < next_event_id j"
proof -
  have ne: "j_events j \<noteq> []" using assms(3) by auto
  then have l: "last (j_events j) \<in> set (j_events j)" by simp
  with assms(2) have "fst (last (j_events j)) \<noteq> - 1"
    by (auto simp: id_room_def list_all_iff split_beta)
  then have "fst (last (j_events j)) < fst (last (j_events j)) + 1"
    by (rule word_less_succ)
  moreover have "fst x \<le> fst (last (j_events j))"
    using assms by (intro last_id_greatest) (auto simp: events_ok_def)
  ultimately show ?thesis using ne by (auto simp: next_event_id_def split: list.split)
qed

lemma index_ok_append:
  assumes "index_ok key lg m" "\<forall>x \<in> set lg. fst x \<noteq> i"
  shows "index_ok key (lg @ [(i, st)]) (mm_insert_opt (key st) i m)"
  using assms by (auto simp: index_ok_def mm_insert_opt_def split: option.splits)

lemma mm_insert_opt_Some [simp]: "mm_insert_opt (Some k) i m = List.insert (k, i) m"
  by (simp add: mm_insert_opt_def)

lemma append_refines_log:
  assumes wfj: "journal_wf cdc j" and room: "id_room j" and rt: "entry_roundtrips cdc now e"
    and app: "journal_append cdc fault now e j = (r, j')"
  shows "case r of
      Inl err \<Rightarrow> j' = j \<and> fault \<noteq> None
    | Inr i \<Rightarrow> fault = None \<and> journal_wf cdc j' \<and> i = next_event_id j \<and>
        event_log cdc j' = event_log cdc j @ [(i, entry_stored cdc now e)]"
proof (cases fault)
  case None
  let ?i = "next_event_id j" and ?st = "entry_stored cdc now e"
  obtain bs where bs: "cdc_encode cdc ?st = Inr bs" "cdc_decode cdc bs = Inr ?st"
    using rt by (auto simp: entry_roundtrips_def)
  have ev: "events_ok cdc (j_events j)" using wfj by (simp add: journal_wf_def)
  have fresh: "\<forall>x \<in> set (j_events j). fst x < ?i"
    using next_id_fresh [OF ev room] by blast
  note st = entry_stored_from_entry [OF rt]
  have r: "r = Inr ?i" and evs: "j_events j' = j_events j @ [(?i, bs)]"
    and ix: "j_by_run j' = mm_insert_opt (st_run_id_bytes ?st) ?i (j_by_run j)"
      "j_by_session j' = mm_insert_opt ((Some \<circ> st_session_id) ?st) ?i (j_by_session j)"
      "j_by_expiry j' = mm_insert_opt (st_valid_to_micros ?st) ?i (j_by_expiry j)"
      "j_by_idempotency j' = mm_insert_opt (st_idempotency_key ?st) ?i (j_by_idempotency j)"
    using app None bs st
    by (auto simp: journal_append_def Let_def btree_insert_last [OF fresh])
  have lg: "event_log cdc j' = event_log cdc j @ [(?i, ?st)]"
    by (simp add: event_log_def evs bs)
  have new: "\<forall>x \<in> set (event_log cdc j). fst x \<noteq> ?i"
    using fresh by (auto simp: event_log_def)
  have "events_ok cdc (j_events j')"
    using ev fresh bs entry_stored_readable [OF rt]
    by (auto simp: events_ok_def evs sorted_wrt_append)
  then have "journal_wf cdc j'"
    unfolding journal_wf_def lg ix using wfj
    by (intro conjI index_ok_append [OF _ new]) (simp_all add: journal_wf_def)
  with r lg None show ?thesis by simp
next
  case (Some msg)
  obtain bs where "cdc_encode cdc (entry_stored cdc now e) = Inr bs"
    using rt by (auto simp: entry_roundtrips_def)
  with app Some entry_stored_from_entry [OF rt] show ?thesis
    by (auto simp: journal_append_def)
qed

lemma index_ok_remove:
  assumes "index_ok key lg m" "(i, st) \<in> set lg" "distinct (map fst lg)"
  shows "index_ok key (List.filter (\<lambda>(k, v). k \<noteq> i) lg) (mm_remove_opt (key st) i m)"
proof -
  have u: "(i, st') \<in> set lg \<longleftrightarrow> st' = st" for st'
    using assms(2,3) by (metis map_of_is_SomeI option.inject)
  show ?thesis
    using assms(1) u
    by (auto simp: index_ok_def mm_remove_opt_def distinct_removeAll split: option.splits)
qed

lemma delete_event_log:
  assumes "journal_wf cdc j" "ev \<in> set (event_log cdc j)"
  shows "journal_wf cdc (delete_event ev j) \<and>
    event_log cdc (delete_event ev j) = List.filter (\<lambda>x. fst x \<noteq> fst ev) (event_log cdc j)"
proof -
  obtain i st where e: "ev = (i, st)" by force
  have evs: "j_events (delete_event ev j) = List.filter (\<lambda>(k, v). k \<noteq> i) (j_events j)"
    and ix: "j_by_run (delete_event ev j) = mm_remove_opt (st_run_id_bytes st) i (j_by_run j)"
      "j_by_session (delete_event ev j) =
         mm_remove_opt ((Some \<circ> st_session_id) st) i (j_by_session j)"
      "j_by_expiry (delete_event ev j) = mm_remove_opt (st_valid_to_micros st) i (j_by_expiry j)"
      "j_by_idempotency (delete_event ev j) =
         mm_remove_opt (st_idempotency_key st) i (j_by_idempotency j)"
    by (simp_all add: delete_event_def e mm_remove_opt_def)
  have lg: "event_log cdc (delete_event ev j) = List.filter (\<lambda>(k, v). k \<noteq> i) (event_log cdc j)"
    by (simp add: event_log_def evs filter_map comp_def case_prod_unfold)
  have ev: "events_ok cdc (j_events j)" using assms(1) by (simp add: journal_wf_def)
  then have d: "distinct (map fst (event_log cdc j))"
    using sorted_fst_distinct by (auto simp: events_ok_def)
  have "events_ok cdc (j_events (delete_event ev j))"
    using ev by (auto simp: events_ok_def evs sorted_wrt_map sorted_wrt_filter)
  then have "journal_wf cdc (delete_event ev j)"
    unfolding journal_wf_def lg ix using assms(1)
    by (intro conjI index_ok_remove [OF _ assms(2) [unfolded e] d]) (simp_all add: journal_wf_def)
  then show ?thesis using lg by (simp add: e case_prod_unfold)
qed

lemma delete_events_log:
  assumes "journal_wf cdc j" "distinct (map fst evs)" "set evs \<subseteq> set (event_log cdc j)"
  shows "journal_wf cdc (fold delete_event evs j) \<and>
    event_log cdc (fold delete_event evs j) =
      List.filter (\<lambda>x. fst x \<notin> fst ` set evs) (event_log cdc j)"
  using assms
proof (induction evs arbitrary: j)
  case Nil
  then show ?case by simp
next
  case (Cons ev evs)
  have d: "journal_wf cdc (delete_event ev j)"
    "event_log cdc (delete_event ev j) = List.filter (\<lambda>x. fst x \<noteq> fst ev) (event_log cdc j)"
    using delete_event_log [of cdc j ev] Cons.prems by auto
  have "set evs \<subseteq> set (event_log cdc (delete_event ev j))"
    using Cons.prems by (auto simp: d image_iff)
  from Cons.IH [OF d(1) _ this] Cons.prems(2) show ?case
    by (simp add: d(2) conj_commute filter_filter)
qed

section \<open>Queries as scans of the log\<close>

lemma journal_wf_events: "journal_wf cdc j \<Longrightarrow> events_ok cdc (j_events j)"
  by (simp add: journal_wf_def)

lemma journal_wf_sorted: "journal_wf cdc j \<Longrightarrow> sorted_wrt (<) (map fst (event_log cdc j))"
  by (simp add: journal_wf_def events_ok_def)

lemma log_readable: "journal_wf cdc j \<Longrightarrow> (i, st) \<in> set (event_log cdc j) \<Longrightarrow> readable cdc st"
  using events_ok_readable [OF journal_wf_events] by (fastforce simp: event_log_def)

lemma log_ids_filter_subset:
  "set (map fst (List.filter P (event_log cdc j))) \<subseteq> fst ` set (j_events j)"
  by (force simp: event_log_def)

lemma index_rows:
  assumes "journal_wf cdc j" "index_ok key (event_log cdc j) m"
  shows "rows_of_ids cdc now (j_events j) (mm_get m k) =
    Inr (map (row_of cdc) (List.filter (\<lambda>(i, st). key st = Some k) (event_log cdc j)))"
  using rows_of_present [OF journal_wf_events [OF assms(1)] log_ids_filter_subset]
    log_filter_lookup [OF journal_wf_events [OF assms(1)]]
    mm_get_scan [OF assms(2) journal_wf_sorted [OF assms(1)]]
  by simp

lemma sorted_rows:
  assumes "journal_wf cdc j"
  shows "sorted (map jr_id (map (row_of cdc) (List.filter P (event_log cdc j))))"
proof -
  have "map jr_id (map (row_of cdc) (List.filter P (event_log cdc j))) =
      map fst (List.filter P (event_log cdc j))"
    using log_readable [OF assms] by auto
  moreover have "sorted_wrt (<) (map fst (List.filter P (event_log cdc j)))"
    using journal_wf_sorted [OF assms] unfolding sorted_wrt_map by (rule sorted_wrt_filter)
  ultimately show ?thesis by (metis strict_sorted_iff)
qed

lemma session_rows_scan:
  assumes "events_ok cdc evs" "set is \<subseteq> fst ` set evs"
  shows "session_rows cdc now evs limit is =
    Inr (take limit (List.filter (\<lambda>r. \<not> is_expired now r)
      (map (\<lambda>i. row_of cdc (i, projr (cdc_decode cdc (the (map_of evs i))))) is)))"
  using assms(2)
proof (induction "is" arbitrary: limit)
  case Nil
  then show ?case by simp
next
  case (Cons i "is")
  then obtain bs where bs: "map_of evs i = Some bs"
    using map_of_eq_None_iff [of evs i] by (cases "map_of evs i") auto
  from events_ok_decode [OF assms(1) map_of_SomeD [OF this]] have
    "decode_row cdc now (i, bs) = Inr (row_of cdc (i, projr (cdc_decode cdc bs)))" by simp
  with Cons bs show ?case by (cases limit) auto
qed

section \<open>The append-only log\<close>

text \<open>
  What the runtime relies on in a journal backend: a successful append puts the entry at the
  end of the log under a larger id than all before, a failing one leaves the log alone.
\<close>

locale audit_log =
  fixes ok :: "'j \<Rightarrow> bool"
    and entries :: "'j \<Rightarrow> (u64 \<times> StoredEntry) list"
    and fits :: "'a \<Rightarrow> 'j \<Rightarrow> bool"
    and stored :: "'a \<Rightarrow> StoredEntry"
    and append :: "'a \<Rightarrow> 'j \<Rightarrow> (JournalError + u64) \<times> 'j"
  assumes append_success: "ok j \<Longrightarrow> fits a j \<Longrightarrow> append a j = (Inr i, j') \<Longrightarrow>
      ok j' \<and> entries j' = entries j @ [(i, stored a)] \<and> (\<forall>x \<in> set (entries j). fst x < i)"
    and append_failure: "ok j \<Longrightarrow> fits a j \<Longrightarrow> append a j = (Inl e, j') \<Longrightarrow> ok j' \<and> entries j' = entries j"
begin

lemma append_extends:
  assumes "ok j" "fits a j" "append a j = (r, j')"
  shows "ok j' \<and> entries j' =
    entries j @ (case r of Inl _ \<Rightarrow> [] | Inr i \<Rightarrow> [(i, stored a)])"
proof (cases r)
  case (Inl e)
  with append_failure [of j a e j'] assms show ?thesis by simp
next
  case (Inr i)
  with append_success [of j a i j'] assms show ?thesis by simp
qed

text \<open>A sequence of appends, each allowed to fail, and the ids it hands out.\<close>

lemma appends_extend:
  assumes "ok j" "\<And>a j. a \<in> set as \<Longrightarrow> ok j \<Longrightarrow> fits a j"
  shows "ok (fold (\<lambda>a j. snd (append a j)) as j) \<and>
    (\<exists>new. entries (fold (\<lambda>a j. snd (append a j)) as j) = entries j @ new \<and>
       length new \<le> length as \<and> (\<forall>x \<in> set new. snd x \<in> stored ` set as))"
  using assms
proof (induction as arbitrary: j)
  case Nil
  then show ?case by simp
next
  case (Cons a as)
  obtain r j1 where a: "append a j = (r, j1)" by force
  have s: "ok j1" "entries j1 = entries j @ (case r of Inl _ \<Rightarrow> [] | Inr i \<Rightarrow> [(i, stored a)])"
    using append_extends [OF Cons.prems(1) Cons.prems(2) a] Cons.prems(1) by auto
  from Cons.IH [OF s(1) Cons.prems(2)] obtain new where
    n: "ok (fold (\<lambda>a j. snd (append a j)) as j1)"
    "entries (fold (\<lambda>a j. snd (append a j)) as j1) = entries j1 @ new"
    "length new \<le> length as" "\<forall>x \<in> set new. snd x \<in> stored ` set as" by auto
  then show ?case
    by (cases r) (auto simp: a s(2))
qed

end

type_synonym append_args = "string option \<times> datetime \<times> JournalEntry"

fun redb_append :: "codec \<Rightarrow> append_args \<Rightarrow> RedbJournal \<Rightarrow> (JournalError + u64) \<times> RedbJournal" where
  "redb_append cdc (fault, now, e) j = journal_append cdc fault now e j"

fun redb_fits :: "codec \<Rightarrow> append_args \<Rightarrow> RedbJournal \<Rightarrow> bool" where
  "redb_fits cdc (fault, now, e) j \<longleftrightarrow> entry_roundtrips cdc now e \<and> id_room j"

fun args_stored :: "codec \<Rightarrow> append_args \<Rightarrow> StoredEntry" where
  "args_stored cdc (fault, now, e) = entry_stored cdc now e"

lemma log_ids_below_next:
  assumes "journal_wf cdc j" "id_room j" "x \<in> set (event_log cdc j)"
  shows "fst x < next_event_id j"
proof -
  obtain y where "y \<in> set (j_events j)" "fst y = fst x"
    using assms(3) by (force simp: event_log_def)
  with next_id_fresh [OF journal_wf_events [OF assms(1)] assms(2)] show ?thesis by metis
qed

interpretation redb: audit_log "journal_wf cdc" "event_log cdc" "redb_fits cdc" "args_stored cdc"
  "redb_append cdc"
  for cdc
proof unfold_locales
  fix j a i j'
  assume *: "journal_wf cdc j" "redb_fits cdc a j" "redb_append cdc a j = (Inr i, j')"
  obtain fault now e where a: "a = (fault, now, e)" by (cases a)
  show "journal_wf cdc j' \<and> event_log cdc j' = event_log cdc j @ [(i, args_stored cdc a)] \<and>
      (\<forall>x \<in> set (event_log cdc j). fst x < i)"
    using * append_refines_log [of cdc j now e fault "Inr i" j'] log_ids_below_next [of cdc j]
    by (auto simp: a)
next
  fix j a e' j'
  assume *: "journal_wf cdc j" "redb_fits cdc a j" "redb_append cdc a j = (Inl e', j')"
  obtain fault now e where a: "a = (fault, now, e)" by (cases a)
  show "journal_wf cdc j' \<and> event_log cdc j' = event_log cdc j"
    using * append_refines_log [of cdc j now e fault "Inl e'" j'] by (auto simp: a)
qed

end
