(* ===== verification/Journal_Store.thy ===== *)
theory Journal_Store
  imports Journal
begin

text \<open>
  The fan-out store (\<^verbatim>\<open>konf-runtime/src/journal/fanout.rs\<close>) and the properties of the
  journal: every index read agrees with a scan of the log, appends and sweeps keep the tables
  consistent, reconciliation settles every interrupted run, and what limits and expiry do to
  the queries.
\<close>

section \<open>The fan-out store\<close>

text \<open>
  The secondary writes of an append are spawned tasks: they wait in \<open>fan_pending\<close>, by
  index of the secondary, until \<open>fanout_deliver\<close> runs one of them.
\<close>

record ('p, 's) Fanout =
  fan_primary :: 'p
  fan_secondaries :: "'s list"
  fan_pending :: "(nat \<times> JournalEntry) list"
  fan_dropped :: u64

definition fanout_new :: "'p \<Rightarrow> 's list \<Rightarrow> ('p, 's) Fanout" where
  "fanout_new p ss = \<lparr> fan_primary = p, fan_secondaries = ss, fan_pending = [], fan_dropped = 0 \<rparr>"

definition fanout_append ::
  "(append_args \<Rightarrow> 'p \<Rightarrow> (JournalError + u64) \<times> 'p) \<Rightarrow> append_args \<Rightarrow> ('p, 's) Fanout \<Rightarrow>
   (JournalError + u64) \<times> ('p, 's) Fanout" where
  "fanout_append papp a f =
     (case papp a (fan_primary f) of
        (Inl err, p') \<Rightarrow> (Inl err, f\<lparr> fan_primary := p' \<rparr>)
      | (Inr sq, p') \<Rightarrow>
          (Inr sq, f\<lparr> fan_primary := p',
             fan_pending := fan_pending f @ map (\<lambda>i. (i, snd (snd a))) [0..<length (fan_secondaries f)] \<rparr>))"

text \<open>A spawned secondary write runs to its end; a failure is counted.\<close>

definition fanout_deliver ::
  "(JournalEntry \<Rightarrow> 's \<Rightarrow> (JournalError + u64) \<times> 's) \<Rightarrow> nat \<Rightarrow> ('p, 's) Fanout \<Rightarrow> ('p, 's) Fanout" where
  "fanout_deliver sapp k f =
     (if k < length (fan_pending f) then
        (let (i, e) = fan_pending f ! k;
             (r, s') = sapp e (fan_secondaries f ! i)
         in f\<lparr> fan_secondaries := (fan_secondaries f)[i := s'],
               fan_pending := take k (fan_pending f) @ drop (Suc k) (fan_pending f),
               fan_dropped := (if is_ok r then fan_dropped f else fan_dropped f + 1) \<rparr>)
      else f)"

text \<open>The queries go to the primary; the idempotency lookup is the default of the trait.\<close>

definition fanout_query :: "('p \<Rightarrow> 'r) \<Rightarrow> ('p, 's) Fanout \<Rightarrow> 'r" where
  "fanout_query q f = q (fan_primary f)"

definition default_get_by_idempotency_key :: "string \<Rightarrow> 'j \<Rightarrow> JournalError + JournalRow option" where
  "default_get_by_idempotency_key key j = Inr None"

interpretation fanout: audit_log "\<lambda>f. journal_wf cdc (fan_primary f)"
  "\<lambda>f. event_log cdc (fan_primary f)" "\<lambda>a f. redb_fits cdc a (fan_primary f)" "args_stored cdc"
  "fanout_append (redb_append cdc)"
  for cdc
proof unfold_locales
  fix j a i and j' :: "(RedbJournal, 's) Fanout"
  assume *: "journal_wf cdc (fan_primary j)" "redb_fits cdc a (fan_primary j)"
    "fanout_append (redb_append cdc) a j = (Inr i, j')"
  then obtain p' where "redb_append cdc a (fan_primary j) = (Inr i, p')" "fan_primary j' = p'"
    by (auto simp: fanout_append_def split: prod.splits sum.splits)
  then show "journal_wf cdc (fan_primary j') \<and>
      event_log cdc (fan_primary j') = event_log cdc (fan_primary j) @ [(i, args_stored cdc a)] \<and>
      (\<forall>x \<in> set (event_log cdc (fan_primary j)). fst x < i)"
    using redb.append_success [OF *(1,2)] by blast
next
  fix j a e and j' :: "(RedbJournal, 's) Fanout"
  assume *: "journal_wf cdc (fan_primary j)" "redb_fits cdc a (fan_primary j)"
    "fanout_append (redb_append cdc) a j = (Inl e, j')"
  then obtain p' where "redb_append cdc a (fan_primary j) = (Inl e, p')" "fan_primary j' = p'"
    by (auto simp: fanout_append_def split: prod.splits sum.splits)
  then show "journal_wf cdc (fan_primary j') \<and>
      event_log cdc (fan_primary j') = event_log cdc (fan_primary j)"
    using redb.append_failure [OF *(1,2)] by blast
qed

section \<open>Histories\<close>

datatype journal_op =
    AppendOp "string option" datetime JournalEntry
  | SweepOp "string option" datetime

fun journal_run :: "codec \<Rightarrow> journal_op \<Rightarrow> RedbJournal \<Rightarrow> RedbJournal" where
  "journal_run cdc (AppendOp fault now e) j = snd (journal_append cdc fault now e j)"
| "journal_run cdc (SweepOp fault now) j = snd (delete_expired cdc fault now j)"

fun op_roundtrips :: "codec \<Rightarrow> journal_op \<Rightarrow> bool" where
  "op_roundtrips cdc (AppendOp fault now e) \<longleftrightarrow> entry_roundtrips cdc now e"
| "op_roundtrips cdc (SweepOp fault now) \<longleftrightarrow> True"

lemma journal_wf_empty: "journal_wf cdc RedbJournal_empty"
  by (simp add: journal_wf_def RedbJournal_empty_def events_ok_def index_ok_def event_log_def)

lemma decode_log:
  assumes "events_ok cdc (j_events j)"
  shows "map_results (\<lambda>(i, bs). map_ok (Pair i) (map_err JSerialization (cdc_decode cdc bs)))
    (j_events j) = Inr (event_log cdc j)"
  unfolding event_log_def
  by (rule map_results_total) (use assms in \<open>auto simp: events_ok_def dest!: bspec\<close>)

lemma delete_expired_log:
  assumes "journal_wf cdc j"
  shows "journal_wf cdc (snd (delete_expired cdc None now j)) \<and>
    event_log cdc (snd (delete_expired cdc None now j)) =
      List.filter (\<lambda>(i, st). \<not> due now st) (event_log cdc j) \<and>
    fst (delete_expired cdc None now j) =
      Inr (of_nat (length (List.filter (\<lambda>(i, st). due now st) (event_log cdc j))))"
proof -
  let ?ex = "List.filter (\<lambda>(i, st). due now st) (event_log cdc j)"
  have d: "distinct (map fst (event_log cdc j))"
    using sorted_fst_distinct [OF journal_wf_sorted [OF assms]] .
  have eq: "delete_expired cdc None now j = (Inr (of_nat (length ?ex)), fold delete_event ?ex j)"
    by (simp add: delete_expired_def with_fault_def decode_log [OF journal_wf_events [OF assms]] Let_def)
  have dex: "distinct (map fst ?ex)" using d by (simp add: distinct_map_filter)
  have "fst x \<notin> fst ` set ?ex \<longleftrightarrow> \<not> due now (snd x)" if x: "x \<in> set (event_log cdc j)" for x
  proof -
    have "y = x" if "y \<in> set (event_log cdc j)" "fst y = fst x" for y
      using d x that unfolding distinct_map inj_on_def by blast
    then have "fst x \<in> fst ` set ?ex \<longleftrightarrow> x \<in> set ?ex"
      by (metis (no_types, lifting) filter_is_subset imageE image_eqI subsetD)
    then show ?thesis using x by (simp add: case_prod_unfold)
  qed
  then have "List.filter (\<lambda>x. fst x \<notin> fst ` set ?ex) (event_log cdc j) =
      List.filter (\<lambda>(i, st). \<not> due now st) (event_log cdc j)"
    by (intro filter_cong) auto
  with delete_events_log [OF assms dex] show ?thesis by (simp add: eq)
qed

definition ids_upto :: "nat \<Rightarrow> RedbJournal \<Rightarrow> bool" where
  "ids_upto n j \<longleftrightarrow> list_all (\<lambda>(i, _). unat i \<le> n) (j_events j)"

lemma ids_upto_mono: "ids_upto m j \<Longrightarrow> m \<le> n \<Longrightarrow> ids_upto n j"
  by (auto simp: ids_upto_def list_all_iff)

lemma ids_upto_room: "ids_upto n j \<Longrightarrow> n < u64_max \<Longrightarrow> id_room j"
  by (auto simp: ids_upto_def id_room_def list_all_iff unat_minus_one_u64)

lemma ids_upto_log: "ids_upto n j \<longleftrightarrow> (\<forall>x \<in> set (event_log cdc j). unat (fst x) \<le> n)"
  by (auto simp: ids_upto_def list_all_iff event_log_def)

lemma next_id_upto:
  assumes "ids_upto n j" "n < u64_max"
  shows "unat (next_event_id j) \<le> Suc n"
proof (cases "j_events j = []")
  case True
  then show ?thesis by (simp add: next_event_id_def)
next
  case False
  then have "unat (fst (last (j_events j))) \<le> n"
    using assms(1) by (auto simp: ids_upto_def list_all_iff split_beta)
  moreover have "next_event_id j = fst (last (j_events j)) + 1"
    using False by (simp add: next_event_id_def split: list.split)
  moreover have "unat (fst (last (j_events j)) + 1) \<le> unat (fst (last (j_events j))) + 1"
    using mod_less_eq_dividend [of "unat (fst (last (j_events j))) + 1" "2 ^ 64"]
    by (simp add: unat_word_ariths)
  ultimately show ?thesis by simp
qed

lemma journal_run_step:
  assumes "journal_wf cdc j" "ids_upto n j" "n < u64_max" "op_roundtrips cdc op"
  shows "journal_wf cdc (journal_run cdc op j) \<and> ids_upto (Suc n) (journal_run cdc op j)"
proof (cases op)
  case (AppendOp fault now e)
  obtain r j' where a: "journal_append cdc fault now e j = (r, j')" by force
  have rt: "entry_roundtrips cdc now e" using assms(4) AppendOp by simp
  note app = append_refines_log [OF assms(1) ids_upto_room [OF assms(2,3)] rt a]
  show ?thesis
  proof (cases r)
    case (Inl err)
    with app assms a AppendOp show ?thesis by (auto intro: ids_upto_mono)
  next
    case (Inr i)
    with app a AppendOp next_id_upto [OF assms(2,3)] assms(2) show ?thesis
      by (auto simp: ids_upto_log [where cdc = cdc])
  qed
next
  case (SweepOp fault now)
  show ?thesis
  proof (cases fault)
    case None
    with SweepOp delete_expired_log [OF assms(1), of now] assms(2) show ?thesis
      by (auto simp: ids_upto_log [where cdc = cdc])
  next
    case (Some msg)
    with SweepOp assms show ?thesis
      by (auto simp: delete_expired_def with_fault_def intro: ids_upto_mono)
  qed
qed

lemma journal_runs_wf:
  assumes "journal_wf cdc j" "ids_upto n j" "n + length ops \<le> u64_max" "list_all (op_roundtrips cdc) ops"
  shows "journal_wf cdc (fold (journal_run cdc) ops j)"
  using assms
proof (induction ops arbitrary: j n)
  case Nil
  then show ?case by simp
next
  case (Cons op ops)
  then have "journal_wf cdc (journal_run cdc op j) \<and> ids_upto (Suc n) (journal_run cdc op j)"
    by (intro journal_run_step) auto
  with Cons.IH [of "journal_run cdc op j" "Suc n"] Cons.prems show ?case by simp
qed

section \<open>The abstract log\<close>

text \<open>The specification: a journal is a list of numbered entries.\<close>

definition spec_next :: "(u64 \<times> StoredEntry) list \<Rightarrow> u64" where
  "spec_next lg = (if lg = [] then 1 else fst (last lg) + 1)"

fun spec_run :: "codec \<Rightarrow> journal_op \<Rightarrow> (u64 \<times> StoredEntry) list \<Rightarrow> (u64 \<times> StoredEntry) list" where
  "spec_run cdc (AppendOp fault now e) lg =
     (if fault = None then lg @ [(spec_next lg, entry_stored cdc now e)] else lg)"
| "spec_run cdc (SweepOp fault now) lg =
     (if fault = None then List.filter (\<lambda>(i, st). \<not> due now st) lg else lg)"

definition visible_rows ::
  "codec \<Rightarrow> datetime \<Rightarrow> (StoredEntry \<Rightarrow> bool) \<Rightarrow> (u64 \<times> StoredEntry) list \<Rightarrow> JournalRow list" where
  "visible_rows cdc now P lg =
     List.filter (\<lambda>r. \<not> is_expired now r) (map (row_of cdc) (List.filter (\<lambda>(i, st). P st) lg))"

lemma spec_next_log: "spec_next (event_log cdc j) = next_event_id j"
proof (cases "j_events j")
  case Nil
  then show ?thesis by (simp add: spec_next_def next_event_id_def event_log_def)
next
  case (Cons x xs)
  then show ?thesis
    by (simp add: spec_next_def next_event_id_def event_log_def last_map split_beta)
qed

lemma journal_run_refines:
  assumes "journal_wf cdc j" "id_room j" "op_roundtrips cdc op"
  shows "event_log cdc (journal_run cdc op j) = spec_run cdc op (event_log cdc j)"
proof (cases op)
  case (AppendOp fault now e)
  obtain r j' where a: "journal_append cdc fault now e j = (r, j')" by force
  have rt: "entry_roundtrips cdc now e" using assms(3) AppendOp by simp
  from append_refines_log [OF assms(1,2) rt a] a show ?thesis
    by (cases r) (auto simp: AppendOp spec_next_log)
next
  case (SweepOp fault now)
  then show ?thesis
    using delete_expired_log [OF assms(1), of now]
    by (cases fault) (auto simp: delete_expired_def with_fault_def)
qed

lemma journal_runs_refine:
  assumes "journal_wf cdc j" "ids_upto n j" "n + length ops \<le> u64_max" "list_all (op_roundtrips cdc) ops"
  shows "event_log cdc (fold (journal_run cdc) ops j) = fold (spec_run cdc) ops (event_log cdc j)"
  using assms
proof (induction ops arbitrary: j n)
  case Nil
  then show ?case by simp
next
  case (Cons op ops)
  have s: "journal_wf cdc (journal_run cdc op j)" "ids_upto (Suc n) (journal_run cdc op j)"
    using journal_run_step [of cdc j n op] Cons.prems by simp_all
  have "event_log cdc (journal_run cdc op j) = spec_run cdc op (event_log cdc j)"
    using Cons.prems by (intro journal_run_refines ids_upto_room) auto
  with Cons.IH [OF s] Cons.prems show ?case by simp
qed

lemma query_by_run_scan:
  assumes "journal_wf cdc j"
  shows "query_by_run cdc None now r j =
    Inr (visible_rows cdc now (\<lambda>st. st_run_id_bytes st = Some r) (event_log cdc j))"
proof -
  have ix: "index_ok st_run_id_bytes (event_log cdc j) (j_by_run j)"
    using assms by (simp add: journal_wf_def)
  show ?thesis
    by (simp add: query_by_run_def with_fault_def index_rows [OF assms ix] visible_rows_def
        sort_key_id_if_sorted [OF sorted_rows [OF assms]])
qed

lemma query_by_session_scan:
  assumes "journal_wf cdc j"
  shows "query_by_session cdc None now s limit j =
    Inr (take limit (rev (visible_rows cdc now (\<lambda>st. st_session_id st = s) (event_log cdc j))))"
proof -
  let ?P = "\<lambda>(i, st). (Some \<circ> st_session_id) st = Some s"
  have ix: "index_ok (Some \<circ> st_session_id) (event_log cdc j) (j_by_session j)"
    using assms by (simp add: journal_wf_def)
  have ids: "rev (sort (mm_get (j_by_session j) s)) = rev (map fst (List.filter ?P (event_log cdc j)))"
    unfolding mm_get_scan [OF ix journal_wf_sorted [OF assms], of s, symmetric]
    by (simp add: mm_get_def sort_key_id_if_sorted)
  have sub: "set (rev (map fst (List.filter ?P (event_log cdc j)))) \<subseteq> fst ` set (j_events j)"
    using log_ids_filter_subset [of ?P cdc j] by simp
  show ?thesis
    unfolding query_by_session_def with_fault_def ids
      session_rows_scan [OF journal_wf_events [OF assms] sub]
      rev_map [symmetric] rev_filter [symmetric] log_filter_lookup [OF journal_wf_events [OF assms]]
    by (simp add: visible_rows_def)
qed

lemma best_event_last:
  assumes "events_ok cdc evs" "set is \<subseteq> fst ` set evs" "sorted_wrt (<) is"
    "case best of Some (i, _) \<Rightarrow> list_all (\<lambda>k. i < k) is | None \<Rightarrow> True"
  shows "best_event cdc evs is best =
    Inr (if is = [] then best
         else Some (last is, projr (cdc_decode cdc (the (map_of evs (last is))))))"
  using assms(2-4)
proof (induction "is" arbitrary: best)
  case Nil
  then show ?case by simp
next
  case (Cons i "is")
  then obtain bs where bs: "map_of evs i = Some bs"
    using map_of_eq_None_iff [of evs i] by (cases "map_of evs i") auto
  then obtain st where st: "cdc_decode cdc bs = Inr st"
    using assms(1) by (auto simp: events_ok_def dest!: map_of_SomeD bspec)
  have "\<not> (case best of Some (prev_id, _) \<Rightarrow> i \<le> prev_id | None \<Rightarrow> False)"
    using Cons.prems(3) by (auto split: option.splits)
  moreover have "best_event cdc evs is (Some (i, st)) =
      Inr (if is = [] then Some (i, st)
           else Some (last is, projr (cdc_decode cdc (the (map_of evs (last is))))))"
    using Cons.prems by (intro Cons.IH) (auto simp: list_all_iff)
  ultimately show ?case using bs st by simp
qed

lemma get_by_idempotency_key_scan:
  assumes "journal_wf cdc j"
  shows "get_by_idempotency_key cdc None now key j =
    (case rev (List.filter (\<lambda>(i, st). st_idempotency_key st = Some key) (event_log cdc j)) of
       [] \<Rightarrow> Inr None
     | ev # _ \<Rightarrow> Inr (if is_expired now (row_of cdc ev) then None else Some (row_of cdc ev)))"
proof -
  let ?P = "\<lambda>(i, st). st_idempotency_key st = Some key"
  let ?l = "List.filter ?P (event_log cdc j)"
  note ev = journal_wf_events [OF assms]
  have ix: "index_ok st_idempotency_key (event_log cdc j) (j_by_idempotency j)"
    using assms by (simp add: journal_wf_def)
  have "sorted_wrt (<) (map fst ?l)"
    using journal_wf_sorted [OF assms] unfolding sorted_wrt_map by (rule sorted_wrt_filter)
  with best_event_last [OF ev log_ids_filter_subset [of ?P cdc j], where best = None]
  have best: "best_event cdc (j_events j) (mm_get (j_by_idempotency j) key) None =
      Inr (if map fst ?l = [] then None
           else Some (last (map fst ?l), projr (cdc_decode cdc (the (map_of (j_events j) (last (map fst ?l)))))))"
    by (simp add: mm_get_scan [OF ix journal_wf_sorted [OF assms]])
  show ?thesis
  proof (cases "rev ?l")
    case Nil
    then show ?thesis
      by (simp add: get_by_idempotency_key_def with_fault_def best)
  next
    case (Cons e es)
    then have l: "?l = rev es @ [e]" by (metis rev_rev_ident rev.simps(2))
    obtain i st where e: "e = (i, st)" by force
    have "e \<in> set ?l" unfolding l by simp
    then have m: "(i, st) \<in> set (event_log cdc j)" by (simp add: e)
    then obtain bs where "(i, bs) \<in> set (j_events j)" "st = projr (cdc_decode cdc bs)"
      by (auto simp: event_log_def)
    moreover have "distinct (map fst (j_events j))"
      using ev sorted_fst_distinct by (auto simp: events_ok_def)
    ultimately have "projr (cdc_decode cdc (the (map_of (j_events j) i))) = st" by simp
    with l e readable_into_row [OF log_readable [OF assms m], of now i] show ?thesis
      by (simp add: get_by_idempotency_key_def with_fault_def best)
  qed
qed

section \<open>Reconciliation\<close>

definition run_started :: "StoredEntry list \<Rightarrow> uuid \<Rightarrow> bool" where
  "run_started sts r \<longleftrightarrow>
     (\<exists>st \<in> set sts. st_run_id_bytes st = Some r \<and> st_event_type st = ''workflow_started'')"

definition run_settled :: "StoredEntry list \<Rightarrow> uuid \<Rightarrow> bool" where
  "run_settled sts r \<longleftrightarrow>
     (\<exists>st \<in> set sts. st_run_id_bytes st = Some r \<and> st_event_type st \<in> terminal_events)"

lemma scan_terminal_set: "r \<in> set (fold scan_terminal sts acc) \<longleftrightarrow> r \<in> set acc \<or> run_settled sts r"
  by (induction sts arbitrary: acc)
     (auto simp: scan_terminal_def run_settled_def split: option.splits)

lemma scan_started_set:
  "r \<in> fst ` set (fold scan_started sts acc) \<longleftrightarrow> r \<in> fst ` set acc \<or> run_started sts r"
proof (induction sts arbitrary: acc)
  case Nil
  then show ?case by (simp add: run_started_def)
next
  case (Cons st sts)
  have "fst ` set (scan_started st acc) =
      fst ` set acc \<union> {r. st_run_id_bytes st = Some r \<and> st_event_type st = ''workflow_started''}"
  proof (cases "st_run_id_bytes st")
    case None
    then show ?thesis by (simp add: scan_started_def)
  next
    case (Some q)
    then show ?thesis
      by (cases "tbl_get acc q") (auto simp: scan_started_def tbl_get_None_iff tbl_get_def
          dest: map_of_SomeD intro: rev_image_eqI)
  qed
  then show ?case by (auto simp: Cons.IH run_started_def)
qed

lemma zombies_of_runs:
  "je_run_id ` set (zombies_of sts) = Some ` {r. run_started sts r \<and> \<not> run_settled sts r}"
proof -
  have flt: "fst ` set (List.filter (\<lambda>(r, _). r \<notin> T) xs) = {r \<in> fst ` set xs. r \<notin> T}"
    for xs :: "(uuid, string \<times> string) table" and T by force
  have "fst ` set (List.filter (\<lambda>(r, _). r \<notin> set (fold scan_terminal sts [])) (fold scan_started sts [])) =
      {r. run_started sts r \<and> \<not> run_settled sts r}"
    unfolding flt unfolding scan_started_set scan_terminal_set by simp
  moreover have "je_run_id ` set (zombies_of sts) = Some ` fst `
      set (List.filter (\<lambda>(r, _). r \<notin> set (fold scan_terminal sts [])) (fold scan_started sts []))"
    by (auto simp: zombies_of_def Let_def image_image zombie_entry_def case_prod_unfold)
  ultimately show ?thesis by simp
qed

lemma zombies_of_shape: "e \<in> set (zombies_of sts) \<Longrightarrow> \<exists>z. e = zombie_entry z"
  by (auto simp: zombies_of_def Let_def)

lemma length_scan_started: "length (fold scan_started sts acc) \<le> length acc + length sts"
proof (induction sts arbitrary: acc)
  case (Cons st sts)
  have "length (scan_started st acc) \<le> Suc (length acc)"
    by (simp add: scan_started_def split: option.split)
  with Cons.IH [of "scan_started st acc"] show ?case by simp
qed simp

lemma length_zombies_of: "length (zombies_of sts) \<le> length sts"
proof -
  have "length (zombies_of sts) \<le> length (fold scan_started sts [])"
    by (simp add: zombies_of_def Let_def)
  also have "\<dots> \<le> length sts" using length_scan_started [of sts "[]"] by simp
  finally show ?thesis .
qed

lemma append_all_log:
  assumes "journal_wf cdc j" "ids_upto n j" "n + length es \<le> u64_max"
    "\<And>k e. e \<in> set es \<Longrightarrow> entry_roundtrips cdc (clock k) e"
    "append_all cdc faults clock k es j = (Inr u, j')"
  shows "\<exists>new. journal_wf cdc j' \<and> event_log cdc j' = event_log cdc j @ new \<and>
    list_all2 (\<lambda>e x. \<exists>k. snd x = entry_stored cdc (clock k) e) es new"
  using assms
proof (induction es arbitrary: j n k)
  case Nil
  then show ?case by auto
next
  case (Cons e es)
  obtain r j1 where a: "journal_append cdc (faults k) (clock k) e j = (r, j1)" by force
  with Cons.prems(5) obtain i where r: "r = Inr i"
    by (cases r) auto
  have rt: "entry_roundtrips cdc (clock k) e" using Cons.prems(4) by simp
  have room: "id_room j" using Cons.prems(2,3) by (intro ids_upto_room) auto
  have s: "journal_wf cdc j1" "event_log cdc j1 = event_log cdc j @ [(i, entry_stored cdc (clock k) e)]"
    using append_refines_log [OF Cons.prems(1) room rt a] r by auto
  have up: "ids_upto (Suc n) j1"
    using journal_run_step [of cdc j n "AppendOp (faults k) (clock k) e"] Cons.prems(1-3) rt a by simp
  have rest: "append_all cdc faults clock (Suc k) es j1 = (Inr u, j')"
    using Cons.prems(5) a r by simp
  have "\<And>k e. e \<in> set es \<Longrightarrow> entry_roundtrips cdc (clock k) e" using Cons.prems(4) by simp
  from Cons.IH [OF s(1) up _ this rest] Cons.prems(3) obtain new where
    "journal_wf cdc j'" "event_log cdc j' = event_log cdc j1 @ new"
    "list_all2 (\<lambda>e x. \<exists>k. snd x = entry_stored cdc (clock k) e) es new" by auto
  then show ?case
    by (intro exI [of _ "(i, entry_stored cdc (clock k) e) # new"]) (auto simp: s(2))
qed

lemma decode_stored:
  assumes "events_ok cdc (j_events j)"
  shows "map_results (\<lambda>(i, bs). map_err JSerialization (cdc_decode cdc bs)) (j_events j) =
    Inr (map snd (event_log cdc j))"
proof -
  have "map_results (\<lambda>(i, bs). map_err JSerialization (cdc_decode cdc bs)) (j_events j) =
      Inr (map (\<lambda>ev. projr (cdc_decode cdc (snd ev))) (j_events j))"
    by (rule map_results_total) (use assms in \<open>auto simp: events_ok_def dest!: bspec\<close>)
  then show ?thesis by (simp add: event_log_def comp_def case_prod_unfold)
qed

lemma settled_append: "run_settled (xs @ ys) r \<longleftrightarrow> run_settled xs r \<or> run_settled ys r"
  by (auto simp: run_settled_def)

lemma started_append: "run_started (xs @ ys) r \<longleftrightarrow> run_started xs r \<or> run_started ys r"
  by (auto simp: run_started_def)

lemma zombie_stored:
  assumes "entry_roundtrips cdc now (zombie_entry z)"
  shows "st_run_id_bytes (entry_stored cdc now (zombie_entry z)) = je_run_id (zombie_entry z) \<and>
    st_event_type (entry_stored cdc now (zombie_entry z)) = ''workflow_failed''"
proof -
  have "je_event_type (zombie_entry z) = ''workflow_failed''"
    by (simp add: zombie_entry_def split: prod.split)
  with assms show ?thesis by (auto simp: entry_roundtrips_def entry_stored_def from_entry_def)
qed

lemma reconcile_new_entries:
  assumes rt: "\<And>k e. e \<in> set (zombies_of sts) \<Longrightarrow> entry_roundtrips cdc (clock k) e"
    and new: "list_all2 (\<lambda>e x. \<exists>k. snd x = entry_stored cdc (clock k) e) (zombies_of sts) new"
  shows "\<not> run_started (map snd new) r"
    and "run_started sts r \<Longrightarrow> \<not> run_settled sts r \<Longrightarrow> run_settled (map snd new) r"
proof -
  have at: "st_event_type (snd (new ! k)) = ''workflow_failed'' \<and>
      st_run_id_bytes (snd (new ! k)) = je_run_id (zombies_of sts ! k)" if "k < length new" for k
  proof -
    have k: "k < length (zombies_of sts)" using that new by (simp add: list_all2_conv_all_nth)
    then obtain t where t: "snd (new ! k) = entry_stored cdc (clock t) (zombies_of sts ! k)"
      using new by (auto simp: list_all2_conv_all_nth)
    have m: "zombies_of sts ! k \<in> set (zombies_of sts)" using k by simp
    then obtain z where z: "zombies_of sts ! k = zombie_entry z" using zombies_of_shape by blast
    from zombie_stored [of cdc "clock t" z] rt [OF m, of t] t z show ?thesis by simp
  qed
  have "st_event_type st = ''workflow_failed''" if "st \<in> set (map snd new)" for st
    using that at by (force simp: in_set_conv_nth)
  then show "\<not> run_started (map snd new) r" by (auto simp: run_started_def)
  assume "run_started sts r" "\<not> run_settled sts r"
  then have "Some r \<in> je_run_id ` set (zombies_of sts)" by (simp add: zombies_of_runs)
  then obtain k where k: "k < length (zombies_of sts)" "je_run_id (zombies_of sts ! k) = Some r"
    by (metis imageE in_set_conv_nth)
  then have "k < length new" using new by (simp add: list_all2_conv_all_nth)
  with at [of k] k show "run_settled (map snd new) r"
    unfolding run_settled_def terminal_events_def
    by (intro bexI [of _ "snd (new ! k)"]) auto
qed

lemma zombies_of_settled: "(\<And>r. run_started sts r \<Longrightarrow> run_settled sts r) \<Longrightarrow> zombies_of sts = []"
  using zombies_of_runs [of sts] by (metis (no_types, lifting) empty_Collect_eq image_is_empty set_empty)

section \<open>Properties\<close>



lemma fanout_deliver_primary [simp]: "fan_primary (fanout_deliver sapp k f) = fan_primary f"
  by (simp add: fanout_deliver_def split: prod.split)

lemma fanout_delivers_primary [simp]: "fan_primary (fold (fanout_deliver sapp) ks f) = fan_primary f"
  by (induction ks arbitrary: f) simp_all

text \<open>
  The fan-out store isolates its secondaries: an append returns what the primary
  returns and leaves the primary as the primary's own append does, and no later delivery to
  a secondary, in any order, with any failures, changes the primary.
\<close>

theorem fanout_isolates_secondaries:
  "fst (fanout_append papp a f) = fst (papp a (fan_primary f)) \<and>
   fan_primary (snd (fanout_append papp a f)) = snd (papp a (fan_primary f)) \<and>
   fan_primary (fold (fanout_deliver sapp) ks f) = fan_primary f"
  by (simp add: fanout_append_def split: prod.split sum.split)

text \<open>
  The sweep may free the largest id: the next append then hands out an id that an earlier
  entry had, so ids are unique among the stored entries only.
\<close>

lemma sweep_frees_last_id:
  assumes "journal_wf cdc j" "event_log cdc j = lg @ [(i, st)]" "due now st" "i \<noteq> 0"
  shows "next_event_id (snd (delete_expired cdc None now j)) \<le> i"
proof -
  let ?j = "snd (delete_expired cdc None now j)"
  have l: "event_log cdc ?j = List.filter (\<lambda>(i, st). \<not> due now st) lg"
    using delete_expired_log [OF assms(1), of now] assms(2,3) by simp
  have below: "fst x < i" if "x \<in> set lg" for x
  proof -
    have "sorted_wrt (<) (map fst lg @ [i])"
      using journal_wf_sorted [OF assms(1)] unfolding assms(2) by simp
    with that show ?thesis by (auto simp: sorted_wrt_append)
  qed
  show ?thesis
  proof (cases "event_log cdc ?j = []")
    case True
    with assms(4) spec_next_log [of cdc ?j] show ?thesis
      by (simp add: spec_next_def word_le_nat_alt) (metis Suc_leI unat_gt_0)
  next
    case False
    then have "last (event_log cdc ?j) \<in> set lg" using l by (metis filter_is_subset last_in_set subsetD)
    from below [OF this] have "fst (last (event_log cdc ?j)) + 1 \<le> i" by (rule inc_le)
    with False spec_next_log [of cdc ?j] show ?thesis by (simp add: spec_next_def)
  qed
qed

text \<open>\<open>recent\<close> cuts to its limit before it drops expired entries.\<close>

lemma recent_hides_behind_expired:
  assumes "journal_wf cdc j" "event_log cdc j = lg @ [(i, st)]" "is_expired now (row_of cdc (i, st))"
  shows "recent cdc None now 1 j = Inr []"
proof -
  obtain evs bs where ev: "j_events j = evs @ [(i, bs)]" "st = projr (cdc_decode cdc bs)"
    using assms(2) unfolding event_log_def by (auto simp: map_eq_append_conv)
  have "decode_row cdc now (i, bs) = Inr (row_of cdc (i, st))"
    using events_ok_decode [OF journal_wf_events [OF assms(1)], of "(i, bs)" now] ev by simp
  with assms(3) ev(1) show ?thesis by (simp add: recent_def with_fault_def)
qed

text \<open>A trace filter lets every row through whose payload has no textual \<open>trace_id\<close>.\<close>

lemma trace_filter_passes_untraced:
  assumes "Option.bind (json_get (jr_payload row) ''trace_id'') as_str = None"
  shows "JournalFilter_matches show_uuid now (f\<lparr> jf_trace_id := Some tid \<rparr>) row \<longleftrightarrow>
    JournalFilter_matches show_uuid now (f\<lparr> jf_trace_id := None \<rparr>) row"
  using assms by (simp add: JournalFilter_matches_def)

section \<open>Instances\<close>

text \<open>A codec for two stored entries, by the one that is a \<open>workflow_started\<close> event.\<close>

definition two_codec :: "StoredEntry \<Rightarrow> StoredEntry \<Rightarrow> codec" where
  "two_codec s f =
     \<lparr> cdc_json_to_string = (\<lambda>_. Inr ''{}''),
       cdc_json_from_str = (\<lambda>_. Inr (je_payload (zombie_entry (1, [], [])))),
       cdc_encode = (\<lambda>st. Inr (if st_event_type st = ''workflow_started'' then [0] else [1])),
       cdc_decode = (\<lambda>bs. Inr (if bs = [0] then s else f)),
       cdc_timestamp_micros = (\<lambda>t. Some (t * 1000)) \<rparr>"

definition demo_started :: JournalEntry where
  "demo_started = (zombie_entry (1, ''s'', ''n''))\<lparr> je_event_type := ''workflow_started'' \<rparr>"

definition demo_stored :: "string \<Rightarrow> StoredEntry" where
  "demo_stored et =
     \<lparr> st_run_id_bytes = Some 1, st_session_id = ''s'', st_namespace = ''n'', st_event_type = et,
       st_payload_json = ''{}'', st_created_at_micros = 3, st_valid_to_micros = None,
       st_idempotency_key = None \<rparr>"

definition demo_codec :: codec where
  "demo_codec = two_codec (demo_stored ''workflow_started'') (demo_stored ''workflow_failed'')"

definition demo_journal :: RedbJournal where
  "demo_journal = snd (journal_append demo_codec None 3000 demo_started RedbJournal_empty)"

lemmas demo_defs = demo_codec_def two_codec_def demo_stored_def demo_started_def zombie_entry_def
  entry_stored_def from_entry_def timestamp_micros_def

lemma demo_roundtrips:
  "entry_roundtrips demo_codec 3000 demo_started"
  "entry_roundtrips demo_codec 3000 (zombie_entry (1, ''s'', ''n''))"
  by (simp_all add: entry_roundtrips_def demo_defs)

lemma demo_events: "j_events demo_journal = [(1, [0])]"
  by (simp add: demo_journal_def journal_append_def RedbJournal_empty_def next_event_id_def demo_defs)

lemma demo_log: "event_log demo_codec demo_journal = [(1, demo_stored ''workflow_started'')]"
  by (simp add: event_log_def demo_events) (simp add: demo_codec_def two_codec_def)

lemma demo_wf: "journal_wf demo_codec demo_journal \<and> ids_upto 1 demo_journal"
proof -
  have "demo_journal = journal_run demo_codec (AppendOp None 3000 demo_started) RedbJournal_empty"
    by (simp add: demo_journal_def)
  moreover have "ids_upto 0 RedbJournal_empty" by (simp add: ids_upto_def RedbJournal_empty_def)
  ultimately show ?thesis
    using journal_run_step [OF journal_wf_empty, of 0 demo_codec "AppendOp None 3000 demo_started"]
    by (simp add: demo_roundtrips u64_max_def)
qed

lemma demo_zombies:
  "zombies_of [demo_stored ''workflow_started''] = [zombie_entry (1, ''s'', ''n'')]"
  by (simp add: zombies_of_def scan_terminal_def scan_started_def demo_stored_def terminal_events_def)



end
