(* ===== verification/Process_Table.thy ===== *)
theory Process_Table
  imports Keyed_Store Scope Step_Exec
begin

text \<open>
  The process table: \<^verbatim>\<open>konf-runtime/src/process.rs\<close> with the status types of
  \<^verbatim>\<open>konflux-substrate/src/process.rs\<close>, the views of \<^verbatim>\<open>konf-runtime/src/monitor.rs\<close>,
  \<open>ExecutionScope::validate_start\<close>, and the part of \<open>RuntimeHooks::on_event\<close>
  (\<^verbatim>\<open>konf-runtime/src/hooks.rs\<close>) that updates the table.

  The mutexes and atomics inside a run are its fields; the cancellation token is the flag
  \<open>run_cancelled\<close>. \<^verbatim>\<open>Utc::now() - max_age\<close> of \<open>gc\<close> is the argument \<open>cutoff\<close>.
\<close>

section \<open>Runs\<close>

datatype RunStatus =
    StPending
  | StRunning
  | StCompleted u64 json
  | StFailed string u64
  | StCancelled string u64

fun is_terminal :: "RunStatus \<Rightarrow> bool" where
  "is_terminal StPending = False"
| "is_terminal StRunning = False"
| "is_terminal (StCompleted d out) = True"
| "is_terminal (StFailed e d) = True"
| "is_terminal (StCancelled r d) = True"

datatype NodeStatus =
    NodeRunning | NodeRetrying u32 u32 | NodeDone u64 | NodeErr string

record ActiveNode =
  an_node_id :: string
  an_tool_name :: string
  an_started_at :: datetime
  an_status :: NodeStatus

record WorkflowRun =
  run_id :: RunId
  run_parent_id :: "RunId option"
  run_workflow_id :: string
  run_namespace :: string
  run_actor :: Actor
  run_capabilities :: "string list"
  run_metadata :: "json smap"
  run_started_at :: datetime
  run_status :: RunStatus
  run_completed_at :: "datetime option"
  run_active_nodes :: "ActiveNode list"
  run_steps_executed :: nat
  run_cancelled :: bool

record RunSummary =
  sum_id :: RunId
  sum_parent_id :: "RunId option"
  sum_workflow_id :: string
  sum_namespace :: string
  sum_status :: RunStatus
  sum_actor_id :: string
  sum_actor_role :: ActorRole
  sum_started_at :: datetime
  sum_active_node_count :: nat
  sum_steps_executed :: nat

definition to_summary :: "WorkflowRun \<Rightarrow> RunSummary" where
  "to_summary run =
     \<lparr> sum_id = run_id run, sum_parent_id = run_parent_id run,
       sum_workflow_id = run_workflow_id run, sum_namespace = run_namespace run,
       sum_status = run_status run, sum_actor_id = actor_id (run_actor run),
       sum_actor_role = actor_role (run_actor run), sum_started_at = run_started_at run,
       sum_active_node_count = length (run_active_nodes run),
       sum_steps_executed = run_steps_executed run \<rparr>"

section \<open>The table\<close>

type_synonym ProcessTable = "(RunId, WorkflowRun) table"

definition ProcessTable_new :: ProcessTable where
  "ProcessTable_new = []"

definition pt_insert :: "WorkflowRun \<Rightarrow> ProcessTable \<Rightarrow> ProcessTable" where
  "pt_insert run t = tbl_put (run_id run) run t"

definition pt_get :: "ProcessTable \<Rightarrow> RunId \<Rightarrow> (WorkflowRun \<Rightarrow> 'r) \<Rightarrow> 'r option" where
  "pt_get t i f = map_option f (tbl_get t i)"

definition pt_update :: "RunId \<Rightarrow> (WorkflowRun \<Rightarrow> WorkflowRun) \<Rightarrow> ProcessTable \<Rightarrow> bool \<times> ProcessTable" where
  "pt_update i f t = tbl_modify i f t"

definition pt_remove :: "RunId \<Rightarrow> ProcessTable \<Rightarrow> bool \<times> ProcessTable" where
  "pt_remove i t = (tbl_get t i \<noteq> None, tbl_del i t)"

definition pt_list :: "string option \<Rightarrow> ProcessTable \<Rightarrow> RunSummary list" where
  "pt_list namespace_prefix t =
     map (\<lambda>(i, run). to_summary run)
       (List.filter (\<lambda>(i, run). case namespace_prefix of
            Some p \<Rightarrow> starts_with (run_namespace run) p | None \<Rightarrow> True) t)"

definition children_of :: "RunId \<Rightarrow> ProcessTable \<Rightarrow> RunSummary list" where
  "children_of parent_id t =
     map (\<lambda>(i, run). to_summary run)
       (List.filter (\<lambda>(i, run). run_parent_id run = Some parent_id) t)"

definition active_count :: "ProcessTable \<Rightarrow> nat" where
  "active_count t = length (List.filter (\<lambda>(i, run). run_status run = StRunning) t)"

definition active_count_in_namespace :: "string \<Rightarrow> ProcessTable \<Rightarrow> nat" where
  "active_count_in_namespace namespace_prefix t =
     length (List.filter (\<lambda>(i, run).
       run_status run = StRunning \<and> starts_with (run_namespace run) namespace_prefix) t)"

definition gc_due :: "datetime \<Rightarrow> WorkflowRun \<Rightarrow> bool" where
  "gc_due cutoff run \<longleftrightarrow>
     is_terminal (run_status run) \<and>
     (case run_completed_at run of Some t \<Rightarrow> t < cutoff | None \<Rightarrow> False)"

definition gc :: "datetime \<Rightarrow> ProcessTable \<Rightarrow> ProcessTable" where
  "gc cutoff t = fold tbl_del (map fst (List.filter (\<lambda>(i, run). gc_due cutoff run) t)) t"

definition validate_start :: "ExecutionScope \<Rightarrow> ProcessTable \<Rightarrow> RuntimeError + unit" where
  "validate_start scope t =
     (if active_count_in_namespace (scope_namespace scope) t
           \<ge> max_active_runs_per_namespace (scope_limits scope)
      then Inl (ResourceLimit ''max_active_runs_per_namespace''
             (max_active_runs_per_namespace (scope_limits scope)))
      else if scope_depth scope \<ge> max_child_depth (scope_limits scope)
      then Inl (ResourceLimit ''max_child_depth'' (max_child_depth (scope_limits scope)))
      else Inr ())"

section \<open>Executor events\<close>

fun mark_retrying :: "string \<Rightarrow> u32 \<Rightarrow> ActiveNode list \<Rightarrow> ActiveNode list" where
  "mark_retrying node_id attempt [] = []"
| "mark_retrying node_id attempt (n # ns) =
     (if an_node_id n = node_id then n\<lparr> an_status := NodeRetrying attempt 0 \<rparr> # ns
      else n # mark_retrying node_id attempt ns)"

text \<open>The update of the run's entry that each executor event makes.\<close>

fun event_update :: "datetime \<Rightarrow> ExecutorEvent \<Rightarrow> WorkflowRun \<Rightarrow> WorkflowRun" where
  "event_update now (NodeStarted node_id tool) run =
     run\<lparr> run_active_nodes := run_active_nodes run @
        [\<lparr> an_node_id = node_id, an_tool_name = tool, an_started_at = now, an_status = NodeRunning \<rparr>] \<rparr>"
| "event_update now (NodeCompleted node_id tool duration_ms out) run =
     run\<lparr> run_active_nodes := List.filter (\<lambda>n. an_node_id n \<noteq> node_id) (run_active_nodes run),
          run_steps_executed := run_steps_executed run + 1 \<rparr>"
| "event_update now (NodeFailedEvent node_id tool err) run =
     run\<lparr> run_active_nodes := List.filter (\<lambda>n. an_node_id n \<noteq> node_id) (run_active_nodes run) \<rparr>"
| "event_update now (ToolRetry node_id tool attempt err) run =
     run\<lparr> run_active_nodes := mark_retrying node_id attempt (run_active_nodes run) \<rparr>"

definition table_on_event :: "RunId \<Rightarrow> datetime \<Rightarrow> ExecutorEvent \<Rightarrow> ProcessTable \<Rightarrow> ProcessTable" where
  "table_on_event rid now ev t = snd (pt_update rid (event_update now ev) t)"

section \<open>Lemmas\<close>

definition pt_ok :: "ProcessTable \<Rightarrow> bool" where
  "pt_ok t \<longleftrightarrow> tbl_ok t \<and> (\<forall>(i, run) \<in> set t. run_id run = i)"

lemma pt_ok_key: "pt_ok t \<Longrightarrow> tbl_get t i = Some run \<Longrightarrow> run_id run = i"
  by (auto simp: pt_ok_def tbl_get_iff)

lemma pt_okI:
  assumes "tbl_ok t" "\<And>i run. tbl_get t i = Some run \<Longrightarrow> run_id run = i"
  shows "pt_ok t"
  using assms by (auto simp: pt_ok_def tbl_get_iff)

lemma pt_ok_new [simp]: "pt_ok ProcessTable_new"
  by (simp add: pt_ok_def ProcessTable_new_def)

lemma pt_ok_insert:
  assumes "pt_ok t"
  shows "pt_ok (pt_insert run t)"
proof (rule pt_okI)
  show "tbl_ok (pt_insert run t)" using assms by (simp add: pt_insert_def pt_ok_def)
  fix i r
  assume "tbl_get (pt_insert run t) i = Some r"
  then show "run_id r = i"
    using pt_ok_key [OF assms] by (auto simp: pt_insert_def tbl.lookup_put split: if_splits)
qed

lemma pt_ok_update:
  assumes "pt_ok t" "\<And>run. run_id (f run) = run_id run"
  shows "pt_ok (snd (pt_update i f t))"
proof (rule pt_okI)
  show "tbl_ok (snd (pt_update i f t))" using assms(1) by (simp add: pt_update_def pt_ok_def)
  fix k run
  assume "tbl_get (snd (pt_update i f t)) k = Some run"
  then show "run_id run = k"
    using assms pt_ok_key [OF assms(1)] by (auto simp: pt_update_def tbl_get_modify split: if_splits)
qed

lemma gc_lookup:
  assumes "tbl_ok t"
  shows "tbl_get (gc cutoff t) i =
    (case tbl_get t i of Some run \<Rightarrow> if gc_due cutoff run then None else Some run | None \<Rightarrow> None)"
proof -
  have "i \<in> set (map fst (List.filter (\<lambda>(i, run). gc_due cutoff run) t)) \<longleftrightarrow>
      (\<exists>run. tbl_get t i = Some run \<and> gc_due cutoff run)"
    using assms by (force simp: tbl_get_iff)
  then show ?thesis
    by (auto simp: gc_def tbl.lookup_dels split: option.splits)
qed

lemma pt_ok_gc: "pt_ok t \<Longrightarrow> pt_ok (gc cutoff t)"
proof (rule pt_okI)
  assume ok: "pt_ok t"
  then show "tbl_ok (gc cutoff t)" by (simp add: gc_def pt_ok_def tbl_ok_dels)
  fix i run
  assume "tbl_get (gc cutoff t) i = Some run"
  then show "run_id run = i"
    using ok pt_ok_key [OF ok] gc_lookup [of t cutoff i]
    by (auto simp: pt_ok_def split: option.splits if_splits)
qed

lemma event_update_keeps [simp]:
  "run_id (event_update now ev run) = run_id run"
  "run_status (event_update now ev run) = run_status run"
  "run_namespace (event_update now ev run) = run_namespace run"
  "run_parent_id (event_update now ev run) = run_parent_id run"
  "run_cancelled (event_update now ev run) = run_cancelled run"
  "run_completed_at (event_update now ev run) = run_completed_at run"
  by (cases ev; simp)+

text \<open>Counting through the table's writes.\<close>

lemma active_count_in_namespace_count:
  "active_count_in_namespace p t =
     tbl_count (\<lambda>run. run_status run = StRunning \<and> starts_with (run_namespace run) p) t"
  by (simp add: active_count_in_namespace_def tbl_count_def)

lemma insert_running_count:
  assumes "tbl_get t (run_id run) = None" "run_status run = StRunning" "run_namespace run = ns"
  shows "active_count_in_namespace ns (pt_insert run t) = Suc (active_count_in_namespace ns t)"
  using assms by (simp add: active_count_in_namespace_count pt_insert_def tbl_count_put_new starts_with_def)

end
