(* ===== verification/Event_Bus.thy ===== *)
theory Event_Bus
  imports Process_Table
begin

text \<open>
  The runtime event bus (\<^verbatim>\<open>konf-runtime/src/event_bus.rs\<close>). The broadcast channel is the
  tokio library; what the runtime controls is the sequence of events it emits, which is the
  list the runtime's operations extend.
\<close>

type_synonym JobId = uuid

datatype RunEvent =
    RunStarted RunId string string "RunId option" datetime
  | NodeStart RunId string string datetime
  | NodeEnd RunId string NodeStatus datetime
  | TextDeltaEvent RunId string string
  | RunCompleted RunId u64
  | RunFailed RunId u64 string
  | RunCancelled RunId string
  | ToolInvoked string string datetime bool
  | ScheduleFired JobId string string datetime
  | ScheduleFailed JobId string string
  | IntentReplayed string string u32
  | JournalAppended u64 string string RunId

fun event_kind :: "RunEvent \<Rightarrow> string" where
  "event_kind (RunStarted r w n p a) = ''run_started''"
| "event_kind (NodeStart r n t a) = ''node_start''"
| "event_kind (NodeEnd r n s a) = ''node_end''"
| "event_kind (TextDeltaEvent r n d) = ''text_delta''"
| "event_kind (RunCompleted r d) = ''run_completed''"
| "event_kind (RunFailed r d e) = ''run_failed''"
| "event_kind (RunCancelled r e) = ''run_cancelled''"
| "event_kind (ToolInvoked t n a s) = ''tool_invoked''"
| "event_kind (ScheduleFired j w n a) = ''schedule_fired''"
| "event_kind (ScheduleFailed j w r) = ''schedule_failed''"
| "event_kind (IntentReplayed r w c) = ''intent_replayed''"
| "event_kind (JournalAppended s e n r) = ''journal_appended''"

fun event_namespace :: "RunEvent \<Rightarrow> string" where
  "event_namespace (RunStarted r w n p a) = n"
| "event_namespace (ToolInvoked t n a s) = n"
| "event_namespace (ScheduleFired j w n a) = n"
| "event_namespace (JournalAppended s e n r) = n"
| "event_namespace _ = []"

definition emit :: "RunEvent \<Rightarrow> RunEvent list \<Rightarrow> RunEvent list" where
  "emit ev bus = bus @ [ev]"

text \<open>The node events an executor event becomes; a retry emits none.\<close>

fun bus_of_event :: "RunId \<Rightarrow> datetime \<Rightarrow> ExecutorEvent \<Rightarrow> RunEvent list" where
  "bus_of_event rid now (NodeStarted node_id tool) = [NodeStart rid node_id tool now]"
| "bus_of_event rid now (NodeCompleted node_id tool duration_ms out) =
     [NodeEnd rid node_id (NodeDone duration_ms) now]"
| "bus_of_event rid now (NodeFailedEvent node_id tool err) = [NodeEnd rid node_id (NodeErr err) now]"
| "bus_of_event rid now (ToolRetry node_id tool attempt err) = []"

end
