(* ===== verification/Dispatcher.thy ===== *)
theory Dispatcher
  imports Engine Interaction Journal_Store Event_Bus
begin

text \<open>
  Single-tool dispatch, \<^verbatim>\<open>konf-runtime/src/dispatcher.rs\<close>, with the guard entries and the
  wrapping that it shares with \<open>Runtime::build_scoped_engine\<close>
  (\<^verbatim>\<open>konf-runtime/src/runtime.rs\<close>).

  The surroundings of a dispatch are the record \<open>DispatchEnv\<close>: the readings of the clock, the
  fresh UUIDs, the state projection of the tool, the textual forms, the journal's operations
  and the raw tools.
\<close>

section \<open>Wrapping\<close>

record ToolGuardEntry =
  tg_rules :: "Rule list"
  tg_default_action :: DefaultAction
  tg_alias :: "string option"

type_synonym tool_guards = "ToolGuardEntry smap"

definition wrap_bindings :: "json smap \<Rightarrow> Tool \<Rightarrow> Tool" where
  "wrap_bindings bindings tool = (if bindings = [] then tool else VirtualizedTool tool bindings)"

definition wrap_guard :: "tool_guards \<Rightarrow> string \<Rightarrow> Tool \<Rightarrow> Tool" where
  "wrap_guard guards tool_name tool =
     (case obj_get guards tool_name of
        Some guard_entry \<Rightarrow>
          if tg_rules guard_entry = [] then tool
          else GuardedTool tool (tg_rules guard_entry) (tg_default_action guard_entry)
      | None \<Rightarrow> tool)"

definition wrap_tool :: "tool_guards \<Rightarrow> string \<Rightarrow> json smap \<Rightarrow> Tool \<Rightarrow> Tool" where
  "wrap_tool guards tool_name bindings tool = wrap_guard guards tool_name (wrap_bindings bindings tool)"

section \<open>Dispatch\<close>

record ('w, 'j) DispatchEnv =
  de_raw :: "'w raw_tool"
  de_now :: datetime
  de_started_at :: datetime
  de_ended_at :: datetime
  de_envelope_id :: uuid
  de_interaction_id :: uuid
  de_projection :: "Tool \<Rightarrow> 'w \<Rightarrow> digest option"
  de_show_uuid :: "uuid \<Rightarrow> string"
  de_show_time :: "datetime \<Rightarrow> string"
  de_append :: "JournalEntry \<Rightarrow> 'j \<Rightarrow> (JournalError + u64) \<times> 'j"
  de_get_by_idempotency_key :: "string \<Rightarrow> 'j \<Rightarrow> JournalError + JournalRow option"

record 'j Dispatcher =
  dp_guards :: tool_guards
  dp_journal :: "'j option"
  dp_events :: "RunEvent list"

definition scoped_idempotency_key :: "string \<Rightarrow> ExecutionContext \<Rightarrow> string option" where
  "scoped_idempotency_key tool_name ctx =
     map_option (\<lambda>k. tool_name @ '':'' @ k) (ctx_idempotency_key ctx)"

text \<open>The cached answer: only a lookup that succeeds with a row counts.\<close>

definition cached_result ::
  "('w, 'j) DispatchEnv \<Rightarrow> string \<Rightarrow> ExecutionContext \<Rightarrow> 'j Dispatcher \<Rightarrow> json option" where
  "cached_result de tool_name ctx dp =
     (case (scoped_idempotency_key tool_name ctx, dp_journal dp) of
        (Some key, Some journal) \<Rightarrow>
          (case de_get_by_idempotency_key de key journal of
             Inr (Some row) \<Rightarrow> Some (jr_payload row)
           | _ \<Rightarrow> None)
      | _ \<Rightarrow> None)"

definition dispatch_envelope ::
  "('w, 'j) DispatchEnv \<Rightarrow> string \<Rightarrow> json \<Rightarrow> ExecutionScope \<Rightarrow> ExecutionContext \<Rightarrow> json Envelope" where
  "dispatch_envelope de tool_name input scope ctx =
     (let env = for_tool_dispatch (de_envelope_id de) (de_now de) tool_name input
                  (capability_patterns scope) (ctx_trace_id ctx) (scope_namespace scope)
                  (actor_id (scope_actor scope)) (ctx_session_id ctx)
      in env\<lparr> env_deadline := ctx_deadline ctx,
              env_idempotency_key := ctx_idempotency_key ctx,
              env_metadata :=
                obj_insert ''depth'' (JNumber (PosInt (of_nat (scope_depth scope))))
                  (obj_insert ''session_id'' (JString (ctx_session_id ctx))
                    (obj_insert ''actor_role'' (JString (actor_role_str (actor_role (scope_actor scope))))
                      (env_metadata env))) \<rparr>)"

definition duration_ms_between :: "datetime \<Rightarrow> datetime \<Rightarrow> u64" where
  "duration_ms_between s e = of_int (max 0 ((e - s) div 1000000))"

definition dispatch_interaction ::
  "('w, 'j) DispatchEnv \<Rightarrow> string \<Rightarrow> bool \<Rightarrow> ExecutionScope \<Rightarrow> ExecutionContext \<Rightarrow> json Envelope \<Rightarrow>
   digest option \<Rightarrow> digest option \<Rightarrow> ToolError + json Envelope \<Rightarrow> Interaction" where
  "dispatch_interaction de tool_name namespace_injected scope ctx env before after result =
     \<lparr> in_id = de_interaction_id de,
       in_parent_id = ctx_parent_interaction_id ctx,
       in_trace_id = ctx_trace_id ctx,
       in_run_id = None,
       in_node_id = None,
       in_actor = scope_actor scope,
       in_namespace = scope_namespace scope,
       in_target = ''tool:'' @ tool_name,
       in_kind = ToolDispatch,
       in_attributes = JObject [
         (''duration_ms'', JNumber (PosInt (duration_ms_between (de_started_at de) (de_ended_at de)))),
         (''tool_name'', JString tool_name)],
       in_edge_rules_fired = (''cap_check:'' @ tool_name) #
         (if namespace_injected then [''ns_inject:'' @ scope_namespace scope] else []),
       in_status = (case result of Inr _ \<Rightarrow> StatusOk | Inl e \<Rightarrow> StatusFailed (show_ToolError e)),
       in_summary = None,
       in_timestamp = de_started_at de,
       in_step_index = env_step_index env,
       in_stream_id = env_stream_id env,
       in_state_before_hash = before,
       in_state_after_hash = after,
       in_references = [],
       in_in_reply_to = None \<rparr>"

definition dispatch_entry ::
  "('w, 'j) DispatchEnv \<Rightarrow> string \<Rightarrow> ExecutionScope \<Rightarrow> ExecutionContext \<Rightarrow> Interaction \<Rightarrow> JournalEntry" where
  "dispatch_entry de tool_name scope ctx x =
     \<lparr> je_run_id = None, je_session_id = ctx_session_id ctx, je_namespace = scope_namespace scope,
       je_event_type = ''interaction'',
       je_payload = Interaction_to_json (de_show_uuid de) (de_show_time de) x,
       je_valid_to = None, je_idempotency_key = scoped_idempotency_key tool_name ctx \<rparr>"

text \<open>The record of a dispatch: the journal entry and, when it was written, its event.\<close>

definition record_dispatch ::
  "('w, 'j) DispatchEnv \<Rightarrow> ExecutionScope \<Rightarrow> JournalEntry \<Rightarrow> 'j Dispatcher \<Rightarrow> 'j Dispatcher" where
  "record_dispatch de scope e dp =
     (case dp_journal dp of
        None \<Rightarrow> dp
      | Some journal \<Rightarrow>
          (case de_append de e journal of
             (Inr sq, journal') \<Rightarrow>
               dp\<lparr> dp_journal := Some journal',
                   dp_events := emit (JournalAppended sq ''interaction'' (scope_namespace scope) 0)
                     (dp_events dp) \<rparr>
           | (Inl _, journal') \<Rightarrow> dp\<lparr> dp_journal := Some journal' \<rparr>))"

definition dispatch_tool ::
  "('w, 'j) DispatchEnv \<Rightarrow> string \<Rightarrow> json \<Rightarrow> ExecutionScope \<Rightarrow> ExecutionContext \<Rightarrow> ToolRegistry \<Rightarrow>
   'j Dispatcher \<Rightarrow> 'w \<Rightarrow> (RuntimeError + json) \<times> 'j Dispatcher \<times> 'w" where
  "dispatch_tool de tool_name input scope ctx registry dp w =
     (case check_tool scope tool_name of
        Inl e \<Rightarrow> (Inl e, dp, w)
      | Inr bindings \<Rightarrow>
     (case registry_get registry tool_name of
        None \<Rightarrow> (Inl (RCapabilityDenied (''tool '' @ quoted tool_name @ '' not found in engine registry'')), dp, w)
      | Some raw_tool \<Rightarrow>
     (let wrapped = wrap_tool (dp_guards dp) tool_name bindings raw_tool in
      if (case ctx_deadline ctx of Some d \<Rightarrow> de_now de > d | None \<Rightarrow> False)
      then (Inl (DeadlineExceeded tool_name), dp, w)
      else
     (case cached_result de tool_name ctx dp of
        Some payload \<Rightarrow> (Inr payload, dp, w)
      | None \<Rightarrow>
     (let env = dispatch_envelope de tool_name input scope ctx;
          before = de_projection de wrapped w in
      case invoke (de_raw de) wrapped env w of
        (result, w') \<Rightarrow>
     (let after = de_projection de wrapped w';
          dp1 = dp\<lparr> dp_events := emit (ToolInvoked tool_name (scope_namespace scope) (de_ended_at de)
                     (is_ok result)) (dp_events dp) \<rparr>;
          x = dispatch_interaction de tool_name (obj_get bindings ''namespace'' \<noteq> None) scope ctx env
                before after result
      in (map_err (\<lambda>e. RTool tool_name (show_ToolError e)) (map_ok env_payload result),
          record_dispatch de scope (dispatch_entry de tool_name scope ctx x) dp1, w')))))))"

section \<open>Lemmas\<close>

lemma wrap_tool_info [simp]: "info (wrap_tool guards name b t) = info t"
  by (simp add: wrap_tool_def wrap_guard_def wrap_bindings_def split: option.split)

text \<open>A wrapped tool checks the caller's payload, then injects, then calls the inner tool.\<close>

definition guard_rules :: "tool_guards \<Rightarrow> string \<Rightarrow> (Rule list \<times> DefaultAction) option" where
  "guard_rules guards name =
     (case obj_get guards name of
        Some g \<Rightarrow> if tg_rules g = [] then None else Some (tg_rules g, tg_default_action g)
      | None \<Rightarrow> None)"

definition guard_verdict :: "tool_guards \<Rightarrow> string \<Rightarrow> string \<Rightarrow> json \<Rightarrow> ToolError + unit" where
  "guard_verdict guards name tool_name payload =
     (case guard_rules guards name of
        Some (rules, d) \<Rightarrow> evaluate_rules tool_name d rules payload
      | None \<Rightarrow> Inr ())"

lemma invoke_wrap_bindings:
  "invoke raw (wrap_bindings b t) env w =
     (case inject_bindings b env of Inl e \<Rightarrow> (Inl e, w) | Inr env' \<Rightarrow> invoke raw t env' w)"
  by (simp add: wrap_bindings_def inject_bindings_def)

lemma info_wrap_bindings [simp]: "info (wrap_bindings b t) = info t"
  by (simp add: wrap_bindings_def)

lemma invoke_wrap_tool:
  "invoke raw (wrap_tool guards name b t) env w =
     (case guard_verdict guards name (info_name (info t)) (env_payload env) of
        Inl e \<Rightarrow> (Inl e, w)
      | Inr _ \<Rightarrow> (case inject_bindings b env of
          Inl e \<Rightarrow> (Inl e, w) | Inr env' \<Rightarrow> invoke raw t env' w))"
  by (auto simp: wrap_tool_def wrap_guard_def guard_verdict_def guard_rules_def invoke_wrap_bindings
      split: option.split sum.split)

lemma record_dispatch_guards [simp]: "dp_guards (record_dispatch de scope e dp) = dp_guards dp"
  by (simp add: record_dispatch_def split: option.split prod.split sum.split)

lemma metadata_lookup:
  "obj_get (env_metadata (dispatch_envelope de name input scope ctx)) k =
     (if k = ''depth'' then Some (JNumber (PosInt (of_nat (scope_depth scope))))
      else if k = ''session_id'' then Some (JString (ctx_session_id ctx))
      else if k = ''actor_role'' then Some (JString (actor_role_str (actor_role (scope_actor scope))))
      else None)"
  by (simp add: dispatch_envelope_def Let_def obj_get_insert for_tool_dispatch_def obj_get_def)

lemma inject_bindings_payload:
  "inject_bindings b env = Inr env' \<Longrightarrow> env' = env\<lparr> env_payload := env_payload env' \<rparr>"
  by (auto simp: inject_bindings_def split: if_splits json.splits)

lemma dispatch_payload [simp]: "env_payload (dispatch_envelope de name input scope ctx) = input"
  by (simp add: dispatch_envelope_def Let_def for_tool_dispatch_def)

lemma dispatch_world:
  "snd (snd (dispatch_tool de name input scope ctx reg dp w)) =
     (case check_tool scope name of
        Inl e \<Rightarrow> w
      | Inr b \<Rightarrow>
          (case registry_get reg name of
             None \<Rightarrow> w
           | Some t \<Rightarrow>
               if (case ctx_deadline ctx of Some d \<Rightarrow> de_now de > d | None \<Rightarrow> False) \<or>
                  cached_result de name ctx dp \<noteq> None then w
               else snd (invoke (de_raw de) (wrap_tool (dp_guards dp) name b t)
                      (dispatch_envelope de name input scope ctx) w)))"
  by (simp add: dispatch_tool_def Let_def split: sum.split option.split prod.split)

section \<open>Properties\<close>

text \<open>
  C4. Dispatch enforces the scope: if the world changed, then the scope grants the tool, the
  registry has it, the deadline has not passed, no cached answer was used, the guard rules
  accept the caller's payload as it was given, the bindings of the scope were injected after
  that, and the effect is that of the raw tool on the envelope with the injected payload,
  which carries exactly the scope's capability patterns and namespace.
\<close>

theorem dispatch_enforces_scope:
  assumes "dispatch_tool de name input scope ctx reg dp w = (r, dp', w')" "w' \<noteq> w"
  shows "\<exists>b t p. check_tool scope name = Inr b \<and> registry_get reg name = Some t \<and>
    (case ctx_deadline ctx of Some d \<Rightarrow> de_now de \<le> d | None \<Rightarrow> True) \<and>
    cached_result de name ctx dp = None \<and>
    guard_verdict (dp_guards dp) name (info_name (info t)) input = Inr () \<and>
    (let env = dispatch_envelope de name input scope ctx; env' = env\<lparr> env_payload := p \<rparr> in
     inject_bindings b env = Inr env' \<and> w' = snd (invoke (de_raw de) t env' w) \<and>
     env_capabilities env' = CapSet_from_patterns (capability_patterns scope) \<and>
     env_namespace env' = scope_namespace scope)"
proof -
  let ?env = "dispatch_envelope de name input scope ctx"
  have w': "w' = snd (snd (dispatch_tool de name input scope ctx reg dp w))" by (simp add: assms(1))
  then obtain b t where b: "check_tool scope name = Inr b" and t: "registry_get reg name = Some t"
    and ok: "\<not> (case ctx_deadline ctx of Some d \<Rightarrow> de_now de > d | None \<Rightarrow> False)"
      "cached_result de name ctx dp = None"
    and inv: "w' = snd (invoke (de_raw de) (wrap_tool (dp_guards dp) name b t) ?env w)"
    using assms(2) unfolding dispatch_world by (auto split: sum.splits option.splits if_splits)
  obtain u env' where v: "guard_verdict (dp_guards dp) name (info_name (info t)) input = Inr u"
    and e: "inject_bindings b ?env = Inr env'" and w2: "w' = snd (invoke (de_raw de) t env' w)"
    using inv assms(2) unfolding invoke_wrap_tool by (auto split: sum.splits)
  have env': "env' = ?env\<lparr> env_payload := env_payload env' \<rparr>" by (rule inject_bindings_payload [OF e])
  have caps: "env_capabilities ?env = CapSet_from_patterns (capability_patterns scope)"
    "env_namespace ?env = scope_namespace scope"
    by (simp_all add: dispatch_envelope_def Let_def for_tool_dispatch_def)
  from b t ok v e w2 env' caps show ?thesis
    by (intro exI [of _ b] exI [of _ t] exI [of _ "env_payload env'"])
       (auto simp: Let_def split: option.splits)
qed


definition demo_env :: "(nat, unit) DispatchEnv" where
  "demo_env =
     \<lparr> de_raw = echo_raw, de_now = 0, de_started_at = 0, de_ended_at = 0, de_envelope_id = 1,
       de_interaction_id = 2, de_projection = (\<lambda>_ _. None), de_show_uuid = (\<lambda>_. []),
       de_show_time = (\<lambda>_. []), de_append = (\<lambda>e j. (Inr 1, j)),
       de_get_by_idempotency_key = (\<lambda>k j. Inr None) \<rparr>"

definition demo_dispatcher :: "unit Dispatcher" where
  "demo_dispatcher = \<lparr> dp_guards = [], dp_journal = None, dp_events = [] \<rparr>"


theorem dispatch_enforces_scope_witness:
  "\<exists>b t. check_tool (dev_scope ''konf'') ''t'' = Inr b \<and>
     registry_get (register (RawTool (sample_info ''t'')) []) ''t'' = Some t \<and>
     snd (snd (dispatch_tool demo_env ''t'' (JObject []) (dev_scope ''konf'') (new_root 3 ''s'')
       (register (RawTool (sample_info ''t'')) []) demo_dispatcher 0)) = 1"
proof -
  let ?reg = "register (RawTool (sample_info ''t'')) []"
  obtain r dp' w' where d: "dispatch_tool demo_env ''t'' (JObject []) (dev_scope ''konf'')
      (new_root 3 ''s'') ?reg demo_dispatcher 0 = (r, dp', w')"
    by (metis prod_cases3)
  have c: "check_tool (dev_scope ''konf'') ''t'' = Inr []" by code_simp
  have g: "registry_get ?reg ''t'' = Some (RawTool (sample_info ''t''))"
    by (simp add: register_def registry_get_def sample_info_def obj_get_def)
  have "snd (snd (dispatch_tool demo_env ''t'' (JObject []) (dev_scope ''konf'')
      (new_root 3 ''s'') ?reg demo_dispatcher 0)) = 1"
    unfolding dispatch_world c g
    by (simp add: new_root_def cached_result_def scoped_idempotency_key_def demo_dispatcher_def
        wrap_tool_def wrap_guard_def wrap_bindings_def obj_get_def demo_env_def echo_raw_def)
  moreover from this d have "w' \<noteq> 0" by simp
  ultimately show ?thesis using dispatch_enforces_scope [OF d] by blast
qed

text \<open>
  A dispatch with an idempotency key that was used before does not return the earlier
  result: it returns the stored payload, which is the record of the earlier dispatch, and it
  does so as a success even when that dispatch failed.
\<close>

lemma idempotent_replay_returns_record:
  assumes "check_tool scope name = Inr b" "registry_get reg name = Some t"
    "ctx_deadline ctx = None" "ctx_idempotency_key ctx = Some k" "dp_journal dp = Some j"
    "de_get_by_idempotency_key de (name @ '':'' @ k) j = Inr (Some row)"
    "jr_payload row = je_payload (dispatch_entry de0 name scope ctx x)"
  shows "dispatch_tool de name input scope ctx reg dp w =
    (Inr (Interaction_to_json (de_show_uuid de0) (de_show_time de0) x), dp, w)"
  using assms
  by (simp add: dispatch_tool_def cached_result_def scoped_idempotency_key_def dispatch_entry_def Let_def)

end
