(* ===== verification/Budget.thy ===== *)
theory Budget
  imports Keyed_Store Konf_Errors
begin

text \<open>
  Budget cells, \<^verbatim>\<open>konf-runtime/src/budget.rs\<close>. A cell is an \<^verbatim>\<open>i64\<close>, kept here as a
  64-bit word: the comparison reads it by \<open>sint\<close>, the subtraction is that of the word, which
  wraps as in a release build. Every operation holds the table's mutex from beginning to end,
  so a concurrent execution is a sequence of operations (\<open>run_budget\<close>).
\<close>

section \<open>Definitions\<close>

datatype BudgetError =
    BudgetNotFound
  | AlreadyExists
  | Insufficient i64 i64

type_synonym BudgetTable = "(uuid, i64) table"

definition BudgetTable_new :: BudgetTable where
  "BudgetTable_new = []"

definition mint :: "uuid \<Rightarrow> i64 \<Rightarrow> BudgetTable \<Rightarrow> (BudgetError + unit) \<times> BudgetTable" where
  "mint trace_id amount cells =
     (case tbl_get cells trace_id of
        Some _ \<Rightarrow> (Inl AlreadyExists, cells)
      | None \<Rightarrow> (Inr (), tbl_put trace_id amount cells))"

definition decrement :: "uuid \<Rightarrow> i64 \<Rightarrow> BudgetTable \<Rightarrow> (BudgetError + i64) \<times> BudgetTable" where
  "decrement trace_id amount cells =
     (case tbl_get cells trace_id of
        None \<Rightarrow> (Inl BudgetNotFound, cells)
      | Some current \<Rightarrow>
          if sint current < sint amount then (Inl (Insufficient current amount), cells)
          else (Inr (current - amount), tbl_put trace_id (current - amount) cells))"

definition remaining :: "BudgetTable \<Rightarrow> uuid \<Rightarrow> i64 option" where
  "remaining cells trace_id = tbl_get cells trace_id"

definition budget_remove :: "uuid \<Rightarrow> BudgetTable \<Rightarrow> i64 option \<times> BudgetTable" where
  "budget_remove trace_id cells = (tbl_get cells trace_id, tbl_del trace_id cells)"

text \<open>Decimal rendering of an \<^verbatim>\<open>i64\<close>.\<close>

definition show_i64 :: "i64 \<Rightarrow> string" where
  "show_i64 i =
     (if sint i < 0 then CHR ''-'' # show_nat (nat (- sint i)) else show_nat (nat (sint i)))"

fun show_BudgetError :: "BudgetError \<Rightarrow> string" where
  "show_BudgetError BudgetNotFound = ''no budget cell found for trace''"
| "show_BudgetError AlreadyExists = ''budget cell already exists for trace''"
| "show_BudgetError (Insufficient r q) =
     ''insufficient budget: '' @ show_i64 r @ '' remaining, '' @ show_i64 q @ '' requested''"

section \<open>Sequences of operations\<close>

datatype budget_op = Mint uuid i64 | Decrement uuid i64 | RemoveCell uuid

text \<open>One operation: whether it succeeded, and the table it leaves.\<close>

fun budget_step :: "budget_op \<Rightarrow> BudgetTable \<Rightarrow> bool \<times> BudgetTable" where
  "budget_step (Mint t a) cells = (let (r, c) = mint t a cells in (is_ok r, c))"
| "budget_step (Decrement t a) cells = (let (r, c) = decrement t a cells in (is_ok r, c))"
| "budget_step (RemoveCell t) cells = (let (r, c) = budget_remove t cells in (r \<noteq> None, c))"

fun run_budget :: "budget_op list \<Rightarrow> BudgetTable \<Rightarrow> (budget_op \<times> bool) list \<times> BudgetTable" where
  "run_budget [] cells = ([], cells)"
| "run_budget (op # ops) cells =
     (let (ok, cells1) = budget_step op cells; (log, cells2) = run_budget ops cells1
      in ((op, ok) # log, cells2))"

text \<open>
  The account a log gives for a trace: what the last successful \<open>mint\<close> put in and what the
  successful decrements since then took out; \<open>None\<close> when there is no cell.
\<close>

fun account_step :: "uuid \<Rightarrow> budget_op \<times> bool \<Rightarrow> (int \<times> int) option \<Rightarrow> (int \<times> int) option" where
  "account_step t (Mint t' a, ok) acc = (if t' = t \<and> ok then Some (sint a, 0) else acc)"
| "account_step t (Decrement t' a, ok) acc =
     (if t' = t \<and> ok then map_option (\<lambda>(m, s). (m, s + sint a)) acc else acc)"
| "account_step t (RemoveCell t', ok) acc = (if t' = t \<and> ok then None else acc)"

definition account :: "uuid \<Rightarrow> (budget_op \<times> bool) list \<Rightarrow> (int \<times> int) option" where
  "account t log = fold (account_step t) log None"

fun op_amount :: "budget_op \<Rightarrow> int" where
  "op_amount (Mint t a) = sint a"
| "op_amount (Decrement t a) = sint a"
| "op_amount (RemoveCell t) = 0"

section \<open>Lemmas\<close>

text \<open>Subtraction does not wrap when both operands are non-negative.\<close>

lemma sint_diff_nonneg:
  fixes a b :: i64
  assumes "0 \<le> sint a" "0 \<le> sint b"
  shows "sint (a - b) = sint a - sint b"
proof -
  have "sint a < 2 ^ 63" "sint b < 2 ^ 63"
    using sint_lt [of a] sint_lt [of b] by simp_all
  with assms show ?thesis
    by (simp add: sint_word_ariths signed_take_bit_int_eq_self)
qed

definition balanced :: "(int \<times> int) option \<Rightarrow> i64 option \<Rightarrow> bool" where
  "balanced acc cell =
     (case (acc, cell) of
        (None, None) \<Rightarrow> True
      | (Some (minted, spent), Some r) \<Rightarrow> sint r = minted - spent \<and> 0 \<le> sint r \<and> 0 \<le> spent
      | _ \<Rightarrow> False)"

lemma balanced_step:
  assumes "balanced acc (tbl_get cells t)" "0 \<le> op_amount op"
  shows "balanced (account_step t (op, fst (budget_step op cells)) acc)
    (tbl_get (snd (budget_step op cells)) t)"
proof (cases op)
  case (Mint t' a)
  then show ?thesis using assms
    by (auto simp: mint_def balanced_def tbl.lookup_put split: option.splits)
next
  case (Decrement t' a)
  then show ?thesis using assms
    by (auto simp: decrement_def balanced_def tbl.lookup_put sint_diff_nonneg split: option.splits if_splits)
next
  case (RemoveCell t')
  then show ?thesis using assms
    by (auto simp: budget_remove_def balanced_def tbl.lookup_del split: option.splits)
qed

lemma balanced_run:
  assumes "balanced acc (tbl_get cells t)" "list_all (\<lambda>op. 0 \<le> op_amount op) ops"
  shows "balanced (fold (account_step t) (fst (run_budget ops cells)) acc)
    (tbl_get (snd (run_budget ops cells)) t)"
  using assms
proof (induction ops arbitrary: acc cells)
  case Nil
  then show ?case by simp
next
  case (Cons op ops)
  obtain ok cells1 where s: "budget_step op cells = (ok, cells1)" by force
  obtain log cells2 where r: "run_budget ops cells1 = (log, cells2)" by force
  have "balanced (account_step t (op, ok) acc) (tbl_get cells1 t)"
    using balanced_step [of acc cells t op] Cons.prems s by simp
  from Cons.IH [OF this] Cons.prems show ?case by (simp add: s r)
qed

section \<open>Properties\<close>

text \<open>
  C27. However the operations of concurrent callers interleave, with non-negative amounts a
  cell holds exactly what was minted less what was successfully taken since, never goes below
  zero, and so the takings never exceed the minted amount.
\<close>

theorem budget_conserved:
  assumes "list_all (\<lambda>op. 0 \<le> op_amount op) ops"
  shows "case (account t (fst (run_budget ops BudgetTable_new)),
               remaining (snd (run_budget ops BudgetTable_new)) t) of
      (None, None) \<Rightarrow> True
    | (Some (minted, spent), Some r) \<Rightarrow> sint r = minted - spent \<and> 0 \<le> sint r \<and> spent \<le> minted
    | _ \<Rightarrow> False"
proof -
  have "balanced (account t (fst (run_budget ops BudgetTable_new)))
      (remaining (snd (run_budget ops BudgetTable_new)) t)"
    unfolding account_def remaining_def
    by (rule balanced_run) (use assms in \<open>simp_all add: balanced_def BudgetTable_new_def\<close>)
  then show ?thesis by (auto simp: balanced_def split: option.splits)
qed

theorem budget_conserved_witness:
  "account 7 (fst (run_budget [Mint 7 5, Decrement 7 3, Decrement 7 4, Decrement 7 2] BudgetTable_new))
     = Some (5, 5) \<and>
   remaining (snd (run_budget [Mint 7 5, Decrement 7 3, Decrement 7 4, Decrement 7 2] BudgetTable_new)) 7
     = Some 0 \<and> (5::int) \<le> 5"
proof -
  let ?ops = "[Mint 7 5, Decrement 7 3, Decrement 7 4, Decrement 7 2]"
  have a: "account 7 (fst (run_budget ?ops BudgetTable_new)) = Some (5, 5)"
    by (simp add: account_def BudgetTable_new_def mint_def decrement_def tbl.lookup_put)
  have r: "remaining (snd (run_budget ?ops BudgetTable_new)) 7 = Some 0"
    by (simp add: remaining_def BudgetTable_new_def mint_def decrement_def tbl.lookup_put)
  show ?thesis
    using budget_conserved [of ?ops 7] a r by simp
qed

text \<open>
  A negative amount is not rejected: it raises the cell, and at the top of the range the
  subtraction wraps, so that a cell that held the largest \<^verbatim>\<open>i64\<close> holds the smallest one and
  every later positive decrement is refused.
\<close>

theorem decrement_negative_wraps:
  "decrement t (- 1) (tbl_put t 5 cells) = (Inr 6, tbl_put t 6 (tbl_put t 5 cells)) \<and>
   decrement t (- 1) (tbl_put t (2 ^ 63 - 1) cells) =
     (Inr (2 ^ 63), tbl_put t (2 ^ 63) (tbl_put t (2 ^ 63 - 1) cells)) \<and>
   sint (2 ^ 63 :: i64) = - (2 ^ 63)"
  by (simp add: decrement_def)

end
