(* ===== verification/Runtime.thy ===== *)
theory Runtime
  imports Dispatcher Budget
begin

text \<open>
  The runtime, \<^verbatim>\<open>konf-runtime/src/runtime.rs\<close>: the scoped engine of a run, starting,
  finishing, streaming, waiting for and cancelling runs, the process tree and the metrics,
  with the journal and event-bus side of \<open>RuntimeHooks\<close> (\<^verbatim>\<open>konf-runtime/src/hooks.rs\<close>).

  The state is the record \<open>Runtime\<close>. A spawned task is an element of \<open>rt_tasks\<close> until it
  runs its final part (\<open>finish_run\<close>, \<open>finish_streaming\<close>). The journal is a value of type
  \<open>'j\<close> behind the append operation \<open>japp\<close>. A hash map is iterated in an order the program
  does not fix: \<open>build_scoped_engine\<close> takes the listing it iterates over.
\<close>

section \<open>The scoped engine\<close>

definition scoped_config :: "EngineConfig \<Rightarrow> ExecutionScope \<Rightarrow> EngineConfig" where
  "scoped_config cfg scope =
     cfg\<lparr> cfg_max_steps := max_steps (scope_limits scope),
          cfg_max_workflow_timeout_ms := max_workflow_timeout_ms (scope_limits scope) \<rparr>"

definition guard_alias :: "tool_guards \<Rightarrow> string \<Rightarrow> string option" where
  "guard_alias guards tool_name = Option.bind (obj_get guards tool_name) tg_alias"

text \<open>The tool to register for an entry of the source registry, if any.\<close>

definition granted_tool :: "ToolRegistry \<Rightarrow> tool_guards \<Rightarrow> ExecutionScope \<Rightarrow> string \<Rightarrow> Tool option" where
  "granted_tool source guards scope tool_name =
     (case registry_get source tool_name of
        Some tool \<Rightarrow>
          (case check_tool scope tool_name of
             Inr bindings \<Rightarrow> Some (wrap_tool guards tool_name bindings tool)
           | Inl _ \<Rightarrow> None)
      | None \<Rightarrow> None)"

definition scope_tool :: "ToolRegistry \<Rightarrow> tool_guards \<Rightarrow> ExecutionScope \<Rightarrow> string \<Rightarrow> Tool option" where
  "scope_tool source guards scope tool_name =
     (case guard_alias guards tool_name of
        Some alias \<Rightarrow>
          if \<not> is_ok (check_tool scope tool_name) then None
          else (case registry_get source alias of
                  Some alias_tool \<Rightarrow> Some alias_tool
                | None \<Rightarrow> granted_tool source guards scope tool_name)
      | None \<Rightarrow> granted_tool source guards scope tool_name)"

definition build_scoped_engine ::
  "('r, 'q) Engine \<Rightarrow> tool_guards \<Rightarrow> ExecutionScope \<Rightarrow> ToolInfo list \<Rightarrow> ('r, 'q) Engine" where
  "build_scoped_engine eng guards scope listing =
     fold (\<lambda>tool_info e.
             case scope_tool (eng_tools eng) guards scope (info_name tool_info) of
               Some tool \<Rightarrow> register_tool tool e
             | None \<Rightarrow> e)
       listing (Engine_with_config (scoped_config (eng_config eng) scope))"

definition build_execution_metadata ::
  "(uuid \<Rightarrow> string) \<Rightarrow> ExecutionScope \<Rightarrow> ExecutionContext \<Rightarrow> json smap" where
  "build_execution_metadata show_uuid scope ctx =
     obj_of_list [
       (''trace_id'', JString (show_uuid (ctx_trace_id ctx))),
       (''namespace'', JString (scope_namespace scope)),
       (''actor_id'', JString (actor_id (scope_actor scope))),
       (''session_id'', JString (ctx_session_id ctx)),
       (''actor_role'', JString (actor_role_str (actor_role (scope_actor scope)))),
       (''depth'', JNumber (PosInt (of_nat (scope_depth scope))))]"

section \<open>State\<close>

text \<open>A spawned task: what it will run, and whether it forwards a stream.\<close>

record ('r, 'q) run_task =
  rtk_run_id :: RunId
  rtk_workflow :: Workflow
  rtk_input :: json
  rtk_engine :: "('r, 'q) Engine"
  rtk_capabilities :: "string list"
  rtk_metadata :: "json smap"
  rtk_session_id :: string
  rtk_namespace :: string
  rtk_streaming :: bool

record ('r, 'q, 'j) Runtime =
  rt_engine :: "('r, 'q) Engine"
  rt_table :: ProcessTable
  rt_journal :: "'j option"
  rt_guards :: tool_guards
  rt_events :: "RunEvent list"
  rt_budget :: BudgetTable
  rt_total_completed :: u64
  rt_total_failed :: u64
  rt_total_cancelled :: u64
  rt_tasks :: "('r, 'q) run_task list"

type_synonym 'j append_op = "JournalEntry \<Rightarrow> 'j \<Rightarrow> (JournalError + u64) \<times> 'j"

definition Runtime_with_limits ::
  "('j \<Rightarrow> (JournalError + u64) \<times> 'j) \<Rightarrow> ('r, 'q) Engine \<Rightarrow> 'j option \<Rightarrow> RuntimeError + ('r, 'q, 'j) Runtime" where
  "Runtime_with_limits reconcile eng journal =
     map_ok (\<lambda>j.
       \<lparr> rt_engine = eng, rt_table = ProcessTable_new, rt_journal = j, rt_guards = [], rt_events = [],
         rt_budget = BudgetTable_new, rt_total_completed = 0, rt_total_failed = 0,
         rt_total_cancelled = 0, rt_tasks = [] \<rparr>)
       (case journal of
          None \<Rightarrow> Inr None
        | Some j \<Rightarrow> (case reconcile j of
            (Inl e, _) \<Rightarrow> Inl (RJournal e)
          | (Inr n, j') \<Rightarrow> Inr (Some j')))"

definition set_tool_guards :: "tool_guards \<Rightarrow> ('r, 'q, 'j) Runtime \<Rightarrow> ('r, 'q, 'j) Runtime" where
  "set_tool_guards guards rt = rt\<lparr> rt_guards := guards \<rparr>"

text \<open>An append whose failure is only logged.\<close>

definition journal_best_effort :: "'j append_op \<Rightarrow> JournalEntry \<Rightarrow> 'j option \<Rightarrow> 'j option" where
  "journal_best_effort japp e journal = map_option (\<lambda>j. snd (japp e j)) journal"

definition lifecycle_entry ::
  "RunId \<Rightarrow> string \<Rightarrow> string \<Rightarrow> string \<Rightarrow> json \<Rightarrow> JournalEntry" where
  "lifecycle_entry rid session_id namespace event_type payload =
     \<lparr> je_run_id = Some rid, je_session_id = session_id, je_namespace = namespace,
       je_event_type = event_type, je_payload = payload, je_valid_to = None,
       je_idempotency_key = None \<rparr>"

section \<open>Starting a run\<close>

definition new_run :: "RunId \<Rightarrow> datetime \<Rightarrow> Workflow \<Rightarrow> ExecutionScope \<Rightarrow> WorkflowRun" where
  "new_run rid now wfl scope =
     \<lparr> run_id = rid, run_parent_id = None, run_workflow_id = wf_id wfl,
       run_namespace = scope_namespace scope, run_actor = scope_actor scope,
       run_capabilities = capability_patterns scope, run_metadata = [], run_started_at = now,
       run_status = StRunning, run_completed_at = None, run_active_nodes = [],
       run_steps_executed = 0, run_cancelled = False \<rparr>"

definition started_payload :: "bool \<Rightarrow> Workflow \<Rightarrow> ExecutionScope \<Rightarrow> json" where
  "started_payload streaming wfl scope =
     JObject (obj_of_list (
       [(''workflow_id'', JString (wf_id wfl)),
        (''namespace'', JString (scope_namespace scope)),
        (''actor_id'', JString (actor_id (scope_actor scope))),
        (if streaming then (''streaming'', JBool True)
         else (''actor_role'', JString (actor_role_str (actor_role (scope_actor scope)))))]))"

text \<open>The part of \<open>start\<close> and \<open>start_streaming\<close> after the limits were checked, up to the journal.\<close>

definition register_run ::
  "'j append_op \<Rightarrow> bool \<Rightarrow> RunId \<Rightarrow> datetime \<Rightarrow> Workflow \<Rightarrow> ExecutionScope \<Rightarrow> ExecutionContext \<Rightarrow>
   ('r, 'q, 'j) Runtime \<Rightarrow> ('r, 'q, 'j) Runtime" where
  "register_run japp streaming rid now wfl scope ctx rt =
     rt\<lparr> rt_table := pt_insert (new_run rid now wfl scope) (rt_table rt),
         rt_events := emit (RunStarted rid (wf_id wfl) (scope_namespace scope) None now) (rt_events rt),
         rt_journal := journal_best_effort japp
           (lifecycle_entry rid (ctx_session_id ctx) (scope_namespace scope) ''workflow_started''
             (started_payload streaming wfl scope)) (rt_journal rt) \<rparr>"

definition make_task ::
  "(uuid \<Rightarrow> string) \<Rightarrow> ToolInfo list \<Rightarrow> bool \<Rightarrow> RunId \<Rightarrow> Workflow \<Rightarrow> json \<Rightarrow> ExecutionScope \<Rightarrow> ExecutionContext \<Rightarrow>
   ('r, 'q, 'j) Runtime \<Rightarrow> ('r, 'q) run_task" where
  "make_task show_uuid listing streaming rid wfl input scope ctx rt =
     \<lparr> rtk_run_id = rid, rtk_workflow = wfl, rtk_input = input,
       rtk_engine = build_scoped_engine (rt_engine rt) (rt_guards rt) scope listing,
       rtk_capabilities = capability_patterns scope,
       rtk_metadata = build_execution_metadata show_uuid scope ctx,
       rtk_session_id = ctx_session_id ctx, rtk_namespace = scope_namespace scope,
       rtk_streaming = streaming \<rparr>"

definition start_commit ::
  "(uuid \<Rightarrow> string) \<Rightarrow> 'j append_op \<Rightarrow> RunId \<Rightarrow> datetime \<Rightarrow> ToolInfo list \<Rightarrow> Workflow \<Rightarrow> json \<Rightarrow>
   ExecutionScope \<Rightarrow> ExecutionContext \<Rightarrow> ('r, 'q, 'j) Runtime \<Rightarrow> ('r, 'q, 'j) Runtime" where
  "start_commit show_uuid japp rid now listing wfl input scope ctx rt =
     (let rt1 = register_run japp False rid now wfl scope ctx rt in
      rt1\<lparr> rt_tasks := rt_tasks rt1 @ [make_task show_uuid listing False rid wfl input scope ctx rt1] \<rparr>)"

definition start ::
  "(uuid \<Rightarrow> string) \<Rightarrow> 'j append_op \<Rightarrow> RunId \<Rightarrow> datetime \<Rightarrow> ToolInfo list \<Rightarrow> Workflow \<Rightarrow> json \<Rightarrow>
   ExecutionScope \<Rightarrow> ExecutionContext \<Rightarrow> ('r, 'q, 'j) Runtime \<Rightarrow> (RuntimeError + RunId) \<times> ('r, 'q, 'j) Runtime" where
  "start show_uuid japp rid now listing wfl input scope ctx rt =
     (case validate_start scope (rt_table rt) of
        Inl e \<Rightarrow> (Inl e, rt)
      | Inr _ \<Rightarrow> (Inr rid, start_commit show_uuid japp rid now listing wfl input scope ctx rt))"

definition start_streaming ::
  "(uuid \<Rightarrow> string) \<Rightarrow> 'j append_op \<Rightarrow> RunId \<Rightarrow> datetime \<Rightarrow> ToolInfo list \<Rightarrow> Workflow \<Rightarrow> json \<Rightarrow>
   ExecutionScope \<Rightarrow> ExecutionContext \<Rightarrow> ('r, 'q, 'j) Runtime \<Rightarrow> (RuntimeError + RunId) \<times> ('r, 'q, 'j) Runtime" where
  "start_streaming show_uuid japp rid now listing wfl input scope ctx rt =
     (case validate_start scope (rt_table rt) of
        Inl e \<Rightarrow> (Inl e, rt)
      | Inr _ \<Rightarrow>
          (let rt1 = register_run japp True rid now wfl scope ctx rt in
           case validate_grant (wf_capabilities wfl) (capability_patterns scope) of
             Inl msg \<Rightarrow> (Inl (REngine (KCapabilityDenied msg)), rt1)
           | Inr _ \<Rightarrow>
               (Inr rid,
                rt1\<lparr> rt_tasks := rt_tasks rt1 @
                  [make_task show_uuid listing True rid wfl input scope ctx rt1] \<rparr>)))"

section \<open>The end of a run\<close>

fun is_cancellation :: "KonfluxError + json \<Rightarrow> bool" where
  "is_cancellation (Inl (KExecution (Cancelled wid))) = True"
| "is_cancellation _ = False"

definition run_duration_ms :: "ProcessTable \<Rightarrow> RunId \<Rightarrow> datetime \<Rightarrow> u64" where
  "run_duration_ms t rid now =
     duration_ms_between (case pt_get t rid run_started_at of Some s \<Rightarrow> s | None \<Rightarrow> now) now"

definition final_status_of :: "u64 \<Rightarrow> KonfluxError + json \<Rightarrow> RunStatus" where
  "final_status_of duration_ms result =
     (case result of
        Inr output \<Rightarrow> StCompleted duration_ms output
      | Inl e \<Rightarrow>
          if is_cancellation result then StCancelled (show_KonfluxError e) duration_ms
          else StFailed (show_KonfluxError e) duration_ms)"

definition set_final :: "datetime \<Rightarrow> RunStatus \<Rightarrow> WorkflowRun \<Rightarrow> WorkflowRun" where
  "set_final now st run = run\<lparr> run_completed_at := Some now, run_status := st \<rparr>"

text \<open>Counters and lifecycle events follow the status the run ended with.\<close>

fun count_final :: "RunStatus \<Rightarrow> ('r, 'q, 'j) Runtime \<Rightarrow> ('r, 'q, 'j) Runtime" where
  "count_final (StCompleted d out) rt = rt\<lparr> rt_total_completed := rt_total_completed rt + 1 \<rparr>"
| "count_final (StCancelled r d) rt = rt\<lparr> rt_total_cancelled := rt_total_cancelled rt + 1 \<rparr>"
| "count_final (StFailed e d) rt = rt\<lparr> rt_total_failed := rt_total_failed rt + 1 \<rparr>"
| "count_final _ rt = rt"

fun final_event :: "RunId \<Rightarrow> RunStatus \<Rightarrow> RunEvent list" where
  "final_event rid (StCompleted d out) = [RunCompleted rid d]"
| "final_event rid (StCancelled r d) = [RunCancelled rid r]"
| "final_event rid (StFailed e d) = [RunFailed rid d e]"
| "final_event rid _ = []"

fun final_journal :: "RunStatus \<Rightarrow> string \<times> json" where
  "final_journal (StCompleted d out) = (''workflow_completed'', JObject [])"
| "final_journal (StCancelled r d) = (''workflow_cancelled'', JObject [(''reason'', JString r)])"
| "final_journal (StFailed e d) = (''workflow_failed'', JObject [(''error'', JString e)])"
| "final_journal _ = ([], JNull)"

text \<open>The tail of the task that \<open>start\<close> spawns, on the result of \<open>Engine::run\<close>.\<close>

definition finish_run ::
  "'j append_op \<Rightarrow> datetime \<Rightarrow> nat \<Rightarrow> KonfluxError + json \<Rightarrow> ('r, 'q, 'j) Runtime \<Rightarrow> ('r, 'q, 'j) Runtime" where
  "finish_run japp now k result rt =
     (let task = rt_tasks rt ! k; rid = rtk_run_id task;
          st = final_status_of (run_duration_ms (rt_table rt) rid now) result;
          rt1 = count_final st (rt\<lparr> rt_table := snd (pt_update rid (set_final now st) (rt_table rt)) \<rparr>)
      in rt1\<lparr> rt_events := rt_events rt1 @ final_event rid st,
              rt_journal := journal_best_effort japp
                (lifecycle_entry rid (rtk_session_id task) (rtk_namespace task)
                  (fst (final_journal st)) (snd (final_journal st))) (rt_journal rt1),
              rt_tasks := take k (rt_tasks rt1) @ drop (Suc k) (rt_tasks rt1) \<rparr>)"

text \<open>
  The forwarding task of \<open>start_streaming\<close>: it reads the engine's events, each with whether
  the caller still takes it, and stops at a terminal event or when the caller is gone.
\<close>

datatype stream_final = FinalDone | FinalCancelled string | FinalFailed string

fun final_of_event :: "StreamEvent \<Rightarrow> stream_final option" where
  "final_of_event (Done output) = Some FinalDone"
| "final_of_event (StreamError code message r) =
     (if code = ''cancelled'' \<or> contains_str message ''cancelled''
      then Some (FinalCancelled message) else Some (FinalFailed message))"
| "final_of_event _ = None"

fun forward_stream :: "(StreamEvent \<times> bool) list \<Rightarrow> stream_final option" where
  "forward_stream [] = None"
| "forward_stream ((event, delivered) # rest) =
     (case final_of_event event of
        Some f \<Rightarrow> Some f
      | None \<Rightarrow> if delivered then forward_stream rest else None)"

definition stream_status :: "u64 \<Rightarrow> stream_final option \<Rightarrow> RunStatus" where
  "stream_status duration_ms final =
     (case final of
        Some FinalDone \<Rightarrow> StCompleted duration_ms JNull
      | Some (FinalCancelled message) \<Rightarrow> StCancelled ''cancelled'' duration_ms
      | Some (FinalFailed message) \<Rightarrow> StFailed message duration_ms
      | None \<Rightarrow> StFailed ''stream ended without terminal event'' duration_ms)"

definition stream_event_of :: "RunId \<Rightarrow> u64 \<Rightarrow> stream_final option \<Rightarrow> RunEvent" where
  "stream_event_of rid duration_ms final =
     (case final of
        Some FinalDone \<Rightarrow> RunCompleted rid duration_ms
      | Some (FinalCancelled message) \<Rightarrow> RunCancelled rid message
      | Some (FinalFailed message) \<Rightarrow> RunFailed rid duration_ms message
      | None \<Rightarrow> RunFailed rid duration_ms ''stream ended without terminal event'')"

fun stream_journal :: "stream_final \<Rightarrow> string \<times> json" where
  "stream_journal FinalDone = (''workflow_completed'', JObject [])"
| "stream_journal (FinalCancelled message) =
     (''workflow_cancelled'', JObject [(''reason'', JString message)])"
| "stream_journal (FinalFailed message) = (''workflow_failed'', JObject [(''error'', JString message)])"

definition finish_streaming ::
  "'j append_op \<Rightarrow> datetime \<Rightarrow> nat \<Rightarrow> (StreamEvent \<times> bool) list \<Rightarrow> ('r, 'q, 'j) Runtime \<Rightarrow> ('r, 'q, 'j) Runtime" where
  "finish_streaming japp now k received rt =
     (let task = rt_tasks rt ! k; rid = rtk_run_id task;
          final = forward_stream received;
          duration_ms = run_duration_ms (rt_table rt) rid now;
          st = stream_status duration_ms final;
          rt1 = count_final st (rt\<lparr> rt_table := snd (pt_update rid (set_final now st) (rt_table rt)) \<rparr>)
      in rt1\<lparr> rt_events := emit (stream_event_of rid duration_ms final) (rt_events rt1),
              rt_journal :=
                (case final of
                   Some f \<Rightarrow> journal_best_effort japp
                     (lifecycle_entry rid (rtk_session_id task) (rtk_namespace task)
                       (fst (stream_journal f)) (snd (stream_journal f))) (rt_journal rt1)
                 | None \<Rightarrow> rt_journal rt1),
              rt_tasks := take k (rt_tasks rt1) @ drop (Suc k) (rt_tasks rt1) \<rparr>)"

section \<open>Waiting, cancelling, views\<close>

text \<open>One poll of \<open>wait\<close>; \<open>None\<close> is the branch that sleeps and polls again.\<close>

definition wait_poll :: "ProcessTable \<Rightarrow> RunId \<Rightarrow> (RuntimeError + json) option" where
  "wait_poll t rid =
     (case pt_get t rid run_status of
        Some (StCompleted d output) \<Rightarrow> Some (Inr output)
      | Some (StFailed err d) \<Rightarrow>
          Some (Inl (REngine (KExecution (NodeFailed ''runtime'' ''wait'' err))))
      | Some (StCancelled reason d) \<Rightarrow> Some (Inl (REngine (KExecution (Cancelled reason))))
      | None \<Rightarrow> Some (Inl (RNotFound rid))
      | _ \<Rightarrow> None)"

text \<open>\<open>wait\<close> over the tables its polls see; \<open>None\<close> when all of them were running.\<close>

fun wait :: "ProcessTable list \<Rightarrow> RunId \<Rightarrow> (RuntimeError + json) option" where
  "wait [] rid = None"
| "wait (t # ts) rid = (case wait_poll t rid of Some r \<Rightarrow> Some r | None \<Rightarrow> wait ts rid)"

text \<open>
  \<open>cancel\<close> calls itself on the children; the fuel bounds the depth of that recursion, and
  \<open>None\<close> is fuel run out.
\<close>

fun cancel_children :: "(RunId \<Rightarrow> ProcessTable \<Rightarrow> ((RuntimeError + unit) \<times> ProcessTable) option) \<Rightarrow>
    RunSummary list \<Rightarrow> ProcessTable \<Rightarrow> ProcessTable option" where
  "cancel_children f [] t = Some t"
| "cancel_children f (c # cs) t =
     (if is_terminal (sum_status c) then cancel_children f cs t
      else (case f (sum_id c) t of None \<Rightarrow> None | Some (r, t') \<Rightarrow> cancel_children f cs t'))"

fun cancel :: "nat \<Rightarrow> RunId \<Rightarrow> ProcessTable \<Rightarrow> ((RuntimeError + unit) \<times> ProcessTable) option" where
  "cancel 0 rid t = None"
| "cancel (Suc n) rid t =
     (case pt_get t rid (\<lambda>run. run_status run = StRunning) of
        None \<Rightarrow> Some (Inl (RNotFound rid), t)
      | Some False \<Rightarrow> Some (Inl (RNotRunning rid), t)
      | Some True \<Rightarrow>
          (let t1 = snd (pt_update rid (\<lambda>run. run\<lparr> run_cancelled := True \<rparr>) t) in
           map_option (Pair (Inr ())) (cancel_children (cancel n) (children_of rid t1) t1)))"

record RunDetail =
  det_summary :: RunSummary
  det_active_nodes :: "ActiveNode list"
  det_capabilities :: "string list"
  det_children :: "RunSummary list"

definition get_run :: "ProcessTable \<Rightarrow> RunId \<Rightarrow> RunDetail option" where
  "get_run t rid =
     pt_get t rid (\<lambda>run.
       \<lparr> det_summary = to_summary run, det_active_nodes = run_active_nodes run,
         det_capabilities = run_capabilities run, det_children = children_of rid t \<rparr>)"

datatype ProcessTree = ProcessTree RunSummary "ProcessTree list" "ActiveNode list"

fun build_tree :: "nat \<Rightarrow> ProcessTable \<Rightarrow> RunId \<Rightarrow> ProcessTree option" where
  "build_tree 0 t rid = None"
| "build_tree (Suc n) t rid =
     pt_get t rid (\<lambda>run.
       ProcessTree (to_summary run)
         (List.map_filter (\<lambda>c. build_tree n t (sum_id c)) (children_of rid t))
         (run_active_nodes run))"

record RuntimeMetrics =
  met_active_runs :: nat
  met_total_completed :: u64
  met_total_failed :: u64
  met_total_cancelled :: u64
  met_uptime_seconds :: u64

definition runtime_metrics :: "u64 \<Rightarrow> ('r, 'q, 'j) Runtime \<Rightarrow> RuntimeMetrics" where
  "runtime_metrics uptime rt =
     \<lparr> met_active_runs = active_count (rt_table rt), met_total_completed = rt_total_completed rt,
       met_total_failed = rt_total_failed rt, met_total_cancelled = rt_total_cancelled rt,
       met_uptime_seconds = uptime \<rparr>"

section \<open>Hooks\<close>

text \<open>The journal entry of a node event.\<close>

definition node_interaction_entry ::
  "(uuid \<Rightarrow> string) \<Rightarrow> (datetime \<Rightarrow> string) \<Rightarrow> uuid \<Rightarrow> datetime \<Rightarrow> uuid \<Rightarrow> Actor \<Rightarrow> ('r, 'q) run_task \<Rightarrow>
   string \<Rightarrow> string \<Rightarrow> string \<Rightarrow> InteractionStatus \<Rightarrow> (string \<times> json) list \<Rightarrow> JournalEntry" where
  "node_interaction_entry show_uuid show_time fresh now trace actor task node_id tool phase status attributes =
     lifecycle_entry (rtk_run_id task) (rtk_session_id task) (rtk_namespace task) ''interaction''
       (Interaction_to_json show_uuid show_time
         \<lparr> in_id = fresh, in_parent_id = None, in_trace_id = trace, in_run_id = Some (rtk_run_id task),
           in_node_id = Some node_id, in_actor = actor, in_namespace = rtk_namespace task,
           in_target = ''node:'' @ node_id, in_kind = NodeLifecycle,
           in_attributes = JObject (obj_insert ''phase'' (JString phase)
             (obj_insert ''tool'' (JString tool) (obj_insert ''node_id'' (JString node_id) attributes))),
           in_edge_rules_fired = [], in_status = status, in_summary = None, in_timestamp = now,
           in_step_index = 0, in_stream_id = [], in_state_before_hash = None,
           in_state_after_hash = None, in_references = [], in_in_reply_to = None \<rparr>)"

fun event_phase :: "ExecutorEvent \<Rightarrow> string \<times> string \<times> string \<times> InteractionStatus \<times> (string \<times> json) list" where
  "event_phase (NodeStarted node_id tool) = (node_id, tool, ''start'', StatusPending, [])"
| "event_phase (NodeCompleted node_id tool duration_ms out) =
     (node_id, tool, ''end'', StatusOk, [(''duration_ms'', JNumber (PosInt duration_ms))])"
| "event_phase (NodeFailedEvent node_id tool err) = (node_id, tool, ''failed'', StatusFailed err, [])"
| "event_phase (ToolRetry node_id tool attempt err) =
     (node_id, tool, ''retry'', StatusPending,
      [(''attempt'', JNumber (PosInt (ucast attempt))), (''error'', JString err)])"

text \<open>The synchronous part of \<open>on_event\<close>: table and bus; and the append it spawns.\<close>

definition on_event ::
  "(uuid \<Rightarrow> string) \<Rightarrow> (datetime \<Rightarrow> string) \<Rightarrow> uuid \<Rightarrow> datetime \<Rightarrow> uuid \<Rightarrow> Actor \<Rightarrow> ('r, 'q) run_task \<Rightarrow>
   ExecutorEvent \<Rightarrow> ('r, 'q, 'j) Runtime \<Rightarrow> JournalEntry \<times> ('r, 'q, 'j) Runtime" where
  "on_event show_uuid show_time fresh now trace actor task ev rt =
     (case event_phase ev of (node_id, tool, phase, status, attrs) \<Rightarrow>
       (node_interaction_entry show_uuid show_time fresh now trace actor task node_id tool phase status attrs,
        rt\<lparr> rt_table := table_on_event (rtk_run_id task) now ev (rt_table rt),
            rt_events := rt_events rt @ bus_of_event (rtk_run_id task) now ev \<rparr>))"

definition spawned_append ::
  "'j append_op \<Rightarrow> JournalEntry \<Rightarrow> ('r, 'q, 'j) Runtime \<Rightarrow> ('r, 'q, 'j) Runtime" where
  "spawned_append japp e rt =
     (case rt_journal rt of
        None \<Rightarrow> rt
      | Some j \<Rightarrow>
          (case japp e j of
             (Inr sq, j') \<Rightarrow>
               rt\<lparr> rt_journal := Some j',
                   rt_events := emit (JournalAppended sq (je_event_type e) (je_namespace e)
                     (case je_run_id e of Some r \<Rightarrow> r | None \<Rightarrow> 0)) (rt_events rt) \<rparr>
           | (Inl _, j') \<Rightarrow> rt\<lparr> rt_journal := Some j' \<rparr>))"

end
