(* ===== verification/Runtime_Props.thy ===== *)
theory Runtime_Props
  imports Runtime
begin

text \<open>
  Properties of the runtime: what the scoped engine of a run contains, the lifecycle of runs
  under any interleaving of starts, executor events, completions, cancellations and garbage
  collection, and the limits on concurrent runs.
\<close>

section \<open>The step relation\<close>

text \<open>
  \<open>start\<close> and \<open>start_streaming\<close> check the limits and register the run in two steps that
  other tasks may come between, so the relation has the registering part on its own. A run
  id is a fresh version 4 UUID: it differs from every id handed out before.
\<close>

fun started_id :: "RunEvent \<Rightarrow> RunId list" where
  "started_id (RunStarted r w n p a) = [r]"
| "started_id _ = []"

fun ended_id :: "RunEvent \<Rightarrow> RunId list" where
  "ended_id (RunCompleted r d) = [r]"
| "ended_id (RunFailed r d e) = [r]"
| "ended_id (RunCancelled r e) = [r]"
| "ended_id _ = []"

definition started_ids :: "('r, 'q, 'j) Runtime \<Rightarrow> RunId list" where
  "started_ids rt = concat (map started_id (rt_events rt))"

definition ended_ids :: "('r, 'q, 'j) Runtime \<Rightarrow> RunId list" where
  "ended_ids rt = concat (map ended_id (rt_events rt))"

definition task_ids :: "('r, 'q, 'j) Runtime \<Rightarrow> RunId list" where
  "task_ids rt = map rtk_run_id (rt_tasks rt)"

inductive rt_step :: "'j append_op \<Rightarrow> ('r, 'q, 'j) Runtime \<Rightarrow> ('r, 'q, 'j) Runtime \<Rightarrow> bool" for japp
where
  commit: "rid \<notin> set (started_ids rt) \<Longrightarrow>
    rt_step japp rt (start_commit show_uuid japp rid now listing wfl input scope ctx rt)"
| commit_streaming: "rid \<notin> set (started_ids rt) \<Longrightarrow>
    start_streaming show_uuid japp rid now listing wfl input scope ctx rt = (Inr rid, rt') \<Longrightarrow>
    rt_step japp rt rt'"
| refuse_streaming: "rid \<notin> set (started_ids rt) \<Longrightarrow>
    validate_grant (wf_capabilities wfl) (capability_patterns scope) = Inl msg \<Longrightarrow>
    rt_step japp rt (register_run japp True rid now wfl scope ctx rt)"
| finish: "k < length (rt_tasks rt) \<Longrightarrow> \<not> rtk_streaming (rt_tasks rt ! k) \<Longrightarrow>
    rt_step japp rt (finish_run japp now k result rt)"
| finish_stream: "k < length (rt_tasks rt) \<Longrightarrow> rtk_streaming (rt_tasks rt ! k) \<Longrightarrow>
    rt_step japp rt (finish_streaming japp now k received rt)"
| event: "k < length (rt_tasks rt) \<Longrightarrow>
    rt_step japp rt (snd (on_event show_uuid show_time fresh now trace actor (rt_tasks rt ! k) ev rt))"
| append: "rt_step japp rt (spawned_append japp e rt)"
| cancel: "cancel n rid (rt_table rt) = Some (r, t') \<Longrightarrow> rt_step japp rt (rt\<lparr> rt_table := t' \<rparr>)"
| collect: "rt_step japp rt (rt\<lparr> rt_table := gc cutoff (rt_table rt) \<rparr>)"

section \<open>Cancellation\<close>

definition uncancelled :: "WorkflowRun \<Rightarrow> WorkflowRun" where
  "uncancelled run = run\<lparr> run_cancelled := False \<rparr>"

definition same_but_cancel :: "ProcessTable \<Rightarrow> ProcessTable \<Rightarrow> bool" where
  "same_but_cancel t t' \<longleftrightarrow>
     (tbl_ok t \<longrightarrow> tbl_ok t') \<and>
     (\<forall>i. map_option uncancelled (tbl_get t' i) = map_option uncancelled (tbl_get t i)) \<and>
     (\<forall>i run. tbl_get t i = Some run \<longrightarrow> run_cancelled run \<longrightarrow>
        (\<exists>run'. tbl_get t' i = Some run' \<and> run_cancelled run'))"

lemma same_but_cancel_refl [simp]: "same_but_cancel t t"
  by (simp add: same_but_cancel_def)

lemma same_but_cancel_trans: "same_but_cancel s t \<Longrightarrow> same_but_cancel t u \<Longrightarrow> same_but_cancel s u"
  unfolding same_but_cancel_def by metis

lemma same_but_cancel_update:
  "same_but_cancel t (snd (pt_update rid (\<lambda>run. run\<lparr> run_cancelled := True \<rparr>) t))"
  by (auto simp: same_but_cancel_def pt_update_def tbl_get_modify uncancelled_def [abs_def]
      option.map_comp comp_def)

lemma cancel_children_same:
  assumes "\<And>i t r t'. f i t = Some (r, t') \<Longrightarrow> same_but_cancel t t'"
    and "cancel_children f cs t = Some t'"
  shows "same_but_cancel t t'"
  using assms(2)
proof (induction cs arbitrary: t)
  case Nil
  then show ?case by simp
next
  case (Cons c cs)
  show ?case
  proof (cases "is_terminal (sum_status c)")
    case True
    with Cons show ?thesis by simp
  next
    case False
    with Cons.prems obtain r t1 where f: "f (sum_id c) t = Some (r, t1)"
      and rest: "cancel_children f cs t1 = Some t'"
      by (auto split: option.splits)
    show ?thesis by (rule same_but_cancel_trans [OF assms(1) [OF f] Cons.IH [OF rest]])
  qed
qed

lemma cancel_same: "cancel n rid t = Some (r, t') \<Longrightarrow> same_but_cancel t t'"
proof (induction n arbitrary: rid t r t')
  case 0
  then show ?case by simp
next
  case (Suc n)
  show ?case
  proof (cases "pt_get t rid (\<lambda>run. run_status run = StRunning) = Some True")
    case True
    let ?t1 = "snd (pt_update rid (\<lambda>run. run\<lparr> run_cancelled := True \<rparr>) t)"
    have "cancel_children (cancel n) (children_of rid ?t1) ?t1 = Some t'"
      using Suc.prems True by (auto simp: Let_def)
    from cancel_children_same [OF Suc.IH this] show ?thesis
      by (rule same_but_cancel_trans [OF same_but_cancel_update])
  next
    case False
    with Suc.prems show ?thesis by (auto split: option.splits bool.splits)
  qed
qed

lemma same_but_cancel_get:
  assumes "same_but_cancel t t'" "tbl_get t' i = Some run'"
  obtains run where "tbl_get t i = Some run" "uncancelled run' = uncancelled run"
proof -
  have "map_option uncancelled (tbl_get t' i) = map_option uncancelled (tbl_get t i)"
    using assms(1) unfolding same_but_cancel_def by blast
  with assms(2) that show thesis by (cases "tbl_get t i") simp_all
qed

lemma uncancelled_fields:
  assumes "uncancelled run' = uncancelled run"
  shows "run_id run' = run_id run" "run_status run' = run_status run"
    "run_completed_at run' = run_completed_at run" "run_parent_id run' = run_parent_id run"
    "run_namespace run' = run_namespace run"
  using arg_cong [OF assms, of run_id] arg_cong [OF assms, of run_status]
    arg_cong [OF assms, of run_completed_at] arg_cong [OF assms, of run_parent_id]
    arg_cong [OF assms, of run_namespace]
  by (simp_all add: uncancelled_def)

section \<open>The lifecycle invariant\<close>

definition counted :: "('r, 'q, 'j) Runtime \<Rightarrow> bool" where
  "counted rt \<longleftrightarrow>
     rt_total_completed rt = of_nat (length (List.filter (\<lambda>e. \<exists>r d. e = RunCompleted r d) (rt_events rt))) \<and>
     rt_total_failed rt = of_nat (length (List.filter (\<lambda>e. \<exists>r d m. e = RunFailed r d m) (rt_events rt))) \<and>
     rt_total_cancelled rt = of_nat (length (List.filter (\<lambda>e. \<exists>r m. e = RunCancelled r m) (rt_events rt)))"

definition entry_ok :: "('r, 'q, 'j) Runtime \<Rightarrow> RunId \<Rightarrow> WorkflowRun \<Rightarrow> bool" where
  "entry_ok rt rid run \<longleftrightarrow>
     rid \<in> set (started_ids rt) \<and> run_parent_id run = None \<and>
     (if rid \<in> set (ended_ids rt) then is_terminal (run_status run) \<and> run_completed_at run \<noteq> None
      else run_status run = StRunning \<and> run_completed_at run = None)"

definition rt_inv :: "('r, 'q, 'j) Runtime \<Rightarrow> bool" where
  "rt_inv rt \<longleftrightarrow>
     pt_ok (rt_table rt) \<and>
     (\<forall>rid run. tbl_get (rt_table rt) rid = Some run \<longrightarrow> entry_ok rt rid run) \<and>
     distinct (task_ids rt) \<and>
     (\<forall>rid \<in> set (task_ids rt). tbl_get (rt_table rt) rid \<noteq> None \<and> rid \<notin> set (ended_ids rt)) \<and>
     distinct (started_ids rt) \<and> distinct (ended_ids rt) \<and>
     set (ended_ids rt) \<subseteq> set (started_ids rt) \<and>
     counted rt"

text \<open>What an operation that neither starts nor ends a run keeps.\<close>

lemma rt_inv_quiet:
  assumes "rt_inv rt" "started_ids rt' = started_ids rt" "ended_ids rt' = ended_ids rt"
    "task_ids rt' = task_ids rt" "counted rt'" "pt_ok (rt_table rt')"
    and "\<And>rid run'. tbl_get (rt_table rt') rid = Some run' \<Longrightarrow>
      \<exists>run. tbl_get (rt_table rt) rid = Some run \<and> run_parent_id run' = run_parent_id run \<and>
        run_status run' = run_status run \<and> run_completed_at run' = run_completed_at run"
    and "\<And>rid run. tbl_get (rt_table rt) rid = Some run \<Longrightarrow> \<not> is_terminal (run_status run) \<Longrightarrow>
      tbl_get (rt_table rt') rid \<noteq> None"
  shows "rt_inv rt'"
proof -
  have e: "entry_ok rt' rid run'" if "tbl_get (rt_table rt') rid = Some run'" for rid run'
  proof -
    obtain run where r: "tbl_get (rt_table rt) rid = Some run" "run_parent_id run' = run_parent_id run"
      "run_status run' = run_status run" "run_completed_at run' = run_completed_at run"
      using assms(7) [OF \<open>tbl_get (rt_table rt') rid = Some run'\<close>] by blast
    with assms(1) have "entry_ok rt rid run" by (simp add: rt_inv_def)
    with r assms(2,3) show ?thesis by (simp add: entry_ok_def)
  qed
  have t: "tbl_get (rt_table rt') rid \<noteq> None" if m: "rid \<in> set (task_ids rt)" for rid
  proof -
    obtain run where run: "tbl_get (rt_table rt) rid = Some run" and ne: "rid \<notin> set (ended_ids rt)"
      using m assms(1) by (auto simp: rt_inv_def)
    then have "entry_ok rt rid run" using assms(1) by (simp add: rt_inv_def)
    with ne have "\<not> is_terminal (run_status run)" by (simp add: entry_ok_def)
    with assms(8) [OF run] show ?thesis by simp
  qed
  from assms(1) e t show ?thesis unfolding rt_inv_def assms(2-4) using assms(5,6) by simp
qed

lemma started_ids_simps [simp]:
  "started_ids (rt\<lparr> rt_table := t \<rparr>) = started_ids rt"
  "started_ids (rt\<lparr> rt_journal := j \<rparr>) = started_ids rt"
  "started_ids (rt\<lparr> rt_tasks := ts \<rparr>) = started_ids rt"
  "started_ids (rt\<lparr> rt_events := es \<rparr>) = concat (map started_id es)"
  by (simp_all add: started_ids_def)

lemma ended_ids_simps [simp]:
  "ended_ids (rt\<lparr> rt_table := t \<rparr>) = ended_ids rt"
  "ended_ids (rt\<lparr> rt_journal := j \<rparr>) = ended_ids rt"
  "ended_ids (rt\<lparr> rt_tasks := ts \<rparr>) = ended_ids rt"
  "ended_ids (rt\<lparr> rt_events := es \<rparr>) = concat (map ended_id es)"
  by (simp_all add: ended_ids_def)

lemma task_ids_simps [simp]:
  "task_ids (rt\<lparr> rt_table := t \<rparr>) = task_ids rt"
  "task_ids (rt\<lparr> rt_journal := j \<rparr>) = task_ids rt"
  "task_ids (rt\<lparr> rt_events := es \<rparr>) = task_ids rt"
  "task_ids (rt\<lparr> rt_tasks := ts \<rparr>) = map rtk_run_id ts"
  by (simp_all add: task_ids_def)

lemma counted_simps [simp]:
  "counted (rt\<lparr> rt_table := t \<rparr>) = counted rt"
  "counted (rt\<lparr> rt_journal := j \<rparr>) = counted rt"
  "counted (rt\<lparr> rt_tasks := ts \<rparr>) = counted rt"
  by (simp_all add: counted_def)

lemma counted_event:
  "ended_id ev = [] \<Longrightarrow> counted (rt\<lparr> rt_events := rt_events rt @ [ev] \<rparr>) = counted rt"
  by (cases ev) (auto simp: counted_def)

lemma counted_update_events:
  "counted (rt\<lparr> rt_events := es, rt_journal := j \<rparr>) = counted (rt\<lparr> rt_events := es \<rparr>)"
  by (simp add: counted_def)

lemma rt_inv_fresh:
  "rt_inv rt \<Longrightarrow> rid \<notin> set (started_ids rt) \<Longrightarrow>
     tbl_get (rt_table rt) rid = None \<and> rid \<notin> set (ended_ids rt) \<and> rid \<notin> set (task_ids rt)"
proof -
  assume inv: "rt_inv rt" and f: "rid \<notin> set (started_ids rt)"
  then have "tbl_get (rt_table rt) rid = None"
    by (cases "tbl_get (rt_table rt) rid") (auto simp: rt_inv_def entry_ok_def)
  with inv f show ?thesis by (auto simp: rt_inv_def)
qed

lemma rt_inv_register:
  assumes "rt_inv rt" "rid \<notin> set (started_ids rt)"
  shows "rt_inv (register_run japp streaming rid now wfl scope ctx rt)"
proof -
  let ?rt = "register_run japp streaming rid now wfl scope ctx rt"
  note fresh = rt_inv_fresh [OF assms]
  have fields: "started_ids ?rt = started_ids rt @ [rid]" "ended_ids ?rt = ended_ids rt"
    "task_ids ?rt = task_ids rt" "rt_table ?rt = pt_insert (new_run rid now wfl scope) (rt_table rt)"
    by (simp_all add: register_run_def started_ids_def ended_ids_def task_ids_def emit_def)
  have c: "counted ?rt"
    using assms(1) by (simp add: register_run_def emit_def counted_def rt_inv_def)
  have get: "tbl_get (pt_insert (new_run rid now wfl scope) (rt_table rt)) i =
      (if i = rid then Some (new_run rid now wfl scope) else tbl_get (rt_table rt) i)" for i
    by (simp add: pt_insert_def tbl.lookup_put new_run_def)
  have old: "entry_ok rt i run" if "tbl_get (rt_table rt) i = Some run" for i run
    using assms(1) that by (simp add: rt_inv_def)
  have "entry_ok ?rt i run" if g: "tbl_get (rt_table ?rt) i = Some run" for i run
  proof (cases "i = rid")
    case True
    with g fresh show ?thesis by (simp add: fields get) (auto simp: entry_ok_def fields new_run_def)
  next
    case False
    with g have "entry_ok rt i run" by (intro old) (simp add: fields get)
    then show ?thesis by (simp add: entry_ok_def fields split: if_splits)
  qed
  moreover have "pt_ok (rt_table ?rt)" using assms(1) by (simp add: fields rt_inv_def pt_ok_insert)
  moreover have "tbl_get (rt_table ?rt) i \<noteq> None \<and> i \<notin> set (ended_ids ?rt)" if "i \<in> set (task_ids ?rt)" for i
    using that assms(1) by (auto simp: fields get rt_inv_def)
  ultimately show ?thesis
    using assms c unfolding rt_inv_def fields(1-3) by auto
qed

lemma rt_inv_spawn:
  assumes "rt_inv rt" "tbl_get (rt_table rt) rid \<noteq> None" "rid \<notin> set (ended_ids rt)"
    "rid \<notin> set (task_ids rt)" "rtk_run_id task = rid"
  shows "rt_inv (rt\<lparr> rt_tasks := rt_tasks rt @ [task] \<rparr>)"
proof -
  have "task_ids (rt\<lparr> rt_tasks := rt_tasks rt @ [task] \<rparr>) = task_ids rt @ [rid]"
    by (simp add: task_ids_def assms(5))
  moreover have "entry_ok (rt\<lparr> rt_tasks := rt_tasks rt @ [task] \<rparr>) = entry_ok rt"
    by (simp add: entry_ok_def fun_eq_iff)
  ultimately show ?thesis using assms by (auto simp: rt_inv_def)
qed

text \<open>The common part of the two ways a task ends.\<close>

fun same_kind :: "RunStatus \<Rightarrow> RunEvent \<Rightarrow> bool" where
  "same_kind (StCompleted d out) (RunCompleted r d') = True"
| "same_kind (StFailed e d) (RunFailed r d' e') = True"
| "same_kind (StCancelled e d) (RunCancelled r e') = True"
| "same_kind _ _ = False"

lemma same_kindD: "same_kind st ev \<Longrightarrow> is_terminal st \<and> started_id ev = []"
  by (induction st ev rule: same_kind.induct) auto

lemma counted_final:
  assumes "counted rt" "same_kind st ev"
  shows "counted ((count_final st rt)\<lparr> rt_events := rt_events rt @ [ev] \<rparr>)"
  using assms by (induction st ev rule: same_kind.induct) (auto simp: counted_def)

lemma count_final_fields [simp]:
  "rt_table (count_final st rt) = rt_table rt" "rt_events (count_final st rt) = rt_events rt"
  "rt_journal (count_final st rt) = rt_journal rt" "rt_tasks (count_final st rt) = rt_tasks rt"
  by (cases st; simp)+

definition end_task ::
  "datetime \<Rightarrow> nat \<Rightarrow> RunStatus \<Rightarrow> RunEvent \<Rightarrow> 'j option \<Rightarrow> ('r, 'q, 'j) Runtime \<Rightarrow> ('r, 'q, 'j) Runtime" where
  "end_task now k st ev j rt =
     (count_final st (rt\<lparr> rt_table :=
        snd (pt_update (rtk_run_id (rt_tasks rt ! k)) (set_final now st) (rt_table rt)) \<rparr>))
     \<lparr> rt_events := rt_events rt @ [ev], rt_journal := j,
       rt_tasks := take k (rt_tasks rt) @ drop (Suc k) (rt_tasks rt) \<rparr>"

lemma end_task_fields:
  "rt_tasks (end_task now k st ev j rt) = take k (rt_tasks rt) @ drop (Suc k) (rt_tasks rt)"
  "rt_events (end_task now k st ev j rt) = rt_events rt @ [ev]"
  "rt_table (end_task now k st ev j rt) =
     snd (pt_update (rtk_run_id (rt_tasks rt ! k)) (set_final now st) (rt_table rt))"
  by (simp_all add: end_task_def)

lemma rt_inv_end_task:
  assumes "rt_inv rt" "k < length (rt_tasks rt)" "same_kind st ev"
    "ended_id ev = [rtk_run_id (rt_tasks rt ! k)]"
  shows "rt_inv (end_task now k st ev j rt)"
proof -
  let ?rt = "end_task now k st ev j rt" and ?rid = "rtk_run_id (rt_tasks rt ! k)"
  let ?base = "rt\<lparr> rt_table := snd (pt_update ?rid (set_final now st) (rt_table rt)) \<rparr>"
  have ids: "task_ids rt = map rtk_run_id (take k (rt_tasks rt)) @ ?rid # map rtk_run_id (drop (Suc k) (rt_tasks rt))"
    unfolding task_ids_def using id_take_nth_drop [OF assms(2)] by (metis list.map(2) map_append)
  have mem: "?rid \<in> set (task_ids rt)" by (simp add: ids)
  obtain run where run: "tbl_get (rt_table rt) ?rid = Some run" and ne: "?rid \<notin> set (ended_ids rt)"
    using assms(1) mem by (auto simp: rt_inv_def)
  have kd: "is_terminal st" "started_id ev = []" using same_kindD [OF assms(3)] by auto
  have fields: "started_ids ?rt = started_ids rt" "ended_ids ?rt = ended_ids rt @ [?rid]"
    "task_ids ?rt = map rtk_run_id (take k (rt_tasks rt)) @ map rtk_run_id (drop (Suc k) (rt_tasks rt))"
    by (simp_all add: end_task_fields started_ids_def ended_ids_def task_ids_def kd assms(4))
  have tbl: "rt_table ?rt = snd (pt_update ?rid (set_final now st) (rt_table rt))"
    by (simp add: end_task_fields)
  have get: "tbl_get (rt_table ?rt) i =
      (if i = ?rid then Some (set_final now st run) else tbl_get (rt_table rt) i)" for i
    unfolding tbl by (simp add: pt_update_def tbl_get_modify run)
  have "counted ((count_final st ?base)\<lparr> rt_events := rt_events ?base @ [ev] \<rparr>)"
    using assms(1,3) by (intro counted_final) (simp_all add: rt_inv_def)
  then have c: "counted ?rt" by (simp add: end_task_def counted_def)
  have ok: "pt_ok (rt_table ?rt)"
    unfolding tbl using assms(1) by (intro pt_ok_update) (simp_all add: rt_inv_def set_final_def)
  have dis: "distinct (task_ids ?rt)" "?rid \<notin> set (task_ids ?rt)" "set (task_ids ?rt) \<subseteq> set (task_ids rt)"
    using assms(1) unfolding rt_inv_def fields ids by auto
  have st: "?rid \<in> set (started_ids rt)" and par: "run_parent_id run = None"
    using assms(1) run by (auto simp: rt_inv_def entry_ok_def)
  have "entry_ok ?rt i r" if "tbl_get (rt_table ?rt) i = Some r" for i r
    using that assms(1) st par kd
    by (auto simp: get entry_ok_def fields rt_inv_def set_final_def split: if_splits)
  with assms(1) c ok dis st ne show ?thesis
    unfolding rt_inv_def fields(1,2) by (auto simp: get)
qed

lemma finish_run_end_task:
  "\<exists>st ev. same_kind st ev \<and> ended_id ev = [rtk_run_id (rt_tasks rt ! k)] \<and>
     (\<exists>j. finish_run japp now k result rt = end_task now k st ev j rt)"
proof -
  let ?rid = "rtk_run_id (rt_tasks rt ! k)"
  let ?st = "final_status_of (run_duration_ms (rt_table rt) ?rid now) result"
  have "\<exists>ev. final_event ?rid ?st = [ev] \<and> same_kind ?st ev \<and> ended_id ev = [?rid]"
    by (cases result) (auto simp: final_status_of_def)
  then obtain ev where ev: "final_event ?rid ?st = [ev]" "same_kind ?st ev" "ended_id ev = [?rid]"
    by blast
  then show ?thesis
    by (intro exI [of _ ?st] exI [of _ ev]) (auto simp: finish_run_def end_task_def Let_def)
qed

lemma finish_streaming_end_task:
  "\<exists>st ev. same_kind st ev \<and> ended_id ev = [rtk_run_id (rt_tasks rt ! k)] \<and>
     (\<exists>j. finish_streaming japp now k received rt = end_task now k st ev j rt)"
proof -
  let ?rid = "rtk_run_id (rt_tasks rt ! k)" and ?d = "run_duration_ms (rt_table rt) (rtk_run_id (rt_tasks rt ! k)) now"
  let ?st = "stream_status ?d (forward_stream received)"
  let ?ev = "stream_event_of ?rid ?d (forward_stream received)"
  have "same_kind ?st ?ev \<and> ended_id ?ev = [?rid]"
    by (cases "forward_stream received")
       (auto simp: stream_status_def stream_event_of_def split: stream_final.split)
  then show ?thesis
    by (intro exI [of _ ?st] exI [of _ ?ev]) (auto simp: finish_streaming_def end_task_def Let_def emit_def)
qed

section \<open>Preservation\<close>

lemma start_streaming_registers:
  assumes "start_streaming show_uuid japp rid now listing wfl input scope ctx rt = (Inr rid, rt')"
  shows "\<exists>task. rtk_run_id task = rid \<and>
    rt' = (let rt1 = register_run japp True rid now wfl scope ctx rt
           in rt1\<lparr> rt_tasks := rt_tasks rt1 @ [task] \<rparr>)"
  using assms
  by (intro exI [of _ "make_task show_uuid listing True rid wfl input scope ctx
        (register_run japp True rid now wfl scope ctx rt)"])
     (auto simp: start_streaming_def Let_def make_task_def split: sum.splits)

lemma rt_inv_register_spawn:
  assumes "rt_inv rt" "rid \<notin> set (started_ids rt)" "rtk_run_id task = rid"
  shows "rt_inv (let rt1 = register_run japp streaming rid now wfl scope ctx rt
                 in rt1\<lparr> rt_tasks := rt_tasks rt1 @ [task] \<rparr>)"
  unfolding Let_def
proof (rule rt_inv_spawn [OF rt_inv_register [OF assms(1,2)] _ _ _ assms(3)])
  let ?R = "register_run japp streaming rid now wfl scope ctx rt"
  show "tbl_get (rt_table ?R) rid \<noteq> None"
    by (simp add: register_run_def pt_insert_def new_run_def tbl.lookup_put)
  show "rid \<notin> set (ended_ids ?R)" "rid \<notin> set (task_ids ?R)"
    using rt_inv_fresh [OF assms(1,2)]
    by (simp_all add: register_run_def ended_ids_def task_ids_def emit_def)
qed

lemma bus_of_event_quiet:
  "concat (map started_id (bus_of_event rid now ev)) = []"
  "concat (map ended_id (bus_of_event rid now ev)) = []"
  "List.filter (\<lambda>e. \<exists>r d. e = RunCompleted r d) (bus_of_event rid now ev) = []"
  "List.filter (\<lambda>e. \<exists>r d m. e = RunFailed r d m) (bus_of_event rid now ev) = []"
  "List.filter (\<lambda>e. \<exists>r m. e = RunCancelled r m) (bus_of_event rid now ev) = []"
  by (cases ev; simp)+

lemma rt_inv_event:
  assumes "rt_inv rt"
  shows "rt_inv (snd (on_event show_uuid show_time fresh now trace actor task ev rt))"
proof -
  let ?R = "snd (on_event show_uuid show_time fresh now trace actor task ev rt)"
  have fields: "rt_table ?R = table_on_event (rtk_run_id task) now ev (rt_table rt)"
    "rt_events ?R = rt_events rt @ bus_of_event (rtk_run_id task) now ev" "rt_tasks ?R = rt_tasks rt"
    "rt_total_completed ?R = rt_total_completed rt" "rt_total_failed ?R = rt_total_failed rt"
    "rt_total_cancelled ?R = rt_total_cancelled rt"
    by (simp_all add: on_event_def split: prod.split)
  have none: "started_ids ?R = started_ids rt" "ended_ids ?R = ended_ids rt" "task_ids ?R = task_ids rt"
    "counted ?R = counted rt"
    by (simp_all add: fields started_ids_def ended_ids_def task_ids_def counted_def bus_of_event_quiet)
  show ?thesis
  proof (rule rt_inv_quiet [OF assms none(1-3)])
    show "counted ?R" using assms by (simp add: none(4) rt_inv_def)
    show "pt_ok (rt_table ?R)"
      unfolding fields table_on_event_def using assms by (intro pt_ok_update) (simp_all add: rt_inv_def)
  qed (auto simp: fields table_on_event_def pt_update_def tbl_get_modify split: if_splits)
qed

lemma rt_inv_append:
  assumes "rt_inv rt"
  shows "rt_inv (spawned_append japp e rt)"
proof -
  let ?R = "spawned_append japp e rt"
  have t: "rt_table ?R = rt_table rt" "rt_tasks ?R = rt_tasks rt"
    "rt_total_completed ?R = rt_total_completed rt" "rt_total_failed ?R = rt_total_failed rt"
    "rt_total_cancelled ?R = rt_total_cancelled rt"
    by (simp_all add: spawned_append_def split: option.split prod.split sum.split)
  have "rt_events ?R = rt_events rt \<or> (\<exists>s a b c. rt_events ?R = rt_events rt @ [JournalAppended s a b c])"
    by (auto simp: spawned_append_def emit_def split: option.split prod.split sum.split)
  then have none: "started_ids ?R = started_ids rt" "ended_ids ?R = ended_ids rt" "task_ids ?R = task_ids rt"
    "counted ?R = counted rt"
    by (auto simp: started_ids_def ended_ids_def task_ids_def counted_def t)
  show ?thesis
    by (rule rt_inv_quiet [OF assms none(1-3)]) (use assms in \<open>auto simp: t none(4) rt_inv_def\<close>)
qed

lemma rt_inv_cancel:
  assumes "rt_inv rt" "same_but_cancel (rt_table rt) t'"
  shows "rt_inv (rt\<lparr> rt_table := t' \<rparr>)"
proof (rule rt_inv_quiet [OF assms(1)])
  have g: "\<exists>run. tbl_get (rt_table rt) i = Some run \<and> uncancelled run' = uncancelled run"
    if "tbl_get t' i = Some run'" for i run'
    using same_but_cancel_get [OF assms(2) that] by blast
  show "pt_ok (rt_table (rt\<lparr> rt_table := t' \<rparr>))"
  proof (rule pt_okI)
    show "tbl_ok (rt_table (rt\<lparr> rt_table := t' \<rparr>))"
      using assms by (simp add: same_but_cancel_def rt_inv_def pt_ok_def)
    fix i run' assume "tbl_get (rt_table (rt\<lparr> rt_table := t' \<rparr>)) i = Some run'"
    then obtain run where r: "tbl_get (rt_table rt) i = Some run" and u: "uncancelled run' = uncancelled run"
      using g by auto
    have "run_id run = i" using assms(1) pt_ok_key [OF _ r] by (simp add: rt_inv_def)
    with uncancelled_fields(1) [OF u] show "run_id run' = i" by simp
  qed
  show "\<exists>run. tbl_get (rt_table rt) rid = Some run \<and> run_parent_id run' = run_parent_id run \<and>
      run_status run' = run_status run \<and> run_completed_at run' = run_completed_at run"
    if m: "tbl_get (rt_table (rt\<lparr> rt_table := t' \<rparr>)) rid = Some run'" for rid run'
  proof -
    obtain run where "tbl_get (rt_table rt) rid = Some run" "uncancelled run' = uncancelled run"
      using g [of rid run'] m by auto
    with uncancelled_fields [OF this(2)] show ?thesis by simp
  qed
  show "tbl_get (rt_table (rt\<lparr> rt_table := t' \<rparr>)) rid \<noteq> None"
    if "tbl_get (rt_table rt) rid = Some run" for rid run
  proof -
    have "map_option uncancelled (tbl_get t' rid) = Some (uncancelled run)"
      using assms(2) that by (simp add: same_but_cancel_def)
    then show ?thesis by (cases "tbl_get t' rid") simp_all
  qed
qed (use assms(1) in \<open>simp_all add: rt_inv_def\<close>)

lemma rt_inv_gc:
  assumes "rt_inv rt"
  shows "rt_inv (rt\<lparr> rt_table := gc cutoff (rt_table rt) \<rparr>)"
proof (rule rt_inv_quiet [OF assms])
  have ok: "pt_ok (rt_table rt)" using assms by (simp add: rt_inv_def)
  then have tok: "tbl_ok (rt_table rt)" by (simp add: pt_ok_def)
  show "pt_ok (rt_table (rt\<lparr> rt_table := gc cutoff (rt_table rt) \<rparr>))"
    using pt_ok_gc [OF ok] by simp
  show "\<exists>run. tbl_get (rt_table rt) rid = Some run \<and> run_parent_id run' = run_parent_id run \<and>
      run_status run' = run_status run \<and> run_completed_at run' = run_completed_at run"
    if "tbl_get (rt_table (rt\<lparr> rt_table := gc cutoff (rt_table rt) \<rparr>)) rid = Some run'" for rid run'
    using that gc_lookup [OF tok, of cutoff rid] by (auto split: option.splits if_splits)
  show "tbl_get (rt_table (rt\<lparr> rt_table := gc cutoff (rt_table rt) \<rparr>)) rid \<noteq> None"
    if "tbl_get (rt_table rt) rid = Some run" "\<not> is_terminal (run_status run)" for rid run
    using that gc_lookup [OF tok, of cutoff rid] by (simp add: gc_due_def)
qed (use assms in \<open>simp_all add: rt_inv_def\<close>)

lemma rt_inv_step: "rt_step japp rt rt' \<Longrightarrow> rt_inv rt \<Longrightarrow> rt_inv rt'"
proof (induction rule: rt_step.induct)
  case (commit rid rt show_uuid now listing wfl input scope ctx)
  then show ?case
    using rt_inv_register_spawn [of rt rid] by (simp add: start_commit_def Let_def make_task_def)
next
  case (commit_streaming rid rt show_uuid now listing wfl input scope ctx rt')
  then show ?case using start_streaming_registers rt_inv_register_spawn by blast
next
  case (refuse_streaming rid rt wfl scope msg now ctx)
  then show ?case by (simp add: rt_inv_register)
next
  case (finish k rt now result)
  then show ?case using finish_run_end_task [of rt k japp now result] rt_inv_end_task by metis
next
  case (finish_stream k rt now received)
  then show ?case using finish_streaming_end_task [of rt k japp now received] rt_inv_end_task by metis
next
  case (event k rt show_uuid show_time fresh now trace actor ev)
  from event.prems show ?case by (rule rt_inv_event)
next
  case (append rt e)
  then show ?case by (rule rt_inv_append)
next
  case (cancel n rid rt r t')
  then show ?case using rt_inv_cancel cancel_same by blast
next
  case (collect rt cutoff)
  then show ?case by (rule rt_inv_gc)
qed

section \<open>How single runs evolve\<close>

lemma end_task_get:
  "tbl_get (rt_table (end_task now k st ev j rt)) i =
     (if i = rtk_run_id (rt_tasks rt ! k) then map_option (set_final now st) (tbl_get (rt_table rt) i)
      else tbl_get (rt_table rt) i)"
  by (simp add: end_task_fields pt_update_def tbl_get_modify)

lemma register_run_get:
  "tbl_get (rt_table (register_run japp streaming rid now wfl scope ctx rt)) i =
     (if i = rid then Some (new_run rid now wfl scope) else tbl_get (rt_table rt) i)"
  by (simp add: register_run_def pt_insert_def new_run_def tbl.lookup_put)

lemma spawned_append_fields [simp]:
  "rt_table (spawned_append japp e rt) = rt_table rt" "rt_tasks (spawned_append japp e rt) = rt_tasks rt"
  by (simp_all add: spawned_append_def split: option.split prod.split sum.split)

lemma on_event_fields [simp]:
  "rt_table (snd (on_event a b c d e f task ev rt)) = table_on_event (rtk_run_id task) d ev (rt_table rt)"
  "rt_tasks (snd (on_event a b c d e f task ev rt)) = rt_tasks rt"
  by (simp_all add: on_event_def split: prod.split)

text \<open>A run without a task keeps its status as long as it is in the table.\<close>

lemma step_keeps_taskless:
  assumes "rt_step japp rt rt'" "rt_inv rt" "tbl_get (rt_table rt) i = Some run" "i \<notin> set (task_ids rt)"
  shows "i \<notin> set (task_ids rt') \<and>
    (case tbl_get (rt_table rt') i of
       Some run' \<Rightarrow> run_status run' = run_status run \<and> run_namespace run' = run_namespace run
     | None \<Rightarrow> is_terminal (run_status run))"
proof -
  have started: "i \<in> set (started_ids rt)"
    using assms(2,3) by (auto simp: rt_inv_def entry_ok_def)
  have fin: "i \<notin> set (task_ids (end_task now k st ev j rt)) \<and>
      tbl_get (rt_table (end_task now k st ev j rt)) i = Some run" if "k < length (rt_tasks rt)" for now k st ev j
  proof -
    have "i \<noteq> rtk_run_id (rt_tasks rt ! k)" using assms(4) that by (auto simp: task_ids_def)
    then show ?thesis
      using assms(3,4) by (auto simp: end_task_get end_task_fields(1) task_ids_def dest: in_set_takeD in_set_dropD)
  qed
  show ?thesis
    using assms(1)
  proof cases
    case (commit rid show_uuid now listing wfl input scope ctx)
    then have "i \<noteq> rid" using started by auto
    with assms(3,4) show ?thesis
      by (simp add: commit start_commit_def Let_def register_run_get task_ids_def make_task_def)
         (simp add: register_run_def)
  next
    case (commit_streaming rid show_uuid now listing wfl input scope ctx)
    then have "i \<noteq> rid" using started by auto
    moreover obtain task where "rtk_run_id task = rid"
      "rt' = (let rt1 = register_run japp True rid now wfl scope ctx rt
              in rt1\<lparr> rt_tasks := rt_tasks rt1 @ [task] \<rparr>)"
      using start_streaming_registers [OF commit_streaming(2)] by blast
    ultimately show ?thesis
      using assms(3,4) by (simp add: Let_def register_run_get task_ids_def) (simp add: register_run_def)
  next
    case (refuse_streaming rid wfl scope msg now ctx)
    then have "i \<noteq> rid" using started by auto
    with assms(3,4) show ?thesis
      by (simp add: refuse_streaming register_run_get task_ids_def) (simp add: register_run_def)
  next
    case (finish k now result)
    then show ?thesis
      using finish_run_end_task [of rt k japp now result] fin by force
  next
    case (finish_stream k now received)
    then show ?thesis
      using finish_streaming_end_task [of rt k japp now received] fin by force
  next
    case (event k show_uuid show_time fresh now trace actor ev)
    then show ?thesis
      using assms(3,4) by (auto simp: event task_ids_def table_on_event_def pt_update_def tbl_get_modify comp_def)
  next
    case (append e)
    then show ?thesis using assms(3,4) by (simp add: task_ids_def)
  next
    case (cancel n rid r t')
    have "map_option uncancelled (tbl_get t' i) = Some (uncancelled run)"
      using cancel_same [OF cancel(2)] assms(3) by (simp add: same_but_cancel_def)
    then obtain run' where r': "tbl_get t' i = Some run'" "uncancelled run' = uncancelled run" by auto
    with assms(4) uncancelled_fields [OF r'(2)] show ?thesis by (simp add: cancel)
  next
    case (collect cutoff)
    have "tbl_ok (rt_table rt)" using assms(2) by (simp add: rt_inv_def pt_ok_def)
    from gc_lookup [OF this] show ?thesis
      using assms(3,4) by (simp add: collect gc_due_def)
  qed
qed

lemma started_mono:
  assumes "rt_step japp rt rt'" "i \<in> set (started_ids rt)"
  shows "i \<in> set (started_ids rt')"
proof -
  have "prefix (rt_events rt) (rt_events rt')"
    using assms(1)
  proof cases
    case (commit_streaming rid show_uuid now listing wfl input scope ctx)
    then show ?thesis using start_streaming_registers [OF commit_streaming(2)]
      by (auto simp: Let_def register_run_def emit_def)
  next
    case (finish k now result)
    then show ?thesis using finish_run_end_task [of rt k japp now result]
      by (auto simp: end_task_fields)
  next
    case (finish_stream k now received)
    then show ?thesis using finish_streaming_end_task [of rt k japp now received]
      by (auto simp: end_task_fields)
  next
    case (append e)
    then show ?thesis
      by (auto simp: spawned_append_def emit_def split: option.split prod.split sum.split)
  qed (auto simp: start_commit_def register_run_def Let_def emit_def on_event_def split: prod.split)
  with assms(2) show ?thesis by (auto simp: started_ids_def prefix_def)
qed

text \<open>A run that was started and collected does not come back.\<close>

lemma absent_stays:
  assumes "rt_step japp rt rt'" "rt_inv rt" "tbl_get (rt_table rt) i = None"
    "i \<in> set (started_ids rt)" "i \<notin> set (task_ids rt)"
  shows "tbl_get (rt_table rt') i = None \<and> i \<notin> set (task_ids rt')"
proof -
  have fin: "tbl_get (rt_table (end_task now k st ev j rt)) i = None \<and>
      i \<notin> set (task_ids (end_task now k st ev j rt))" for now k st ev j
    using assms(3,5) by (auto simp: end_task_get end_task_fields(1) task_ids_def dest: in_set_takeD in_set_dropD)
  show ?thesis
    using assms(1)
  proof cases
    case (commit rid show_uuid now listing wfl input scope ctx)
    then have "i \<noteq> rid" using assms(4) by auto
    with assms(3,5) show ?thesis
      by (simp add: commit start_commit_def Let_def register_run_get task_ids_def make_task_def)
         (simp add: register_run_def)
  next
    case (commit_streaming rid show_uuid now listing wfl input scope ctx)
    then have "i \<noteq> rid" using assms(4) by auto
    moreover obtain task where "rtk_run_id task = rid"
      "rt' = (let rt1 = register_run japp True rid now wfl scope ctx rt
              in rt1\<lparr> rt_tasks := rt_tasks rt1 @ [task] \<rparr>)"
      using start_streaming_registers [OF commit_streaming(2)] by blast
    ultimately show ?thesis
      using assms(3,5) by (simp add: Let_def register_run_get task_ids_def) (simp add: register_run_def)
  next
    case (refuse_streaming rid wfl scope msg now ctx)
    then have "i \<noteq> rid" using assms(4) by auto
    with assms(3,5) show ?thesis
      by (simp add: refuse_streaming register_run_get task_ids_def) (simp add: register_run_def)
  next
    case (finish k now result)
    then show ?thesis using finish_run_end_task [of rt k japp now result] fin by metis
  next
    case (finish_stream k now received)
    then show ?thesis using finish_streaming_end_task [of rt k japp now received] fin by metis
  next
    case (event k show_uuid show_time fresh now trace actor ev)
    then show ?thesis
      using assms(3,5) by (auto simp: event task_ids_def table_on_event_def pt_update_def tbl_get_modify comp_def)
  next
    case (append e)
    then show ?thesis using assms(3,5) by (simp add: task_ids_def)
  next
    case (cancel n rid r t')
    have "map_option uncancelled (tbl_get t' i) = None"
      using cancel_same [OF cancel(2)] assms(3) by (simp add: same_but_cancel_def)
    with assms(5) show ?thesis by (simp add: cancel)
  next
    case (collect cutoff)
    have "tbl_ok (rt_table rt)" using assms(2) by (simp add: rt_inv_def pt_ok_def)
    from gc_lookup [OF this] show ?thesis using assms(3,5) by (simp add: collect)
  qed
qed

lemma reach_inv: "(rt_step japp)\<^sup>*\<^sup>* rt rt' \<Longrightarrow> rt_inv rt \<Longrightarrow> rt_inv rt'"
  by (induction rule: rtranclp_induct) (auto intro: rt_inv_step)

lemma reach_taskless_running:
  assumes "(rt_step japp)\<^sup>*\<^sup>* rt rt'" "rt_inv rt" "tbl_get (rt_table rt) i = Some run"
    "i \<notin> set (task_ids rt)" "run_status run = StRunning"
  shows "i \<notin> set (task_ids rt') \<and>
    (\<exists>run'. tbl_get (rt_table rt') i = Some run' \<and> run_status run' = StRunning \<and>
       run_namespace run' = run_namespace run)"
  using assms
proof (induction rule: rtranclp_induct)
  case base
  then show ?case by simp
next
  case (step y z)
  then obtain run' where r: "tbl_get (rt_table y) i = Some run'" "run_status run' = StRunning"
    "run_namespace run' = run_namespace run" "i \<notin> set (task_ids y)" by blast
  have "rt_inv y" using reach_inv step by blast
  from step_keeps_taskless [OF step.hyps(2) this r(1,4)] r show ?case
    by (auto split: option.splits)
qed

lemma reach_taskless_terminal:
  assumes "(rt_step japp)\<^sup>*\<^sup>* rt rt'" "rt_inv rt" "tbl_get (rt_table rt) i = Some run"
    "is_terminal (run_status run)"
  shows "case tbl_get (rt_table rt') i of Some run' \<Rightarrow> run_status run' = run_status run | None \<Rightarrow> True"
proof -
  have "rt_inv rt' \<and> i \<in> set (started_ids rt') \<and> i \<notin> set (task_ids rt') \<and>
      (case tbl_get (rt_table rt') i of Some run' \<Rightarrow> run_status run' = run_status run | None \<Rightarrow> True)"
    using assms(1)
  proof (induction rule: rtranclp_induct)
    case base
    have "entry_ok rt i run" using assms(2,3) by (simp add: rt_inv_def)
    then have "i \<in> set (ended_ids rt)" "i \<in> set (started_ids rt)"
      using assms(4) by (cases "run_status run"; auto simp: entry_ok_def split: if_splits)+
    with assms(2,3) show ?case by (auto simp: rt_inv_def)
  next
    case (step y z)
    then have inv: "rt_inv y" and i: "i \<in> set (started_ids y)" "i \<notin> set (task_ids y)" by auto
    have invz: "rt_inv z" using rt_inv_step [OF step.hyps(2) inv] .
    have iz: "i \<in> set (started_ids z)" by (rule started_mono [OF step.hyps(2) i(1)])
    show ?case
    proof (cases "tbl_get (rt_table y) i")
      case (Some r)
      with step.IH have "run_status r = run_status run" by simp
      with step_keeps_taskless [OF step.hyps(2) inv Some i(2)] invz iz show ?thesis
        by (auto split: option.splits)
    next
      case None
      with absent_stays [OF step.hyps(2) inv None i] invz iz show ?thesis by simp
    qed
  qed
  then show ?thesis by blast
qed

lemma rt_inv_initial:
  assumes "Runtime_with_limits reconcile eng journal = Inr rt"
  shows "rt_inv rt"
proof -
  have "rt_table rt = ProcessTable_new \<and> rt_tasks rt = [] \<and> rt_events rt = [] \<and>
      rt_total_completed rt = 0 \<and> rt_total_failed rt = 0 \<and> rt_total_cancelled rt = 0"
    using assms by (auto simp: Runtime_with_limits_def map_ok_eq_Inr)
  then show ?thesis
    by (simp add: rt_inv_def started_ids_def ended_ids_def task_ids_def counted_def)
       (simp add: ProcessTable_new_def)
qed

section \<open>The scoped engine\<close>

definition registry_ok :: "ToolRegistry \<Rightarrow> bool" where
  "registry_ok reg \<longleftrightarrow> (\<forall>name t. registry_get reg name = Some t \<longrightarrow> info_name (info t) = name)"

lemma granted_tool_name:
  "registry_ok source \<Longrightarrow> granted_tool source guards scope n = Some t \<Longrightarrow> info_name (info t) = n"
  by (auto simp: granted_tool_def registry_ok_def split: option.splits sum.splits)

definition add_scoped ::
  "ToolRegistry \<Rightarrow> tool_guards \<Rightarrow> ExecutionScope \<Rightarrow> ToolInfo \<Rightarrow> ('r, 'q) Engine \<Rightarrow> ('r, 'q) Engine" where
  "add_scoped source guards scope ti e =
     (case scope_tool source guards scope (info_name ti) of Some tool \<Rightarrow> register_tool tool e | None \<Rightarrow> e)"

lemma build_scoped_engine_fold:
  "build_scoped_engine eng guards scope listing =
     fold (add_scoped (eng_tools eng) guards scope) listing
       (Engine_with_config (scoped_config (eng_config eng) scope))"
  by (simp add: build_scoped_engine_def add_scoped_def [abs_def])

lemma scoped_lookup:
  assumes "registry_ok source" "\<And>n. guard_alias guards n = None"
  shows "registry_get (eng_tools (fold (add_scoped source guards scope) listing e)) n =
    (if n \<in> info_name ` set listing
     then (case granted_tool source guards scope n of
             Some t \<Rightarrow> Some t | None \<Rightarrow> registry_get (eng_tools e) n)
     else registry_get (eng_tools e) n)"
proof (induction listing arbitrary: e)
  case Nil
  then show ?case by simp
next
  case (Cons ti listing)
  have "registry_get (eng_tools (add_scoped source guards scope ti e)) n =
      (if n = info_name ti then (case granted_tool source guards scope n of
          Some t \<Rightarrow> Some t | None \<Rightarrow> registry_get (eng_tools e) n)
       else registry_get (eng_tools e) n)"
    using granted_tool_name [OF assms(1)]
    by (auto simp: add_scoped_def scope_tool_def assms(2) register_tool_lookup split: option.splits)
  then show ?case by (auto simp: Cons.IH split: option.splits)
qed

section \<open>Properties\<close>


text \<open>
  A terminal status is final: whatever happens afterwards, the run keeps that status
  until it is collected, and a collected run does not come back. So what \<open>wait\<close> returned for
  a run is what every later \<open>wait\<close> returns, or that the run is not found.
\<close>

theorem terminal_status_is_final:
  assumes "Runtime_with_limits reconcile eng journal = Inr rt0" "(rt_step japp)\<^sup>*\<^sup>* rt0 rt"
    and "wait_poll (rt_table rt) rid = Some result" and "(rt_step japp)\<^sup>*\<^sup>* rt rt'"
    and "rid \<in> set (started_ids rt)"
  shows "wait_poll (rt_table rt') rid = Some result \<or>
    wait_poll (rt_table rt') rid = Some (Inl (RNotFound rid))"
proof -
  have inv: "rt_inv rt" using reach_inv [OF assms(2) rt_inv_initial [OF assms(1)]] .
  show ?thesis
  proof (cases "tbl_get (rt_table rt) rid")
    case (Some run)
    then have tm: "is_terminal (run_status run)"
      using assms(3) by (cases "run_status run") (auto simp: wait_poll_def pt_get_def)
    from reach_taskless_terminal [OF assms(4) inv Some tm] show ?thesis
      using assms(3) Some by (auto simp: wait_poll_def pt_get_def split: option.splits)
  next
    case None
    have "tbl_get (rt_table rt') rid = None \<and> rid \<notin> set (task_ids rt')"
      using assms(4)
    proof (induction rule: rtranclp_induct)
      case base
      show ?case using None inv by (auto simp: rt_inv_def)
    next
      case (step y z)
      have "rt_inv y" using reach_inv [OF step.hyps(1) inv] .
      moreover have "rid \<in> set (started_ids y)"
        using step.hyps(1) assms(5) by (induction rule: rtranclp_induct) (auto intro: started_mono)
      ultimately show ?case using absent_stays [OF step.hyps(2)] step.IH by blast
    qed
    then show ?thesis by (simp add: wait_poll_def pt_get_def)
  qed
qed

text \<open>
  A refused streaming start leaks its run. When \<open>start_streaming\<close> fails because the
  workflow asks for capabilities the scope does not grant, the caller gets an error, but the
  run it registered stays in the table as running in every later state: it has no task that
  could end it, cancelling it changes nothing but its token and the collector keeps it, so it
  counts against the limit of its namespace for ever.
\<close>

theorem refused_stream_leaks_run:
  assumes "Runtime_with_limits reconcile eng journal = Inr rt0" "(rt_step japp)\<^sup>*\<^sup>* rt0 rt"
    and "rid \<notin> set (started_ids rt)" "validate_start scope (rt_table rt) = Inr u"
    and "validate_grant (wf_capabilities wfl) (capability_patterns scope) = Inl msg"
    and "start_streaming show_uuid japp rid now listing wfl input scope ctx rt = (r, rt1)"
    and "(rt_step japp)\<^sup>*\<^sup>* rt1 rt2"
  shows "r = Inl (REngine (KCapabilityDenied msg)) \<and>
    (\<exists>run. tbl_get (rt_table rt2) rid = Some run \<and> run_status run = StRunning) \<and>
    active_count_in_namespace (scope_namespace scope) (rt_table rt2) > 0"
proof -
  have inv: "rt_inv rt" using reach_inv [OF assms(2) rt_inv_initial [OF assms(1)]] .
  have r: "r = Inl (REngine (KCapabilityDenied msg))"
    and rt1: "rt1 = register_run japp True rid now wfl scope ctx rt"
    using assms(4-6) by (auto simp: start_streaming_def Let_def)
  have inv1: "rt_inv rt1" unfolding rt1 by (rule rt_inv_register [OF inv assms(3)])
  have g: "tbl_get (rt_table rt1) rid = Some (new_run rid now wfl scope)"
    by (simp add: rt1 register_run_get)
  have nt: "rid \<notin> set (task_ids rt1)"
    using rt_inv_fresh [OF inv assms(3)] by (simp add: rt1 register_run_def task_ids_def)
  obtain run where run: "tbl_get (rt_table rt2) rid = Some run" "run_status run = StRunning"
    "run_namespace run = scope_namespace scope"
    using reach_taskless_running [OF assms(7) inv1 g nt] by (auto simp: new_run_def)
  then have "(rid, run) \<in> set (rt_table rt2)"
    by (metis map_of_SomeD tbl_get_def)
  with run have "List.filter (\<lambda>(i, run). run_status run = StRunning \<and>
      starts_with (run_namespace run) (scope_namespace scope)) (rt_table rt2) \<noteq> []"
    by (force simp: filter_empty_conv starts_with_def)
  with r run show ?thesis by (auto simp: active_count_in_namespace_def)
qed

text \<open>
  C30. The limit on concurrent runs. A \<open>start\<close> that is not interleaved with another keeps the
  number of running runs of its namespace within the limit of its scope, and a refused one
  changes nothing; but two starts that both check before either registers exceed the limit.
\<close>

theorem start_limit:
  assumes "tbl_get (rt_table rt) rid = None" "tbl_get (rt_table rt) rid' = None" "rid \<noteq> rid'"
  shows "(case start show_uuid japp rid now listing wfl input scope ctx rt of
      (Inl e, rt') \<Rightarrow> rt' = rt \<and> (\<exists>l v. e = ResourceLimit l v)
    | (Inr r, rt') \<Rightarrow> r = rid \<and>
        active_count_in_namespace (scope_namespace scope) (rt_table rt') \<le>
          max_active_runs_per_namespace (scope_limits scope)) \<and>
    (active_count_in_namespace (scope_namespace scope) (rt_table rt) + 1 =
        max_active_runs_per_namespace (scope_limits scope) \<longrightarrow>
      scope_depth scope < max_child_depth (scope_limits scope) \<longrightarrow>
      validate_start scope (rt_table rt) = Inr () \<and>
      active_count_in_namespace (scope_namespace scope)
        (rt_table (start_commit show_uuid japp rid' now' listing wfl input scope ctx
          (start_commit show_uuid japp rid now listing wfl input scope ctx rt))) =
        max_active_runs_per_namespace (scope_limits scope) + 1)"
proof -
  have tbl: "rt_table (start_commit show_uuid japp r n listing wfl input scope ctx q) =
      pt_insert (new_run r n wfl scope) (rt_table q)" for r n q
    by (simp add: start_commit_def register_run_def Let_def)
  have count: "active_count_in_namespace (scope_namespace scope) (pt_insert (new_run r n wfl scope) t) =
      Suc (active_count_in_namespace (scope_namespace scope) t)" if "tbl_get t r = None" for r n t
    using that by (intro insert_running_count) (simp_all add: new_run_def)
  have other: "tbl_get (pt_insert (new_run rid now wfl scope) (rt_table rt)) rid' = None"
    using assms by (simp add: pt_insert_def new_run_def tbl.lookup_put)
  show ?thesis
    using assms count [OF assms(1)] count [OF other]
    by (auto simp: start_def validate_start_def tbl split: sum.split)
qed

text \<open>
  C31. The scoped engine of a run holds exactly the granted tools. Without aliases, a tool is
  found under a name if and only if the source engine has one there and the scope grants the
  name, and invoking it applies the guard rules to the caller's payload, then injects the
  bindings of the grant, then calls the source tool; limits on steps and time are the scope's.
\<close>

theorem scoped_engine_holds_granted_tools:
  assumes "registry_ok (eng_tools eng)" "\<And>n. guard_alias guards n = None"
    and "\<forall>n. registry_get (eng_tools eng) n \<noteq> None \<longrightarrow> n \<in> info_name ` set listing"
  shows "(case registry_get (eng_tools (build_scoped_engine eng guards scope listing)) n of
      None \<Rightarrow> registry_get (eng_tools eng) n = None \<or> \<not> is_ok (check_tool scope n)
    | Some tool \<Rightarrow> \<exists>t b. registry_get (eng_tools eng) n = Some t \<and> check_tool scope n = Inr b \<and>
        info tool = info t \<and>
        (\<forall>(raw :: 'w raw_tool) env w. invoke raw tool env w =
          (case guard_verdict guards n n (env_payload env) of
             Inl e \<Rightarrow> (Inl e, w)
           | Inr _ \<Rightarrow> (case inject_bindings b env of
               Inl e \<Rightarrow> (Inl e, w) | Inr env' \<Rightarrow> invoke raw t env' w)))) \<and>
    cfg_max_steps (eng_config (build_scoped_engine eng guards scope listing)) = max_steps (scope_limits scope)"
proof -
  have empty: "registry_get (eng_tools (Engine_with_config cfg)) n = None" for cfg n
    by (simp add: Engine_with_config_def registry_get_def obj_get_def)
  have get: "registry_get (eng_tools (build_scoped_engine eng guards scope listing)) n =
      (if n \<in> info_name ` set listing then granted_tool (eng_tools eng) guards scope n else None)"
    unfolding build_scoped_engine_fold scoped_lookup [OF assms(1,2)] empty by (simp split: option.split)
  have cfg: "eng_config (fold (add_scoped src guards scope) l e) = eng_config e" for src l e
    by (induction l arbitrary: e) (simp_all add: add_scoped_def register_tool_def split: option.split)
  have "cfg_max_steps (eng_config (build_scoped_engine eng guards scope listing)) = max_steps (scope_limits scope)"
    by (simp add: build_scoped_engine_fold cfg Engine_with_config_def scoped_config_def)
  moreover have "info_name (info t) = n" if "registry_get (eng_tools eng) n = Some t" for t
    using that assms(1) by (simp add: registry_ok_def)
  ultimately show ?thesis
    using assms(3) unfolding get
    by (auto simp: granted_tool_def invoke_wrap_tool split: option.splits sum.splits)
qed

section \<open>Instances\<close>

definition demo_append :: "unit append_op" where
  "demo_append e j = (Inr 0, j)"

definition demo_runtime :: "(unit, unit, unit) Runtime" where
  "demo_runtime =
     \<lparr> rt_engine = Engine_with_config tiny_config, rt_table = ProcessTable_new, rt_journal = None,
       rt_guards = [], rt_events = [], rt_budget = BudgetTable_new, rt_total_completed = 0,
       rt_total_failed = 0, rt_total_cancelled = 0, rt_tasks = [] \<rparr>"

definition demo_started_rt :: "(unit, unit, unit) Runtime" where
  "demo_started_rt = start_commit (\<lambda>_. []) demo_append 1 0 [] fan_workflow JNull (dev_scope ''konf'')
     (new_root 3 ''s'') demo_runtime"

definition demo_ended_rt :: "(unit, unit, unit) Runtime" where
  "demo_ended_rt = finish_run demo_append 5 0 (Inr JNull) demo_started_rt"

lemma demo_boots:
  "Runtime_with_limits (\<lambda>j. (Inr 0, j)) (Engine_with_config tiny_config) None = Inr demo_runtime"
  by (simp add: Runtime_with_limits_def demo_runtime_def)

lemma demo_runs: "(rt_step demo_append)\<^sup>*\<^sup>* demo_runtime demo_ended_rt"
proof -
  have "rt_step demo_append demo_runtime demo_started_rt"
    unfolding demo_started_rt_def by (rule rt_step.commit) (simp add: demo_runtime_def started_ids_def)
  moreover have "rt_step demo_append demo_started_rt demo_ended_rt"
    unfolding demo_ended_rt_def
    by (rule rt_step.finish)
       (simp_all add: demo_started_rt_def start_commit_def register_run_def Let_def demo_runtime_def make_task_def)
  ultimately show ?thesis by (meson converse_rtranclp_into_rtranclp rtranclp.rtrancl_refl)
qed

lemma demo_ended_fields:
  "rt_events demo_ended_rt = [RunStarted 1 ''w'' ''konf'' None 0, RunCompleted 1 0]"
  "tbl_get (rt_table demo_ended_rt) 1 =
     Some (set_final 5 (StCompleted 0 JNull) (new_run 1 0 fan_workflow (dev_scope ''konf'')))"
  by (simp_all add: demo_ended_rt_def finish_run_def demo_started_rt_def start_commit_def register_run_def
      Let_def demo_runtime_def make_task_def final_status_of_def emit_def fan_workflow_def
      run_duration_ms_def duration_ms_between_def pt_get_def pt_insert_def tbl.lookup_put
      pt_update_def tbl_get_modify ProcessTable_new_def)
     (simp_all add: dev_scope_def scope_from_role_def new_run_def add_step_def Workflow_new_def tbl.lookup_put
       pt_insert_def tbl_get_modify)


theorem terminal_status_is_final_witness:
  "wait_poll (rt_table demo_ended_rt) 1 = Some (Inr JNull) \<and>
   (wait_poll (gc 9 (rt_table demo_ended_rt)) 1 = Some (Inr JNull) \<or>
    wait_poll (gc 9 (rt_table demo_ended_rt)) 1 = Some (Inl (RNotFound 1)))"
proof -
  have w: "wait_poll (rt_table demo_ended_rt) 1 = Some (Inr JNull)"
    by (simp add: wait_poll_def pt_get_def demo_ended_fields set_final_def)
  have s: "(rt_step demo_append)\<^sup>*\<^sup>* demo_ended_rt (demo_ended_rt\<lparr> rt_table := gc 9 (rt_table demo_ended_rt) \<rparr>)"
    by (rule r_into_rtranclp) (rule collect)
  have m: "1 \<in> set (started_ids demo_ended_rt)" by (simp add: started_ids_def demo_ended_fields)
  show ?thesis using w terminal_status_is_final [OF demo_boots demo_runs w s m] by simp
qed

definition greedy_workflow :: Workflow where
  "greedy_workflow = with_capabilities [''shell:*''] fan_workflow"

definition narrow_scope :: ExecutionScope where
  "narrow_scope = scope_from_role ''bob'' ''user'' ''konf'' [''memory:*''] None ResourceLimits_default"

theorem refused_stream_leaks_run_witness:
  "\<exists>r rt1 msg. start_streaming (\<lambda>_. []) demo_append 2 0 [] greedy_workflow JNull narrow_scope
       (new_root 3 ''s'') demo_runtime = (r, rt1) \<and> r = Inl (REngine (KCapabilityDenied msg)) \<and>
     (\<exists>run. tbl_get (gc 9 (rt_table rt1)) 2 = Some run \<and> run_status run = StRunning)"
proof -
  obtain r rt1 where s: "start_streaming (\<lambda>_. []) demo_append 2 0 [] greedy_workflow JNull narrow_scope
       (new_root 3 ''s'') demo_runtime = (r, rt1)" by force
  have "\<not> is_ok (validate_grant (wf_capabilities greedy_workflow) (capability_patterns narrow_scope))"
    by code_simp
  then obtain msg where g:
    "validate_grant (wf_capabilities greedy_workflow) (capability_patterns narrow_scope) = Inl msg"
    by (cases "validate_grant (wf_capabilities greedy_workflow) (capability_patterns narrow_scope)") auto
  have v: "validate_start narrow_scope (rt_table demo_runtime) = Inr ()"
    by (simp add: demo_runtime_def ProcessTable_new_def validate_start_def active_count_in_namespace_def
        narrow_scope_def scope_from_role_def ResourceLimits_default_def)
  have f: "2 \<notin> set (started_ids demo_runtime)" by (simp add: demo_runtime_def started_ids_def)
  have t: "(rt_step demo_append)\<^sup>*\<^sup>* rt1 (rt1\<lparr> rt_table := gc 9 (rt_table rt1) \<rparr>)"
    by (rule r_into_rtranclp) (rule collect)
  from refused_stream_leaks_run [OF demo_boots rtranclp.rtrancl_refl f v g s t] s show ?thesis by auto
qed

theorem start_limit_witness:
  "\<exists>rt'. start (\<lambda>_. []) demo_append 1 0 [] fan_workflow JNull (dev_scope ''konf'') (new_root 3 ''s'')
     demo_runtime = (Inr 1, rt') \<and> active_count_in_namespace ''konf'' (rt_table rt') \<le> 20"
proof -
  have n: "tbl_get (rt_table demo_runtime) 1 = None" "tbl_get (rt_table demo_runtime) 2 = None"
    by (simp_all add: demo_runtime_def ProcessTable_new_def)
  have v: "validate_start (dev_scope ''konf'') (rt_table demo_runtime) = Inr ()"
    by (simp add: demo_runtime_def ProcessTable_new_def validate_start_def active_count_in_namespace_def
        dev_scope_def scope_from_role_def ResourceLimits_default_def)
  then obtain rt' where s: "start (\<lambda>_. []) demo_append 1 0 [] fan_workflow JNull (dev_scope ''konf'')
      (new_root 3 ''s'') demo_runtime = (Inr 1, rt')" by (simp add: start_def)
  have l: "max_active_runs_per_namespace (scope_limits (dev_scope ''konf'')) = 20"
    "scope_namespace (dev_scope ''konf'') = ''konf''"
    by (simp_all add: dev_scope_def scope_from_role_def ResourceLimits_default_def)
  from start_limit [OF n, where show_uuid = "\<lambda>_. []" and japp = demo_append and now = 0 and listing = "[]"
      and wfl = fan_workflow and input = JNull and scope = "dev_scope ''konf''" and ctx = "new_root 3 ''s''" and now' = 0]
    s l show ?thesis by simp
qed

definition demo_engine :: "(unit, unit) Engine" where
  "demo_engine = register_tool (RawTool (sample_info ''b''))
     (register_tool (RawTool (sample_info ''a'')) (Engine_with_config tiny_config))"

lemma sample_info_name [simp]: "info_name (sample_info x) = x"
  by (simp add: sample_info_def)

lemma demo_engine_lookup:
  "registry_get (eng_tools demo_engine) n =
     (if n = ''b'' then Some (RawTool (sample_info ''b''))
      else if n = ''a'' then Some (RawTool (sample_info ''a'')) else None)"
proof -
  have "registry_get (eng_tools (Engine_with_config tiny_config :: (unit, unit) Engine)) n = None"
    by (simp add: Engine_with_config_def registry_get_def obj_get_def)
  then show ?thesis by (simp add: demo_engine_def register_tool_lookup)
qed

theorem scoped_engine_holds_granted_tools_witness:
  "\<exists>tool. registry_get (eng_tools (build_scoped_engine demo_engine [] (dev_scope ''konf'')
     [sample_info ''a'', sample_info ''b''])) ''a'' = Some tool \<and> info_name (info tool) = ''a''"
proof -
  have ok: "registry_ok (eng_tools demo_engine)"
    unfolding registry_ok_def demo_engine_lookup by (auto split: if_splits)
  have na: "guard_alias [] n = None" for n by (simp add: guard_alias_def obj_get_def)
  have cov: "\<forall>n. registry_get (eng_tools demo_engine) n \<noteq> None \<longrightarrow>
      n \<in> info_name ` set [sample_info ''a'', sample_info ''b'']"
    unfolding demo_engine_lookup by auto
  have c: "is_ok (check_tool (dev_scope ''konf'') ''a'')" by code_simp
  let ?got = "registry_get (eng_tools (build_scoped_engine demo_engine [] (dev_scope ''konf'')
    [sample_info ''a'', sample_info ''b''])) ''a''"
  note h = scoped_engine_holds_granted_tools [OF ok na cov, where n = "''a''" and scope = "dev_scope ''konf''"
      and 'w = nat, THEN conjunct1]
  show ?thesis
  proof (cases ?got)
    case None
    then show ?thesis using h c by (simp add: demo_engine_lookup)
  next
    case (Some tool)
    with h have "info tool = sample_info ''a''" by (auto simp: demo_engine_lookup)
    then show ?thesis using Some by simp
  qed
qed

text \<open>
  An alias registers its target under the target's own name, without the scope's bindings
  and without guards, and even where the scope does not grant that name; the aliased name
  itself is not registered.
\<close>

lemma alias_registers_target_unwrapped:
  assumes "guard_alias guards ''a'' = Some ''b''" "is_ok (check_tool scope ''a'')"
  shows "registry_get (eng_tools (build_scoped_engine demo_engine guards scope [sample_info ''a''])) ''b'' =
      Some (RawTool (sample_info ''b''))"
    and "registry_get (eng_tools (build_scoped_engine demo_engine guards scope [sample_info ''a''])) ''a'' = None"
proof -
  have "build_scoped_engine demo_engine guards scope [sample_info ''a''] =
      register_tool (RawTool (sample_info ''b'')) (Engine_with_config (scoped_config (eng_config demo_engine) scope))"
    using assms by (simp add: build_scoped_engine_def scope_tool_def demo_engine_lookup)
  then show "registry_get (eng_tools (build_scoped_engine demo_engine guards scope [sample_info ''a''])) ''b'' =
      Some (RawTool (sample_info ''b''))"
    "registry_get (eng_tools (build_scoped_engine demo_engine guards scope [sample_info ''a''])) ''a'' = None"
    by (simp_all add: register_tool_lookup) (simp add: Engine_with_config_def registry_get_def obj_get_def)
qed

end
