(* ===== verification/Workflow_Tool.thy ===== *)
theory Workflow_Tool
  imports Runtime
begin

text \<open>
  Workflows as tools, \<^verbatim>\<open>konf-runtime/src/workflow_tool.rs\<close>, with the texts of
  \<open>RuntimeError\<close> (\<^verbatim>\<open>konf-runtime/src/error.rs\<close>) and \<open>Runtime::run\<close>
  (\<^verbatim>\<open>konf-runtime/src/runtime.rs\<close>). A nested run is the composition of four components:
  the runtime turns a scope into capability patterns and metadata, the executor puts them in
  the envelope of a step, the workflow tool rebuilds a scope from that envelope, and the
  runtime starts the inner workflow under it.
\<close>

section \<open>Error texts\<close>

fun show_JournalError :: "JournalError \<Rightarrow> string" where
  "show_JournalError (JStorage e) = ''storage: '' @ e"
| "show_JournalError (JSerialization e) = ''serialization: '' @ e"
| "show_JournalError JNotFound = ''not found''"

fun show_RuntimeError :: "(uuid \<Rightarrow> string) \<Rightarrow> RuntimeError \<Rightarrow> string" where
  "show_RuntimeError show_uuid (RNotFound rid) = ''workflow run not found: '' @ show_uuid rid"
| "show_RuntimeError show_uuid (RNotRunning rid) = ''workflow run '' @ show_uuid rid @ '' is not running''"
| "show_RuntimeError show_uuid (ResourceLimit limit v) =
     ''resource limit exceeded: '' @ limit @ '' (max '' @ show_nat v @ '')''"
| "show_RuntimeError show_uuid (RCapabilityDenied c) = ''capability denied: '' @ c"
| "show_RuntimeError show_uuid (DeadlineExceeded tool) = ''deadline exceeded for tool '' @ quoted tool"
| "show_RuntimeError show_uuid (RTool tool message) = ''tool '' @ quoted tool @ '' failed: '' @ message"
| "show_RuntimeError show_uuid (REngine e) = ''engine error: '' @ show_KonfluxError e"
| "show_RuntimeError show_uuid (RJoinFailed e) = ''join failed: '' @ e"
| "show_RuntimeError show_uuid (RJournal e) = ''journal: '' @ show_JournalError e"

section \<open>Start and wait\<close>

text \<open>
  \<open>polls\<close> gives the process tables that the polls of \<open>wait\<close> see after the start; \<open>None\<close> when
  the run is still going on in all of them.
\<close>

definition Runtime_run ::
  "(uuid \<Rightarrow> string) \<Rightarrow> 'j append_op \<Rightarrow> RunId \<Rightarrow> datetime \<Rightarrow> ToolInfo list \<Rightarrow>
   (('r, 'q, 'j) Runtime \<Rightarrow> ProcessTable list) \<Rightarrow> Workflow \<Rightarrow> json \<Rightarrow> ExecutionScope \<Rightarrow>
   ExecutionContext \<Rightarrow> ('r, 'q, 'j) Runtime \<Rightarrow> (RuntimeError + json) option \<times> ('r, 'q, 'j) Runtime" where
  "Runtime_run show_uuid japp rid now listing polls wfl input scope ctx rt =
     (case start show_uuid japp rid now listing wfl input scope ctx rt of
        (Inl e, rt') \<Rightarrow> (Some (Inl e), rt')
      | (Inr r, rt') \<Rightarrow> (wait (polls rt') r, rt'))"

section \<open>The tool\<close>

definition workflow_tool_name :: "string \<Rightarrow> string" where
  "workflow_tool_name wid = ''workflow:'' @ wid"

definition workflow_tool_info :: "Workflow \<Rightarrow> ToolInfo" where
  "workflow_tool_info wfl =
     \<lparr> info_name = workflow_tool_name (wf_id wfl),
       info_description = (case wf_description wfl of Some d \<Rightarrow> d | None \<Rightarrow> []),
       info_input_schema =
         (case wf_input_schema wfl of Some s \<Rightarrow> s | None \<Rightarrow> JObject [(''type'', JString ''object'')]),
       info_output_schema = wf_output_schema wfl,
       info_capabilities = [workflow_tool_name (wf_id wfl)],
       info_supports_streaming = True,
       info_annotations =
         \<lparr> read_only = False, destructive = False, idempotent = False, open_world = True \<rparr> \<rparr>"

definition nested_scope :: "json Envelope \<Rightarrow> RuntimeError + ExecutionScope" where
  "nested_scope env =
     (let caller_scope = scope_from_envelope env
      in child_scope caller_scope (scope_capabilities caller_scope) None)"

text \<open>The invocation, over \<open>run\<close>, the runtime's start-and-wait.\<close>

definition workflow_tool_invoke ::
  "(uuid \<Rightarrow> string) \<Rightarrow>
   (Workflow \<Rightarrow> json \<Rightarrow> ExecutionScope \<Rightarrow> ExecutionContext \<Rightarrow> 's \<Rightarrow> (RuntimeError + json) option \<times> 's) \<Rightarrow>
   uuid \<Rightarrow> datetime \<Rightarrow> Workflow \<Rightarrow> json Envelope \<Rightarrow> 's \<Rightarrow> (ToolError + json Envelope) option \<times> 's" where
  "workflow_tool_invoke show_uuid run fresh now wfl env s =
     (case nested_scope env of
        Inl e \<Rightarrow>
          (Some (Inl (ExecutionFailed
             (''Failed to create child scope: '' @ show_RuntimeError show_uuid e) False)), s)
      | Inr scope \<Rightarrow>
          (case run wfl (env_payload env) scope (ctx_from_envelope env) s of
             (None, s') \<Rightarrow> (None, s')
           | (Some (Inl e), s') \<Rightarrow>
               (Some (Inl (ExecutionFailed
                  (''Workflow '' @ quoted (wf_id wfl) @ '' failed: '' @ show_RuntimeError show_uuid e) False)), s')
           | (Some (Inr output), s') \<Rightarrow> (Some (Inr (respond fresh now env output)), s')))"

section \<open>Nesting\<close>

text \<open>
  \<open>nests s s'\<close>: a run under scope \<open>s\<close> has a step whose envelope makes a workflow tool start a
  run under scope \<open>s'\<close>.
\<close>

definition step_context_of ::
  "(uuid \<Rightarrow> string) \<Rightarrow> ToolRegistry \<Rightarrow> EngineConfig \<Rightarrow> string \<Rightarrow> ExecutionScope \<Rightarrow> ExecutionContext \<Rightarrow> StepContext" where
  "step_context_of show_uuid registry cfg wid scope ctx =
     \<lparr> sc_registry = registry, sc_capabilities = capability_patterns scope, sc_config = cfg,
       sc_metadata = build_execution_metadata show_uuid scope ctx, sc_workflow_id = wid \<rparr>"

inductive nests :: "'w Effects \<Rightarrow> ExecutionScope \<Rightarrow> ExecutionScope \<Rightarrow> bool" for fx :: "'w Effects" where
  step: "prepare_step fx (step_context_of show_uuid registry cfg wid s ctx) stp outputs w =
           Inr (tool, env) \<Longrightarrow>
         nested_scope env = Inr s' \<Longrightarrow> nests fx s s'"

inductive_cases nestsE: "nests fx s s'"

lemma nested_scope_ok:
  "nested_scope env = Inr (scope_from_envelope env\<lparr> scope_depth := scope_depth (scope_from_envelope env) + 1 \<rparr>)"
  by (auto simp: nested_scope_def Let_def child_scope_Inr grant_covers_iff_matches
      intro: Capability_matches_refl)

lemma prepare_step_envelope:
  assumes "prepare_step fx ctx step outputs w = Inr (tool, env)"
  shows "env_metadata env = [] \<and> env_namespace env = metadata_str ctx ''namespace'' \<and>
    env_actor_id env = metadata_str ctx ''actor_id'' \<and>
    env_capabilities env = CapSet_from_patterns (CapSet_patterns (env_capabilities env))"
  using assms
  by (auto simp: prepare_step_def rbind_eq_Inr for_tool_dispatch_def CapSet_from_patterns_def
      CapSet_patterns_def)

lemma metadata_of_scope:
  "metadata_str (step_context_of show_uuid registry cfg wid s ctx) ''namespace'' = scope_namespace s"
  "metadata_str (step_context_of show_uuid registry cfg wid s ctx) ''actor_id'' = actor_id (scope_actor s)"
  by (simp_all add: metadata_str_def step_context_of_def build_execution_metadata_def obj_of_list_def
      obj_get_def)

lemma scope_permits_patterns:
  "scope_permits s t \<longleftrightarrow> CapSet_permits (CapSet_from_patterns (capability_patterns s)) t"
  by (auto simp: scope_permits_iff CapSet_permits_iff CapSet_from_patterns_def capability_patterns_def)

lemma nested_scope_fields:
  assumes "nests fx s s'"
  shows "(scope_permits s' t \<longrightarrow> scope_permits s t) \<and> scope_namespace s' = scope_namespace s \<and>
    scope_actor s' = \<lparr> actor_id = actor_id (scope_actor s), actor_role = System \<rparr> \<and>
    scope_depth s' = 1 \<and> scope_limits s' = ResourceLimits_default \<and>
    (\<forall>g \<in> set (scope_capabilities s'). grant_bindings g = [])"
  using assms
proof (rule nestsE)
  fix show_uuid registry cfg wid ctx stp outputs w tool env
  assume p: "prepare_step fx (step_context_of show_uuid registry cfg wid s ctx) stp outputs w = Inr (tool, env)"
    and n: "nested_scope env = Inr s'"
  note e = prepare_step_envelope [OF p]
  have caps: "capability_patterns s' = CapSet_patterns (env_capabilities env)"
    using n by (auto simp: nested_scope_ok scope_from_envelope_def capability_patterns_def
        CapabilityGrant_new_def comp_def)
  have "scope_permits s' t \<longrightarrow> scope_permits s t"
    using prepare_step_Inr [OF p, of t] e by (simp add: scope_permits_patterns caps step_context_of_def)
  moreover have "s' = scope_from_envelope env\<lparr> scope_depth := scope_depth (scope_from_envelope env) + 1 \<rparr>"
    using n by (simp add: nested_scope_ok)
  ultimately show ?thesis
    using e by (auto simp: scope_from_envelope_def metadata_of_scope obj_get_def CapabilityGrant_new_def)
qed

section \<open>Properties\<close>

text \<open>
  C32. Nested workflows. However deep workflow tools call workflow tools, a tool the innermost
  run may call is one the outermost scope grants, and namespace and actor are those of the
  outermost run. The depth does not accumulate: the executor's envelopes carry no metadata, so
  every nested run is at depth one with the default limits, as the system role and without
  the parameter bindings of the outer grants; the limit on the nesting depth never refuses it.
\<close>

theorem nested_workflows_keep_authority:
  assumes "(nests fx)\<^sup>+\<^sup>+ s s'"
  shows "(is_ok (check_tool s' t) \<longrightarrow> is_ok (check_tool s t)) \<and> scope_namespace s' = scope_namespace s \<and>
    scope_actor s' = \<lparr> actor_id = actor_id (scope_actor s), actor_role = System \<rparr> \<and>
    scope_depth s' = 1 \<and> scope_depth s' < max_child_depth (scope_limits s') \<and>
    (\<forall>g \<in> set (scope_capabilities s'). grant_bindings g = [])"
proof -
  have "(scope_permits s' t \<longrightarrow> scope_permits s t) \<and> scope_namespace s' = scope_namespace s \<and>
    scope_actor s' = \<lparr> actor_id = actor_id (scope_actor s), actor_role = System \<rparr> \<and>
    scope_depth s' = 1 \<and> scope_limits s' = ResourceLimits_default \<and>
    (\<forall>g \<in> set (scope_capabilities s'). grant_bindings g = [])"
    using assms by induction (auto dest!: nested_scope_fields [where t = t])
  then show ?thesis by (simp add: scope_permits_def ResourceLimits_default_def)
qed

theorem nested_workflows_keep_authority_witness:
  "\<exists>s'. (nests sample_fx)\<^sup>+\<^sup>+ (dev_scope ''konf'') s' \<and> scope_depth s' = 1 \<and>
     actor_role (scope_actor s') = System"
proof -
  let ?c = "step_context_of (\<lambda>_. []) (register (RawTool (sample_info ''echo'')) []) EngineConfig_default ''w''
    (dev_scope ''konf'') (new_root 3 ''s'')"
  have "check_tool_access ''echo'' (capability_patterns (dev_scope ''konf'')) = Inr ()"
    unfolding check_tool_access_def check_access_iff_permits
    by (auto simp: CapSet_permits_iff CapSet_from_patterns_def capability_patterns_def dev_scope_def
        scope_from_role_def CapabilityGrant_new_def Capability_matches_def)
  then have "is_ok (prepare_step sample_fx ?c sample_retry_step [] 0)"
    by (simp add: prepare_step_def sample_retry_step_def Step_new_def resolve_inputs_def
        step_context_of_def register_def registry_get_def obj_get_def sample_info_def)
  then obtain tool env where p: "prepare_step sample_fx ?c sample_retry_step [] 0 = Inr (tool, env)"
    by (cases "prepare_step sample_fx ?c sample_retry_step [] 0") auto
  have "nests sample_fx (dev_scope ''konf'')
      (scope_from_envelope env\<lparr> scope_depth := scope_depth (scope_from_envelope env) + 1 \<rparr>)"
    by (rule nests.step [OF p nested_scope_ok])
  then have n: "(nests sample_fx)\<^sup>+\<^sup>+ (dev_scope ''konf'')
      (scope_from_envelope env\<lparr> scope_depth := scope_depth (scope_from_envelope env) + 1 \<rparr>)" by blast
  from nested_workflows_keep_authority [OF n] n show ?thesis by auto
qed

end
