(* ===== verification/Scheduler.thy ===== *)
theory Scheduler
  imports Workflow_Tool "HOL-Library.Product_Lexorder"
begin

text \<open>
  The durable scheduler, \<^verbatim>\<open>konf-runtime/src/scheduler.rs\<close>, and the tools over it,
  \<^verbatim>\<open>konf-init/src/schedule.rs\<close>.

  The two redb tables are ordered tables; the state also keeps the events put on the bus and
  the tool invocations that fires spawn. An operation runs in one redb transaction, which
  takes effect as a whole or, with \<open>fault = Some e\<close>, fails with \<open>e\<close> and changes nothing. The
  codecs (\<^verbatim>\<open>postcard\<close>, \<^verbatim>\<open>serde_json\<close>'s text, \<^verbatim>\<open>chrono\<close>'s range checks) are the record
  \<open>timer_codec\<close>; \<^verbatim>\<open>cron\<close> expressions are the parameter \<open>cron\<close>, which maps an expression to a
  parse error or to the function from a time to the next fire time.
\<close>

section \<open>Records\<close>

datatype TimerMode = TimerOnce | TimerFixed u64 | TimerCron string

record TimerRecord =
  tm_job_id :: JobId
  tm_workflow :: string
  tm_input :: json
  tm_namespace :: string
  tm_capabilities :: "string list"
  tm_actor :: Actor
  tm_mode :: TimerMode
  tm_created_at :: datetime
  tm_created_by :: string

record StoredTimer =
  stt_job_id_bytes :: uuid
  stt_workflow :: string
  stt_input_json :: string
  stt_namespace :: string
  stt_capabilities :: "string list"
  stt_actor :: Actor
  stt_mode :: TimerMode
  stt_created_at_micros :: int
  stt_created_by :: string

datatype SchedulerError =
    SchedStorage string
  | SchedSerialization string
  | SchedInvalid string
  | SchedNotFound JobId
  | SchedJoin string

fun show_SchedulerError :: "(uuid \<Rightarrow> string) \<Rightarrow> SchedulerError \<Rightarrow> string" where
  "show_SchedulerError show_uuid (SchedStorage e) = ''storage: '' @ e"
| "show_SchedulerError show_uuid (SchedSerialization e) = ''serialization: '' @ e"
| "show_SchedulerError show_uuid (SchedInvalid e) = ''invalid input: '' @ e"
| "show_SchedulerError show_uuid (SchedNotFound j) = ''job not found: '' @ show_uuid j"
| "show_SchedulerError show_uuid (SchedJoin e) = ''task join: '' @ e"

definition MIN_FIXED_DELAY_MS :: u64 where
  "MIN_FIXED_DELAY_MS = 1000"

definition MAX_FIXED_DELAY_MS :: u64 where
  "MAX_FIXED_DELAY_MS = 7 * 24 * 3600 * 1000"

record timer_codec =
  tc_json_to_string :: "json \<Rightarrow> string + string"
  tc_json_from_str :: "string \<Rightarrow> string + json"
  tc_encode :: "StoredTimer \<Rightarrow> string + bytes"
  tc_decode :: "bytes \<Rightarrow> string + StoredTimer"
  tc_timestamp_micros :: "int \<Rightarrow> datetime option"
  tc_timestamp_millis :: "int \<Rightarrow> datetime option"

type_synonym cron = "string \<Rightarrow> string + (datetime \<Rightarrow> datetime option)"

definition from_record :: "timer_codec \<Rightarrow> TimerRecord \<Rightarrow> SchedulerError + StoredTimer" where
  "from_record tc record =
     rbind (map_err SchedSerialization (tc_json_to_string tc (tm_input record))) (\<lambda>input_json.
       Inr \<lparr> stt_job_id_bytes = tm_job_id record, stt_workflow = tm_workflow record,
             stt_input_json = input_json, stt_namespace = tm_namespace record,
             stt_capabilities = tm_capabilities record, stt_actor = tm_actor record,
             stt_mode = tm_mode record, stt_created_at_micros = timestamp_micros (tm_created_at record),
             stt_created_by = tm_created_by record \<rparr>)"

definition into_record :: "timer_codec \<Rightarrow> datetime \<Rightarrow> StoredTimer \<Rightarrow> SchedulerError + TimerRecord" where
  "into_record tc now st =
     rbind (map_err SchedSerialization (tc_json_from_str tc (stt_input_json st))) (\<lambda>input.
       Inr \<lparr> tm_job_id = stt_job_id_bytes st, tm_workflow = stt_workflow st, tm_input = input,
             tm_namespace = stt_namespace st, tm_capabilities = stt_capabilities st,
             tm_actor = stt_actor st, tm_mode = stt_mode st,
             tm_created_at =
               (case tc_timestamp_micros tc (stt_created_at_micros st) of Some t \<Rightarrow> t | None \<Rightarrow> now),
             tm_created_by = stt_created_by st \<rparr>)"

record JobSummary =
  js_job_id :: JobId
  js_workflow :: string
  js_namespace :: string
  js_next_fire_at :: datetime
  js_mode :: TimerMode
  js_created_at :: datetime
  js_created_by :: string

definition new_record ::
  "uuid \<Rightarrow> datetime \<Rightarrow> string \<Rightarrow> json \<Rightarrow> string \<Rightarrow> string list \<Rightarrow> Actor \<Rightarrow> string \<Rightarrow> TimerRecord" where
  "new_record fresh now workflow input namespace capabilities actor created_by =
     \<lparr> tm_job_id = fresh, tm_workflow = workflow, tm_input = input, tm_namespace = namespace,
       tm_capabilities = capabilities, tm_actor = actor, tm_mode = TimerOnce, tm_created_at = now,
       tm_created_by = created_by \<rparr>"

section \<open>Tables and scheduling\<close>

record RedbScheduler =
  sch_timers :: "((u64 \<times> uuid) \<times> bytes) list"
  sch_by_id :: "(uuid \<times> u64) list"
  sch_events :: "RunEvent list"
  sch_spawned :: "(Tool \<times> json Envelope) list"

definition RedbScheduler_new :: RedbScheduler where
  "RedbScheduler_new = \<lparr> sch_timers = [], sch_by_id = [], sch_events = [], sch_spawned = [] \<rparr>"

definition fire_at_ms_of :: "datetime \<Rightarrow> u64" where
  "fire_at_ms_of run_at = of_int (max 0 (timestamp_millis run_at))"

definition validate_record :: "TimerRecord \<Rightarrow> SchedulerError + unit" where
  "validate_record record =
     (if tm_workflow record = [] then Inl (SchedInvalid ''workflow id is empty'')
      else if tm_namespace record = [] then Inl (SchedInvalid ''namespace is empty'')
      else Inr ())"

definition put_timer :: "u64 \<Rightarrow> uuid \<Rightarrow> bytes \<Rightarrow> RedbScheduler \<Rightarrow> RedbScheduler" where
  "put_timer fire_at job_id bs s =
     s\<lparr> sch_timers := btree_insert (fire_at, job_id) bs (sch_timers s),
        sch_by_id := btree_insert job_id fire_at (sch_by_id s) \<rparr>"

definition insert_new ::
  "timer_codec \<Rightarrow> SchedulerError option \<Rightarrow> TimerRecord \<Rightarrow> datetime \<Rightarrow> RedbScheduler \<Rightarrow>
   (SchedulerError + JobId) \<times> RedbScheduler" where
  "insert_new tc fault record run_at s =
     (case rbind (from_record tc record) (\<lambda>st. map_err SchedSerialization (tc_encode tc st)) of
        Inl e \<Rightarrow> (Inl e, s)
      | Inr bs \<Rightarrow>
          (case fault of
             Some e \<Rightarrow> (Inl e, s)
           | None \<Rightarrow> (Inr (tm_job_id record), put_timer (fire_at_ms_of run_at) (tm_job_id record) bs s)))"

definition schedule_once ::
  "timer_codec \<Rightarrow> SchedulerError option \<Rightarrow> TimerRecord \<Rightarrow> datetime \<Rightarrow> RedbScheduler \<Rightarrow>
   (SchedulerError + JobId) \<times> RedbScheduler" where
  "schedule_once tc fault record run_at s =
     (case validate_record record of
        Inl e \<Rightarrow> (Inl e, s)
      | Inr _ \<Rightarrow> insert_new tc fault (record\<lparr> tm_mode := TimerOnce \<rparr>) run_at s)"

definition plus_millis :: "datetime \<Rightarrow> u64 \<Rightarrow> datetime" where
  "plus_millis t delay_ms = t + sint delay_ms * 1000000"

definition delay_in_range :: "u64 \<Rightarrow> bool" where
  "delay_in_range d = (MIN_FIXED_DELAY_MS \<le> d \<and> d \<le> MAX_FIXED_DELAY_MS)"

definition delay_range_text :: "u64 \<Rightarrow> string" where
  "delay_range_text d =
     ''delay_ms='' @ show_u64 d @ '' out of range ('' @ show_u64 MIN_FIXED_DELAY_MS
       @ [CHR 0xE2, CHR 0x80, CHR 0x93] @ show_u64 MAX_FIXED_DELAY_MS @ '')''"

definition schedule_fixed ::
  "timer_codec \<Rightarrow> SchedulerError option \<Rightarrow> datetime \<Rightarrow> TimerRecord \<Rightarrow> u64 \<Rightarrow> RedbScheduler \<Rightarrow>
   (SchedulerError + JobId) \<times> RedbScheduler" where
  "schedule_fixed tc fault now record delay_ms s =
     (if \<not> delay_in_range delay_ms then (Inl (SchedInvalid (delay_range_text delay_ms)), s)
      else (case validate_record record of
        Inl e \<Rightarrow> (Inl e, s)
      | Inr _ \<Rightarrow>
          insert_new tc fault (record\<lparr> tm_mode := TimerFixed delay_ms \<rparr>) (plus_millis now delay_ms) s))"

definition schedule_cron ::
  "timer_codec \<Rightarrow> cron \<Rightarrow> SchedulerError option \<Rightarrow> datetime \<Rightarrow> TimerRecord \<Rightarrow> string \<Rightarrow> RedbScheduler \<Rightarrow>
   (SchedulerError + JobId) \<times> RedbScheduler" where
  "schedule_cron tc cron fault now record expr s =
     (case validate_record record of
        Inl e \<Rightarrow> (Inl e, s)
      | Inr _ \<Rightarrow>
          (case cron expr of
             Inl e \<Rightarrow> (Inl (SchedInvalid (''cron: '' @ e)), s)
           | Inr upcoming \<Rightarrow>
               (case upcoming now of
                  None \<Rightarrow> (Inl (SchedInvalid ''cron expression has no upcoming fire time''), s)
                | Some run_at \<Rightarrow> insert_new tc fault (record\<lparr> tm_mode := TimerCron expr \<rparr>) run_at s)))"

definition sched_cancel ::
  "SchedulerError option \<Rightarrow> JobId \<Rightarrow> RedbScheduler \<Rightarrow> (SchedulerError + bool) \<times> RedbScheduler" where
  "sched_cancel fault job_id s =
     (case fault of
        Some e \<Rightarrow> (Inl e, s)
      | None \<Rightarrow>
          (case map_of (sch_by_id s) job_id of
             Some fire_at \<Rightarrow>
               (Inr True, s\<lparr> sch_timers := btree_remove (fire_at, job_id) (sch_timers s),
                             sch_by_id := btree_remove job_id (sch_by_id s) \<rparr>)
           | None \<Rightarrow> (Inr False, s)))"

definition decode_timer :: "timer_codec \<Rightarrow> bytes \<Rightarrow> SchedulerError + StoredTimer" where
  "decode_timer tc bs = map_err SchedSerialization (tc_decode tc bs)"

fun list_timers ::
  "timer_codec \<Rightarrow> datetime \<Rightarrow> string option \<Rightarrow> ((u64 \<times> uuid) \<times> bytes) list \<Rightarrow> SchedulerError + JobSummary list" where
  "list_timers tc now namespace_prefix [] = Inr []"
| "list_timers tc now namespace_prefix (((fire_at_ms, _), bs) # rest) =
     rbind (decode_timer tc bs) (\<lambda>stored.
       if (case namespace_prefix of
             Some p \<Rightarrow> \<not> starts_with (stt_namespace stored) p | None \<Rightarrow> False)
       then list_timers tc now namespace_prefix rest
       else rbind (into_record tc now stored) (\<lambda>record.
         map_ok ((#) \<lparr> js_job_id = tm_job_id record, js_workflow = tm_workflow record,
                       js_namespace = tm_namespace record,
                       js_next_fire_at =
                         (case tc_timestamp_millis tc (sint fire_at_ms) of Some t \<Rightarrow> t | None \<Rightarrow> now),
                       js_mode = tm_mode record, js_created_at = tm_created_at record,
                       js_created_by = tm_created_by record \<rparr>)
           (list_timers tc now namespace_prefix rest)))"

definition sched_list ::
  "timer_codec \<Rightarrow> SchedulerError option \<Rightarrow> datetime \<Rightarrow> string option \<Rightarrow> RedbScheduler \<Rightarrow>
   SchedulerError + JobSummary list" where
  "sched_list tc fault now namespace_prefix s =
     (case fault of Some e \<Rightarrow> Inl e | None \<Rightarrow> list_timers tc now namespace_prefix (sch_timers s))"

definition sched_len :: "SchedulerError option \<Rightarrow> RedbScheduler \<Rightarrow> SchedulerError + nat" where
  "sched_len fault s = (case fault of Some e \<Rightarrow> Inl e | None \<Rightarrow> Inr (length (sch_timers s)))"

section \<open>Polling\<close>

text \<open>The range scan below \<open>(now_ms + 1, [])\<close>, saturating.\<close>

definition due_bound :: "u64 \<Rightarrow> u64" where
  "due_bound now_ms = (if now_ms = - 1 then now_ms else now_ms + 1)"

definition due_record ::
  "timer_codec \<Rightarrow> datetime \<Rightarrow> (u64 \<times> uuid) \<times> bytes \<Rightarrow> SchedulerError + u64 \<times> TimerRecord" where
  "due_record tc now kv =
     rbind (decode_timer tc (snd kv)) (\<lambda>stored.
       map_ok (\<lambda>record. (fst (fst kv), record)) (into_record tc now stored))"

definition collect_due ::
  "timer_codec \<Rightarrow> SchedulerError option \<Rightarrow> datetime \<Rightarrow> u64 \<Rightarrow> RedbScheduler \<Rightarrow>
   SchedulerError + (u64 \<times> TimerRecord) list" where
  "collect_due tc fault now now_ms s =
     (case fault of
        Some e \<Rightarrow> Inl e
      | None \<Rightarrow> map_results (due_record tc now)
          (List.filter (\<lambda>((fire_at, _), _). fire_at < due_bound now_ms) (sch_timers s)))"

definition next_fire_after :: "cron \<Rightarrow> datetime \<Rightarrow> TimerMode \<Rightarrow> datetime option" where
  "next_fire_after cron now mode =
     (case mode of
        TimerOnce \<Rightarrow> None
      | TimerFixed delay_ms \<Rightarrow> Some (plus_millis now delay_ms)
      | TimerCron expr \<Rightarrow> (case cron expr of Inr upcoming \<Rightarrow> upcoming now | Inl _ \<Rightarrow> None))"

definition reschedule ::
  "timer_codec \<Rightarrow> SchedulerError option \<Rightarrow> u64 \<Rightarrow> TimerRecord \<Rightarrow> datetime option \<Rightarrow> RedbScheduler \<Rightarrow>
   (SchedulerError + unit) \<times> RedbScheduler" where
  "reschedule tc fault old_fire_at record next_at s =
     (case (case next_at of
              Some t \<Rightarrow> map_ok (\<lambda>bs. Some (fire_at_ms_of t, bs))
                (rbind (from_record tc record) (\<lambda>st. map_err SchedSerialization (tc_encode tc st)))
            | None \<Rightarrow> Inr None) of
        Inl e \<Rightarrow> (Inl e, s)
      | Inr entry \<Rightarrow>
          (case fault of
             Some e \<Rightarrow> (Inl e, s)
           | None \<Rightarrow>
               (let job_id = tm_job_id record;
                    s1 = s\<lparr> sch_timers := btree_remove (old_fire_at, job_id) (sch_timers s) \<rparr>
                in (Inr (),
                    case entry of
                      Some (ms, bs) \<Rightarrow> put_timer ms job_id bs s1
                    | None \<Rightarrow> s1\<lparr> sch_by_id := btree_remove job_id (sch_by_id s1) \<rparr>))))"

text \<open>
  The surroundings of one fire: the live registry (\<open>None\<close> when the runtime is gone), the
  clock, the fresh ids and the outcome of the transaction.
\<close>

record FireEnv =
  fe_registry :: "ToolRegistry option"
  fe_now :: datetime
  fe_fresh :: uuid
  fe_trace :: uuid
  fe_fault :: "SchedulerError option"

definition fire_envelope :: "(uuid \<Rightarrow> string) \<Rightarrow> FireEnv \<Rightarrow> TimerRecord \<Rightarrow> json Envelope" where
  "fire_envelope show_uuid fe record =
     for_tool_dispatch (fe_fresh fe) (fe_now fe) (workflow_tool_name (tm_workflow record)) (tm_input record)
       (tm_capabilities record) (fe_trace fe) (tm_namespace record) (actor_id (tm_actor record))
       (''scheduler:'' @ show_uuid (tm_job_id record))"

definition fire_and_reschedule ::
  "timer_codec \<Rightarrow> cron \<Rightarrow> (uuid \<Rightarrow> string) \<Rightarrow> FireEnv \<Rightarrow> u64 \<Rightarrow> TimerRecord \<Rightarrow> RedbScheduler \<Rightarrow>
   (SchedulerError + unit) \<times> RedbScheduler" where
  "fire_and_reschedule tc cron show_uuid fe old_fire_at record s =
     (case fe_registry fe of
        None \<Rightarrow> (Inr (), s)
      | Some registry \<Rightarrow>
          (case registry_get registry (workflow_tool_name (tm_workflow record)) of
             None \<Rightarrow>
               (Inr (), s\<lparr> sch_events := emit (ScheduleFailed (tm_job_id record) (tm_workflow record)
                  (''workflow '' @ quoted (tm_workflow record) @ '' not found in registry'')) (sch_events s) \<rparr>)
           | Some tool \<Rightarrow>
               reschedule tc (fe_fault fe) old_fire_at record
                 (next_fire_after cron (fe_now fe) (tm_mode record))
                 (s\<lparr> sch_events := emit (ScheduleFired (tm_job_id record) (tm_workflow record)
                       (tm_namespace record) (fe_now fe)) (sch_events s),
                    sch_spawned := sch_spawned s @ [(tool, fire_envelope show_uuid fe record)] \<rparr>)))"

text \<open>One poll: the due timers in order; an error ends the poll.\<close>

fun fire_all ::
  "(u64 \<Rightarrow> TimerRecord \<Rightarrow> RedbScheduler \<Rightarrow> (SchedulerError + unit) \<times> RedbScheduler) \<Rightarrow>
   (u64 \<times> TimerRecord) list \<Rightarrow> RedbScheduler \<Rightarrow> (SchedulerError + unit) \<times> RedbScheduler" where
  "fire_all fire [] s = (Inr (), s)"
| "fire_all fire ((old_fire_at, record) # later) s =
     (case fire old_fire_at record s of
        (Inl e, s') \<Rightarrow> (Inl e, s')
      | (Inr _, s') \<Rightarrow> fire_all fire later s')"

definition tick ::
  "timer_codec \<Rightarrow> cron \<Rightarrow> (uuid \<Rightarrow> string) \<Rightarrow> (TimerRecord \<Rightarrow> FireEnv) \<Rightarrow> SchedulerError option \<Rightarrow> datetime \<Rightarrow>
   RedbScheduler \<Rightarrow> (SchedulerError + unit) \<times> RedbScheduler" where
  "tick tc cron show_uuid envs fault now s =
     (case collect_due tc fault now (fire_at_ms_of now) s of
        Inl e \<Rightarrow> (Inl e, s)
      | Inr due_timers \<Rightarrow> fire_all (\<lambda>old record. fire_and_reschedule tc cron show_uuid (envs record) old record)
          due_timers s)"

section \<open>Invariant\<close>

text \<open>
  What is used of the codecs on a stored timer: it can be written and read back, and its
  input and time of creation survive the way through the record.
\<close>

definition stored_ok :: "timer_codec \<Rightarrow> StoredTimer \<Rightarrow> bytes \<Rightarrow> bool" where
  "stored_ok tc st bs \<longleftrightarrow>
     tc_encode tc st = Inr bs \<and> tc_decode tc bs = Inr st \<and>
     (\<exists>input. tc_json_from_str tc (stt_input_json st) = Inr input \<and>
        tc_json_to_string tc input = Inr (stt_input_json st)) \<and>
     (\<exists>t. tc_timestamp_micros tc (stt_created_at_micros st) = Some t \<and>
        timestamp_micros t = stt_created_at_micros st)"

definition timer_fits :: "timer_codec \<Rightarrow> TimerRecord \<Rightarrow> bool" where
  "timer_fits tc record \<longleftrightarrow> (\<exists>st bs. from_record tc record = Inr st \<and> stored_ok tc st bs)"

fun mode_ok :: "TimerMode \<Rightarrow> bool" where
  "mode_ok (TimerFixed d) = delay_in_range d"
| "mode_ok _ = True"

definition entry_fits :: "timer_codec \<Rightarrow> uuid \<Rightarrow> bytes \<Rightarrow> bool" where
  "entry_fits tc job_id bs \<longleftrightarrow>
     (\<exists>st. stored_ok tc st bs \<and> stt_job_id_bytes st = job_id \<and> mode_ok (stt_mode st))"

definition tables_agree :: "RedbScheduler \<Rightarrow> bool" where
  "tables_agree s \<longleftrightarrow>
     (\<forall>f i. map_of (sch_timers s) (f, i) = None \<longleftrightarrow> map_of (sch_by_id s) i \<noteq> Some f)"

definition sched_ok :: "timer_codec \<Rightarrow> RedbScheduler \<Rightarrow> bool" where
  "sched_ok tc s \<longleftrightarrow>
     btree_ok (sch_timers s) \<and> btree_ok (sch_by_id s) \<and> tables_agree s \<and>
     (\<forall>f i bs. map_of (sch_timers s) (f, i) = Some bs \<longrightarrow> entry_fits tc i bs)"

lemma stored_ok_record:
  assumes "stored_ok tc st bs"
  obtains r where "\<And>now. into_record tc now st = Inr r" "from_record tc r = Inr st"
    "tm_job_id r = stt_job_id_bytes st" "tm_mode r = stt_mode st" "tm_workflow r = stt_workflow st"
proof -
  from assms obtain input t where i: "tc_json_from_str tc (stt_input_json st) = Inr input"
      "tc_json_to_string tc input = Inr (stt_input_json st)"
    and t: "tc_timestamp_micros tc (stt_created_at_micros st) = Some t"
      "timestamp_micros t = stt_created_at_micros st"
    by (auto simp: stored_ok_def)
  let ?r = "\<lparr> tm_job_id = stt_job_id_bytes st, tm_workflow = stt_workflow st, tm_input = input,
    tm_namespace = stt_namespace st, tm_capabilities = stt_capabilities st, tm_actor = stt_actor st,
    tm_mode = stt_mode st, tm_created_at = t, tm_created_by = stt_created_by st \<rparr>"
  show ?thesis
    by (rule that [of ?r]) (simp_all add: into_record_def from_record_def i t)
qed

lemma from_record_fields:
  "from_record tc r = Inr st \<Longrightarrow> stt_job_id_bytes st = tm_job_id r \<and> stt_mode st = tm_mode r"
  by (auto simp: from_record_def rbind_eq_Inr)

lemma timer_fits_bytes:
  assumes "timer_fits tc r" "mode_ok (tm_mode r)"
  obtains bs where "rbind (from_record tc r) (\<lambda>st. map_err SchedSerialization (tc_encode tc st)) = Inr bs"
    "entry_fits tc (tm_job_id r) bs"
proof -
  from assms(1) obtain st bs where "from_record tc r = Inr st" "stored_ok tc st bs"
    by (auto simp: timer_fits_def)
  with assms(2) from_record_fields [OF this(1)] show ?thesis
    by (intro that [of bs]) (auto simp: stored_ok_def entry_fits_def)
qed

lemma put_timer_ok:
  assumes "sched_ok tc s" "map_of (sch_by_id s) i = None \<or> map_of (sch_by_id s) i = Some old"
    and "entry_fits tc i bs"
  shows "sched_ok tc (put_timer ms i bs (s\<lparr> sch_timers := btree_remove (old, i) (sch_timers s) \<rparr>))"
  using assms by (auto simp: sched_ok_def put_timer_def tables_agree_def btree.lookup_put btree.lookup_del)

lemma drop_timer_ok:
  assumes "sched_ok tc s" "map_of (sch_by_id s) i = None \<or> map_of (sch_by_id s) i = Some old"
  shows "sched_ok tc (s\<lparr> sch_timers := btree_remove (old, i) (sch_timers s),
    sch_by_id := btree_remove i (sch_by_id s) \<rparr>)"
  using assms by (auto simp: sched_ok_def tables_agree_def btree.lookup_del)

lemma put_new_timer_ok:
  assumes "sched_ok tc s" "map_of (sch_by_id s) i = None" "entry_fits tc i bs"
  shows "sched_ok tc (put_timer ms i bs s)"
  using assms by (auto simp: sched_ok_def put_timer_def tables_agree_def btree.lookup_put)

section \<open>Interleavings\<close>

text \<open>
  The scheduler with its clients: schedules and cancellations interleave with the fires of a
  poll, which holds the timers it collected. A schedule uses a fresh job id, as
  \<^verbatim>\<open>Uuid::new_v4()\<close> gives one.
\<close>

datatype sched_request = OnceAt datetime | EveryMillis u64 | OnCron string

fun schedule ::
  "timer_codec \<Rightarrow> cron \<Rightarrow> SchedulerError option \<Rightarrow> datetime \<Rightarrow> TimerRecord \<Rightarrow> sched_request \<Rightarrow> RedbScheduler \<Rightarrow>
   (SchedulerError + JobId) \<times> RedbScheduler" where
  "schedule tc cron fault now record (OnceAt run_at) s = schedule_once tc fault record run_at s"
| "schedule tc cron fault now record (EveryMillis d) s = schedule_fixed tc fault now record d s"
| "schedule tc cron fault now record (OnCron expr) s = schedule_cron tc cron fault now record expr s"

fun request_mode :: "sched_request \<Rightarrow> TimerMode" where
  "request_mode (OnceAt run_at) = TimerOnce"
| "request_mode (EveryMillis d) = TimerFixed d"
| "request_mode (OnCron expr) = TimerCron expr"

inductive sched_step ::
  "timer_codec \<Rightarrow> cron \<Rightarrow> (uuid \<Rightarrow> string) \<Rightarrow> RedbScheduler \<times> (u64 \<times> TimerRecord) list \<Rightarrow>
   RedbScheduler \<times> (u64 \<times> TimerRecord) list \<Rightarrow> bool"
  for tc :: timer_codec and cron :: cron and show_uuid :: "uuid \<Rightarrow> string" where
  schedule: "map_of (sch_by_id s) (tm_job_id record) = None \<Longrightarrow>
       tm_job_id record \<notin> (\<lambda>(f, r). tm_job_id r) ` set p \<Longrightarrow>
       timer_fits tc (record\<lparr> tm_mode := request_mode req \<rparr>) \<Longrightarrow>
     sched_step tc cron show_uuid (s, p) (snd (schedule tc cron fault now record req s), p)"
| cancel: "sched_step tc cron show_uuid (s, p) (snd (sched_cancel fault i s), p)"
| collect: "collect_due tc fault now (fire_at_ms_of now) s = Inr p \<Longrightarrow>
     sched_step tc cron show_uuid (s, []) (s, p)"
| fire: "fire_and_reschedule tc cron show_uuid fe old record s = (res, s') \<Longrightarrow>
     sched_step tc cron show_uuid (s, (old, record) # p) (s', if is_ok res then p else [])"

inductive_cases sched_stepE: "sched_step tc cron show_uuid sp sp'"

text \<open>A collected timer has not been rescheduled by anyone else.\<close>

definition pending_ok :: "timer_codec \<Rightarrow> RedbScheduler \<Rightarrow> (u64 \<times> TimerRecord) list \<Rightarrow> bool" where
  "pending_ok tc s p \<longleftrightarrow>
     distinct (map (\<lambda>(f, r). tm_job_id r) p) \<and>
     (\<forall>(f, r) \<in> set p. timer_fits tc r \<and> mode_ok (tm_mode r) \<and>
        (map_of (sch_by_id s) (tm_job_id r) = None \<or> map_of (sch_by_id s) (tm_job_id r) = Some f))"

definition other_jobs_kept :: "uuid \<Rightarrow> RedbScheduler \<Rightarrow> RedbScheduler \<Rightarrow> bool" where
  "other_jobs_kept i s s' \<longleftrightarrow>
     (\<forall>j. j \<noteq> i \<longrightarrow> map_of (sch_by_id s') j = map_of (sch_by_id s) j \<and>
        (\<forall>f. map_of (sch_timers s') (f, j) = map_of (sch_timers s) (f, j)))"

lemma pending_ok_mono:
  assumes "pending_ok tc s p" "other_jobs_kept i s s'"
    and "i \<notin> (\<lambda>(f, r). tm_job_id r) ` set p \<or> map_of (sch_by_id s') i = None"
  shows "pending_ok tc s' p"
  unfolding pending_ok_def
proof (intro conjI ballI, goal_cases)
  case 1
  then show ?case using assms(1) by (simp add: pending_ok_def)
next
  case (2 x)
  obtain f r where x: "x = (f, r)" by force
  then have "tm_job_id r \<in> (\<lambda>(f, r). tm_job_id r) ` set p" using 2 by force
  with assms(2,3) have "map_of (sch_by_id s') (tm_job_id r) = map_of (sch_by_id s) (tm_job_id r) \<or>
      map_of (sch_by_id s') (tm_job_id r) = None"
    by (cases "tm_job_id r = i") (auto simp: other_jobs_kept_def)
  with assms(1) 2 x show ?case by (auto simp: pending_ok_def)
qed

lemma insert_new_ok:
  assumes "sched_ok tc s" "map_of (sch_by_id s) (tm_job_id r) = None" "timer_fits tc r" "mode_ok (tm_mode r)"
  shows "sched_ok tc (snd (insert_new tc fault r run_at s)) \<and>
    other_jobs_kept (tm_job_id r) s (snd (insert_new tc fault r run_at s))"
proof -
  obtain bs where bs: "rbind (from_record tc r) (\<lambda>st. map_err SchedSerialization (tc_encode tc st)) = Inr bs"
    and fits: "entry_fits tc (tm_job_id r) bs"
    using assms(3,4) by (rule timer_fits_bytes)
  show ?thesis
    using put_new_timer_ok [OF assms(1,2) fits]
    by (auto simp: insert_new_def bs assms(1) other_jobs_kept_def put_timer_def btree.lookup_put
        split: option.split)
qed

lemma schedule_ok:
  assumes s: "sched_ok tc s" and new: "map_of (sch_by_id s) (tm_job_id r) = None"
    and fits: "timer_fits tc (r\<lparr> tm_mode := request_mode req \<rparr>)"
  shows "sched_ok tc (snd (schedule tc cron fault now r req s)) \<and>
    other_jobs_kept (tm_job_id r) s (snd (schedule tc cron fault now r req s))"
proof -
  have ins: "sched_ok tc (snd (insert_new tc fault (r\<lparr> tm_mode := m \<rparr>) at s)) \<and>
      other_jobs_kept (tm_job_id r) s (snd (insert_new tc fault (r\<lparr> tm_mode := m \<rparr>) at s))"
    if "mode_ok m" "m = request_mode req" for m at
    using insert_new_ok [OF s _ fits, of fault at] new that by simp
  have same: "other_jobs_kept (tm_job_id r) s s" by (simp add: other_jobs_kept_def)
  show ?thesis
    by (cases req)
       (auto simp: schedule_once_def schedule_fixed_def schedule_cron_def s same ins
          split: sum.split option.split)
qed

lemma cancel_ok:
  "sched_ok tc s \<Longrightarrow> sched_ok tc (snd (sched_cancel fault i s)) \<and>
     other_jobs_kept i s (snd (sched_cancel fault i s)) \<and>
     (map_of (sch_by_id (snd (sched_cancel fault i s))) i = None \<or> snd (sched_cancel fault i s) = s)"
  using drop_timer_ok [of tc s i]
  by (auto simp: sched_cancel_def other_jobs_kept_def btree.lookup_del split: option.split)

lemma reschedule_ok:
  assumes "sched_ok tc s" "timer_fits tc r" "mode_ok (tm_mode r)"
    and at: "map_of (sch_by_id s) (tm_job_id r) = None \<or> map_of (sch_by_id s) (tm_job_id r) = Some old"
  shows "sched_ok tc (snd (reschedule tc fault old r next_at s)) \<and>
    other_jobs_kept (tm_job_id r) s (snd (reschedule tc fault old r next_at s))"
proof -
  obtain bs where bs: "rbind (from_record tc r) (\<lambda>st. map_err SchedSerialization (tc_encode tc st)) = Inr bs"
    and fits: "entry_fits tc (tm_job_id r) bs"
    using assms(2,3) by (rule timer_fits_bytes)
  show ?thesis
    using put_timer_ok [OF assms(1) at fits] drop_timer_ok [OF assms(1) at] assms(1)
    by (auto simp: reschedule_def bs Let_def other_jobs_kept_def put_timer_def btree.lookup_put
        btree.lookup_del split: option.split)
qed

lemma sched_ok_log: "sched_ok tc (s\<lparr> sch_events := es, sch_spawned := sp \<rparr>) = sched_ok tc s"
  "sched_ok tc (s\<lparr> sch_events := es \<rparr>) = sched_ok tc s"
  by (simp_all add: sched_ok_def tables_agree_def)

lemma fire_ok:
  assumes "sched_ok tc s" "timer_fits tc r" "mode_ok (tm_mode r)"
    and "map_of (sch_by_id s) (tm_job_id r) = None \<or> map_of (sch_by_id s) (tm_job_id r) = Some old"
    and "fire_and_reschedule tc cron show_uuid fe old r s = (res, s')"
  shows "sched_ok tc s' \<and> other_jobs_kept (tm_job_id r) s s'"
proof -
  let ?s = "\<lambda>es sp. s\<lparr> sch_events := es, sch_spawned := sp \<rparr>"
  have r: "sched_ok tc (snd (reschedule tc fault old r n (?s es sp))) \<and>
      other_jobs_kept (tm_job_id r) s (snd (reschedule tc fault old r n (?s es sp)))" for fault n es sp
    using reschedule_ok [of tc "?s es sp" r old fault n] assms(1-4)
    by (auto simp: sched_ok_log other_jobs_kept_def)
  have same: "other_jobs_kept (tm_job_id r) s s" "other_jobs_kept (tm_job_id r) s (s\<lparr> sch_events := es \<rparr>)" for es
    by (simp_all add: other_jobs_kept_def)
  have "s' = snd (fire_and_reschedule tc cron show_uuid fe old r s)" using assms(5) by simp
  then show ?thesis
    using assms(1) by (simp add: fire_and_reschedule_def sched_ok_log same r split: option.split)
qed

definition stored_workflow :: "timer_codec \<Rightarrow> RedbScheduler \<Rightarrow> u64 \<Rightarrow> uuid \<Rightarrow> string option" where
  "stored_workflow tc s f i =
     (case map_of (sch_timers s) (f, i) of
        Some bs \<Rightarrow> (case tc_decode tc bs of Inr st \<Rightarrow> Some (stt_workflow st) | Inl _ \<Rightarrow> None)
      | None \<Rightarrow> None)"

lemma due_record_ok:
  assumes "sched_ok tc s" "((f, i), bs) \<in> set (sch_timers s)"
  obtains r where "\<And>now. due_record tc now ((f, i), bs) = Inr (f, r)" "tm_job_id r = i" "timer_fits tc r"
    "mode_ok (tm_mode r)" "map_of (sch_by_id s) i = Some f"
    "stored_workflow tc s f i = Some (tm_workflow r)"
proof -
  have m: "map_of (sch_timers s) (f, i) = Some bs"
    using assms by (simp add: sched_ok_def btree_get_iff)
  then have "entry_fits tc i bs" using assms(1) by (simp add: sched_ok_def)
  then obtain st where st: "stored_ok tc st bs" "stt_job_id_bytes st = i" "mode_ok (stt_mode st)"
    by (auto simp: entry_fits_def)
  obtain r where r: "\<And>now. into_record tc now st = Inr r" "from_record tc r = Inr st"
    "tm_job_id r = stt_job_id_bytes st" "tm_mode r = stt_mode st" "tm_workflow r = stt_workflow st"
    using stored_ok_record [OF st(1)] by blast
  have "map_of (sch_by_id s) i = Some f"
    using m assms(1) unfolding sched_ok_def tables_agree_def by (metis option.distinct(1))
  moreover have "timer_fits tc r" using r(2) st(1) by (auto simp: timer_fits_def)
  moreover have "stored_workflow tc s f i = Some (tm_workflow r)"
    using m r(5) st(1) by (simp add: stored_workflow_def stored_ok_def)
  ultimately show ?thesis
    using r st by (intro that [of r]) (auto simp: due_record_def decode_timer_def stored_ok_def)
qed

lemma list_all2_witness: "(\<And>x. x \<in> set xs \<Longrightarrow> \<exists>y. P x y) \<Longrightarrow> \<exists>ys. list_all2 P xs ys"
  by (intro exI [of _ "map (\<lambda>x. SOME y. P x y) xs"]) (auto simp: list_all2_conv_all_nth intro: someI_ex)

lemma distinct_timer_ids:
  assumes "sched_ok tc s"
  shows "distinct (map (\<lambda>kv. snd (fst kv)) (sch_timers s))"
proof -
  have key: "map_of (sch_by_id s) i = Some f" if "(f, i) \<in> fst ` set (sch_timers s)" for f i
    using that assms by (force simp: sched_ok_def tables_agree_def map_of_eq_None_iff)
  have "inj_on snd (fst ` set (sch_timers s))"
    by (rule inj_onI) (metis key option.inject prod.collapse)
  moreover have "distinct (map fst (sch_timers s))"
    using assms by (simp add: sched_ok_def btree_ok_distinct)
  ultimately have "distinct (map snd (map fst (sch_timers s)))"
    by (simp add: distinct_map del: map_map)
  then show ?thesis by (simp add: comp_def)
qed

lemma collect_due_ok:
  assumes "sched_ok tc s"
  obtains ds where "collect_due tc None now ms s = Inr ds" "pending_ok tc s ds"
    "(\<lambda>(f, r). (f, tm_job_id r)) ` set ds = {(f, i). map_of (sch_by_id s) i = Some f \<and> f < due_bound ms}"
    "\<forall>(f, r) \<in> set ds. stored_workflow tc s f (tm_job_id r) = Some (tm_workflow r)"
proof -
  let ?xs = "List.filter (\<lambda>((f, _), _). f < due_bound ms) (sch_timers s)"
  define good where "good = (\<lambda>(kv :: (u64 \<times> uuid) \<times> bytes) fr. due_record tc now kv = Inr fr \<and> fst fr = fst (fst kv) \<and>
    tm_job_id (snd fr) = snd (fst kv) \<and> timer_fits tc (snd fr) \<and> mode_ok (tm_mode (snd fr)) \<and>
    map_of (sch_by_id s) (snd (fst kv)) = Some (fst fr) \<and>
    stored_workflow tc s (fst fr) (tm_job_id (snd fr)) = Some (tm_workflow (snd fr)))"
  have "\<exists>fr. good kv fr" if "kv \<in> set ?xs" for kv
  proof -
    obtain f i bs where kv: "kv = ((f, i), bs)" by (metis prod.collapse)
    then have "((f, i), bs) \<in> set (sch_timers s)" using that by simp
    then obtain r where "\<And>now. due_record tc now ((f, i), bs) = Inr (f, r)" "tm_job_id r = i" "timer_fits tc r"
        "mode_ok (tm_mode r)" "map_of (sch_by_id s) i = Some f"
        "stored_workflow tc s f i = Some (tm_workflow r)"
      using due_record_ok [OF assms] by blast
    then have "good kv (f, r)" by (simp add: good_def kv)
    then show ?thesis ..
  qed
  then have "\<exists>ds. list_all2 good ?xs ds" by (rule list_all2_witness)
  then obtain ds where ds: "list_all2 good ?xs ds" ..
  have c: "collect_due tc None now ms s = Inr ds"
    using ds by (auto simp: collect_due_def map_results_eq_Inr good_def elim: list_all2_mono)
  have keys: "map (\<lambda>(f, r). (f, tm_job_id r)) ds = map fst ?xs"
    using ds by (induction rule: list_all2_induct) (auto simp: good_def)
  have ids: "map (\<lambda>(f, r). tm_job_id r) ds = map (\<lambda>kv. snd (fst kv)) ?xs"
    using ds by (induction rule: list_all2_induct) (auto simp: good_def)
  have "set (map fst ?xs) = {(f, i). map_of (sch_by_id s) i = Some f \<and> f < due_bound ms}"
  proof -
    have "(f, i) \<in> fst ` set (sch_timers s) \<longleftrightarrow> map_of (sch_by_id s) i = Some f" for f i
      using assms unfolding sched_ok_def tables_agree_def by (metis map_of_eq_None_iff)
    then show ?thesis by force
  qed
  then have set: "(\<lambda>(f, r). (f, tm_job_id r)) ` set ds = {(f, i). map_of (sch_by_id s) i = Some f \<and> f < due_bound ms}"
    by (metis keys set_map)
  have "distinct (map (\<lambda>kv. snd (fst kv)) ?xs)" by (rule distinct_map_filter) (rule distinct_timer_ids [OF assms])
  moreover have "\<forall>fr \<in> set ds. timer_fits tc (snd fr) \<and> mode_ok (tm_mode (snd fr)) \<and>
      map_of (sch_by_id s) (tm_job_id (snd fr)) = Some (fst fr)"
    using ds by (induction rule: list_all2_induct) (auto simp: good_def)
  ultimately have "pending_ok tc s ds" unfolding pending_ok_def ids by auto
  moreover have "\<forall>fr \<in> set ds. stored_workflow tc s (fst fr) (tm_job_id (snd fr)) = Some (tm_workflow (snd fr))"
    using ds by (induction rule: list_all2_induct) (auto simp: good_def)
  ultimately show ?thesis using c set by (intro that) auto
qed

lemma sched_inv:
  assumes "(sched_step tc cron show_uuid)\<^sup>*\<^sup>* (RedbScheduler_new, []) (s, p)"
  shows "sched_ok tc s \<and> pending_ok tc s p"
  using assms
proof (induction rule: rtranclp_induct2)
  case refl
  then show ?case by (simp add: sched_ok_def tables_agree_def RedbScheduler_new_def pending_ok_def)
next
  case (step s p s' p')
  note ok = conjunct1 [OF step.IH] and pok = conjunct2 [OF step.IH]
  from step.hyps(2) show ?case
  proof (cases rule: sched_step.cases)
    case (schedule r req fault now)
    with schedule_ok [OF ok, of r req cron fault now] pending_ok_mono [OF pok] show ?thesis by blast
  next
    case (cancel fault i)
    with cancel_ok [OF ok, of fault i] pending_ok_mono [OF pok, of i] pok show ?thesis by auto
  next
    case (collect fault now)
    then have "fault = None" by (cases fault) (auto simp: collect_due_def)
    with collect collect_due_ok [OF ok, of now "fire_at_ms_of now"] ok show ?thesis by (metis Inr_inject)
  next
    case (fire fe old r res q)
    have r: "timer_fits tc r" "mode_ok (tm_mode r)"
        "map_of (sch_by_id s) (tm_job_id r) = None \<or> map_of (sch_by_id s) (tm_job_id r) = Some old"
      and q: "pending_ok tc s q" "tm_job_id r \<notin> (\<lambda>(f, r). tm_job_id r) ` set q"
      using pok fire by (auto simp: pending_ok_def)
    from fire_ok [OF ok r, of cron show_uuid fe res s'] fire
    have "sched_ok tc s' \<and> other_jobs_kept (tm_job_id r) s s'" by simp
    with pending_ok_mono [OF q(1) _ disjI1 [OF q(2)]] fire show ?thesis
      by (auto simp: pending_ok_def [of tc s' "[]"])
  qed
qed

section \<open>Firing\<close>

lemma fire_registered:
  assumes "timer_fits tc r" "mode_ok (tm_mode r)" "fe_registry fe = Some reg" "fe_fault fe = None"
    and "registry_get reg (workflow_tool_name (tm_workflow r)) = Some tool"
  obtains s' where "fire_and_reschedule tc cron show_uuid fe old r s = (Inr (), s')"
    "sch_spawned s' = sch_spawned s @ [(tool, fire_envelope show_uuid fe r)]"
    "map_of (sch_by_id s') (tm_job_id r) =
       map_option fire_at_ms_of (next_fire_after cron (fe_now fe) (tm_mode r))"
proof -
  obtain bs where bs: "rbind (from_record tc r) (\<lambda>st. map_err SchedSerialization (tc_encode tc st)) = Inr bs"
    using assms(1,2) by (rule timer_fits_bytes)
  let ?res = "fire_and_reschedule tc cron show_uuid fe old r s"
  have "fst ?res = Inr ()" "sch_spawned (snd ?res) = sch_spawned s @ [(tool, fire_envelope show_uuid fe r)]"
    "map_of (sch_by_id (snd ?res)) (tm_job_id r) =
       map_option fire_at_ms_of (next_fire_after cron (fe_now fe) (tm_mode r))"
    by (simp_all add: fire_and_reschedule_def reschedule_def assms bs Let_def put_timer_def
        btree.lookup_del split: option.split)
  then show ?thesis by (intro that [of "snd ?res"]) (simp_all add: prod_eq_iff)
qed

lemma fire_all_spec:
  assumes "sched_ok tc s" "pending_ok tc s ds"
    and "\<forall>(f, r) \<in> set ds. fe_fault (envs r) = None \<and> fe_registry (envs r) = Some reg \<and>
           registry_get reg (workflow_tool_name (tm_workflow r)) = Some (tool_of (tm_workflow r))"
  shows "\<exists>s'. fire_all (\<lambda>old r. fire_and_reschedule tc cron show_uuid (envs r) old r) ds s = (Inr (), s') \<and>
    sch_spawned s' = sch_spawned s @ map (\<lambda>(f, r). (tool_of (tm_workflow r), fire_envelope show_uuid (envs r) r)) ds \<and>
    (\<forall>(f, r) \<in> set ds. map_of (sch_by_id s') (tm_job_id r) =
       map_option fire_at_ms_of (next_fire_after cron (fe_now (envs r)) (tm_mode r))) \<and>
    (\<forall>i. i \<notin> (\<lambda>(f, r). tm_job_id r) ` set ds \<longrightarrow> map_of (sch_by_id s') i = map_of (sch_by_id s) i)"
  using assms
proof (induction ds arbitrary: s)
  case (Cons fr ds)
  obtain f r where fr: "fr = (f, r)" by force
  have r: "timer_fits tc r" "mode_ok (tm_mode r)"
      "map_of (sch_by_id s) (tm_job_id r) = None \<or> map_of (sch_by_id s) (tm_job_id r) = Some f"
    and rest: "pending_ok tc s ds" "tm_job_id r \<notin> (\<lambda>(f, r). tm_job_id r) ` set ds"
    using Cons.prems(2) by (auto simp: fr pending_ok_def)
  have e: "fe_registry (envs r) = Some reg" "fe_fault (envs r) = None"
      "registry_get reg (workflow_tool_name (tm_workflow r)) = Some (tool_of (tm_workflow r))"
    using Cons.prems(3) by (auto simp: fr)
  obtain s1 where s1: "fire_and_reschedule tc cron show_uuid (envs r) f r s = (Inr (), s1)"
    "sch_spawned s1 = sch_spawned s @ [(tool_of (tm_workflow r), fire_envelope show_uuid (envs r) r)]"
    "map_of (sch_by_id s1) (tm_job_id r) =
       map_option fire_at_ms_of (next_fire_after cron (fe_now (envs r)) (tm_mode r))"
    using r(1,2) e by (rule fire_registered)
  have ok1: "sched_ok tc s1" and kept: "other_jobs_kept (tm_job_id r) s s1"
    using fire_ok [OF Cons.prems(1) r s1(1)] by auto
  have p1: "pending_ok tc s1 ds" by (rule pending_ok_mono [OF rest(1) kept disjI1 [OF rest(2)]])
  from Cons.IH [OF ok1 p1] Cons.prems(3) obtain s' where s':
    "fire_all (\<lambda>old r. fire_and_reschedule tc cron show_uuid (envs r) old r) ds s1 = (Inr (), s')"
    "sch_spawned s' = sch_spawned s1 @ map (\<lambda>(f, r). (tool_of (tm_workflow r), fire_envelope show_uuid (envs r) r)) ds"
    "\<forall>(f, r) \<in> set ds. map_of (sch_by_id s') (tm_job_id r) =
       map_option fire_at_ms_of (next_fire_after cron (fe_now (envs r)) (tm_mode r))"
    "\<forall>i. i \<notin> (\<lambda>(f, r). tm_job_id r) ` set ds \<longrightarrow> map_of (sch_by_id s') i = map_of (sch_by_id s1) i"
    by auto
  show ?case
  proof (intro exI conjI)
    show "fire_all (\<lambda>old r. fire_and_reschedule tc cron show_uuid (envs r) old r) (fr # ds) s = (Inr (), s')"
      by (simp add: fr s1(1) s'(1))
    show "sch_spawned s' = sch_spawned s @
        map (\<lambda>(f, r). (tool_of (tm_workflow r), fire_envelope show_uuid (envs r) r)) (fr # ds)"
      by (simp add: s'(2) s1(2) fr)
    show "\<forall>(f, r) \<in> set (fr # ds). map_of (sch_by_id s') (tm_job_id r) =
        map_option fire_at_ms_of (next_fire_after cron (fe_now (envs r)) (tm_mode r))"
      using s'(3,4) s1(3) rest(2) by (simp add: fr)
    show "\<forall>i. i \<notin> (\<lambda>(f, r). tm_job_id r) ` set (fr # ds) \<longrightarrow>
        map_of (sch_by_id s') i = map_of (sch_by_id s) i"
      using s'(4) kept by (simp add: fr other_jobs_kept_def)
  qed
qed simp

section \<open>Properties\<close>



text \<open>
  A cancellation between the collection of a timer and its fire is undone: the fire inserts
  the next occurrence of a job that \<open>cancel\<close> reported as removed.
\<close>

lemma cancelled_timer_returns:
  assumes reach: "(sched_step tc cron show_uuid)\<^sup>*\<^sup>* (RedbScheduler_new, []) (s, (f, r) # p)"
    and "tm_mode r = TimerFixed d" "fe_registry fe = Some reg" "fe_fault fe = None"
    and "registry_get reg (workflow_tool_name (tm_workflow r)) = Some tool"
  shows "\<exists>b s1 s2. sched_cancel None (tm_job_id r) s = (Inr b, s1) \<and>
    map_of (sch_by_id s1) (tm_job_id r) = None \<and>
    fire_and_reschedule tc cron show_uuid fe f r s1 = (Inr (), s2) \<and>
    map_of (sch_by_id s2) (tm_job_id r) = Some (fire_at_ms_of (plus_millis (fe_now fe) d))"
proof -
  have r: "timer_fits tc r" "mode_ok (tm_mode r)"
    using sched_inv [OF reach] by (auto simp: pending_ok_def)
  obtain b s1 where c: "sched_cancel None (tm_job_id r) s = (Inr b, s1)"
    by (cases "map_of (sch_by_id s) (tm_job_id r)") (auto simp: sched_cancel_def)
  then have "map_of (sch_by_id s1) (tm_job_id r) = None"
    by (auto simp: sched_cancel_def split: option.splits)
  moreover obtain s2 where "fire_and_reschedule tc cron show_uuid fe f r s1 = (Inr (), s2)"
    "map_of (sch_by_id s2) (tm_job_id r) = map_option fire_at_ms_of (next_fire_after cron (fe_now fe) (tm_mode r))"
    using r assms(3-5) by (rule fire_registered)
  ultimately show ?thesis using c assms(2) by (auto simp: next_fire_after_def)
qed

section \<open>Instances\<close>

definition demo_timer_stored :: StoredTimer where
  "demo_timer_stored =
     \<lparr> stt_job_id_bytes = 5, stt_workflow = ''w'', stt_input_json = ''{}'', stt_namespace = ''n'',
       stt_capabilities = [], stt_actor = \<lparr> actor_id = ''a'', actor_role = User \<rparr>, stt_mode = TimerOnce,
       stt_created_at_micros = 3, stt_created_by = ''t'' \<rparr>"

definition demo_timer :: TimerRecord where
  "demo_timer = new_record 5 3000 ''w'' JNull ''n'' [] \<lparr> actor_id = ''a'', actor_role = User \<rparr> ''t''"

definition demo_timer_codec :: timer_codec where
  "demo_timer_codec =
     \<lparr> tc_json_to_string = (\<lambda>_. Inr ''{}''), tc_json_from_str = (\<lambda>_. Inr JNull),
       tc_encode = (\<lambda>_. Inr [0]), tc_decode = (\<lambda>_. Inr demo_timer_stored),
       tc_timestamp_micros = (\<lambda>t. Some (t * 1000)), tc_timestamp_millis = (\<lambda>t. Some (t * 1000000)) \<rparr>"

definition demo_sched :: RedbScheduler where
  "demo_sched = snd (schedule demo_timer_codec (\<lambda>_. Inl []) None 0 demo_timer (OnceAt 0) RedbScheduler_new)"

lemmas demo_timer_defs = demo_timer_def demo_timer_codec_def demo_timer_stored_def new_record_def
  from_record_def timestamp_micros_def

lemma demo_sched_tables: "sch_timers demo_sched = [((0, 5), [0])]" "sch_by_id demo_sched = [(5, 0)]"
  "sch_spawned demo_sched = []"
  by (simp_all add: demo_sched_def schedule_once_def validate_record_def insert_new_def put_timer_def
      RedbScheduler_new_def fire_at_ms_of_def timestamp_millis_def demo_timer_defs)

lemma demo_sched_reached:
  "(sched_step demo_timer_codec (\<lambda>_. Inl []) (\<lambda>_. []))\<^sup>*\<^sup>* (RedbScheduler_new, []) (demo_sched, [])"
proof -
  have "timer_fits demo_timer_codec (demo_timer\<lparr> tm_mode := request_mode (OnceAt 0) \<rparr>)"
    by (simp add: timer_fits_def stored_ok_def demo_timer_defs)
  then show ?thesis
    unfolding demo_sched_def
    by (intro r_into_rtranclp sched_step.schedule) (simp_all add: RedbScheduler_new_def)
qed


definition demo_fire_env :: FireEnv where
  "demo_fire_env =
     \<lparr> fe_registry = Some [(workflow_tool_name ''w'', RawTool (sample_info ''w''))], fe_now = 0, fe_fresh = 1,
       fe_trace = 2, fe_fault = None \<rparr>"


end
