(* ===== verification/Schedule_Tools.thy ===== *)
theory Schedule_Tools
  imports Scheduler
begin

text \<open>
  The tools over the scheduler, \<^verbatim>\<open>konf-init/src/schedule.rs\<close>: \<open>schedule:create\<close> and
  \<open>cancel:schedule\<close>. The scheduler is \<open>None\<close> when the runtime has no persistent storage;
  parsing a UUID is the parameter \<open>parse_uuid\<close>.
\<close>

definition exec_failed :: "string \<Rightarrow> ToolError" where
  "exec_failed message = ExecutionFailed message False"

definition scheduler_err :: "(uuid \<Rightarrow> string) \<Rightarrow> SchedulerError \<Rightarrow> ToolError" where
  "scheduler_err show_uuid e = exec_failed (show_SchedulerError show_uuid e)"

definition no_scheduler :: ToolError where
  "no_scheduler = exec_failed ''scheduler not available (no persistent storage configured)''"

section \<open>schedule:create\<close>

text \<open>The reading of \<open>delay_ms\<close>: a number, or a string that parses as one.\<close>

definition read_delay :: "json \<Rightarrow> u64 option" where
  "read_delay input =
     Option.bind (json_get input ''delay_ms'') (\<lambda>v.
       case as_u64 v of Some n \<Rightarrow> Some n | None \<Rightarrow> Option.bind (as_str v) parse_u64)"

definition timer_of_envelope :: "uuid \<Rightarrow> datetime \<Rightarrow> json Envelope \<Rightarrow> string \<Rightarrow> TimerRecord" where
  "timer_of_envelope job_id now env workflow_id =
     \<lparr> tm_job_id = job_id, tm_workflow = workflow_id,
       tm_input = (case json_get (env_payload env) ''input'' of Some v \<Rightarrow> v | None \<Rightarrow> JObject []),
       tm_namespace = env_namespace env,
       tm_capabilities = CapSet_patterns (env_capabilities env),
       tm_actor = \<lparr> actor_id = env_actor_id env, actor_role = User \<rparr>,
       tm_mode = TimerOnce, tm_created_at = now, tm_created_by = ''schedule:create'' \<rparr>"

text \<open>Which schedule the fields ask for.\<close>

definition schedule_request_of :: "datetime \<Rightarrow> json \<Rightarrow> ToolError + sched_request" where
  "schedule_request_of now input =
     (case (Option.bind (json_get input ''cron'') as_str, read_delay input) of
        (Some expr, _) \<Rightarrow> Inr (OnCron expr)
      | (None, Some ms) \<Rightarrow>
          if (case Option.bind (json_get input ''repeat'') as_bool of Some b \<Rightarrow> b | None \<Rightarrow> False)
          then Inr (EveryMillis ms)
          else if \<not> delay_in_range ms then Inl (exec_failed (delay_range_text ms))
          else Inr (OnceAt (plus_millis now ms))
      | (None, None) \<Rightarrow> Inl (exec_failed ''must provide either delay_ms or cron''))"

definition schedule_tool_invoke ::
  "timer_codec \<Rightarrow> cron \<Rightarrow> (uuid \<Rightarrow> string) \<Rightarrow> SchedulerError option \<Rightarrow> datetime \<Rightarrow> uuid \<Rightarrow> uuid \<Rightarrow> ToolRegistry \<Rightarrow>
   json Envelope \<Rightarrow> RedbScheduler option \<Rightarrow> (ToolError + json Envelope) \<times> RedbScheduler option" where
  "schedule_tool_invoke tc cron show_uuid fault now fresh job_id registry env scheduler =
     (case scheduler of
        None \<Rightarrow> (Inl no_scheduler, scheduler)
      | Some s \<Rightarrow>
     (case Option.bind (json_get (env_payload env) ''workflow'') as_str of
        None \<Rightarrow> (Inl (exec_failed ''missing required field: workflow''), scheduler)
      | Some workflow_id \<Rightarrow>
          if registry_get registry (workflow_tool_name workflow_id) = None
          then (Inl (ToolNotFound (workflow_tool_name workflow_id)), scheduler)
          else
     (case schedule_request_of now (env_payload env) of
        Inl e \<Rightarrow> (Inl e, scheduler)
      | Inr req \<Rightarrow>
     (case schedule tc cron fault now (timer_of_envelope job_id now env workflow_id) req s of
        (Inl e, s') \<Rightarrow> (Inl (scheduler_err show_uuid e), Some s')
      | (Inr i, s') \<Rightarrow>
          (Inr (respond fresh now env (JObject (obj_of_list
             [(''scheduled'', JBool True), (''workflow'', JString workflow_id),
              (''schedule_id'', JString (show_uuid i))]))), Some s')))))"

section \<open>cancel:schedule\<close>

definition cancel_schedule_invoke ::
  "(uuid \<Rightarrow> string) \<Rightarrow> (string \<Rightarrow> string + uuid) \<Rightarrow> SchedulerError option \<Rightarrow> datetime \<Rightarrow> uuid \<Rightarrow>
   json Envelope \<Rightarrow> RedbScheduler option \<Rightarrow> (ToolError + json Envelope) \<times> RedbScheduler option" where
  "cancel_schedule_invoke show_uuid parse_uuid fault now fresh env scheduler =
     (case scheduler of
        None \<Rightarrow> (Inl no_scheduler, scheduler)
      | Some s \<Rightarrow>
     (case Option.bind (json_get (env_payload env) ''schedule_id'') as_str of
        None \<Rightarrow> (Inl (exec_failed ''missing required field: schedule_id''), scheduler)
      | Some id_str \<Rightarrow>
     (case parse_uuid id_str of
        Inl e \<Rightarrow> (Inl (exec_failed (''invalid schedule_id (expected UUID): '' @ e)), scheduler)
      | Inr i \<Rightarrow>
     (case sched_cancel fault i s of
        (Inl e, s') \<Rightarrow> (Inl (scheduler_err show_uuid e), Some s')
      | (Inr False, s') \<Rightarrow> (Inl (exec_failed (''schedule_id '' @ show_uuid i @ '' not found'')), Some s')
      | (Inr True, s') \<Rightarrow>
          (Inr (respond fresh now env (JObject (obj_of_list
             [(''cancelled'', JBool True), (''schedule_id'', JString (show_uuid i))]))), Some s')))))"

section \<open>Properties\<close>

lemma CapSet_patterns_inverse: "CapSet_from_patterns (CapSet_patterns cs) = cs"
  by (cases cs) (simp add: CapSet_from_patterns_def CapSet_patterns_def comp_def)

lemma schedule_result_ok:
  "fst (schedule tc cron fault now r req s) = Inr i \<Longrightarrow> i = tm_job_id r \<and> mode_ok (request_mode req) \<and>
     map_of (sch_by_id (snd (schedule tc cron fault now r req s))) i \<noteq> None"
  by (cases req)
     (auto simp: schedule_once_def schedule_fixed_def schedule_cron_def insert_new_def put_timer_def
       split: sum.splits option.splits if_splits)

text \<open>
  A schedule is bounded by its creator's authority. When \<open>schedule:create\<close> succeeds, the
  workflow is registered, one timer with the fresh id was added through the scheduler, its
  delay is within the bounds, and whenever it fires, the envelope carries the namespace, the
  actor and exactly the capabilities of the envelope that created it. When it fails, the
  scheduler is unchanged.
\<close>

theorem schedule_tool_keeps_authority:
  "case schedule_tool_invoke tc cron show_uuid fault now fresh job_id registry env (Some s) of
     (Inl e, s') \<Rightarrow> s' = Some s
   | (Inr resp, s') \<Rightarrow>
       \<exists>w req s1. registry_get registry (workflow_tool_name w) \<noteq> None \<and> s' = Some s1 \<and>
         schedule tc cron fault now (timer_of_envelope job_id now env w) req s = (Inr job_id, s1) \<and>
         map_of (sch_by_id s1) job_id \<noteq> None \<and> mode_ok (request_mode req) \<and>
         (\<forall>fe m. let e = fire_envelope show_uuid fe (timer_of_envelope job_id now env w\<lparr> tm_mode := m \<rparr>) in
            env_namespace e = env_namespace env \<and> env_actor_id e = env_actor_id env \<and>
            env_capabilities e = env_capabilities env)"
proof -
  have unchanged: "snd (schedule tc cron fault now r req s) = s"
    if "fst (schedule tc cron fault now r req s) = Inl e" for r req e
    using that
    by (cases req)
       (auto simp: schedule_once_def schedule_fixed_def schedule_cron_def insert_new_def
         split: sum.splits option.splits if_splits)
  have envelope: "let e = fire_envelope show_uuid fe (timer_of_envelope job_id now env w\<lparr> tm_mode := m \<rparr>) in
      env_namespace e = env_namespace env \<and> env_actor_id e = env_actor_id env \<and>
      env_capabilities e = env_capabilities env" for fe w m
    by (simp add: fire_envelope_def timer_of_envelope_def for_tool_dispatch_def CapSet_patterns_inverse)
  show ?thesis
  proof (cases "Option.bind (json_get (env_payload env) ''workflow'') as_str")
    case (Some w)
    show ?thesis
    proof (cases "schedule_request_of now (env_payload env)")
      case (Inr req)
      obtain res s1 where sch: "schedule tc cron fault now (timer_of_envelope job_id now env w) req s = (res, s1)"
        by force
      note keep = schedule_result_ok [of tc cron fault now "timer_of_envelope job_id now env w" req s]
      show ?thesis
      proof (cases res)
        case (Inl e)
        then show ?thesis using Some Inr sch unchanged [of "timer_of_envelope job_id now env w" req e]
          by (simp add: schedule_tool_invoke_def)
      next
        case (Inr i)
        with keep sch have "i = job_id" "mode_ok (request_mode req)" "map_of (sch_by_id s1) job_id \<noteq> None"
          by (auto simp: timer_of_envelope_def)
        then show ?thesis using Some \<open>schedule_request_of now (env_payload env) = Inr req\<close> sch Inr envelope
          by (auto simp: schedule_tool_invoke_def)
      qed
    qed (use Some in \<open>simp add: schedule_tool_invoke_def\<close>)
  qed (simp add: schedule_tool_invoke_def)
qed

end
