(* ===== verification/Runner_Intents.thy ===== *)
theory Runner_Intents
  imports Workflow_Tool
begin

text \<open>
  The durable store of runner intents, \<^verbatim>\<open>konf-runtime/src/runner_intents.rs\<close>: an ordered
  table from run ids to stored intents and a multimap index by namespace. The codecs are the
  record \<open>intent_codec\<close>; an operation runs in one redb transaction and \<open>fault = Some e\<close> is one
  that fails. (\<open>gc\<close> collects its victims in a read transaction and deletes in a second one.)
\<close>

section \<open>Records\<close>

type_synonym IntentId = string

datatype IntentError = IntentStorage string | IntentSerialization string | IntentJoin string

datatype TerminalStatus = TermSucceeded | TermFailed string | TermCancelled string

record RunnerIntent =
  ri_run_id :: IntentId
  ri_parent_id :: "IntentId option"
  ri_workflow :: string
  ri_input :: json
  ri_namespace :: string
  ri_capabilities :: "string list"
  ri_actor :: Actor
  ri_session_id :: string
  ri_spawned_at :: datetime
  ri_terminal :: "TerminalStatus option"
  ri_replay_count :: u32

definition RunnerIntent_new ::
  "datetime \<Rightarrow> IntentId \<Rightarrow> string \<Rightarrow> json \<Rightarrow> string \<Rightarrow> string list \<Rightarrow> Actor \<Rightarrow> string \<Rightarrow> RunnerIntent" where
  "RunnerIntent_new now rid workflow input namespace capabilities actor session_id =
     \<lparr> ri_run_id = rid, ri_parent_id = None, ri_workflow = workflow, ri_input = input,
       ri_namespace = namespace, ri_capabilities = capabilities, ri_actor = actor,
       ri_session_id = session_id, ri_spawned_at = now, ri_terminal = None, ri_replay_count = 0 \<rparr>"

record StoredIntent =
  sti_run_id :: string
  sti_parent_id :: "string option"
  sti_workflow :: string
  sti_input_json :: string
  sti_namespace :: string
  sti_capabilities :: "string list"
  sti_actor :: Actor
  sti_session_id :: string
  sti_spawned_at_micros :: int
  sti_terminal :: "TerminalStatus option"
  sti_replay_count :: u32

record intent_codec =
  ic_json_to_string :: "json \<Rightarrow> string + string"
  ic_json_from_str :: "string \<Rightarrow> string + json"
  ic_encode :: "StoredIntent \<Rightarrow> string + bytes"
  ic_decode :: "bytes \<Rightarrow> string + StoredIntent"
  ic_timestamp_micros :: "int \<Rightarrow> datetime option"

definition from_intent :: "intent_codec \<Rightarrow> RunnerIntent \<Rightarrow> IntentError + StoredIntent" where
  "from_intent ic x =
     rbind (map_err IntentSerialization (ic_json_to_string ic (ri_input x))) (\<lambda>input_json.
       Inr \<lparr> sti_run_id = ri_run_id x, sti_parent_id = ri_parent_id x, sti_workflow = ri_workflow x,
             sti_input_json = input_json, sti_namespace = ri_namespace x,
             sti_capabilities = ri_capabilities x, sti_actor = ri_actor x,
             sti_session_id = ri_session_id x, sti_spawned_at_micros = timestamp_micros (ri_spawned_at x),
             sti_terminal = ri_terminal x, sti_replay_count = ri_replay_count x \<rparr>)"

definition into_intent :: "intent_codec \<Rightarrow> datetime \<Rightarrow> StoredIntent \<Rightarrow> IntentError + RunnerIntent" where
  "into_intent ic now st =
     rbind (map_err IntentSerialization (ic_json_from_str ic (sti_input_json st))) (\<lambda>input.
       Inr \<lparr> ri_run_id = sti_run_id st, ri_parent_id = sti_parent_id st, ri_workflow = sti_workflow st,
             ri_input = input, ri_namespace = sti_namespace st, ri_capabilities = sti_capabilities st,
             ri_actor = sti_actor st, ri_session_id = sti_session_id st,
             ri_spawned_at =
               (case ic_timestamp_micros ic (sti_spawned_at_micros st) of Some t \<Rightarrow> t | None \<Rightarrow> now),
             ri_terminal = sti_terminal st, ri_replay_count = sti_replay_count st \<rparr>)"

section \<open>The store\<close>

text \<open>Run ids are ordered as byte strings.\<close>

record RunnerIntentStore =
  is_intents :: "(string \<times> bytes) list"
  is_by_namespace :: "(string \<times> string) list"

definition RunnerIntentStore_open :: RunnerIntentStore where
  "RunnerIntentStore_open = \<lparr> is_intents = [], is_by_namespace = [] \<rparr>"

definition intent_insert ::
  "intent_codec \<Rightarrow> IntentError option \<Rightarrow> RunnerIntent \<Rightarrow> RunnerIntentStore \<Rightarrow>
   (IntentError + unit) \<times> RunnerIntentStore" where
  "intent_insert ic fault x s =
     (case rbind (from_intent ic x) (\<lambda>st. map_err IntentSerialization (ic_encode ic st)) of
        Inl e \<Rightarrow> (Inl e, s)
      | Inr bs \<Rightarrow>
          (case fault of
             Some e \<Rightarrow> (Inl e, s)
           | None \<Rightarrow>
               (Inr (), s\<lparr> is_intents := obj_insert (ri_run_id x) bs (is_intents s),
                           is_by_namespace := List.insert (ri_namespace x, ri_run_id x) (is_by_namespace s) \<rparr>)))"

definition decode_intent :: "intent_codec \<Rightarrow> datetime \<Rightarrow> bytes \<Rightarrow> IntentError + RunnerIntent" where
  "decode_intent ic now bs =
     rbind (map_err IntentSerialization (ic_decode ic bs)) (into_intent ic now)"

definition intent_get ::
  "intent_codec \<Rightarrow> IntentError option \<Rightarrow> datetime \<Rightarrow> string \<Rightarrow> RunnerIntentStore \<Rightarrow>
   IntentError + RunnerIntent option" where
  "intent_get ic fault now rid s =
     (case fault of
        Some e \<Rightarrow> Inl e
      | None \<Rightarrow>
          (case obj_get (is_intents s) rid of
             None \<Rightarrow> Inr None
           | Some bs \<Rightarrow> map_ok Some (decode_intent ic now bs)))"

text \<open>Two transactions: the read and the write back.\<close>

definition intent_mark_terminal ::
  "intent_codec \<Rightarrow> IntentError option \<Rightarrow> IntentError option \<Rightarrow> datetime \<Rightarrow> string \<Rightarrow> TerminalStatus \<Rightarrow>
   RunnerIntentStore \<Rightarrow> (IntentError + unit) \<times> RunnerIntentStore" where
  "intent_mark_terminal ic read_fault write_fault now rid status s =
     (case intent_get ic read_fault now rid s of
        Inl e \<Rightarrow> (Inl e, s)
      | Inr None \<Rightarrow> (Inr (), s)
      | Inr (Some x) \<Rightarrow> intent_insert ic write_fault (x\<lparr> ri_terminal := Some status \<rparr>) s)"

fun scan_intents ::
  "intent_codec \<Rightarrow> datetime \<Rightarrow> (StoredIntent \<Rightarrow> bool) \<Rightarrow> (string \<times> bytes) list \<Rightarrow>
   IntentError + RunnerIntent list" where
  "scan_intents ic now P [] = Inr []"
| "scan_intents ic now P ((k, bs) # rest) =
     rbind (map_err IntentSerialization (ic_decode ic bs)) (\<lambda>st.
       if P st then rbind (into_intent ic now st) (\<lambda>x. map_ok ((#) x) (scan_intents ic now P rest))
       else scan_intents ic now P rest)"

definition list_unterminated ::
  "intent_codec \<Rightarrow> IntentError option \<Rightarrow> datetime \<Rightarrow> RunnerIntentStore \<Rightarrow> IntentError + RunnerIntent list" where
  "list_unterminated ic fault now s =
     (case fault of
        Some e \<Rightarrow> Inl e
      | None \<Rightarrow> map_ok (sort_key ri_spawned_at)
          (scan_intents ic now (\<lambda>st. sti_terminal st = None) (is_intents s)))"

definition list_by_namespace ::
  "intent_codec \<Rightarrow> IntentError option \<Rightarrow> datetime \<Rightarrow> string \<Rightarrow> bool \<Rightarrow> RunnerIntentStore \<Rightarrow>
   IntentError + RunnerIntent list" where
  "list_by_namespace ic fault now ns_prefix include_terminal s =
     (case fault of
        Some e \<Rightarrow> Inl e
      | None \<Rightarrow> map_ok (sort_key ri_spawned_at)
          (scan_intents ic now
            (\<lambda>st. starts_with (sti_namespace st) ns_prefix \<and> (include_terminal \<or> sti_terminal st = None))
            (is_intents s)))"

fun gc_victims ::
  "intent_codec \<Rightarrow> int \<Rightarrow> (string \<times> bytes) list \<Rightarrow> IntentError + (string \<times> string) list" where
  "gc_victims ic cutoff [] = Inr []"
| "gc_victims ic cutoff ((k, bs) # rest) =
     rbind (map_err IntentSerialization (ic_decode ic bs)) (\<lambda>st.
       map_ok (\<lambda>vs. if sti_terminal st \<noteq> None \<and> sti_spawned_at_micros st < cutoff
                    then (k, sti_namespace st) # vs else vs)
         (gc_victims ic cutoff rest))"

definition remove_victims :: "(string \<times> string) list \<Rightarrow> RunnerIntentStore \<Rightarrow> RunnerIntentStore" where
  "remove_victims vs s =
     s\<lparr> is_intents := List.filter (\<lambda>(k, _). k \<notin> fst ` set vs) (is_intents s),
        is_by_namespace := List.filter (\<lambda>(n, k). (k, n) \<notin> set vs) (is_by_namespace s) \<rparr>"

definition intent_gc ::
  "intent_codec \<Rightarrow> IntentError option \<Rightarrow> IntentError option \<Rightarrow> datetime \<Rightarrow> RunnerIntentStore \<Rightarrow>
   (IntentError + u64) \<times> RunnerIntentStore" where
  "intent_gc ic read_fault write_fault older_than s =
     (case read_fault of
        Some e \<Rightarrow> (Inl e, s)
      | None \<Rightarrow>
          (case gc_victims ic (timestamp_micros older_than) (is_intents s) of
             Inl e \<Rightarrow> (Inl e, s)
           | Inr [] \<Rightarrow> (Inr 0, s)
           | Inr vs \<Rightarrow>
               (case write_fault of
                  Some e \<Rightarrow> (Inl e, s)
                | None \<Rightarrow> (Inr (of_nat (length vs)), remove_victims vs s))))"

section \<open>Invariant\<close>

text \<open>What is used of the codecs on a stored intent: it is read back as it was written.\<close>

definition stored_intent_ok :: "intent_codec \<Rightarrow> StoredIntent \<Rightarrow> bytes \<Rightarrow> bool" where
  "stored_intent_ok ic st bs \<longleftrightarrow>
     ic_encode ic st = Inr bs \<and> ic_decode ic bs = Inr st \<and>
     (\<exists>input. ic_json_from_str ic (sti_input_json st) = Inr input \<and>
        ic_json_to_string ic input = Inr (sti_input_json st)) \<and>
     (\<exists>t. ic_timestamp_micros ic (sti_spawned_at_micros st) = Some t \<and>
        timestamp_micros t = sti_spawned_at_micros st)"

definition intent_fits :: "intent_codec \<Rightarrow> RunnerIntent \<Rightarrow> bool" where
  "intent_fits ic x \<longleftrightarrow> (\<exists>st bs. from_intent ic x = Inr st \<and> stored_intent_ok ic st bs)"

text \<open>The intent as it is read back: the spawn time is kept in microseconds.\<close>

definition intent_of :: "intent_codec \<Rightarrow> StoredIntent \<Rightarrow> RunnerIntent" where
  "intent_of ic st =
     \<lparr> ri_run_id = sti_run_id st, ri_parent_id = sti_parent_id st, ri_workflow = sti_workflow st,
       ri_input = (case ic_json_from_str ic (sti_input_json st) of Inr j \<Rightarrow> j | Inl _ \<Rightarrow> JNull),
       ri_namespace = sti_namespace st, ri_capabilities = sti_capabilities st,
       ri_actor = sti_actor st, ri_session_id = sti_session_id st,
       ri_spawned_at =
         (case ic_timestamp_micros ic (sti_spawned_at_micros st) of Some t \<Rightarrow> t | None \<Rightarrow> 0),
       ri_terminal = sti_terminal st, ri_replay_count = sti_replay_count st \<rparr>"

definition norm_intent :: "intent_codec \<Rightarrow> RunnerIntent \<Rightarrow> RunnerIntent" where
  "norm_intent ic x = (case from_intent ic x of Inr st \<Rightarrow> intent_of ic st | Inl _ \<Rightarrow> x)"

definition intents_abs :: "intent_codec \<Rightarrow> RunnerIntentStore \<Rightarrow> IntentId \<Rightarrow> RunnerIntent option" where
  "intents_abs ic s k =
     (case obj_get (is_intents s) k of
        Some bs \<Rightarrow> (case decode_intent ic 0 bs of Inr x \<Rightarrow> Some x | Inl _ \<Rightarrow> None)
      | None \<Rightarrow> None)"

definition intents_ok :: "intent_codec \<Rightarrow> RunnerIntentStore \<Rightarrow> bool" where
  "intents_ok ic s \<longleftrightarrow>
     sorted_wrt (<) (map fst (is_intents s)) \<and>
     (\<forall>k bs. obj_get (is_intents s) k = Some bs \<longrightarrow>
        (\<exists>st. stored_intent_ok ic st bs \<and> sti_run_id st = k))"

lemma stored_intent_read:
  assumes "stored_intent_ok ic st bs"
  shows "into_intent ic now st = Inr (intent_of ic st)" "decode_intent ic now bs = Inr (intent_of ic st)"
    "from_intent ic (intent_of ic st) = Inr st"
    "timestamp_micros (ri_spawned_at (intent_of ic st)) = sti_spawned_at_micros st"
  using assms
  by (auto simp: stored_intent_ok_def intent_of_def into_intent_def decode_intent_def from_intent_def)

lemma intent_of_simps [simp]:
  "ri_run_id (intent_of ic st) = sti_run_id st" "ri_terminal (intent_of ic st) = sti_terminal st"
  "intent_of ic (st\<lparr> sti_terminal := t \<rparr>) = (intent_of ic st)\<lparr> ri_terminal := t \<rparr>"
  by (simp_all add: intent_of_def)

lemma from_intent_terminal:
  "from_intent ic (x\<lparr> ri_terminal := t \<rparr>) = map_ok (\<lambda>st. st\<lparr> sti_terminal := t \<rparr>) (from_intent ic x)"
  by (cases "ic_json_to_string ic (ri_input x)") (simp_all add: from_intent_def)

lemma fits_written:
  assumes "intent_fits ic x"
  obtains st bs where "rbind (from_intent ic x) (\<lambda>st. map_err IntentSerialization (ic_encode ic st)) = Inr bs"
    "stored_intent_ok ic st bs" "norm_intent ic x = intent_of ic st" "sti_run_id st = ri_run_id x"
proof -
  from assms obtain st bs where st: "from_intent ic x = Inr st" "stored_intent_ok ic st bs"
    by (auto simp: intent_fits_def)
  then have "sti_run_id st = ri_run_id x" by (auto simp: from_intent_def rbind_eq_Inr)
  with st show ?thesis by (intro that [of bs st]) (auto simp: stored_intent_ok_def norm_intent_def)
qed

lemma intent_in_table:
  "intents_ok ic s \<Longrightarrow> obj_get (is_intents s) k = Some bs \<Longrightarrow>
     \<exists>st. stored_intent_ok ic st bs \<and> sti_run_id st = k"
  by (simp add: intents_ok_def)

section \<open>The abstract store\<close>

datatype intent_op =
    IntentInsert "IntentError option" RunnerIntent
  | IntentMark "IntentError option" "IntentError option" datetime IntentId TerminalStatus
  | IntentGc "IntentError option" "IntentError option" datetime

fun intent_run :: "intent_codec \<Rightarrow> intent_op \<Rightarrow> RunnerIntentStore \<Rightarrow> RunnerIntentStore" where
  "intent_run ic (IntentInsert fault x) s = snd (intent_insert ic fault x s)"
| "intent_run ic (IntentMark rflt wflt now k status) s = snd (intent_mark_terminal ic rflt wflt now k status s)"
| "intent_run ic (IntentGc rflt wflt t) s = snd (intent_gc ic rflt wflt t s)"

definition collectable :: "datetime \<Rightarrow> RunnerIntent \<Rightarrow> bool" where
  "collectable older_than x \<longleftrightarrow>
     ri_terminal x \<noteq> None \<and> timestamp_micros (ri_spawned_at x) < timestamp_micros older_than"

fun intent_spec ::
  "intent_codec \<Rightarrow> intent_op \<Rightarrow> (IntentId \<Rightarrow> RunnerIntent option) \<Rightarrow> IntentId \<Rightarrow> RunnerIntent option" where
  "intent_spec ic (IntentInsert fault x) m =
     (if fault = None then m(ri_run_id x \<mapsto> norm_intent ic x) else m)"
| "intent_spec ic (IntentMark rflt wflt now k status) m =
     (if rflt = None \<and> wflt = None
      then (case m k of Some x \<Rightarrow> m(k \<mapsto> x\<lparr> ri_terminal := Some status \<rparr>) | None \<Rightarrow> m)
      else m)"
| "intent_spec ic (IntentGc rflt wflt t) m =
     (if rflt = None \<and> wflt = None
      then (\<lambda>k. case m k of Some x \<Rightarrow> if collectable t x then None else Some x | None \<Rightarrow> None)
      else m)"

fun intent_op_fits :: "intent_codec \<Rightarrow> intent_op \<Rightarrow> RunnerIntentStore \<Rightarrow> bool" where
  "intent_op_fits ic (IntentInsert fault x) s = intent_fits ic x"
| "intent_op_fits ic (IntentMark rflt wflt now k status) s =
     (\<forall>x. intents_abs ic s k = Some x \<longrightarrow> intent_fits ic (x\<lparr> ri_terminal := Some status \<rparr>))"
| "intent_op_fits ic (IntentGc rflt wflt t) s = True"

lemma insert_refines:
  assumes "intents_ok ic s" "intent_fits ic x"
  shows "intents_ok ic (snd (intent_insert ic fault x s)) \<and>
    intents_abs ic (snd (intent_insert ic fault x s)) = intent_spec ic (IntentInsert fault x) (intents_abs ic s)"
proof (cases fault)
  case None
  obtain st bs where bs: "rbind (from_intent ic x) (\<lambda>st. map_err IntentSerialization (ic_encode ic st)) = Inr bs"
    "stored_intent_ok ic st bs" "norm_intent ic x = intent_of ic st" "sti_run_id st = ri_run_id x"
    using assms(2) by (rule fits_written)
  have "intents_ok ic (snd (intent_insert ic fault x s))"
    using None assms(1) bs
    by (auto simp: intent_insert_def intents_ok_def obj_get_insert intro: sorted_obj_insert)
  moreover have "intents_abs ic (snd (intent_insert ic fault x s)) = intent_spec ic (IntentInsert fault x) (intents_abs ic s)"
    using None stored_intent_read(2) [OF bs(2)]
    by (auto simp: intent_insert_def bs(1,3) intents_abs_def obj_get_insert fun_eq_iff)
  ultimately show ?thesis by blast
qed (use assms(1) in \<open>auto simp: intent_insert_def split: sum.split\<close>)

lemma abs_stored:
  assumes "intents_ok ic s"
  shows "(obj_get (is_intents s) k = None \<and> intents_abs ic s k = None) \<or>
    (\<exists>bs st. obj_get (is_intents s) k = Some bs \<and> stored_intent_ok ic st bs \<and> sti_run_id st = k \<and>
       intents_abs ic s k = Some (intent_of ic st))"
proof (cases "obj_get (is_intents s) k")
  case (Some bs)
  then obtain st where "stored_intent_ok ic st bs" "sti_run_id st = k"
    using intent_in_table [OF assms] by blast
  with Some show ?thesis by (auto simp: intents_abs_def stored_intent_read(2))
qed (simp add: intents_abs_def)

lemma get_abs: "intents_ok ic s \<Longrightarrow> intent_get ic None now k s = Inr (intents_abs ic s k)"
  using abs_stored [of ic s k] by (auto simp: intent_get_def stored_intent_read(2))

lemma mark_refines:
  assumes ok: "intents_ok ic s" and fits: "intent_op_fits ic (IntentMark rflt wflt now k status) s"
  shows "intents_ok ic (snd (intent_mark_terminal ic rflt wflt now k status s)) \<and>
    intents_abs ic (snd (intent_mark_terminal ic rflt wflt now k status s)) =
      intent_spec ic (IntentMark rflt wflt now k status) (intents_abs ic s)"
proof (cases rflt)
  case None
  from abs_stored [OF ok, of k] show ?thesis
  proof (elim disjE exE conjE)
    fix bs st assume st: "stored_intent_ok ic st bs" "sti_run_id st = k" "intents_abs ic s k = Some (intent_of ic st)"
    let ?x = "(intent_of ic st)\<lparr> ri_terminal := Some status \<rparr>"
    have "from_intent ic ?x = Inr (st\<lparr> sti_terminal := Some status \<rparr>)"
      by (simp add: from_intent_terminal stored_intent_read(3) [OF st(1)])
    then have n: "norm_intent ic ?x = ?x" by (simp add: norm_intent_def)
    have "intent_fits ic ?x" using fits st(3) by simp
    from insert_refines [OF ok this, of wflt] show ?thesis
      using st None n by (simp add: intent_mark_terminal_def get_abs [OF ok])
  qed (use ok None in \<open>simp add: intent_mark_terminal_def get_abs\<close>)
qed (use ok in \<open>simp add: intent_mark_terminal_def intent_get_def\<close>)

text \<open>Scans of a table whose entries can be read.\<close>

definition decoded :: "intent_codec \<Rightarrow> bytes \<Rightarrow> StoredIntent" where
  "decoded ic bs = (case ic_decode ic bs of Inr st \<Rightarrow> st | Inl _ \<Rightarrow> undefined)"

definition readable_entries :: "intent_codec \<Rightarrow> (string \<times> bytes) list \<Rightarrow> bool" where
  "readable_entries ic xs \<longleftrightarrow>
     (\<forall>(k, bs) \<in> set xs. stored_intent_ok ic (decoded ic bs) bs \<and> sti_run_id (decoded ic bs) = k)"

lemma intents_readable:
  assumes "intents_ok ic s"
  shows "readable_entries ic (is_intents s)"
  unfolding readable_entries_def
proof (intro ballI)
  fix e assume e: "e \<in> set (is_intents s)"
  obtain k bs where kb: "e = (k, bs)" by force
  have "obj_get (is_intents s) k = Some bs"
    using e kb assms by (simp add: obj_get_def intents_ok_def strict_sorted_iff)
  then obtain st where "stored_intent_ok ic st bs" "sti_run_id st = k"
    using intent_in_table [OF assms] by blast
  then show "case e of (k, bs) \<Rightarrow> stored_intent_ok ic (decoded ic bs) bs \<and> sti_run_id (decoded ic bs) = k"
    using kb by (auto simp: decoded_def stored_intent_ok_def)
qed

lemma scan_intents_readable:
  "readable_entries ic xs \<Longrightarrow>
     scan_intents ic now P xs =
       Inr (map (\<lambda>(k, bs). intent_of ic (decoded ic bs)) (List.filter (\<lambda>(k, bs). P (decoded ic bs)) xs))"
proof (induction xs)
  case (Cons e xs)
  obtain k bs where e: "e = (k, bs)" by force
  have "stored_intent_ok ic (decoded ic bs) bs" "readable_entries ic xs"
    using Cons.prems by (auto simp: readable_entries_def e)
  moreover from this(1) have "ic_decode ic bs = Inr (decoded ic bs)" by (simp add: stored_intent_ok_def)
  ultimately show ?case using Cons.IH by (simp add: e stored_intent_read(1))
qed simp

lemma gc_victims_readable:
  "readable_entries ic xs \<Longrightarrow> \<exists>vs. gc_victims ic c xs = Inr vs \<and>
     (\<forall>k. k \<in> fst ` set vs \<longleftrightarrow> (\<exists>bs. (k, bs) \<in> set xs \<and> sti_terminal (decoded ic bs) \<noteq> None \<and>
        sti_spawned_at_micros (decoded ic bs) < c))"
proof (induction xs)
  case (Cons e xs)
  obtain k bs where e: "e = (k, bs)" by force
  have st: "stored_intent_ok ic (decoded ic bs) bs" and "readable_entries ic xs"
    using Cons.prems by (auto simp: readable_entries_def e)
  with Cons.IH obtain vs where vs: "gc_victims ic c xs = Inr vs"
    "\<And>k. k \<in> fst ` set vs \<longleftrightarrow> (\<exists>bs. (k, bs) \<in> set xs \<and> sti_terminal (decoded ic bs) \<noteq> None \<and>
        sti_spawned_at_micros (decoded ic bs) < c)" by blast
  have "ic_decode ic bs = Inr (decoded ic bs)" using st by (simp add: stored_intent_ok_def)
  then have "gc_victims ic c (e # xs) =
      Inr (if sti_terminal (decoded ic bs) \<noteq> None \<and> sti_spawned_at_micros (decoded ic bs) < c
           then (k, sti_namespace (decoded ic bs)) # vs else vs)"
    by (simp add: e vs(1))
  then show ?case by (auto simp: e vs(2))
qed simp

lemma map_of_filter_keys: "map_of (List.filter (\<lambda>(k, v). P k) m) k = (if P k then map_of m k else None)"
  by (induction m) auto

lemma gc_refines:
  assumes ok: "intents_ok ic s"
  shows "intents_ok ic (snd (intent_gc ic rflt wflt t s)) \<and>
    intents_abs ic (snd (intent_gc ic rflt wflt t s)) = intent_spec ic (IntentGc rflt wflt t) (intents_abs ic s)"
proof (cases "rflt = None \<and> wflt = None")
  case True
  obtain vs where vs: "gc_victims ic (timestamp_micros t) (is_intents s) = Inr vs"
    "\<And>k. k \<in> fst ` set vs \<longleftrightarrow> (\<exists>bs. (k, bs) \<in> set (is_intents s) \<and> sti_terminal (decoded ic bs) \<noteq> None \<and>
        sti_spawned_at_micros (decoded ic bs) < timestamp_micros t)"
    using gc_victims_readable [OF intents_readable [OF ok]] by blast
  have "snd (intent_gc ic rflt wflt t s) = remove_victims vs s"
    using True vs(1) by (auto simp: intent_gc_def remove_victims_def split: list.split)
  moreover have get: "obj_get (is_intents (remove_victims vs s)) k =
      (if k \<in> fst ` set vs then None else obj_get (is_intents s) k)" for k
    by (simp add: remove_victims_def obj_get_def map_of_filter_keys)
  moreover have "sorted_wrt (<) (map fst (is_intents (remove_victims vs s)))"
    using ok unfolding remove_victims_def intents_ok_def
    by (simp add: strict_sorted_iff sorted_filter distinct_map_filter)
  ultimately have ok': "intents_ok ic (snd (intent_gc ic rflt wflt t s))"
    using ok by (auto simp: intents_ok_def split: if_splits)
  have mem: "(k, bs) \<in> set (is_intents s) \<longleftrightarrow> obj_get (is_intents s) k = Some bs" for k bs
    using ok by (simp add: obj_get_def intents_ok_def strict_sorted_iff)
  have "intents_abs ic (remove_victims vs s) k = intent_spec ic (IntentGc rflt wflt t) (intents_abs ic s) k" for k
  proof -
    from abs_stored [OF ok, of k] show ?thesis
    proof (elim disjE exE conjE)
      fix bs st assume st: "obj_get (is_intents s) k = Some bs" "stored_intent_ok ic st bs"
        "intents_abs ic s k = Some (intent_of ic st)"
      then have "decoded ic bs = st" by (simp add: decoded_def stored_intent_ok_def)
      then have "k \<in> fst ` set vs \<longleftrightarrow> collectable t (intent_of ic st)"
        using st by (auto simp: vs(2) mem collectable_def stored_intent_read(4))
      then show ?thesis using st True by (auto simp: intents_abs_def [of ic "remove_victims vs s"] get stored_intent_read(2))
    qed (auto simp: intents_abs_def get)
  qed
  with ok' \<open>snd (intent_gc ic rflt wflt t s) = remove_victims vs s\<close> show ?thesis by auto
next
  case False
  then show ?thesis using ok by (auto simp: intent_gc_def split: sum.split list.split option.split)
qed

lemma intent_step:
  "intents_ok ic s \<Longrightarrow> intent_op_fits ic op s \<Longrightarrow>
     intents_ok ic (intent_run ic op s) \<and> intents_abs ic (intent_run ic op s) = intent_spec ic op (intents_abs ic s)"
  by (cases op) (use insert_refines mark_refines gc_refines in auto)

fun intent_ops_fit :: "intent_codec \<Rightarrow> intent_op list \<Rightarrow> RunnerIntentStore \<Rightarrow> bool" where
  "intent_ops_fit ic [] s = True"
| "intent_ops_fit ic (op # ops) s = (intent_op_fits ic op s \<and> intent_ops_fit ic ops (intent_run ic op s))"

lemma intent_history:
  "intents_ok ic s \<Longrightarrow> intent_ops_fit ic ops s \<Longrightarrow>
     intents_ok ic (fold (intent_run ic) ops s) \<and>
     intents_abs ic (fold (intent_run ic) ops s) = fold (intent_spec ic) ops (intents_abs ic s)"
proof (induction ops arbitrary: s)
  case (Cons op ops)
  then show ?case using intent_step [of ic s op] by auto
qed simp

lemma intents_ok_open: "intents_ok ic RunnerIntentStore_open" "intents_abs ic RunnerIntentStore_open = (\<lambda>_. None)"
  by (simp_all add: intents_ok_def RunnerIntentStore_open_def intents_abs_def obj_get_def fun_eq_iff)

lemma distinct_map_sort_key: "distinct (map f (sort_key g l)) = distinct (map f l)"
  by (simp add: distinct_map)

lemma list_unterminated_abs:
  assumes ok: "intents_ok ic s"
  shows "\<exists>l. list_unterminated ic None now s = Inr l \<and> sorted (map ri_spawned_at l) \<and>
    distinct (map ri_run_id l) \<and> set l = {x. \<exists>k. intents_abs ic s k = Some x \<and> ri_terminal x = None}"
proof -
  let ?l = "map (\<lambda>(k, bs). intent_of ic (decoded ic bs))
    (List.filter (\<lambda>(k, bs). sti_terminal (decoded ic bs) = None) (is_intents s))"
  note read = intents_readable [OF ok]
  have "list_unterminated ic None now s = Inr (sort_key ri_spawned_at ?l)"
    by (simp add: list_unterminated_def scan_intents_readable [OF read])
  moreover have "distinct (map ri_run_id ?l)"
  proof -
    have "map ri_run_id ?l = map fst (List.filter (\<lambda>(k, bs). sti_terminal (decoded ic bs) = None) (is_intents s))"
      using read by (auto simp: readable_entries_def)
    moreover have "distinct (map fst (is_intents s))" using ok by (simp add: intents_ok_def strict_sorted_iff)
    ultimately show ?thesis by (metis distinct_map_filter)
  qed
  then have "distinct (map ri_run_id (sort_key ri_spawned_at ?l))"
    by (simp only: distinct_map_sort_key)
  moreover have "set ?l = {x. \<exists>k. intents_abs ic s k = Some x \<and> ri_terminal x = None}"
  proof -
    have mem: "(k, bs) \<in> set (is_intents s) \<longleftrightarrow> obj_get (is_intents s) k = Some bs" for k bs
      using ok by (simp add: obj_get_def intents_ok_def strict_sorted_iff)
    have "intents_abs ic s k = Some x \<longleftrightarrow> (\<exists>bs. (k, bs) \<in> set (is_intents s) \<and> x = intent_of ic (decoded ic bs))" for k x
      using abs_stored [OF ok, of k] by (auto simp: mem decoded_def stored_intent_ok_def)
    then show ?thesis by force
  qed
  ultimately show ?thesis by (auto intro!: exI [of _ "sort_key ri_spawned_at ?l"])
qed

section \<open>Properties\<close>


definition demo_intent :: RunnerIntent where
  "demo_intent = RunnerIntent_new 3000 ''r'' ''w'' JNull ''n'' [] \<lparr> actor_id = ''a'', actor_role = User \<rparr> ''s''"

definition demo_intent_stored :: "TerminalStatus option \<Rightarrow> StoredIntent" where
  "demo_intent_stored t =
     \<lparr> sti_run_id = ''r'', sti_parent_id = None, sti_workflow = ''w'', sti_input_json = ''{}'',
       sti_namespace = ''n'', sti_capabilities = [], sti_actor = \<lparr> actor_id = ''a'', actor_role = User \<rparr>,
       sti_session_id = ''s'', sti_spawned_at_micros = 3, sti_terminal = t, sti_replay_count = 0 \<rparr>"

definition demo_intent_codec :: intent_codec where
  "demo_intent_codec =
     \<lparr> ic_json_to_string = (\<lambda>_. Inr ''{}''), ic_json_from_str = (\<lambda>_. Inr JNull),
       ic_encode = (\<lambda>st. Inr (if sti_terminal st = None then [0] else [1])),
       ic_decode = (\<lambda>bs. Inr (demo_intent_stored (if bs = [0] then None else Some TermSucceeded))),
       ic_timestamp_micros = (\<lambda>t. Some (t * 1000)) \<rparr>"


end
