(* ===== verification/Runner.thy ===== *)
theory Runner
  imports Runner_Intents
begin

text \<open>
  The runner, \<^verbatim>\<open>konf-tool-runner/src\<close>: the run registry (\<^verbatim>\<open>registry.rs\<close>), the inline
  backend with its durable intents (\<^verbatim>\<open>runners/inline.rs\<close>), and the tools \<open>runner:spawn\<close>,
  \<open>runner:status\<close>, \<open>runner:wait\<close> and \<open>runner:cancel\<close> (\<^verbatim>\<open>tools.rs\<close>).

  A spawned task is an element of \<open>rn_tasks\<close>; the cancel hook of a slot holds the number of the
  task it aborts. \<open>Utc::now()\<close> and the fresh ids are arguments.
\<close>

section \<open>The run registry\<close>

datatype RunState = RsPending | RsRunning | RsSucceeded json | RsFailed string | RsCancelled

fun rs_terminal :: "RunState \<Rightarrow> bool" where
  "rs_terminal (RsSucceeded r) = True"
| "rs_terminal (RsFailed e) = True"
| "rs_terminal RsCancelled = True"
| "rs_terminal _ = False"

fun rs_label :: "RunState \<Rightarrow> string" where
  "rs_label RsPending = ''pending''"
| "rs_label RsRunning = ''running''"
| "rs_label (RsSucceeded r) = ''succeeded''"
| "rs_label (RsFailed e) = ''failed''"
| "rs_label RsCancelled = ''cancelled''"

record RunRecord =
  rr_id :: string
  rr_workflow :: string
  rr_backend :: string
  rr_state :: RunState
  rr_created_at :: datetime
  rr_started_at :: "datetime option"
  rr_finished_at :: "datetime option"

record RunSlot =
  slot_record :: RunRecord
  slot_cancel_hook :: "nat option"

type_synonym RunRegistry = "(string, RunSlot) table"

definition insert_pending_with_id :: "datetime \<Rightarrow> string \<Rightarrow> string \<Rightarrow> string \<Rightarrow> RunRegistry \<Rightarrow> RunRegistry" where
  "insert_pending_with_id now rid workflow backend reg =
     tbl_put rid
       \<lparr> slot_record = \<lparr> rr_id = rid, rr_workflow = workflow, rr_backend = backend, rr_state = RsPending,
           rr_created_at = now, rr_started_at = None, rr_finished_at = None \<rparr>,
         slot_cancel_hook = None \<rparr> reg"

definition reg_record :: "string \<Rightarrow> RunRegistry \<Rightarrow> RunRecord option" where
  "reg_record rid reg = map_option slot_record (tbl_get reg rid)"

definition update_record :: "string \<Rightarrow> (RunRecord \<Rightarrow> RunRecord) \<Rightarrow> RunRegistry \<Rightarrow> RunRegistry" where
  "update_record rid f reg =
     snd (tbl_modify rid (\<lambda>slot. slot\<lparr> slot_record := f (slot_record slot) \<rparr>) reg)"

definition mark_running :: "datetime \<Rightarrow> string \<Rightarrow> RunRegistry \<Rightarrow> RunRegistry" where
  "mark_running now rid =
     update_record rid (\<lambda>rec.
       if rr_state rec = RsPending then rec\<lparr> rr_state := RsRunning, rr_started_at := Some now \<rparr> else rec)"

definition mark_terminal :: "datetime \<Rightarrow> string \<Rightarrow> RunState \<Rightarrow> RunRegistry \<Rightarrow> RunRegistry" where
  "mark_terminal now rid state =
     update_record rid (\<lambda>rec.
       if \<not> rs_terminal (rr_state rec) then rec\<lparr> rr_state := state, rr_finished_at := Some now \<rparr> else rec)"

definition register_cancel_hook :: "string \<Rightarrow> nat \<Rightarrow> RunRegistry \<Rightarrow> RunRegistry" where
  "register_cancel_hook rid task reg =
     snd (tbl_modify rid (\<lambda>slot. slot\<lparr> slot_cancel_hook := Some task \<rparr>) reg)"

text \<open>Taking the hook, and the record set to \<open>Cancelled\<close>; the task to abort is returned.\<close>

definition reg_cancel :: "datetime \<Rightarrow> string \<Rightarrow> RunRegistry \<Rightarrow> nat option \<times> RunRegistry" where
  "reg_cancel now rid reg =
     (case tbl_get reg rid of
        None \<Rightarrow> (None, reg)
      | Some slot \<Rightarrow>
          (slot_cancel_hook slot,
           mark_terminal now rid RsCancelled
             (snd (tbl_modify rid (\<lambda>slot. slot\<lparr> slot_cancel_hook := None \<rparr>) reg))))"

section \<open>The inline backend\<close>

datatype RunnerError =
    RunNotFound string
  | WorkflowNotFound string
  | RunnerBackend string
  | RunnerValidation string
  | RunnerUnsupported string

fun show_RunnerError :: "RunnerError \<Rightarrow> string" where
  "show_RunnerError (RunNotFound rid) = ''run not found: '' @ rid"
| "show_RunnerError (WorkflowNotFound w) = ''workflow not found: '' @ w"
| "show_RunnerError (RunnerBackend e) = ''runner backend failed: '' @ e"
| "show_RunnerError (RunnerValidation e) = ''invalid runner input: '' @ e"
| "show_RunnerError (RunnerUnsupported e) = ''runner operation unsupported: '' @ e"

record WorkflowSpec =
  ws_workflow :: string
  ws_input :: json
  ws_parent_scope :: ExecutionScope
  ws_parent_ctx :: ExecutionContext

datatype task_phase = TaskSpawned | TaskInvoking | TaskEnded TerminalStatus

record RunnerTask =
  rk_id :: nat
  rk_run_id :: string
  rk_tool :: Tool
  rk_env :: "json Envelope"
  rk_phase :: task_phase

record InlineRunner =
  rn_registry :: RunRegistry
  rn_intents :: "RunnerIntentStore option"
  rn_tasks :: "RunnerTask list"
  rn_next :: nat

definition InlineRunner_new :: "RunnerIntentStore option \<Rightarrow> InlineRunner" where
  "InlineRunner_new intents = \<lparr> rn_registry = [], rn_intents = intents, rn_tasks = [], rn_next = 0 \<rparr>"

definition intent_of_spec :: "datetime \<Rightarrow> string \<Rightarrow> WorkflowSpec \<Rightarrow> RunnerIntent" where
  "intent_of_spec now rid spec =
     RunnerIntent_new now rid (ws_workflow spec) (ws_input spec) (scope_namespace (ws_parent_scope spec))
       (capability_patterns (ws_parent_scope spec)) (scope_actor (ws_parent_scope spec))
       (ctx_session_id (ws_parent_ctx spec))"

definition spawn_envelope :: "uuid \<Rightarrow> datetime \<Rightarrow> WorkflowSpec \<Rightarrow> json Envelope" where
  "spawn_envelope fresh now spec =
     (let env = for_tool_dispatch fresh now (workflow_tool_name (ws_workflow spec)) (ws_input spec)
                  (capability_patterns (ws_parent_scope spec)) (ctx_trace_id (ws_parent_ctx spec))
                  (scope_namespace (ws_parent_scope spec)) ''runner:inline'' (''runner_'' @ ws_workflow spec)
      in env\<lparr> env_metadata :=
           obj_insert ''session_id'' (JString (ctx_session_id (ws_parent_ctx spec))) (env_metadata env) \<rparr>)"

text \<open>\<open>rid\<close> is the existing id of a replay, or the fresh one.\<close>

definition spawn_with_id ::
  "intent_codec \<Rightarrow> IntentError option \<Rightarrow> datetime \<Rightarrow> uuid \<Rightarrow> ToolRegistry \<Rightarrow> string \<Rightarrow> WorkflowSpec \<Rightarrow>
   InlineRunner \<Rightarrow> (RunnerError + string) \<times> InlineRunner" where
  "spawn_with_id ic fault now fresh tools rid spec rn =
     (case registry_get tools (workflow_tool_name (ws_workflow spec)) of
        None \<Rightarrow> (Inl (WorkflowNotFound (ws_workflow spec)), rn)
      | Some tool \<Rightarrow>
          (Inr rid,
           rn\<lparr> rn_registry := register_cancel_hook rid (rn_next rn)
                 (insert_pending_with_id now rid (ws_workflow spec) ''inline'' (rn_registry rn)),
               rn_intents := map_option (\<lambda>s. snd (intent_insert ic fault (intent_of_spec now rid spec) s))
                 (rn_intents rn),
               rn_tasks := rn_tasks rn @
                 [\<lparr> rk_id = rn_next rn, rk_run_id = rid, rk_tool = tool,
                    rk_env = spawn_envelope fresh now spec, rk_phase = TaskSpawned \<rparr>],
               rn_next := Suc (rn_next rn) \<rparr>))"

definition set_phase :: "nat \<Rightarrow> task_phase \<Rightarrow> RunnerTask list \<Rightarrow> RunnerTask list" where
  "set_phase t ph = map (\<lambda>task. if rk_id task = t then task\<lparr> rk_phase := ph \<rparr> else task)"

definition drop_task :: "nat \<Rightarrow> RunnerTask list \<Rightarrow> RunnerTask list" where
  "drop_task t = List.filter (\<lambda>task. rk_id task \<noteq> t)"

text \<open>The three parts of a task: up to the invocation, its result, and the mark on the intent.\<close>

definition task_begin :: "datetime \<Rightarrow> RunnerTask \<Rightarrow> InlineRunner \<Rightarrow> InlineRunner" where
  "task_begin now task rn =
     rn\<lparr> rn_registry := mark_running now (rk_run_id task) (rn_registry rn),
         rn_tasks := set_phase (rk_id task) TaskInvoking (rn_tasks rn) \<rparr>"

definition task_outcome :: "ToolError + json Envelope \<Rightarrow> RunState \<times> TerminalStatus" where
  "task_outcome result =
     (case result of
        Inr env \<Rightarrow> (RsSucceeded (env_payload env), TermSucceeded)
      | Inl e \<Rightarrow> (RsFailed (show_ToolError e), TermFailed (show_ToolError e)))"

definition task_result :: "datetime \<Rightarrow> RunnerTask \<Rightarrow> ToolError + json Envelope \<Rightarrow> InlineRunner \<Rightarrow> InlineRunner" where
  "task_result now task result rn =
     rn\<lparr> rn_registry := mark_terminal now (rk_run_id task) (fst (task_outcome result)) (rn_registry rn),
         rn_tasks := set_phase (rk_id task) (TaskEnded (snd (task_outcome result))) (rn_tasks rn) \<rparr>"

definition task_settle ::
  "intent_codec \<Rightarrow> IntentError option \<Rightarrow> IntentError option \<Rightarrow> datetime \<Rightarrow> RunnerTask \<Rightarrow> TerminalStatus \<Rightarrow>
   InlineRunner \<Rightarrow> InlineRunner" where
  "task_settle ic rflt wflt now task status rn =
     rn\<lparr> rn_intents := map_option (\<lambda>s. snd (intent_mark_terminal ic rflt wflt now (rk_run_id task) status s))
           (rn_intents rn),
         rn_tasks := drop_task (rk_id task) (rn_tasks rn) \<rparr>"

definition runner_cancel :: "datetime \<Rightarrow> string \<Rightarrow> InlineRunner \<Rightarrow> bool \<times> InlineRunner" where
  "runner_cancel now rid rn =
     (case reg_cancel now rid (rn_registry rn) of
        (None, reg) \<Rightarrow> (False, rn\<lparr> rn_registry := reg \<rparr>)
      | (Some t, reg) \<Rightarrow> (True, rn\<lparr> rn_registry := reg, rn_tasks := drop_task t (rn_tasks rn) \<rparr>))"

section \<open>Replay\<close>

definition scope_of_intent :: "RunnerIntent \<Rightarrow> ExecutionScope" where
  "scope_of_intent x =
     \<lparr> scope_namespace = ri_namespace x, scope_capabilities = map CapabilityGrant_new (ri_capabilities x),
       scope_limits = ResourceLimits_default, scope_actor = ri_actor x, scope_depth = 0 \<rparr>"

definition spec_of_intent :: "uuid \<Rightarrow> RunnerIntent \<Rightarrow> WorkflowSpec" where
  "spec_of_intent trace x =
     \<lparr> ws_workflow = ri_workflow x, ws_input = ri_input x, ws_parent_scope = scope_of_intent x,
       ws_parent_ctx = new_root trace (ri_session_id x) \<rparr>"

text \<open>
  \<open>rflt\<close> and \<open>wflt\<close> are the outcomes of the transactions on the old intent, \<open>sflt\<close> that of the
  insert by \<open>spawn_with_id\<close>.
\<close>

definition replay ::
  "intent_codec \<Rightarrow> IntentError option \<Rightarrow> IntentError option \<Rightarrow> IntentError option \<Rightarrow> datetime \<Rightarrow> uuid \<Rightarrow> uuid \<Rightarrow> ToolRegistry \<Rightarrow>
   RunnerIntent \<Rightarrow> InlineRunner \<Rightarrow> (RunnerError + string) \<times> InlineRunner" where
  "replay ic rflt wflt sflt now fresh trace tools x rn =
     (case rn_intents rn of
        None \<Rightarrow> spawn_with_id ic sflt now fresh tools (ri_run_id x) (spec_of_intent trace x) rn
      | Some s \<Rightarrow>
          (let updated = x\<lparr> ri_replay_count := ri_replay_count x + 1 \<rparr> in
           if ri_replay_count updated > 10
           then (Inl (RunnerBackend ''replay loop exceeded limit''),
                 rn\<lparr> rn_intents := Some (snd (intent_mark_terminal ic rflt wflt now (ri_run_id x)
                   (TermFailed ''replay loop exceeded limit (>10 restarts)'') s)) \<rparr>)
           else spawn_with_id ic sflt now fresh tools (ri_run_id x) (spec_of_intent trace x)
                  (rn\<lparr> rn_intents := Some (snd (intent_insert ic wflt updated s)) \<rparr>)))"

section \<open>Tools\<close>

definition require_run_id :: "json \<Rightarrow> string \<Rightarrow> ToolError + string" where
  "require_run_id input tool =
     (case Option.bind (json_get input ''run_id'') as_str of
        Some rid \<Rightarrow> Inr rid
      | None \<Rightarrow> Inl (ExecutionFailed (tool @ '' missing required field `run_id`'') False))"

definition runner_err :: "RunnerError \<Rightarrow> ToolError" where
  "runner_err e = ExecutionFailed (show_RunnerError e) False"

definition reconstruct_parent_scope :: "json Envelope \<Rightarrow> ExecutionScope" where
  "reconstruct_parent_scope env =
     \<lparr> scope_namespace = env_namespace env,
       scope_capabilities = map CapabilityGrant_new (CapSet_patterns (env_capabilities env)),
       scope_limits = ResourceLimits_default,
       scope_actor = \<lparr> actor_id = env_actor_id env,
         actor_role = (case Option.bind (obj_get (env_metadata env) ''actor_role'') as_str of
           Some r \<Rightarrow>
             (if r \<in> {''infra_admin'', ''product_admin'', ''user'', ''infra_agent'', ''product_agent'',
                      ''user_agent'', ''system''}
              then role_of_metadata r else System)
         | None \<Rightarrow> System) \<rparr>,
       scope_depth = 0 \<rparr>"

definition reconstruct_parent_context :: "json Envelope \<Rightarrow> ExecutionContext" where
  "reconstruct_parent_context env =
     with_trace (env_trace_id env)
       (case Option.bind (obj_get (env_metadata env) ''session_id'') as_str of
          Some sid \<Rightarrow> sid | None \<Rightarrow> ''runner'')"

definition spec_of_envelope :: "json Envelope \<Rightarrow> string \<Rightarrow> WorkflowSpec" where
  "spec_of_envelope env workflow =
     \<lparr> ws_workflow = workflow,
       ws_input = (case json_get (env_payload env) ''input'' of Some v \<Rightarrow> v | None \<Rightarrow> JObject []),
       ws_parent_scope = reconstruct_parent_scope env,
       ws_parent_ctx = reconstruct_parent_context env \<rparr>"

definition spawn_tool_invoke ::
  "intent_codec \<Rightarrow> IntentError option \<Rightarrow> datetime \<Rightarrow> uuid \<Rightarrow> uuid \<Rightarrow> ToolRegistry \<Rightarrow> string \<Rightarrow> json Envelope \<Rightarrow>
   InlineRunner \<Rightarrow> (ToolError + json Envelope) \<times> InlineRunner" where
  "spawn_tool_invoke ic fault now fresh spawn_fresh tools rid env rn =
     (case Option.bind (json_get (env_payload env) ''workflow'') as_str of
        None \<Rightarrow> (Inl (ExecutionFailed ''runner:spawn missing required field `workflow`'' False), rn)
      | Some workflow \<Rightarrow>
          (case spawn_with_id ic fault now spawn_fresh tools rid (spec_of_envelope env workflow) rn of
             (Inl e, rn') \<Rightarrow> (Inl (runner_err e), rn')
           | (Inr i, rn') \<Rightarrow>
               (Inr (respond fresh now env (JObject (obj_of_list
                  [(''run_id'', JString i), (''workflow'', JString workflow), (''backend'', JString ''inline'')]))),
                rn')))"

text \<open>The serialized record: the state is flattened into it.\<close>

fun state_fields :: "RunState \<Rightarrow> json smap" where
  "state_fields (RsSucceeded r) = [(''state'', JString ''succeeded''), (''result'', r)]"
| "state_fields (RsFailed e) = [(''state'', JString ''failed''), (''error'', JString e)]"
| "state_fields st = [(''state'', JString (rs_label st))]"

definition RunRecord_json :: "(datetime \<Rightarrow> string) \<Rightarrow> RunRecord \<Rightarrow> json" where
  "RunRecord_json show_time rec =
     JObject (obj_of_list (
       [(''id'', JString (rr_id rec)), (''workflow'', JString (rr_workflow rec)),
        (''backend'', JString (rr_backend rec))] @ state_fields (rr_state rec) @
       [(''created_at'', JString (show_time (rr_created_at rec))),
        (''started_at'', opt_json (\<lambda>t. JString (show_time t)) (rr_started_at rec)),
        (''finished_at'', opt_json (\<lambda>t. JString (show_time t)) (rr_finished_at rec))]))"

definition run_not_found :: "string \<Rightarrow> ToolError" where
  "run_not_found rid = ExecutionFailed (''run_id '' @ rid @ '' not found'') False"

definition status_tool_invoke ::
  "(datetime \<Rightarrow> string) \<Rightarrow> datetime \<Rightarrow> uuid \<Rightarrow> json Envelope \<Rightarrow> InlineRunner \<Rightarrow> ToolError + json Envelope" where
  "status_tool_invoke show_time now fresh env rn =
     rbind (require_run_id (env_payload env) ''runner:status'') (\<lambda>rid.
       case reg_record rid (rn_registry rn) of
         None \<Rightarrow> Inl (run_not_found rid)
       | Some rec \<Rightarrow> Inr (respond fresh now env (RunRecord_json show_time rec)))"

text \<open>
  \<open>runner:wait\<close> over what \<open>wait_terminal\<close> gave within the timeout: \<open>None\<close> when the timeout
  expired.
\<close>

definition wait_tool_invoke ::
  "(datetime \<Rightarrow> string) \<Rightarrow> datetime \<Rightarrow> uuid \<Rightarrow> (string \<Rightarrow> u64 \<Rightarrow> RunRecord option option) \<Rightarrow> json Envelope \<Rightarrow>
   ToolError + json Envelope" where
  "wait_tool_invoke show_time now fresh waited env =
     rbind (require_run_id (env_payload env) ''runner:wait'') (\<lambda>rid.
       let timeout = (case Option.bind (json_get (env_payload env) ''timeout_secs'') as_u64 of
                        Some t \<Rightarrow> t | None \<Rightarrow> 300)
       in case waited rid timeout of
            None \<Rightarrow> Inl (ExecutionFailed (''runner:wait timed out after '' @ show_u64 timeout
                     @ ''s for run_id '' @ rid) True)
          | Some None \<Rightarrow> Inl (run_not_found rid)
          | Some (Some rec) \<Rightarrow> Inr (respond fresh now env (RunRecord_json show_time rec)))"

definition cancel_tool_invoke ::
  "datetime \<Rightarrow> uuid \<Rightarrow> json Envelope \<Rightarrow> InlineRunner \<Rightarrow> (ToolError + json Envelope) \<times> InlineRunner" where
  "cancel_tool_invoke now fresh env rn =
     (case require_run_id (env_payload env) ''runner:cancel'' of
        Inl e \<Rightarrow> (Inl e, rn)
      | Inr rid \<Rightarrow>
          (case runner_cancel now rid rn of
             (cancelled, rn') \<Rightarrow>
               (Inr (respond fresh now env (JObject (obj_of_list
                  [(''run_id'', JString rid), (''cancelled'', JBool cancelled)]))), rn')))"

section \<open>Lemmas on the registry\<close>

definition reg_hook :: "string \<Rightarrow> RunRegistry \<Rightarrow> nat option" where
  "reg_hook rid reg = Option.bind (tbl_get reg rid) slot_cancel_hook"

lemma reg_update [simp]:
  "reg_record k (update_record rid f reg) = (if k = rid then map_option f (reg_record rid reg) else reg_record k reg)"
  "reg_hook k (update_record rid f reg) = reg_hook k reg"
  by (auto simp: update_record_def reg_record_def reg_hook_def tbl_get_modify option.map_comp comp_def
      split: option.split bind_split)

lemma reg_insert [simp]:
  "reg_record k (insert_pending_with_id now rid w b reg) =
     (if k = rid then Some \<lparr> rr_id = rid, rr_workflow = w, rr_backend = b, rr_state = RsPending,
        rr_created_at = now, rr_started_at = None, rr_finished_at = None \<rparr> else reg_record k reg)"
  "reg_hook k (insert_pending_with_id now rid w b reg) = (if k = rid then None else reg_hook k reg)"
  by (simp_all add: insert_pending_with_id_def reg_record_def reg_hook_def tbl.lookup_put)

lemma reg_register [simp]:
  "reg_record k (register_cancel_hook rid t reg) = reg_record k reg"
  "reg_hook k (register_cancel_hook rid t reg) =
     (if k = rid \<and> reg_record rid reg \<noteq> None then Some t else reg_hook k reg)"
  by (auto simp: register_cancel_hook_def reg_record_def reg_hook_def tbl_get_modify option.map_comp comp_def
      split: option.split bind_split)

lemma reg_cancel_simps:
  "fst (reg_cancel now rid reg) = reg_hook rid reg"
  "reg_record k (snd (reg_cancel now rid reg)) = reg_record k (mark_terminal now rid RsCancelled reg)"
  "reg_hook k (snd (reg_cancel now rid reg)) = (if k = rid then None else reg_hook k reg)"
  by (auto simp: reg_cancel_def mark_terminal_def reg_record_def reg_hook_def tbl_get_modify update_record_def
      option.map_comp comp_def split: option.split bind_split)

end
