(* ===== verification/Runner_Props.thy ===== *)
theory Runner_Props
  imports Runner
begin

text \<open>
  Properties of the runner: the lifecycle of runs under all interleavings of spawns, tasks and
  cancellations, the authority of spawned workflows, and the replay of intents after a crash.
\<close>

section \<open>Interleavings\<close>

text \<open>
  Each step is one operation on the registry. A spawn uses an id that is not in the registry,
  as a fresh UUID is, or as that of a replay at boot is.
\<close>

inductive rn_step :: "intent_codec \<Rightarrow> ToolRegistry \<Rightarrow> InlineRunner \<Rightarrow> InlineRunner \<Rightarrow> bool"
  for ic :: intent_codec and tools :: ToolRegistry where
  spawns: "reg_record rid (rn_registry rn) = None \<Longrightarrow>
     rn_step ic tools rn (snd (spawn_with_id ic fault now fresh tools rid spec rn))"
| begins: "task \<in> set (rn_tasks rn) \<Longrightarrow> rk_phase task = TaskSpawned \<Longrightarrow>
     rn_step ic tools rn (task_begin now task rn)"
| results: "task \<in> set (rn_tasks rn) \<Longrightarrow> rk_phase task = TaskInvoking \<Longrightarrow>
     rn_step ic tools rn (task_result now task res rn)"
| settles: "task \<in> set (rn_tasks rn) \<Longrightarrow> rk_phase task = TaskEnded status \<Longrightarrow>
     rn_step ic tools rn (task_settle ic rflt wflt now task status rn)"
| cancels: "rn_step ic tools rn (snd (runner_cancel now rid rn))"

definition rec_ok :: "string \<Rightarrow> RunRecord \<Rightarrow> bool" where
  "rec_ok rid rec \<longleftrightarrow>
     rr_id rec = rid \<and> (rs_terminal (rr_state rec) \<longleftrightarrow> rr_finished_at rec \<noteq> None) \<and>
     (rr_state rec = RsRunning \<longrightarrow> rr_started_at rec \<noteq> None) \<and>
     (rr_state rec = RsPending \<longrightarrow> rr_started_at rec = None)"

fun phase_ended :: "task_phase \<Rightarrow> bool" where
  "phase_ended (TaskEnded st) = True"
| "phase_ended _ = False"

definition rn_ok :: "InlineRunner \<Rightarrow> bool" where
  "rn_ok rn \<longleftrightarrow>
     distinct (map rk_id (rn_tasks rn)) \<and>
     (\<forall>task \<in> set (rn_tasks rn). rk_id task < rn_next rn \<and>
        (\<exists>rec. reg_record (rk_run_id task) (rn_registry rn) = Some rec \<and>
           (phase_ended (rk_phase task) \<longrightarrow> rs_terminal (rr_state rec)))) \<and>
     (\<forall>rid t. reg_hook rid (rn_registry rn) = Some t \<longrightarrow> t < rn_next rn \<and>
        (\<forall>task \<in> set (rn_tasks rn). rk_id task = t \<longrightarrow> rk_run_id task = rid)) \<and>
     (\<forall>rid rec. reg_record rid (rn_registry rn) = Some rec \<longrightarrow> rec_ok rid rec \<and>
        (\<not> rs_terminal (rr_state rec) \<longrightarrow>
           (\<exists>task \<in> set (rn_tasks rn). rk_run_id task = rid \<and> \<not> phase_ended (rk_phase task))))"

lemma rn_okI:
  assumes "distinct (map rk_id (rn_tasks rn))"
    and "\<And>task. task \<in> set (rn_tasks rn) \<Longrightarrow> rk_id task < rn_next rn \<and>
        (\<exists>rec. reg_record (rk_run_id task) (rn_registry rn) = Some rec \<and>
           (phase_ended (rk_phase task) \<longrightarrow> rs_terminal (rr_state rec)))"
    and "\<And>rid t. reg_hook rid (rn_registry rn) = Some t \<Longrightarrow> t < rn_next rn \<and>
        (\<forall>task \<in> set (rn_tasks rn). rk_id task = t \<longrightarrow> rk_run_id task = rid)"
    and "\<And>rid rec. reg_record rid (rn_registry rn) = Some rec \<Longrightarrow> rec_ok rid rec \<and>
        (\<not> rs_terminal (rr_state rec) \<longrightarrow>
           (\<exists>task \<in> set (rn_tasks rn). rk_run_id task = rid \<and> \<not> phase_ended (rk_phase task)))"
  shows "rn_ok rn"
  using assms by (simp add: rn_ok_def)

lemma rn_okD:
  assumes "rn_ok rn"
  shows "distinct (map rk_id (rn_tasks rn))"
    and "task \<in> set (rn_tasks rn) \<Longrightarrow> rk_id task < rn_next rn \<and>
        (\<exists>rec. reg_record (rk_run_id task) (rn_registry rn) = Some rec \<and>
           (phase_ended (rk_phase task) \<longrightarrow> rs_terminal (rr_state rec)))"
    and "reg_hook rid (rn_registry rn) = Some t \<Longrightarrow> t < rn_next rn"
    and "reg_hook rid (rn_registry rn) = Some t \<Longrightarrow> task \<in> set (rn_tasks rn) \<Longrightarrow> rk_id task = t \<Longrightarrow>
        rk_run_id task = rid"
    and "reg_record rid (rn_registry rn) = Some rec \<Longrightarrow> rec_ok rid rec"
    and "reg_record rid (rn_registry rn) = Some rec \<Longrightarrow> \<not> rs_terminal (rr_state rec) \<Longrightarrow>
        \<exists>task \<in> set (rn_tasks rn). rk_run_id task = rid \<and> \<not> phase_ended (rk_phase task)"
  using assms unfolding rn_ok_def by blast+

lemma set_phase_ids [simp]: "map rk_id (set_phase t ph ts) = map rk_id ts"
  by (simp add: set_phase_def comp_def)

lemma set_phase_mem:
  "task' \<in> set (set_phase t ph ts) \<longleftrightarrow>
     (\<exists>task \<in> set ts. task' = (if rk_id task = t then task\<lparr> rk_phase := ph \<rparr> else task))"
  unfolding set_phase_def set_map image_iff by (rule refl)

lemma distinct_task:
  "distinct (map rk_id ts) \<Longrightarrow> a \<in> set ts \<Longrightarrow> b \<in> set ts \<Longrightarrow> rk_id a = rk_id b \<Longrightarrow> a = b"
  by (metis distinct_map inj_onD)

text \<open>The update of a record by a task or a cancellation.\<close>

definition advances :: "(RunRecord \<Rightarrow> RunRecord) \<Rightarrow> bool" where
  "advances f \<longleftrightarrow>
     (\<forall>rec. (rs_terminal (rr_state rec) \<longrightarrow> f rec = rec) \<and> (\<forall>rid. rec_ok rid rec \<longrightarrow> rec_ok rid (f rec)))"

definition running_update :: "datetime \<Rightarrow> RunRecord \<Rightarrow> RunRecord" where
  "running_update now rec =
     (if rr_state rec = RsPending then rec\<lparr> rr_state := RsRunning, rr_started_at := Some now \<rparr> else rec)"

definition terminal_update :: "datetime \<Rightarrow> RunState \<Rightarrow> RunRecord \<Rightarrow> RunRecord" where
  "terminal_update now st rec =
     (if \<not> rs_terminal (rr_state rec) then rec\<lparr> rr_state := st, rr_finished_at := Some now \<rparr> else rec)"

lemma mark_updates:
  "mark_running now rid = update_record rid (running_update now)"
  "mark_terminal now rid st = update_record rid (terminal_update now st)"
  by (simp_all add: mark_running_def mark_terminal_def running_update_def [abs_def] terminal_update_def [abs_def])

lemma advances_running: "advances (running_update now)"
  by (auto simp: advances_def running_update_def rec_ok_def)

lemma advances_terminal: "rs_terminal st \<Longrightarrow> advances (terminal_update now st)"
  by (auto simp: advances_def terminal_update_def rec_ok_def)

lemma terminal_update_terminal [simp]:
  "rs_terminal st \<Longrightarrow> rs_terminal (rr_state (terminal_update now st rec))"
  by (simp add: terminal_update_def)

lemma running_update_terminal [simp]:
  "rs_terminal (rr_state (running_update now rec)) = rs_terminal (rr_state rec)"
  by (simp add: running_update_def)

lemma task_outcome_terminal [simp]: "rs_terminal (fst (task_outcome r))"
  by (simp add: task_outcome_def split: sum.split)

section \<open>The invariant\<close>

lemma spawn_ok:
  assumes ok: "rn_ok rn" and new: "reg_record rid (rn_registry rn) = None"
  shows "rn_ok (snd (spawn_with_id ic fault now fresh tools rid spec rn))"
proof (cases "registry_get tools (workflow_tool_name (ws_workflow spec))")
  case (Some tool)
  have old: "rk_run_id task \<noteq> rid \<and> rk_id task < rn_next rn" if "task \<in> set (rn_tasks rn)" for task
    using rn_okD(2) [OF ok that] new by auto
  have hook: "t < rn_next rn" if "reg_hook r (rn_registry rn) = Some t" for r t
    using rn_okD(3) [OF ok that] .
  show ?thesis
  proof (rule rn_okI, goal_cases)
    case 1
    have "rn_next rn \<notin> rk_id ` set (rn_tasks rn)" by (metis old imageE less_irrefl)
    then show ?case using Some rn_okD(1) [OF ok] by (simp add: spawn_with_id_def)
  next
    case (2 task)
    then show ?case using Some rn_okD(2) [OF ok] old by (fastforce simp: spawn_with_id_def)
  next
    case (3 r t)
    have fresh_id: "rk_id task \<noteq> rn_next rn" if "task \<in> set (rn_tasks rn)" for task
      using old [OF that] by simp
    from 3 show ?case using Some fresh_id hook rn_okD(4) [OF ok]
      by (auto simp: spawn_with_id_def less_Suc_eq split: if_splits)
  next
    case (4 r rec)
    then show ?case using Some rn_okD(5,6) [OF ok, of r]
      by (auto simp: spawn_with_id_def rec_ok_def split: if_splits)
  qed
qed (simp add: spawn_with_id_def ok)

text \<open>A task moves to a phase and its record is advanced.\<close>

lemma phase_ok:
  assumes ok: "rn_ok rn" and task: "task \<in> set (rn_tasks rn)" and f: "advances f"
    and end1: "phase_ended ph \<Longrightarrow> \<forall>rec. rs_terminal (rr_state (f rec))"
    and end2: "\<not> phase_ended ph \<Longrightarrow> \<not> phase_ended (rk_phase task)"
  shows "rn_ok (rn\<lparr> rn_registry := update_record (rk_run_id task) f (rn_registry rn),
    rn_tasks := set_phase (rk_id task) ph (rn_tasks rn) \<rparr>)" (is "rn_ok ?rn")
proof (rule rn_okI, goal_cases)
  case 1
  then show ?case using rn_okD(1) [OF ok] by simp
next
  case (2 t)
  then obtain t0 where t0: "t0 \<in> set (rn_tasks rn)"
    "t = (if rk_id t0 = rk_id task then t0\<lparr> rk_phase := ph \<rparr> else t0)"
    by (auto simp: set_phase_mem)
  obtain rec where rec: "reg_record (rk_run_id t0) (rn_registry rn) = Some rec"
    "phase_ended (rk_phase t0) \<longrightarrow> rs_terminal (rr_state rec)" and id: "rk_id t0 < rn_next rn"
    using rn_okD(2) [OF ok t0(1)] by blast
  have same: "t0 = task" if "rk_id t0 = rk_id task"
    using distinct_task [OF rn_okD(1) [OF ok] t0(1) task that] .
  have keep: "rs_terminal (rr_state rec) \<Longrightarrow> f rec = rec" using f by (simp add: advances_def)
  show ?case using t0 rec id same keep end1 by (auto split: if_splits)
next
  case (3 r t)
  then show ?case using rn_okD(3,4) [OF ok] by (auto simp: set_phase_mem)
next
  case (4 r rec)
  then obtain rec0 where rec0: "reg_record r (rn_registry rn) = Some rec0"
    "rec = (if r = rk_run_id task then f rec0 else rec0)"
    by (auto split: if_splits)
  have "rec_ok r rec" using rn_okD(5) [OF ok rec0(1)] f rec0(2) by (auto simp: advances_def)
  moreover have "\<exists>t \<in> set (rn_tasks ?rn). rk_run_id t = r \<and> \<not> phase_ended (rk_phase t)"
    if nt: "\<not> rs_terminal (rr_state rec)"
  proof -
    have "\<not> rs_terminal (rr_state rec0)" using nt rec0(2) f by (auto simp: advances_def split: if_splits)
    then obtain t0 where t0: "t0 \<in> set (rn_tasks rn)" "rk_run_id t0 = r" "\<not> phase_ended (rk_phase t0)"
      using rn_okD(6) [OF ok rec0(1)] by blast
    have "\<not> phase_ended ph" if "rk_id t0 = rk_id task"
      using nt rec0(2) end1 t0(2) distinct_task [OF rn_okD(1) [OF ok] t0(1) task that] by auto
    then show ?thesis
      using t0 by (intro bexI [of _ "if rk_id t0 = rk_id task then t0\<lparr> rk_phase := ph \<rparr> else t0"])
        (auto simp: set_phase_mem)
  qed
  ultimately show ?case by blast
qed

lemma settle_ok:
  assumes ok: "rn_ok rn" and task: "task \<in> set (rn_tasks rn)" and ended: "phase_ended (rk_phase task)"
  shows "rn_ok (rn\<lparr> rn_intents := i, rn_tasks := drop_task (rk_id task) (rn_tasks rn) \<rparr>)" (is "rn_ok ?rn")
proof (rule rn_okI, goal_cases)
  case 1
  then show ?case using rn_okD(1) [OF ok] by (simp add: drop_task_def distinct_map_filter)
next
  case (2 t)
  then show ?case using rn_okD(2) [OF ok] by (simp add: drop_task_def)
next
  case (3 r t)
  then show ?case using rn_okD(3,4) [OF ok] by (simp add: drop_task_def)
next
  case (4 r rec)
  then have rec: "reg_record r (rn_registry rn) = Some rec" by simp
  have "\<exists>t \<in> set (rn_tasks ?rn). rk_run_id t = r \<and> \<not> phase_ended (rk_phase t)"
    if nt: "\<not> rs_terminal (rr_state rec)"
  proof -
    obtain t0 where t0: "t0 \<in> set (rn_tasks rn)" "rk_run_id t0 = r" "\<not> phase_ended (rk_phase t0)"
      using rn_okD(6) [OF ok rec nt] by blast
    then have "rk_id t0 \<noteq> rk_id task"
      using distinct_task [OF rn_okD(1) [OF ok] t0(1) task] ended by auto
    with t0 show ?thesis by (auto simp: drop_task_def)
  qed
  with rn_okD(5) [OF ok rec] show ?case by blast
qed

lemma runner_cancel_ok:
  assumes ok: "rn_ok rn"
  shows "rn_ok (snd (runner_cancel now rid rn))"
proof -
  let ?reg = "snd (reg_cancel now rid (rn_registry rn))"
  define ts where "ts = (case reg_hook rid (rn_registry rn) of
    Some t \<Rightarrow> drop_task t (rn_tasks rn) | None \<Rightarrow> rn_tasks rn)"
  have eq: "snd (runner_cancel now rid rn) = rn\<lparr> rn_registry := ?reg, rn_tasks := ts \<rparr>"
    using reg_cancel_simps(1) [of now rid "rn_registry rn"]
    by (auto simp: runner_cancel_def ts_def split: prod.split option.split)
  have sub: "set ts \<subseteq> set (rn_tasks rn)" "distinct (map rk_id ts)"
    using rn_okD(1) [OF ok] by (auto simp: ts_def drop_task_def distinct_map_filter split: option.split)
  have kept: "task \<in> set ts" if "task \<in> set (rn_tasks rn)" "rk_run_id task \<noteq> rid" for task
    using that rn_okD(4) [OF ok _ that(1)] by (auto simp: ts_def drop_task_def split: option.split)
  have adv: "advances (terminal_update now RsCancelled)" by (simp add: advances_terminal)
  have reg: "reg_record k ?reg = (if k = rid then map_option (terminal_update now RsCancelled) (reg_record rid (rn_registry rn))
      else reg_record k (rn_registry rn))" for k
    by (simp add: reg_cancel_simps mark_updates)
  show ?thesis
    unfolding eq
  proof (rule rn_okI, goal_cases)
    case 1
    then show ?case using sub(2) by simp
  next
    case (2 t)
    then have "t \<in> set (rn_tasks rn)" using sub(1) by auto
    from rn_okD(2) [OF ok this] show ?case by (auto simp: reg)
  next
    case (3 r t)
    then show ?case using rn_okD(3,4) [OF ok] sub(1) by (auto simp: reg_cancel_simps split: if_splits)
  next
    case (4 r rec)
    then show ?case
    proof (cases "r = rid")
      case True
      then obtain rec0 where r0: "reg_record rid (rn_registry rn) = Some rec0" "rec = terminal_update now RsCancelled rec0"
        using 4 by (auto simp: reg)
      then show ?thesis using rn_okD(5) [OF ok r0(1)] adv True by (simp add: advances_def)
    next
      case False
      then have "reg_record r (rn_registry rn) = Some rec" using 4 by (simp add: reg)
      then show ?thesis using rn_okD(5,6) [OF ok] kept False by fastforce
    qed
  qed
qed

lemma rn_step_ok: "rn_step ic tools rn rn' \<Longrightarrow> rn_ok rn \<Longrightarrow> rn_ok rn'"
proof (induction rule: rn_step.induct)
  case (begins task rn now)
  then show ?case
    using phase_ok [OF begins.prems begins.hyps(1) advances_running, of TaskInvoking now]
    by (simp add: task_begin_def mark_updates)
next
  case (results task rn now res)
  then show ?case
    using phase_ok [OF results.prems results.hyps(1) advances_terminal [OF task_outcome_terminal [of res]],
        of "TaskEnded (snd (task_outcome res))" now]
    by (simp add: task_result_def mark_updates)
next
  case (settles task rn status rflt wflt now)
  then show ?case using settle_ok [OF settles.prems settles.hyps(1)] by (simp add: task_settle_def)
qed (simp_all add: spawn_ok runner_cancel_ok)

fun rank :: "RunState \<Rightarrow> nat" where
  "rank RsPending = 0"
| "rank RsRunning = 1"
| "rank _ = 2"

lemma rn_step_record:
  assumes "rn_step ic tools rn rn'" "reg_record rid (rn_registry rn) = Some rec"
  shows "\<exists>rec'. reg_record rid (rn_registry rn') = Some rec' \<and> (rs_terminal (rr_state rec) \<longrightarrow> rec' = rec) \<and>
    rank (rr_state rec) \<le> rank (rr_state rec')"
proof -
  have upd: "rank (rr_state rec) \<le> rank (rr_state (running_update now rec)) \<and>
      (rs_terminal (rr_state rec) \<longrightarrow> running_update now rec = rec)" for now
    by (auto simp: running_update_def)
  have fin: "rank (rr_state rec) \<le> rank (rr_state (terminal_update now st rec)) \<and>
      (rs_terminal (rr_state rec) \<longrightarrow> terminal_update now st rec = rec)" if "rs_terminal st" for now st
    using that by (cases "rr_state rec"; cases st) (auto simp: terminal_update_def)
  from assms show ?thesis
  proof (induction rule: rn_step.induct)
    case (spawns r rn fault now fresh spec)
    then show ?case by (auto simp: spawn_with_id_def split: option.split)
  next
    case (begins task rn now)
    then show ?case using upd by (auto simp: task_begin_def mark_updates)
  next
    case (results task rn now res)
    then show ?case using fin by (auto simp: task_result_def mark_updates)
  next
    case (settles task rn status rflt wflt now)
    then show ?case by (auto simp: task_settle_def)
  next
    case (cancels rn now r)
    have "rn_registry (snd (runner_cancel now r rn)) = snd (reg_cancel now r (rn_registry rn))"
      by (simp add: runner_cancel_def split: prod.split option.split)
    then show ?case using cancels fin [of RsCancelled] by (auto simp: reg_cancel_simps mark_updates)
  qed
qed

lemma rn_steps_record:
  assumes "(rn_step ic tools)\<^sup>*\<^sup>* rn rn'" "reg_record rid (rn_registry rn) = Some rec"
  shows "\<exists>rec'. reg_record rid (rn_registry rn') = Some rec' \<and> (rs_terminal (rr_state rec) \<longrightarrow> rec' = rec) \<and>
    rank (rr_state rec) \<le> rank (rr_state rec')"
  using assms
proof (induction rule: rtranclp_induct)
  case (step y z)
  then obtain rec' where r: "reg_record rid (rn_registry y) = Some rec'"
    "rs_terminal (rr_state rec) \<longrightarrow> rec' = rec" "rank (rr_state rec) \<le> rank (rr_state rec')" by blast
  from rn_step_record [OF step.hyps(2) r(1)] r(2,3) show ?case by (metis order_trans)
qed auto

lemma rn_reachable_ok: "(rn_step ic tools)\<^sup>*\<^sup>* (InlineRunner_new i) rn \<Longrightarrow> rn_ok rn"
proof (induction rule: rtranclp_induct)
  case base
  show ?case by (simp add: rn_ok_def InlineRunner_new_def reg_hook_def reg_record_def)
qed (rule rn_step_ok)

section \<open>Properties\<close>


text \<open>
  A spawned workflow has exactly the authority of its spawner. When \<open>runner:spawn\<close>
  succeeds, the workflow tool derives from the task's envelope a scope that permits a tool if
  and only if the capabilities of the calling envelope do, in the caller's namespace and
  trace; when it fails, nothing was spawned.
\<close>

theorem spawn_keeps_authority:
  "case spawn_tool_invoke ic fault now fresh spawn_fresh tools rid env rn of
     (Inl e, rn') \<Rightarrow> rn' = rn
   | (Inr resp, rn') \<Rightarrow>
       \<exists>task s'. rn_tasks rn' = rn_tasks rn @ [task] \<and> rk_run_id task = rid \<and>
         nested_scope (rk_env task) = Inr s' \<and>
         (\<forall>t. is_ok (check_tool s' t) \<longleftrightarrow> CapSet_permits (env_capabilities env) t) \<and>
         scope_namespace s' = env_namespace env \<and> scope_depth s' = 1 \<and>
         ctx_trace_id (ctx_from_envelope (rk_env task)) = env_trace_id env"
proof -
  have caps: "is_ok (check_tool s t) \<longleftrightarrow> CapSet_permits cs t" if "capability_patterns s = CapSet_patterns cs" for s t cs
    using that scope_permits_patterns [of s t]
    by (cases cs) (simp add: scope_permits_def CapSet_patterns_def CapSet_from_patterns_def comp_def)
  have pats: "capability_patterns (reconstruct_parent_scope env) = CapSet_patterns (env_capabilities env)"
    by (simp add: capability_patterns_def reconstruct_parent_scope_def CapabilityGrant_new_def comp_def)
  define e where "e w = spawn_envelope spawn_fresh now (spec_of_envelope env w)" for w
  have e: "scope_from_envelope (e w) =
      \<lparr> scope_namespace = env_namespace env,
        scope_capabilities = map CapabilityGrant_new (CapSet_patterns (env_capabilities env)),
        scope_limits = ResourceLimits_default,
        scope_actor = \<lparr> actor_id = ''runner:inline'', actor_role = System \<rparr>, scope_depth = 0 \<rparr>" for w
    by (simp add: e_def scope_from_envelope_def spawn_envelope_def Let_def for_tool_dispatch_def
        spec_of_envelope_def obj_get_def CapSet_patterns_def CapSet_from_patterns_def comp_def pats
        reconstruct_parent_scope_def capability_patterns_def CapabilityGrant_new_def)
  have tr: "ctx_trace_id (ctx_from_envelope (e w)) = env_trace_id env" for w
    by (simp add: e_def ctx_from_envelope_def spawn_envelope_def Let_def for_tool_dispatch_def
        spec_of_envelope_def reconstruct_parent_context_def with_trace_def)
  have perm: "is_ok (check_tool (scope_from_envelope (e w)\<lparr> scope_depth := d \<rparr>) t) \<longleftrightarrow>
      CapSet_permits (env_capabilities env) t" for w d t
    by (rule caps) (simp add: e capability_patterns_def CapabilityGrant_new_def comp_def)
  show ?thesis
    using perm by (auto simp: spawn_tool_invoke_def spawn_with_id_def nested_scope_ok e_def [symmetric] tr e
        split: option.split)
qed


section \<open>Cancelling and waiting\<close>

text \<open>
  A cancelled run stays in the replay set: the cancellation does not touch the intents, and
  the aborted task, which would have marked its intent, is gone.
\<close>

lemma cancel_leaves_intent:
  assumes "reg_hook rid (rn_registry rn) = Some t"
  shows "fst (runner_cancel now rid rn) \<and> rn_intents (snd (runner_cancel now rid rn)) = rn_intents rn \<and>
    (\<forall>task \<in> set (rn_tasks (snd (runner_cancel now rid rn))). rk_id task \<noteq> t)"
  using assms reg_cancel_simps(1) [of now rid "rn_registry rn"]
  by (auto simp: runner_cancel_def drop_task_def split: prod.split option.split)

text \<open>
  \<open>wait_terminal\<close> against the end of the run: a waiter reads the record, and only then registers
  for the notification, which wakes the waiters that are registered.
\<close>

datatype waiter = WaitCheck | WaitRead | WaitParked | WaitDone RunRecord

inductive wait_step :: "RunRecord \<times> waiter \<Rightarrow> RunRecord \<times> waiter \<Rightarrow> bool" where
  check_done: "rs_terminal (rr_state rec) \<Longrightarrow> wait_step (rec, WaitCheck) (rec, WaitDone rec)"
| check_again: "\<not> rs_terminal (rr_state rec) \<Longrightarrow> wait_step (rec, WaitCheck) (rec, WaitRead)"
| park: "wait_step (rec, WaitRead) (rec, WaitParked)"
| run_ends: "rs_terminal st \<Longrightarrow>
     wait_step (rec, w) (terminal_update now st rec, if w = WaitParked then WaitCheck else w)"

lemma wait_returns_terminal:
  "wait_step\<^sup>*\<^sup>* (rec0, WaitCheck) (rec, w) \<Longrightarrow> w = WaitDone rec' \<Longrightarrow> rs_terminal (rr_state rec')"
proof (induction rule: rtranclp_induct2)
  case (step rec1 w1 rec2 w2)
  from step.hyps(2) show ?case using step.IH step.prems by (cases rule: wait_step.cases) (auto split: if_splits)
qed simp

text \<open>A run that ends between the two is missed: the waiter sleeps although the run is over.\<close>

lemma wait_can_miss_completion:
  assumes "\<not> rs_terminal (rr_state rec)" "rs_terminal st"
  shows "\<exists>rec'. rs_terminal (rr_state rec') \<and> wait_step\<^sup>*\<^sup>* (rec, WaitCheck) (rec', WaitParked)"
proof (intro exI conjI)
  let ?rec = "terminal_update 0 st rec"
  show "rs_terminal (rr_state ?rec)" using assms(2) by simp
  have "wait_step (rec, WaitCheck) (rec, WaitRead)" by (rule check_again [OF assms(1)])
  moreover have "wait_step (rec, WaitRead) (?rec, WaitRead)" using run_ends [OF assms(2), of rec WaitRead 0] by simp
  moreover have "wait_step (?rec, WaitRead) (?rec, WaitParked)" by (rule park)
  ultimately show "wait_step\<^sup>*\<^sup>* (rec, WaitCheck) (?rec, WaitParked)" by (meson r_into_rtranclp rtranclp_trans)
qed

section \<open>Instances\<close>

definition demo_tools :: ToolRegistry where
  "demo_tools = [(workflow_tool_name ''w'', RawTool (sample_info ''w''))]"

definition demo_spec :: WorkflowSpec where
  "demo_spec = spec_of_intent 4 demo_intent"

definition demo_runner :: InlineRunner where
  "demo_runner = snd (spawn_with_id demo_intent_codec None 3000 1 demo_tools ''r'' demo_spec
     (InlineRunner_new (Some RunnerIntentStore_open)))"

lemma demo_tools_get: "registry_get demo_tools (workflow_tool_name ''w'') = Some (RawTool (sample_info ''w''))"
  by (simp add: demo_tools_def registry_get_def obj_get_def)

lemma demo_runner_reached:
  "(rn_step demo_intent_codec demo_tools)\<^sup>*\<^sup>* (InlineRunner_new (Some RunnerIntentStore_open)) demo_runner"
  unfolding demo_runner_def
  by (intro r_into_rtranclp rn_step.spawns) (simp add: InlineRunner_new_def reg_record_def)

text \<open>A codec that tells stored intents apart by their replay count.\<close>

definition replay_codec :: intent_codec where
  "replay_codec = demo_intent_codec
     \<lparr> ic_encode := (\<lambda>st. Inr (if sti_replay_count st = 0 then [0] else [1])),
       ic_decode := (\<lambda>bs. Inr ((demo_intent_stored None)\<lparr> sti_replay_count := if bs = [0] then 0 else 1 \<rparr>)) \<rparr>"



end
