(* ===== verification/Subscription.thy ===== *)
theory Subscription
  imports Dispatcher
begin

text \<open>
  Journal subscriptions, \<^verbatim>\<open>konf-runtime/src/journal/subscribe.rs\<close>, and the TTL sweeper,
  \<^verbatim>\<open>konf-runtime/src/journal/sweep.rs\<close>. A subscription sends the rows of a query and then
  bridges the \<open>JournalAppended\<close> events of the bus: for each one it looks up the newest row.
  The channel is the list of rows it sends; a receiver that is gone ends it.
\<close>

datatype bus_message = BusEvent RunEvent | BusLagged u64 | BusClosed

text \<open>The quick filter on the fields of the event.\<close>

definition event_passes :: "JournalFilter \<Rightarrow> string \<Rightarrow> string \<Rightarrow> bool" where
  "event_passes f namespace event_type \<longleftrightarrow>
     (case jf_namespace f of Some n \<Rightarrow> n = namespace | None \<Rightarrow> True) \<and>
     (case jf_event_type f of Some t \<Rightarrow> t = event_type | None \<Rightarrow> True)"

text \<open>
  The rows forwarded for one message: \<open>newest\<close> is the answer of \<open>recent(1)\<close> when the message is
  handled, \<open>matches\<close> the subscription's filter at that time.
\<close>

fun live_rows ::
  "JournalFilter \<Rightarrow> (JournalRow \<Rightarrow> bool) \<Rightarrow> JournalError + JournalRow list \<Rightarrow> bus_message \<Rightarrow> JournalRow list" where
  "live_rows f matches newest (BusEvent (JournalAppended sequence event_type namespace run)) =
     (if event_passes f namespace event_type
      then (case newest of
              Inr rows \<Rightarrow> List.filter (\<lambda>row. jr_id row = sequence \<and> matches row) rows
            | Inl _ \<Rightarrow> [])
      else [])"
| "live_rows f matches newest m = []"

text \<open>The live phase over its messages, each with the answers that go with it.\<close>

fun live_loop ::
  "JournalFilter \<Rightarrow> (bus_message \<times> (JournalRow \<Rightarrow> bool) \<times> (JournalError + JournalRow list)) list \<Rightarrow> JournalRow list" where
  "live_loop f [] = []"
| "live_loop f ((m, matches, newest) # ms) =
     (if m = BusClosed then [] else live_rows f matches newest m @ live_loop f ms)"

definition replay_rows :: "JournalError + JournalRow list \<Rightarrow> JournalRow list" where
  "replay_rows r = (case r of Inr rows \<Rightarrow> rows | Inl _ \<Rightarrow> [])"

definition subscription_sent ::
  "JournalFilter \<Rightarrow> JournalError + JournalRow list \<Rightarrow>
   (bus_message \<times> (JournalRow \<Rightarrow> bool) \<times> (JournalError + JournalRow list)) list \<Rightarrow> JournalRow list" where
  "subscription_sent f replayed ms = replay_rows replayed @ live_loop f ms"

text \<open>The sweeper: one deletion per tick, errors are logged.\<close>

definition ttl_sweep :: "codec \<Rightarrow> (string option \<times> datetime) list \<Rightarrow> RedbJournal \<Rightarrow> RedbJournal" where
  "ttl_sweep cdc = fold (\<lambda>(fault, now) j. snd (delete_expired cdc fault now j))"

section \<open>Lemmas\<close>

text \<open>
  An appended entry is forwarded when it is still the newest one at the time its event is
  handled, and lost otherwise: two appends before the first event is handled are enough.
\<close>

lemma live_rows_newest:
  "event_passes f namespace event_type \<Longrightarrow> jr_id row = sequence \<Longrightarrow> matches row \<Longrightarrow>
     live_rows f matches (Inr [row]) (BusEvent (JournalAppended sequence event_type namespace run)) = [row]"
  by simp

lemma overtaken_entry_is_missed:
  assumes "journal_wf cdc j" "next_event_id j \<noteq> sequence + 1" "sequence \<in> fst ` set (j_events j)"
  shows "live_rows f matches (recent cdc None now 1 j)
    (BusEvent (JournalAppended sequence event_type namespace run)) = []"
proof -
  obtain k bs where l: "last (j_events j) = (k, bs)" by force
  have ne: "j_events j \<noteq> []" using assms(3) by auto
  then have "k \<noteq> sequence" using assms(2) l by (cases "j_events j") (auto simp: next_event_id_def)
  moreover have "take 1 (rev (j_events j)) = [(k, bs)]" using ne l by (cases "j_events j" rule: rev_cases) auto
  moreover have "jr_id row = k" if "decode_row cdc now (k, bs) = Inr row" for row
    using that by (auto simp: decode_row_def into_row_def rbind_eq_Inr)
  ultimately show ?thesis
    by (cases "decode_row cdc now (k, bs)") (auto simp: recent_def with_fault_def filter_empty_conv)
qed

end
