(* ===== verification/Net_Tools.thy ===== *)
theory Net_Tools
  imports Envelope Konf_Errors
begin

text \<open>
  The tools that reach outside the process: \<open>http:get\<close> and \<open>http:post\<close>
  (\<^verbatim>\<open>konf-tool-http/src/lib.rs\<close>), \<open>shell:exec\<close> (\<^verbatim>\<open>konf-tool-shell/src/lib.rs\<close>) and
  \<open>secret:get\<close>, \<open>secret:list\<close> (\<^verbatim>\<open>konf-tool-secret/src/lib.rs\<close>).

  What they call is the record \<open>'w Outside\<close>: URL parsing (\<^verbatim>\<open>url\<close>), sending a request
  (\<^verbatim>\<open>reqwest\<close>), running a process with a timeout (\<^verbatim>\<open>tokio\<close>), environment variables, the
  reading of JSON and UTF-8 text, the textual forms of addresses, and the clock. \<open>'w\<close> is the
  state of the world that requests and processes act on.
\<close>

section \<open>The outside\<close>

datatype Host = Domain string | Ipv4 "32 word" | Ipv6 "128 word"

record Url =
  url_scheme :: string
  url_host :: "Host option"

record HttpRequest =
  req_method :: string
  req_url :: string
  req_body :: "json option"
  req_headers :: "(string \<times> string) list"
  req_timeout_secs :: u64

record HttpResponse =
  resp_status :: u64
  resp_headers :: "(string \<times> string option) list"
  resp_content_length :: "u64 option"
  resp_bytes :: "string + 8 word list"

record ProcessOutput =
  out_stdout :: string
  out_stderr :: string
  out_code :: "int option"

datatype 'a timed = TimedOut | InTime 'a

record 'w Outside =
  os_parse_url :: "string \<Rightarrow> string + Url"
  os_send :: "HttpRequest \<Rightarrow> 'w \<Rightarrow> (string + HttpResponse) \<times> 'w"
  os_run :: "string \<Rightarrow> string list \<Rightarrow> u64 \<Rightarrow> 'w \<Rightarrow> (string + (string + ProcessOutput) timed) \<times> 'w"
  os_env_var :: "string \<Rightarrow> string option"
  os_json_from_str :: "string \<Rightarrow> json option"
  os_from_utf8 :: "8 word list \<Rightarrow> string + string"
  os_show_ipv4 :: "32 word \<Rightarrow> string"
  os_show_ipv6 :: "128 word \<Rightarrow> string"
  os_elapsed_ms :: "'w \<Rightarrow> 'w \<Rightarrow> u64"

section \<open>HTTP\<close>

text \<open>The address tests of the standard library.\<close>

definition ipv4_octet :: "nat \<Rightarrow> 32 word \<Rightarrow> nat" where
  "ipv4_octet i ip = unat ip div 256 ^ (3 - i) mod 256"

definition ipv4_is_loopback :: "32 word \<Rightarrow> bool" where
  "ipv4_is_loopback ip = (ipv4_octet 0 ip = 127)"

definition ipv4_is_private :: "32 word \<Rightarrow> bool" where
  "ipv4_is_private ip =
     (ipv4_octet 0 ip = 10 \<or>
      ipv4_octet 0 ip = 172 \<and> 16 \<le> ipv4_octet 1 ip \<and> ipv4_octet 1 ip \<le> 31 \<or>
      ipv4_octet 0 ip = 192 \<and> ipv4_octet 1 ip = 168)"

definition ipv4_is_link_local :: "32 word \<Rightarrow> bool" where
  "ipv4_is_link_local ip = (ipv4_octet 0 ip = 169 \<and> ipv4_octet 1 ip = 254)"

definition ipv6_segment0 :: "128 word \<Rightarrow> nat" where
  "ipv6_segment0 ip = unat ip div 2 ^ 112"

definition blocked_host :: "Host \<Rightarrow> bool" where
  "blocked_host h =
     (case h of
        Domain d \<Rightarrow> d \<in> {''localhost'', ''metadata.google.internal''}
      | Ipv4 ip \<Rightarrow> ipv4_is_loopback ip \<or> ipv4_is_private ip \<or> ipv4_is_link_local ip \<or> ip = 0
      | Ipv6 ip \<Rightarrow> ip = 1 \<or> ipv6_segment0 ip = 0xfe80)"

definition url_error :: "string \<Rightarrow> ToolError" where
  "url_error message = InvalidInput message (Some ''url'')"

fun host_error :: "'w Outside \<Rightarrow> Host \<Rightarrow> ToolError" where
  "host_error os (Domain d) = url_error (''URL host '' @ quoted d @ '' is blocked'')"
| "host_error os (Ipv4 ip) = url_error (''URL host '' @ quoted (os_show_ipv4 os ip) @ '' is a private/internal IP'')"
| "host_error os (Ipv6 ip) = url_error (''URL host '' @ quoted (os_show_ipv6 os ip) @ '' is a private/internal IP'')"

definition validate_url :: "'w Outside \<Rightarrow> string \<Rightarrow> ToolError + unit" where
  "validate_url os url =
     (case os_parse_url os url of
        Inl e \<Rightarrow> Inl (url_error (''Invalid URL: '' @ e))
      | Inr parsed \<Rightarrow>
          if url_scheme parsed \<notin> {''http'', ''https''}
          then Inl (url_error (''Unsupported URL scheme: '' @ url_scheme parsed))
          else (case url_host parsed of
                  Some h \<Rightarrow> if blocked_host h then Inl (host_error os h) else Inr ()
                | None \<Rightarrow> Inr ()))"

definition too_large :: "string \<Rightarrow> nat \<Rightarrow> ToolError" where
  "too_large n max_response_bytes =
     ExecutionFailed (''Response too large: '' @ n @ '' bytes (max '' @ show_nat max_response_bytes @ '')'') False"

definition read_body_limited :: "'w Outside \<Rightarrow> nat \<Rightarrow> HttpResponse \<Rightarrow> ToolError + string" where
  "read_body_limited os max_response_bytes resp =
     (let content_length = unat (case resp_content_length resp of Some n \<Rightarrow> n | None \<Rightarrow> 0) in
      if content_length > max_response_bytes then Inl (too_large (show_nat content_length) max_response_bytes)
      else (case resp_bytes resp of
              Inl e \<Rightarrow> Inl (ExecutionFailed e True)
            | Inr bs \<Rightarrow>
                if length bs > max_response_bytes then Inl (too_large (show_nat (length bs)) max_response_bytes)
                else map_err (\<lambda>e. ExecutionFailed (''Response is not valid UTF-8: '' @ e) False)
                       (os_from_utf8 os bs)))"

record HttpLimits =
  max_timeout_secs :: u64
  max_response_bytes :: nat

definition HttpLimits_of_config :: "json \<Rightarrow> HttpLimits" where
  "HttpLimits_of_config config =
     \<lparr> max_timeout_secs = (case Option.bind (json_get config ''max_timeout_secs'') as_u64 of Some n \<Rightarrow> n | None \<Rightarrow> 300),
       max_response_bytes =
         (case Option.bind (json_get config ''max_response_bytes'') as_u64 of
            Some n \<Rightarrow> unat n | None \<Rightarrow> 10 * 1024 * 1024) \<rparr>"

definition request_headers :: "json \<Rightarrow> (string \<times> string) list" where
  "request_headers payload =
     (case json_get payload ''headers'' of
        Some (JObject hs) \<Rightarrow> List.map_filter (\<lambda>(k, v). map_option (\<lambda>s. (k, s)) (as_str v)) hs
      | _ \<Rightarrow> [])"

definition request_timeout :: "HttpLimits \<Rightarrow> json \<Rightarrow> u64" where
  "request_timeout limits payload =
     min (case Option.bind (json_get payload ''timeout'') as_u64 of Some t \<Rightarrow> t | None \<Rightarrow> 30)
       (max_timeout_secs limits)"

definition body_value :: "'w Outside \<Rightarrow> string \<Rightarrow> json" where
  "body_value os body = (case os_json_from_str os body of Some j \<Rightarrow> j | None \<Rightarrow> JString body)"

definition http_meta :: "string \<Rightarrow> u64 \<Rightarrow> json" where
  "http_meta tool duration_ms =
     JObject (obj_of_list [(''tool'', JString tool), (''duration_ms'', JNumber (PosInt duration_ms))])"

text \<open>The request is sent when the URL passes; \<open>extra\<close> adds what only \<open>http:get\<close> reports.\<close>

definition http_call ::
  "'w Outside \<Rightarrow> HttpLimits \<Rightarrow> string \<Rightarrow> (string \<Rightarrow> json \<Rightarrow> HttpRequest) \<Rightarrow> (HttpResponse \<Rightarrow> json smap) \<Rightarrow>
   uuid \<Rightarrow> datetime \<Rightarrow> json Envelope \<Rightarrow> 'w \<Rightarrow> (ToolError + json Envelope) \<times> 'w" where
  "http_call os limits tool request extra fresh now env w =
     (case Option.bind (json_get (env_payload env) ''url'') as_str of
        None \<Rightarrow> (Inl (url_error (''missing '' @ quoted ''url'')), w)
      | Some url \<Rightarrow>
     (case validate_url os url of
        Inl e \<Rightarrow> (Inl e, w)
      | Inr _ \<Rightarrow>
     (case os_send os (request url (env_payload env)) w of
        (Inl e, w') \<Rightarrow> (Inl (ExecutionFailed e True), w')
      | (Inr resp, w') \<Rightarrow>
          (map_ok (\<lambda>body. respond fresh now env (JObject (obj_of_list (
               [(''status'', JNumber (PosInt (resp_status resp)))] @ extra resp @
               [(''body'', body_value os body), (''_meta'', http_meta tool (os_elapsed_ms os w w'))]))))
             (read_body_limited os (max_response_bytes limits) resp), w'))))"

definition get_request :: "HttpLimits \<Rightarrow> string \<Rightarrow> json \<Rightarrow> HttpRequest" where
  "get_request limits url payload =
     \<lparr> req_method = ''GET'', req_url = url, req_body = None, req_headers = request_headers payload,
       req_timeout_secs = request_timeout limits payload \<rparr>"

definition post_request :: "HttpLimits \<Rightarrow> string \<Rightarrow> json \<Rightarrow> HttpRequest" where
  "post_request limits url payload =
     \<lparr> req_method = ''POST'', req_url = url,
       req_body = Some (case json_get payload ''body'' of Some b \<Rightarrow> b | None \<Rightarrow> JNull),
       req_headers = request_headers payload, req_timeout_secs = request_timeout limits payload \<rparr>"

definition response_headers :: "HttpResponse \<Rightarrow> json smap" where
  "response_headers resp =
     [(''headers'', JObject (obj_of_list
         (List.map_filter (\<lambda>(k, v). map_option (\<lambda>s. (k, JString s)) v) (resp_headers resp))))]"

definition http_get ::
  "'w Outside \<Rightarrow> HttpLimits \<Rightarrow> uuid \<Rightarrow> datetime \<Rightarrow> json Envelope \<Rightarrow> 'w \<Rightarrow> (ToolError + json Envelope) \<times> 'w" where
  "http_get os limits = http_call os limits ''http:get'' (get_request limits) response_headers"

definition http_post ::
  "'w Outside \<Rightarrow> HttpLimits \<Rightarrow> uuid \<Rightarrow> datetime \<Rightarrow> json Envelope \<Rightarrow> 'w \<Rightarrow> (ToolError + json Envelope) \<times> 'w" where
  "http_post os limits = http_call os limits ''http:post'' (post_request limits) (\<lambda>_. [])"

section \<open>Shell\<close>

record ShellExecTool =
  container_name :: string
  default_timeout_ms :: u64

definition shell_command :: "ShellExecTool \<Rightarrow> string \<Rightarrow> string \<times> string list" where
  "shell_command tool command =
     (if container_name tool = ''host'' then (''bash'', [''-c'', command])
      else (''docker'', [''exec'', ''-u'', ''konf-agent'', ''-w'', ''/workspace'', container_name tool,
                         ''bash'', ''-c'', command]))"

definition code_json :: "int \<Rightarrow> json" where
  "code_json c = JNumber (if c < 0 then NegInt (of_int c) else PosInt (of_int c))"

definition shell_exec ::
  "'w Outside \<Rightarrow> ShellExecTool \<Rightarrow> uuid \<Rightarrow> datetime \<Rightarrow> json Envelope \<Rightarrow> 'w \<Rightarrow> (ToolError + json Envelope) \<times> 'w" where
  "shell_exec os tool fresh now env w =
     (case Option.bind (json_get (env_payload env) ''command'') as_str of
        None \<Rightarrow> (Inl (InvalidInput (''missing '' @ quoted ''command'') (Some ''command'')), w)
      | Some command \<Rightarrow>
          (let timeout_ms = (case Option.bind (json_get (env_payload env) ''timeout_ms'') as_u64 of
                               Some t \<Rightarrow> t | None \<Rightarrow> default_timeout_ms tool)
           in case os_run os (fst (shell_command tool command)) (snd (shell_command tool command)) timeout_ms w of
                (Inl e, w') \<Rightarrow> (Inl (ExecutionFailed (''failed to spawn shell command: '' @ e) False), w')
              | (Inr TimedOut, w') \<Rightarrow>
                  (Inl (ExecutionFailed (''command timed out after '' @ show_u64 timeout_ms @ ''ms: '' @ command) False), w')
              | (Inr (InTime (Inl e)), w') \<Rightarrow>
                  (Inl (ExecutionFailed (''failed to wait for docker exec: '' @ e) False), w')
              | (Inr (InTime (Inr out)), w') \<Rightarrow>
                  (Inr (respond fresh now env (JObject (obj_of_list
                     [(''stdout'', JString (out_stdout out)), (''stderr'', JString (out_stderr out)),
                      (''exit_code'', code_json (case out_code out of Some c \<Rightarrow> c | None \<Rightarrow> - 1))]))), w')))"

section \<open>Secrets\<close>

definition secret_get ::
  "'w Outside \<Rightarrow> string list \<Rightarrow> uuid \<Rightarrow> datetime \<Rightarrow> json Envelope \<Rightarrow> ToolError + json Envelope" where
  "secret_get os allowed_keys fresh now env =
     (case Option.bind (json_get (env_payload env) ''key'') as_str of
        None \<Rightarrow> Inl (InvalidInput (''Missing '' @ quoted ''key'') (Some ''key''))
      | Some key \<Rightarrow>
          if key \<notin> set allowed_keys
          then Inl (AccessDenied (''Secret key '' @ quoted key @ '' not available''))
          else (case os_env_var os key of
                  Some val \<Rightarrow> Inr (respond fresh now env (JString val))
                | None \<Rightarrow> Inl (ExecutionFailed (''Secret key '' @ quoted key @ '' not available'') False)))"

definition secret_list :: "string list \<Rightarrow> uuid \<Rightarrow> datetime \<Rightarrow> json Envelope \<Rightarrow> json Envelope" where
  "secret_list allowed_keys fresh now env = respond fresh now env (JArray (map JString allowed_keys))"

section \<open>Properties\<close>

subsection \<open>The blocked address ranges as intervals\<close>

lemma octet0: "ipv4_octet 0 ip = unat ip div 2 ^ 24"
proof -
  have "unat ip < 2 ^ 32" using unsigned_less [of ip] by simp
  then have "unat ip div 256 ^ 3 < 256" by (simp add: div_less_iff_less_mult)
  then show ?thesis by (simp add: ipv4_octet_def)
qed

lemma octet1: "ipv4_octet (Suc 0) ip = unat ip div 2 ^ 16 mod 256"
  by (simp add: ipv4_octet_def)

lemma octets01:
  assumes "unat ip div 2 ^ 16 = a * 256 + b" "b < 256"
  shows "ipv4_octet 0 ip = a" "ipv4_octet 1 ip = b"
proof -
  have "unat ip div 2 ^ 24 = unat ip div 2 ^ 16 div 256" by (simp add: div_mult2_eq [symmetric])
  with assms show "ipv4_octet 0 ip = a" "ipv4_octet 1 ip = b" by (simp_all add: octet0 octet1)
qed

lemma unblocked_ipv4:
  assumes "\<not> blocked_host (Ipv4 ip)"
  shows "unat ip \<noteq> 0 \<and> unat ip div 2 ^ 24 \<noteq> 127 \<and> unat ip div 2 ^ 24 \<noteq> 10 \<and>
     (\<forall>b < 256. unat ip div 2 ^ 16 = 172 * 256 + b \<longrightarrow> b < 16 \<or> 31 < b) \<and>
     unat ip div 2 ^ 16 \<noteq> 192 * 256 + 168 \<and> unat ip div 2 ^ 16 \<noteq> 169 * 256 + 254"
proof -
  have "b < 16 \<or> 31 < b" if "unat ip div 2 ^ 16 = 172 * 256 + b" "b < 256" for b
    using octets01 [OF that] assms
    by (fastforce simp: blocked_host_def ipv4_is_private_def)
  then show ?thesis
    using assms octets01 [of ip 192 168] octets01 [of ip 169 254]
    by (auto simp: blocked_host_def ipv4_is_loopback_def ipv4_is_private_def ipv4_is_link_local_def octet0
        unat_eq_zero)
qed

subsection \<open>What a call that had an effect went through\<close>

lemma validate_url_ok:
  assumes "validate_url os url = Inr ()"
  shows "\<exists>parsed. os_parse_url os url = Inr parsed \<and> url_scheme parsed \<in> {''http'', ''https''} \<and>
    (\<forall>h. url_host parsed = Some h \<longrightarrow> \<not> blocked_host h)"
  using assms by (auto simp: validate_url_def split: sum.splits option.splits if_splits)

lemma read_body_within:
  assumes "read_body_limited os limit resp = Inr s"
  shows "\<exists>bs. resp_bytes resp = Inr bs \<and> length bs \<le> limit"
  using assms by (fastforce simp: read_body_limited_def Let_def split: if_splits sum.splits)

lemma http_call_effect:
  assumes "http_call os limits tool request extra fresh now env w = (r, w')" "w' \<noteq> w"
  shows "\<exists>url res. json_get (env_payload env) ''url'' = Some (JString url) \<and> validate_url os url = Inr () \<and>
    os_send os (request url (env_payload env)) w = (res, w') \<and>
    (is_ok r \<longrightarrow> (\<exists>resp s. res = Inr resp \<and> read_body_limited os (max_response_bytes limits) resp = Inr s))"
proof -
  obtain j where "json_get (env_payload env) ''url'' = Some j" "as_str j \<noteq> None"
    using assms by (cases "json_get (env_payload env) ''url''") (auto simp: http_call_def split: option.splits)
  then obtain url where url: "json_get (env_payload env) ''url'' = Some (JString url)"
    by (cases j) auto
  moreover have valid: "validate_url os url = Inr ()"
    using assms url by (cases "validate_url os url") (auto simp: http_call_def)
  ultimately show ?thesis
    using assms by (auto simp: http_call_def map_ok_def split: prod.splits sum.splits)
qed

lemma requests_capped:
  "req_url (get_request limits url payload) = url"
  "req_url (post_request limits url payload) = url"
  "req_timeout_secs (get_request limits url payload) \<le> max_timeout_secs limits"
  "req_timeout_secs (post_request limits url payload) \<le> max_timeout_secs limits"
  by (simp_all add: get_request_def post_request_def request_timeout_def)


definition sample_outside :: "nat Outside" where
  "sample_outside =
     \<lparr> os_parse_url = (\<lambda>u. Inr \<lparr> url_scheme = ''https'', url_host = Some (Ipv4 0x08080808) \<rparr>),
       os_send = (\<lambda>req w. (Inr \<lparr> resp_status = 200, resp_headers = [], resp_content_length = Some 0, resp_bytes = Inr [] \<rparr>, Suc w)),
       os_run = (\<lambda>program args timeout w. (Inr TimedOut, w)),
       os_env_var = (\<lambda>k. None), os_json_from_str = (\<lambda>s. None), os_from_utf8 = (\<lambda>bs. Inr []),
       os_show_ipv4 = (\<lambda>ip. ''8.8.8.8''), os_show_ipv6 = (\<lambda>ip. ''::''), os_elapsed_ms = (\<lambda>a b. 1) \<rparr>"

definition sample_http_env :: "json Envelope" where
  "sample_http_env =
     \<lparr> env_id = 1, env_trace_id = 1, env_parent_id = None, env_actor_id = ''a'', env_namespace = ''ns'',
       env_capabilities = CapSet_from_patterns [''*''], env_target = ''http:get'', env_payload_type = ''json'',
       env_payload = JObject [(''url'', JString ''https://8.8.8.8/'')],
       env_emitted_at = 0, env_step_index = 0, env_stream_id = ''s'', env_deadline = None,
       env_idempotency_key = None, env_qos_class = None, env_references = None, env_metadata = [] \<rparr>"


text \<open>
  The IPv6 check covers less than the IPv4 one: an IPv4-mapped private address, here that
  of 169.254.169.254, and a unique local address pass.
\<close>

lemma ipv6_internal_addresses_pass:
  "\<not> blocked_host (Ipv6 0xffffa9fea9fe)" "\<not> blocked_host (Ipv6 0xfd000000000000000000000000000001)"
  by (simp_all add: blocked_host_def ipv6_segment0_def)

subsection \<open>Secrets\<close>

text \<open>A secret leaves the process only when its key is on the configured list.\<close>

lemma secret_get_allowed:
  assumes "secret_get os allowed_keys fresh now env = Inr out"
  shows "\<exists>key val. key \<in> set allowed_keys \<and> os_env_var os key = Some val \<and> env_payload out = JString val \<and>
    json_get (env_payload env) ''key'' = Some (JString key)"
proof -
  obtain j key where "json_get (env_payload env) ''key'' = Some j" "as_str j = Some key"
    using assms by (auto simp: secret_get_def split: option.splits bind_splits)
  moreover from this have "j = JString key" by (cases j) auto
  ultimately show ?thesis using assms by (auto simp: secret_get_def split: option.splits if_splits)
qed

end
