(* ===== verification/Tool_Catalog.thy ===== *)
theory Tool_Catalog
  imports Tool_Guard
begin

text \<open>
  The metadata of every tool the platform itself provides, as the \<open>info\<close> methods of the tool
  crates return it: names, descriptions, input and output schemas, required capabilities and
  behavioural annotations. The list \<open>platform_tools\<close> collects them; the search tool of the memory
  crate lists the modes of its backend, the argument \<open>modes\<close>.
\<close>

section \<open>The tools\<close>

definition EchoTool_info :: ToolInfo where
  "EchoTool_info =
     \<lparr> info_name = ''echo'',
       info_description = ''Returns the input as-is.'',
       info_input_schema = JObject (obj_of_list [
         (''type'', JString ''object'')]),
       info_output_schema = None,
       info_capabilities = [],
       info_supports_streaming = False,
       info_annotations = \<lparr> read_only = True, destructive = False, idempotent = True, open_world = False \<rparr> \<rparr>"

definition JsonGetTool_info :: ToolInfo where
  "JsonGetTool_info =
     \<lparr> info_name = ''json_get'',
       info_description = ''Extract a value from JSON using a dot-path.'',
       info_input_schema = JObject (obj_of_list [
         (''type'', JString ''object''),
         (''properties'', JObject (obj_of_list [
           (''data'', JObject (obj_of_list [
             (''type'', JString ''object'')])),
           (''path'', JObject (obj_of_list [
             (''type'', JString ''string'')]))])),
         (''required'', JArray [JString ''data'', JString ''path''])]),
       info_output_schema = None,
       info_capabilities = [],
       info_supports_streaming = False,
       info_annotations = \<lparr> read_only = True, destructive = False, idempotent = True, open_world = False \<rparr> \<rparr>"

definition ConcatTool_info :: ToolInfo where
  "ConcatTool_info =
     \<lparr> info_name = ''concat'',
       info_description = ''Concatenate a list of strings.'',
       info_input_schema = JObject (obj_of_list [
         (''type'', JString ''object''),
         (''properties'', JObject (obj_of_list [
           (''parts'', JObject (obj_of_list [
             (''type'', JString ''array''),
             (''items'', JObject (obj_of_list [
               (''type'', JString ''string'')]))])),
           (''separator'', JObject (obj_of_list [
             (''type'', JString ''string'')]))])),
         (''required'', JArray [JString ''parts''])]),
       info_output_schema = None,
       info_capabilities = [],
       info_supports_streaming = False,
       info_annotations = \<lparr> read_only = True, destructive = False, idempotent = True, open_world = False \<rparr> \<rparr>"

definition ListAppendTool_info :: ToolInfo where
  "ListAppendTool_info =
     \<lparr> info_name = ''list:append'',
       info_description = ''Append items to a list and return the new list. '' @ [CHR 0x60] @ ''list'' @ [CHR 0x60] @ '' may be null/absent (treated as empty). '' @ [CHR 0x60] @ ''items'' @ [CHR 0x60] @ '' must be an array; its elements are appended in order.'',
       info_input_schema = JObject (obj_of_list [
         (''type'', JString ''object''),
         (''properties'', JObject (obj_of_list [
           (''list'', JObject (obj_of_list [
             (''description'', JString ''Existing list; null or absent treated as []'')])),
           (''items'', JObject (obj_of_list [
             (''type'', JString ''array''),
             (''description'', JString ''Items to append'')]))])),
         (''required'', JArray [JString ''items''])]),
       info_output_schema = None,
       info_capabilities = [],
       info_supports_streaming = False,
       info_annotations = \<lparr> read_only = True, destructive = False, idempotent = True, open_world = False \<rparr> \<rparr>"

definition LogTool_info :: ToolInfo where
  "LogTool_info =
     \<lparr> info_name = ''log'',
       info_description = ''Log a message and return the input.'',
       info_input_schema = JObject (obj_of_list [
         (''type'', JString ''object'')]),
       info_output_schema = None,
       info_capabilities = [],
       info_supports_streaming = False,
       info_annotations = \<lparr> read_only = True, destructive = False, idempotent = True, open_world = False \<rparr> \<rparr>"

definition TemplateTool_info :: ToolInfo where
  "TemplateTool_info =
     \<lparr> info_name = ''template'',
       info_description = ''Render a Jinja2 template.'',
       info_input_schema = JObject (obj_of_list [
         (''type'', JString ''object''),
         (''properties'', JObject (obj_of_list [
           (''template'', JObject (obj_of_list [
             (''type'', JString ''string'')])),
           (''vars'', JObject (obj_of_list [
             (''type'', JString ''object'')]))])),
         (''required'', JArray [JString ''template'', JString ''vars''])]),
       info_output_schema = None,
       info_capabilities = [],
       info_supports_streaming = False,
       info_annotations = \<lparr> read_only = True, destructive = False, idempotent = True, open_world = False \<rparr> \<rparr>"

definition HttpGetTool_info :: ToolInfo where
  "HttpGetTool_info =
     \<lparr> info_name = ''http:get'',
       info_description = ''Make an HTTP GET request and return the response.'',
       info_input_schema = JObject (obj_of_list [
         (''type'', JString ''object''),
         (''properties'', JObject (obj_of_list [
           (''url'', JObject (obj_of_list [
             (''type'', JString ''string''),
             (''description'', JString ''URL to fetch'')])),
           (''headers'', JObject (obj_of_list [
             (''type'', JString ''object''),
             (''description'', JString ''Optional headers'')])),
           (''timeout'', JObject (obj_of_list [
             (''type'', JString ''integer''),
             (''description'', JString ''Timeout in seconds''),
             (''default'', JNumber (PosInt 30))]))])),
         (''required'', JArray [JString ''url''])]),
       info_output_schema = None,
       info_capabilities = [''http:get''],
       info_supports_streaming = False,
       info_annotations = \<lparr> read_only = False, destructive = False, idempotent = True, open_world = True \<rparr> \<rparr>"

definition HttpPostTool_info :: ToolInfo where
  "HttpPostTool_info =
     \<lparr> info_name = ''http:post'',
       info_description = ''Make an HTTP POST request with a JSON body.'',
       info_input_schema = JObject (obj_of_list [
         (''type'', JString ''object''),
         (''properties'', JObject (obj_of_list [
           (''url'', JObject (obj_of_list [
             (''type'', JString ''string''),
             (''description'', JString ''URL to post to'')])),
           (''body'', JObject (obj_of_list [
             (''description'', JString ''JSON body to send'')])),
           (''headers'', JObject (obj_of_list [
             (''type'', JString ''object''),
             (''description'', JString ''Optional headers'')])),
           (''timeout'', JObject (obj_of_list [
             (''type'', JString ''integer''),
             (''description'', JString ''Timeout in seconds''),
             (''default'', JNumber (PosInt 30))]))])),
         (''required'', JArray [JString ''url''])]),
       info_output_schema = None,
       info_capabilities = [''http:post''],
       info_supports_streaming = False,
       info_annotations = \<lparr> read_only = False, destructive = False, idempotent = False, open_world = True \<rparr> \<rparr>"

definition AiCompleteTool_info :: ToolInfo where
  "AiCompleteTool_info =
     \<lparr> info_name = ''ai:complete'',
       info_description = ''Generate an LLM completion with optional tool calling (ReAct loop). Tools are filtered by the caller'' @ [CHR 0x27] @ ''s capabilities and optional '' @ [CHR 0x60] @ ''tools'' @ [CHR 0x60] @ '' whitelist.'',
       info_input_schema = JObject (obj_of_list [
         (''type'', JString ''object''),
         (''properties'', JObject (obj_of_list [
           (''system'', JObject (obj_of_list [
             (''type'', JString ''string''),
             (''description'', JString ''System prompt'')])),
           (''prompt'', JObject (obj_of_list [
             (''type'', JString ''string''),
             (''description'', JString ''User prompt'')])),
           (''messages'', JObject (obj_of_list [
             (''type'', JString ''array''),
             (''description'', JString ''Conversation history (multi-turn)''),
             (''items'', JObject (obj_of_list [
               (''type'', JString ''object''),
               (''properties'', JObject (obj_of_list [
                 (''role'', JObject (obj_of_list [
                   (''type'', JString ''string''),
                   (''enum'', JArray [JString ''user'', JString ''assistant'', JString ''system''])])),
                 (''content'', JObject (obj_of_list [
                   (''type'', JString ''string'')]))]))]))])),
           (''tools'', JObject (obj_of_list [
             (''type'', JString ''array''),
             (''description'', JString ''Explicit tool whitelist. Only these tools (intersected with capabilities) are visible to the LLM.''),
             (''items'', JObject (obj_of_list [
               (''type'', JString ''string'')]))])),
           (''provider'', JObject (obj_of_list [
             (''type'', JString ''string''),
             (''description'', JString ''Override LLM provider for this call'')])),
           (''model'', JObject (obj_of_list [
             (''type'', JString ''string''),
             (''description'', JString ''Override model for this call'')])),
           (''temperature'', JObject (obj_of_list [
             (''type'', JString ''number''),
             (''description'', JString ''Override temperature for this call'')])),
           (''max_tokens'', JObject (obj_of_list [
             (''type'', JString ''integer''),
             (''description'', JString ''Override max_tokens for this call'')])),
           (''max_iterations'', JObject (obj_of_list [
             (''type'', JString ''integer''),
             (''description'', JString ''Override max ReAct iterations for this call'')]))]))]),
       info_output_schema = None,
       info_capabilities = [''ai:complete''],
       info_supports_streaming = True,
       info_annotations = \<lparr> read_only = False, destructive = False, idempotent = False, open_world = True \<rparr> \<rparr>"

definition IntrospectTool_info :: ToolInfo where
  "IntrospectTool_info =
     \<lparr> info_name = ''system:introspect'',
       info_description = ''List all registered tools with their names, descriptions, input schemas, and annotations.'',
       info_input_schema = JObject (obj_of_list [
         (''type'', JString ''object''),
         (''properties'', JObject (obj_of_list [
           (''filter'', JObject (obj_of_list [
             (''type'', JString ''string''),
             (''description'', JString (''Optional glob pattern to filter tools (e.g. '' @ [CHR 0x27] @ ''memory:*'' @ [CHR 0x27] @ '' or '' @ [CHR 0x27] @ ''ai:complete'' @ [CHR 0x27] @ '')''))]))]))]),
       info_output_schema = None,
       info_capabilities = [],
       info_supports_streaming = False,
       info_annotations = \<lparr> read_only = True, destructive = False, idempotent = True, open_world = False \<rparr> \<rparr>"

definition ValidateWorkflowTool_info :: ToolInfo where
  "ValidateWorkflowTool_info =
     \<lparr> info_name = ''yaml:validate_workflow'',
       info_description = ''Validate a workflow YAML string against the Konf kernel. Checks syntax, schema, tool references, and capability requirements.'',
       info_input_schema = JObject (obj_of_list [
         (''type'', JString ''object''),
         (''properties'', JObject (obj_of_list [
           (''yaml'', JObject (obj_of_list [
             (''type'', JString ''string''),
             (''description'', JString ''The workflow YAML string to validate'')]))])),
         (''required'', JArray [JString ''yaml''])]),
       info_output_schema = None,
       info_capabilities = [''yaml:validate_workflow''],
       info_supports_streaming = False,
       info_annotations = \<lparr> read_only = True, destructive = False, idempotent = True, open_world = False \<rparr> \<rparr>"

definition EmbedTool_info :: ToolInfo where
  "EmbedTool_info =
     \<lparr> info_name = ''ai:embed'',
       info_description = ''Generate text embeddings locally (no API call).'',
       info_input_schema = JObject (obj_of_list [
         (''type'', JString ''object''),
         (''properties'', JObject (obj_of_list [
           (''text'', JObject (obj_of_list [
             (''type'', JString ''string''),
             (''description'', JString ''Text to embed'')])),
           (''texts'', JObject (obj_of_list [
             (''type'', JString ''array''),
             (''items'', JObject (obj_of_list [
               (''type'', JString ''string'')])),
             (''description'', JString ''Multiple texts to embed in batch'')]))]))]),
       info_output_schema = None,
       info_capabilities = [''ai:embed''],
       info_supports_streaming = False,
       info_annotations = \<lparr> read_only = True, destructive = False, idempotent = True, open_world = False \<rparr> \<rparr>"

definition SearchTool_info :: "string list \<Rightarrow> ToolInfo" where
  "SearchTool_info modes =
     \<lparr> info_name = ''memory:search'',
       info_description = ''Search the knowledge graph for relevant information. Returns nodes with similarity scores.'',
       info_input_schema = JObject (obj_of_list [
         (''type'', JString ''object''),
         (''properties'', JObject (obj_of_list [
           (''query'', JObject (obj_of_list [
             (''type'', JString ''string''),
             (''description'', JString ''What to search for'')])),
           (''mode'', JObject (obj_of_list [
             (''type'', JString ''string''),
             (''enum'', JArray (map JString modes)),
             (''default'', JString (case modes of [] \<Rightarrow> [] | m # _ \<Rightarrow> m))])),
           (''limit'', JObject (obj_of_list [
             (''type'', JString ''integer''),
             (''default'', JNumber (PosInt 10)),
             (''minimum'', JNumber (PosInt 1)),
             (''maximum'', JNumber (PosInt 100))])),
           (''node_type'', JObject (obj_of_list [
             (''type'', JString ''string''),
             (''description'', JString ''Filter by node type'')]))])),
         (''required'', JArray [JString ''query''])]),
       info_output_schema = None,
       info_capabilities = [''memory:search''],
       info_supports_streaming = False,
       info_annotations = \<lparr> read_only = True, destructive = False, idempotent = True, open_world = False \<rparr> \<rparr>"

definition StoreTool_info :: ToolInfo where
  "StoreTool_info =
     \<lparr> info_name = ''memory:store'',
       info_description = ''Add nodes to the knowledge graph.'',
       info_input_schema = JObject (obj_of_list [
         (''type'', JString ''object''),
         (''properties'', JObject (obj_of_list [
           (''nodes'', JObject (obj_of_list [
             (''type'', JString ''array''),
             (''items'', JObject (obj_of_list [
               (''type'', JString ''object''),
               (''properties'', JObject (obj_of_list [
                 (''content'', JObject (obj_of_list [
                   (''type'', JString ''string'')])),
                 (''node_type'', JObject (obj_of_list [
                   (''type'', JString ''string''),
                   (''default'', JString ''memory'')])),
                 (''metadata'', JObject (obj_of_list [
                   (''type'', JString ''object'')]))])),
               (''required'', JArray [JString ''content''])]))]))])),
         (''required'', JArray [JString ''nodes''])]),
       info_output_schema = None,
       info_capabilities = [''memory:store''],
       info_supports_streaming = False,
       info_annotations = \<lparr> read_only = False, destructive = False, idempotent = False, open_world = False \<rparr> \<rparr>"

definition StateSetTool_info :: ToolInfo where
  "StateSetTool_info =
     \<lparr> info_name = ''state:set'',
       info_description = ''Set a session state key (working memory scratchpad).'',
       info_input_schema = JObject (obj_of_list [
         (''type'', JString ''object''),
         (''properties'', JObject (obj_of_list [
           (''key'', JObject (obj_of_list [
             (''type'', JString ''string'')])),
           (''value'', JObject (obj_of_list [
             (''description'', JString ''Any JSON value'')])),
           (''session_id'', JObject (obj_of_list [
             (''type'', JString ''string'')])),
           (''ttl_seconds'', JObject (obj_of_list [
             (''type'', JString ''integer''),
             (''description'', JString ''Time-to-live in seconds'')]))])),
         (''required'', JArray [JString ''key'', JString ''value'', JString ''session_id''])]),
       info_output_schema = None,
       info_capabilities = [''state:set''],
       info_supports_streaming = False,
       info_annotations = \<lparr> read_only = False, destructive = False, idempotent = True, open_world = False \<rparr> \<rparr>"

definition StateGetTool_info :: ToolInfo where
  "StateGetTool_info =
     \<lparr> info_name = ''state:get'',
       info_description = ''Get a session state value by key.'',
       info_input_schema = JObject (obj_of_list [
         (''type'', JString ''object''),
         (''properties'', JObject (obj_of_list [
           (''key'', JObject (obj_of_list [
             (''type'', JString ''string'')])),
           (''session_id'', JObject (obj_of_list [
             (''type'', JString ''string'')]))])),
         (''required'', JArray [JString ''key'', JString ''session_id''])]),
       info_output_schema = None,
       info_capabilities = [''state:get''],
       info_supports_streaming = False,
       info_annotations = \<lparr> read_only = True, destructive = False, idempotent = True, open_world = False \<rparr> \<rparr>"

definition StateDeleteTool_info :: ToolInfo where
  "StateDeleteTool_info =
     \<lparr> info_name = ''state:delete'',
       info_description = ''Delete a session state key.'',
       info_input_schema = JObject (obj_of_list [
         (''type'', JString ''object''),
         (''properties'', JObject (obj_of_list [
           (''key'', JObject (obj_of_list [
             (''type'', JString ''string'')])),
           (''session_id'', JObject (obj_of_list [
             (''type'', JString ''string'')]))])),
         (''required'', JArray [JString ''key'', JString ''session_id''])]),
       info_output_schema = None,
       info_capabilities = [''state:delete''],
       info_supports_streaming = False,
       info_annotations = \<lparr> read_only = False, destructive = True, idempotent = False, open_world = False \<rparr> \<rparr>"

definition StateListTool_info :: ToolInfo where
  "StateListTool_info =
     \<lparr> info_name = ''state:list'',
       info_description = ''List all session state keys for a session.'',
       info_input_schema = JObject (obj_of_list [
         (''type'', JString ''object''),
         (''properties'', JObject (obj_of_list [
           (''session_id'', JObject (obj_of_list [
             (''type'', JString ''string'')]))])),
         (''required'', JArray [JString ''session_id''])]),
       info_output_schema = None,
       info_capabilities = [''state:list''],
       info_supports_streaming = False,
       info_annotations = \<lparr> read_only = True, destructive = False, idempotent = True, open_world = False \<rparr> \<rparr>"

definition StateClearTool_info :: ToolInfo where
  "StateClearTool_info =
     \<lparr> info_name = ''state:clear'',
       info_description = ''Clear all session state for a session.'',
       info_input_schema = JObject (obj_of_list [
         (''type'', JString ''object''),
         (''properties'', JObject (obj_of_list [
           (''session_id'', JObject (obj_of_list [
             (''type'', JString ''string'')]))])),
         (''required'', JArray [JString ''session_id''])]),
       info_output_schema = None,
       info_capabilities = [''state:clear''],
       info_supports_streaming = False,
       info_annotations = \<lparr> read_only = False, destructive = True, idempotent = False, open_world = False \<rparr> \<rparr>"

definition ShellExecTool_info :: ToolInfo where
  "ShellExecTool_info =
     \<lparr> info_name = ''shell:exec'',
       info_description = ''Execute a shell command inside the sandboxed container. Returns stdout, stderr, and exit code.'',
       info_input_schema = JObject (obj_of_list [
         (''type'', JString ''object''),
         (''properties'', JObject (obj_of_list [
           (''command'', JObject (obj_of_list [
             (''type'', JString ''string''),
             (''description'', JString ''Shell command to execute'')])),
           (''timeout_ms'', JObject (obj_of_list [
             (''type'', JString ''integer''),
             (''description'', JString ''Timeout in milliseconds (overrides default)'')]))])),
         (''required'', JArray [JString ''command''])]),
       info_output_schema = None,
       info_capabilities = [''shell:exec''],
       info_supports_streaming = False,
       info_annotations = \<lparr> read_only = False, destructive = True, idempotent = False, open_world = False \<rparr> \<rparr>"

definition SecretGetTool_info :: ToolInfo where
  "SecretGetTool_info =
     \<lparr> info_name = ''secret:get'',
       info_description = ''Fetch a secret from the environment. Only keys listed in '' @ [CHR 0x27] @ ''allowed_keys'' @ [CHR 0x27] @ '' are accessible.'',
       info_input_schema = JObject (obj_of_list [
         (''type'', JString ''object''),
         (''properties'', JObject (obj_of_list [
           (''key'', JObject (obj_of_list [
             (''type'', JString ''string'')]))])),
         (''required'', JArray [JString ''key''])]),
       info_output_schema = Some (JObject (obj_of_list [
         (''type'', JString ''string'')])),
       info_capabilities = [''secret:get''],
       info_supports_streaming = False,
       info_annotations = \<lparr> read_only = True, destructive = False, idempotent = True, open_world = False \<rparr> \<rparr>"

definition SecretListTool_info :: ToolInfo where
  "SecretListTool_info =
     \<lparr> info_name = ''secret:list'',
       info_description = ''List the names of all allowed secrets. Does NOT return their values.'',
       info_input_schema = JObject (obj_of_list [
         (''type'', JString ''object'')]),
       info_output_schema = Some (JObject (obj_of_list [
         (''type'', JString ''array''),
         (''items'', JObject (obj_of_list [
           (''type'', JString ''string'')]))])),
       info_capabilities = [''secret:list''],
       info_supports_streaming = False,
       info_annotations = \<lparr> read_only = True, destructive = False, idempotent = True, open_world = False \<rparr> \<rparr>"

definition ConfigReloadTool_info :: ToolInfo where
  "ConfigReloadTool_info =
     \<lparr> info_name = ''config:reload'',
       info_description = ''Reload product configuration (workflows, prompts, tools) from disk. Re-parses all workflow YAML files and re-registers them as tools.'',
       info_input_schema = JObject (obj_of_list [
         (''type'', JString ''object''),
         (''properties'', JObject [])]),
       info_output_schema = None,
       info_capabilities = [''config:reload''],
       info_supports_streaming = False,
       info_annotations = \<lparr> read_only = False, destructive = False, idempotent = False, open_world = False \<rparr> \<rparr>"

definition ScheduleTool_info :: ToolInfo where
  "ScheduleTool_info =
     \<lparr> info_name = ''schedule:create'',
       info_description = ''Schedule a workflow to run durably (survives restarts). Returns immediately. One-shot: set delay_ms (1000'' @ [CHR 0xE2] @ [CHR 0x80] @ [CHR 0x93] @ ''604800000) with repeat: false. Repeating: set delay_ms with repeat: true, or set cron to a 7-field cron expression.'',
       info_input_schema = JObject (obj_of_list [
         (''type'', JString ''object''),
         (''properties'', JObject (obj_of_list [
           (''workflow'', JObject (obj_of_list [
             (''type'', JString ''string''),
             (''description'', JString ''Workflow id (resolved as workflow:<id> at each fire)'')])),
           (''delay_ms'', JObject (obj_of_list [
             (''type'', JString ''integer''),
             (''description'', JString ''Milliseconds. Min: 1000, Max: 604800000. Ignored when cron is set.'')])),
           (''cron'', JObject (obj_of_list [
             (''type'', JString ''string''),
             (''description'', JString ''7-field cron expression (sec min hour day month weekday year). Mutually exclusive with delay_ms.'')])),
           (''input'', JObject (obj_of_list [
             (''type'', JString ''object''),
             (''description'', JString ''Input payload (snapshot at schedule time; reused on every fire)'')])),
           (''repeat'', JObject (obj_of_list [
             (''type'', JString ''boolean''),
             (''description'', JString ''If true and delay_ms is set, re-fire every delay_ms after completion. Default: false.'')]))])),
         (''required'', JArray [JString ''workflow''])]),
       info_output_schema = None,
       info_capabilities = [''schedule:create''],
       info_supports_streaming = False,
       info_annotations = \<lparr> read_only = False, destructive = False, idempotent = False, open_world = False \<rparr> \<rparr>"

definition CancelScheduleTool_info :: ToolInfo where
  "CancelScheduleTool_info =
     \<lparr> info_name = ''cancel:schedule'',
       info_description = ''Cancel a scheduled workflow by its schedule_id (UUID). Stops repeating timers and removes pending one-shot schedules.'',
       info_input_schema = JObject (obj_of_list [
         (''type'', JString ''object''),
         (''properties'', JObject (obj_of_list [
           (''schedule_id'', JObject (obj_of_list [
             (''type'', JString ''string''),
             (''description'', JString ''The schedule_id (UUID) returned by schedule:create'')]))])),
         (''required'', JArray [JString ''schedule_id''])]),
       info_output_schema = None,
       info_capabilities = [''cancel:schedule''],
       info_supports_streaming = False,
       info_annotations = \<lparr> read_only = False, destructive = False, idempotent = False, open_world = False \<rparr> \<rparr>"

definition SpawnTool_info :: ToolInfo where
  "SpawnTool_info =
     \<lparr> info_name = ''runner:spawn'',
       info_description = ''Spawn a registered workflow as a new run. Returns immediately with a run_id; use runner:wait to collect the result.'',
       info_input_schema = JObject (obj_of_list [
         (''type'', JString ''object''),
         (''properties'', JObject (obj_of_list [
           (''workflow'', JObject (obj_of_list [
             (''type'', JString ''string''),
             (''description'', JString ''Workflow id (matches workflow:<id> in the engine registry)'')])),
           (''input'', JObject (obj_of_list [
             (''type'', JString ''object''),
             (''description'', JString ''Input payload for the workflow (default: {})'')]))])),
         (''required'', JArray [JString ''workflow''])]),
       info_output_schema = None,
       info_capabilities = [''runner:spawn''],
       info_supports_streaming = False,
       info_annotations = \<lparr> read_only = False, destructive = False, idempotent = False, open_world = False \<rparr> \<rparr>"

definition StatusTool_info :: ToolInfo where
  "StatusTool_info =
     \<lparr> info_name = ''runner:status'',
       info_description = ''Query the current state of a run by id. Non-blocking.'',
       info_input_schema = JObject (obj_of_list [
         (''type'', JString ''object''),
         (''properties'', JObject (obj_of_list [
           (''run_id'', JObject (obj_of_list [
             (''type'', JString ''string'')]))])),
         (''required'', JArray [JString ''run_id''])]),
       info_output_schema = None,
       info_capabilities = [''runner:status''],
       info_supports_streaming = False,
       info_annotations = \<lparr> read_only = True, destructive = False, idempotent = True, open_world = False \<rparr> \<rparr>"

definition WaitTool_info :: ToolInfo where
  "WaitTool_info =
     \<lparr> info_name = ''runner:wait'',
       info_description = ''Block until a run reaches a terminal state. Optional timeout_secs; defaults to 300 seconds.'',
       info_input_schema = JObject (obj_of_list [
         (''type'', JString ''object''),
         (''properties'', JObject (obj_of_list [
           (''run_id'', JObject (obj_of_list [
             (''type'', JString ''string'')])),
           (''timeout_secs'', JObject (obj_of_list [
             (''type'', JString ''integer''),
             (''minimum'', JNumber (PosInt 1)),
             (''maximum'', JNumber (PosInt 86400))]))])),
         (''required'', JArray [JString ''run_id''])]),
       info_output_schema = None,
       info_capabilities = [''runner:wait''],
       info_supports_streaming = False,
       info_annotations = \<lparr> read_only = True, destructive = False, idempotent = True, open_world = False \<rparr> \<rparr>"

definition CancelTool_info :: ToolInfo where
  "CancelTool_info =
     \<lparr> info_name = ''runner:cancel'',
       info_description = ''Cancel a run by id. Returns whether a cancel hook was invoked.'',
       info_input_schema = JObject (obj_of_list [
         (''type'', JString ''object''),
         (''properties'', JObject (obj_of_list [
           (''run_id'', JObject (obj_of_list [
             (''type'', JString ''string'')]))])),
         (''required'', JArray [JString ''run_id''])]),
       info_output_schema = None,
       info_capabilities = [''runner:cancel''],
       info_supports_streaming = False,
       info_annotations = \<lparr> read_only = False, destructive = True, idempotent = False, open_world = False \<rparr> \<rparr>"

section \<open>Registration\<close>

definition register_all :: "ToolInfo list \<Rightarrow> ToolRegistry \<Rightarrow> ToolRegistry" where
  "register_all infos reg = fold (\<lambda>i. register (RawTool i)) infos reg"

definition builtin_infos :: "ToolInfo list" where
  "builtin_infos = [EchoTool_info, JsonGetTool_info, ConcatTool_info, ListAppendTool_info, LogTool_info, TemplateTool_info]"

definition register_builtins :: "ToolRegistry \<Rightarrow> ToolRegistry" where
  "register_builtins = register_all builtin_infos"

definition memory_infos :: "string list \<Rightarrow> ToolInfo list" where
  "memory_infos modes =
     [SearchTool_info modes, StoreTool_info, StateSetTool_info, StateGetTool_info, StateDeleteTool_info,
      StateListTool_info, StateClearTool_info]"

definition http_infos :: "ToolInfo list" where
  "http_infos = [HttpGetTool_info, HttpPostTool_info]"

definition secret_infos :: "ToolInfo list" where
  "secret_infos = [SecretGetTool_info, SecretListTool_info]"

definition runner_infos :: "ToolInfo list" where
  "runner_infos = [SpawnTool_info, StatusTool_info, WaitTool_info, CancelTool_info]"

definition platform_tools :: "string list \<Rightarrow> ToolInfo list" where
  "platform_tools modes =
     builtin_infos @ memory_infos modes @ http_infos @
     [AiCompleteTool_info, EmbedTool_info, ShellExecTool_info, IntrospectTool_info, ValidateWorkflowTool_info] @
     secret_infos @ [ConfigReloadTool_info, ScheduleTool_info, CancelScheduleTool_info] @ runner_infos"

section \<open>Well-formed metadata\<close>

fun object_keys :: "json option \<Rightarrow> string list" where
  "object_keys (Some (JObject m)) = map fst m"
| "object_keys _ = []"

fun string_items :: "json option \<Rightarrow> string list" where
  "string_items (Some (JArray js)) = List.map_filter as_str js"
| "string_items _ = []"

text \<open>An object schema whose required fields are described.\<close>

definition schema_ok :: "json \<Rightarrow> bool" where
  "schema_ok s =
     (json_get s ''type'' = Some (JString ''object'') \<and>
      list_all (\<lambda>k. k \<in> set (object_keys (json_get s ''properties''))) (string_items (json_get s ''required'')))"

definition annotations_ok :: "ToolAnnotations \<Rightarrow> bool" where
  "annotations_ok a = (\<not> (read_only a \<and> destructive a))"

text \<open>A tool names no capability, or exactly the one that grants it.\<close>

definition info_ok :: "ToolInfo \<Rightarrow> bool" where
  "info_ok i =
     (info_name i \<noteq> [] \<and> \<not> starts_with (info_name i) ''workflow:'' \<and> schema_ok (info_input_schema i) \<and>
      annotations_ok (info_annotations i) \<and>
      (info_capabilities i = [] \<or> info_capabilities i = [info_name i]))"

lemmas catalog_defs =
  EchoTool_info_def JsonGetTool_info_def ConcatTool_info_def ListAppendTool_info_def LogTool_info_def
  TemplateTool_info_def HttpGetTool_info_def HttpPostTool_info_def AiCompleteTool_info_def IntrospectTool_info_def
  ValidateWorkflowTool_info_def EmbedTool_info_def SearchTool_info_def StoreTool_info_def StateSetTool_info_def
  StateGetTool_info_def StateDeleteTool_info_def StateListTool_info_def StateClearTool_info_def
  ShellExecTool_info_def SecretGetTool_info_def SecretListTool_info_def ConfigReloadTool_info_def
  ScheduleTool_info_def CancelScheduleTool_info_def SpawnTool_info_def StatusTool_info_def WaitTool_info_def
  CancelTool_info_def

lemmas catalog_lists =
  builtin_infos_def memory_infos_def http_infos_def secret_infos_def runner_infos_def platform_tools_def

lemma platform_names:
  "map info_name (platform_tools modes) =
     [''echo'', ''json_get'', ''concat'', ''list:append'', ''log'', ''template'', ''memory:search'', ''memory:store'',
      ''state:set'', ''state:get'', ''state:delete'', ''state:list'', ''state:clear'', ''http:get'', ''http:post'',
      ''ai:complete'', ''ai:embed'', ''shell:exec'', ''system:introspect'', ''yaml:validate_workflow'', ''secret:get'',
      ''secret:list'', ''config:reload'', ''schedule:create'', ''cancel:schedule'', ''runner:spawn'', ''runner:status'',
      ''runner:wait'', ''runner:cancel'']"
  by (simp add: catalog_lists catalog_defs)

section \<open>Properties\<close>

lemma catalog_info_ok: "list_all info_ok (platform_tools modes)"
  by (simp add: catalog_lists catalog_defs info_ok_def schema_ok_def annotations_ok_def starts_with_def
      obj_of_list_def obj_get_def)

lemma register_all_lookup:
  "distinct (map info_name infos) \<Longrightarrow> i \<in> set infos \<Longrightarrow>
     registry_get (register_all infos reg) (info_name i) = Some (RawTool i)"
proof (induction infos arbitrary: reg rule: rev_induct)
  case (snoc x infos)
  then show ?case by (auto simp: register_all_def register_def registry.lookup_put image_iff)
qed simp

text \<open>
  The catalog of platform tools is well formed: the names are pairwise different, none is in
  the \<open>workflow:\<close> space that reloads clear, every input schema describes an object and requires
  only properties it declares, no tool is both read-only and destructive, and a tool that names
  required capabilities names exactly its own. So registering all of them, in the order of boot,
  makes every name resolve to its own tool.
\<close>

theorem catalog_well_formed:
  "distinct (map info_name (platform_tools modes)) \<and>
   list_all info_ok (platform_tools modes) \<and>
   list_all (\<lambda>i. registry_get (register_all (platform_tools modes) reg) (info_name i) = Some (RawTool i))
     (platform_tools modes)"
proof -
  have d: "distinct (map info_name (platform_tools modes))"
    by (simp add: platform_names)
  then show ?thesis
    using catalog_info_ok [of modes] by (auto simp: list_all_iff intro: register_all_lookup)
qed

end
