(* ===== verification/Builtin_Tools.thy ===== *)
theory Builtin_Tools
  imports Template_Resolve Envelope Tool_Catalog
begin

text \<open>
  The builtin tools of the substrate, \<^verbatim>\<open>konflux-substrate/src/builtin.rs\<close>: \<open>echo\<close>,
  \<open>json_get\<close>, \<open>concat\<close>, \<open>list:append\<close>, \<open>log\<close> and \<open>template\<close>. Each is a function of the
  envelope it is called with, of the id and time of the response, and, where it uses them, of the
  JSON printer and of the template engine. \<open>json_get\<close> is proved to follow exactly the dot paths of
  nested objects, and to be an instance of the reference resolution of the templates.
\<close>

section \<open>Definitions\<close>

definition missing_field :: "string \<Rightarrow> string \<Rightarrow> ToolError" where
  "missing_field message field = InvalidInput message (Some field)"

definition echo_invoke :: "uuid \<Rightarrow> datetime \<Rightarrow> json Envelope \<Rightarrow> ToolError + json Envelope" where
  "echo_invoke fresh now env = Inr (respond fresh now env (env_payload env))"

fun get_parts :: "string \<Rightarrow> json \<Rightarrow> string list \<Rightarrow> ToolError + json" where
  "get_parts path current [] = Inr current"
| "get_parts path current (part # parts) =
     (if part = [] then get_parts path current parts
      else case json_get current part of
             Some v \<Rightarrow> get_parts path v parts
           | None \<Rightarrow> Inl (ExecutionFailed (''Path not found: '' @ path) False))"

definition json_get_invoke :: "uuid \<Rightarrow> datetime \<Rightarrow> json Envelope \<Rightarrow> ToolError + json Envelope" where
  "json_get_invoke fresh now env =
     rbind (ok_or (missing_field (''Missing '' @ quoted ''data'') ''data'') (json_get (env_payload env) ''data'')) (\<lambda>data.
     rbind (ok_or (missing_field (''Missing '' @ quoted ''path'') ''path'')
              (Option.bind (json_get (env_payload env) ''path'') as_str)) (\<lambda>path.
     rbind (get_parts path data (split_on CHR ''.'' path)) (\<lambda>current.
     Inr (respond fresh now env current))))"

text \<open>\<open>Vec<String>::join\<close>.\<close>

fun join_strs :: "string \<Rightarrow> string list \<Rightarrow> string" where
  "join_strs sep [] = []"
| "join_strs sep [s] = s"
| "join_strs sep (s # ss) = s @ sep @ join_strs sep ss"

definition concat_item :: "(json \<Rightarrow> string) \<Rightarrow> json \<Rightarrow> string" where
  "concat_item show_json v = (case as_str v of Some s \<Rightarrow> s | None \<Rightarrow> show_json v)"

definition concat_invoke ::
  "(json \<Rightarrow> string) \<Rightarrow> uuid \<Rightarrow> datetime \<Rightarrow> json Envelope \<Rightarrow> ToolError + json Envelope" where
  "concat_invoke show_json fresh now env =
     rbind (ok_or (missing_field (''Missing '' @ quoted ''parts'' @ '' array'') ''parts'')
              (Option.bind (json_get (env_payload env) ''parts'') as_array)) (\<lambda>parts.
     let separator = (case Option.bind (json_get (env_payload env) ''separator'') as_str of Some s \<Rightarrow> s | None \<Rightarrow> [])
     in Inr (respond fresh now env (JString (join_strs separator (map (concat_item show_json) parts)))))"

definition list_append_invoke ::
  "(json \<Rightarrow> string) \<Rightarrow> uuid \<Rightarrow> datetime \<Rightarrow> json Envelope \<Rightarrow> ToolError + json Envelope" where
  "list_append_invoke show_json fresh now env =
     rbind (case json_get (env_payload env) ''list'' of
              None \<Rightarrow> Inr []
            | Some JNull \<Rightarrow> Inr []
            | Some (JArray arr) \<Rightarrow> Inr arr
            | Some other \<Rightarrow>
                Inl (missing_field (quoted ''list'' @ '' must be an array or null, got '' @ show_json other) ''list'')) (\<lambda>out.
     rbind (ok_or (missing_field (quoted ''items'' @ '' must be an array'') ''items'')
              (Option.bind (json_get (env_payload env) ''items'') as_array)) (\<lambda>items.
     Inr (respond fresh now env (JArray (out @ items)))))"

text \<open>\<open>log\<close> also writes the payload to the trace, the list \<open>logged\<close>.\<close>

definition log_invoke ::
  "uuid \<Rightarrow> datetime \<Rightarrow> json Envelope \<Rightarrow> (string \<times> uuid \<times> json) list \<Rightarrow>
   (ToolError + json Envelope) \<times> (string \<times> uuid \<times> json) list" where
  "log_invoke fresh now env logged =
     (Inr (respond fresh now env (env_payload env)), logged @ [(env_target env, env_trace_id env, env_payload env)])"

definition template_invoke ::
  "minijinja \<Rightarrow> uuid \<Rightarrow> datetime \<Rightarrow> json Envelope \<Rightarrow> ToolError + json Envelope" where
  "template_invoke minijinja fresh now env =
     rbind (ok_or (missing_field (''Missing '' @ quoted ''template'') ''template'')
              (Option.bind (json_get (env_payload env) ''template'') as_str)) (\<lambda>tmpl.
     rbind (ok_or (missing_field (''Missing '' @ quoted ''vars'' @ '' object'') ''vars'')
              (Option.bind (json_get (env_payload env) ''vars'') as_object)) (\<lambda>vars.
     rbind (map_err (\<lambda>e. ExecutionFailed (''Template error: '' @ e) False) (render minijinja tmpl vars)) (\<lambda>rendered.
     Inr (respond fresh now env (JString rendered)))))"


section \<open>Lemmas\<close>

lemma split_on_no_sep: "d \<notin> set w \<Longrightarrow> split_on d w = [w]"
  by (induction w) auto

lemma split_on_append_sep: "d \<notin> set w \<Longrightarrow> split_on d (w @ d # s) = w # split_on d s"
  by (induction w) auto

text \<open>Splitting undoes joining, for words without the separator.\<close>

lemma split_join_with: "ws \<noteq> [] \<Longrightarrow> \<forall>w \<in> set ws. d \<notin> set w \<Longrightarrow> split_on d (join_with d ws) = ws"
proof (induction ws rule: list_nonempty_induct)
  case (single w)
  then show ?case by (simp add: split_on_no_sep)
next
  case (cons w ws)
  then show ?case by (simp add: join_with_Cons split_on_append_sep)
qed

lemma join_strs_char: "join_strs [d] ss = join_with d ss"
  by (induction "[d]" ss rule: join_strs.induct) auto

text \<open>
  What \<open>concat\<close> answers on a list of strings: their join. With a one-character separator that
  none of them contains, splitting the answer gives the list back.
\<close>

lemma concat_strings:
  assumes "json_get (env_payload env) ''parts'' = Some (JArray (map JString ss))"
    "json_get (env_payload env) ''separator'' = Some (JString sep)"
  shows "concat_invoke show_json fresh now env = Inr (respond fresh now env (JString (join_strs sep ss)))"
  using assms by (simp add: concat_invoke_def concat_item_def comp_def)

lemma concat_splits_back:
  assumes "ss \<noteq> []" "\<forall>s \<in> set ss. d \<notin> set s"
  shows "split_on d (join_strs [d] ss) = ss"
  using assms by (simp add: join_strs_char split_join_with)

text \<open>Walking the parts of a path is following its non-empty parts, as template references do.\<close>

lemma get_parts_eq:
  "get_parts path current parts =
     ok_or (ExecutionFailed (''Path not found: '' @ path) False) (follow_parts current (filter (\<lambda>p. p \<noteq> []) parts))"
  by (induction parts arbitrary: current) (auto split: option.split)

lemma json_get_invoke_eq:
  assumes "json_get (env_payload env) ''data'' = Some data" "json_get (env_payload env) ''path'' = Some (JString path)"
  shows "json_get_invoke fresh now env =
           map_ok (respond fresh now env)
             (ok_or (ExecutionFailed (''Path not found: '' @ path) False)
                (follow_parts data (filter (\<lambda>p. p \<noteq> []) (split_on CHR ''.'' path))))"
  using assms by (simp add: json_get_invoke_def get_parts_eq ok_or_def split: option.split)

text \<open>
  A list appended in two calls is the list appended in one: \<open>list:append\<close> is associative, and
  an absent or null accumulator is the empty list.
\<close>

definition append_payload :: "json option \<Rightarrow> json list \<Rightarrow> json" where
  "append_payload acc items =
     JObject (obj_of_list ((''items'', JArray items) # (case acc of Some a \<Rightarrow> [(''list'', a)] | None \<Rightarrow> [])))"

lemma append_payload_get [simp]:
  "json_get (append_payload acc items) ''items'' = Some (JArray items)"
  "json_get (append_payload acc items) ''list'' = acc"
  by (cases acc; simp add: append_payload_def obj_of_list_def obj_get_def)+

lemma list_append_ok:
  assumes "env_payload env = append_payload acc items"
  shows "acc \<in> {None, Some JNull} \<Longrightarrow> list_append_invoke show_json fresh now env = Inr (respond fresh now env (JArray items))"
    and "acc = Some (JArray xs) \<Longrightarrow>
           list_append_invoke show_json fresh now env = Inr (respond fresh now env (JArray (xs @ items)))"
  using assms by (auto simp: list_append_invoke_def)

section \<open>Properties\<close>

text \<open>The object that holds \<open>v\<close> at the end of a path of keys, beside other fields.\<close>

fun holds_at :: "json \<Rightarrow> string list \<Rightarrow> json \<Rightarrow> bool" where
  "holds_at j [] v = (j = v)"
| "holds_at j (k # ks) v = (\<exists>m j'. j = JObject m \<and> map_of m k = Some j' \<and> holds_at j' ks v)"

lemma follow_parts_holds: "follow_parts j ks = Some v \<longleftrightarrow> holds_at j ks v"
proof (induction ks arbitrary: j)
  case (Cons k ks)
  then show ?case by (cases j) (auto simp: obj_get_def split: option.splits)
qed auto

text \<open>
  \<open>json_get\<close> on a path of non-empty keys without dots answers the value that the data
  holds under those keys in turn, and answers "Path not found" exactly when there is none; empty
  segments of a path (doubled, leading and trailing dots) are ignored, so the empty path answers
  the data itself.
\<close>

theorem json_get_follows_path:
  assumes "json_get (env_payload env) ''data'' = Some data"
    "json_get (env_payload env) ''path'' = Some (JString path)"
    "\<forall>k \<in> set ks. k \<noteq> [] \<and> CHR ''.'' \<notin> set k"
    "filter (\<lambda>p. p \<noteq> []) (split_on CHR ''.'' path) = ks \<or> path = join_with CHR ''.'' ks"
  shows "(\<forall>v. json_get_invoke fresh now env = Inr (respond fresh now env v) \<longleftrightarrow> holds_at data ks v) \<and>
         (json_get_invoke fresh now env = Inl (ExecutionFailed (''Path not found: '' @ path) False) \<longleftrightarrow>
            (\<nexists>v. holds_at data ks v))"
proof -
  have inj: "respond fresh now env v = respond fresh now env v' \<longleftrightarrow> v = v'" for v v' :: json
    by (auto simp: respond_def)
  have "filter (\<lambda>p. p \<noteq> []) (split_on CHR ''.'' path) = ks"
    using assms(3,4) by (cases "ks = []") (auto simp: split_join_with)
  then show ?thesis
    by (auto simp: json_get_invoke_eq [OF assms(1,2)] follow_parts_holds [symmetric] inj ok_or_def
        split: option.split)
qed

definition get_env :: "json Envelope" where
  "get_env =
     for_tool_dispatch 1 0 ''json_get''
       (JObject (obj_of_list
          [(''data'', JObject (obj_of_list [(''a'', JObject (obj_of_list [(''b'', JBool True)]))])),
           (''path'', JString ''.a..b'')])) [] 2 ''konf:test'' ''actor'' ''s''"

theorem json_get_follows_path_witness:
  "json_get_invoke 7 9 get_env = Inr (respond 7 9 get_env (JBool True))"
  using json_get_follows_path [where env = get_env and path = "''.a..b''" and ks = "[''a'', ''b'']"
      and data = "JObject (obj_of_list [(''a'', JObject (obj_of_list [(''b'', JBool True)]))])" and fresh = 7 and now = 9]
  by (simp add: get_env_def for_tool_dispatch_def obj_of_list_def obj_get_def)

end
