(* ===== verification/Ai_Complete.thy ===== *)
theory Ai_Complete
  imports Engine Dispatcher
begin

text \<open>
  The LLM tool \<open>ai:complete\<close> (\<^verbatim>\<open>konf-tool-llm/src/lib.rs\<close>): the choice of the tools a model
  may call, the bridge that calls them, and the ReAct loop that alternates provider requests
  and tool calls; with the two read-only tools of the same crate, \<open>system:introspect\<close>
  (\<^verbatim>\<open>introspect.rs\<close>) and \<open>yaml:validate_workflow\<close> (\<^verbatim>\<open>validate.rs\<close>).

  The record \<open>'w Llm\<close> holds what the tool calls: the raw tools, the provider clients of the
  \<^verbatim>\<open>rig\<close> library, \<^verbatim>\<open>serde_json\<close>, the clock, the UUID source and the stream sender. The other
  contents of an answer (reasoning, images) are \<open>AOther\<close>, which the loop ignores.
\<close>

section \<open>Configuration and messages\<close>

record LlmConfig =
  llm_provider :: string
  llm_model :: string
  llm_temperature :: fval
  llm_max_tokens :: u64
  llm_max_iterations :: nat

definition LlmConfig_default :: LlmConfig where
  "LlmConfig_default =
     \<lparr> llm_provider = ''openai'', llm_model = ''gpt-4o'', llm_temperature = decode_f64 0x3FE6666666666666,
       llm_max_tokens = 4096, llm_max_iterations = 10 \<rparr>"

record ToolCall =
  tc_id :: string
  tc_call_id :: "string option"
  tc_name :: string
  tc_arguments :: json

datatype AssistantContent = AText string | AToolCall ToolCall | AOther string

datatype UserContent = UText string | UToolResult string "string option" string

datatype Message =
    SystemMsg string
  | UserMsg "UserContent list"
  | AssistantMsg "string option" "AssistantContent list"

record ToolDefinition =
  td_name :: string
  td_description :: string
  td_parameters :: json

record CompletionRequest =
  cr_model :: string
  cr_prompt :: Message
  cr_history :: "Message list"
  cr_tools :: "ToolDefinition list"
  cr_temperature :: fval
  cr_max_tokens :: u64

record CompletionResponse =
  cr_choice :: "AssistantContent list"
  cr_message_id :: "string option"

datatype RigToolError = RigJsonError string | RigToolCallError string

record 'w Llm =
  llm_raw :: "'w raw_tool"
  llm_client :: "string \<Rightarrow> CompletionRequest \<Rightarrow> 'w \<Rightarrow> (string + CompletionResponse) \<times> 'w"
  llm_provider_error :: "string \<Rightarrow> string"
  llm_to_string :: "json \<Rightarrow> string"
  llm_from_str :: "string \<Rightarrow> string + json"
  llm_show_tool_error :: "RigToolError \<Rightarrow> string"
  llm_empty_list :: string
  llm_now :: "'w \<Rightarrow> datetime"
  llm_fresh :: "'w \<Rightarrow> string \<Rightarrow> uuid"
  llm_elapsed_ms :: "'w \<Rightarrow> 'w \<Rightarrow> u64"
  llm_try_send :: "StreamEvent \<Rightarrow> 'w \<Rightarrow> 'w"

definition set_if :: "('a \<Rightarrow> 'r \<Rightarrow> 'r) \<Rightarrow> 'a option \<Rightarrow> 'r \<Rightarrow> 'r" where
  "set_if f x r = (case x of Some v \<Rightarrow> f v r | None \<Rightarrow> r)"

definition merge_config :: "LlmConfig \<Rightarrow> json \<Rightarrow> LlmConfig" where
  "merge_config config input =
     set_if (\<lambda>v. llm_max_iterations_update (\<lambda>_. unat v)) (Option.bind (json_get input ''max_iterations'') as_u64)
       (set_if (\<lambda>v. llm_max_tokens_update (\<lambda>_. v)) (Option.bind (json_get input ''max_tokens'') as_u64)
         (set_if (\<lambda>v. llm_temperature_update (\<lambda>_. v)) (Option.bind (json_get input ''temperature'') as_f64)
           (set_if (\<lambda>v. llm_model_update (\<lambda>_. v)) (Option.bind (json_get input ''model'') as_str)
             (set_if (\<lambda>v. llm_provider_update (\<lambda>_. v)) (Option.bind (json_get input ''provider'') as_str)
               config))))"

fun role_message :: "string \<Rightarrow> string \<Rightarrow> Message option" where
  "role_message role content =
     (if role = ''user'' then Some (UserMsg [UText content])
      else if role = ''assistant'' then Some (AssistantMsg None [AText content])
      else if role = ''system'' then Some (SystemMsg content)
      else None)"

definition prior_message :: "json \<Rightarrow> Message option" where
  "prior_message m =
     Option.bind (Option.bind (json_get m ''role'') as_str) (\<lambda>role.
       Option.bind (Option.bind (json_get m ''content'') as_str) (role_message role))"

definition parse_prior_messages :: "json \<Rightarrow> Message list" where
  "parse_prior_messages input =
     (case Option.bind (json_get input ''messages'') as_array of
        None \<Rightarrow> []
      | Some arr \<Rightarrow> List.map_filter prior_message arr)"

section \<open>The tools a model may call\<close>

record KonfluxToolBridge =
  br_inner :: Tool
  br_info :: ToolInfo
  br_parent_env :: "json Envelope"

text \<open>
  The two checks of \<open>resolve_tools\<close> and the exclusion of \<open>ai:complete\<close> itself, for one tool
  name.
\<close>

definition llm_visible :: "json Envelope \<Rightarrow> string list option \<Rightarrow> string \<Rightarrow> bool" where
  "llm_visible env whitelist name =
     (\<not> (name = ''ai:complete'' \<and>
          (case whitelist of None \<Rightarrow> True | Some wl \<Rightarrow> ''ai:complete'' \<notin> set wl)) \<and>
      is_ok (check_tool_access name (CapSet_patterns (env_capabilities env))) \<and>
      (case whitelist of None \<Rightarrow> True | Some wl \<Rightarrow> name \<in> set wl))"

definition bridge_of ::
  "(string \<Rightarrow> uuid) \<Rightarrow> datetime \<Rightarrow> ToolRegistry \<Rightarrow> json Envelope \<Rightarrow> string list option \<Rightarrow> ToolInfo \<Rightarrow> KonfluxToolBridge option" where
  "bridge_of fresh now registry env whitelist i =
     (if llm_visible env whitelist (info_name i)
      then map_option (\<lambda>tool. \<lparr> br_inner = tool, br_info = i, br_parent_env = respond (fresh (info_name i)) now env JNull \<rparr>)
             (registry_get registry (info_name i))
      else None)"

definition resolve_tools ::
  "(string \<Rightarrow> uuid) \<Rightarrow> datetime \<Rightarrow> ToolRegistry \<Rightarrow> json Envelope \<Rightarrow> string list option \<Rightarrow> KonfluxToolBridge list" where
  "resolve_tools fresh now registry env whitelist =
     List.map_filter (bridge_of fresh now registry env whitelist) (registry_list registry)"

definition bridge_definition :: "KonfluxToolBridge \<Rightarrow> ToolDefinition" where
  "bridge_definition b =
     \<lparr> td_name = info_name (br_info b), td_description = info_description (br_info b),
       td_parameters = info_input_schema (br_info b) \<rparr>"

definition bridge_call ::
  "'w Llm \<Rightarrow> KonfluxToolBridge \<Rightarrow> string \<Rightarrow> 'w \<Rightarrow> (RigToolError + string) \<times> 'w" where
  "bridge_call lx b args w =
     (case llm_from_str lx args of
        Inl e \<Rightarrow> (Inl (RigJsonError e), w)
      | Inr input \<Rightarrow>
          (case invoke (llm_raw lx) (br_inner b) (respond (llm_fresh lx w (info_name (br_info b))) (llm_now lx w) (br_parent_env b) input) w of
             (Inl e, w') \<Rightarrow> (Inl (RigToolCallError (show_ToolError e)), w')
           | (Inr out, w') \<Rightarrow> (Inr (llm_to_string lx (env_payload out)), w')))"

section \<open>The ReAct loop\<close>

text \<open>\<open>call_completion\<close>: the last message is the prompt, the ones before it the history.\<close>

definition completion_request :: "LlmConfig \<Rightarrow> Message list \<Rightarrow> ToolDefinition list \<Rightarrow> CompletionRequest" where
  "completion_request config messages tool_defs =
     \<lparr> cr_model = llm_model config,
       cr_prompt = (if messages = [] then UserMsg [UText []] else last messages),
       cr_history = butlast messages,
       cr_tools = tool_defs, cr_temperature = llm_temperature config,
       cr_max_tokens = llm_max_tokens config \<rparr>"

definition call_completion ::
  "'w Llm \<Rightarrow> LlmConfig \<Rightarrow> Message list \<Rightarrow> ToolDefinition list \<Rightarrow> 'w \<Rightarrow> (string + CompletionResponse) \<times> 'w" where
  "call_completion lx config messages tool_defs w =
     (if llm_provider config \<in> {''openai'', ''anthropic'', ''gemini'', ''ollama''}
      then llm_client lx (llm_provider config) (completion_request config messages tool_defs) w
      else (Inl (llm_provider_error lx (''Unknown LLM provider: '' @ quoted (llm_provider config)
              @ ''. Supported: openai, anthropic, gemini, ollama'')), w))"

definition truncate_utf8 :: "string \<Rightarrow> nat \<Rightarrow> string" where
  "truncate_utf8 s max_chars = concat (take max_chars (utf8_chars s))"

fun texts_of :: "AssistantContent list \<Rightarrow> string list" where
  "texts_of [] = []"
| "texts_of (AText t # cs) = t # texts_of cs"
| "texts_of (_ # cs) = texts_of cs"

fun calls_of :: "AssistantContent list \<Rightarrow> ToolCall list" where
  "calls_of [] = []"
| "calls_of (AToolCall c # cs) = c # calls_of cs"
| "calls_of (_ # cs) = calls_of cs"

definition call_id_json :: "ToolCall \<Rightarrow> json" where
  "call_id_json tc = JString (tc_id tc)"

definition tool_map :: "KonfluxToolBridge list \<Rightarrow> nat smap" where
  "tool_map bridges = obj_of_list (map (\<lambda>(i, b). (info_name (br_info b), i)) (enumerate 0 bridges))"

text \<open>One tool call: its stream events, the call itself and the result for the history.\<close>

definition call_text :: "'w Llm \<Rightarrow> KonfluxToolBridge list \<Rightarrow> ToolCall \<Rightarrow> 'w \<Rightarrow> string \<times> 'w" where
  "call_text lx bridges tc w =
     (case obj_get (tool_map bridges) (tc_name tc) of
        Some idx \<Rightarrow>
          (case bridge_call lx (bridges ! idx) (llm_to_string lx (tc_arguments tc)) w of
             (Inr output, w') \<Rightarrow> (output, w')
           | (Inl e, w') \<Rightarrow> (''Tool error: '' @ llm_show_tool_error lx e, w'))
      | None \<Rightarrow> (''Unknown tool: '' @ tc_name tc, w))"

definition dispatch_call ::
  "'w Llm \<Rightarrow> string \<Rightarrow> KonfluxToolBridge list \<Rightarrow> ToolCall \<Rightarrow> 'w \<Rightarrow> UserContent \<times> 'w" where
  "dispatch_call lx node_id bridges tc w =
     (let w1 = llm_try_send lx (Progress node_id ToolStart (JObject (obj_of_list
                 [(''tool'', JString (tc_name tc)), (''input'', tc_arguments tc), (''call_id'', call_id_json tc)]))) w
      in case call_text lx bridges tc w1 of
           (result, w2) \<Rightarrow>
             (UToolResult (tc_id tc) (tc_call_id tc) result,
              llm_try_send lx (Progress node_id ToolEnd (JObject (obj_of_list
                [(''tool'', JString (tc_name tc)), (''call_id'', call_id_json tc),
                 (''duration_ms'', JNumber (PosInt (llm_elapsed_ms lx w1 w2))),
                 (''output_preview'', JString (truncate_utf8 result 200))]))) w2))"

fun dispatch_calls ::
  "'w Llm \<Rightarrow> string \<Rightarrow> KonfluxToolBridge list \<Rightarrow> ToolCall list \<Rightarrow> 'w \<Rightarrow> UserContent list \<times> 'w" where
  "dispatch_calls lx node_id bridges [] w = ([], w)"
| "dispatch_calls lx node_id bridges (tc # tcs) w =
     (case dispatch_call lx node_id bridges tc w of
        (r, w1) \<Rightarrow> (case dispatch_calls lx node_id bridges tcs w1 of (rs, w2) \<Rightarrow> (r # rs, w2)))"

record ReactResult =
  rx_text :: string
  rx_iterations :: nat
  rx_tool_call_count :: nat

definition initial_messages :: "string option \<Rightarrow> Message list \<Rightarrow> string \<Rightarrow> Message list" where
  "initial_messages system prior_messages prompt =
     (case system of Some sys \<Rightarrow> [SystemMsg sys] | None \<Rightarrow> []) @ prior_messages @ [UserMsg [UText prompt]]"

definition completion_failed :: "LlmConfig \<Rightarrow> string \<Rightarrow> ToolError" where
  "completion_failed config e = ExecutionFailed (llm_provider config @ '' completion failed: '' @ e) True"

definition iteration_exceeded :: "LlmConfig \<Rightarrow> ToolError" where
  "iteration_exceeded config =
     ExecutionFailed (''ai_complete exceeded max_iterations ('' @ show_nat (llm_max_iterations config)
       @ '') without producing a final response'') False"

definition nat_json :: "nat \<Rightarrow> json" where
  "nat_json n = JNumber (PosInt (of_nat n))"

text \<open>
  The iterations \<open>iteration .. max_iterations - 1\<close>; the first argument is how many are left.
\<close>

fun react_iterations ::
  "nat \<Rightarrow> nat \<Rightarrow> 'w Llm \<Rightarrow> LlmConfig \<Rightarrow> string \<Rightarrow> KonfluxToolBridge list \<Rightarrow> Message list \<Rightarrow> nat \<Rightarrow> 'w \<Rightarrow>
   (ToolError + ReactResult) \<times> 'w" where
  "react_iterations 0 iteration lx config node_id bridges messages total_tool_calls w =
     (Inl (iteration_exceeded config), w)"
| "react_iterations (Suc left) iteration lx config node_id bridges messages total_tool_calls w =
     (let w0 = llm_try_send lx (Progress node_id Status (JObject (obj_of_list
                 [(''iteration'', nat_json iteration), (''max'', nat_json (llm_max_iterations config))]))) w
      in case call_completion lx config messages (map bridge_definition bridges) w0 of
           (Inl e, w1) \<Rightarrow> (Inl (completion_failed config e), w1)
         | (Inr response, w1) \<Rightarrow>
             (let messages1 = messages @ [AssistantMsg (cr_message_id response) (cr_choice response)];
                  tool_calls = calls_of (cr_choice response)
              in if tool_calls = []
                 then (let final_text = concat (texts_of (cr_choice response)) in
                       (Inr \<lparr> rx_text = final_text, rx_iterations = iteration + 1,
                              rx_tool_call_count = total_tool_calls \<rparr>,
                        if final_text = [] then w1
                        else llm_try_send lx (Progress node_id TextDelta (JString final_text)) w1))
                 else (case dispatch_calls lx node_id bridges tool_calls w1 of
                         (tool_results, w2) \<Rightarrow>
                           if tool_results = []
                           then (Inl (ExecutionFailed (''Failed to build tool results message: '' @ llm_empty_list lx) False), w2)
                           else react_iterations left (iteration + 1) lx config node_id bridges
                                  (messages1 @ [UserMsg tool_results])
                                  (total_tool_calls + length tool_calls) w2)))"

definition react_loop ::
  "'w Llm \<Rightarrow> LlmConfig \<Rightarrow> string option \<Rightarrow> Message list \<Rightarrow> string \<Rightarrow> KonfluxToolBridge list \<Rightarrow> string \<Rightarrow> 'w \<Rightarrow>
   (ToolError + ReactResult) \<times> 'w" where
  "react_loop lx config system prior_messages prompt inner_tools node_id w =
     react_iterations (llm_max_iterations config) 0 lx config node_id inner_tools
       (initial_messages system prior_messages prompt) 0 w"

definition tool_whitelist :: "json \<Rightarrow> string list option" where
  "tool_whitelist input =
     map_option (List.map_filter as_str) (Option.bind (json_get input ''tools'') as_array)"

definition ai_meta :: "LlmConfig \<Rightarrow> u64 \<Rightarrow> ReactResult \<Rightarrow> json" where
  "ai_meta config duration_ms r =
     JObject (obj_of_list
       [(''tool'', JString ''ai:complete''), (''provider'', JString (llm_provider config)),
        (''model'', JString (llm_model config)), (''duration_ms'', JNumber (PosInt duration_ms)),
        (''iterations'', nat_json (rx_iterations r)), (''tool_calls'', nat_json (rx_tool_call_count r))])"

definition ai_complete_streaming ::
  "'w Llm \<Rightarrow> LlmConfig \<Rightarrow> ToolRegistry \<Rightarrow> json Envelope \<Rightarrow> 'w \<Rightarrow> (ToolError + json Envelope) \<times> 'w" where
  "ai_complete_streaming lx base_config registry env w =
     (let input = env_payload env;
          prompt = (case Option.bind (json_get input ''prompt'') as_str of Some p \<Rightarrow> p | None \<Rightarrow> []);
          system = Option.bind (json_get input ''system'') as_str;
          config = merge_config base_config input;
          inner_tools = resolve_tools (llm_fresh lx w) (llm_now lx w) registry env (tool_whitelist input)
      in case react_loop lx config system (parse_prior_messages input) prompt inner_tools (env_target env) w of
           (Inl e, w') \<Rightarrow> (Inl e, w')
         | (Inr r, w') \<Rightarrow>
             (Inr (respond (llm_fresh lx w' ''ai:complete'') (llm_now lx w') env (JObject (obj_of_list
                [(''text'', JString (rx_text r)), (''_meta'', ai_meta config (llm_elapsed_ms lx w w') r)]))), w'))"

text \<open>\<open>invoke\<close> runs the same code on a channel whose receiver is dropped at once.\<close>

definition ai_complete ::
  "'w Llm \<Rightarrow> LlmConfig \<Rightarrow> ToolRegistry \<Rightarrow> json Envelope \<Rightarrow> 'w \<Rightarrow> (ToolError + json Envelope) \<times> 'w" where
  "ai_complete lx = ai_complete_streaming (lx\<lparr> llm_try_send := (\<lambda>ev w. w) \<rparr>)"

section \<open>Introspection and validation\<close>

definition matches_filter :: "string \<Rightarrow> string \<Rightarrow> bool" where
  "matches_filter pat tool_name =
     (if pat = ''*'' then True
      else case strip_suffix pat '':*'' of
             Some p \<Rightarrow> starts_with tool_name p \<and> byte_at tool_name (length p) = Some (CHR '':'')
           | None \<Rightarrow> pat = tool_name)"

definition annotations_json :: "ToolAnnotations \<Rightarrow> json" where
  "annotations_json a =
     JObject (obj_of_list
       [(''read_only'', JBool (read_only a)), (''destructive'', JBool (destructive a)),
        (''idempotent'', JBool (idempotent a)), (''open_world'', JBool (open_world a))])"

definition tool_info_json :: "ToolInfo \<Rightarrow> json" where
  "tool_info_json i =
     JObject (obj_of_list
       [(''name'', JString (info_name i)), (''description'', JString (info_description i)),
        (''input_schema'', info_input_schema i), (''annotations'', annotations_json (info_annotations i))])"

definition introspect_invoke :: "ToolRegistry \<Rightarrow> uuid \<Rightarrow> datetime \<Rightarrow> json Envelope \<Rightarrow> json Envelope" where
  "introspect_invoke registry fresh now env =
     (let all_tools = registry_list registry;
          filtered = (case Option.bind (json_get (env_payload env) ''filter'') as_str of
                        Some pat \<Rightarrow> filter (\<lambda>i. matches_filter pat (info_name i)) all_tools
                      | None \<Rightarrow> all_tools)
      in respond fresh now env (JObject (obj_of_list
           [(''tools'', JArray (map tool_info_json filtered)), (''count'', nat_json (length filtered))])))"

definition unregistered_errors :: "ToolRegistry \<Rightarrow> Workflow \<Rightarrow> string list" where
  "unregistered_errors registry wfl =
     map (\<lambda>step. ''Tool '' @ quoted (step_tool step) @ '' (used in step '' @ quoted (step_id step)
                 @ '') is not registered'')
       (filter (\<lambda>step. \<not> registry_contains registry (step_tool step)) (wf_steps wfl))"

definition uncovered_errors :: "string list \<Rightarrow> Workflow \<Rightarrow> string list" where
  "uncovered_errors patterns wfl =
     map (\<lambda>cap. ''Workflow requires '' @ quoted cap @ '' but caller does not have a matching grant'')
       (filter (\<lambda>cap. \<not> list_ex (\<lambda>grant. Capability_matches (Capability grant) cap) patterns)
         (wf_capabilities wfl))"

definition invalid_json :: "string list \<Rightarrow> json" where
  "invalid_json errs = JObject (obj_of_list [(''valid'', JBool False), (''errors'', JArray (map JString errs))])"

definition validate_workflow_invoke ::
  "(string \<Rightarrow> string + WorkflowSchema) \<Rightarrow> ('r, 'q) Engine \<Rightarrow> uuid \<Rightarrow> datetime \<Rightarrow> json Envelope \<Rightarrow>
   ToolError + json Envelope" where
  "validate_workflow_invoke from_yaml engine fresh now env =
     (case Option.bind (json_get (env_payload env) ''yaml'') as_str of
        None \<Rightarrow> Inl (InvalidInput (''Missing required field '' @ quoted ''yaml'' @ '' (string)'') (Some ''yaml''))
      | Some yaml \<Rightarrow>
          Inr (respond fresh now env
            (case engine_parse_yaml from_yaml engine yaml of
               Inl e \<Rightarrow> invalid_json [''Parse error: '' @ show_KonfluxError e]
             | Inr wfl \<Rightarrow>
                 (let errs = unregistered_errors (eng_tools engine) wfl @
                             uncovered_errors (CapSet_patterns (env_capabilities env)) wfl
                  in if errs = []
                     then JObject (obj_of_list
                            [(''valid'', JBool True), (''workflow_id'', JString (wf_id wfl)),
                             (''node_count'', nat_json (length (wf_steps wfl))),
                             (''capabilities_required'', JArray (map JString (wf_capabilities wfl)))])
                     else invalid_json errs))))"

section \<open>Lemmas\<close>

text \<open>The part of an envelope that decides what the holder may do, and for whom.\<close>

definition same_authority :: "json Envelope \<Rightarrow> json Envelope \<Rightarrow> bool" where
  "same_authority e env =
     (env_capabilities e = env_capabilities env \<and> env_namespace e = env_namespace env \<and>
      env_actor_id e = env_actor_id env \<and> env_trace_id e = env_trace_id env \<and>
      env_metadata e = env_metadata env)"

lemma same_authority_refl [simp]: "same_authority e e"
  by (simp add: same_authority_def)

lemma same_authority_respond [simp]: "same_authority (respond fresh now e p) env = same_authority e env"
  by (simp add: same_authority_def respond_def)

lemma same_authority_payload: "same_authority (e\<lparr> env_payload := p \<rparr>) env = same_authority e env"
  by (simp add: same_authority_def)

text \<open>A call of a tool reaches the raw tool with the metadata of the tool, with that authority.\<close>

lemma invoke_raw_cong:
  assumes "\<And>e w. same_authority e env \<Longrightarrow> raw (info t) e w = raw' (info t) e w" "same_authority e env"
  shows "invoke raw t e w = invoke raw' t e w"
  using assms
proof (induction t arbitrary: e)
  case (RawTool i)
  then show ?case by simp
next
  case (VirtualizedTool t bindings)
  show ?case
  proof (cases "inject_bindings bindings e")
    case (Inr e')
    then have "e' = e\<lparr> env_payload := env_payload e' \<rparr>" by (rule virtualized.pre_payload_only)
    then have "same_authority e' env" using VirtualizedTool.prems(2) same_authority_payload by metis
    with VirtualizedTool Inr show ?thesis by simp
  qed simp
next
  case (GuardedTool t rules d)
  then show ?case by (simp split: sum.split)
qed

definition registry_named :: "ToolRegistry \<Rightarrow> bool" where
  "registry_named reg = list_all (\<lambda>(k, t). info_name (info t) = k) reg"

lemma registry_named_get: "registry_named reg \<Longrightarrow> registry_get reg k = Some t \<Longrightarrow> info_name (info t) = k"
  by (auto simp: registry_named_def registry_get_def obj_get_def list_all_iff dest!: map_of_SomeD)

lemma set_obj_insert: "x \<in> set (obj_insert k v m) \<Longrightarrow> x = (k, v) \<or> x \<in> set m"
  by (induction k v m rule: obj_insert.induct) (auto split: if_splits)

lemma registry_named_register: "registry_named reg \<Longrightarrow> registry_named (register t reg)"
  unfolding registry_named_def register_def list_all_iff using set_obj_insert by fastforce

definition bridge_ok :: "json Envelope \<Rightarrow> string list option \<Rightarrow> KonfluxToolBridge \<Rightarrow> bool" where
  "bridge_ok env whitelist b =
     (llm_visible env whitelist (info_name (info (br_inner b))) \<and>
      llm_visible env whitelist (info_name (br_info b)) \<and> same_authority (br_parent_env b) env)"

lemma resolve_tools_ok:
  assumes "registry_named reg" "b \<in> set (resolve_tools fresh now reg env whitelist)"
  shows "bridge_ok env whitelist b"
  using assms registry_named_get [OF assms(1)]
  by (auto simp: resolve_tools_def bridge_of_def bridge_ok_def List.map_filter_def split: if_splits)

text \<open>An answer to a tool call, and a conversation of such rounds.\<close>

fun answers :: "ToolCall \<Rightarrow> UserContent \<Rightarrow> bool" where
  "answers tc (UToolResult i c t) = (i = tc_id tc \<and> c = tc_call_id tc)"
| "answers tc (UText t) = False"

fun rounds_ok :: "Message list \<Rightarrow> bool" where
  "rounds_ok [] = True"
| "rounds_ok (AssistantMsg mid c # UserMsg rs # ms) =
     (calls_of c \<noteq> [] \<and> list_all2 answers (calls_of c) rs \<and> rounds_ok ms)"
| "rounds_ok _ = False"

lemma rounds_ok_snoc:
  assumes "rounds_ok ms" "calls_of c \<noteq> []" "list_all2 answers (calls_of c) rs"
  shows "rounds_ok (ms @ [AssistantMsg mid c, UserMsg rs])"
  using assms by (induction ms rule: rounds_ok.induct) auto

lemma dispatch_call_answers: "answers tc (fst (dispatch_call lx node_id bridges tc w))"
  by (simp add: dispatch_call_def Let_def case_prod_beta)

lemma dispatch_calls_answers: "list_all2 answers tcs (fst (dispatch_calls lx node_id bridges tcs w))"
  by (induction tcs arbitrary: w) (simp_all add: case_prod_beta dispatch_call_answers)

lemma dispatch_calls_nonempty: "fst (dispatch_calls lx node_id bridges tcs w) = [] \<longleftrightarrow> tcs = []"
  using dispatch_calls_answers [of tcs lx node_id bridges w] by auto

lemma completion_request_messages:
  "messages \<noteq> [] \<Longrightarrow> cr_history (completion_request config messages defs) @
     [cr_prompt (completion_request config messages defs)] = messages"
  by (simp add: completion_request_def)

lemma tool_map_bounds: "obj_get (tool_map bridges) k = Some i \<Longrightarrow> i < length bridges"
proof -
  assume "obj_get (tool_map bridges) k = Some i"
  then have "map_of (rev (map (\<lambda>(i, b). (info_name (br_info b), i)) (enumerate 0 bridges))) k = Some i"
    using obj_get_fold_insert [of "map (\<lambda>(i, b). (info_name (br_info b), i)) (enumerate 0 bridges)" "[]" k]
    by (simp add: tool_map_def obj_of_list_def obj_get_def [of "[]"] split: option.splits)
  then have "(k, i) \<in> set (map (\<lambda>(i, b). (info_name (br_info b), i)) (enumerate 0 bridges))"
    using map_of_SomeD by fastforce
  then show ?thesis by (auto simp: in_set_enumerate_eq)
qed

text \<open>
  Two environments that differ in the raw tools and the provider only. Where they agree on
  everything the loop may reach, the loop cannot tell them apart.
\<close>

locale react_view =
  fixes lx lx' :: "'w Llm" and env :: "json Envelope" and whitelist :: "string list option"
    and bridges :: "KonfluxToolBridge list" and base :: "Message list" and config :: LlmConfig
  assumes same_rest: "lx' = lx\<lparr> llm_raw := llm_raw lx', llm_client := llm_client lx' \<rparr>"
    and bridges_ok: "b \<in> set bridges \<Longrightarrow> bridge_ok env whitelist b"
    and base_nonempty: "base \<noteq> []"
    and raw_agrees: "llm_visible env whitelist (info_name i) \<Longrightarrow> same_authority e env \<Longrightarrow>
      llm_raw lx i e w = llm_raw lx' i e w"
    and client_agrees: "cr_history req @ [cr_prompt req] = base @ rounds \<Longrightarrow> rounds_ok rounds \<Longrightarrow>
      length rounds < 2 * llm_max_iterations config \<Longrightarrow> cr_tools req = map bridge_definition bridges \<Longrightarrow>
      llm_client lx p req w = llm_client lx' p req w"
begin

lemma fields_agree:
  "llm_from_str lx' = llm_from_str lx" "llm_to_string lx' = llm_to_string lx"
  "llm_show_tool_error lx' = llm_show_tool_error lx" "llm_now lx' = llm_now lx"
  "llm_fresh lx' = llm_fresh lx" "llm_elapsed_ms lx' = llm_elapsed_ms lx"
  "llm_try_send lx' = llm_try_send lx" "llm_provider_error lx' = llm_provider_error lx"
  "llm_empty_list lx' = llm_empty_list lx"
  by (subst same_rest, simp)+

lemma bridge_call_agrees:
  assumes "b \<in> set bridges"
  shows "bridge_call lx b args w = bridge_call lx' b args w"
proof -
  have ok: "llm_visible env whitelist (info_name (info (br_inner b)))" "same_authority (br_parent_env b) env"
    using bridges_ok [OF assms] by (simp_all add: bridge_ok_def)
  have "invoke (llm_raw lx) (br_inner b) e w = invoke (llm_raw lx') (br_inner b) e w"
    if "same_authority e env" for e
    by (rule invoke_raw_cong [where env = env]) (use raw_agrees ok(1) that in auto)
  then show ?thesis by (simp add: bridge_call_def fields_agree ok(2) split: prod.split sum.split)
qed

lemma call_text_agrees: "call_text lx bridges tc w = call_text lx' bridges tc w"
  by (auto simp: call_text_def fields_agree bridge_call_agrees dest: tool_map_bounds split: option.split prod.split sum.split)

lemma dispatch_calls_agree: "dispatch_calls lx node_id bridges tcs w = dispatch_calls lx' node_id bridges tcs w"
  by (induction tcs arbitrary: w) (simp_all add: dispatch_call_def call_text_agrees fields_agree)

lemma call_completion_agrees:
  assumes "rounds_ok rounds" "length rounds < 2 * llm_max_iterations config"
  shows "call_completion lx config (base @ rounds) (map bridge_definition bridges) w =
    call_completion lx' config (base @ rounds) (map bridge_definition bridges) w"
proof -
  let ?req = "completion_request config (base @ rounds) (map bridge_definition bridges)"
  have "cr_history ?req @ [cr_prompt ?req] = base @ rounds"
    using base_nonempty by (simp add: completion_request_messages)
  then have "llm_client lx p ?req w = llm_client lx' p ?req w" for p
    using client_agrees assms by (simp add: completion_request_def)
  then show ?thesis by (simp add: call_completion_def fields_agree)
qed

lemma react_agrees:
  assumes "rounds_ok rounds" "length rounds = 2 * iteration" "iteration + left = llm_max_iterations config"
  shows "react_iterations left iteration lx config node_id bridges (base @ rounds) calls w =
    react_iterations left iteration lx' config node_id bridges (base @ rounds) calls w"
  using assms
proof (induction left arbitrary: iteration rounds calls w)
  case (Suc left)
  have call: "call_completion lx config (base @ rounds) (map bridge_definition bridges) w =
      call_completion lx' config (base @ rounds) (map bridge_definition bridges) w" for w
    using Suc.prems by (intro call_completion_agrees) auto
  have next_round: "react_iterations left (iteration + 1) lx config node_id bridges
        ((base @ rounds @ [AssistantMsg mid c]) @ [UserMsg rs]) t w =
      react_iterations left (iteration + 1) lx' config node_id bridges
        ((base @ rounds @ [AssistantMsg mid c]) @ [UserMsg rs]) t w"
    if "calls_of c \<noteq> []" "list_all2 answers (calls_of c) rs" for mid c rs t w
    using Suc.IH [OF rounds_ok_snoc [OF Suc.prems(1) that], of mid "iteration + 1" t w] Suc.prems(2,3) by simp
  have answered: "list_all2 answers tcs rs" if "dispatch_calls lx' node_id bridges tcs w = (rs, w2)" for tcs w rs w2
    using dispatch_calls_answers [of tcs lx' node_id bridges w] that by simp
  show ?case
    using next_round
    by (auto simp: call fields_agree dispatch_calls_agree Let_def dest: answered split: prod.split sum.split)
qed simp

end

lemma react_loop_agrees:
  assumes "react_view lx lx' env whitelist bridges (initial_messages system prior prompt) config"
  shows "react_loop lx config system prior prompt bridges node_id w =
    react_loop lx' config system prior prompt bridges node_id w"
  using react_view.react_agrees [OF assms, of "[]" 0 "llm_max_iterations config"]
  by (simp add: react_loop_def)

lemma react_result_bounds:
  assumes "react_iterations left iteration lx config node_id bridges messages calls w = (Inr r, w')"
  shows "iteration < rx_iterations r \<and> rx_iterations r \<le> iteration + left \<and> calls \<le> rx_tool_call_count r"
  using assms
  by (induction left iteration lx config node_id bridges messages calls w rule: react_iterations.induct)
     (fastforce simp: Let_def split: prod.splits sum.splits if_splits)+

section \<open>Properties\<close>

text \<open>The tools and the provider with every call outside the grant replaced by \<open>other\<close>.\<close>

definition granted_raw ::
  "'w raw_tool \<Rightarrow> json Envelope \<Rightarrow> string list option \<Rightarrow> 'w raw_tool \<Rightarrow> 'w raw_tool" where
  "granted_raw other env whitelist raw i e w =
     (if is_ok (check_tool_access (info_name i) (CapSet_patterns (env_capabilities env))) \<and>
         (case whitelist of None \<Rightarrow> info_name i \<noteq> ''ai:complete'' | Some wl \<Rightarrow> info_name i \<in> set wl) \<and>
         same_authority e env
      then raw i e w else other i e w)"

definition request_proper ::
  "json Envelope \<Rightarrow> string list option \<Rightarrow> Message list \<Rightarrow> nat \<Rightarrow> CompletionRequest \<Rightarrow> bool" where
  "request_proper env whitelist base max_iterations req =
     (let messages = cr_history req @ [cr_prompt req]; rounds = drop (length base) messages in
      take (length base) messages = base \<and> rounds_ok rounds \<and> length rounds < 2 * max_iterations \<and>
      list_all (\<lambda>d. llm_visible env whitelist (td_name d)) (cr_tools req))"

definition proper_client where
  "proper_client other env whitelist base max_iterations client p req w =
     (if request_proper env whitelist base max_iterations req then client p req w else other p req w)"

definition confined_llm where
  "confined_llm other_raw other_client env whitelist base config lx =
     lx\<lparr> llm_raw := granted_raw other_raw env whitelist (llm_raw lx),
         llm_client := proper_client other_client env whitelist base (llm_max_iterations config) (llm_client lx) \<rparr>"

lemma confined_fields:
  "llm_fresh (confined_llm other_raw other_client env whitelist base config lx) = llm_fresh lx"
  "llm_now (confined_llm other_raw other_client env whitelist base config lx) = llm_now lx"
  "llm_elapsed_ms (confined_llm other_raw other_client env whitelist base config lx) = llm_elapsed_ms lx"
  by (simp_all add: confined_llm_def)

lemma unchanged_outside [simp]:
  "granted_raw raw env whitelist raw = raw"
  "proper_client client env whitelist base max_iterations client = client"
  by (intro ext; simp add: granted_raw_def proper_client_def)+

lemma llm_visible_granted:
  "llm_visible env whitelist (info_name i) \<Longrightarrow> same_authority e env \<Longrightarrow>
   granted_raw other env whitelist raw i e w = raw i e w"
  by (auto simp: llm_visible_def granted_raw_def split: option.splits)

interpretation confined: react_view lx
  "confined_llm other_raw other_client env whitelist (initial_messages system prior prompt) config lx"
  env whitelist "filter (bridge_ok env whitelist) bridges" "initial_messages system prior prompt" config
  for lx other_raw other_client env whitelist bridges system prior prompt config
proof unfold_locales
  show "llm_client lx p req w =
      llm_client (confined_llm other_raw other_client env whitelist (initial_messages system prior prompt) config lx) p req w"
    if "cr_history req @ [cr_prompt req] = initial_messages system prior prompt @ rounds" "rounds_ok rounds"
      "length rounds < 2 * llm_max_iterations config"
      "cr_tools req = map bridge_definition (filter (bridge_ok env whitelist) bridges)" for p req w rounds
    using that
    by (simp add: confined_llm_def proper_client_def request_proper_def Let_def list_all_iff
        bridge_definition_def bridge_ok_def)
qed (auto simp: confined_llm_def initial_messages_def llm_visible_granted)

lemma ai_complete_confined:
  assumes "registry_named registry"
  shows "ai_complete_streaming (confined_llm other_raw other_client env (tool_whitelist (env_payload env))
      (initial_messages (Option.bind (json_get (env_payload env) ''system'') as_str)
        (parse_prior_messages (env_payload env))
        (case Option.bind (json_get (env_payload env) ''prompt'') as_str of Some p \<Rightarrow> p | None \<Rightarrow> []))
      (merge_config base_config (env_payload env)) lx) base_config registry env w =
    ai_complete_streaming lx base_config registry env w"
proof -
  have "filter (bridge_ok env (tool_whitelist (env_payload env)))
        (resolve_tools fresh now registry env (tool_whitelist (env_payload env))) =
      resolve_tools fresh now registry env (tool_whitelist (env_payload env))" for fresh now
    using resolve_tools_ok [OF assms] by (simp add: filter_id_conv)
  then have loop: "react_loop lx config system prior prompt
        (resolve_tools fresh now registry env (tool_whitelist (env_payload env))) node_id w =
      react_loop (confined_llm other_raw other_client env (tool_whitelist (env_payload env))
        (initial_messages system prior prompt) config lx) config system prior prompt
        (resolve_tools fresh now registry env (tool_whitelist (env_payload env))) node_id w"
    for config system prior prompt fresh now node_id
    using react_loop_agrees [OF confined.react_view_axioms] by metis
  show ?thesis
    by (simp add: ai_complete_streaming_def Let_def confined_fields loop [symmetric] split: prod.split sum.split)
qed

text \<open>
  C11. What a model can reach. Whatever the model answers, \<open>ai:complete\<close> only calls tools the
  caller's capabilities permit and, when the node names a whitelist, that are on it; \<open>ai:complete\<close>
  itself is called only when whitelisted; and every call carries the capabilities, namespace,
  actor, trace and metadata of the caller. Formally, the behaviour of any other tool call may be
  replaced by anything without changing the outcome. The registry keys its tools by their names,
  which \<open>register\<close> maintains.
\<close>

theorem llm_tool_calls_are_granted:
  assumes "registry_named registry"
  shows "ai_complete_streaming (lx\<lparr> llm_raw := granted_raw other env (tool_whitelist (env_payload env)) (llm_raw lx) \<rparr>)
      base_config registry env w =
    ai_complete_streaming lx base_config registry env w"
  using ai_complete_confined [OF assms, of other "llm_client lx" env base_config lx w]
  by (simp add: confined_llm_def)

text \<open>
  C39. What the provider is sent. Every request of \<open>ai:complete\<close> offers only tools visible to the
  caller and carries a well-formed conversation: the optional system prompt, the caller's history
  and the prompt, followed by complete rounds, in each of which the answer of the model asks for at
  least one tool call and the following message answers exactly those calls, in order and under
  their ids; no request follows more than \<open>max_iterations - 1\<close> rounds.
\<close>

theorem llm_requests_well_formed:
  assumes "registry_named registry"
  shows "ai_complete_streaming (lx\<lparr> llm_client := proper_client other env (tool_whitelist (env_payload env))
        (initial_messages (Option.bind (json_get (env_payload env) ''system'') as_str)
          (parse_prior_messages (env_payload env))
          (case Option.bind (json_get (env_payload env) ''prompt'') as_str of Some p \<Rightarrow> p | None \<Rightarrow> []))
        (llm_max_iterations (merge_config base_config (env_payload env))) (llm_client lx) \<rparr>)
      base_config registry env w =
    ai_complete_streaming lx base_config registry env w"
  using ai_complete_confined [OF assms, of "llm_raw lx" other env base_config lx w]
  by (simp add: confined_llm_def)

section \<open>Guards are not seen by the model's calls\<close>

text \<open>
  The bridges hold the tools of the engine's own registry, which are the undecorated ones: the
  guards and bindings that a scoped engine wraps around a tool are not in the way of a call the
  model makes.
\<close>

lemma llm_bypasses_guards:
  assumes "registry_get registry name = Some t" "info_name (info t) = name"
    and "llm_visible env whitelist name" "llm_from_str lx args = Inr input"
    and "obj_get guards name = Some \<lparr> tg_rules = [Deny (Exists ''command'') ''no''], tg_default_action = DefaultDeny, tg_alias = al \<rparr>"
  shows "\<exists>b \<in> set (resolve_tools fresh now registry env whitelist).
      bridge_call lx b args w =
        (case invoke (llm_raw lx) t (respond (llm_fresh lx w name) (llm_now lx w) (respond (fresh name) now env JNull) input) w of
           (Inl e, w') \<Rightarrow> (Inl (RigToolCallError (show_ToolError e)), w')
         | (Inr out, w') \<Rightarrow> (Inr (llm_to_string lx (env_payload out)), w'))"
    and "\<exists>e. invoke (llm_raw lx) (wrap_tool guards name bindings t) env' w = (Inl e, w)"
proof -
  have "(name, t) \<in> set registry"
    using assms(1) by (simp add: registry_get_def obj_get_def map_of_SomeD)
  then have "\<lparr> br_inner = t, br_info = info t, br_parent_env = respond (fresh name) now env JNull \<rparr>
      \<in> set (resolve_tools fresh now registry env whitelist)"
    using assms(1-3) by (force simp: resolve_tools_def List.map_filter_def bridge_of_def registry_list_def)
  then show "\<exists>b \<in> set (resolve_tools fresh now registry env whitelist). bridge_call lx b args w =
        (case invoke (llm_raw lx) t (respond (llm_fresh lx w name) (llm_now lx w) (respond (fresh name) now env JNull) input) w of
           (Inl e, w') \<Rightarrow> (Inl (RigToolCallError (show_ToolError e)), w')
         | (Inr out, w') \<Rightarrow> (Inr (llm_to_string lx (env_payload out)), w'))"
    using assms(2,4) by (auto simp: bridge_call_def intro!: bexI)
  show "\<exists>e. invoke (llm_raw lx) (wrap_tool guards name bindings t) env' w = (Inl e, w)"
    using assms(5) by (simp add: wrap_tool_def wrap_guard_def)
qed

section \<open>A run with one tool call\<close>

definition demo_tool :: Tool where
  "demo_tool = RawTool \<lparr> info_name = ''echo'', info_description = [], info_input_schema = JNull,
     info_output_schema = None, info_capabilities = [], info_supports_streaming = False,
     info_annotations = \<lparr> read_only = True, destructive = False, idempotent = True, open_world = False \<rparr> \<rparr>"

definition demo_registry :: ToolRegistry where
  "demo_registry = register demo_tool []"

text \<open>The model calls \<open>echo\<close> first and answers when it sees the result; the world counts tool calls.\<close>

definition demo_llm :: "nat Llm" where
  "demo_llm =
     \<lparr> llm_raw = (\<lambda>i e w. (Inr e, Suc w)),
       llm_client = (\<lambda>p req w. (Inr (if cr_history req = []
           then \<lparr> cr_choice = [AToolCall \<lparr> tc_id = ''1'', tc_call_id = None, tc_name = ''echo'', tc_arguments = JNull \<rparr>],
                  cr_message_id = None \<rparr>
           else \<lparr> cr_choice = [AText ''done''], cr_message_id = None \<rparr>), w)),
       llm_provider_error = (\<lambda>e. e), llm_to_string = (\<lambda>j. ''{}''), llm_from_str = (\<lambda>s. Inr JNull),
       llm_show_tool_error = (\<lambda>e. ''error''), llm_empty_list = ''empty'', llm_now = (\<lambda>w. 0),
       llm_fresh = (\<lambda>w s. 7), llm_elapsed_ms = (\<lambda>a b. 1), llm_try_send = (\<lambda>ev w. w) \<rparr>"

definition demo_ai_env :: "json Envelope" where
  "demo_ai_env = for_tool_dispatch 1 0 ''ai:complete'' (JObject [(''prompt'', JString ''hi'')]) [''echo''] 1 ''ns'' ''a'' ''s''"

lemma demo_registry_named: "registry_named demo_registry"
  by (simp add: demo_registry_def registry_named_def register_def)

lemma demo_bridges:
  "resolve_tools fresh now demo_registry demo_ai_env None =
     [\<lparr> br_inner = demo_tool, br_info = info demo_tool, br_parent_env = respond (fresh ''echo'') now demo_ai_env JNull \<rparr>]"
  by (simp add: resolve_tools_def demo_registry_def register_def registry_list_def demo_tool_def bridge_of_def
      registry_get_def obj_get_def llm_visible_def demo_ai_env_def for_tool_dispatch_def check_tool_access_def
      List.map_filter_def CapSet_patterns_def CapSet_from_patterns_def CapSet_check_access_def
      Capability_matches_def strip_suffix_def suffix_def)

lemma demo_input:
  "tool_whitelist (env_payload demo_ai_env) = None"
  "merge_config LlmConfig_default (env_payload demo_ai_env) = LlmConfig_default"
  "parse_prior_messages (env_payload demo_ai_env) = []"
  "Option.bind (json_get (env_payload demo_ai_env) ''system'') as_str = None"
  "Option.bind (json_get (env_payload demo_ai_env) ''prompt'') as_str = Some ''hi''"
  by (simp_all add: tool_whitelist_def demo_ai_env_def for_tool_dispatch_def obj_get_def merge_config_def set_if_def
      parse_prior_messages_def)

lemma demo_run:
  "\<exists>out. ai_complete_streaming demo_llm LlmConfig_default demo_registry demo_ai_env 0 = (Inr out, 1)"
proof -
  have "\<exists>r. react_loop demo_llm LlmConfig_default None [] ''hi''
      [\<lparr> br_inner = demo_tool, br_info = info demo_tool, br_parent_env = pe \<rparr>] node_id 0 = (Inr r, 1)" for pe node_id
    by (simp add: react_loop_def LlmConfig_default_def initial_messages_def demo_llm_def call_completion_def
        completion_request_def dispatch_call_def call_text_def tool_map_def obj_of_list_def obj_get_def
        bridge_call_def demo_tool_def enumerate_eq_zip numeral_eq_Suc)
  then show ?thesis
    by (auto simp: ai_complete_streaming_def Let_def demo_input demo_bridges split: prod.split sum.split)
       (metis Inl_Inr_False Pair_inject)+
qed

theorem llm_tool_calls_are_granted_witness:
  "\<exists>out. ai_complete_streaming
      (demo_llm\<lparr> llm_raw := granted_raw (\<lambda>i e w. (Inr e, w + 100)) demo_ai_env None (llm_raw demo_llm) \<rparr>)
      LlmConfig_default demo_registry demo_ai_env 0 = (Inr out, 1)"
  using llm_tool_calls_are_granted [OF demo_registry_named, where lx = demo_llm and env = demo_ai_env and base_config = LlmConfig_default and w = 0] demo_run
  by (simp add: demo_input)

theorem llm_requests_well_formed_witness:
  "\<exists>out. ai_complete_streaming
      (demo_llm\<lparr> llm_client := proper_client (\<lambda>p req w. (Inl ''refused'', w)) demo_ai_env None
        [UserMsg [UText ''hi'']] 10 (llm_client demo_llm) \<rparr>)
      LlmConfig_default demo_registry demo_ai_env 0 = (Inr out, 1)"
proof -
  have "llm_max_iterations LlmConfig_default = 10" by (simp add: LlmConfig_default_def)
  then show ?thesis
    using llm_requests_well_formed [OF demo_registry_named, where lx = demo_llm and env = demo_ai_env and base_config = LlmConfig_default and w = 0] demo_run
    by (simp add: demo_input initial_messages_def)
qed

end
