(* ===== verification/Config.thy ===== *)
theory Config
  imports Scope Tool_Guard Workflow_IR Dispatcher
begin

text \<open>
  Platform and product configuration, \<^verbatim>\<open>konf-init/src/config.rs\<close>, and the two string routines
  that read it in \<^verbatim>\<open>konf-init/src/lib.rs\<close>: \<open>parse_db_url\<close> and \<open>interpolate_env_vars\<close>. What
  \<^verbatim>\<open>figment\<close> and \<^verbatim>\<open>serde_yaml\<close> make of the files is a parameter where a file is read; environment
  variables are a function from names to values.
\<close>

section \<open>Platform configuration\<close>

record DatabaseConfig =
  db_url :: string
  db_retention_days :: u32

definition default_retention_days :: u32 where
  "default_retention_days = 7"

record JournalConfig =
  jc_sweep_interval_secs :: u64
  jc_subscribe_buffer :: nat

definition JournalConfig_default :: JournalConfig where
  "JournalConfig_default = \<lparr> jc_sweep_interval_secs = 3600, jc_subscribe_buffer = 256 \<rparr>"

record AuthConfig =
  auth_supabase_url :: string
  auth_jwt_audience :: string
  auth_jwks_cache_ttl_secs :: u64

definition AuthConfig_default :: AuthConfig where
  "AuthConfig_default =
     \<lparr> auth_supabase_url = ''http://localhost:9999'', auth_jwt_audience = ''authenticated'',
       auth_jwks_cache_ttl_secs = 600 \<rparr>"

record ServerConfig =
  srv_host :: string
  srv_port :: "16 word"
  srv_cors_origins :: "string list"

definition ServerConfig_default :: ServerConfig where
  "ServerConfig_default = \<lparr> srv_host = ''0.0.0.0'', srv_port = 8000, srv_cors_origins = [] \<rparr>"

record PlatformConfig =
  pc_database :: "DatabaseConfig option"
  pc_auth :: AuthConfig
  pc_server :: ServerConfig
  pc_engine :: EngineConfig
  pc_runtime :: ResourceLimits
  pc_journal :: JournalConfig
  pc_mcp_enabled :: bool
  pc_config_dir :: string

definition PlatformConfig_default :: PlatformConfig where
  "PlatformConfig_default =
     \<lparr> pc_database = None, pc_auth = AuthConfig_default, pc_server = ServerConfig_default,
       pc_engine = EngineConfig_default, pc_runtime = ResourceLimits_default,
       pc_journal = JournalConfig_default, pc_mcp_enabled = False, pc_config_dir = ''./config'' \<rparr>"

definition PlatformConfig_validate :: "PlatformConfig \<Rightarrow> string list + unit" where
  "PlatformConfig_validate config =
     (let errors =
            (case EngineConfig_validate (pc_engine config) of Inl e \<Rightarrow> [''engine: '' @ e] | Inr _ \<Rightarrow> []) @
            (case ResourceLimits_validate (pc_runtime config) of Inl e \<Rightarrow> [''runtime: '' @ e] | Inr _ \<Rightarrow> []) @
            (if srv_port (pc_server config) = 0 then [''server.port must be > 0''] else [])
      in if errors = [] then Inr () else Inl errors)"

section \<open>Product configuration\<close>

record TriggerConfig =
  tr_workflow :: string
  tr_capabilities :: "string list"

record ProjectConfig =
  pj_name :: string
  pj_description :: "string option"
  pj_version :: string
  pj_triggers :: "TriggerConfig smap"

definition default_version :: string where
  "default_version = ''0.1.0''"

record ToolGuardConfig =
  tgc_rules :: "Rule list"
  tgc_default :: DefaultAction
  tgc_alias :: "string option"

definition ToolGuardConfig_default :: ToolGuardConfig where
  "ToolGuardConfig_default = \<lparr> tgc_rules = [], tgc_default = DefaultAction_default, tgc_alias = None \<rparr>"

record RoleConfig =
  rc_capabilities :: "string list"
  rc_namespace_suffix :: "string option"
  rc_limits :: "ResourceLimits option"

record ShellConfig =
  shc_container :: string
  shc_timeout_ms :: u64

definition default_shell_timeout_ms :: u64 where
  "default_shell_timeout_ms = 30000"

record MemoryConfig =
  mem_backend :: string
  mem_config :: json

record ToolsConfig =
  tlc_memory :: "MemoryConfig option"
  tlc_llm :: "json option"
  tlc_http :: "json option"
  tlc_embed :: "json option"
  tlc_mcp_servers :: "json option"
  tlc_shell :: "ShellConfig option"
  tlc_secret :: "string list option"

definition ToolsConfig_default :: ToolsConfig where
  "ToolsConfig_default =
     \<lparr> tlc_memory = None, tlc_llm = None, tlc_http = None, tlc_embed = None, tlc_mcp_servers = None,
       tlc_shell = None, tlc_secret = None \<rparr>"

record ProductConfig =
  prc_tools :: ToolsConfig
  prc_workflows :: "string list"
  prc_prompts :: "string list"
  prc_tool_guards :: "ToolGuardConfig smap"
  prc_roles :: "RoleConfig smap"

definition ProductConfig_default :: ProductConfig where
  "ProductConfig_default =
     \<lparr> prc_tools = ToolsConfig_default, prc_workflows = [], prc_prompts = [], prc_tool_guards = [],
       prc_roles = [] \<rparr>"

section \<open>Reading the files\<close>

definition parse_db_url :: "string \<Rightarrow> string + string" where
  "parse_db_url url =
     (let path_str =
            (case strip_prefix url ''redb://'' of
               Some rest \<Rightarrow> rest
             | None \<Rightarrow> (case strip_prefix url ''file://'' of Some rest \<Rightarrow> rest | None \<Rightarrow> url))
      in if path_str = [] then Inl (''empty database path in URL: '' @ url) else Inr path_str)"

definition var_value :: "(string \<Rightarrow> string option) \<Rightarrow> string \<Rightarrow> string" where
  "var_value env inner =
     (let (var_name, default_val) =
            (case find_str inner '':-'' of
               Some pos \<Rightarrow> (take pos inner, Some (drop (pos + 2) inner))
             | None \<Rightarrow> (inner, None))
      in case env var_name of
           Some val \<Rightarrow> val
         | None \<Rightarrow> (case default_val of Some d \<Rightarrow> d | None \<Rightarrow> []))"

text \<open>
  The loop over the characters. The inner loop takes everything up to a closing brace; without
  one it consumes the rest of the input, which is emitted literally.
\<close>

lemma length_after_brace: "length (tl (dropWhile P (tl xs))) \<le> length xs"
  using length_dropWhile_le [of P "tl xs"] by (simp add: le_diff_conv)

function interpolate_env_vars :: "(string \<Rightarrow> string option) \<Rightarrow> string \<Rightarrow> string" where
  "interpolate_env_vars env [] = []"
| "interpolate_env_vars env (ch # chars) =
     (if ch = CHR ''$'' \<and> chars \<noteq> [] \<and> hd chars = CHR ''{'' then
        (let inner = takeWhile (\<lambda>c. c \<noteq> CHR ''}'') (tl chars);
             rest = dropWhile (\<lambda>c. c \<noteq> CHR ''}'') (tl chars)
         in if rest = [] then ''${'' @ inner
            else var_value env inner @ interpolate_env_vars env (tl rest))
      else ch # interpolate_env_vars env chars)"
  by pat_completeness auto
termination
  using length_after_brace by (relation "measure (\<lambda>(env, s). length s)") (auto simp: less_Suc_eq_le)

section \<open>Properties\<close>

lemma PlatformConfig_default_valid: "PlatformConfig_validate PlatformConfig_default = Inr ()"
  by (simp add: PlatformConfig_validate_def PlatformConfig_default_def EngineConfig_validate_def
      EngineConfig_default_def ResourceLimits_validate_def ResourceLimits_default_def ServerConfig_default_def)

text \<open>Every failing section is reported, in the order of the checks.\<close>

lemma PlatformConfig_validate_ok:
  "PlatformConfig_validate config = Inr () \<longleftrightarrow>
     EngineConfig_validate (pc_engine config) = Inr () \<and> ResourceLimits_validate (pc_runtime config) = Inr () \<and>
     srv_port (pc_server config) \<noteq> 0"
  by (auto simp: PlatformConfig_validate_def Let_def split: sum.splits)

lemma parse_db_url_forms:
  assumes "p \<noteq> []"
  shows "parse_db_url (''redb://'' @ p) = Inr p" "parse_db_url (''file://'' @ p) = Inr p"
  using assms by (simp_all add: parse_db_url_def strip_prefix_def)

lemma parse_db_url_nonempty: "parse_db_url url = Inr p \<Longrightarrow> p \<noteq> []"
  by (auto simp: parse_db_url_def Let_def split: if_splits)

text \<open>The documented forms of a configuration text: literal text, \<open>${VAR}\<close> and \<open>${VAR:-default}\<close>.\<close>

datatype segment = Lit string | Var string "string option"

fun seg_text :: "segment \<Rightarrow> string" where
  "seg_text (Lit s) = s"
| "seg_text (Var n d) = ''${'' @ n @ (case d of Some v \<Rightarrow> '':-'' @ v | None \<Rightarrow> []) @ ''}''"

fun seg_value :: "(string \<Rightarrow> string option) \<Rightarrow> segment \<Rightarrow> string" where
  "seg_value env (Lit s) = s"
| "seg_value env (Var n d) =
     (case env n of Some v \<Rightarrow> v | None \<Rightarrow> (case d of Some v \<Rightarrow> v | None \<Rightarrow> []))"

fun seg_ok :: "segment \<Rightarrow> bool" where
  "seg_ok (Lit s) = (\<not> sublist ''${'' s \<and> \<not> suffix ''$'' s)"
| "seg_ok (Var n d) = (CHR ''}'' \<notin> set n \<and> \<not> sublist '':-'' n \<and> (case d of Some v \<Rightarrow> CHR ''}'' \<notin> set v | None \<Rightarrow> True))"

lemma find_colon_dash: "\<not> sublist '':-'' n \<Longrightarrow> find_str (n @ '':-'' @ v) '':-'' = Some (length n)"
proof (induction n)
  case (Cons c cs)
  have "\<not> prefix '':-'' (c # cs @ '':-'' @ v)"
    using Cons.prems by (cases cs) (auto simp: sublist_Cons_right)
  then show ?case using Cons by (auto simp: sublist_Cons_right)
qed simp

lemma find_colon_dash_None: "\<not> sublist '':-'' n \<Longrightarrow> find_str n '':-'' = None"
  using contains_str_iff [of n "'':-''"] by (simp add: contains_str_def)

lemma var_value_name: "\<not> sublist '':-'' n \<Longrightarrow> var_value env n = seg_value env (Var n None)"
  by (simp add: var_value_def find_colon_dash_None)

lemma var_value_default: "\<not> sublist '':-'' n \<Longrightarrow> var_value env (n @ '':-'' @ v) = seg_value env (Var n (Some v))"
  by (simp add: var_value_def find_colon_dash del: append_Cons)

lemma interpolate_brace:
  assumes "CHR ''}'' \<notin> set inner"
  shows "interpolate_env_vars env (''${'' @ inner @ ''}'' @ t) = var_value env inner @ interpolate_env_vars env t"
proof -
  have "takeWhile (\<lambda>c. c \<noteq> CHR ''}'') (inner @ CHR ''}'' # t) = inner"
    "dropWhile (\<lambda>c. c \<noteq> CHR ''}'') (inner @ CHR ''}'' # t) = CHR ''}'' # t"
    using assms by (auto simp: takeWhile_append dropWhile_append)
  then show ?thesis by (simp add: Let_def)
qed

lemma interpolate_lit:
  "\<not> sublist ''${'' s \<Longrightarrow> \<not> suffix ''$'' s \<Longrightarrow> interpolate_env_vars env (s @ t) = s @ interpolate_env_vars env t"
proof (induction s)
  case (Cons c cs)
  have "\<not> sublist ''${'' cs" using Cons.prems(1) by (simp add: sublist_Cons_right)
  moreover have "\<not> suffix ''$'' cs" using Cons.prems(2) by (simp add: suffix_Cons)
  moreover have "\<not> (c = CHR ''$'' \<and> cs @ t \<noteq> [] \<and> hd (cs @ t) = CHR ''{'')"
    using Cons.prems by (cases cs) (auto simp: sublist_Cons_right)
  ultimately show ?case using Cons.IH by auto
qed simp

lemma interpolate_no_close: "CHR ''}'' \<notin> set s \<Longrightarrow> interpolate_env_vars env s = s"
proof (induction env s rule: interpolate_env_vars.induct)
  case (2 env ch chars)
  show ?case
  proof (cases "ch = CHR ''$'' \<and> chars \<noteq> [] \<and> hd chars = CHR ''{''")
    case True
    then obtain cs where cs: "chars = CHR ''{'' # cs" by (cases chars) auto
    then have "takeWhile (\<lambda>c. c \<noteq> CHR ''}'') cs = cs" "dropWhile (\<lambda>c. c \<noteq> CHR ''}'') cs = []"
      using "2.prems" by (auto simp: takeWhile_eq_all_conv)
    then show ?thesis using True cs by (simp add: Let_def)
  next
    case False
    then show ?thesis using 2 by auto
  qed
qed simp

lemma interpolate_segment:
  "seg_ok seg \<Longrightarrow> interpolate_env_vars env (seg_text seg @ t) = seg_value env seg @ interpolate_env_vars env t"
proof (induction env seg rule: seg_value.induct)
  case (1 env s)
  then show ?case by (simp add: interpolate_lit)
next
  case (2 env n d)
  then have "CHR ''}'' \<notin> set (n @ (case d of Some v \<Rightarrow> '':-'' @ v | None \<Rightarrow> []))"
    by (auto split: option.splits)
  then have "interpolate_env_vars env (seg_text (Var n d) @ t) =
      var_value env (n @ (case d of Some v \<Rightarrow> '':-'' @ v | None \<Rightarrow> [])) @ interpolate_env_vars env t"
    using interpolate_brace [of "n @ (case d of Some v \<Rightarrow> '':-'' @ v | None \<Rightarrow> [])" env t] by simp
  then show ?case
    using 2 var_value_name [of n env] var_value_default [of n env]
    by (cases d) (simp_all del: append_Cons append.simps)
qed

text \<open>
  Interpolation of a configuration text made of literal text, \<open>${VAR}\<close> and
  \<open>${VAR:-default}\<close> replaces every reference by the value of the variable, else by the default,
  else by nothing, and keeps all other text; the values put in are not interpolated again, and a
  tail in which no brace closes, an unclosed reference included, stays as it is.
\<close>

theorem interpolation_replaces_references:
  assumes "list_all seg_ok segs" "CHR ''}'' \<notin> set tail"
  shows "interpolate_env_vars env (concat (map seg_text segs) @ tail) = concat (map (seg_value env) segs) @ tail"
  using assms by (induction segs) (simp_all add: interpolate_segment interpolate_no_close)

definition var_env :: "string \<Rightarrow> string option" where
  "var_env n = (if n = ''HOST'' then Some ''${PORT}'' else None)"

theorem interpolation_replaces_references_witness:
  "interpolate_env_vars var_env ''http://${HOST}:${PORT:-80}/${X'' = ''http://${PORT}:80/${X''"
  using interpolation_replaces_references [where env = var_env and tail = "''/${X''" and
      segs = "[Lit ''http://'', Var ''HOST'' None, Lit '':'', Var ''PORT'' (Some ''80'')]"]
  by (simp add: var_env_def sublist_Cons_right suffix_Cons del: interpolate_env_vars.simps)

end
