(* ===== verification/Mcp_Client.thy ===== *)
theory Mcp_Client
  imports Engine Scope
begin

text \<open>
  The MCP client, \<^verbatim>\<open>konf-tool-mcp/src/lib.rs\<close>: servers are spawned as child processes, their
  tools are listed, filtered by the configured capability patterns and registered under
  \<open><server>:<tool>\<close>; a wrapper forwards calls. The \<^verbatim>\<open>rmcp\<close> client is the record \<open>McpOutside\<close>;
  \<open>'c\<close> is a connected client and \<open>'w\<close> the state of the world that processes act on.
\<close>

section \<open>Definitions\<close>

record McpServerConfig =
  ms_name :: string
  ms_transport :: string
  ms_command :: string
  ms_args :: "string list"
  ms_env :: "string smap"
  ms_capabilities :: "string list"
  ms_idle_timeout :: u64

definition default_transport :: string where
  "default_transport = ''stdio''"

definition default_idle_timeout :: u64 where
  "default_idle_timeout = 600"

text \<open>The parts of \<^verbatim>\<open>rmcp::model\<close> that the client reads.\<close>

record McpHints =
  mh_read_only :: "bool option"
  mh_destructive :: "bool option"
  mh_idempotent :: "bool option"
  mh_open_world :: "bool option"

record McpTool =
  mt_name :: string
  mt_description :: "string option"
  mt_input_schema :: jobject
  mt_annotations :: "McpHints option"

record McpResult =
  mr_content :: "json list"
  mr_is_error :: "bool option"

record ('c, 'w) McpOutside =
  mo_env_var :: "string \<Rightarrow> string option"
  mo_serve :: "string \<Rightarrow> string list \<Rightarrow> string smap \<Rightarrow> 'w \<Rightarrow> (string + 'c) \<times> 'w"
  mo_list_all_tools :: "'c \<Rightarrow> 'w \<Rightarrow> (string + McpTool list) \<times> 'w"
  mo_call_tool :: "'c \<Rightarrow> string \<Rightarrow> jobject option \<Rightarrow> 'w \<Rightarrow> (string + McpResult) \<times> 'w"
  mo_elapsed_ms :: "'w \<Rightarrow> 'w \<Rightarrow> u64"

definition resolve_env_var :: "(string \<Rightarrow> string option) \<Rightarrow> string \<Rightarrow> string" where
  "resolve_env_var env_var value =
     (case Option.bind (strip_prefix value ''${'') (\<lambda>s. strip_suffix s ''}'') of
        Some var_name \<Rightarrow> (case env_var var_name of Some v \<Rightarrow> v | None \<Rightarrow> [])
      | None \<Rightarrow> value)"

record 'c McpToolWrapper =
  mw_name :: string
  mw_description :: string
  mw_input_schema :: json
  mw_annotations :: ToolAnnotations
  mw_server_name :: string
  mw_tool_name :: string
  mw_client :: 'c

definition mcp_wrapper_info :: "'c McpToolWrapper \<Rightarrow> ToolInfo" where
  "mcp_wrapper_info t =
     \<lparr> info_name = mw_name t, info_description = mw_description t, info_input_schema = mw_input_schema t,
       info_output_schema = None, info_capabilities = [mw_name t], info_supports_streaming = False,
       info_annotations = mw_annotations t \<rparr>"

definition or_default :: "'a \<Rightarrow> 'a option \<Rightarrow> 'a" where
  "or_default d x = (case x of Some v \<Rightarrow> v | None \<Rightarrow> d)"

text \<open>\<open>ToolAnnotations::default()\<close> is \<open>false\<close> throughout.\<close>

definition annotations_of_hints :: "McpHints option \<Rightarrow> ToolAnnotations" where
  "annotations_of_hints hints =
     (case hints of
        Some ann \<Rightarrow>
          \<lparr> read_only = or_default False (mh_read_only ann), destructive = or_default False (mh_destructive ann),
            idempotent = or_default False (mh_idempotent ann), open_world = or_default True (mh_open_world ann) \<rparr>
      | None \<Rightarrow> \<lparr> read_only = False, destructive = False, idempotent = False, open_world = False \<rparr>)"

definition mcp_full_name :: "McpServerConfig \<Rightarrow> McpTool \<Rightarrow> string" where
  "mcp_full_name config tool = ms_name config @ '':'' @ mt_name tool"

definition mcp_tool_allowed :: "McpServerConfig \<Rightarrow> McpTool \<Rightarrow> bool" where
  "mcp_tool_allowed config tool =
     (ms_capabilities config = [] \<or>
      list_ex (\<lambda>cap. CapabilityGrant_matches (CapabilityGrant_new cap) (mcp_full_name config tool) \<noteq> None)
        (ms_capabilities config))"

definition mcp_wrapper :: "McpServerConfig \<Rightarrow> 'c \<Rightarrow> McpTool \<Rightarrow> 'c McpToolWrapper" where
  "mcp_wrapper config client tool =
     \<lparr> mw_name = mcp_full_name config tool, mw_description = or_default [] (mt_description tool),
       mw_input_schema = JObject (mt_input_schema tool), mw_annotations = annotations_of_hints (mt_annotations tool),
       mw_server_name = ms_name config, mw_tool_name = mt_name tool, mw_client = client \<rparr>"

text \<open>The registration loop, with the number of tools registered.\<close>

fun register_mcp_tools ::
  "McpServerConfig \<Rightarrow> 'c \<Rightarrow> McpTool list \<Rightarrow> nat \<Rightarrow> ('r, 'q) Engine \<Rightarrow> nat \<times> ('r, 'q) Engine" where
  "register_mcp_tools config client [] n eng = (n, eng)"
| "register_mcp_tools config client (tool # tools) n eng =
     (if \<not> mcp_tool_allowed config tool then register_mcp_tools config client tools n eng
      else register_mcp_tools config client tools (n + 1)
             (register_tool (RawTool (mcp_wrapper_info (mcp_wrapper config client tool))) eng))"

definition connect_and_register ::
  "('c, 'w) McpOutside \<Rightarrow> McpServerConfig \<Rightarrow> 'c list \<times> ('r, 'q) Engine \<Rightarrow> 'w \<Rightarrow>
   (string + nat) \<times> ('c list \<times> ('r, 'q) Engine) \<times> 'w" where
  "connect_and_register mo config st w =
     (if ms_transport config \<noteq> ''stdio''
      then (Inl (''MCP server '' @ quoted (ms_name config) @ '': only '' @ quoted ''stdio''
                 @ '' transport is supported, got '' @ quoted (ms_transport config)), st, w)
      else
        (case mo_serve mo (ms_command config) (ms_args config)
                (map (\<lambda>(k, v). (k, resolve_env_var (mo_env_var mo) v)) (ms_env config)) w of
           (Inl e, w1) \<Rightarrow> (Inl e, st, w1)
         | (Inr client, w1) \<Rightarrow>
             (case mo_list_all_tools mo client w1 of
                (Inl e, w2) \<Rightarrow> (Inl e, st, w2)
              | (Inr tools, w2) \<Rightarrow>
                  (case register_mcp_tools config client tools 0 (snd st) of
                     (n, eng) \<Rightarrow> (Inr n, (fst st @ [client], eng), w2)))))"

text \<open>A server that cannot be reached is skipped.\<close>

fun discover_and_register ::
  "('c, 'w) McpOutside \<Rightarrow> McpServerConfig list \<Rightarrow> 'c list \<times> ('r, 'q) Engine \<Rightarrow> 'w \<Rightarrow>
   ('c list \<times> ('r, 'q) Engine) \<times> 'w" where
  "discover_and_register mo [] st w = (st, w)"
| "discover_and_register mo (config # configs) st w =
     (case connect_and_register mo config st w of
        (r, st', w') \<Rightarrow> discover_and_register mo configs st' w')"

text \<open>\<open>from_value\<close> is the deserialisation of a list of server configurations.\<close>

definition mcp_register ::
  "('c, 'w) McpOutside \<Rightarrow> (json \<Rightarrow> string + McpServerConfig list) \<Rightarrow> json \<Rightarrow> ('r, 'q) Engine \<Rightarrow> 'w \<Rightarrow>
   (string + unit) \<times> ('c list \<times> ('r, 'q) Engine) \<times> 'w" where
  "mcp_register mo from_value config eng w =
     (case from_value (or_default (JArray []) (json_get config ''mcp_servers'')) of
        Inl e \<Rightarrow> (Inl e, ([], eng), w)
      | Inr servers \<Rightarrow>
          if servers = [] then (Inr (), ([], eng), w)
          else (case discover_and_register mo servers ([], eng) w of (st, w') \<Rightarrow> (Inr (), st, w')))"

definition mcp_wrapper_invoke ::
  "('c, 'w) McpOutside \<Rightarrow> 'c McpToolWrapper \<Rightarrow> uuid \<Rightarrow> datetime \<Rightarrow> json Envelope \<Rightarrow> 'w \<Rightarrow>
   (ToolError + json Envelope) \<times> 'w" where
  "mcp_wrapper_invoke mo t fresh now env w =
     (let arguments = (case as_object (env_payload env) of
                         Some obj \<Rightarrow> if obj \<noteq> [] then Some obj else None
                       | None \<Rightarrow> None)
      in case mo_call_tool mo (mw_client t) (mw_tool_name t) arguments w of
           (Inl e, w') \<Rightarrow> (Inl (ExecutionFailed (''MCP tool '' @ quoted (mw_name t) @ '' failed: '' @ e) True), w')
         | (Inr result, w') \<Rightarrow>
             (Inr (respond fresh now env (JObject (obj_of_list
                [(''content'', JArray (mr_content result)),
                 (''is_error'', JBool (or_default False (mr_is_error result))),
                 (''_meta'', JObject (obj_of_list
                    [(''tool'', JString (mw_name t)), (''server'', JString (mw_server_name t)),
                     (''duration_ms'', JNumber (PosInt (mo_elapsed_ms mo w w')))]))]))), w'))"

section \<open>Lemmas\<close>

text \<open>
  What an operation may do to a registry: \<open>tools_within P reg reg'\<close> when every name keeps its tool
  or now has one that satisfies \<open>P\<close>.
\<close>

definition tools_within :: "(string \<Rightarrow> Tool \<Rightarrow> bool) \<Rightarrow> ToolRegistry \<Rightarrow> ToolRegistry \<Rightarrow> bool" where
  "tools_within P reg reg' \<longleftrightarrow>
     (\<forall>name. registry_get reg' name = registry_get reg name \<or>
             (\<exists>t. registry_get reg' name = Some t \<and> P name t))"

lemma tools_within_refl [simp]: "tools_within P reg reg"
  by (simp add: tools_within_def)

lemma tools_within_trans [trans]: "tools_within P a b \<Longrightarrow> tools_within P b c \<Longrightarrow> tools_within P a c"
  unfolding tools_within_def by metis

lemma tools_within_register:
  "P (info_name (info tool)) tool \<Longrightarrow> tools_within P (eng_tools eng) (eng_tools (register_tool tool eng))"
  by (simp add: tools_within_def register_tool_lookup)

lemma tools_within_mono: "tools_within P a b \<Longrightarrow> (\<And>n t. P n t \<Longrightarrow> Q n t) \<Longrightarrow> tools_within Q a b"
  unfolding tools_within_def by blast

text \<open>A tool that a configured server provides under its own prefix, within its filter.\<close>

definition mcp_provided :: "McpServerConfig list \<Rightarrow> string \<Rightarrow> Tool \<Rightarrow> bool" where
  "mcp_provided configs name t \<longleftrightarrow>
     (\<exists>config \<in> set configs. \<exists>tool.
        ms_transport config = ''stdio'' \<and> name = mcp_full_name config tool \<and> mcp_tool_allowed config tool \<and>
        t = RawTool (mcp_wrapper_info (mcp_wrapper config () tool)))"

lemma mcp_wrapper_name [simp]: "info_name (mcp_wrapper_info (mcp_wrapper config client tool)) = mcp_full_name config tool"
  by (simp add: mcp_wrapper_info_def mcp_wrapper_def)

lemma mcp_wrapper_client: "mcp_wrapper_info (mcp_wrapper config client tool) = mcp_wrapper_info (mcp_wrapper config () tool)"
  by (simp add: mcp_wrapper_info_def mcp_wrapper_def)

lemma register_mcp_tools_within:
  assumes "ms_transport config = ''stdio''"
  shows "tools_within (mcp_provided [config]) (eng_tools eng) (eng_tools (snd (register_mcp_tools config (client :: 'c) tools n eng)))"
proof (induction tools arbitrary: n eng)
  case (Cons tool tools)
  let ?t = "RawTool (mcp_wrapper_info (mcp_wrapper config client tool))"
  show ?case
  proof (cases "mcp_tool_allowed config tool")
    case True
    then have "mcp_provided [config] (info_name (info ?t)) ?t"
      using assms mcp_wrapper_client [of config client tool] by (auto simp: mcp_provided_def)
    then have "tools_within (mcp_provided [config]) (eng_tools eng) (eng_tools (register_tool ?t eng))"
      by (rule tools_within_register)
    from tools_within_trans [OF this Cons.IH [of "register_tool ?t eng" "Suc n"]] show ?thesis
      using True by simp
  qed (simp add: Cons.IH)
qed simp

lemma connect_within:
  "connect_and_register mo config st w = (r, st', w') \<Longrightarrow>
     tools_within (mcp_provided [config]) (eng_tools (snd st)) (eng_tools (snd st'))"
  by (auto simp: connect_and_register_def split: if_splits prod.splits sum.splits)
    (metis register_mcp_tools_within snd_conv)

lemma discover_within:
  "discover_and_register mo configs st w = (st', w') \<Longrightarrow>
     tools_within (mcp_provided configs) (eng_tools (snd st)) (eng_tools (snd st'))"
proof (induction configs arbitrary: st w)
  case (Cons config configs)
  obtain r st1 w1 where 1: "connect_and_register mo config st w = (r, st1, w1)"
    by (cases "connect_and_register mo config st w") auto
  have "tools_within (mcp_provided (config # configs)) (eng_tools (snd st)) (eng_tools (snd st1))"
    by (rule tools_within_mono [OF connect_within [OF 1]]) (auto simp: mcp_provided_def)
  moreover have "tools_within (mcp_provided (config # configs)) (eng_tools (snd st1)) (eng_tools (snd st'))"
    using Cons.prems 1 by (intro tools_within_mono [OF Cons.IH]) (auto simp: mcp_provided_def)
  ultimately show ?case by (rule tools_within_trans)
qed simp

text \<open>
  \<open>register\<close> reads the list of servers under the key \<open>mcp_servers\<close> of the value it is given:
  given the list itself it finds no server and registers nothing.
\<close>

lemma mcp_register_list_ignored:
  assumes "from_value (JArray []) = Inr []"
  shows "mcp_register mo from_value (JArray servers) eng w = (Inr (), ([], eng), w)"
  using assms by (simp add: mcp_register_def or_default_def)

section \<open>Properties\<close>

text \<open>
  Whatever the MCP servers of a configuration answer, registering their tools changes the
  registry only at names \<open><server>:<tool>\<close> of configured stdio servers whose capability filter
  lets the tool through, and puts there a wrapper of that tool that requires exactly its own name
  as capability; all other tools stay as they were.
\<close>

theorem mcp_registration_confined:
  assumes "mcp_register mo from_value config eng w = (r, (clients, eng'), w')"
  shows "\<exists>configs. (r = Inr () \<longrightarrow> from_value (or_default (JArray []) (json_get config ''mcp_servers'')) = Inr configs) \<and>
           (\<forall>name. registry_get (eng_tools eng') name = registry_get (eng_tools eng) name \<or>
             (\<exists>t server tool. registry_get (eng_tools eng') name = Some t \<and> server \<in> set configs \<and>
                ms_transport server = ''stdio'' \<and> name = ms_name server @ '':'' @ mt_name tool \<and>
                mcp_tool_allowed server tool \<and> info_name (info t) = name \<and> info_capabilities (info t) = [name]))"
proof (cases "from_value (or_default (JArray []) (json_get config ''mcp_servers''))")
  case (Inl e)
  then show ?thesis using assms by (auto simp: mcp_register_def)
next
  case (Inr configs)
  have "tools_within (mcp_provided configs) (eng_tools eng) (eng_tools eng')"
    using assms Inr discover_within [of mo configs "([], eng)" w]
    by (auto simp: mcp_register_def split: if_splits prod.splits)
  then show ?thesis
    using Inr unfolding tools_within_def mcp_provided_def
    by (intro exI [of _ configs]) (fastforce simp: mcp_wrapper_info_def mcp_wrapper_def mcp_full_name_def)
qed

definition demo_server :: McpServerConfig where
  "demo_server =
     \<lparr> ms_name = ''git'', ms_transport = ''stdio'', ms_command = ''git-mcp'', ms_args = [], ms_env = [],
       ms_capabilities = [''git:read''], ms_idle_timeout = 600 \<rparr>"

definition demo_mcp :: "(unit, unit) McpOutside" where
  "demo_mcp =
     \<lparr> mo_env_var = (\<lambda>_. None), mo_serve = (\<lambda>_ _ _ w. (Inr (), w)),
       mo_list_all_tools = (\<lambda>_ w. (Inr
         [\<lparr> mt_name = ''read'', mt_description = None, mt_input_schema = [], mt_annotations = None \<rparr>,
          \<lparr> mt_name = ''push'', mt_description = None, mt_input_schema = [], mt_annotations = None \<rparr>], w)),
       mo_call_tool = (\<lambda>_ _ _ w. (Inl ''closed'', w)), mo_elapsed_ms = (\<lambda>_ _. 0) \<rparr>"

definition demo_servers :: "json \<Rightarrow> string + McpServerConfig list" where
  "demo_servers j = (if j = JArray [JNull] then Inr [demo_server] else Inr [])"

lemma demo_discovery:
  "\<exists>eng'. mcp_register demo_mcp demo_servers (JObject [(''mcp_servers'', JArray [JNull])]) (Engine_new :: (unit, unit) Engine) ()
     = (Inr (), ([()], eng'), ()) \<and> map fst (eng_tools eng') = [''git:read'']"
  by (simp add: mcp_register_def demo_servers_def demo_mcp_def demo_server_def connect_and_register_def obj_get_def
      or_default_def mcp_tool_allowed_def mcp_full_name_def CapabilityGrant_matches_def CapabilityGrant_new_def
      Capability_matches_def register_tool_def register_def mcp_wrapper_info_def mcp_wrapper_def Engine_new_def
      Engine_with_config_def strip_suffix_def suffix_to_prefix)

theorem mcp_registration_confined_witness:
  "\<exists>(eng' :: (unit, unit) Engine) configs.
     mcp_register demo_mcp demo_servers (JObject [(''mcp_servers'', JArray [JNull])]) Engine_new () = (Inr (), ([()], eng'), ()) \<and>
     map fst (eng_tools eng') = [''git:read''] \<and>
     (\<forall>name. registry_get (eng_tools eng') name = registry_get (eng_tools (Engine_new :: (unit, unit) Engine)) name \<or>
             (\<exists>t server tool. registry_get (eng_tools eng') name = Some t \<and> server \<in> set configs \<and>
                ms_transport server = ''stdio'' \<and> name = ms_name server @ '':'' @ mt_name tool \<and>
                mcp_tool_allowed server tool \<and> info_name (info t) = name \<and> info_capabilities (info t) = [name]))"
proof -
  note demo = someI_ex [OF demo_discovery]
  show ?thesis
    using mcp_registration_confined [OF conjunct1 [OF demo]] demo by (elim exE conjE) (intro exI conjI)
qed

end
