(* ===== verification/Boot.thy ===== *)
theory Boot
  imports Config Mcp_Client Ai_Complete Tool_Catalog Scheduler Runner Journal_Store
begin

text \<open>
  Booting the platform and reloading its configuration, \<^verbatim>\<open>konf-init/src/lib.rs\<close>, with the
  registration functions of the tool crates.

  The configuration directory is the record \<open>ConfigDir\<close>: what its files contain or how reading
  them fails, \<open>None\<close> for a file that does not exist. Parsers of files and values
  (\<^verbatim>\<open>figment\<close>, \<^verbatim>\<open>serde_yaml\<close>, \<^verbatim>\<open>serde_json\<close>), the connection to a memory backend, loading the
  embedding model and opening the database are the record \<open>BootOutside\<close>. An error is its text.
  A cloned engine shares its registries, so the engine of the boot and of the runtime are one.
\<close>

section \<open>Outside\<close>

datatype dir_entry = BadEntry string | DirFile string "string + string"

record ConfigDir =
  cd_path :: string
  cd_tools_yaml :: "(string + string) option"
  cd_konf_toml_exists :: bool
  cd_workflows :: "(string + dir_entry list) option"
  cd_schedules :: "(string + string) option"

record CronEntry =
  ce_name :: string
  ce_workflow :: string
  ce_cron :: string
  ce_namespace :: string
  ce_capabilities :: "string list"
  ce_input :: json

definition default_input :: json where
  "default_input = JObject []"

text \<open>What opening the storage gives: journal, scheduler tables and runner intents of one file.\<close>

record 'j KonfStorage =
  st_journal :: 'j
  st_timers :: RedbScheduler
  st_runner_intents :: RunnerIntentStore
  st_retention :: u32

record ('c, 'j, 's, 'w) BootOutside =
  bo_features :: "string list"
  bo_load_platform :: "string \<Rightarrow> string + PlatformConfig"
  bo_product_from_yaml :: "string \<Rightarrow> string + ProductConfig"
  bo_workflow_from_yaml :: "string \<Rightarrow> string + WorkflowSchema"
  bo_cron_entries :: "string \<Rightarrow> string + CronEntry list"
  bo_env_var :: "string \<Rightarrow> string option"
  bo_memory_connect :: "string \<Rightarrow> json \<Rightarrow> 'w \<Rightarrow> (string + string list) \<times> 'w"
  bo_llm_config :: "json \<Rightarrow> string + LlmConfig"
  bo_embed_model :: "'w \<Rightarrow> (string + unit) \<times> 'w"
  bo_mcp :: "('c, 'w) McpOutside"
  bo_mcp_servers :: "json \<Rightarrow> string + McpServerConfig list"
  bo_open_storage :: "string \<Rightarrow> u32 \<Rightarrow> 'w \<Rightarrow> (string + 'j KonfStorage) \<times> 'w"
  bo_connect_journal :: "json \<Rightarrow> 'w \<Rightarrow> (string + 's) \<times> 'w"
  bo_reconcile :: "'j \<Rightarrow> (JournalError + u64) \<times> 'j"
  bo_init_scheduler :: "SchedulerError option"
  bo_show_uuid :: "uuid \<Rightarrow> string"

section \<open>Registration of tools\<close>

definition register_infos :: "ToolInfo list \<Rightarrow> ('r, 'q) Engine \<Rightarrow> ('r, 'q) Engine" where
  "register_infos infos eng = fold (\<lambda>i. register_tool (RawTool i)) infos eng"

definition memory_register :: "string list \<Rightarrow> ('r, 'q) Engine \<Rightarrow> ('r, 'q) Engine" where
  "memory_register modes = register_infos (memory_infos modes)"

definition http_register :: "('r, 'q) Engine \<Rightarrow> ('r, 'q) Engine" where
  "http_register = register_infos http_infos"

definition llm_register :: "(json \<Rightarrow> string + LlmConfig) \<Rightarrow> json \<Rightarrow> ('r, 'q) Engine \<Rightarrow> string + ('r, 'q) Engine" where
  "llm_register from_value config eng =
     rbind (from_value config) (\<lambda>llm_config. Inr (register_infos [AiCompleteTool_info] eng))"

definition embed_register :: "('w \<Rightarrow> (string + unit) \<times> 'w) \<Rightarrow> ('r, 'q) Engine \<Rightarrow> 'w \<Rightarrow> ('r, 'q) Engine \<times> 'w" where
  "embed_register load_model eng w =
     (case load_model w of
        (Inr _, w') \<Rightarrow> (register_infos [EmbedTool_info] eng, w')
      | (Inl e, w') \<Rightarrow> (eng, w'))"

definition secret_register :: "string list \<Rightarrow> ('r, 'q) Engine \<Rightarrow> ('r, 'q) Engine" where
  "secret_register allowed_keys = register_infos secret_infos"

definition runner_register :: "('r, 'q) Engine \<Rightarrow> ('r, 'q) Engine" where
  "runner_register = register_infos runner_infos"

definition memory_backends :: "string list" where
  "memory_backends = [''surreal'', ''smrti'']"

fun join_comma :: "string list \<Rightarrow> string" where
  "join_comma [] = []"
| "join_comma [s] = s"
| "join_comma (s # ss) = s @ '', '' @ join_comma ss"

definition unknown_backend :: "string list \<Rightarrow> string \<Rightarrow> string" where
  "unknown_backend features other =
     (let available = List.filter (\<lambda>b. b \<in> set features) memory_backends in
      ''Unknown memory backend: '' @ quoted other @
      (if available = []
       then ''. No memory backends are compiled in. Build with `--features memory-surreal` or add a backend crate.''
       else ''. Available: '' @ join_comma available))"

definition register_memory ::
  "('c, 'j, 's, 'w) BootOutside \<Rightarrow> MemoryConfig option \<Rightarrow> ('r, 'q) Engine \<times> 'w \<Rightarrow> string + ('r, 'q) Engine \<times> 'w" where
  "register_memory bo memory st =
     (case memory of
        None \<Rightarrow> Inr st
      | Some mc \<Rightarrow>
          if mem_backend mc \<in> set memory_backends \<and> mem_backend mc \<in> set (bo_features bo)
          then (case bo_memory_connect bo (mem_backend mc) (mem_config mc) (snd st) of
                  (Inl e, w) \<Rightarrow> Inl e
                | (Inr modes, w) \<Rightarrow> Inr (memory_register modes (fst st), w))
          else Inl (unknown_backend (bo_features bo) (mem_backend mc)))"

definition register_tools ::
  "('c, 'j, 's, 'w) BootOutside \<Rightarrow> ToolsConfig \<Rightarrow> ('r, 'q) Engine \<times> 'w \<Rightarrow> string + ('r, 'q) Engine \<times> 'w" where
  "register_tools bo tools st =
     rbind (register_memory bo (tlc_memory tools) st) (\<lambda>(eng, w).
     rbind (case tlc_llm tools of
              Some llm_config \<Rightarrow> llm_register (bo_llm_config bo) llm_config (http_register eng)
            | None \<Rightarrow> Inr (http_register eng)) (\<lambda>eng.
     let (eng, w) = (case tlc_embed tools of
                       Some embed_config \<Rightarrow> embed_register (bo_embed_model bo) eng w
                     | None \<Rightarrow> (eng, w))
     in case tlc_mcp_servers tools of
          Some mcp_config \<Rightarrow>
            (case mcp_register (bo_mcp bo) (bo_mcp_servers bo) mcp_config eng w of
               (Inl e, st, w) \<Rightarrow> Inl e
             | (Inr _, (clients, eng), w) \<Rightarrow> Inr (eng, w))
        | None \<Rightarrow> Inr (eng, w)))"

definition architect_tools :: "ToolsConfig \<Rightarrow> ('r, 'q) Engine \<Rightarrow> ('r, 'q) Engine" where
  "architect_tools tools eng =
     (let eng1 = (case tlc_shell tools of Some sc \<Rightarrow> register_infos [ShellExecTool_info] eng | None \<Rightarrow> eng);
          eng2 = register_infos [IntrospectTool_info, ValidateWorkflowTool_info] eng1
      in case tlc_secret tools of Some keys \<Rightarrow> secret_register keys eng2 | None \<Rightarrow> eng2)"

section \<open>Resources\<close>

datatype ResourceError = ResourceNotFound string | ReadFailed string

text \<open>A file resource is its metadata with the path of the file.\<close>

type_synonym FileResource = "ResourceInfo \<times> string"

definition FileResource_read :: "(string \<Rightarrow> string + string) \<Rightarrow> FileResource \<Rightarrow> ResourceError + json" where
  "FileResource_read read_to_string r =
     map_ok JString (map_err (\<lambda>e. ReadFailed (snd r @ '': '' @ e)) (read_to_string (snd r)))"

definition join_path :: "string \<Rightarrow> string \<Rightarrow> string" where
  "join_path dir file = dir @ ''/'' @ file"

definition tools_yaml_resource :: "string \<Rightarrow> FileResource" where
  "tools_yaml_resource config_dir =
     (\<lparr> res_uri = ''konf://config/tools.yaml'', res_name = ''Tools Configuration'',
        res_description = ''Product tool and backend configuration'', res_mime_type = ''application/yaml'' \<rparr>,
      join_path config_dir ''tools.yaml'')"

definition konf_toml_resource :: "string \<Rightarrow> FileResource" where
  "konf_toml_resource config_dir =
     (\<lparr> res_uri = ''konf://config/konf.toml'', res_name = ''Platform Configuration'',
        res_description = ''Platform server, auth, and engine settings'', res_mime_type = ''application/toml'' \<rparr>,
      join_path config_dir ''konf.toml'')"

definition register_resources :: "ConfigDir \<Rightarrow> (string, 'q) Engine \<Rightarrow> (string, 'q) Engine" where
  "register_resources cd eng =
     (let eng1 = (if cd_tools_yaml cd \<noteq> None then register_resource (tools_yaml_resource (cd_path cd)) eng else eng)
      in if cd_konf_toml_exists cd then register_resource (konf_toml_resource (cd_path cd)) eng1 else eng1)"

section \<open>Workflows\<close>

text \<open>\<open>Path::extension\<close> of a file name: what follows the last dot that is not its first character.\<close>

definition path_extension :: "string \<Rightarrow> string option" where
  "path_extension name =
     (if name = ''..'' then None
      else case rfind_str name ''.'' of
             Some i \<Rightarrow> if i = 0 then None else Some (drop (i + 1) name)
           | None \<Rightarrow> None)"

definition is_yaml_file :: "string \<Rightarrow> bool" where
  "is_yaml_file name = (path_extension name \<in> {Some ''yaml'', Some ''yml''})"

definition workflow_resource :: "string \<Rightarrow> string \<Rightarrow> Workflow \<Rightarrow> FileResource" where
  "workflow_resource dir file_name wfl =
     (\<lparr> res_uri = ''konf://workflows/'' @ file_name, res_name = ''Workflow: '' @ wf_id wfl,
        res_description = (case wf_description wfl of Some d \<Rightarrow> d | None \<Rightarrow> []),
        res_mime_type = ''application/yaml'' \<rparr>, join_path dir file_name)"

definition WorkflowTool_new :: "Workflow \<Rightarrow> Tool" where
  "WorkflowTool_new wfl = RawTool (workflow_tool_info wfl)"

text \<open>The body of the loop for one readable YAML file.\<close>

definition register_workflow_file ::
  "(string \<Rightarrow> string + WorkflowSchema) \<Rightarrow> string \<Rightarrow> string \<Rightarrow> string \<Rightarrow> (string, 'q) Engine \<Rightarrow> (string, 'q) Engine" where
  "register_workflow_file from_yaml dir file_name yaml eng =
     (case engine_parse_yaml from_yaml eng yaml of
        Inl e \<Rightarrow> eng
      | Inr wfl \<Rightarrow>
          (let eng1 = register_resource (workflow_resource dir file_name wfl) eng
           in if wf_register_as_tool wfl then register_tool (WorkflowTool_new wfl) eng1 else eng1))"

fun register_workflow_entries ::
  "(string \<Rightarrow> string + WorkflowSchema) \<Rightarrow> string \<Rightarrow> dir_entry list \<Rightarrow> (string, 'q) Engine \<Rightarrow>
   (string + unit) \<times> (string, 'q) Engine" where
  "register_workflow_entries from_yaml dir [] eng = (Inr (), eng)"
| "register_workflow_entries from_yaml dir (BadEntry e # entries) eng = (Inl e, eng)"
| "register_workflow_entries from_yaml dir (DirFile file_name contents # entries) eng =
     (if \<not> is_yaml_file file_name then register_workflow_entries from_yaml dir entries eng
      else (case contents of
              Inl e \<Rightarrow> (Inl (''Failed to read '' @ join_path dir file_name @ '': '' @ e), eng)
            | Inr yaml \<Rightarrow>
                register_workflow_entries from_yaml dir entries
                  (register_workflow_file from_yaml dir file_name yaml eng)))"

definition register_workflows ::
  "(string \<Rightarrow> string + WorkflowSchema) \<Rightarrow> string \<Rightarrow> string + dir_entry list \<Rightarrow> (string, 'q) Engine \<Rightarrow>
   (string + unit) \<times> (string, 'q) Engine" where
  "register_workflows from_yaml dir read_dir eng =
     (case read_dir of
        Inl e \<Rightarrow> (Inl (''Failed to read workflows directory: '' @ e), eng)
      | Inr entries \<Rightarrow> register_workflow_entries from_yaml dir entries eng)"

definition guard_entry :: "ToolGuardConfig \<Rightarrow> ToolGuardEntry" where
  "guard_entry cfg = \<lparr> tg_rules = tgc_rules cfg, tg_default_action = tgc_default cfg, tg_alias = tgc_alias cfg \<rparr>"

definition apply_tool_guards :: "ProductConfig \<Rightarrow> ('r, 'q, 'j) Runtime \<Rightarrow> ('r, 'q, 'j) Runtime" where
  "apply_tool_guards product_config rt =
     (if prc_tool_guards product_config = [] then rt
      else set_tool_guards (map (\<lambda>(name, cfg). (name, guard_entry cfg)) (prc_tool_guards product_config)) rt)"

section \<open>Reload\<close>

definition workflow_tool_names :: "ToolRegistry \<Rightarrow> string list" where
  "workflow_tool_names reg =
     map info_name (List.filter (\<lambda>i. starts_with (info_name i) ''workflow:'') (registry_list reg))"

definition remove_tools :: "string list \<Rightarrow> ('r, 'q) Engine \<Rightarrow> ('r, 'q) Engine" where
  "remove_tools names eng = fold (\<lambda>name e. snd (remove_tool name e)) names eng"

definition reload_guards ::
  "(string \<Rightarrow> string + ProductConfig) \<Rightarrow> (string \<Rightarrow> string option) \<Rightarrow> (string + string) option \<Rightarrow>
   ('r, 'q, 'j) Runtime \<Rightarrow> ('r, 'q, 'j) Runtime" where
  "reload_guards from_yaml env_var tools_yaml rt =
     (case tools_yaml of
        Some (Inr contents) \<Rightarrow>
          (case from_yaml (interpolate_env_vars env_var contents) of
             Inr product_config \<Rightarrow> apply_tool_guards product_config rt
           | Inl e \<Rightarrow> rt)
      | _ \<Rightarrow> rt)"

definition config_reload_invoke ::
  "('c, 'k, 's, 'w) BootOutside \<Rightarrow> ConfigDir \<Rightarrow> uuid \<Rightarrow> datetime \<Rightarrow> json Envelope \<Rightarrow> (string, 'q, 'j) Runtime \<Rightarrow>
   (ToolError + json Envelope) \<times> (string, 'q, 'j) Runtime" where
  "config_reload_invoke bo cd fresh now env rt =
     (case cd_workflows cd of
        None \<Rightarrow>
          (Inr (respond fresh now env (JObject (obj_of_list
             [(''reloaded'', JBool True), (''workflows_loaded'', nat_json 0),
              (''message'', JString ''No workflows directory found'')]))), rt)
      | Some read_dir \<Rightarrow>
          (let names = workflow_tool_names (eng_tools (rt_engine rt));
               eng1 = remove_tools names (rt_engine rt)
           in case register_workflows (bo_workflow_from_yaml bo) (join_path (cd_path cd) ''workflows'') read_dir eng1 of
                (Inl e, eng2) \<Rightarrow>
                  (Inl (ExecutionFailed (''Config reload failed: '' @ e) True), rt\<lparr> rt_engine := eng2 \<rparr>)
              | (Inr _, eng2) \<Rightarrow>
                  (let rt1 = reload_guards (bo_product_from_yaml bo) (bo_env_var bo) (cd_tools_yaml cd)
                               (rt\<lparr> rt_engine := eng2 \<rparr>);
                       rt2 = rt1\<lparr> rt_engine := notify_tools_changed (rt_engine rt1) \<rparr>
                   in (Inr (respond fresh now env (JObject (obj_of_list
                         [(''reloaded'', JBool True), (''workflows_removed'', nat_json (length names)),
                          (''workflows_registered'', nat_json (length (workflow_tool_names (eng_tools eng2)))),
                          (''total_tools'', nat_json (length (eng_tools eng2)))]))), rt2))))"

section \<open>Schedules\<close>

definition cron_key :: "JobSummary \<Rightarrow> (string \<times> string \<times> string) option" where
  "cron_key s = (case js_mode s of TimerCron expr \<Rightarrow> Some (js_workflow s, expr, js_namespace s) | _ \<Rightarrow> None)"

definition entry_key :: "CronEntry \<Rightarrow> string \<times> string \<times> string" where
  "entry_key entry = (ce_workflow entry, ce_cron entry, ce_namespace entry)"

definition cron_record :: "uuid \<Rightarrow> datetime \<Rightarrow> CronEntry \<Rightarrow> TimerRecord" where
  "cron_record fresh now entry =
     \<lparr> tm_job_id = fresh, tm_workflow = ce_workflow entry, tm_input = ce_input entry,
       tm_namespace = ce_namespace entry, tm_capabilities = ce_capabilities entry,
       tm_actor = \<lparr> actor_id = ''schedules.yaml'', actor_role = System \<rparr>,
       tm_mode = TimerCron (ce_cron entry), tm_created_at = now,
       tm_created_by = ''schedules.yaml:'' @ ce_name entry \<rparr>"

text \<open>The surroundings of the durable stores at boot: codecs, clocks, fresh ids, failing transactions.\<close>

record DurableEnv =
  du_timer_codec :: timer_codec
  du_cron :: cron
  du_now :: datetime
  du_list_fault :: "SchedulerError option"
  du_job :: "nat \<Rightarrow> uuid \<times> datetime \<times> SchedulerError option"
  du_intent_codec :: intent_codec
  du_intents_fault :: "IntentError option"
  du_replay_faults :: "RunnerIntent \<Rightarrow> IntentError option \<times> IntentError option \<times> IntentError option"
  du_replay_ids :: "RunnerIntent \<Rightarrow> uuid \<times> uuid"

text \<open>The loop over the entries; the \<open>i\<close>-th uses the \<open>i\<close>-th job id. A failing entry is only logged.\<close>

fun schedule_entries ::
  "DurableEnv \<Rightarrow> (string \<times> string \<times> string) set \<Rightarrow> nat \<Rightarrow> CronEntry list \<Rightarrow> RedbScheduler \<Rightarrow> RedbScheduler" where
  "schedule_entries de existing_keys i [] s = s"
| "schedule_entries de existing_keys i (entry # entries) s =
     (if entry_key entry \<in> existing_keys then schedule_entries de existing_keys (Suc i) entries s
      else (case du_job de i of
              (fresh, now, fault) \<Rightarrow>
                schedule_entries de existing_keys (Suc i) entries
                  (snd (schedule_cron (du_timer_codec de) (du_cron de) fault now (cron_record fresh now entry)
                          (ce_cron entry) s))))"

definition register_schedules ::
  "DurableEnv \<Rightarrow> (string \<Rightarrow> string + CronEntry list) \<Rightarrow> string \<Rightarrow> string + string \<Rightarrow> RedbScheduler \<Rightarrow>
   (uuid \<Rightarrow> string) \<Rightarrow> (string + unit) \<times> RedbScheduler" where
  "register_schedules de from_yaml path contents s show_uuid =
     (case contents of
        Inl e \<Rightarrow> (Inl (''failed to read '' @ path @ '': '' @ e), s)
      | Inr yaml \<Rightarrow>
          (case from_yaml yaml of
             Inl e \<Rightarrow> (Inl (''failed to parse '' @ path @ '': '' @ e), s)
           | Inr entries \<Rightarrow>
               (case sched_list (du_timer_codec de) (du_list_fault de) (du_now de) None s of
                  Inl e \<Rightarrow> (Inl (''scheduler list: '' @ show_SchedulerError show_uuid e), s)
                | Inr existing \<Rightarrow>
                    (Inr (), schedule_entries de (set (List.map_filter cron_key existing)) 0 entries s))))"

section \<open>Boot\<close>

datatype ('j, 's) journal_wiring = PrimaryJournal 'j | FanoutJournal "('j, 's) Fanout"

fun wiring_primary :: "('j, 's) journal_wiring \<Rightarrow> 'j" where
  "wiring_primary (PrimaryJournal j) = j"
| "wiring_primary (FanoutJournal f) = fan_primary f"

fun map_wiring :: "('j \<Rightarrow> 'j) \<Rightarrow> ('j, 's) journal_wiring \<Rightarrow> ('j, 's) journal_wiring" where
  "map_wiring g (PrimaryJournal j) = PrimaryJournal (g j)"
| "map_wiring g (FanoutJournal f) = FanoutJournal (f\<lparr> fan_primary := g (fan_primary f) \<rparr>)"

definition wire_journal ::
  "('c, 'j, 's, 'w) BootOutside \<Rightarrow> 'j option \<Rightarrow> MemoryConfig option \<Rightarrow> 'w \<Rightarrow> ('j, 's) journal_wiring option \<times> 'w" where
  "wire_journal bo primary_journal memory w =
     (case (primary_journal, memory) of
        (Some primary, Some mc) \<Rightarrow>
          if mem_backend mc = ''surreal'' \<and> ''surreal'' \<in> set (bo_features bo)
          then (case bo_connect_journal bo (mem_config mc) w of
                  (Inr secondary, w') \<Rightarrow> (Some (FanoutJournal (fanout_new primary [secondary])), w')
                | (Inl e, w') \<Rightarrow> (Some (PrimaryJournal primary), w'))
          else (Some (PrimaryJournal primary), w)
      | _ \<Rightarrow> (map_option PrimaryJournal primary_journal, w))"

definition reconcile_wiring ::
  "('j \<Rightarrow> (JournalError + u64) \<times> 'j) \<Rightarrow> ('j, 's) journal_wiring \<Rightarrow> (JournalError + u64) \<times> ('j, 's) journal_wiring" where
  "reconcile_wiring reconcile jw =
     (case reconcile (wiring_primary jw) of (r, j) \<Rightarrow> (r, map_wiring (\<lambda>_. j) jw))"

text \<open>The replay of the intents that a previous process left unterminated.\<close>

fun replay_intents ::
  "DurableEnv \<Rightarrow> ToolRegistry \<Rightarrow> RunnerIntent list \<Rightarrow> InlineRunner \<Rightarrow> RunEvent list \<Rightarrow> InlineRunner \<times> RunEvent list" where
  "replay_intents de tools [] rn events = (rn, events)"
| "replay_intents de tools (x # xs) rn events =
     (case (du_replay_faults de x, du_replay_ids de x) of
        ((rflt, wflt, sflt), (fresh, trace)) \<Rightarrow>
          (case replay (du_intent_codec de) rflt wflt sflt (du_now de) fresh trace tools x rn of
             (Inr rid, rn') \<Rightarrow>
               replay_intents de tools xs rn'
                 (emit (IntentReplayed (ri_run_id x) (ri_workflow x) (ri_replay_count x + 1)) events)
           | (Inl e, rn') \<Rightarrow> replay_intents de tools xs rn' events))"

definition replay_unterminated ::
  "DurableEnv \<Rightarrow> ToolRegistry \<Rightarrow> InlineRunner \<Rightarrow> RunEvent list \<Rightarrow> InlineRunner \<times> RunEvent list" where
  "replay_unterminated de tools rn events =
     (case rn_intents rn of
        None \<Rightarrow> (rn, events)
      | Some s \<Rightarrow>
          (case list_unterminated (du_intent_codec de) (du_intents_fault de) (du_now de) s of
             Inl e \<Rightarrow> (rn, events)
           | Inr xs \<Rightarrow> replay_intents de tools xs rn events))"

record ('q, 'j, 's) KonfInstance =
  ki_runtime :: "(string, 'q, ('j, 's) journal_wiring) Runtime"
  ki_config :: PlatformConfig
  ki_product_config :: ProductConfig
  ki_runner :: InlineRunner
  ki_scheduler :: "RedbScheduler option"
  ki_sweeper :: "u64 option"

definition load_product ::
  "('c, 'j, 's, 'w) BootOutside \<Rightarrow> ConfigDir \<Rightarrow> string + ProductConfig" where
  "load_product bo cd =
     (case cd_tools_yaml cd of
        None \<Rightarrow> Inr ProductConfig_default
      | Some (Inl e) \<Rightarrow> Inl (''Failed to read tools.yaml: '' @ e)
      | Some (Inr contents) \<Rightarrow>
          map_err (\<lambda>e. ''Failed to parse tools.yaml: '' @ e)
            (bo_product_from_yaml bo (interpolate_env_vars (bo_env_var bo) contents)))"

definition open_storage ::
  "('c, 'j, 's, 'w) BootOutside \<Rightarrow> DatabaseConfig option \<Rightarrow> 'w \<Rightarrow> string + 'j KonfStorage option \<times> 'w" where
  "open_storage bo database w =
     (case database of
        None \<Rightarrow> Inr (None, w)
      | Some db \<Rightarrow>
          rbind (parse_db_url (db_url db)) (\<lambda>path.
          case bo_open_storage bo path (db_retention_days db) w of
            (Inl e, w') \<Rightarrow> Inl (''Failed to open storage at '' @ path @ '': '' @ e)
          | (Inr storage, w') \<Rightarrow> Inr (Some storage, w')))"

text \<open>Steps 4 to 7: the engine before the runtime exists.\<close>

definition boot_engine ::
  "('c, 'j, 's, 'w) BootOutside \<Rightarrow> ConfigDir \<Rightarrow> PlatformConfig \<Rightarrow> ProductConfig \<Rightarrow> 'w \<Rightarrow>
   string + (string, 'q) Engine \<times> 'w" where
  "boot_engine bo cd config product_config w =
     rbind (register_tools bo (prc_tools product_config)
              (register_infos builtin_infos (Engine_with_config (pc_engine config)), w)) (\<lambda>(eng, w).
     Inr (register_resources cd (architect_tools (prc_tools product_config) eng), w))"

definition system_tools :: "(string, 'q) Engine \<Rightarrow> (string, 'q) Engine" where
  "system_tools eng =
     runner_register (register_infos [ConfigReloadTool_info, ScheduleTool_info, CancelScheduleTool_info] eng)"

definition boot_schedules ::
  "DurableEnv \<Rightarrow> ('c, 'j, 's, 'w) BootOutside \<Rightarrow> ConfigDir \<Rightarrow> RedbScheduler option \<Rightarrow> string + RedbScheduler option" where
  "boot_schedules de bo cd scheduler =
     (case (cd_schedules cd, scheduler) of
        (Some contents, Some s) \<Rightarrow>
          (case register_schedules de (bo_cron_entries bo) (join_path (cd_path cd) ''schedules.yaml'') contents s
                  (bo_show_uuid bo) of
             (Inl e, s') \<Rightarrow> Inl e
           | (Inr _, s') \<Rightarrow> Inr (Some s'))
      | _ \<Rightarrow> Inr scheduler)"

definition boot_workflows ::
  "('c, 'j, 's, 'w) BootOutside \<Rightarrow> ConfigDir \<Rightarrow> (string, 'q) Engine \<Rightarrow> string + (string, 'q) Engine" where
  "boot_workflows bo cd eng =
     (case cd_workflows cd of
        None \<Rightarrow> Inr eng
      | Some read_dir \<Rightarrow>
          (case register_workflows (bo_workflow_from_yaml bo) (join_path (cd_path cd) ''workflows'') read_dir eng of
             (Inl e, eng') \<Rightarrow> Inl e
           | (Inr _, eng') \<Rightarrow> Inr eng'))"

text \<open>Steps 9b to 11: what runs on the runtime's engine.\<close>

definition boot_runtime ::
  "DurableEnv \<Rightarrow> ('c, 'j, 's, 'w) BootOutside \<Rightarrow> ConfigDir \<Rightarrow> PlatformConfig \<Rightarrow> ProductConfig \<Rightarrow> 'j KonfStorage option \<Rightarrow>
   (string, 'q, ('j, 's) journal_wiring) Runtime \<Rightarrow> string + ('q, 'j, 's) KonfInstance" where
  "boot_runtime de bo cd config product_config storage rt =
     (let eng1 = system_tools (rt_engine rt);
          runner = InlineRunner_new (map_option st_runner_intents storage)
      in rbind (boot_workflows bo cd eng1) (\<lambda>eng2.
         let rt1 = apply_tool_guards product_config (rt\<lparr> rt_engine := eng2 \<rparr>);
             (runner1, events) = replay_unterminated de (eng_tools eng2) runner (rt_events rt1)
         in rbind (boot_schedules de bo cd (map_option st_timers storage)) (\<lambda>scheduler.
            Inr \<lparr> ki_runtime = rt1\<lparr> rt_events := events \<rparr>, ki_config = config,
                  ki_product_config = product_config, ki_runner = runner1, ki_scheduler = scheduler,
                  ki_sweeper =
                    (if jc_sweep_interval_secs (pc_journal config) > 0 \<and> storage \<noteq> None
                     then Some (jc_sweep_interval_secs (pc_journal config)) else None) \<rparr>)))"

definition boot ::
  "DurableEnv \<Rightarrow> ('c, 'j, 's, 'w) BootOutside \<Rightarrow> ConfigDir \<Rightarrow> 'w \<Rightarrow> string + ('q, 'j, 's) KonfInstance" where
  "boot de bo cd w =
     rbind (map_err (\<lambda>e. ''Failed to load platform config: '' @ e) (bo_load_platform bo (cd_path cd))) (\<lambda>config.
     rbind (map_err (\<lambda>errors. ''Config validation failed with '' @ show_nat (length errors) @ '' errors'')
              (PlatformConfig_validate config)) (\<lambda>_.
     rbind (load_product bo cd) (\<lambda>product_config.
     rbind (boot_engine bo cd config product_config w) (\<lambda>(eng, w).
     rbind (open_storage bo (pc_database config) w) (\<lambda>(storage, w).
     let (journal, w) = wire_journal bo (map_option st_journal storage) (tlc_memory (prc_tools product_config)) w in
     rbind (map_err (\<lambda>e. ''Failed to initialize runtime: '' @ show_RuntimeError (bo_show_uuid bo) e)
              (Runtime_with_limits (reconcile_wiring (bo_reconcile bo)) eng journal)) (\<lambda>rt.
     rbind (case (storage, bo_init_scheduler bo) of
              (Some s, Some e) \<Rightarrow> Inl (''Failed to initialize scheduler: '' @ show_SchedulerError (bo_show_uuid bo) e)
            | _ \<Rightarrow> Inr ()) (\<lambda>_.
     boot_runtime de bo cd config product_config storage rt)))))))"

end
