(* ===== verification/Boot_Props.thy ===== *)
theory Boot_Props
  imports Boot Runner_Props Builtin_Tools
begin

text \<open>
  Properties of boot and reload: which tools a booted platform has and whose they are, that a
  reload replaces exactly the workflow tools, that registering the schedules again adds nothing,
  and that the unterminated intents of a previous process are respawned.
\<close>

section \<open>Registries\<close>

lemma register_infos_lookup:
  "registry_get (eng_tools (register_infos infos eng)) name =
     (case find (\<lambda>i. info_name i = name) (rev infos) of
        Some i \<Rightarrow> Some (RawTool i) | None \<Rightarrow> registry_get (eng_tools eng) name)"
proof (induction infos arbitrary: eng rule: rev_induct)
  case (snoc i infos)
  then show ?case by (auto simp: register_infos_def register_tool_lookup)
qed (simp add: register_infos_def)

lemma find_own:
  "distinct (map info_name infos) \<Longrightarrow> i \<in> set infos \<Longrightarrow> find (\<lambda>j. info_name j = info_name i) (rev infos) = Some i"
proof (induction infos rule: rev_induct)
  case (snoc x infos)
  then show ?case by (auto simp: image_iff)
qed simp

lemma register_infos_own:
  "distinct (map info_name infos) \<Longrightarrow> i \<in> set infos \<Longrightarrow>
     registry_get (eng_tools (register_infos infos eng)) (info_name i) = Some (RawTool i)"
  by (simp add: register_infos_lookup find_own)

lemma find_rev_set: "find P (rev xs) = Some x \<Longrightarrow> x \<in> set xs \<and> P x"
  by (metis find_Some_iff nth_mem set_rev)

lemma register_infos_other:
  "name \<notin> info_name ` set infos \<Longrightarrow>
     registry_get (eng_tools (register_infos infos eng)) name = registry_get (eng_tools eng) name"
  by (auto simp: register_infos_lookup split: option.split dest: find_rev_set)

lemma register_infos_contains:
  "registry_contains (eng_tools (register_infos infos eng)) name \<longleftrightarrow>
     name \<in> info_name ` set infos \<or> registry_contains (eng_tools eng) name"
  by (auto simp: registry_contains_def registry_get_def [symmetric] register_infos_lookup find_None_iff
      split: option.split dest: find_rev_set)

lemma remove_tools_lookup:
  "registry_get (eng_tools (remove_tools names eng)) name =
     (if name \<in> set names then None else registry_get (eng_tools eng) name)"
  by (induction names arbitrary: eng) (auto simp: remove_tools_def remove_tool_def registry.lookup_del)

lemma remove_tools_rest:
  "eng_config (remove_tools names eng) = eng_config eng \<and> eng_tool_changed (remove_tools names eng) = eng_tool_changed eng \<and>
   eng_resources (remove_tools names eng) = eng_resources eng"
  by (induction names arbitrary: eng) (auto simp: remove_tools_def remove_tool_def)

lemma registry_named_remove: "registry_named reg \<Longrightarrow> registry_named (snd (registry_remove name reg))"
  by (auto simp: registry_named_def registry_remove_def list_all_iff)

lemma registry_named_remove_tools: "registry_named (eng_tools eng) \<Longrightarrow> registry_named (eng_tools (remove_tools names eng))"
  by (induction names arbitrary: eng) (auto simp: remove_tools_def remove_tool_def registry_named_remove)

lemma registry_named_register_tool: "registry_named (eng_tools eng) \<Longrightarrow> registry_named (eng_tools (register_tool t eng))"
  by (simp add: register_tool_def registry_named_register)

lemma registry_named_infos: "registry_named (eng_tools eng) \<Longrightarrow> registry_named (eng_tools (register_infos infos eng))"
  by (induction infos arbitrary: eng) (auto simp: register_infos_def registry_named_register_tool)

lemma workflow_tool_names_set:
  assumes "registry_named reg"
  shows "name \<in> set (workflow_tool_names reg) \<longleftrightarrow> starts_with name ''workflow:'' \<and> registry_get reg name \<noteq> None"
proof -
  have "map info_name (registry_list reg) = map fst reg"
    using assms by (auto simp: registry_list_def registry_named_def list_all_iff)
  then have "set (map info_name (registry_list reg)) = set (map fst reg)" by simp
  then have "info_name ` set (registry_list reg) = fst ` set reg" by simp
  moreover have "registry_get reg name \<noteq> None \<longleftrightarrow> name \<in> fst ` set reg"
    by (auto simp: registry_get_def obj_get_def map_of_eq_None_iff)
  moreover have "set (workflow_tool_names reg) = {n \<in> info_name ` set (registry_list reg). starts_with n ''workflow:''}"
    by (auto simp: workflow_tool_names_def)
  ultimately show ?thesis by auto
qed

section \<open>Workflows from files\<close>

definition file_tool :: "(string \<Rightarrow> string + WorkflowSchema) \<Rightarrow> (string, 'q) Engine \<Rightarrow> dir_entry \<Rightarrow> Workflow option" where
  "file_tool from_yaml eng entry =
     (case entry of
        DirFile file_name (Inr yaml) \<Rightarrow>
          if is_yaml_file file_name
          then (case engine_parse_yaml from_yaml eng yaml of
                  Inr wfl \<Rightarrow> if wf_register_as_tool wfl then Some wfl else None
                | Inl e \<Rightarrow> None)
          else None
      | _ \<Rightarrow> None)"

text \<open>The workflow that ends up under a tool name: that of the last file that declares it.\<close>

definition last_tool ::
  "(string \<Rightarrow> string + WorkflowSchema) \<Rightarrow> (string, 'q) Engine \<Rightarrow> dir_entry list \<Rightarrow> string \<Rightarrow> Workflow option" where
  "last_tool from_yaml eng entries name =
     find (\<lambda>wfl. workflow_tool_name (wf_id wfl) = name) (rev (List.map_filter (file_tool from_yaml eng) entries))"

lemma engine_parse_config: "eng_config e = eng_config e' \<Longrightarrow> engine_parse_yaml from_yaml e = engine_parse_yaml from_yaml e'"
  by (simp add: engine_parse_yaml_def fun_eq_iff)

lemma last_tool_config:
  assumes "eng_config e = eng_config e'"
  shows "last_tool from_yaml e = last_tool from_yaml e'"
proof -
  have "file_tool from_yaml e = file_tool from_yaml e'"
    unfolding file_tool_def [abs_def] engine_parse_config [OF assms] ..
  then show ?thesis unfolding last_tool_def [abs_def] by simp
qed

lemma register_workflow_file_parts:
  "eng_config (register_workflow_file from_yaml dir f yaml eng) = eng_config eng \<and>
   eng_tool_changed (register_workflow_file from_yaml dir f yaml eng) = eng_tool_changed eng \<and>
   (registry_named (eng_tools eng) \<longrightarrow> registry_named (eng_tools (register_workflow_file from_yaml dir f yaml eng)))"
  by (simp add: register_workflow_file_def register_resource_def register_tool_def registry_named_register Let_def
      split: sum.split)

lemma register_workflow_file_lookup:
  assumes "is_yaml_file f"
  shows "registry_get (eng_tools (register_workflow_file from_yaml dir f yaml eng)) name =
    (case file_tool from_yaml eng (DirFile f (Inr yaml)) of
       Some wfl \<Rightarrow> if workflow_tool_name (wf_id wfl) = name then Some (WorkflowTool_new wfl)
                   else registry_get (eng_tools eng) name
     | None \<Rightarrow> registry_get (eng_tools eng) name)"
  using assms
  by (auto simp: register_workflow_file_def file_tool_def register_resource_def register_tool_lookup
      WorkflowTool_new_def workflow_tool_info_def Let_def split: sum.split)

lemma find_append: "find P (xs @ ys) = (case find P xs of Some x \<Rightarrow> Some x | None \<Rightarrow> find P ys)"
  by (induction xs) auto

lemma last_tool_Cons:
  "last_tool from_yaml eng (en # entries) name =
     (case last_tool from_yaml eng entries name of
        Some wfl \<Rightarrow> Some wfl
      | None \<Rightarrow> (case file_tool from_yaml eng en of
                   Some wfl \<Rightarrow> if workflow_tool_name (wf_id wfl) = name then Some wfl else None
                 | None \<Rightarrow> None))"
  by (auto simp: last_tool_def List.map_filter_simps find_append split: option.split)

lemma register_entries_ok:
  "register_workflow_entries from_yaml dir entries eng = (Inr (), eng') \<Longrightarrow>
     (\<forall>name. registry_get (eng_tools eng') name =
        (case last_tool from_yaml eng entries name of
           Some wfl \<Rightarrow> Some (WorkflowTool_new wfl) | None \<Rightarrow> registry_get (eng_tools eng) name)) \<and>
     eng_config eng' = eng_config eng \<and> eng_tool_changed eng' = eng_tool_changed eng \<and>
     (registry_named (eng_tools eng) \<longrightarrow> registry_named (eng_tools eng'))"
proof (induction from_yaml dir entries eng rule: register_workflow_entries.induct)
  case (1 from_yaml dir eng)
  then show ?case by (simp add: last_tool_def List.map_filter_simps)
next
  case (2 from_yaml dir e entries eng)
  then show ?case by simp
next
  case (3 from_yaml dir f contents entries eng)
  show ?case
  proof (cases "is_yaml_file f")
    case False
    then have "file_tool from_yaml eng (DirFile f contents) = None"
      by (simp add: file_tool_def split: sum.split)
    with 3 False show ?thesis by (auto simp: last_tool_Cons split: option.split)
  next
    case True
    with "3.prems" obtain yaml where c: "contents = Inr yaml"
      by (cases contents) auto
    let ?e = "register_workflow_file from_yaml dir f yaml eng"
    have cfg: "eng_config ?e = eng_config eng" by (simp add: register_workflow_file_parts)
    from 3 True c register_workflow_file_parts [of from_yaml dir f yaml eng] show ?thesis
      by (auto simp: last_tool_Cons last_tool_config [OF cfg] register_workflow_file_lookup [OF True] split: option.split)
  qed
qed

lemma last_tool_name: "last_tool from_yaml eng entries name = Some wfl \<Longrightarrow> starts_with name ''workflow:''"
  by (auto simp: last_tool_def find_Some_iff workflow_tool_name_def simp del: append_Cons append.simps
      intro: starts_with_append)

section \<open>Reload\<close>

lemma apply_tool_guards_rest:
  "rt_engine (apply_tool_guards pc rt) = rt_engine rt \<and> rt_table (apply_tool_guards pc rt) = rt_table rt \<and>
   rt_tasks (apply_tool_guards pc rt) = rt_tasks rt \<and> rt_events (apply_tool_guards pc rt) = rt_events rt"
  by (simp add: apply_tool_guards_def set_tool_guards_def)

lemma reload_guards_rest:
  "rt_engine (reload_guards fy ev ty rt) = rt_engine rt \<and> rt_table (reload_guards fy ev ty rt) = rt_table rt \<and>
   rt_tasks (reload_guards fy ev ty rt) = rt_tasks rt"
  by (auto simp: reload_guards_def apply_tool_guards_rest split: option.split sum.split)

lemma cleared_lookup:
  "registry_named (eng_tools eng) \<Longrightarrow>
     registry_get (eng_tools (remove_tools (workflow_tool_names (eng_tools eng)) eng)) name =
       (if starts_with name ''workflow:'' then None else registry_get (eng_tools eng) name)"
  by (auto simp: remove_tools_lookup workflow_tool_names_set)


text \<open>A reload that fails has already removed the workflow tools.\<close>

lemma failed_reload_drops_workflows:
  assumes "registry_named (eng_tools (rt_engine rt))" "cd_workflows cd = Some (Inl e)"
  shows "\<exists>err rt'. config_reload_invoke bo cd fresh now env rt = (Inl err, rt') \<and>
    (\<forall>name. starts_with name ''workflow:'' \<longrightarrow> registry_get (eng_tools (rt_engine rt')) name = None)"
  using assms by (auto simp: config_reload_invoke_def register_workflows_def Let_def cleared_lookup)

text \<open>Guards that were removed from the configuration stay in force after a reload.\<close>

lemma reload_keeps_removed_guards:
  assumes "bo_product_from_yaml bo (interpolate_env_vars (bo_env_var bo) contents) = Inr pc" "prc_tool_guards pc = []"
  shows "reload_guards (bo_product_from_yaml bo) (bo_env_var bo) (Some (Inr contents)) rt = rt"
  using assms by (simp add: reload_guards_def apply_tool_guards_def)

section \<open>Replay at boot\<close>

text \<open>A run that is in the registry of the runner and about to start.\<close>

definition respawned :: "ToolRegistry \<Rightarrow> RunnerIntent \<Rightarrow> InlineRunner \<Rightarrow> bool" where
  "respawned tools x rn \<longleftrightarrow>
     (\<exists>rec task. reg_record (ri_run_id x) (rn_registry rn) = Some rec \<and> rr_workflow rec = ri_workflow x \<and>
        rr_state rec = RsPending \<and> task \<in> set (rn_tasks rn) \<and> rk_run_id task = ri_run_id x \<and>
        registry_get tools (workflow_tool_name (ri_workflow x)) = Some (rk_tool task) \<and>
        env_payload (rk_env task) = ri_input x \<and> env_namespace (rk_env task) = ri_namespace x \<and>
        CapSet_patterns (env_capabilities (rk_env task)) = ri_capabilities x)"

definition replayable :: "ToolRegistry \<Rightarrow> RunnerIntent \<Rightarrow> bool" where
  "replayable tools x \<longleftrightarrow>
     ri_replay_count x < 10 \<and> registry_get tools (workflow_tool_name (ri_workflow x)) \<noteq> None"

lemma spawn_envelope_intent:
  "env_payload (spawn_envelope fresh now (spec_of_intent trace x)) = ri_input x"
  "env_namespace (spawn_envelope fresh now (spec_of_intent trace x)) = ri_namespace x"
  "CapSet_patterns (env_capabilities (spawn_envelope fresh now (spec_of_intent trace x))) = ri_capabilities x"
  by (simp_all add: spawn_envelope_def Let_def for_tool_dispatch_def spec_of_intent_def scope_of_intent_def
      capability_patterns_def CapabilityGrant_new_def comp_def CapSet_patterns_def CapSet_from_patterns_def)

lemma spawn_respawns:
  assumes "registry_get tools (workflow_tool_name (ri_workflow x)) = Some tool"
    and "spawn_with_id ic fault now fresh tools (ri_run_id x) (spec_of_intent trace x) rn = (r, rn')"
  shows "r = Inr (ri_run_id x) \<and> respawned tools x rn'"
proof -
  let ?task = "\<lparr> rk_id = rn_next rn, rk_run_id = ri_run_id x, rk_tool = tool,
    rk_env = spawn_envelope fresh now (spec_of_intent trace x), rk_phase = TaskSpawned \<rparr>"
  have "ws_workflow (spec_of_intent trace x) = ri_workflow x" by (simp add: spec_of_intent_def)
  then have rn': "r = Inr (ri_run_id x)" "rn_tasks rn' = rn_tasks rn @ [?task]"
    "rn_registry rn' = register_cancel_hook (ri_run_id x) (rn_next rn)
       (insert_pending_with_id now (ri_run_id x) (ri_workflow x) ''inline'' (rn_registry rn))"
    using assms by (auto simp: spawn_with_id_def)
  then have "\<exists>rec. reg_record (ri_run_id x) (rn_registry rn') = Some rec \<and> rr_workflow rec = ri_workflow x \<and> rr_state rec = RsPending"
    by (simp add: reg_record_def register_cancel_hook_def insert_pending_with_id_def tbl_get_modify)
  then show ?thesis
    unfolding respawned_def using rn'(1,2) assms(1)
    by (auto intro!: exI [of _ ?task] simp: spawn_envelope_intent)
qed

lemma replay_respawns:
  assumes "replayable tools x" "replay ic rflt wflt sflt now fresh trace tools x rn = (r, rn')"
  shows "r = Inr (ri_run_id x) \<and> respawned tools x rn'"
proof -
  obtain tool where tool: "registry_get tools (workflow_tool_name (ri_workflow x)) = Some tool"
    using assms(1) by (auto simp: replayable_def)
  have "\<not> ri_replay_count x + 1 > 10"
    using assms(1) inc_le [of "ri_replay_count x" 10] by (simp add: replayable_def not_less add.commute)
  with assms(2) show ?thesis
    by (auto simp: replay_def Let_def split: option.splits elim!: spawn_respawns [OF tool, THEN conjunct1]
        spawn_respawns [OF tool, THEN conjunct2])
qed

lemma replay_registry_other:
  assumes "replay ic rflt wflt sflt now fresh trace tools y rn = (r, rn')" "ri_run_id y \<noteq> rid"
  shows "reg_record rid (rn_registry rn') = reg_record rid (rn_registry rn) \<and> set (rn_tasks rn) \<subseteq> set (rn_tasks rn')"
  using assms
  by (auto simp: replay_def Let_def spawn_with_id_def reg_record_def register_cancel_hook_def
      insert_pending_with_id_def tbl_get_modify tbl.lookup_put split: option.splits if_splits)

lemma replay_keeps_respawned:
  assumes "respawned tools x rn" "replay ic rflt wflt sflt now fresh trace tools y rn = (r, rn')"
    "ri_run_id y \<noteq> ri_run_id x"
  shows "respawned tools x rn'"
  using assms(1) replay_registry_other [OF assms(2,3)] unfolding respawned_def by auto

lemma replay_intents_keeps:
  "respawned tools x rn \<Longrightarrow> ri_run_id x \<notin> ri_run_id ` set xs \<Longrightarrow>
     respawned tools x (fst (replay_intents de' tools xs rn events))"
proof (induction xs arbitrary: rn events)
  case (Cons y ys)
  have other: "ri_run_id y \<noteq> ri_run_id x" "ri_run_id x \<notin> ri_run_id ` set ys" using Cons.prems(2) by auto
  show ?case
    using Cons.IH [OF replay_keeps_respawned [OF Cons.prems(1) _ other(1)] other(2)]
    by (auto split: prod.split sum.split)
qed simp

lemma replay_intents_events:
  "prefix events (snd (replay_intents de tools xs rn events))"
proof (induction xs arbitrary: rn events)
  case (Cons y ys)
  then show ?case by (auto simp: emit_def split: prod.split sum.split dest: append_prefixD)
qed simp

lemma replay_intents_respawn:
  assumes "distinct (map ri_run_id xs)" "x \<in> set xs" "replayable tools x"
  shows "respawned tools x (fst (replay_intents de' tools xs rn events)) \<and>
    IntentReplayed (ri_run_id x) (ri_workflow x) (ri_replay_count x + 1) \<in> set (snd (replay_intents de' tools xs rn events))"
  using assms
proof (induction xs arbitrary: rn events)
  case (Cons y ys)
  obtain rflt wflt sflt fresh trace where de: "du_replay_faults de' y = (rflt, wflt, sflt)" "du_replay_ids de' y = (fresh, trace)"
    by (metis prod_cases3 surj_pair)
  obtain r rn' where r: "replay (du_intent_codec de') rflt wflt sflt (du_now de') fresh trace tools y rn = (r, rn')"
    by fastforce
  show ?case
  proof (cases "y = x")
    case True
    with replay_respawns [OF _ r [unfolded True]] Cons.prems(3) have ok: "r = Inr (ri_run_id x)" "respawned tools x rn'"
      by blast+
    let ?ev = "IntentReplayed (ri_run_id x) (ri_workflow x) (ri_replay_count x + 1)"
    have "ri_run_id x \<notin> ri_run_id ` set ys" using Cons.prems(1) True by simp
    then have "respawned tools x (fst (replay_intents de' tools ys rn' (emit ?ev events)))"
      by (rule replay_intents_keeps [OF ok(2)])
    moreover have "?ev \<in> set (snd (replay_intents de' tools ys rn' (emit ?ev events)))"
      using replay_intents_events [where events = "emit ?ev events" and de = de' and tools = tools and xs = ys and rn = rn'] by (auto simp: emit_def prefix_def)
    ultimately show ?thesis using True de r ok(1) by simp
  next
    case False
    then show ?thesis using Cons de r by (auto split: sum.split)
  qed
qed simp

text \<open>Which other intents fail to replay makes no difference.\<close>

lemma unterminated_respawned:
  assumes "rn_intents rn = Some s" "intents_ok (du_intent_codec de) s" "du_intents_fault de = None"
    and "intents_abs (du_intent_codec de) s rid = Some x" "ri_terminal x = None" "replayable tools x"
  shows "respawned tools x (fst (replay_unterminated de tools rn events)) \<and>
    IntentReplayed (ri_run_id x) (ri_workflow x) (ri_replay_count x + 1)
      \<in> set (snd (replay_unterminated de tools rn events))"
proof -
  obtain l where l: "list_unterminated (du_intent_codec de) None (du_now de) s = Inr l"
      "distinct (map ri_run_id l)" "set l = {x. \<exists>k. intents_abs (du_intent_codec de) s k = Some x \<and> ri_terminal x = None}"
    using list_unterminated_abs [OF assms(2)] by blast
  have "x \<in> set l" using l(3) assms(4,5) by auto
  with replay_intents_respawn [OF l(2) this assms(6), where de' = de and rn = rn and events = events] show ?thesis
    using assms(1,3) l(1) by (simp add: replay_unterminated_def)
qed

text \<open>Operations of other runs on the store, and garbage collection, keep the intent of an unterminated run.\<close>

fun intent_op_run :: "intent_op \<Rightarrow> IntentId option" where
  "intent_op_run (IntentInsert fault x) = Some (ri_run_id x)"
| "intent_op_run (IntentMark rflt wflt now k status) = Some k"
| "intent_op_run (IntentGc rflt wflt t) = None"

lemma other_op_keeps:
  "m rid = Some x \<Longrightarrow> ri_terminal x = None \<Longrightarrow> intent_op_run op \<noteq> Some rid \<Longrightarrow> intent_spec ic op m rid = Some x"
  by (cases op) (auto simp: collectable_def split: option.split)

lemma other_ops_keep:
  "m rid = Some x \<Longrightarrow> ri_terminal x = None \<Longrightarrow> \<forall>op \<in> set ops. intent_op_run op \<noteq> Some rid \<Longrightarrow>
     fold (intent_spec ic) ops m rid = Some x"
  by (induction ops arbitrary: m) (auto simp: other_op_keeps)

lemma norm_intent_fields:
  assumes "rbind (ic_json_to_string ic (ri_input x)) (ic_json_from_str ic) = Inr (ri_input x)"
  shows "ri_run_id (norm_intent ic x) = ri_run_id x" "ri_workflow (norm_intent ic x) = ri_workflow x"
    "ri_input (norm_intent ic x) = ri_input x" "ri_namespace (norm_intent ic x) = ri_namespace x"
    "ri_capabilities (norm_intent ic x) = ri_capabilities x" "ri_terminal (norm_intent ic x) = ri_terminal x"
    "ri_replay_count (norm_intent ic x) = ri_replay_count x"
  using assms by (auto simp: norm_intent_def from_intent_def rbind_eq_Inr intent_of_def)

text \<open>
  C18. Crash and boot. A workflow run that was spawned with its intent written is not lost: whatever
  happens to the intents of other runs in the meantime, garbage collection included, when the
  process is gone and boot replays from what the store holds, the run is in the registry of the new
  runner under its id, pending, with a task that will call the workflow's tool on the input, in
  the namespace and with the capabilities of the spawn, and its replay is announced on the event bus.
  The input has to be one that its JSON text restores, and the workflow has to be registered
  at boot.
\<close>

theorem spawned_runs_survive_crash:
  assumes "rn_intents rn = Some s" "intents_ok (du_intent_codec de) s"
    and "intent_fits (du_intent_codec de) (intent_of_spec now rid spec)"
    and "rbind (ic_json_to_string (du_intent_codec de) (ws_input spec)) (ic_json_from_str (du_intent_codec de)) = Inr (ws_input spec)"
    and "spawn_with_id (du_intent_codec de) None now fresh tools rid spec rn = (Inr rid', rn')" "rn_intents rn' = Some s'"
    and "intent_ops_fit (du_intent_codec de) ops s'" "\<forall>op \<in> set ops. intent_op_run op \<noteq> Some rid"
    and "du_intents_fault de = None" "registry_get tools' (workflow_tool_name (ws_workflow spec)) = Some tool"
  shows "\<exists>rec task.
    (let rebooted = replay_unterminated de tools' (InlineRunner_new (Some (fold (intent_run (du_intent_codec de)) ops s'))) events in
     reg_record rid (rn_registry (fst rebooted)) = Some rec \<and> rr_workflow rec = ws_workflow spec \<and> rr_state rec = RsPending \<and>
     task \<in> set (rn_tasks (fst rebooted)) \<and> rk_run_id task = rid \<and> rk_tool task = tool \<and>
     env_payload (rk_env task) = ws_input spec \<and>
     env_namespace (rk_env task) = scope_namespace (ws_parent_scope spec) \<and>
     CapSet_patterns (env_capabilities (rk_env task)) = capability_patterns (ws_parent_scope spec) \<and>
     IntentReplayed rid (ws_workflow spec) 1 \<in> set (snd rebooted))"
proof -
  let ?ic = "du_intent_codec de" and ?i = "intent_of_spec now rid spec"
  let ?x = "norm_intent ?ic ?i" and ?t = "fold (intent_run ?ic) ops s'"
  have i: "ri_run_id ?i = rid" "ri_workflow ?i = ws_workflow spec" "ri_input ?i = ws_input spec"
    "ri_namespace ?i = scope_namespace (ws_parent_scope spec)" "ri_capabilities ?i = capability_patterns (ws_parent_scope spec)"
    "ri_terminal ?i = None" "ri_replay_count ?i = 0"
    by (simp_all add: intent_of_spec_def RunnerIntent_new_def)
  have x: "ri_run_id ?x = rid" "ri_workflow ?x = ws_workflow spec" "ri_input ?x = ws_input spec"
    "ri_namespace ?x = scope_namespace (ws_parent_scope spec)" "ri_capabilities ?x = capability_patterns (ws_parent_scope spec)"
    "ri_terminal ?x = None" "ri_replay_count ?x = 0"
    using norm_intent_fields [of ?ic ?i] assms(4) i by simp_all
  have "s' = snd (intent_insert ?ic None ?i s)"
    using assms(1,5,6) by (auto simp: spawn_with_id_def split: option.splits)
  then have s': "intents_ok ?ic s'" "intents_abs ?ic s' rid = Some ?x"
    using insert_refines [OF assms(2,3), of None] i(1) by auto
  have "intents_ok ?ic ?t" "intents_abs ?ic ?t rid = Some ?x"
    using intent_history [OF s'(1) assms(7)] other_ops_keep [of "intents_abs ?ic s'" rid ?x, OF s'(2) x(6) assms(8)] by auto
  moreover have "replayable tools' ?x" using assms(10) x by (simp add: replayable_def)
  ultimately have "respawned tools' ?x (fst (replay_unterminated de tools' (InlineRunner_new (Some ?t)) events)) \<and>
      IntentReplayed (ri_run_id ?x) (ri_workflow ?x) (ri_replay_count ?x + 1)
        \<in> set (snd (replay_unterminated de tools' (InlineRunner_new (Some ?t)) events))"
    by (intro unterminated_respawned [OF _ _ assms(9) _ x(6)]) (simp_all add: InlineRunner_new_def)
  then show ?thesis using assms(10) unfolding x respawned_def Let_def by auto
qed

section \<open>Schedules\<close>

definition timer_key :: "timer_codec \<Rightarrow> bytes \<Rightarrow> (string \<times> string \<times> string) option" where
  "timer_key tc bs =
     (case tc_decode tc bs of
        Inr st \<Rightarrow> (case stt_mode st of TimerCron expr \<Rightarrow> Some (stt_workflow st, expr, stt_namespace st) | _ \<Rightarrow> None)
      | Inl e \<Rightarrow> None)"

text \<open>The workflow, expression and namespace of the cron timers in the store.\<close>

definition timer_keys :: "timer_codec \<Rightarrow> RedbScheduler \<Rightarrow> (string \<times> string \<times> string) set" where
  "timer_keys tc s = {k. \<exists>fi bs. map_of (sch_timers s) fi = Some bs \<and> timer_key tc bs = Some k}"

lemma entry_fits_summary:
  assumes "entry_fits tc i bs"
  obtains st r where "decode_timer tc bs = Inr st" "into_record tc now st = Inr r" "tm_workflow r = stt_workflow st"
    "tm_namespace r = stt_namespace st" "tm_mode r = stt_mode st" "tc_decode tc bs = Inr st"
  using assms that unfolding entry_fits_def stored_ok_def
  by (fastforce simp: decode_timer_def into_record_def)

lemma list_timers_keys:
  "(\<And>k bs. (k, bs) \<in> set ts \<Longrightarrow> entry_fits tc (snd k) bs) \<Longrightarrow>
     \<exists>l. list_timers tc now None ts = Inr l \<and> map cron_key l = map (\<lambda>(k, bs). timer_key tc bs) ts"
proof (induction ts)
  case (Cons t ts)
  obtain f i bs where t: "t = ((f, i), bs)" by (metis prod.exhaust)
  obtain l where l: "list_timers tc now None ts = Inr l" "map cron_key l = map (\<lambda>(k, bs). timer_key tc bs) ts"
    using Cons.IH Cons.prems by (meson list.set_intros(2))
  have "entry_fits tc i bs" using Cons.prems [of "(f, i)" bs] t by simp
  then obtain st r where "decode_timer tc bs = Inr st" "into_record tc now st = Inr r" "tm_workflow r = stt_workflow st"
    "tm_namespace r = stt_namespace st" "tm_mode r = stt_mode st" "tc_decode tc bs = Inr st"
    by (rule entry_fits_summary)
  moreover from this have "cron_key \<lparr> js_job_id = j, js_workflow = stt_workflow st, js_namespace = stt_namespace st,
      js_next_fire_at = a, js_mode = stt_mode st, js_created_at = b, js_created_by = c \<rparr> = timer_key tc bs" for j a b c
    by (simp add: cron_key_def timer_key_def split: TimerMode.split)
  ultimately show ?case using t l by simp
qed simp

lemma map_filter_set: "set (List.map_filter f xs) = {y. Some y \<in> f ` set xs}"
  by (induction xs) (auto simp: List.map_filter_simps split: option.split)

lemma sched_list_keys:
  assumes "sched_ok tc s"
  shows "\<exists>l. sched_list tc None now None s = Inr l \<and> set (List.map_filter cron_key l) = timer_keys tc s"
proof -
  have mem: "(k, bs) \<in> set (sch_timers s) \<longleftrightarrow> map_of (sch_timers s) k = Some bs" for k bs
    using assms by (simp add: sched_ok_def btree_ok_def strict_sorted_iff)
  have "entry_fits tc (snd k) bs" if "(k, bs) \<in> set (sch_timers s)" for k bs
    using that assms mem [of k bs] by (cases k) (auto simp: sched_ok_def)
  then obtain l where l: "list_timers tc now None (sch_timers s) = Inr l"
      "map cron_key l = map (\<lambda>(k, bs). timer_key tc bs) (sch_timers s)"
    using list_timers_keys [of "sch_timers s" tc now] by blast
  have "cron_key ` set l = (\<lambda>(k, bs). timer_key tc bs) ` set (sch_timers s)"
    using arg_cong [OF l(2), of set] by simp
  then have "set (List.map_filter cron_key l) = timer_keys tc s"
    unfolding map_filter_set timer_keys_def mem [symmetric] by force
  then show ?thesis using l(1) by (simp add: sched_list_def)
qed

text \<open>The job of an entry can be scheduled: fresh id, accepted by the scheduler and its codec.\<close>

fun jobs_fit :: "DurableEnv \<Rightarrow> nat \<Rightarrow> CronEntry list \<Rightarrow> uuid set \<Rightarrow> bool" where
  "jobs_fit de i [] used = True"
| "jobs_fit de i (entry # entries) used =
     (case du_job de i of
        (fresh, now, fault) \<Rightarrow>
          fault = None \<and> fresh \<notin> used \<and> timer_fits (du_timer_codec de) (cron_record fresh now entry) \<and>
          ce_workflow entry \<noteq> [] \<and> ce_namespace entry \<noteq> [] \<and>
          (case du_cron de (ce_cron entry) of Inr upcoming \<Rightarrow> upcoming now \<noteq> None | Inl e \<Rightarrow> False) \<and>
          jobs_fit de (Suc i) entries (insert fresh used))"

lemma jobs_fit_mono: "jobs_fit de i entries used \<Longrightarrow> used' \<subseteq> used \<Longrightarrow> jobs_fit de i entries used'"
proof (induction entries arbitrary: i used used')
  case (Cons e es)
  obtain fresh now fault where "du_job de i = (fresh, now, fault)" by (metis prod_cases3)
  with Cons.prems Cons.IH [of "Suc i" "insert fresh used" "insert fresh used'"] show ?case by auto
qed simp

lemma schedule_cron_entry:
  assumes s: "sched_ok tc s" and new: "map_of (sch_by_id s) fresh = None"
    and fits: "timer_fits tc (cron_record fresh now entry)"
    and valid: "ce_workflow entry \<noteq> []" "ce_namespace entry \<noteq> []"
    and up: "cron (ce_cron entry) = Inr upcoming" "upcoming now = Some t"
  defines "s' \<equiv> snd (schedule_cron tc cron None now (cron_record fresh now entry) (ce_cron entry) s)"
  shows "sched_ok tc s' \<and> timer_keys tc s' = insert (entry_key entry) (timer_keys tc s) \<and>
    dom (map_of (sch_by_id s')) = insert fresh (dom (map_of (sch_by_id s)))"
proof -
  let ?r = "cron_record fresh now entry"
  have r: "?r\<lparr> tm_mode := TimerCron (ce_cron entry) \<rparr> = ?r" by (simp add: cron_record_def)
  from fits obtain st bs where st: "from_record tc ?r = Inr st" "stored_ok tc st bs"
    by (auto simp: timer_fits_def)
  have fields: "stt_workflow st = ce_workflow entry" "stt_namespace st = ce_namespace entry"
    "stt_mode st = TimerCron (ce_cron entry)"
    using st(1) by (auto simp: from_record_def rbind_eq_Inr cron_record_def)
  have key: "timer_key tc bs = Some (entry_key entry)"
    using st(2) fields by (simp add: timer_key_def stored_ok_def entry_key_def)
  have s': "s' = put_timer (fire_at_ms_of t) fresh bs s"
    unfolding s'_def schedule_cron_def using valid up st
    by (simp add: validate_record_def cron_record_def insert_new_def r [unfolded cron_record_def] stored_ok_def)
  have ok: "sched_ok tc s'"
    using schedule_ok [OF s, of ?r "OnCron (ce_cron entry)" cron None now] new fits r
    by (simp add: s'_def cron_record_def)
  have "map_of (sch_timers s) (f, fresh) = None" for f
    using s new by (auto simp: sched_ok_def tables_agree_def)
  then have "timer_keys tc s' = insert (entry_key entry) (timer_keys tc s)"
    unfolding timer_keys_def s' put_timer_def
    by (auto simp: btree.lookup_put key split: if_splits) (metis option.distinct(1))+
  moreover have "dom (map_of (sch_by_id s')) = insert fresh (dom (map_of (sch_by_id s)))"
    unfolding s' put_timer_def by (auto simp: btree.lookup_put split: if_splits)
  ultimately show ?thesis using ok by simp
qed

lemma schedule_entries_keys:
  "sched_ok (du_timer_codec de) s \<Longrightarrow> jobs_fit de i entries (dom (map_of (sch_by_id s))) \<Longrightarrow>
     sched_ok (du_timer_codec de) (schedule_entries de keys i entries s) \<and>
     timer_keys (du_timer_codec de) (schedule_entries de keys i entries s) =
       timer_keys (du_timer_codec de) s \<union> (entry_key ` set entries - keys)"
proof (induction entries arbitrary: i s)
  case (Cons entry entries)
  obtain fresh now where job: "du_job de i = (fresh, now, None)"
    using Cons.prems(2) by (auto split: prod.splits)
  have rest: "jobs_fit de (Suc i) entries (insert fresh (dom (map_of (sch_by_id s))))"
    using Cons.prems(2) job by simp
  show ?case
  proof (cases "entry_key entry \<in> keys")
    case True
    have "jobs_fit de (Suc i) entries (dom (map_of (sch_by_id s)))" by (rule jobs_fit_mono [OF rest]) auto
    from Cons.IH [OF Cons.prems(1) this] True show ?thesis by auto
  next
    case False
    let ?s = "snd (schedule_cron (du_timer_codec de) (du_cron de) None now (cron_record fresh now entry) (ce_cron entry) s)"
    have fit: "map_of (sch_by_id s) fresh = None" "timer_fits (du_timer_codec de) (cron_record fresh now entry)"
      "ce_workflow entry \<noteq> []" "ce_namespace entry \<noteq> []"
      using Cons.prems(2) job by (auto simp: domIff)
    obtain upcoming t where up: "du_cron de (ce_cron entry) = Inr upcoming" "upcoming now = Some t"
      using Cons.prems(2) job by (auto split: sum.splits)
    note s' = schedule_cron_entry [where cron = "du_cron de" and upcoming = upcoming, OF Cons.prems(1) fit up]
    from Cons.IH [of ?s "Suc i"] s' rest have
      "sched_ok (du_timer_codec de) (schedule_entries de keys (Suc i) entries ?s) \<and>
       timer_keys (du_timer_codec de) (schedule_entries de keys (Suc i) entries ?s) =
         insert (entry_key entry) (timer_keys (du_timer_codec de) s) \<union> (entry_key ` set entries - keys)"
      by simp
    then show ?thesis using False job by auto
  qed
qed simp

lemma schedule_entries_skip: "entry_key ` set entries \<subseteq> keys \<Longrightarrow> schedule_entries de keys i entries s = s"
  by (induction entries arbitrary: i) auto


text \<open>
  The keys of the existing timers are read once, before the loop: two entries of the file with
  the same workflow, expression and namespace are both scheduled.
\<close>

lemma duplicate_entries_both_scheduled:
  assumes "entry_key a = entry_key b" "entry_key a \<notin> keys" "du_job de 0 = (i, t1, None)" "du_job de 1 = (j, t2, None)"
  shows "schedule_entries de keys 0 [a, b] s =
    snd (schedule_cron (du_timer_codec de) (du_cron de) None t2 (cron_record j t2 b) (ce_cron b)
      (snd (schedule_cron (du_timer_codec de) (du_cron de) None t1 (cron_record i t1 a) (ce_cron a) s)))"
  using assms by (simp add: numeral_2_eq_2 [symmetric])

section \<open>The tools of a booted platform\<close>

text \<open>The platform's own tools that boot registers after the MCP servers were asked.\<close>

definition late_infos :: "ToolsConfig \<Rightarrow> ToolInfo list" where
  "late_infos tools =
     (if tlc_shell tools \<noteq> None then [ShellExecTool_info] else []) @ [IntrospectTool_info, ValidateWorkflowTool_info] @
     (if tlc_secret tools \<noteq> None then secret_infos else []) @
     [ConfigReloadTool_info, ScheduleTool_info, CancelScheduleTool_info] @ runner_infos"

definition early_infos :: "ToolsConfig \<Rightarrow> ToolInfo list" where
  "early_infos tools = builtin_infos @ http_infos @ (if tlc_llm tools \<noteq> None then [AiCompleteTool_info] else [])"

lemma late_infos_distinct: "distinct (map info_name (late_infos tools))"
  by (cases "tlc_shell tools"; cases "tlc_secret tools"; simp add: late_infos_def catalog_lists catalog_defs)

lemma late_infos_platform: "set (late_infos tools) \<subseteq> set (platform_tools [])"
  by (auto simp: late_infos_def platform_tools_def)

lemma late_infos_not_workflow: "i \<in> set (late_infos tools) \<Longrightarrow> \<not> starts_with (info_name i) ''workflow:''"
  using late_infos_platform [of tools] catalog_info_ok [of "[]"] by (auto simp: list_all_iff info_ok_def)

lemma register_infos_tools: "eng_tools (register_infos infos eng) = register_all infos (eng_tools eng)"
  by (induction infos arbitrary: eng) (simp_all add: register_infos_def register_all_def register_tool_def)

lemma register_all_append: "register_all (xs @ ys) reg = register_all ys (register_all xs reg)"
  by (simp add: register_all_def)

lemma architect_tools_registry:
  "eng_tools (system_tools (register_resources cd (architect_tools tools eng))) =
     register_all (late_infos tools) (eng_tools eng)"
proof -
  have res: "eng_tools (register_resources cd e) = eng_tools e" for e :: "(string, 'q) Engine"
    by (simp add: register_resources_def register_resource_def Let_def)
  show ?thesis
    by (simp add: system_tools_def runner_register_def architect_tools_def secret_register_def register_infos_tools
        res late_infos_def register_all_append Let_def split: option.split) (simp add: register_all_def)
qed

text \<open>What registrations do to a registry: names are kept, and tools stay under their own names.\<close>

definition reg_grows :: "ToolRegistry \<Rightarrow> ToolRegistry \<Rightarrow> bool" where
  "reg_grows reg reg' \<longleftrightarrow>
     (registry_named reg \<longrightarrow> registry_named reg') \<and> (\<forall>n. registry_contains reg n \<longrightarrow> registry_contains reg' n)"

lemma reg_grows_refl [simp]: "reg_grows reg reg"
  by (simp add: reg_grows_def)

lemma reg_grows_trans [trans]: "reg_grows a b \<Longrightarrow> reg_grows b c \<Longrightarrow> reg_grows a c"
  by (simp add: reg_grows_def)

lemma reg_grows_register: "reg_grows reg (register t reg)"
  using registry_named_register [of reg t]
  by (simp add: reg_grows_def registry_contains_def register_def obj_get_insert)

lemma reg_grows_register_all: "reg_grows reg (register_all infos reg)"
proof (induction infos arbitrary: reg)
  case (Cons i infos)
  have "reg_grows reg (register (RawTool i) reg)" by (rule reg_grows_register)
  also have "reg_grows \<dots> (register_all infos \<dots>)" by (rule Cons.IH)
  finally show ?case by (simp add: register_all_def)
qed (simp add: register_all_def)

lemma register_all_contains: "i \<in> set infos \<Longrightarrow> registry_contains (register_all infos reg) (info_name i)"
proof (induction infos arbitrary: reg)
  case (Cons j infos)
  have "registry_contains (register (RawTool j) reg) (info_name j)"
    by (simp add: registry_contains_def register_def obj_get_insert)
  then have "registry_contains (register_all infos (register (RawTool j) reg)) (info_name j)"
    using reg_grows_register_all by (auto simp: reg_grows_def)
  with Cons show ?case by (auto simp: register_all_def)
qed simp

lemma register_mcp_tools_grows:
  "register_mcp_tools config client tools n eng = (m, eng') \<Longrightarrow> reg_grows (eng_tools eng) (eng_tools eng')"
proof (induction tools arbitrary: n eng)
  case (Cons t ts)
  show ?case
  proof (cases "mcp_tool_allowed config t")
    case True
    have "reg_grows (eng_tools eng) (eng_tools (register_tool (RawTool (mcp_wrapper_info (mcp_wrapper config client t))) eng))"
      by (simp add: register_tool_def reg_grows_register)
    also have "reg_grows \<dots> (eng_tools eng')" using Cons True by simp
    finally show ?thesis .
  qed (use Cons in simp)
qed simp

lemma discover_grows:
  "discover_and_register mo configs st w = (st', w') \<Longrightarrow> reg_grows (eng_tools (snd st)) (eng_tools (snd st'))"
proof (induction configs arbitrary: st w)
  case (Cons c cs)
  obtain r st1 w1 where c: "connect_and_register mo c st w = (r, st1, w1)" by (metis prod_cases3)
  then have "reg_grows (eng_tools (snd st)) (eng_tools (snd st1))"
    by (auto simp: connect_and_register_def dest: register_mcp_tools_grows split: if_splits prod.splits sum.splits)
  also have "reg_grows \<dots> (eng_tools (snd st'))" using Cons c by auto
  finally show ?case .
qed simp

lemma mcp_register_grows:
  "mcp_register mo from_value config eng w = (r, (clients, eng'), w') \<Longrightarrow> reg_grows (eng_tools eng) (eng_tools eng')"
  using discover_grows [of mo _ "([], eng)" w] by (fastforce simp: mcp_register_def split: sum.splits if_splits prod.splits)

lemma register_tools_registry:
  assumes "register_tools bo tools (eng, w) = Inr (eng', w')"
  shows "reg_grows (eng_tools eng) (eng_tools eng') \<and>
    (\<forall>i \<in> set (http_infos @ (if tlc_llm tools \<noteq> None then [AiCompleteTool_info] else [])).
       registry_contains (eng_tools eng') (info_name i))"
proof -
  let ?llm = "if tlc_llm tools \<noteq> None then [AiCompleteTool_info] else []"
  obtain eng1 w1 where 1: "register_memory bo (tlc_memory tools) (eng, w) = Inr (eng1, w1)"
    using assms by (auto simp: register_tools_def rbind_eq_Inr)
  have g1: "reg_grows (eng_tools eng) (eng_tools eng1)"
    using 1 by (auto simp: register_memory_def memory_register_def register_infos_tools reg_grows_register_all
        split: option.splits if_splits prod.splits sum.splits)
  obtain eng2 where 2: "(case tlc_llm tools of Some c \<Rightarrow> llm_register (bo_llm_config bo) c (http_register eng1)
      | None \<Rightarrow> Inr (http_register eng1)) = Inr eng2"
    using assms 1 by (auto simp: register_tools_def rbind_eq_Inr)
  then have e2: "eng_tools eng2 = register_all (http_infos @ ?llm) (eng_tools eng1)"
    by (auto simp: llm_register_def http_register_def register_infos_tools register_all_append rbind_eq_Inr
        split: option.splits) (simp add: register_all_def)
  obtain eng3 w3 where 3: "(case tlc_embed tools of Some c \<Rightarrow> embed_register (bo_embed_model bo) eng2 w1 | None \<Rightarrow> (eng2, w1)) = (eng3, w3)"
    by (metis surj_pair)
  then have g3: "reg_grows (eng_tools eng2) (eng_tools eng3)"
    by (auto simp: embed_register_def register_infos_tools reg_grows_register_all split: option.splits prod.splits sum.splits)
  have g4: "reg_grows (eng_tools eng3) (eng_tools eng')"
    using assms 1 2 3 by (auto simp: register_tools_def dest: mcp_register_grows split: option.splits prod.splits sum.splits)
  have "reg_grows (eng_tools eng1) (eng_tools eng2)" unfolding e2 by (rule reg_grows_register_all)
  with g1 g3 g4 have "reg_grows (eng_tools eng) (eng_tools eng')" "reg_grows (eng_tools eng2) (eng_tools eng')"
    using reg_grows_trans by blast+
  moreover have "\<forall>i \<in> set (http_infos @ ?llm). registry_contains (eng_tools eng2) (info_name i)"
    unfolding e2 using register_all_contains by blast
  ultimately show ?thesis by (auto simp: reg_grows_def)
qed

lemma boot_engine_registry:
  fixes eng :: "(string, 'q) Engine"
  assumes "boot_engine bo cd config pc w = Inr (eng, w')"
  shows "\<exists>reg0. eng_tools (system_tools eng) = register_all (late_infos (prc_tools pc)) reg0 \<and>
    registry_named reg0 \<and> (\<forall>i \<in> set (early_infos (prc_tools pc)). registry_contains reg0 (info_name i))"
proof -
  let ?start = "register_infos builtin_infos (Engine_with_config (pc_engine config)) :: (string, 'q) Engine"
  obtain eng0 w0 where 0: "register_tools bo (prc_tools pc) (?start, w) = Inr (eng0, w0)"
    and eng: "eng = register_resources cd (architect_tools (prc_tools pc) eng0)"
    using assms by (auto simp: boot_engine_def rbind_eq_Inr)
  have "registry_named (eng_tools ?start)"
    by (rule registry_named_infos) (simp add: Engine_with_config_def registry_named_def)
  moreover have "\<forall>i \<in> set builtin_infos. registry_contains (eng_tools ?start) (info_name i)"
    by (simp add: register_infos_tools register_all_contains)
  ultimately show ?thesis
    using register_tools_registry [OF 0] architect_tools_registry [of cd "prc_tools pc" eng0]
    by (auto simp: eng early_infos_def reg_grows_def)
qed

lemma boot_stages:
  assumes "boot de bo cd w = Inr ki"
  shows "\<exists>config pc eng w1 storage rt. PlatformConfig_validate config = Inr () \<and>
    boot_engine bo cd config pc w = Inr (eng, w1) \<and> boot_runtime de bo cd config pc storage rt = Inr ki \<and>
    rt_engine rt = eng \<and> rt_guards rt = []"
  using assms
  by (auto simp: boot_def rbind_eq_Inr map_err_eq_Inr Runtime_with_limits_def Let_def map_ok_eq_Inr case_prod_unfold)
    (intro exI conjI; assumption?; simp)


section \<open>Instances\<close>

definition demo_entry :: CronEntry where
  "demo_entry =
     \<lparr> ce_name = ''job'', ce_workflow = ''w'', ce_cron = ''0 0 8 * * * *'', ce_namespace = ''n'', ce_capabilities = [],
       ce_input = default_input \<rparr>"

definition cron_codec :: timer_codec where
  "cron_codec =
     \<lparr> tc_json_to_string = (\<lambda>_. Inr ''{}''), tc_json_from_str = (\<lambda>_. Inr (JObject [])), tc_encode = (\<lambda>_. Inr [0]),
       tc_decode = (\<lambda>_. Inr
         \<lparr> stt_job_id_bytes = 5, stt_workflow = ''w'', stt_input_json = ''{}'', stt_namespace = ''n'', stt_capabilities = [],
           stt_actor = \<lparr> actor_id = ''schedules.yaml'', actor_role = System \<rparr>, stt_mode = TimerCron ''0 0 8 * * * *'',
           stt_created_at_micros = 3, stt_created_by = ''schedules.yaml:job'' \<rparr>),
       tc_timestamp_micros = (\<lambda>t. Some (t * 1000)), tc_timestamp_millis = (\<lambda>t. Some (t * 1000000)) \<rparr>"

definition demo_de :: DurableEnv where
  "demo_de =
     \<lparr> du_timer_codec = cron_codec, du_cron = (\<lambda>_. Inr (\<lambda>now. Some (now + 1))), du_now = 3000, du_list_fault = None,
       du_job = (\<lambda>i. (5, 3000, None)), du_intent_codec = demo_intent_codec, du_intents_fault = None,
       du_replay_faults = (\<lambda>x. (None, None, None)), du_replay_ids = (\<lambda>x. (1, 4)) \<rparr>"

definition demo_bo :: "(unit, unit, unit, unit) BootOutside" where
  "demo_bo =
     \<lparr> bo_features = [''surreal''], bo_load_platform = (\<lambda>_. Inr PlatformConfig_default),
       bo_product_from_yaml = (\<lambda>_. Inl ''yaml''), bo_workflow_from_yaml = (\<lambda>_. Inl ''yaml''),
       bo_cron_entries = (\<lambda>_. Inr [demo_entry]), bo_env_var = (\<lambda>_. None), bo_memory_connect = (\<lambda>_ _ w. (Inr [], w)),
       bo_llm_config = (\<lambda>_. Inl ''llm''), bo_embed_model = (\<lambda>w. (Inl ''model'', w)), bo_mcp = demo_mcp,
       bo_mcp_servers = demo_servers, bo_open_storage = (\<lambda>_ _ w. (Inl ''io'', w)),
       bo_connect_journal = (\<lambda>_ w. (Inr (), w)), bo_reconcile = (\<lambda>j. (Inr 0, j)), bo_init_scheduler = None,
       bo_show_uuid = (\<lambda>_. []) \<rparr>"

definition demo_cd :: ConfigDir where
  "demo_cd =
     \<lparr> cd_path = ''config'', cd_tools_yaml = None, cd_konf_toml_exists = True,
       cd_workflows = Some (Inr [DirFile ''notes.md'' (Inr ''hi'')]), cd_schedules = None \<rparr>"

lemma notes_not_yaml: "\<not> is_yaml_file ''notes.md''"
  by (simp add: is_yaml_file_def path_extension_def)

lemma demo_boot: "\<exists>ki :: (unit, unit, unit) KonfInstance. boot demo_de demo_bo demo_cd () = Inr ki \<and> ki_product_config ki = ProductConfig_default"
  by (simp add: boot_def demo_bo_def demo_cd_def PlatformConfig_default_valid load_product_def boot_engine_def
      register_tools_def register_memory_def ProductConfig_default_def ToolsConfig_default_def open_storage_def
      PlatformConfig_default_def [THEN arg_cong, of pc_database] wire_journal_def Runtime_with_limits_def
      boot_runtime_def boot_workflows_def register_workflows_def notes_not_yaml boot_schedules_def Let_def
      split: prod.split)


definition demo_booted :: "(string, unit, unit) Runtime" where
  "demo_booted =
     \<lparr> rt_engine = register_tool (RawTool (EchoTool_info\<lparr> info_name := ''workflow:old'' \<rparr>)) (register_infos [EchoTool_info] Engine_new),
       rt_table = ProcessTable_new, rt_journal = None, rt_guards = [], rt_events = [], rt_budget = BudgetTable_new,
       rt_total_completed = 0, rt_total_failed = 0, rt_total_cancelled = 0, rt_tasks = [] \<rparr>"



theorem spawned_runs_survive_crash_witness:
  "\<exists>task. task \<in> set (rn_tasks (fst (replay_unterminated demo_de demo_tools
       (InlineRunner_new (Some (intent_run demo_intent_codec (IntentGc None None 9000) (the (rn_intents demo_runner))))) []))) \<and>
     rk_run_id task = ''r'' \<and> env_namespace (rk_env task) = ''n''"
proof -
  let ?rn = "InlineRunner_new (Some RunnerIntentStore_open)"
  have de: "du_intent_codec demo_de = demo_intent_codec" "du_intents_fault demo_de = None" by (simp_all add: demo_de_def)
  have spec: "intent_of_spec 3000 ''r'' demo_spec = demo_intent" "ws_workflow demo_spec = ''w''" "ws_input demo_spec = JNull"
    "scope_namespace (ws_parent_scope demo_spec) = ''n''"
    by (simp_all add: intent_of_spec_def demo_spec_def spec_of_intent_def scope_of_intent_def demo_intent_def RunnerIntent_new_def
        capability_patterns_def new_root_def)
  have fits: "intent_fits demo_intent_codec demo_intent"
    by (simp add: intent_fits_def stored_intent_ok_def from_intent_def demo_intent_def demo_intent_codec_def
        demo_intent_stored_def RunnerIntent_new_def timestamp_micros_def)
  have json: "rbind (ic_json_to_string demo_intent_codec JNull) (ic_json_from_str demo_intent_codec) = Inr JNull"
    by (simp add: demo_intent_codec_def)
  have spawn: "spawn_with_id demo_intent_codec None 3000 1 demo_tools ''r'' demo_spec ?rn = (Inr ''r'', demo_runner)"
    by (simp add: demo_runner_def spawn_with_id_def spec demo_tools_get)
  have st: "rn_intents demo_runner = Some (the (rn_intents demo_runner))"
    by (simp add: demo_runner_def spawn_with_id_def spec demo_tools_get InlineRunner_new_def)
  have ops: "intent_ops_fit demo_intent_codec [IntentGc None None 9000] (the (rn_intents demo_runner))"
    "\<forall>op \<in> set [IntentGc None None 9000]. intent_op_run op \<noteq> Some ''r''" by simp_all
  have rn: "rn_intents ?rn = Some RunnerIntentStore_open" by (simp add: InlineRunner_new_def)
  from spawned_runs_survive_crash [OF rn, of demo_de 3000 "''r''" demo_spec 1 demo_tools "''r''" demo_runner
      "the (rn_intents demo_runner)" "[IntentGc None None 9000]" demo_tools "RawTool (sample_info ''w'')" "[]",
      unfolded de spec, OF intents_ok_open(1) fits json spawn st ops refl demo_tools_get]
  show ?thesis by (auto simp: Let_def)
qed

end
