(* ===== verification/Memory_Tools.thy ===== *)
theory Memory_Tools
  imports Dispatcher Tool_Catalog Float64
begin

text \<open>
  The memory tools, \<^verbatim>\<open>konf-tool-memory/src/lib.rs\<close> and \<^verbatim>\<open>tools.rs\<close>. The trait
  \<open>MemoryBackend\<close> is a record of operations on the state \<open>'b\<close> of a backend; the seven tools read
  their arguments from the payload and call one operation each. \<open>memory_raw\<close> is the raw tool that
  the dispatcher calls for them, with the ids and times of responses as arguments.

  The property proved here composes the tools with the dispatcher: a scope whose grant binds
  \<open>namespace\<close> confines every memory operation to that namespace.
\<close>

section \<open>Definitions\<close>

datatype MemoryError =
    OperationFailed string
  | MemValidation string
  | MemUnavailable string
  | MemUnsupported string

fun show_MemoryError :: "MemoryError \<Rightarrow> string" where
  "show_MemoryError (OperationFailed e) = ''memory operation failed: '' @ e"
| "show_MemoryError (MemValidation e) = ''validation error: '' @ e"
| "show_MemoryError (MemUnavailable e) = ''backend unavailable: '' @ e"
| "show_MemoryError (MemUnsupported e) = ''unsupported operation: '' @ e"

record SearchParams =
  sp_query :: "string option"
  sp_mode :: "string option"
  sp_limit :: "i64 option"
  sp_namespace :: "string option"
  sp_node_type :: "string option"
  sp_edge_type :: "string option"
  sp_metadata_filter :: "json option"
  sp_min_similarity :: "fval option"

type_synonym 'b memory_op = "'b \<Rightarrow> (MemoryError + json) \<times> 'b"

record 'b MemoryBackend =
  mb_search :: "SearchParams \<Rightarrow> 'b memory_op"
  mb_add_nodes :: "json list \<Rightarrow> string option \<Rightarrow> 'b memory_op"
  mb_state_set :: "string \<Rightarrow> json \<Rightarrow> string \<Rightarrow> string option \<Rightarrow> i64 option \<Rightarrow> 'b memory_op"
  mb_state_get :: "string \<Rightarrow> string \<Rightarrow> string option \<Rightarrow> 'b memory_op"
  mb_state_delete :: "string \<Rightarrow> string \<Rightarrow> string option \<Rightarrow> 'b memory_op"
  mb_state_list :: "string \<Rightarrow> string option \<Rightarrow> 'b memory_op"
  mb_state_clear :: "string \<Rightarrow> string option \<Rightarrow> 'b memory_op"
  mb_supported_search_modes :: "string list"

definition mem_err :: "MemoryError \<Rightarrow> ToolError" where
  "mem_err e = ExecutionFailed (show_MemoryError e) False"

definition get_str :: "json \<Rightarrow> string \<Rightarrow> string option" where
  "get_str payload k = Option.bind (json_get payload k) as_str"

definition missing :: "string \<Rightarrow> ToolError" where
  "missing k = InvalidInput (''missing '' @ quoted k) (Some k)"

definition required_str :: "json \<Rightarrow> string \<Rightarrow> ToolError + string" where
  "required_str payload k = ok_or (missing k) (get_str payload k)"

text \<open>The answer of an operation, as the response to the call.\<close>

definition answer ::
  "uuid \<Rightarrow> datetime \<Rightarrow> json Envelope \<Rightarrow> (MemoryError + json) \<times> 'b \<Rightarrow> (ToolError + json Envelope) \<times> 'b" where
  "answer fresh now env r = (map_ok (respond fresh now env) (map_err mem_err (fst r)), snd r)"

definition search_params :: "json \<Rightarrow> SearchParams" where
  "search_params payload =
     \<lparr> sp_query = get_str payload ''query'', sp_mode = get_str payload ''mode'',
       sp_limit = Option.bind (json_get payload ''limit'') as_i64, sp_namespace = get_str payload ''namespace'',
       sp_node_type = get_str payload ''node_type'', sp_edge_type = get_str payload ''edge_type'',
       sp_metadata_filter = json_get payload ''metadata_filter'',
       sp_min_similarity = Option.bind (json_get payload ''min_similarity'') as_f64 \<rparr>"

definition search_invoke ::
  "'b MemoryBackend \<Rightarrow> uuid \<Rightarrow> datetime \<Rightarrow> json Envelope \<Rightarrow> 'b \<Rightarrow> (ToolError + json Envelope) \<times> 'b" where
  "search_invoke mb fresh now env b = answer fresh now env (mb_search mb (search_params (env_payload env)) b)"

definition store_invoke ::
  "'b MemoryBackend \<Rightarrow> uuid \<Rightarrow> datetime \<Rightarrow> json Envelope \<Rightarrow> 'b \<Rightarrow> (ToolError + json Envelope) \<times> 'b" where
  "store_invoke mb fresh now env b =
     (case Option.bind (json_get (env_payload env) ''nodes'') as_array of
        None \<Rightarrow> (Inl (InvalidInput (''missing '' @ quoted ''nodes'' @ '' array'') (Some ''nodes'')), b)
      | Some nodes \<Rightarrow> answer fresh now env (mb_add_nodes mb nodes (get_str (env_payload env) ''namespace'') b))"

definition state_set_invoke ::
  "'b MemoryBackend \<Rightarrow> uuid \<Rightarrow> datetime \<Rightarrow> json Envelope \<Rightarrow> 'b \<Rightarrow> (ToolError + json Envelope) \<times> 'b" where
  "state_set_invoke mb fresh now env b =
     (let p = env_payload env in
      case rbind (required_str p ''key'') (\<lambda>key.
           rbind (ok_or (missing ''value'') (json_get p ''value'')) (\<lambda>value.
           rbind (required_str p ''session_id'') (\<lambda>session_id. Inr (key, value, session_id)))) of
        Inl e \<Rightarrow> (Inl e, b)
      | Inr (key, value, session_id) \<Rightarrow>
          answer fresh now env (mb_state_set mb key value session_id (get_str p ''namespace'')
            (Option.bind (json_get p ''ttl_seconds'') as_i64) b))"

text \<open>\<open>state:get\<close> and \<open>state:delete\<close> read a key and a session, \<open>state:list\<close> and \<open>state:clear\<close> a session.\<close>

definition key_args :: "json \<Rightarrow> ToolError + string \<times> string" where
  "key_args p =
     rbind (required_str p ''key'') (\<lambda>key.
     rbind (required_str p ''session_id'') (\<lambda>session_id. Inr (key, session_id)))"

definition state_get_invoke ::
  "'b MemoryBackend \<Rightarrow> uuid \<Rightarrow> datetime \<Rightarrow> json Envelope \<Rightarrow> 'b \<Rightarrow> (ToolError + json Envelope) \<times> 'b" where
  "state_get_invoke mb fresh now env b =
     (case key_args (env_payload env) of
        Inl e \<Rightarrow> (Inl e, b)
      | Inr (key, session_id) \<Rightarrow>
          answer fresh now env (mb_state_get mb key session_id (get_str (env_payload env) ''namespace'') b))"

definition state_delete_invoke ::
  "'b MemoryBackend \<Rightarrow> uuid \<Rightarrow> datetime \<Rightarrow> json Envelope \<Rightarrow> 'b \<Rightarrow> (ToolError + json Envelope) \<times> 'b" where
  "state_delete_invoke mb fresh now env b =
     (case key_args (env_payload env) of
        Inl e \<Rightarrow> (Inl e, b)
      | Inr (key, session_id) \<Rightarrow>
          answer fresh now env (mb_state_delete mb key session_id (get_str (env_payload env) ''namespace'') b))"

definition state_list_invoke ::
  "'b MemoryBackend \<Rightarrow> uuid \<Rightarrow> datetime \<Rightarrow> json Envelope \<Rightarrow> 'b \<Rightarrow> (ToolError + json Envelope) \<times> 'b" where
  "state_list_invoke mb fresh now env b =
     (case required_str (env_payload env) ''session_id'' of
        Inl e \<Rightarrow> (Inl e, b)
      | Inr session_id \<Rightarrow>
          answer fresh now env (mb_state_list mb session_id (get_str (env_payload env) ''namespace'') b))"

definition state_clear_invoke ::
  "'b MemoryBackend \<Rightarrow> uuid \<Rightarrow> datetime \<Rightarrow> json Envelope \<Rightarrow> 'b \<Rightarrow> (ToolError + json Envelope) \<times> 'b" where
  "state_clear_invoke mb fresh now env b =
     (case required_str (env_payload env) ''session_id'' of
        Inl e \<Rightarrow> (Inl e, b)
      | Inr session_id \<Rightarrow>
          answer fresh now env (mb_state_clear mb session_id (get_str (env_payload env) ''namespace'') b))"

text \<open>The raw tools of the memory crate by name; \<open>others\<close> are all other tools.\<close>

definition memory_raw ::
  "'b MemoryBackend \<Rightarrow> 'b raw_tool \<Rightarrow> ('b \<Rightarrow> uuid) \<Rightarrow> ('b \<Rightarrow> datetime) \<Rightarrow> 'b raw_tool" where
  "memory_raw mb others fresh now i env b =
     (let name = info_name i in
      if name = ''memory:search'' then search_invoke mb (fresh b) (now b) env b
      else if name = ''memory:store'' then store_invoke mb (fresh b) (now b) env b
      else if name = ''state:set'' then state_set_invoke mb (fresh b) (now b) env b
      else if name = ''state:get'' then state_get_invoke mb (fresh b) (now b) env b
      else if name = ''state:delete'' then state_delete_invoke mb (fresh b) (now b) env b
      else if name = ''state:list'' then state_list_invoke mb (fresh b) (now b) env b
      else if name = ''state:clear'' then state_clear_invoke mb (fresh b) (now b) env b
      else others i env b)"

definition memory_tool_names :: "string list" where
  "memory_tool_names = map info_name (memory_infos [])"

section \<open>Confinement to a namespace\<close>

text \<open>
  \<open>confine ns other mb\<close> is the backend \<open>mb\<close> for operations in the namespace \<open>ns\<close>, and an arbitrary
  other one elsewhere. A call that gives the same result with both never left the namespace.
\<close>

definition confine :: "string \<Rightarrow> 'b MemoryBackend \<Rightarrow> 'b MemoryBackend \<Rightarrow> 'b MemoryBackend" where
  "confine ns other mb =
     (let pick = (\<lambda>n. if n = Some ns then mb else other) in
      \<lparr> mb_search = (\<lambda>p. mb_search (pick (sp_namespace p)) p),
        mb_add_nodes = (\<lambda>nodes n. mb_add_nodes (pick n) nodes n),
        mb_state_set = (\<lambda>k v s n t. mb_state_set (pick n) k v s n t),
        mb_state_get = (\<lambda>k s n. mb_state_get (pick n) k s n),
        mb_state_delete = (\<lambda>k s n. mb_state_delete (pick n) k s n),
        mb_state_list = (\<lambda>s n. mb_state_list (pick n) s n),
        mb_state_clear = (\<lambda>s n. mb_state_clear (pick n) s n),
        mb_supported_search_modes = mb_supported_search_modes mb \<rparr>)"

lemmas memory_invokes =
  search_invoke_def store_invoke_def state_set_invoke_def state_get_invoke_def state_delete_invoke_def
  state_list_invoke_def state_clear_invoke_def

lemma memory_raw_confined:
  assumes "get_str (env_payload env) ''namespace'' = Some ns" "info_name i \<in> set memory_tool_names"
  shows "memory_raw (confine ns other mb) others fresh now i env b = memory_raw mb others' fresh now i env b"
proof -
  have "info_name i \<in> {''memory:search'', ''memory:store'', ''state:set'', ''state:get'', ''state:delete'',
      ''state:list'', ''state:clear''}"
    using assms(2) by (simp add: memory_tool_names_def memory_infos_def catalog_defs)
  then show ?thesis
    using assms(1)
    by (auto simp: memory_raw_def memory_invokes confine_def Let_def search_params_def
        split: option.split sum.split)
qed

lemma inject_bindings_namespace:
  assumes "inject_bindings bs env = Inr env'" "obj_get bs ''namespace'' = Some (JString ns)" "distinct (map fst bs)"
  shows "get_str (env_payload env') ''namespace'' = Some ns"
proof -
  obtain m where "env_payload env' = JObject (fold (\<lambda>(k, v) m. obj_insert k v m) bs m)"
    using assms(1,2) by (auto simp: inject_bindings_def obj_get_def split: if_splits json.splits)
  then show ?thesis
    using assms(2,3) by (simp add: get_str_def obj_get_fold_insert map_of_rev_distinct) (simp add: obj_get_def)
qed

lemma invoke_wrapped_confined:
  assumes "obj_get bs ''namespace'' = Some (JString ns)" "distinct (map fst bs)" "info_name i \<in> set memory_tool_names"
  shows "invoke (memory_raw (confine ns other mb) others fresh now) (wrap_tool guards name bs (RawTool i)) env b =
    invoke (memory_raw mb others' fresh now) (wrap_tool guards name bs (RawTool i)) env b"
  unfolding invoke_wrap_tool
  using memory_raw_confined [OF inject_bindings_namespace [OF _ assms(1,2)] assms(3)]
  by (auto split: sum.split)

text \<open>Dispatching depends on the raw tools only through the call of the wrapped tool.\<close>

lemma de_raw_update:
  "cached_result (de\<lparr> de_raw := r \<rparr>) = cached_result de"
  "dispatch_envelope (de\<lparr> de_raw := r \<rparr>) = dispatch_envelope de"
  "dispatch_interaction (de\<lparr> de_raw := r \<rparr>) = dispatch_interaction de"
  "dispatch_entry (de\<lparr> de_raw := r \<rparr>) = dispatch_entry de"
  "record_dispatch (de\<lparr> de_raw := r \<rparr>) = record_dispatch de"
  by (simp_all add: fun_eq_iff cached_result_def dispatch_envelope_def dispatch_interaction_def dispatch_entry_def
      record_dispatch_def split: option.split)

lemma dispatch_raw_cong:
  assumes "\<And>bs t env b. check_tool scope name = Inr bs \<Longrightarrow> registry_get reg name = Some t \<Longrightarrow>
      invoke raw (wrap_tool (dp_guards dp) name bs t) env b = invoke raw' (wrap_tool (dp_guards dp) name bs t) env b"
  shows "dispatch_tool (de\<lparr> de_raw := raw \<rparr>) name input scope ctx reg dp w =
    dispatch_tool (de\<lparr> de_raw := raw' \<rparr>) name input scope ctx reg dp w"
proof (cases "check_tool scope name")
  case (Inr bs)
  show ?thesis
  proof (cases "registry_get reg name")
    case (Some t)
    note inv = assms [OF Inr Some]
    show ?thesis
      by (simp add: dispatch_tool_def Inr Some Let_def de_raw_update inv split: option.split prod.split)
  qed (simp add: dispatch_tool_def Inr)
qed (simp add: dispatch_tool_def)

section \<open>Property\<close>

text \<open>
  C8. Memory isolation. When the first grant of a scope that matches a memory tool binds
  \<open>namespace\<close>, a dispatch of that tool only ever calls the backend with that namespace: whatever
  the caller put into the payload, the answer, the journal and the effect are those of a backend
  that is arbitrary outside it.
\<close>

theorem memory_calls_stay_in_namespace:
  assumes "check_tool scope name = Inr bs" "obj_get bs ''namespace'' = Some (JString ns)" "distinct (map fst bs)"
    and "registry_get reg name = Some (RawTool i)" "info_name i = name" "name \<in> set memory_tool_names"
  shows "dispatch_tool (de\<lparr> de_raw := memory_raw (confine ns other mb) others fresh now \<rparr>) name input scope ctx reg dp w =
    dispatch_tool (de\<lparr> de_raw := memory_raw mb others fresh now \<rparr>) name input scope ctx reg dp w"
proof (rule dispatch_raw_cong)
  fix bs' t env b
  assume "check_tool scope name = Inr bs'" "registry_get reg name = Some t"
  then have eq: "bs' = bs" "t = RawTool i" using assms(1,4) by simp_all
  have "info_name i \<in> set memory_tool_names" using assms(5,6) by simp
  then show "invoke (memory_raw (confine ns other mb) others fresh now) (wrap_tool (dp_guards dp) name bs' t) env b =
      invoke (memory_raw mb others fresh now) (wrap_tool (dp_guards dp) name bs' t) env b"
    unfolding eq by (rule invoke_wrapped_confined [OF assms(2,3)])
qed

text \<open>A backend that counts the calls it gets, and one that fails.\<close>

definition const_backend :: "(nat \<Rightarrow> (MemoryError + json) \<times> nat) \<Rightarrow> nat MemoryBackend" where
  "const_backend f =
     \<lparr> mb_search = (\<lambda>_. f), mb_add_nodes = (\<lambda>_ _. f), mb_state_set = (\<lambda>_ _ _ _ _. f), mb_state_get = (\<lambda>_ _ _. f),
       mb_state_delete = (\<lambda>_ _ _. f), mb_state_list = (\<lambda>_ _. f), mb_state_clear = (\<lambda>_ _. f),
       mb_supported_search_modes = [] \<rparr>"

definition counting :: "nat MemoryBackend" where
  "counting = const_backend (\<lambda>n. (Inr JNull, Suc n))"

definition failing :: "nat MemoryBackend" where
  "failing = const_backend (\<lambda>n. (Inl (MemUnavailable ''elsewhere''), n))"

definition bound_scope :: ExecutionScope where
  "bound_scope = (dev_scope ''konf'')\<lparr> scope_capabilities := [with_bindings ''*'' [(''namespace'', JString ''konf:a'')]] \<rparr>"

text \<open>The payload names another namespace; the call still reaches the backend under the bound one.\<close>

theorem memory_calls_stay_in_namespace_witness:
  "snd (snd (dispatch_tool (demo_env\<lparr> de_raw := memory_raw (confine ''konf:a'' failing counting) echo_raw (\<lambda>_. 1) (\<lambda>_. 2) \<rparr>)
     ''state:clear'' (JObject [(''namespace'', JString ''konf:b''), (''session_id'', JString ''s'')]) bound_scope
     (new_root 3 ''s'') (register (RawTool StateClearTool_info) []) demo_dispatcher 0)) = 1"
proof -
  let ?reg = "register (RawTool StateClearTool_info) []"
  have c: "check_tool bound_scope ''state:clear'' = Inr [(''namespace'', JString ''konf:a'')]"
    by (simp add: bound_scope_def check_tool_def with_bindings_def CapabilityGrant_matches_def Capability_matches_def)
  have g: "registry_get ?reg ''state:clear'' = Some (RawTool StateClearTool_info)"
    by (simp add: register_def registry_get_def StateClearTool_info_def obj_get_def)
  have n: "info_name StateClearTool_info = ''state:clear''" "''state:clear'' \<in> set memory_tool_names"
    by (simp_all add: memory_tool_names_def memory_infos_def catalog_defs)
  have b: "obj_get [(''namespace'', JString ''konf:a'')] ''namespace'' = Some (JString ''konf:a'')"
    "distinct (map fst [(''namespace'', JString ''konf:a'')])"
    by (simp_all add: obj_get_def)
  show ?thesis
    unfolding memory_calls_stay_in_namespace [OF c b g n]
    unfolding dispatch_world c g
    by (simp add: new_root_def cached_result_def scoped_idempotency_key_def demo_dispatcher_def wrap_tool_def
        wrap_guard_def wrap_bindings_def obj_get_def inject_bindings_def memory_raw_def n(1) state_clear_invoke_def
        required_str_def get_str_def answer_def counting_def const_backend_def)
qed

end
