(* ===== verification/Embed_Tool.thy ===== *)
theory Embed_Tool
  imports Envelope Konf_Errors
begin

text \<open>
  The embedding tool, \<^verbatim>\<open>konf-tool-embed/src/lib.rs\<close>. The model of \<^verbatim>\<open>fastembed\<close> is the argument
  \<open>model\<close>: it takes the texts and gives one vector per text, each number as the JSON value it is
  serialized to. The clock reading is the argument \<open>duration_ms\<close>.
\<close>

datatype EmbedError = EmbedPanicked string | EmbedFailed string

definition embed_texts :: "json \<Rightarrow> ToolError + string list" where
  "embed_texts payload =
     rbind (case Option.bind (json_get payload ''text'') as_str of
              Some t \<Rightarrow> Inr [t]
            | None \<Rightarrow>
                (case Option.bind (json_get payload ''texts'') as_array of
                   Some arr \<Rightarrow> Inr (List.map_filter as_str arr)
                 | None \<Rightarrow> Inl (InvalidInput (''Provide '' @ CHR 0x27 # ''text'' @ CHR 0x27 # '' or '' @
                     CHR 0x27 # ''texts'' @ [CHR 0x27]) None))) (\<lambda>texts.
     if texts = [] then Inl (InvalidInput ''No texts provided'' None) else Inr texts)"

fun embed_error :: "EmbedError \<Rightarrow> ToolError" where
  "embed_error (EmbedPanicked e) = ExecutionFailed (''Embedding task panicked: '' @ e) False"
| "embed_error (EmbedFailed e) = ExecutionFailed (''Embedding failed: '' @ e) False"

definition embed_payload :: "u64 \<Rightarrow> json list list \<Rightarrow> json" where
  "embed_payload duration_ms embeddings =
     JObject (obj_of_list
       [(''embeddings'', JArray (map JArray embeddings)),
        (''dimensions'', JNumber (PosInt (of_nat (case embeddings of e # _ \<Rightarrow> length e | [] \<Rightarrow> 0)))),
        (''count'', JNumber (PosInt (of_nat (length embeddings)))),
        (''_meta'', JObject (obj_of_list
           [(''tool'', JString ''ai:embed''), (''duration_ms'', JNumber (PosInt duration_ms))]))])"

definition embed_invoke ::
  "(string list \<Rightarrow> 'w \<Rightarrow> (EmbedError + json list list) \<times> 'w) \<Rightarrow> u64 \<Rightarrow> uuid \<Rightarrow> datetime \<Rightarrow> json Envelope \<Rightarrow> 'w \<Rightarrow>
   (ToolError + json Envelope) \<times> 'w" where
  "embed_invoke model duration_ms fresh now env w =
     (case embed_texts (env_payload env) of
        Inl e \<Rightarrow> (Inl e, w)
      | Inr texts \<Rightarrow>
          (case model texts w of
             (r, w') \<Rightarrow> (map_ok (\<lambda>es. respond fresh now env (embed_payload duration_ms es)) (map_err embed_error r), w')))"

text \<open>The model is called with at least one text, and never when the input names none.\<close>

lemma embed_needs_text: "embed_texts payload = Inr texts \<Longrightarrow> texts \<noteq> []"
  by (auto simp: embed_texts_def rbind_eq_Inr split: if_splits)

text \<open>Entries of \<open>texts\<close> that are no strings are dropped, so that an answer can have fewer vectors than entries.\<close>

lemma embed_drops_non_strings:
  assumes "json_get payload ''text'' = None" "json_get payload ''texts'' = Some (JArray [JString ''a'', JNull, JString ''b''])"
  shows "embed_texts payload = Inr [''a'', ''b'']"
  using assms by (simp add: embed_texts_def List.map_filter_def)

end
