(* ===== verification/Surreal.thy ===== *)
theory Surreal
  imports Memory_Tools Journal
begin

text \<open>
  The SurrealDB memory backend, \<^verbatim>\<open>konf-tool-memory-surreal/src\<close>: configuration (\<^verbatim>\<open>config.rs\<close>),
  connecting (\<^verbatim>\<open>connect.rs\<close>), the session key-value store (\<^verbatim>\<open>session.rs\<close>), search with
  reciprocal rank fusion (\<^verbatim>\<open>search.rs\<close>), the backend (\<^verbatim>\<open>backend.rs\<close>) and the journal store
  (\<^verbatim>\<open>journal_store.rs\<close>).

  The database is a parameter: a function that executes a statement. The statements the code sends
  are the constructors of \<open>Statement\<close>, one per SurrealQL text, with the values bound to its
  parameters. What the session store relies on is the predicate \<open>surreal_session\<close>, the documented
  effect of \<^verbatim>\<open>DELETE\<close>, \<^verbatim>\<open>CREATE\<close> and \<^verbatim>\<open>SELECT\<close> on the rows of a table, with \<^verbatim>\<open>time::now()\<close> taken
  while the statement runs.
\<close>

section \<open>Configuration\<close>

datatype SurrealMode = Embedded | Memory | Remote

record SurrealConfig =
  sc_mode :: SurrealMode
  sc_path :: "string option"
  sc_endpoint :: "string option"
  sc_username :: "string option"
  sc_password :: "string option"
  sc_namespace :: string
  sc_database :: string
  sc_vector_dimension :: nat
  sc_rrf_k :: i64
  sc_hybrid_candidate_pool :: i64
  sc_default_limit :: i64

definition DEFAULT_NAMESPACE :: string where
  "DEFAULT_NAMESPACE = ''default''"

text \<open>The configuration that an empty section of \<^verbatim>\<open>tools.yaml\<close> gives.\<close>

definition SurrealConfig_defaults :: SurrealConfig where
  "SurrealConfig_defaults =
     \<lparr> sc_mode = Embedded, sc_path = None, sc_endpoint = None, sc_username = None, sc_password = None,
       sc_namespace = ''konf'', sc_database = ''default'', sc_vector_dimension = 768, sc_rrf_k = 60,
       sc_hybrid_candidate_pool = 100, sc_default_limit = 10 \<rparr>"

definition SurrealConfig_validate :: "SurrealConfig \<Rightarrow> string + unit" where
  "SurrealConfig_validate cfg =
     rbind (case sc_mode cfg of
              Embedded \<Rightarrow> if sc_path cfg = None
                          then Inl ''SurrealConfig.path is required when mode = embedded'' else Inr ()
            | Memory \<Rightarrow> Inr ()
            | Remote \<Rightarrow> if sc_endpoint cfg = None
                        then Inl ''SurrealConfig.endpoint is required when mode = remote'' else Inr ()) (\<lambda>_.
     if sc_vector_dimension cfg = 0 then Inl ''SurrealConfig.vector_dimension must be > 0''
     else if sint (sc_rrf_k cfg) \<le> 0 then Inl ''SurrealConfig.rrf_k must be > 0''
     else Inr ())"

section \<open>Statements\<close>

datatype Statement =
    PruneExpired string string
  | DeleteKey string string string
  | CreateState string string string json "i64 option"
  | SelectState string string string
  | SelectKeys string string
  | DeleteSession string string
  | CreateNode string string string json
  | CreateNodeEmbedding string string string json string "fval list"
  | CreateEvent string string json "datetime option"
  | TextSearch string string "string option" int
  | VectorSearch string "fval list" int int int
  | EventsByRun string
  | EventsBySession string nat
  | EventsRecent nat
  | DeleteExpiredEvents
  | UseDatabase string string
  | ApplySchema nat
  | SignIn string string

type_synonym 'd db = "Statement \<Rightarrow> 'd \<Rightarrow> (string + json list) \<times> 'd"

definition map_db_error :: "string \<Rightarrow> MemoryError" where
  "map_db_error err = OperationFailed err"

text \<open>Sending a statement: an error ends the operation.\<close>

definition query :: "'d db \<Rightarrow> Statement \<Rightarrow> (json list \<Rightarrow> 'd memory_op) \<Rightarrow> 'd memory_op" where
  "query db stmt k d =
     (case db stmt d of
        (Inl e, d') \<Rightarrow> (Inl (map_db_error e), d')
      | (Inr rows, d') \<Rightarrow> k rows d')"

definition return_json :: "json \<Rightarrow> 'd memory_op" where
  "return_json j d = (Inr j, d)"

definition resolve_namespace :: "string option \<Rightarrow> string" where
  "resolve_namespace param = (case param of Some ns \<Rightarrow> ns | None \<Rightarrow> DEFAULT_NAMESPACE)"

definition backticked :: "string \<Rightarrow> string" where
  "backticked s = CHR 0x60 # s @ [CHR 0x60]"

definition obj :: "(string \<times> json) list \<Rightarrow> json" where
  "obj kvs = JObject (obj_of_list kvs)"

definition i64_json :: "i64 \<Rightarrow> json" where
  "i64_json i = JNumber (if 0 \<le> sint i then PosInt i else NegInt i)"

definition len_json :: "nat \<Rightarrow> json" where
  "len_json n = JNumber (PosInt (of_nat n))"

definition json_opt :: "json option \<Rightarrow> json" where
  "json_opt x = (case x of Some j \<Rightarrow> j | None \<Rightarrow> JNull)"

section \<open>Session state\<close>

definition session_set ::
  "'d db \<Rightarrow> string \<Rightarrow> json \<Rightarrow> string \<Rightarrow> string option \<Rightarrow> i64 option \<Rightarrow> 'd memory_op" where
  "session_set db key value session_id namespace ttl d =
     (if key = [] then (Inl (MemValidation ''state:set: key must be non-empty''), d)
      else
        (let ns = resolve_namespace namespace;
             positive = (case ttl of Some seconds \<Rightarrow> if sint seconds > 0 then Some seconds else None | None \<Rightarrow> None)
         in query db (DeleteKey ns session_id key) (\<lambda>_.
            query db (CreateState ns session_id key value positive) (\<lambda>_.
            return_json (obj
              [(''key'', JString key), (''session_id'', JString session_id),
               (''_meta'', obj [(''namespace'', JString ns), (''ttl'', json_opt (map_option i64_json ttl))])]))) d))"

definition session_get :: "'d db \<Rightarrow> string \<Rightarrow> string \<Rightarrow> string option \<Rightarrow> 'd memory_op" where
  "session_get db key session_id namespace =
     (let ns = resolve_namespace namespace in
      query db (PruneExpired ns session_id) (\<lambda>_.
      query db (SelectState ns session_id key) (\<lambda>rows.
      return_json (obj
        [(''key'', JString key), (''session_id'', JString session_id),
         (''value'', json_opt (case rows of row # _ \<Rightarrow> json_get row ''sval'' | [] \<Rightarrow> None)),
         (''_meta'', obj [(''namespace'', JString ns)])]))))"

definition session_delete :: "'d db \<Rightarrow> string \<Rightarrow> string \<Rightarrow> string option \<Rightarrow> 'd memory_op" where
  "session_delete db key session_id namespace =
     (let ns = resolve_namespace namespace in
      query db (DeleteKey ns session_id key) (\<lambda>removed.
      return_json (obj
        [(''deleted'', JString key), (''removed_count'', len_json (length removed)),
         (''_meta'', obj [(''namespace'', JString ns)])])))"

definition session_list :: "'d db \<Rightarrow> string \<Rightarrow> string option \<Rightarrow> 'd memory_op" where
  "session_list db session_id namespace =
     (let ns = resolve_namespace namespace in
      query db (PruneExpired ns session_id) (\<lambda>_.
      query db (SelectKeys ns session_id) (\<lambda>rows.
      return_json (obj
        [(''keys'', JArray (List.map_filter (\<lambda>row. json_get row ''skey'') rows)),
         (''_meta'', obj [(''namespace'', JString ns), (''session_id'', JString session_id)])]))))"

definition session_clear :: "'d db \<Rightarrow> string \<Rightarrow> string option \<Rightarrow> 'd memory_op" where
  "session_clear db session_id namespace =
     (let ns = resolve_namespace namespace in
      query db (DeleteSession ns session_id) (\<lambda>removed.
      return_json (obj
        [(''cleared'', len_json (length removed)),
         (''_meta'', obj [(''namespace'', JString ns), (''session_id'', JString session_id)])])))"

section \<open>Scores\<close>

text \<open>Addition and reciprocal of \<^verbatim>\<open>f64\<close>, rounded to nearest, and the number a finite value is written as.\<close>

definition fval_of_scaled :: "int \<Rightarrow> int \<Rightarrow> fval" where
  "fval_of_scaled m e =
     (if e < 0 then round_f64 (m < 0) (nat \<bar>m\<bar>) (2 ^ nat (- e)) else round_f64 (m < 0) (nat \<bar>m\<bar> * 2 ^ nat e) 1)"

fun fval_add :: "fval \<Rightarrow> fval \<Rightarrow> fval" where
  "fval_add (FFin m1 e1) (FFin m2 e2) = (case align m1 e1 m2 e2 of (a, b) \<Rightarrow> fval_of_scaled (a + b) (min e1 e2))"
| "fval_add (FInf n1) (FInf n2) = (if n1 = n2 then FInf n1 else FNaN)"
| "fval_add (FInf n) (FFin _ _) = FInf n"
| "fval_add (FFin _ _) (FInf n) = FInf n"
| "fval_add _ _ = FNaN"

fun fval_recip :: "fval \<Rightarrow> fval" where
  "fval_recip FNaN = FNaN"
| "fval_recip (FInf _) = FFin 0 0"
| "fval_recip (FFin m e) =
     (if m = 0 then FInf False
      else if e < 0 then round_f64 (m < 0) (2 ^ nat (- e)) (nat \<bar>m\<bar>)
      else round_f64 (m < 0) 1 (nat \<bar>m\<bar> * 2 ^ nat e))"

definition encode_f64 :: "int \<Rightarrow> int \<Rightarrow> f64" where
  "encode_f64 m e =
     (let e' = max (-1074) (e + bitlen (nat \<bar>m\<bar>) - 53);
          m' = (if e \<le> e' then \<bar>m\<bar> div 2 ^ nat (e' - e) else \<bar>m\<bar> * 2 ^ nat (e - e'));
          mag = (if m' < 2 ^ 52 then m' else (e' + 1075) * 2 ^ 52 + (m' - 2 ^ 52))
      in word_of_int (if m < 0 then 2 ^ 63 + mag else mag))"

definition json_f64 :: "fval \<Rightarrow> json" where
  "json_f64 x = (case x of FFin m e \<Rightarrow> JNumber (Float (encode_f64 m e)) | _ \<Rightarrow> JNull)"

section \<open>Search\<close>

text \<open>Text search results have no vector; \<open>TextSearch\<close> and \<open>VectorSearch\<close> return ranked rows.\<close>

definition as_f64s :: "json list \<Rightarrow> fval list" where
  "as_f64s arr = List.map_filter as_f64 arr"

definition extract_query_vector :: "SurrealConfig \<Rightarrow> SearchParams \<Rightarrow> MemoryError + fval list option" where
  "extract_query_vector cfg params =
     (case sp_metadata_filter params of
        None \<Rightarrow> Inr None
      | Some mf \<Rightarrow>
          (case Option.bind (json_get mf ''query_vector'') as_array of
             None \<Rightarrow> Inr None
           | Some arr \<Rightarrow>
               (let v = as_f64s arr in
                if length v \<noteq> length arr
                then Inl (MemValidation ''metadata_filter.query_vector must be an array of numbers'')
                else if length v \<noteq> sc_vector_dimension cfg
                then Inl (MemValidation (''query_vector has '' @ show_nat (length v) @ '' dims, expected '' @
                       show_nat (sc_vector_dimension cfg)))
                else Inr (Some v))))"

definition effective_limit :: "SurrealConfig \<Rightarrow> SearchParams \<Rightarrow> int" where
  "effective_limit cfg params =
     max 1 (sint (case sp_limit params of Some l \<Rightarrow> l | None \<Rightarrow> sc_default_limit cfg))"

definition search_result :: "json list \<Rightarrow> (string \<times> json) list \<Rightarrow> json" where
  "search_result rows meta = obj [(''results'', JArray rows), (''_meta'', obj meta)]"

definition text_search :: "'d db \<Rightarrow> SurrealConfig \<Rightarrow> SearchParams \<Rightarrow> 'd memory_op" where
  "text_search db cfg params d =
     (case sp_query params of
        None \<Rightarrow> (Inl (MemValidation (''text search requires '' @ backticked ''query'')), d)
      | Some query_text \<Rightarrow>
          (let ns = resolve_namespace (sp_namespace params) in
           query db (TextSearch ns query_text (sp_node_type params) (effective_limit cfg params)) (\<lambda>rows.
           return_json (search_result rows
             [(''mode'', JString ''text''), (''namespace'', JString ns), (''count'', len_json (length rows))])) d))"

definition vector_search :: "'d db \<Rightarrow> SurrealConfig \<Rightarrow> SearchParams \<Rightarrow> fval list option \<Rightarrow> 'd memory_op" where
  "vector_search db cfg params query_vector d =
     (case query_vector of
        None \<Rightarrow>
          (Inl (MemValidation (''vector search requires '' @ backticked ''metadata_filter.query_vector'' @
             '' (pre-embedded query)'')), d)
      | Some qv \<Rightarrow>
          (let ns = resolve_namespace (sp_namespace params);
               limit = effective_limit cfg params;
               ef = max (sint (sc_hybrid_candidate_pool cfg)) limit
           in query db (VectorSearch ns qv limit ef limit) (\<lambda>rows.
              return_json (search_result rows
                [(''mode'', JString ''vector''), (''namespace'', JString ns), (''count'', len_json (length rows))])) d))"

definition extract_results :: "json \<Rightarrow> json list" where
  "extract_results envelope = (case Option.bind (json_get envelope ''results'') as_array of Some rows \<Rightarrow> rows | None \<Rightarrow> [])"

text \<open>\<open>show_json\<close> is the text form of a value.\<close>

definition row_id :: "(json \<Rightarrow> string) \<Rightarrow> json \<Rightarrow> string" where
  "row_id show_json row = (case json_get row ''id'' of Some v \<Rightarrow> show_json v | None \<Rightarrow> [])"

text \<open>The contribution of the row at a rank, and adding it to the row's entry in the map.\<close>

definition contribution :: "i64 \<Rightarrow> nat \<Rightarrow> fval" where
  "contribution rrf_k rank =
     fval_recip (fval_add (f64_of_int (sint rrf_k)) (fval_add (f64_of_int (int rank)) (f64_of_int 1)))"

fun fuse_row :: "string \<Rightarrow> fval \<Rightarrow> json \<Rightarrow> (string \<times> fval \<times> json) list \<Rightarrow> (string \<times> fval \<times> json) list" where
  "fuse_row i c row [] = [(i, c, row)]"
| "fuse_row i c row ((i', s, row') # m) =
     (if i' = i then (i', fval_add s c, row') # m else (i', s, row') # fuse_row i c row m)"

definition fuse_rows ::
  "(json \<Rightarrow> string) \<Rightarrow> i64 \<Rightarrow> json list \<Rightarrow> (string \<times> fval \<times> json) list \<Rightarrow> (string \<times> fval \<times> json) list" where
  "fuse_rows show_json rrf_k rows m =
     fold (\<lambda>(rank, row). fuse_row (row_id show_json row) (contribution rrf_k rank) row)
       (List.enumerate 0 rows) m"

text \<open>A stable sort by falling score.\<close>

fun insert_ranked :: "fval \<times> json \<Rightarrow> (fval \<times> json) list \<Rightarrow> (fval \<times> json) list" where
  "insert_ranked x [] = [x]"
| "insert_ranked x (y # ys) = (if fval_lt (fst x) (fst y) then y # insert_ranked x ys else x # y # ys)"

definition sort_ranked :: "(fval \<times> json) list \<Rightarrow> (fval \<times> json) list" where
  "sort_ranked xs = foldr insert_ranked xs []"

definition with_score :: "fval \<times> json \<Rightarrow> json" where
  "with_score x =
     (case snd x of
        JObject m \<Rightarrow> JObject (obj_insert ''score'' (json_f64 (fst x)) m)
      | other \<Rightarrow> other)"

text \<open>\<open>listing\<close> is the order in which the hash map gives its values.\<close>

definition rrf_fuse ::
  "(json \<Rightarrow> string) \<Rightarrow> ((string \<times> fval \<times> json) list \<Rightarrow> (string \<times> fval \<times> json) list) \<Rightarrow>
   'd db \<Rightarrow> SurrealConfig \<Rightarrow> SearchParams \<Rightarrow> fval list \<Rightarrow> 'd memory_op" where
  "rrf_fuse show_json listing db cfg params query_vector d =
     (let ns = resolve_namespace (sp_namespace params);
          limit = effective_limit cfg params;
          pool = max (sint (sc_hybrid_candidate_pool cfg)) limit;
          pool_params = params\<lparr> sp_limit := Some (word_of_int pool) \<rparr>
      in case text_search db cfg pool_params d of
           (Inl e, d') \<Rightarrow> (Inl e, d')
         | (Inr text_json, d') \<Rightarrow>
             (case vector_search db cfg pool_params (Some query_vector) d' of
                (Inl e, d'') \<Rightarrow> (Inl e, d'')
              | (Inr vec_json, d'') \<Rightarrow>
                  (let fused = fuse_rows show_json (sc_rrf_k cfg) (extract_results vec_json)
                         (fuse_rows show_json (sc_rrf_k cfg) (extract_results text_json) []);
                       ranked = sort_ranked (map snd (listing fused));
                       results = map with_score (take (nat limit) ranked)
                   in (Inr (search_result results
                         [(''mode'', JString ''hybrid''), (''namespace'', JString ns),
                          (''count'', len_json (length results)), (''rrf_k'', i64_json (sc_rrf_k cfg)),
                          (''pool'', i64_json (word_of_int pool))]), d''))))"

definition hybrid_search ::
  "(json \<Rightarrow> string) \<Rightarrow> ((string \<times> fval \<times> json) list \<Rightarrow> (string \<times> fval \<times> json) list) \<Rightarrow>
   'd db \<Rightarrow> SurrealConfig \<Rightarrow> SearchParams \<Rightarrow> fval list option \<Rightarrow> 'd memory_op" where
  "hybrid_search show_json listing db cfg params query_vector =
     (case (sp_query params, query_vector) of
        (None, None) \<Rightarrow> Pair (Inl (MemValidation (''hybrid search requires either '' @ backticked ''query'' @ '' or '' @
            backticked ''metadata_filter.query_vector'' @ '' or both'')))
      | (Some _, None) \<Rightarrow> text_search db cfg params
      | (None, Some qv) \<Rightarrow> vector_search db cfg params (Some qv)
      | (Some _, Some qv) \<Rightarrow> rrf_fuse show_json listing db cfg params qv)"

definition search_run ::
  "(json \<Rightarrow> string) \<Rightarrow> ((string \<times> fval \<times> json) list \<Rightarrow> (string \<times> fval \<times> json) list) \<Rightarrow>
   'd db \<Rightarrow> SurrealConfig \<Rightarrow> SearchParams \<Rightarrow> 'd memory_op" where
  "search_run show_json listing db cfg params d =
     (let mode = to_lowercase (case sp_mode params of Some m \<Rightarrow> m | None \<Rightarrow> ''text'') in
      case extract_query_vector cfg params of
        Inl e \<Rightarrow> (Inl e, d)
      | Inr query_vector \<Rightarrow>
          if mode = ''text'' then text_search db cfg params d
          else if mode = ''vector'' then vector_search db cfg params query_vector d
          else if mode = ''hybrid'' then hybrid_search show_json listing db cfg params query_vector d
          else (Inl (MemUnsupported (''unknown search mode '' @ backticked mode @ '' '' @ em_dash @ '' supported: text, vector, hybrid'')), d))"

section \<open>The backend\<close>

definition record_event :: "'d db \<Rightarrow> string \<Rightarrow> string \<Rightarrow> json \<Rightarrow> (json list \<Rightarrow> 'd memory_op) \<Rightarrow> 'd memory_op" where
  "record_event db ns event_type payload k = query db (CreateEvent ns event_type payload None) k"

text \<open>The statement that one node of \<open>memory:store\<close> becomes, or why it is refused.\<close>

definition node_statement :: "SurrealConfig \<Rightarrow> string \<Rightarrow> json \<Rightarrow> MemoryError + Statement" where
  "node_statement cfg ns node =
     (case get_str node ''content'' of
        None \<Rightarrow> Inl (MemValidation (''add_nodes: every node must have a '' @ backticked ''content'' @ '' string''))
      | Some content \<Rightarrow>
          (let node_type = (case get_str node ''node_type'' of Some t \<Rightarrow> t | None \<Rightarrow> ''memory'');
               metadata = (case json_get node ''metadata'' of Some m \<Rightarrow> m | None \<Rightarrow> JObject []);
               embedding = (case Option.bind (json_get node ''embedding'') as_array of
                              Some arr \<Rightarrow> as_f64s arr | None \<Rightarrow> []);
               model_name = (case get_str node ''model_name'' of Some m \<Rightarrow> m | None \<Rightarrow> ''default'')
           in if embedding \<noteq> [] \<and> length embedding \<noteq> sc_vector_dimension cfg
              then Inl (MemValidation (''add_nodes: embedding has '' @ show_nat (length embedding) @
                     '' dims, expected '' @ show_nat (sc_vector_dimension cfg)))
              else if embedding \<noteq> []
              then Inr (CreateNodeEmbedding ns node_type content metadata model_name embedding)
              else Inr (CreateNode ns node_type content metadata)))"

fun create_nodes ::
  "'d db \<Rightarrow> SurrealConfig \<Rightarrow> string \<Rightarrow> nat \<Rightarrow> json list \<Rightarrow> (nat \<Rightarrow> 'd memory_op) \<Rightarrow> 'd memory_op" where
  "create_nodes db cfg ns created_count [] k d = k created_count d"
| "create_nodes db cfg ns created_count (node # nodes) k d =
     (case node_statement cfg ns node of
        Inl e \<Rightarrow> (Inl e, d)
      | Inr stmt \<Rightarrow> query db stmt (\<lambda>_. create_nodes db cfg ns (Suc created_count) nodes k) d)"

definition add_nodes :: "'d db \<Rightarrow> SurrealConfig \<Rightarrow> json list \<Rightarrow> string option \<Rightarrow> 'd memory_op" where
  "add_nodes db cfg nodes namespace d =
     (if nodes = [] then (Inl (MemValidation ''add_nodes: nodes array is empty''), d)
      else
        (let ns = resolve_namespace namespace in
         create_nodes db cfg ns 0 nodes (\<lambda>created_count.
         record_event db ns ''nodes_added'' (obj [(''count'', len_json created_count)]) (\<lambda>_.
         return_json (obj [(''added'', len_json created_count), (''_meta'', obj [(''namespace'', JString ns)])]))) d))"

definition surreal_backend ::
  "(json \<Rightarrow> string) \<Rightarrow> ((string \<times> fval \<times> json) list \<Rightarrow> (string \<times> fval \<times> json) list) \<Rightarrow>
   'd db \<Rightarrow> SurrealConfig \<Rightarrow> 'd MemoryBackend" where
  "surreal_backend show_json listing db cfg =
     \<lparr> mb_search = search_run show_json listing db cfg, mb_add_nodes = add_nodes db cfg,
       mb_state_set = session_set db, mb_state_get = session_get db, mb_state_delete = session_delete db,
       mb_state_list = session_list db, mb_state_clear = session_clear db,
       mb_supported_search_modes = [''text'', ''vector'', ''hybrid''] \<rparr>"

section \<open>Connecting\<close>

text \<open>
  The driver opens a connection by its address and signs in. \<open>open_db\<close> gives the state of the
  connected database; \<open>SignIn\<close>, \<open>UseDatabase\<close> and \<open>ApplySchema\<close> stand for the calls that follow.
  The code words the failure to send the schema and a failure that its result reports differently;
  both have the first wording here.
\<close>

definition send :: "'d db \<Rightarrow> Statement \<Rightarrow> string \<Rightarrow> 'd \<Rightarrow> string + 'd" where
  "send db stmt context d = (case db stmt d of (Inl e, _) \<Rightarrow> Inl (context @ e) | (Inr _, d') \<Rightarrow> Inr d')"

definition connection_string :: "SurrealConfig \<Rightarrow> string + string" where
  "connection_string cfg =
     (case sc_mode cfg of
        Embedded \<Rightarrow> map_ok (\<lambda>path. ''rocksdb://'' @ path) (ok_or ''embedded mode requires path'' (sc_path cfg))
      | Memory \<Rightarrow> Inr ''mem://''
      | Remote \<Rightarrow> ok_or ''remote mode requires endpoint'' (sc_endpoint cfg))"

definition open_connection :: "(string \<Rightarrow> string + 'd) \<Rightarrow> 'd db \<Rightarrow> SurrealConfig \<Rightarrow> string + 'd" where
  "open_connection open_db db cfg =
     rbind (connection_string cfg) (\<lambda>address.
     rbind (map_err (\<lambda>e. ''failed to open SurrealDB connection ('' @ address @ ''): '' @ e) (open_db address)) (\<lambda>d.
     case (sc_mode cfg, sc_username cfg, sc_password cfg) of
       (Remote, Some user, Some pass) \<Rightarrow> send db (SignIn user pass) ''surrealdb signin failed: '' d
     | _ \<Rightarrow> Inr d))"

text \<open>What \<open>connect\<close> and \<open>connect_journal\<close> share: configuration, connection, database, schema.\<close>

definition connect_with ::
  "(json \<Rightarrow> string + SurrealConfig) \<Rightarrow> (string \<Rightarrow> string + 'd) \<Rightarrow> 'd db \<Rightarrow> json \<Rightarrow> string + SurrealConfig \<times> 'd" where
  "connect_with parse_config open_db db config =
     rbind (map_err (\<lambda>e. ''invalid SurrealConfig: '' @ e) (parse_config config)) (\<lambda>cfg.
     rbind (map_err (\<lambda>e. ''invalid SurrealConfig: '' @ e) (SurrealConfig_validate cfg)) (\<lambda>_.
     rbind (open_connection open_db db cfg) (\<lambda>d.
     rbind (send db (UseDatabase (sc_namespace cfg) (sc_database cfg))
       (''failed to select namespace='' @ sc_namespace cfg @ '', database='' @ sc_database cfg @ '': '') d) (\<lambda>d.
     rbind (send db (ApplySchema (sc_vector_dimension cfg)) ''failed to apply SurrealDB schema: '' d) (\<lambda>d.
     Inr (cfg, d))))))"

definition surreal_connect ::
  "(json \<Rightarrow> string) \<Rightarrow> ((string \<times> fval \<times> json) list \<Rightarrow> (string \<times> fval \<times> json) list) \<Rightarrow>
   (json \<Rightarrow> string + SurrealConfig) \<Rightarrow> (string \<Rightarrow> string + 'd) \<Rightarrow> 'd db \<Rightarrow> json \<Rightarrow> string + 'd MemoryBackend \<times> 'd" where
  "surreal_connect show_json listing parse_config open_db db config =
     map_ok (\<lambda>(cfg, d). (surreal_backend show_json listing db cfg, d)) (connect_with parse_config open_db db config)"

section \<open>The journal store\<close>

record 'd SurrealJournalStore =
  sjs_db :: 'd
  sjs_counter :: u64

definition SurrealJournalStore_new :: "'d \<Rightarrow> 'd SurrealJournalStore" where
  "SurrealJournalStore_new d = \<lparr> sjs_db = d, sjs_counter = 0 \<rparr>"

definition connect_journal ::
  "(json \<Rightarrow> string + SurrealConfig) \<Rightarrow> (string \<Rightarrow> string + 'd) \<Rightarrow> 'd db \<Rightarrow> json \<Rightarrow> string + 'd SurrealJournalStore" where
  "connect_journal parse_config open_db db config =
     map_ok (\<lambda>(cfg, d). SurrealJournalStore_new d) (connect_with parse_config open_db db config)"

text \<open>\<open>show_uuid\<close> and \<open>parse_uuid\<close> are the text form of a UUID, \<open>parse_time\<close> that of a time.\<close>

record RawEventRow =
  rw_namespace :: string
  rw_event_type :: string
  rw_payload :: json
  rw_created_at :: datetime
  rw_valid_to :: "datetime option"
  rw_idempotency_key :: "string option"

definition parse_event_row :: "(string \<Rightarrow> datetime option) \<Rightarrow> json \<Rightarrow> RawEventRow option" where
  "parse_event_row parse_time row =
     (let time = (\<lambda>j. Option.bind (as_str j) parse_time) in
      Option.bind (get_str row ''namespace'') (\<lambda>ns.
      Option.bind (get_str row ''event_type'') (\<lambda>et.
      Option.bind (json_get row ''payload'') (\<lambda>p.
      Option.bind (Option.bind (json_get row ''created_at'') time) (\<lambda>created.
      Option.bind (optional_field time (json_get row ''valid_to'')) (\<lambda>vt.
      Option.bind (optional_field as_str (json_get row ''idempotency_key'')) (\<lambda>key.
      Some \<lparr> rw_namespace = ns, rw_event_type = et, rw_payload = p, rw_created_at = created, rw_valid_to = vt,
             rw_idempotency_key = key \<rparr>)))))))"

definition into_journal_row :: "(string \<Rightarrow> uuid option) \<Rightarrow> RawEventRow \<Rightarrow> JournalRow" where
  "into_journal_row parse_uuid raw =
     (let field = json_get (rw_payload raw) in
      \<lparr> jr_id = (case Option.bind (field ''seq'') as_u64 of Some n \<Rightarrow> n | None \<Rightarrow> 0),
        jr_run_id = Option.bind (Option.bind (field ''run_id'') as_str) parse_uuid,
        jr_session_id = (case Option.bind (field ''session_id'') as_str of Some s \<Rightarrow> s | None \<Rightarrow> []),
        jr_namespace = rw_namespace raw,
        jr_event_type = rw_event_type raw,
        jr_payload = json_opt (field ''data''),
        jr_created_at = rw_created_at raw,
        jr_valid_to = rw_valid_to raw,
        jr_idempotency_key = rw_idempotency_key raw \<rparr>)"

definition rows_into_journal ::
  "(string \<Rightarrow> datetime option) \<Rightarrow> (string \<Rightarrow> uuid option) \<Rightarrow> json list \<Rightarrow> JournalRow list" where
  "rows_into_journal parse_time parse_uuid rows =
     map (into_journal_row parse_uuid) (List.map_filter (parse_event_row parse_time) rows)"

definition event_payload :: "(uuid \<Rightarrow> string) \<Rightarrow> u64 \<Rightarrow> JournalEntry \<Rightarrow> json" where
  "event_payload show_uuid sq entry =
     obj [(''seq'', JNumber (PosInt sq)),
          (''run_id'', json_opt (map_option (\<lambda>i. JString (show_uuid i)) (je_run_id entry))),
          (''session_id'', JString (je_session_id entry)), (''data'', je_payload entry)]"

text \<open>A call that sends one statement and reads its rows.\<close>

definition events_query ::
  "'d db \<Rightarrow> Statement \<Rightarrow> (json list \<Rightarrow> 'a) \<Rightarrow> 'd SurrealJournalStore \<Rightarrow> (JournalError + 'a) \<times> 'd SurrealJournalStore" where
  "events_query db stmt f s =
     (case db stmt (sjs_db s) of (r, d') \<Rightarrow> (map_ok f (map_err JStorage r), s\<lparr> sjs_db := d' \<rparr>))"

definition surreal_append ::
  "(uuid \<Rightarrow> string) \<Rightarrow> 'd db \<Rightarrow> JournalEntry \<Rightarrow> 'd SurrealJournalStore \<Rightarrow> (JournalError + u64) \<times> 'd SurrealJournalStore" where
  "surreal_append show_uuid db entry s =
     (let sq = sjs_counter s in
      events_query db
        (CreateEvent (je_namespace entry) (je_event_type entry) (event_payload show_uuid sq entry) (je_valid_to entry))
        (\<lambda>_. sq) (s\<lparr> sjs_counter := sq + 1 \<rparr>))"

definition surreal_query_by_run ::
  "(string \<Rightarrow> datetime option) \<Rightarrow> (string \<Rightarrow> uuid option) \<Rightarrow> (uuid \<Rightarrow> string) \<Rightarrow> 'd db \<Rightarrow> RunId \<Rightarrow>
   'd SurrealJournalStore \<Rightarrow> (JournalError + JournalRow list) \<times> 'd SurrealJournalStore" where
  "surreal_query_by_run parse_time parse_uuid show_uuid db rid =
     events_query db (EventsByRun (show_uuid rid)) (rows_into_journal parse_time parse_uuid)"

definition surreal_query_by_session ::
  "(string \<Rightarrow> datetime option) \<Rightarrow> (string \<Rightarrow> uuid option) \<Rightarrow> 'd db \<Rightarrow> string \<Rightarrow> nat \<Rightarrow>
   'd SurrealJournalStore \<Rightarrow> (JournalError + JournalRow list) \<times> 'd SurrealJournalStore" where
  "surreal_query_by_session parse_time parse_uuid db session_id limit =
     events_query db (EventsBySession session_id limit) (rows_into_journal parse_time parse_uuid)"

definition surreal_recent ::
  "(string \<Rightarrow> datetime option) \<Rightarrow> (string \<Rightarrow> uuid option) \<Rightarrow> 'd db \<Rightarrow> nat \<Rightarrow>
   'd SurrealJournalStore \<Rightarrow> (JournalError + JournalRow list) \<times> 'd SurrealJournalStore" where
  "surreal_recent parse_time parse_uuid db limit =
     events_query db (EventsRecent limit) (rows_into_journal parse_time parse_uuid)"

definition surreal_delete_expired ::
  "'d db \<Rightarrow> 'd SurrealJournalStore \<Rightarrow> (JournalError + u64) \<times> 'd SurrealJournalStore" where
  "surreal_delete_expired db = events_query db DeleteExpiredEvents (\<lambda>deleted. of_nat (length deleted))"

definition surreal_reconcile_zombies ::
  "'d SurrealJournalStore \<Rightarrow> (JournalError + u64) \<times> 'd SurrealJournalStore" where
  "surreal_reconcile_zombies s = (Inr 0, s)"

section \<open>Reading a journal entry back\<close>

text \<open>
  A row of the event table gives back the entry it was written for, but for its idempotency key: the
  statement of \<open>append\<close> does not bind it, and the table has no such field.
\<close>

lemma surreal_journal_roundtrip:
  assumes "\<And>i. parse_uuid (show_uuid i) = Some i"
  shows "into_journal_row parse_uuid
      \<lparr> rw_namespace = je_namespace e, rw_event_type = je_event_type e, rw_payload = event_payload show_uuid sq e,
        rw_created_at = t, rw_valid_to = je_valid_to e, rw_idempotency_key = None \<rparr> =
    \<lparr> jr_id = sq, jr_run_id = je_run_id e, jr_session_id = je_session_id e, jr_namespace = je_namespace e,
      jr_event_type = je_event_type e, jr_payload = je_payload e, jr_created_at = t, jr_valid_to = je_valid_to e,
      jr_idempotency_key = None \<rparr>"
  by (cases "je_run_id e")
    (simp_all add: into_journal_row_def event_payload_def obj_def obj_of_list_def obj_get_def json_opt_def assms)

end
