(* ===== verification/Session_Store.thy ===== *)
theory Session_Store
  imports Surreal
begin

text \<open>
  The session key-value store of \<open>Surreal\<close> against its contract. The abstract store is a map that
  never forgets: an entry is a value with an optional expiry, and an entry is \<open>live\<close> at a time that
  is not past its expiry. \<open>session_spec\<close> says what each operation may answer and do to the map,
  failures of the database included. The code keeps a table, drops expired rows only when a session
  is read, and writes by a delete and a create; \<open>surreal_session\<close> is what it relies on of the database.
\<close>

section \<open>The database\<close>

record StateRow =
  row_ns :: string
  row_sid :: string
  row_key :: string
  row_val :: json
  row_expires :: "datetime option"

definition row_at :: "StateRow \<Rightarrow> string \<times> string \<times> string" where
  "row_at r = (row_ns r, row_sid r, row_key r)"

definition in_session :: "string \<Rightarrow> string \<Rightarrow> StateRow \<Rightarrow> bool" where
  "in_session ns sid r \<longleftrightarrow> row_ns r = ns \<and> row_sid r = sid"

definition past :: "datetime option \<Rightarrow> datetime \<Rightarrow> bool" where
  "past expires t = (case expires of Some x \<Rightarrow> x < t | None \<Rightarrow> False)"

definition expiry :: "datetime \<Rightarrow> i64 option \<Rightarrow> datetime option" where
  "expiry t ttl = map_option (\<lambda>s. t + sint s * 1000000000) ttl"

text \<open>
  The effect of a statement on the rows of \<open>session_state\<close>, with the rows it returns. The time is
  the \<^verbatim>\<open>time::now()\<close> of the statement.
\<close>

fun session_effect :: "Statement \<Rightarrow> datetime \<Rightarrow> StateRow list \<Rightarrow> json list \<Rightarrow> StateRow list \<Rightarrow> bool" where
  "session_effect (PruneExpired ns sid) t rs out rs' \<longleftrightarrow>
     rs' = List.filter (\<lambda>r. \<not> (in_session ns sid r \<and> past (row_expires r) t)) rs"
| "session_effect (DeleteKey ns sid k) t rs out rs' \<longleftrightarrow>
     rs' = List.filter (\<lambda>r. row_at r \<noteq> (ns, sid, k)) rs \<and>
     length out = length (List.filter (\<lambda>r. row_at r = (ns, sid, k)) rs)"
| "session_effect (CreateState ns sid k v ttl) t rs out rs' \<longleftrightarrow>
     rs' = rs @ [\<lparr> row_ns = ns, row_sid = sid, row_key = k, row_val = v, row_expires = expiry t ttl \<rparr>]"
| "session_effect (SelectState ns sid k) t rs out rs' \<longleftrightarrow>
     rs' = rs \<and>
     out = map (\<lambda>r. obj [(''sval'', row_val r)]) (take 1 (List.filter (\<lambda>r. row_at r = (ns, sid, k)) rs))"
| "session_effect (SelectKeys ns sid) t rs out rs' \<longleftrightarrow>
     rs' = rs \<and>
     out = map (\<lambda>k. obj [(''skey'', JString k)]) (sort (map row_key (List.filter (in_session ns sid) rs)))"
| "session_effect (DeleteSession ns sid) t rs out rs' \<longleftrightarrow>
     rs' = List.filter (\<lambda>r. \<not> in_session ns sid r) rs \<and>
     length out = length (List.filter (in_session ns sid) rs)"
| "session_effect _ t rs out rs' \<longleftrightarrow> True"

definition surreal_session :: "'d db \<Rightarrow> ('d \<Rightarrow> StateRow list) \<Rightarrow> ('d \<Rightarrow> datetime) \<Rightarrow> bool" where
  "surreal_session db rows clock \<longleftrightarrow>
     (\<forall>stmt d r d'. db stmt d = (r, d') \<longrightarrow> clock d \<le> clock d' \<and>
        (case r of
           Inl e \<Rightarrow> rows d' = rows d
         | Inr out \<Rightarrow> \<exists>t. clock d \<le> t \<and> t \<le> clock d' \<and> session_effect stmt t (rows d) out (rows d')))"

section \<open>The contract\<close>

type_synonym session_key = "string \<times> string \<times> string"
type_synonym session_map = "session_key \<rightharpoonup> json \<times> datetime option"

definition live :: "datetime \<Rightarrow> session_map \<Rightarrow> session_key \<Rightarrow> json option" where
  "live t A k = (case A k of Some (v, e) \<Rightarrow> if past e t then None else Some v | None \<Rightarrow> None)"

datatype session_op =
    SetOp string json string "string option" "i64 option"
  | GetOp string string "string option"
  | DeleteOp string string "string option"
  | ListOp string "string option"
  | ClearOp string "string option"

fun session_exec :: "'d db \<Rightarrow> session_op \<Rightarrow> 'd memory_op" where
  "session_exec db (SetOp key v sid ns ttl) = session_set db key v sid ns ttl"
| "session_exec db (GetOp key sid ns) = session_get db key sid ns"
| "session_exec db (DeleteOp key sid ns) = session_delete db key sid ns"
| "session_exec db (ListOp sid ns) = session_list db sid ns"
| "session_exec db (ClearOp sid ns) = session_clear db sid ns"

definition positive_ttl :: "i64 option \<Rightarrow> i64 option" where
  "positive_ttl ttl = (case ttl of Some s \<Rightarrow> if sint s > 0 then Some s else None | None \<Rightarrow> None)"

definition set_answer :: "string \<Rightarrow> string \<Rightarrow> string \<Rightarrow> i64 option \<Rightarrow> json" where
  "set_answer key sid ns ttl =
     obj [(''key'', JString key), (''session_id'', JString sid),
          (''_meta'', obj [(''namespace'', JString ns), (''ttl'', json_opt (map_option i64_json ttl))])]"

definition get_answer :: "string \<Rightarrow> string \<Rightarrow> string \<Rightarrow> json option \<Rightarrow> json" where
  "get_answer key sid ns v =
     obj [(''key'', JString key), (''session_id'', JString sid), (''value'', json_opt v),
          (''_meta'', obj [(''namespace'', JString ns)])]"

definition delete_answer :: "string \<Rightarrow> string \<Rightarrow> nat \<Rightarrow> json" where
  "delete_answer key ns n =
     obj [(''deleted'', JString key), (''removed_count'', len_json n), (''_meta'', obj [(''namespace'', JString ns)])]"

definition list_answer :: "string \<Rightarrow> string \<Rightarrow> string list \<Rightarrow> json" where
  "list_answer sid ns ks =
     obj [(''keys'', JArray (map JString ks)), (''_meta'', obj [(''namespace'', JString ns), (''session_id'', JString sid)])]"

definition clear_answer :: "string \<Rightarrow> string \<Rightarrow> nat \<Rightarrow> json" where
  "clear_answer sid ns n =
     obj [(''cleared'', len_json n), (''_meta'', obj [(''namespace'', JString ns), (''session_id'', JString sid)])]"

text \<open>
  \<open>session_spec t op A r A'\<close>: at the time \<open>t\<close> the operation may answer \<open>r\<close> and turn the map \<open>A\<close>
  into \<open>A'\<close>. A removed count covers every live entry and possibly expired ones that are still in
  the table. A failed operation changes nothing, except that a failed \<open>set\<close> may lose the key.
\<close>

inductive session_spec :: "datetime \<Rightarrow> session_op \<Rightarrow> session_map \<Rightarrow> MemoryError + json \<Rightarrow> session_map \<Rightarrow> bool" where
  spec_empty_key: "session_spec t (SetOp [] v sid n ttl) A (Inl (MemValidation ''state:set: key must be non-empty'')) A"
| spec_set: "key \<noteq> [] \<Longrightarrow> ns = resolve_namespace n \<Longrightarrow>
    session_spec t (SetOp key v sid n ttl) A (Inr (set_answer key sid ns ttl))
      (A((ns, sid, key) \<mapsto> (v, expiry t (positive_ttl ttl))))"
| spec_set_lost: "key \<noteq> [] \<Longrightarrow>
    session_spec t (SetOp key v sid n ttl) A (Inl (OperationFailed e)) (A((resolve_namespace n, sid, key) := None))"
| spec_get: "ns = resolve_namespace n \<Longrightarrow>
    session_spec t (GetOp key sid n) A (Inr (get_answer key sid ns (live t A (ns, sid, key)))) A"
| spec_delete: "ns = resolve_namespace n \<Longrightarrow>
    (live t A (ns, sid, key) \<noteq> None \<Longrightarrow> m = 1) \<Longrightarrow> (A (ns, sid, key) = None \<Longrightarrow> m = 0) \<Longrightarrow> m \<le> 1 \<Longrightarrow>
    session_spec t (DeleteOp key sid n) A (Inr (delete_answer key ns m)) (A((ns, sid, key) := None))"
| spec_list: "ns = resolve_namespace n \<Longrightarrow> sorted ks \<Longrightarrow> distinct ks \<Longrightarrow>
    set ks = {k. live t A (ns, sid, k) \<noteq> None} \<Longrightarrow>
    session_spec t (ListOp sid n) A (Inr (list_answer sid ns ks)) A"
| spec_clear: "ns = resolve_namespace n \<Longrightarrow> finite S \<Longrightarrow> {k. live t A (ns, sid, k) \<noteq> None} \<subseteq> S \<Longrightarrow>
    S \<subseteq> {k. A (ns, sid, k) \<noteq> None} \<Longrightarrow>
    session_spec t (ClearOp sid n) A (Inr (clear_answer sid ns (card S)))
      (\<lambda>k. if fst k = ns \<and> fst (snd k) = sid then None else A k)"
| spec_failed: "session_spec t op A (Inl (OperationFailed e)) A"

fun session_run :: "'d db \<Rightarrow> session_op list \<Rightarrow> 'd \<Rightarrow> (MemoryError + json) list \<times> 'd" where
  "session_run db [] d = ([], d)"
| "session_run db (op # ops) d =
     (case session_exec db op d of (r, d1) \<Rightarrow> (case session_run db ops d1 of (rs, d2) \<Rightarrow> (r # rs, d2)))"

fun session_spec_run :: "datetime list \<Rightarrow> session_op list \<Rightarrow> session_map \<Rightarrow> (MemoryError + json) list \<Rightarrow> bool" where
  "session_spec_run [] [] A [] \<longleftrightarrow> True"
| "session_spec_run (t # ts) (op # ops) A (r # rs) \<longleftrightarrow> (\<exists>A'. session_spec t op A r A' \<and> session_spec_run ts ops A' rs)"
| "session_spec_run _ _ _ _ \<longleftrightarrow> False"

section \<open>The table and the map\<close>

definition table_rel :: "session_map \<Rightarrow> StateRow list \<Rightarrow> datetime \<Rightarrow> bool" where
  "table_rel A rs c \<longleftrightarrow>
     distinct (map row_at rs) \<and>
     (\<forall>r \<in> set rs. A (row_at r) = Some (row_val r, row_expires r)) \<and>
     (\<forall>k v e. A k = Some (v, e) \<longrightarrow> \<not> past e c \<longrightarrow> k \<in> row_at ` set rs)"

lemma past_mono: "past e c \<Longrightarrow> c \<le> c' \<Longrightarrow> past e c'"
  by (auto simp: past_def split: option.splits)

lemma table_rel_mono: "table_rel A rs c \<Longrightarrow> c \<le> c' \<Longrightarrow> table_rel A rs c'"
  unfolding table_rel_def by (blast dest: past_mono)

lemma table_rel_prune:
  assumes "table_rel A rs c" "c \<le> t" "t \<le> c'"
  shows "table_rel A (List.filter (\<lambda>r. \<not> (in_session ns sid r \<and> past (row_expires r) t)) rs) c'"
  unfolding table_rel_def
proof (intro conjI allI impI)
  fix k v e
  assume *: "A k = Some (v, e)" "\<not> past e c'"
  then have live: "\<not> past e c" "\<not> past e t"
    using assms(2,3) by (auto dest: past_mono)
  then obtain r where "r \<in> set rs" "k = row_at r"
    using assms(1) *(1) unfolding table_rel_def by blast
  moreover have "row_expires r = e"
    using assms(1) *(1) calculation unfolding table_rel_def by force
  ultimately show "k \<in> row_at ` set (List.filter (\<lambda>r. \<not> (in_session ns sid r \<and> past (row_expires r) t)) rs)"
    using live by auto
qed (use assms(1) in \<open>auto simp: table_rel_def intro: distinct_map_filter\<close>)

lemma table_rel_remove:
  assumes "table_rel A rs c"
  shows "table_rel (\<lambda>k. if P k then None else A k) (List.filter (\<lambda>r. \<not> P (row_at r)) rs) c"
  unfolding table_rel_def
proof (intro conjI allI impI)
  fix k v e
  assume "(if P k then None else A k) = Some (v, e)" "\<not> past e c"
  then have "\<not> P k" "A k = Some (v, e)" "\<not> past e c" by (auto split: if_splits)
  then have "\<not> P k" "k \<in> row_at ` set rs" using assms unfolding table_rel_def by blast+
  then show "k \<in> row_at ` set (List.filter (\<lambda>r. \<not> P (row_at r)) rs)" by auto
qed (use assms in \<open>auto simp: table_rel_def intro: distinct_map_filter\<close>)

lemma table_rel_create:
  assumes "table_rel A rs c" "row_at r \<notin> row_at ` set rs"
  shows "table_rel (A(row_at r \<mapsto> (row_val r, row_expires r))) (rs @ [r]) c"
  unfolding table_rel_def
proof (intro conjI ballI allI impI)
  fix r'
  assume "r' \<in> set (rs @ [r])"
  then consider "r' = r" | "r' \<in> set rs" "row_at r' \<noteq> row_at r" using assms(2)
    by (metis image_eqI in_set_conv_decomp rotate1.simps(2) set_ConsD set_rotate1)
  then show "(A(row_at r \<mapsto> (row_val r, row_expires r))) (row_at r') = Some (row_val r', row_expires r')"
    using assms(1) by cases (auto simp: table_rel_def)
qed (use assms in \<open>auto simp: table_rel_def split: if_splits\<close>)

lemma row_in_table:
  assumes "table_rel A rs c" "r \<in> set rs"
  shows "A (row_at r) = Some (row_val r, row_expires r)"
  using assms unfolding table_rel_def by blast

lemma rows_at_key:
  assumes "table_rel A rs c"
  shows "List.filter (\<lambda>r. row_at r = k) rs = [] \<or>
    (\<exists>r. List.filter (\<lambda>r. row_at r = k) rs = [r] \<and> r \<in> set rs \<and> row_at r = k)"
proof (cases "List.filter (\<lambda>r. row_at r = k) rs")
  case (Cons r rest)
  have "distinct (map row_at (r # rest))"
    using assms distinct_map_filter [of row_at rs] unfolding table_rel_def Cons [symmetric] by blast
  moreover have sub: "set (r # rest) \<subseteq> {r \<in> set rs. row_at r = k}" unfolding Cons [symmetric] by auto
  ultimately have "rest = []" by (cases rest) auto
  with Cons sub show ?thesis by auto
qed simp

text \<open>After a prune at \<open>t\<close>, a session's rows are its live entries at \<open>t\<close>.\<close>

lemma pruned_live:
  assumes "table_rel A rs c" "c \<le> t" "ns = fst k" "sid = fst (snd k)"
    and "rs' = List.filter (\<lambda>r. \<not> (in_session ns sid r \<and> past (row_expires r) t)) rs"
  shows "live t A k = Some v \<longleftrightarrow> (\<exists>r \<in> set rs'. row_at r = k \<and> row_val r = v)"
proof
  assume "live t A k = Some v"
  then obtain e where e: "A k = Some (v, e)" "\<not> past e t"
    by (auto simp: live_def split: option.splits prod.splits if_splits)
  then have "\<not> past e c" using assms(2) past_mono by blast
  with e obtain r where r: "r \<in> set rs" "row_at r = k"
    using assms(1) unfolding table_rel_def by blast
  then have "row_val r = v" "row_expires r = e" using row_in_table [OF assms(1) r(1)] e(1) by simp_all
  then show "\<exists>r \<in> set rs'. row_at r = k \<and> row_val r = v" using r e(2) assms(5) by auto
next
  assume "\<exists>r \<in> set rs'. row_at r = k \<and> row_val r = v"
  then obtain r where r: "r \<in> set rs'" "row_at r = k" "row_val r = v" by blast
  then have "r \<in> set rs" "\<not> past (row_expires r) t"
    using assms(3,4,5) by (auto simp: in_session_def row_at_def)
  then show "live t A k = Some v" using row_in_table [OF assms(1)] r by (auto simp: live_def)
qed

lemma live_stored: "live t A k \<noteq> None \<Longrightarrow> A k \<noteq> None"
  by (auto simp: live_def split: option.splits)

lemma live_in_table:
  assumes "table_rel A rs c" "c \<le> t" "live t A k \<noteq> None"
  shows "k \<in> row_at ` set rs"
proof -
  obtain v e where "A k = Some (v, e)" "\<not> past e t"
    using assms(3) by (auto simp: live_def split: option.splits prod.splits if_splits)
  then show ?thesis using assms(1,2) past_mono unfolding table_rel_def by blast
qed

section \<open>Each operation\<close>

lemma query_cases:
  assumes "surreal_session db rows clock" "query db stmt k d = (r, d'')"
  shows "(\<exists>e. r = Inl (OperationFailed e) \<and> rows d'' = rows d \<and> clock d \<le> clock d'') \<or>
    (\<exists>out d' t. k out d' = (r, d'') \<and> clock d \<le> t \<and> t \<le> clock d' \<and> session_effect stmt t (rows d) out (rows d'))"
proof (cases "db stmt d")
  case (Pair r' d')
  then have c: "clock d \<le> clock d'" "case r' of Inl e \<Rightarrow> rows d' = rows d
      | Inr out \<Rightarrow> \<exists>t. clock d \<le> t \<and> t \<le> clock d' \<and> session_effect stmt t (rows d) out (rows d')"
    using assms(1) unfolding surreal_session_def by blast+
  then show ?thesis
    using assms(2) Pair by (cases r') (auto simp: query_def map_db_error_def)
qed

definition simulated ::
  "('d \<Rightarrow> StateRow list) \<Rightarrow> ('d \<Rightarrow> datetime) \<Rightarrow> session_op \<Rightarrow> session_map \<Rightarrow> 'd \<Rightarrow> MemoryError + json \<Rightarrow> 'd \<Rightarrow> bool" where
  "simulated rows clock op A d r d' \<longleftrightarrow>
     (\<exists>t A'. clock d \<le> t \<and> t \<le> clock d' \<and> session_spec t op A r A' \<and> table_rel A' (rows d') (clock d'))"

lemma simulatedI:
  "session_spec t op A r A' \<Longrightarrow> table_rel A' (rows d') c \<Longrightarrow> c \<le> clock d' \<Longrightarrow> clock d \<le> t \<Longrightarrow> t \<le> clock d' \<Longrightarrow>
   simulated rows clock op A d r d'"
  unfolding simulated_def by (blast intro: table_rel_mono)

lemma failed_simulated:
  "table_rel A (rows d') c \<Longrightarrow> c \<le> clock d' \<Longrightarrow> clock d \<le> clock d' \<Longrightarrow>
   simulated rows clock op A d (Inl (OperationFailed e)) d'"
  by (rule simulatedI [OF spec_failed, where t = "clock d'"]) auto

lemma set_simulated:
  assumes db: "surreal_session db rows clock" and rel: "table_rel A (rows d) (clock d)"
    and run: "session_set db key v sid n ttl d = (r, d')"
  shows "simulated rows clock (SetOp key v sid n ttl) A d r d'"
proof (cases "key = []")
  case True
  with run have "r = Inl (MemValidation ''state:set: key must be non-empty'')" "d' = d"
    by (simp_all add: session_set_def)
  with True show ?thesis
    using simulatedI [of _ _ _ _ A rows d "clock d", OF _ rel] spec_empty_key by blast
next
  case False
  let ?ns = "resolve_namespace n"
  let ?k = "(?ns, sid, key)"
  define A1 where "A1 = A(?k := None)"
  have A1: "A1 = (\<lambda>k. if k = ?k then None else A k)" by (auto simp: A1_def)
  have q: "query db (DeleteKey ?ns sid key) (\<lambda>_. query db (CreateState ?ns sid key v (positive_ttl ttl)) (\<lambda>_.
      return_json (set_answer key sid ?ns ttl))) d = (r, d')"
    using run False by (simp add: session_set_def Let_def positive_ttl_def set_answer_def)
  from query_cases [OF db q] show ?thesis
  proof (elim disjE exE conjE)
    fix out d1 t
    assume q1: "query db (CreateState ?ns sid key v (positive_ttl ttl)) (\<lambda>_. return_json (set_answer key sid ?ns ttl)) d1 = (r, d')"
      and t: "clock d \<le> t" "t \<le> clock d1" "session_effect (DeleteKey ?ns sid key) t (rows d) out (rows d1)"
    have rel1: "table_rel A1 (rows d1) (clock d)" and gone: "?k \<notin> row_at ` set (rows d1)"
      using table_rel_remove [OF rel, of "\<lambda>k. k = ?k"] t(3) by (auto simp: A1)
    from query_cases [OF db q1] show ?thesis
    proof (elim disjE exE conjE)
      fix e
      assume "r = Inl (OperationFailed e)" "rows d' = rows d1" "clock d1 \<le> clock d'"
      then show ?thesis
        using simulatedI [OF spec_set_lost [OF False, where t = "clock d'"], where rows = rows and c = "clock d"] rel1 t
        by (auto simp: A1_def)
    next
      fix out2 d2 t2
      assume "return_json (set_answer key sid ?ns ttl) d2 = (r, d')" "clock d1 \<le> t2" "t2 \<le> clock d2"
        "session_effect (CreateState ?ns sid key v (positive_ttl ttl)) t2 (rows d1) out2 (rows d2)"
      then show ?thesis
        using simulatedI [OF spec_set [OF False refl, of t2 v sid n ttl A], of rows d' "clock d" clock d] t
          table_rel_create [OF rel1, of "\<lparr> row_ns = ?ns, row_sid = sid, row_key = key, row_val = v,
            row_expires = expiry t2 (positive_ttl ttl) \<rparr>"] gone
        by (auto simp: return_json_def row_at_def A1_def)
    qed
  qed (use rel in \<open>auto intro: failed_simulated\<close>)
qed

lemma get_simulated:
  assumes db: "surreal_session db rows clock" and rel: "table_rel A (rows d) (clock d)"
    and run: "session_get db key sid n d = (r, d')"
  shows "simulated rows clock (GetOp key sid n) A d r d'"
proof -
  let ?ns = "resolve_namespace n"
  let ?k = "(?ns, sid, key)"
  from run have q: "query db (PruneExpired ?ns sid) (\<lambda>_. query db (SelectState ?ns sid key) (\<lambda>out.
      return_json (get_answer key sid ?ns (case out of row # _ \<Rightarrow> json_get row ''sval'' | [] \<Rightarrow> None)))) d = (r, d')"
    by (simp add: session_get_def get_answer_def Let_def)
  from query_cases [OF db q] show ?thesis
  proof (elim disjE exE conjE)
    fix out d1 t
    assume q1: "query db (SelectState ?ns sid key) (\<lambda>out.
        return_json (get_answer key sid ?ns (case out of row # _ \<Rightarrow> json_get row ''sval'' | [] \<Rightarrow> None))) d1 = (r, d')"
      and t: "clock d \<le> t" "t \<le> clock d1" "session_effect (PruneExpired ?ns sid) t (rows d) out (rows d1)"
    have rel1: "table_rel A (rows d1) (clock d1)"
      using table_rel_prune [OF rel t(1,2)] t(3) by simp
    have live: "live t A ?k = Some v \<longleftrightarrow> (\<exists>r \<in> set (rows d1). row_at r = ?k \<and> row_val r = v)" for v
      by (rule pruned_live [OF rel t(1)]) (use t(3) in auto)
    from query_cases [OF db q1] show ?thesis
    proof (elim disjE exE conjE)
      fix out2 d2 t2
      assume *: "return_json (get_answer key sid ?ns (case out2 of row # _ \<Rightarrow> json_get row ''sval'' | [] \<Rightarrow> None)) d2 = (r, d')"
        and t2: "clock d1 \<le> t2" "t2 \<le> clock d2"
        and eff: "session_effect (SelectState ?ns sid key) t2 (rows d1) out2 (rows d2)"
      have "(case out2 of row # _ \<Rightarrow> json_get row ''sval'' | [] \<Rightarrow> None) = live t A ?k"
        using rows_at_key [OF rel1, of ?k]
      proof (elim disjE exE conjE)
        assume none: "List.filter (\<lambda>r. row_at r = ?k) (rows d1) = []"
        then have "live t A ?k = None" using live by (cases "live t A ?k") (auto simp: filter_empty_conv)
        with eff none show ?thesis by simp
      next
        fix r1
        assume one: "List.filter (\<lambda>r. row_at r = ?k) (rows d1) = [r1]" "r1 \<in> set (rows d1)" "row_at r1 = ?k"
        then have "live t A ?k = Some (row_val r1)" using live by blast
        with eff one show ?thesis by (simp add: obj_def obj_of_list_def obj_get_def)
      qed
      then show ?thesis
        using simulatedI [OF spec_get [OF refl, of t key sid n A], of rows d' "clock d1" clock d] * t t2 rel1 eff
        by (simp add: return_json_def)
    qed (use rel1 t in \<open>auto intro!: failed_simulated [of A rows d' "clock d1"]\<close>)
  qed (use rel in \<open>auto intro: failed_simulated\<close>)
qed

lemma delete_simulated:
  assumes db: "surreal_session db rows clock" and rel: "table_rel A (rows d) (clock d)"
    and run: "session_delete db key sid n d = (r, d')"
  shows "simulated rows clock (DeleteOp key sid n) A d r d'"
proof -
  let ?ns = "resolve_namespace n"
  let ?k = "(?ns, sid, key)"
  from run have q: "query db (DeleteKey ?ns sid key) (\<lambda>out. return_json (delete_answer key ?ns (length out))) d = (r, d')"
    by (simp add: session_delete_def delete_answer_def Let_def)
  from query_cases [OF db q] show ?thesis
  proof (elim disjE exE conjE)
    fix out d1 t
    assume *: "return_json (delete_answer key ?ns (length out)) d1 = (r, d')"
      and t: "clock d \<le> t" "t \<le> clock d1" "session_effect (DeleteKey ?ns sid key) t (rows d) out (rows d1)"
    have rel1: "table_rel (A(?k := None)) (rows d1) (clock d)"
      using table_rel_remove [OF rel, of "\<lambda>k. k = ?k"] t(3) by (simp add: fun_upd_def)
    have len: "length out = length (List.filter (\<lambda>r. row_at r = ?k) (rows d))" using t(3) by simp
    have "live t A ?k \<noteq> None \<Longrightarrow> length out \<noteq> 0"
      using live_in_table [OF rel t(1), of ?k] unfolding len by (auto simp: filter_empty_conv)
    moreover have "A ?k = None \<Longrightarrow> length out = 0"
      using row_in_table [OF rel] unfolding len by (fastforce simp: filter_empty_conv)
    moreover have "length out \<le> 1" using rows_at_key [OF rel, of ?k] unfolding len by auto
    ultimately have "session_spec t (DeleteOp key sid n) A (Inr (delete_answer key ?ns (length out))) (A(?k := None))"
      by (intro spec_delete) (auto simp: le_Suc_eq)
    then show ?thesis
      using simulatedI [where rows = rows and d' = d1 and clock = clock, OF _ rel1] t * by (auto simp: return_json_def)
  qed (use rel in \<open>auto intro: failed_simulated\<close>)
qed

lemma session_keys:
  assumes "table_rel A rs c"
  shows "distinct (map row_key (List.filter (in_session ns sid) rs))"
proof -
  have "distinct (map row_at (List.filter (in_session ns sid) rs))"
    using assms unfolding table_rel_def by (blast intro: distinct_map_filter)
  then have "distinct (map (\<lambda>r. snd (snd (row_at r))) (List.filter (in_session ns sid) rs))"
    by (auto simp: distinct_map inj_on_def row_at_def in_session_def)
  then show ?thesis by (simp add: row_at_def)
qed

lemma list_simulated:
  assumes db: "surreal_session db rows clock" and rel: "table_rel A (rows d) (clock d)"
    and run: "session_list db sid n d = (r, d')"
  shows "simulated rows clock (ListOp sid n) A d r d'"
proof -
  let ?ns = "resolve_namespace n"
  from run have q: "query db (PruneExpired ?ns sid) (\<lambda>_. query db (SelectKeys ?ns sid) (\<lambda>out.
      return_json (obj [(''keys'', JArray (List.map_filter (\<lambda>row. json_get row ''skey'') out)),
        (''_meta'', obj [(''namespace'', JString ?ns), (''session_id'', JString sid)])]))) d = (r, d')"
    by (simp add: session_list_def Let_def)
  from query_cases [OF db q] show ?thesis
  proof (elim disjE exE conjE)
    fix out d1 t
    assume q1: "query db (SelectKeys ?ns sid) (\<lambda>out.
        return_json (obj [(''keys'', JArray (List.map_filter (\<lambda>row. json_get row ''skey'') out)),
          (''_meta'', obj [(''namespace'', JString ?ns), (''session_id'', JString sid)])])) d1 = (r, d')"
      and t: "clock d \<le> t" "t \<le> clock d1" "session_effect (PruneExpired ?ns sid) t (rows d) out (rows d1)"
    have rel1: "table_rel A (rows d1) (clock d1)"
      using table_rel_prune [OF rel t(1,2)] t(3) by simp
    define ks where "ks = sort (map row_key (List.filter (in_session ?ns sid) (rows d1)))"
    have "live t A (?ns, sid, k) = Some v \<longleftrightarrow> (\<exists>r \<in> set (rows d1). row_at r = (?ns, sid, k) \<and> row_val r = v)" for k v
      by (rule pruned_live [OF rel t(1)]) (use t(3) in auto)
    then have "k \<in> set ks \<longleftrightarrow> live t A (?ns, sid, k) \<noteq> None" for k
      unfolding ks_def not_None_eq by (auto simp: in_session_def row_at_def)
    then have spec: "session_spec t (ListOp sid n) A (Inr (list_answer sid ?ns ks)) A"
      by (intro spec_list) (auto simp: ks_def session_keys [OF rel1])
    from query_cases [OF db q1] show ?thesis
    proof (elim disjE exE conjE)
      fix out2 d2 t2
      assume *: "return_json (obj [(''keys'', JArray (List.map_filter (\<lambda>row. json_get row ''skey'') out2)),
          (''_meta'', obj [(''namespace'', JString ?ns), (''session_id'', JString sid)])]) d2 = (r, d')"
        and t2: "clock d1 \<le> t2" "t2 \<le> clock d2" and eff: "session_effect (SelectKeys ?ns sid) t2 (rows d1) out2 (rows d2)"
      have "List.map_filter (\<lambda>row. json_get row ''skey'') (map (\<lambda>k. obj [(''skey'', JString k)]) ks') = map JString ks'" for ks'
        by (induction ks') (simp_all add: map_filter_simps obj_def obj_of_list_def obj_get_def)
      then have "r = Inr (list_answer sid ?ns ks)" "d' = d2" "rows d2 = rows d1"
        using * eff by (simp_all add: return_json_def list_answer_def ks_def)
      then show ?thesis
        using simulatedI [OF spec, of rows d' "clock d1" clock d] rel1 t t2 by simp
    qed (use rel1 t in \<open>auto intro!: failed_simulated [of A rows d' "clock d1"]\<close>)
  qed (use rel in \<open>auto intro: failed_simulated\<close>)
qed

lemma clear_simulated:
  assumes db: "surreal_session db rows clock" and rel: "table_rel A (rows d) (clock d)"
    and run: "session_clear db sid n d = (r, d')"
  shows "simulated rows clock (ClearOp sid n) A d r d'"
proof -
  let ?ns = "resolve_namespace n"
  let ?A = "\<lambda>k. if fst k = ?ns \<and> fst (snd k) = sid then None else A k"
  from run have q: "query db (DeleteSession ?ns sid) (\<lambda>out. return_json (clear_answer sid ?ns (length out))) d = (r, d')"
    by (simp add: session_clear_def clear_answer_def Let_def)
  from query_cases [OF db q] show ?thesis
  proof (elim disjE exE conjE)
    fix out d1 t
    assume *: "return_json (clear_answer sid ?ns (length out)) d1 = (r, d')"
      and t: "clock d \<le> t" "t \<le> clock d1" "session_effect (DeleteSession ?ns sid) t (rows d) out (rows d1)"
    have rel1: "table_rel ?A (rows d1) (clock d)"
      using table_rel_remove [OF rel, of "\<lambda>k. fst k = ?ns \<and> fst (snd k) = sid"] t(3)
      by (simp add: in_session_def [abs_def] row_at_def)
    define S where "S = set (map row_key (List.filter (in_session ?ns sid) (rows d)))"
    have "card S = length out"
      unfolding S_def using distinct_card [OF session_keys [OF rel]] t(3) by simp
    moreover have "{k. live t A (?ns, sid, k) \<noteq> None} \<subseteq> S"
      using live_in_table [OF rel t(1)] by (force simp: S_def in_session_def row_at_def)
    moreover have "S \<subseteq> {k. A (?ns, sid, k) \<noteq> None}"
      using row_in_table [OF rel] by (force simp: S_def in_session_def row_at_def)
    ultimately have "session_spec t (ClearOp sid n) A (Inr (clear_answer sid ?ns (length out))) ?A"
      using spec_clear [OF refl, of S t A n sid] by (simp add: S_def)
    then show ?thesis
      using simulatedI [where rows = rows and d' = d1 and clock = clock, OF _ rel1] t * by (auto simp: return_json_def)
  qed (use rel in \<open>auto intro: failed_simulated\<close>)
qed

lemmas op_simulated = set_simulated get_simulated delete_simulated list_simulated clear_simulated

lemma exec_simulated:
  assumes "surreal_session db rows clock" "table_rel A (rows d) (clock d)" "session_exec db op d = (r, d')"
  shows "simulated rows clock op A d r d'"
  using assms(3) by (cases op) (auto intro: op_simulated [OF assms(1,2)])

lemma run_refines:
  assumes "surreal_session db rows clock"
  shows "table_rel A (rows d) (clock d) \<Longrightarrow> session_run db ops d = (rs, d') \<Longrightarrow>
    \<exists>ts. sorted ts \<and> (\<forall>t \<in> set ts. clock d \<le> t) \<and> session_spec_run ts ops A rs"
proof (induction ops arbitrary: A d rs)
  case Nil
  then show ?case by (auto intro: exI [of _ "[]"])
next
  case (Cons op ops)
  obtain r d1 rs' where step: "session_exec db op d = (r, d1)" and rest: "session_run db ops d1 = (rs', d')"
    and rs: "rs = r # rs'"
    using Cons.prems(2) by (auto split: prod.splits)
  from exec_simulated [OF assms Cons.prems(1) step] obtain t A'
    where t: "clock d \<le> t" "t \<le> clock d1" "session_spec t op A r A'" "table_rel A' (rows d1) (clock d1)"
    unfolding simulated_def by blast
  from Cons.IH [OF t(4) rest] obtain ts where "sorted ts" "\<forall>t \<in> set ts. clock d1 \<le> t" "session_spec_run ts ops A' rs'"
    by blast
  with t have "sorted (t # ts)" "\<forall>t \<in> set (t # ts). clock d \<le> t" "session_spec_run (t # ts) (op # ops) A (r # rs')"
    by (auto intro: order_trans)
  then show ?case unfolding rs by blast
qed

section \<open>Property\<close>

text \<open>
  C12. The session store refines its contract. However the calls of a run interleave with the
  clock, and whichever statements fail, there are times in order at which the answers are those of
  the map that keeps every entry and hides the expired ones: dropping expired rows lazily is not
  visible to reads, keys do not leak between sessions or namespaces, and listings are sorted and
  complete.
\<close>

theorem session_store_refines:
  assumes "surreal_session db rows clock" "rows d = []" "session_run db ops d = (rs, d')"
  shows "\<exists>ts. sorted ts \<and> session_spec_run ts ops Map.empty rs"
  using run_refines [OF assms(1) _ assms(3), of Map.empty] assms(2) by (auto simp: table_rel_def)

text \<open>A database that holds the rows and advances its clock by a second per statement.\<close>

fun table_db :: "(StateRow list \<times> datetime) db" where
  "table_db (PruneExpired ns sid) (rs, c) =
     (Inr [], List.filter (\<lambda>r. \<not> (in_session ns sid r \<and> past (row_expires r) c)) rs, c + 1000000000)"
| "table_db (DeleteKey ns sid k) (rs, c) =
     (Inr (map (\<lambda>_. JNull) (List.filter (\<lambda>r. row_at r = (ns, sid, k)) rs)),
      List.filter (\<lambda>r. row_at r \<noteq> (ns, sid, k)) rs, c + 1000000000)"
| "table_db (CreateState ns sid k v ttl) (rs, c) =
     (Inr [], rs @ [\<lparr> row_ns = ns, row_sid = sid, row_key = k, row_val = v, row_expires = expiry c ttl \<rparr>], c + 1000000000)"
| "table_db (SelectState ns sid k) (rs, c) =
     (Inr (map (\<lambda>r. obj [(''sval'', row_val r)]) (take 1 (List.filter (\<lambda>r. row_at r = (ns, sid, k)) rs))),
      rs, c + 1000000000)"
| "table_db (SelectKeys ns sid) (rs, c) =
     (Inr (map (\<lambda>k. obj [(''skey'', JString k)]) (sort (map row_key (List.filter (in_session ns sid) rs)))),
      rs, c + 1000000000)"
| "table_db (DeleteSession ns sid) (rs, c) =
     (Inr (map (\<lambda>_. JNull) (List.filter (in_session ns sid) rs)),
      List.filter (\<lambda>r. \<not> in_session ns sid r) rs, c + 1000000000)"
| "table_db _ (rs, c) = (Inl ''not supported'', rs, c)"

lemma table_db_session: "surreal_session table_db fst snd"
  unfolding surreal_session_def
proof (intro allI impI)
  fix stmt d r d'
  assume "table_db stmt d = (r, d')"
  then show "snd d \<le> snd d' \<and> (case r of Inl e \<Rightarrow> fst d' = fst d
      | Inr out \<Rightarrow> \<exists>t. snd d \<le> t \<and> t \<le> snd d' \<and> session_effect stmt t (fst d) out (fst d'))"
    by (cases "(stmt, d)" rule: table_db.cases) (auto intro!: exI [of _ "snd d"])
qed

text \<open>A value with a time to live of three seconds is read once, then gone; the other session is empty.\<close>

definition demo_ops :: "session_op list" where
  "demo_ops =
     [SetOp ''k'' (JBool True) ''s'' None (Some 3), GetOp ''k'' ''s'' None, ListOp ''other'' None, GetOp ''k'' ''s'' None]"

theorem session_store_refines_witness:
  "(\<exists>ts. sorted ts \<and> session_spec_run ts demo_ops Map.empty (fst (session_run table_db demo_ops ([], 0)))) \<and>
   map (\<lambda>r. case r of Inr j \<Rightarrow> json_get j ''value'' | Inl _ \<Rightarrow> None) (fst (session_run table_db demo_ops ([], 0))) =
     [None, Some (JBool True), None, Some JNull]"
proof
  show "\<exists>ts. sorted ts \<and> session_spec_run ts demo_ops Map.empty (fst (session_run table_db demo_ops ([], 0)))"
    by (rule session_store_refines [OF table_db_session, of "([], 0)" _ _ "snd (session_run table_db demo_ops ([], 0))"])
      simp_all
  show "map (\<lambda>r. case r of Inr j \<Rightarrow> json_get j ''value'' | Inl _ \<Rightarrow> None) (fst (session_run table_db demo_ops ([], 0))) =
     [None, Some (JBool True), None, Some JNull]"
    by (simp add: demo_ops_def session_set_def session_get_def session_list_def query_def return_json_def row_at_def
        in_session_def past_def expiry_def obj_def obj_of_list_def obj_get_def json_opt_def Let_def resolve_namespace_def)
qed

end
