(* ===== verification/Hybrid_Search.thy ===== *)
theory Hybrid_Search
  imports Surreal "HOL-Library.Multiset"
begin

text \<open>
  Hybrid search of \<open>Surreal\<close> against reciprocal rank fusion. The reference score of a row is the sum
  of \<open>1 / (k + rank)\<close> over its ranks in the two result lists; the code accumulates it in a hash map
  and sorts the values.
\<close>

section \<open>Scores\<close>

definition nonneg :: "fval \<Rightarrow> bool" where
  "nonneg x = (case x of FFin m e \<Rightarrow> 0 \<le> m | FInf neg \<Rightarrow> \<not> neg | FNaN \<Rightarrow> False)"

lemma nonneg_round: "nonneg (round_f64 False a b)"
  by (simp add: nonneg_def round_f64_def Let_def)

lemma nonneg_scaled: "0 \<le> m \<Longrightarrow> nonneg (fval_of_scaled m e)"
  by (simp add: fval_of_scaled_def nonneg_round)

lemma nonneg_of_int: "0 \<le> i \<Longrightarrow> nonneg (f64_of_int i)"
  by (simp add: f64_of_int_def nonneg_round)

lemma nonneg_add: "nonneg x \<Longrightarrow> nonneg y \<Longrightarrow> nonneg (fval_add x y)"
proof (cases "(x, y)" rule: fval_add.cases)
  case (1 m1 e1 m2 e2)
  assume "nonneg x" "nonneg y"
  with 1 have "0 \<le> m1" "0 \<le> m2" by (simp_all add: nonneg_def)
  with 1 show ?thesis by (auto simp: align_def Let_def intro: nonneg_scaled)
qed (auto simp: nonneg_def)

lemma nonneg_recip: "nonneg x \<Longrightarrow> nonneg (fval_recip x)"
  by (cases x) (auto simp: nonneg_def [of "FFin _ _"] nonneg_def [of "FInf _"] nonneg_def [of FNaN] nonneg_round)

lemma nonneg_contribution: "0 \<le> sint k \<Longrightarrow> nonneg (contribution k rank)"
  by (simp add: contribution_def nonneg_recip nonneg_add nonneg_of_int)

text \<open>Without NaN, not being less is transitive and total.\<close>

lemma not_lt_trans:
  assumes "nonneg x" "nonneg y" "nonneg z" "\<not> fval_lt x y" "\<not> fval_lt y z"
  shows "\<not> fval_lt x z"
proof -
  have fin: "\<not> fval_lt (FFin m1 e1) (FFin m3 e3)"
    if "\<not> fval_lt (FFin m1 e1) (FFin m2 e2)" "\<not> fval_lt (FFin m2 e2) (FFin m3 e3)" for m1 e1 m2 e2 m3 e3
  proof -
    define k where "k = min e1 (min e2 e3)"
    have k: "k \<le> e1" "k \<le> e2" "k \<le> e3" by (auto simp: k_def)
    from that show ?thesis
      unfolding fval_lt_scaled [OF k(1,2)] fval_lt_scaled [OF k(2,3)] fval_lt_scaled [OF k(1,3)] by linarith
  qed
  show ?thesis
  proof (cases "(\<exists>m e. x = FFin m e) \<and> (\<exists>m e. y = FFin m e) \<and> (\<exists>m e. z = FFin m e)")
    case True
    with assms(4,5) fin show ?thesis by blast
  next
    case False
    with assms show ?thesis by (cases x; cases y; cases z) (auto simp: nonneg_def)
  qed
qed

section \<open>Sorting\<close>

definition falling :: "(fval \<times> json) list \<Rightarrow> bool" where
  "falling xs \<longleftrightarrow> sorted_wrt (\<lambda>a b. \<not> fval_lt (fst a) (fst b)) xs"

lemma mset_insert_ranked [simp]: "mset (insert_ranked x xs) = add_mset x (mset xs)"
  by (induction xs) auto

lemma mset_sort_ranked [simp]: "mset (sort_ranked xs) = mset xs"
  by (induction xs) (simp_all add: sort_ranked_def)

lemma set_insert_ranked [simp]: "set (insert_ranked x xs) = insert x (set xs)"
  by (induction xs) auto

lemma falling_insert:
  assumes "falling xs" "\<forall>y \<in> set (x # xs). nonneg (fst y)"
  shows "falling (insert_ranked x xs)"
  using assms
proof (induction xs)
  case (Cons y ys)
  have ys: "falling ys" "\<forall>z \<in> set ys. \<not> fval_lt (fst y) (fst z)" using Cons.prems(1) by (simp_all add: falling_def)
  show ?case
  proof (cases "fval_lt (fst x) (fst y)")
    case True
    then have "\<not> fval_lt (fst y) (fst x)" using fval_lt_trans fval_lt_irrefl by blast
    with True ys Cons show ?thesis by (auto simp: falling_def)
  next
    case False
    have "\<not> fval_lt (fst x) (fst z)" if "z \<in> set ys" for z
      by (rule not_lt_trans [of _ "fst y"]) (use that False ys(2) Cons.prems(2) in auto)
    with False Cons.prems(1) show ?thesis by (auto simp: falling_def)
  qed
qed (simp add: falling_def)

lemma falling_sort: "\<forall>y \<in> set xs. nonneg (fst y) \<Longrightarrow> falling (sort_ranked xs)"
proof (induction xs)
  case Nil
  then show ?case by (simp add: sort_ranked_def falling_def)
next
  case (Cons x xs)
  have "set (sort_ranked xs) = set xs" by (metis mset_sort_ranked set_mset_mset)
  with Cons show ?case using falling_insert [of "sort_ranked xs" x] by (simp add: sort_ranked_def)
qed

section \<open>Fusion\<close>

text \<open>The contributions of an id in a result list, in order, and the reference score.\<close>

definition rrf_terms :: "(json \<Rightarrow> string) \<Rightarrow> i64 \<Rightarrow> json list \<Rightarrow> string \<Rightarrow> fval list" where
  "rrf_terms show_json k rows i =
     map (\<lambda>(rank, row). contribution k rank)
       (List.filter (\<lambda>(rank, row). row_id show_json row = i) (List.enumerate 0 rows))"

definition rrf_score :: "(json \<Rightarrow> string) \<Rightarrow> i64 \<Rightarrow> json list \<Rightarrow> json list \<Rightarrow> string \<Rightarrow> fval" where
  "rrf_score show_json k text_rows vec_rows i =
     (case rrf_terms show_json k text_rows i @ rrf_terms show_json k vec_rows i of
        c # cs \<Rightarrow> foldl fval_add c cs
      | [] \<Rightarrow> FFin 0 0)"

text \<open>What is in the map after some ranked rows have been fused into it.\<close>

definition terms_of :: "(json \<Rightarrow> string) \<Rightarrow> i64 \<Rightarrow> (nat \<times> json) list \<Rightarrow> string \<Rightarrow> fval list" where
  "terms_of show_json k ranked i =
     map (\<lambda>(rank, row). contribution k rank) (List.filter (\<lambda>(rank, row). row_id show_json row = i) ranked)"

definition fused_ok ::
  "(json \<Rightarrow> string) \<Rightarrow> i64 \<Rightarrow> (nat \<times> json) list \<Rightarrow> (string \<times> fval \<times> json) list \<Rightarrow> bool" where
  "fused_ok show_json k ranked m \<longleftrightarrow>
     distinct (map fst m) \<and> fst ` set m = row_id show_json ` snd ` set ranked \<and>
     (\<forall>(i, s, row) \<in> set m. row_id show_json row = i \<and> row \<in> snd ` set ranked \<and>
        (\<exists>c cs. terms_of show_json k ranked i = c # cs \<and> s = foldl fval_add c cs))"

lemma keys_fuse_row: "fst ` set (fuse_row i c row m) = insert i (fst ` set m)"
  by (induction i c row m rule: fuse_row.induct) auto

lemma distinct_fuse_row: "distinct (map fst m) \<Longrightarrow> distinct (map fst (fuse_row i c row m))"
proof (induction i c row m rule: fuse_row.induct)
  case (2 i c row i' s row' m)
  then show ?case using keys_fuse_row [of i c row m] by (auto simp: image_iff)
qed simp

lemma set_fuse_row:
  "distinct (map fst m) \<Longrightarrow> x \<in> set (fuse_row i c row m) \<Longrightarrow>
   (x \<in> set m \<and> fst x \<noteq> i) \<or> (x = (i, c, row) \<and> i \<notin> fst ` set m) \<or>
   (\<exists>s row'. (i, s, row') \<in> set m \<and> x = (i, fval_add s c, row'))"
  by (induction i c row m rule: fuse_row.induct) (auto split: if_splits)

lemma fused_ok_step:
  assumes "fused_ok show_json k ranked m"
  shows "fused_ok show_json k (ranked @ [(rank, row)]) (fuse_row (row_id show_json row) (contribution k rank) row m)"
proof -
  let ?i = "row_id show_json row" and ?c = "contribution k rank"
  note ok = assms [unfolded fused_ok_def]
  have terms: "terms_of show_json k (ranked @ [(rank, row)]) j =
      terms_of show_json k ranked j @ (if j = ?i then [?c] else [])" for j
    by (simp add: terms_of_def)
  have new: "terms_of show_json k ranked ?i = []" if "?i \<notin> fst ` set m"
    using that ok by (auto simp: terms_of_def filter_empty_conv image_iff)
  have "row_id show_json row' = j \<and> row' \<in> snd ` set (ranked @ [(rank, row)]) \<and>
      (\<exists>c cs. terms_of show_json k (ranked @ [(rank, row)]) j = c # cs \<and> s = foldl fval_add c cs)"
    if "(j, s, row') \<in> set (fuse_row ?i ?c row m)" for j s row'
  proof -
    have d: "distinct (map fst m)" using ok by blast
    from set_fuse_row [OF d that] consider "(j, s, row') \<in> set m" "j \<noteq> ?i"
      | "j = ?i" "s = ?c" "row' = row" "?i \<notin> fst ` set m"
      | s0 where "(?i, s0, row') \<in> set m" "j = ?i" "s = fval_add s0 ?c"
      by auto
    then show ?thesis
    proof cases
      case 1
      then show ?thesis using bspec [OF conjunct2 [OF conjunct2 [OF ok]], OF 1(1)] by (auto simp: terms)
    next
      case 2
      then show ?thesis using new by (simp add: terms)
    next
      case 3
      then obtain c cs where "terms_of show_json k ranked ?i = c # cs" "s0 = foldl fval_add c cs"
        "row_id show_json row' = ?i" "row' \<in> snd ` set ranked"
        using bspec [OF conjunct2 [OF conjunct2 [OF ok]], OF 3(1)] by auto
      with 3 show ?thesis by (simp add: terms)
    qed
  qed
  moreover have "distinct (map fst (fuse_row ?i ?c row m))" by (rule distinct_fuse_row [OF conjunct1 [OF ok]])
  moreover have "fst ` set (fuse_row ?i ?c row m) = row_id show_json ` snd ` set (ranked @ [(rank, row)])"
    using conjunct1 [OF conjunct2 [OF ok]] by (simp add: keys_fuse_row)
  ultimately show ?thesis unfolding fused_ok_def by (intro conjI; (assumption | blast))
qed

lemma fused_ok_fold:
  "fused_ok show_json k ranked m \<Longrightarrow>
   fused_ok show_json k (ranked @ xs)
     (fold (\<lambda>(rank, row). fuse_row (row_id show_json row) (contribution k rank) row) xs m)"
proof (induction xs arbitrary: ranked m)
  case (Cons x xs)
  then show ?case using Cons.IH [OF fused_ok_step [OF Cons.prems, of "fst x" "snd x"]] by (simp add: case_prod_unfold)
qed simp

lemma fused_ok_rows:
  "fused_ok show_json k (List.enumerate 0 text_rows @ List.enumerate 0 vec_rows)
     (fuse_rows show_json k vec_rows (fuse_rows show_json k text_rows []))"
  using fused_ok_fold [OF fused_ok_fold [of show_json k "[]" "[]"]]
  by (simp add: fuse_rows_def fused_ok_def [of _ _ "[]" "[]"])

lemma terms_of_enumerate:
  "terms_of show_json k (List.enumerate 0 text_rows @ List.enumerate 0 vec_rows) i =
   rrf_terms show_json k text_rows i @ rrf_terms show_json k vec_rows i"
  by (simp add: terms_of_def rrf_terms_def)

lemma nonneg_foldl: "nonneg c \<Longrightarrow> \<forall>x \<in> set cs. nonneg x \<Longrightarrow> nonneg (foldl fval_add c cs)"
  by (induction cs arbitrary: c) (auto intro: nonneg_add)

text \<open>The values of the map are the rows with their reference scores, one per id.\<close>

lemma fused_values:
  assumes "0 \<le> sint k" "m = fuse_rows show_json k vec_rows (fuse_rows show_json k text_rows [])"
  shows "distinct (map (\<lambda>x. row_id show_json (snd x)) (map snd m))"
    and "row_id show_json ` snd ` set (map snd m) = row_id show_json ` (set text_rows \<union> set vec_rows)"
    and "x \<in> set (map snd m) \<Longrightarrow> snd x \<in> set text_rows \<union> set vec_rows \<and>
      fst x = rrf_score show_json k text_rows vec_rows (row_id show_json (snd x)) \<and> nonneg (fst x)"
proof -
  note ok = fused_ok_rows [of show_json k text_rows vec_rows, folded assms(2), unfolded fused_ok_def terms_of_enumerate]
  have ids: "map (\<lambda>x. row_id show_json (snd x)) (map snd m) = map fst m"
    using ok by (auto simp: map_eq_conv)
  show "distinct (map (\<lambda>x. row_id show_json (snd x)) (map snd m))" unfolding ids using ok by blast
  have rows: "snd ` set (List.enumerate 0 text_rows @ List.enumerate 0 vec_rows) = set text_rows \<union> set vec_rows"
    by (simp add: image_Un flip: set_map)
  have "row_id show_json ` snd ` set (map snd m) = fst ` set m"
    using arg_cong [OF ids, of set] by (simp add: image_image)
  with ok show "row_id show_json ` snd ` set (map snd m) = row_id show_json ` (set text_rows \<union> set vec_rows)"
    unfolding rows by simp
  assume "x \<in> set (map snd m)"
  then obtain i where i: "(i, fst x, snd x) \<in> set m" by force
  then obtain c cs where c: "rrf_terms show_json k text_rows i @ rrf_terms show_json k vec_rows i = c # cs"
    "fst x = foldl fval_add c cs" "row_id show_json (snd x) = i" "snd x \<in> set text_rows \<union> set vec_rows"
    using bspec [OF conjunct2 [OF conjunct2 [OF ok]], OF i] unfolding rows by auto
  have "\<forall>y \<in> set (c # cs). nonneg y"
    unfolding c(1) [symmetric] by (auto simp: rrf_terms_def nonneg_contribution [OF assms(1)])
  then show "snd x \<in> set text_rows \<union> set vec_rows \<and>
      fst x = rrf_score show_json k text_rows vec_rows (row_id show_json (snd x)) \<and> nonneg (fst x)"
    using c by (auto simp: rrf_score_def intro: nonneg_foldl)
qed

section \<open>Property\<close>

text \<open>What the two queries of a hybrid search ask for.\<close>

definition hybrid_pool :: "SurrealConfig \<Rightarrow> SearchParams \<Rightarrow> int" where
  "hybrid_pool cfg params = max (sint (sc_hybrid_candidate_pool cfg)) (effective_limit cfg params)"

lemma sint_bounds_i64: "sint (w :: i64) < 2 ^ 63" "- (2 ^ 63) \<le> sint (w :: i64)"
  using sint_lt [of w] sint_ge [of w] by simp_all

lemma pool_roundtrip: "sint (word_of_int (hybrid_pool cfg params) :: i64) = hybrid_pool cfg params"
proof -
  have "hybrid_pool cfg params < 2 ^ 63" "1 \<le> hybrid_pool cfg params"
    using sint_bounds_i64 by (auto simp: hybrid_pool_def effective_limit_def)
  then show ?thesis by (simp add: signed_take_bit_int_eq_self signed_of_int)
qed

lemma pool_limit:
  "effective_limit cfg (params\<lparr> sp_limit := Some (word_of_int (hybrid_pool cfg params)) \<rparr>) = hybrid_pool cfg params"
proof -
  have "1 \<le> hybrid_pool cfg params" by (simp add: hybrid_pool_def effective_limit_def)
  then show ?thesis by (simp add: effective_limit_def [of cfg "params\<lparr> sp_limit := _ \<rparr>"] pool_roundtrip)
qed

lemma extract_search_result: "extract_results (search_result rows meta) = rows"
  by (simp add: extract_results_def search_result_def obj_def obj_of_list_def obj_get_def)

lemma hybrid_queries:
  assumes "ns = resolve_namespace (sp_namespace params)" "pool = hybrid_pool cfg params" "sp_query params = Some q"
    and "db (TextSearch ns q (sp_node_type params) pool) d = (Inr text_rows, d1)"
    and "db (VectorSearch ns qv pool pool pool) d1 = (Inr vec_rows, d2)"
  shows "\<exists>meta. text_search db cfg (params\<lparr> sp_limit := Some (word_of_int pool) \<rparr>) d =
      (Inr (search_result text_rows meta), d1)"
    and "\<exists>meta. vector_search db cfg (params\<lparr> sp_limit := Some (word_of_int pool) \<rparr>) (Some qv) d1 =
      (Inr (search_result vec_rows meta), d2)"
proof -
  have m: "max (sint (sc_hybrid_candidate_pool cfg)) pool = pool" by (simp add: assms(2) hybrid_pool_def)
  note limit = pool_limit [of cfg params, folded assms(2)]
  show "\<exists>meta. text_search db cfg (params\<lparr> sp_limit := Some (word_of_int pool) \<rparr>) d =
      (Inr (search_result text_rows meta), d1)"
    using assms(3,4) by (auto simp: text_search_def Let_def limit query_def return_json_def simp flip: assms(1))
  show "\<exists>meta. vector_search db cfg (params\<lparr> sp_limit := Some (word_of_int pool) \<rparr>) (Some qv) d1 =
      (Inr (search_result vec_rows meta), d2)"
    using assms(5) by (auto simp: vector_search_def Let_def limit m query_def return_json_def simp flip: assms(1))
qed

text \<open>
  C38. Hybrid search is reciprocal rank fusion. When both queries succeed, the answer is the top of
  a list that has every row found by either query once, with its reference score, in falling order
  of score: no row that is left out scores higher than one that is returned.
\<close>

theorem hybrid_search_is_rrf:
  assumes "\<And>m. mset (listing m) = mset m" "SurrealConfig_validate cfg = Inr ()"
    and "ns = resolve_namespace (sp_namespace params)" "pool = hybrid_pool cfg params" "sp_query params = Some q"
    and "db (TextSearch ns q (sp_node_type params) pool) d = (Inr text_rows, d1)"
    and "db (VectorSearch ns qv pool pool pool) d1 = (Inr vec_rows, d2)"
  shows "\<exists>ranked meta.
     hybrid_search show_json listing db cfg params (Some qv) d =
       (Inr (search_result (map with_score (take (nat (effective_limit cfg params)) ranked)) meta), d2) \<and>
     distinct (map (\<lambda>x. row_id show_json (snd x)) ranked) \<and>
     row_id show_json ` snd ` set ranked = row_id show_json ` (set text_rows \<union> set vec_rows) \<and>
     (\<forall>(s, row) \<in> set ranked. row \<in> set text_rows \<union> set vec_rows \<and>
        s = rrf_score show_json (sc_rrf_k cfg) text_rows vec_rows (row_id show_json row)) \<and>
     falling ranked"
proof -
  define m where "m = fuse_rows show_json (sc_rrf_k cfg) vec_rows (fuse_rows show_json (sc_rrf_k cfg) text_rows [])"
  define ranked where "ranked = sort_ranked (map snd (listing m))"
  have k: "0 \<le> sint (sc_rrf_k cfg)"
    using assms(2) by (auto simp: SurrealConfig_validate_def rbind_eq_Inr split: if_splits)
  note vals = fused_values [OF k m_def]
  have perm: "mset ranked = mset (map snd m)" by (simp add: ranked_def assms(1))
  then have "set ranked = set (map snd m)" by (metis set_mset_mset)
  moreover have "distinct (map (\<lambda>x. row_id show_json (snd x)) ranked)"
    using vals(1) perm by (metis mset_map mset_eq_imp_distinct_iff)
  moreover have listed: "set (listing m) = set m" by (metis assms(1) set_mset_mset)
  moreover have "falling ranked"
    unfolding ranked_def
    by (rule falling_sort, rule ballI) (metis vals(3) listed set_map)
  moreover have "\<exists>meta. hybrid_search show_json listing db cfg params (Some qv) d =
      (Inr (search_result (map with_score (take (nat (effective_limit cfg params)) ranked)) meta), d2)"
    using assms(5) hybrid_queries [OF assms(3-7)] unfolding assms(4)
    by (auto simp: hybrid_search_def rrf_fuse_def Let_def hybrid_pool_def extract_search_result ranked_def m_def)
  moreover have "\<forall>(s, row) \<in> set ranked. row \<in> set text_rows \<union> set vec_rows \<and>
      s = rrf_score show_json (sc_rrf_k cfg) text_rows vec_rows (row_id show_json row)"
    using vals(3) \<open>set ranked = set (map snd m)\<close> by fastforce
  ultimately show ?thesis using vals(2) by (intro exI [of _ ranked]) simp
qed

text \<open>Two rows found by text, the second also by vector: it comes first, with both contributions.\<close>

definition hit :: "string \<Rightarrow> json" where
  "hit i = JObject [(''id'', JString i)]"

definition hits_db :: "unit db" where
  "hits_db stmt d =
     (case stmt of
        TextSearch _ _ _ _ \<Rightarrow> (Inr [hit ''a'', hit ''b''], d)
      | VectorSearch _ _ _ _ _ \<Rightarrow> (Inr [hit ''b''], d)
      | _ \<Rightarrow> (Inr [], d))"

definition hits_show :: "json \<Rightarrow> string" where
  "hits_show j = (case as_str j of Some s \<Rightarrow> s | None \<Rightarrow> [])"

definition hits_config :: SurrealConfig where
  "hits_config = SurrealConfig_defaults\<lparr> sc_mode := Memory \<rparr>"

definition hits_params :: SearchParams where
  "hits_params =
     \<lparr> sp_query = Some ''x'', sp_mode = Some ''hybrid'', sp_limit = Some 1, sp_namespace = None, sp_node_type = None,
       sp_edge_type = None, sp_metadata_filter = None, sp_min_similarity = None \<rparr>"

theorem hybrid_search_is_rrf_witness:
  "\<exists>ranked meta.
     hybrid_search hits_show id hits_db hits_config hits_params (Some []) () =
       (Inr (search_result (map with_score (take 1 ranked)) meta), ()) \<and>
     row_id hits_show ` snd ` set ranked = {''a'', ''b''} \<and> falling ranked"
proof -
  have e: "nat (effective_limit hits_config hits_params) = 1" "sc_rrf_k hits_config = 60"
    by (simp_all add: effective_limit_def hits_params_def hits_config_def SurrealConfig_defaults_def)
  have v: "SurrealConfig_validate hits_config = Inr ()"
    by (simp add: SurrealConfig_validate_def hits_config_def SurrealConfig_defaults_def)
  have q: "sp_query hits_params = Some ''x''" by (simp add: hits_params_def)
  have "row_id hits_show ` (set [hit ''a'', hit ''b''] \<union> set [hit ''b'']) = {''a'', ''b''}"
    by (auto simp: row_id_def hit_def hits_show_def obj_get_def)
  with hybrid_search_is_rrf [of id hits_config _ hits_params _ "''x''" hits_db "()" "[hit ''a'', hit ''b'']" "()" "[]"
      "[hit ''b'']" "()" hits_show, OF _ v refl refl q]
  show ?thesis by (auto simp: hits_db_def e)
qed

end
