(* ===== verification/Interaction_Json.thy ===== *)
theory Interaction_Json
  imports Interaction
begin

text \<open>
  Reading interaction records back from JSON: \<open>Interaction::from_json\<close> and the derived
  deserialization of the types of \<^verbatim>\<open>konf-runtime/src/interaction.rs\<close>, as \<^verbatim>\<open>serde_json\<close> applies it to a value.
  A struct is read from an object by field names, ignoring unknown fields, or from an array by
  position; an internally tagged enum likewise, with the tag in the field \<open>type\<close> or in front. \<open>None\<close>
  is a value that does not fit; the text of the error is left out. \<open>parse_uuid\<close> and \<open>parse_time\<close> read
  what \<open>show_uuid\<close> and \<open>show_time\<close> write.
\<close>

section \<open>Readers\<close>

definition struct_fields :: "string list \<Rightarrow> nat \<Rightarrow> json \<Rightarrow> json smap option" where
  "struct_fields names required j =
     (case j of
        JObject m \<Rightarrow> Some m
      | JArray xs \<Rightarrow> if required \<le> length xs \<and> length xs \<le> length names then Some (zip names xs) else None
      | _ \<Rightarrow> None)"

definition req_field :: "json smap \<Rightarrow> string \<Rightarrow> (json \<Rightarrow> 'a option) \<Rightarrow> 'a option" where
  "req_field m k f = Option.bind (obj_get m k) f"

definition opt_field :: "json smap \<Rightarrow> string \<Rightarrow> (json \<Rightarrow> 'a option) \<Rightarrow> 'a option option" where
  "opt_field m k f = optional_field f (obj_get m k)"

definition default_field :: "json smap \<Rightarrow> string \<Rightarrow> 'a \<Rightarrow> (json \<Rightarrow> 'a option) \<Rightarrow> 'a option" where
  "default_field m k d f = (case obj_get m k of None \<Rightarrow> Some d | Some j \<Rightarrow> f j)"

definition list_of_json :: "(json \<Rightarrow> 'a option) \<Rightarrow> json \<Rightarrow> 'a list option" where
  "list_of_json f j = Option.bind (as_array j) (\<lambda>xs. those (map f xs))"

definition u8_of_json :: "json \<Rightarrow> 8 word option" where
  "u8_of_json j = Option.bind (as_u64 j) (\<lambda>n. if unat n < 256 then Some (ucast n) else None)"

definition digest_of_json :: "json \<Rightarrow> digest option" where
  "digest_of_json j = Option.bind (list_of_json u8_of_json j) (\<lambda>bs. if length bs = 32 then Some bs else None)"

text \<open>A unit variant is its name, or an object with the name and null.\<close>

definition role_of_variant :: "string \<Rightarrow> ActorRole option" where
  "role_of_variant =
     map_of (map (\<lambda>r. (actor_role_str r, r))
       [InfraAdmin, ProductAdmin, User, InfraAgent, ProductAgent, UserAgent, System])"

definition role_of_json :: "json \<Rightarrow> ActorRole option" where
  "role_of_json j =
     (case j of
        JString s \<Rightarrow> role_of_variant s
      | JObject [(s, JNull)] \<Rightarrow> role_of_variant s
      | _ \<Rightarrow> None)"

definition actor_of_json :: "json \<Rightarrow> Actor option" where
  "actor_of_json j =
     Option.bind (struct_fields [''id'', ''role''] 2 j) (\<lambda>m.
     Option.bind (req_field m ''id'' as_str) (\<lambda>i.
     Option.bind (req_field m ''role'' role_of_json) (\<lambda>r.
     Some \<lparr> actor_id = i, actor_role = r \<rparr>)))"

text \<open>The tag of an internally tagged enum and the rest of the value.\<close>

definition tagged :: "json \<Rightarrow> (string \<times> json) option" where
  "tagged j =
     (case j of
        JObject m \<Rightarrow> map_option (\<lambda>t. (t, JObject (filter (\<lambda>(k, _). k \<noteq> ''type'') m))) (req_field m ''type'' as_str)
      | JArray (t # rest) \<Rightarrow> map_option (\<lambda>t. (t, JArray rest)) (as_str t)
      | _ \<Rightarrow> None)"

definition unit_variant :: "'a \<Rightarrow> json \<Rightarrow> 'a option" where
  "unit_variant v rest = (case rest of JObject m \<Rightarrow> Some v | JArray [] \<Rightarrow> Some v | _ \<Rightarrow> None)"

definition str_variant :: "string \<Rightarrow> (string \<Rightarrow> 'a) \<Rightarrow> json \<Rightarrow> 'a option" where
  "str_variant k f rest = Option.bind (struct_fields [k] 1 rest) (\<lambda>m. map_option f (req_field m k as_str))"

definition kind_of_json :: "json \<Rightarrow> InteractionKind option" where
  "kind_of_json j =
     Option.bind (tagged j) (\<lambda>(tag, rest).
       if tag = ''tool_dispatch'' then unit_variant ToolDispatch rest
       else if tag = ''node_lifecycle'' then unit_variant NodeLifecycle rest
       else if tag = ''run_lifecycle'' then unit_variant RunLifecycle rest
       else if tag = ''error'' then unit_variant ErrorKind rest
       else if tag = ''user_input'' then unit_variant UserInput rest
       else if tag = ''llm_response'' then unit_variant LlmResponse rest
       else if tag = ''product_defined'' then str_variant ''name'' ProductDefined rest
       else None)"

definition status_of_json :: "json \<Rightarrow> InteractionStatus option" where
  "status_of_json j =
     Option.bind (tagged j) (\<lambda>(tag, rest).
       if tag = ''pending'' then unit_variant StatusPending rest
       else if tag = ''ok'' then unit_variant StatusOk rest
       else if tag = ''failed'' then str_variant ''error'' StatusFailed rest
       else if tag = ''observed'' then unit_variant StatusObserved rest
       else None)"

section \<open>The record\<close>

definition interaction_fields :: "string list" where
  "interaction_fields =
     [''id'', ''parent_id'', ''trace_id'', ''run_id'', ''node_id'', ''actor'', ''namespace'', ''target'', ''kind'',
      ''attributes'', ''edge_rules_fired'', ''status'', ''summary'', ''timestamp'', ''step_index'', ''stream_id'',
      ''state_before_hash'', ''state_after_hash'', ''references'', ''in_reply_to'']"

definition Interaction_from_json ::
  "(string \<Rightarrow> uuid option) \<Rightarrow> (string \<Rightarrow> datetime option) \<Rightarrow> json \<Rightarrow> Interaction option" where
  "Interaction_from_json parse_uuid parse_time value =
     (let uid = (\<lambda>j. Option.bind (as_str j) parse_uuid) in
      Option.bind (struct_fields interaction_fields 14 value) (\<lambda>m.
      Option.bind (req_field m ''id'' uid) (\<lambda>i.
      Option.bind (opt_field m ''parent_id'' uid) (\<lambda>parent.
      Option.bind (req_field m ''trace_id'' uid) (\<lambda>trace.
      Option.bind (opt_field m ''run_id'' uid) (\<lambda>run.
      Option.bind (opt_field m ''node_id'' as_str) (\<lambda>node.
      Option.bind (req_field m ''actor'' actor_of_json) (\<lambda>actor.
      Option.bind (req_field m ''namespace'' as_str) (\<lambda>namespace.
      Option.bind (req_field m ''target'' as_str) (\<lambda>target.
      Option.bind (req_field m ''kind'' kind_of_json) (\<lambda>kind.
      Option.bind (req_field m ''attributes'' Some) (\<lambda>attributes.
      Option.bind (req_field m ''edge_rules_fired'' (list_of_json as_str)) (\<lambda>rules.
      Option.bind (req_field m ''status'' status_of_json) (\<lambda>status.
      Option.bind (opt_field m ''summary'' as_str) (\<lambda>summary.
      Option.bind (req_field m ''timestamp'' (\<lambda>j. Option.bind (as_str j) parse_time)) (\<lambda>timestamp.
      Option.bind (default_field m ''step_index'' 0 as_u64) (\<lambda>step_index.
      Option.bind (default_field m ''stream_id'' [] as_str) (\<lambda>stream_id.
      Option.bind (opt_field m ''state_before_hash'' digest_of_json) (\<lambda>before.
      Option.bind (opt_field m ''state_after_hash'' digest_of_json) (\<lambda>after.
      Option.bind (default_field m ''references'' [] (list_of_json uid)) (\<lambda>references.
      Option.bind (opt_field m ''in_reply_to'' uid) (\<lambda>reply.
      Some \<lparr> in_id = i, in_parent_id = parent, in_trace_id = trace, in_run_id = run, in_node_id = node,
             in_actor = actor, in_namespace = namespace, in_target = target, in_kind = kind,
             in_attributes = attributes, in_edge_rules_fired = rules, in_status = status,
             in_summary = summary, in_timestamp = timestamp, in_step_index = step_index,
             in_stream_id = stream_id, in_state_before_hash = before, in_state_after_hash = after,
             in_references = references, in_in_reply_to = reply \<rparr>))))))))))))))))))))))"

section \<open>Reading what was written\<close>

lemma obj_get_of_list: "obj_get (obj_of_list kvs) k = map_of (rev kvs) k"
  using obj_get_fold_insert [of kvs "[]" k] by (simp add: obj_of_list_def obj_get_def split: option.splits)

lemma those_map_inverse:
  assumes "\<And>x. x \<in> set xs \<Longrightarrow> f (g x) = Some x"
  shows "those (map (\<lambda>x. f (g x)) xs) = Some xs"
  using assms by (induction xs) simp_all

lemma list_of_json_inverse:
  assumes "\<And>x. x \<in> set xs \<Longrightarrow> f (g x) = Some x"
  shows "list_of_json f (JArray (map g xs)) = Some xs"
  using those_map_inverse [of xs f g, OF assms] by (simp add: list_of_json_def comp_def)

lemma u8_of_json_inverse: "u8_of_json (JNumber (PosInt (ucast b))) = Some b"
proof -
  have "unat b < 256" by (rule order_less_le_trans [OF unsigned_less]) simp
  moreover from this have "unat (ucast b :: u64) = unat b"
    by (simp add: unsigned_ucast_eq take_bit_nat_eq_self)
  moreover have "ucast (ucast b :: u64) = b" by (rule bit_word_eqI) (simp add: bit_simps)
  ultimately show ?thesis by (simp add: u8_of_json_def)
qed

lemma digest_of_json_inverse: "length d = 32 \<Longrightarrow> digest_of_json (digest_json d) = Some d"
  by (simp add: digest_of_json_def digest_json_def list_of_json_inverse u8_of_json_inverse)

lemma digest_json_not_null [simp]: "digest_json d \<noteq> JNull"
  by (simp add: digest_json_def)

lemma opt_field_inverse:
  assumes "obj_get m k = Some (opt_json g v)" "\<And>x. v = Some x \<Longrightarrow> f (g x) = Some x" "\<And>x. g x \<noteq> JNull"
  shows "opt_field m k f = Some v"
  using assms by (cases v) (auto simp: opt_field_def optional_field_def opt_json_def split: json.split)

lemma role_of_json_inverse: "role_of_json (JString (actor_role_str r)) = Some r"
  by (cases r) (simp_all add: role_of_json_def role_of_variant_def)

lemma kind_of_json_inverse: "kind_of_json (kind_json k) = Some k"
  by (cases k) (simp_all add: kind_of_json_def tagged_def req_field_def obj_get_def unit_variant_def
      str_variant_def struct_fields_def)

lemma status_of_json_inverse: "status_of_json (status_json s) = Some s"
  by (cases s) (simp_all add: status_of_json_def tagged_def req_field_def obj_get_def unit_variant_def
      str_variant_def struct_fields_def)

section \<open>Property\<close>

text \<open>The fields that records written by earlier versions do not have.\<close>

definition late_fields :: "string list" where
  "late_fields = [''step_index'', ''stream_id'', ''state_before_hash'', ''state_after_hash'', ''references'', ''in_reply_to'']"

definition without_late :: "json \<Rightarrow> json" where
  "without_late j = (case j of JObject m \<Rightarrow> JObject (filter (\<lambda>(k, _). k \<notin> set late_fields) m) | _ \<Rightarrow> j)"

lemma obj_get_without:
  "obj_get (filter (\<lambda>(k, _). k \<notin> set ks) m) k = (if k \<in> set ks then None else obj_get m k)"
  by (induction m) (auto simp: obj_get_def)

definition digests_ok :: "Interaction \<Rightarrow> bool" where
  "digests_ok x \<longleftrightarrow>
     pred_option (\<lambda>d. length d = 32) (in_state_before_hash x) \<and> pred_option (\<lambda>d. length d = 32) (in_state_after_hash x)"

lemma interaction_object:
  assumes "Interaction_to_json show_uuid show_time x = JObject m"
  shows "obj_get m ''id'' = Some (JString (show_uuid (in_id x)))"
    "obj_get m ''parent_id'' = Some (opt_json (\<lambda>u. JString (show_uuid u)) (in_parent_id x))"
    "obj_get m ''trace_id'' = Some (JString (show_uuid (in_trace_id x)))"
    "obj_get m ''run_id'' = Some (opt_json (\<lambda>u. JString (show_uuid u)) (in_run_id x))"
    "obj_get m ''node_id'' = Some (opt_json JString (in_node_id x))"
    "obj_get m ''actor'' = Some (JObject [(''id'', JString (actor_id (in_actor x))),
       (''role'', JString (actor_role_str (actor_role (in_actor x))))])"
    "obj_get m ''namespace'' = Some (JString (in_namespace x))"
    "obj_get m ''target'' = Some (JString (in_target x))"
    "obj_get m ''kind'' = Some (kind_json (in_kind x))"
    "obj_get m ''attributes'' = Some (in_attributes x)"
    "obj_get m ''edge_rules_fired'' = Some (JArray (map JString (in_edge_rules_fired x)))"
    "obj_get m ''status'' = Some (status_json (in_status x))"
    "obj_get m ''summary'' = Some (opt_json JString (in_summary x))"
    "obj_get m ''timestamp'' = Some (JString (show_time (in_timestamp x)))"
    "obj_get m ''step_index'' = Some (JNumber (PosInt (in_step_index x)))"
    "obj_get m ''stream_id'' = Some (JString (in_stream_id x))"
    "obj_get m ''state_before_hash'' = Some (opt_json digest_json (in_state_before_hash x))"
    "obj_get m ''state_after_hash'' = Some (opt_json digest_json (in_state_after_hash x))"
    "obj_get m ''references'' = Some (JArray (map (\<lambda>u. JString (show_uuid u)) (in_references x)))"
    "obj_get m ''in_reply_to'' = Some (opt_json (\<lambda>u. JString (show_uuid u)) (in_in_reply_to x))"
  using assms by (auto simp: Interaction_to_json_def Let_def obj_get_of_list)

lemma actor_of_json_inverse:
  "actor_of_json (JObject [(''id'', JString i), (''role'', JString (actor_role_str r))]) =
     Some \<lparr> actor_id = i, actor_role = r \<rparr>"
  by (simp add: actor_of_json_def struct_fields_def req_field_def obj_get_def role_of_json_inverse)

text \<open>The fourteen fields that every version writes, and whatever the later six read as.\<close>

lemma from_json_object:
  assumes parse: "\<And>u. parse_uuid (show_uuid u) = Some u" "\<And>t. parse_time (show_time t) = Some t"
    and "Interaction_to_json show_uuid show_time x = JObject m"
    and early: "\<And>k. k \<notin> set late_fields \<Longrightarrow> obj_get m' k = obj_get m k"
    and "default_field m' ''step_index'' 0 as_u64 = Some step_index"
    and "default_field m' ''stream_id'' [] as_str = Some stream_id"
    and "opt_field m' ''state_before_hash'' digest_of_json = Some before"
    and "opt_field m' ''state_after_hash'' digest_of_json = Some after"
    and "default_field m' ''references'' [] (list_of_json (\<lambda>j. Option.bind (as_str j) parse_uuid)) = Some refs"
    and "opt_field m' ''in_reply_to'' (\<lambda>j. Option.bind (as_str j) parse_uuid) = Some reply"
  shows "Interaction_from_json parse_uuid parse_time (JObject m') =
    Some (x\<lparr> in_step_index := step_index, in_stream_id := stream_id, in_state_before_hash := before,
            in_state_after_hash := after, in_references := refs, in_in_reply_to := reply \<rparr>)"
proof -
  have early_keys: "''id'' \<notin> set late_fields" "''parent_id'' \<notin> set late_fields" "''trace_id'' \<notin> set late_fields"
    "''run_id'' \<notin> set late_fields" "''node_id'' \<notin> set late_fields" "''actor'' \<notin> set late_fields"
    "''namespace'' \<notin> set late_fields" "''target'' \<notin> set late_fields" "''kind'' \<notin> set late_fields"
    "''attributes'' \<notin> set late_fields" "''edge_rules_fired'' \<notin> set late_fields" "''status'' \<notin> set late_fields"
    "''summary'' \<notin> set late_fields" "''timestamp'' \<notin> set late_fields"
    by (simp_all add: late_fields_def)
  note fields = early_keys [THEN early] interaction_object [OF assms(3)]
  note opt = opt_field_inverse [where m = m' and g = "\<lambda>u. JString (show_uuid u)" and f = "\<lambda>j. Option.bind (as_str j) parse_uuid"]
    opt_field_inverse [where m = m' and g = JString and f = as_str]
  have opts: "opt_field m' ''parent_id'' (\<lambda>j. Option.bind (as_str j) parse_uuid) = Some (in_parent_id x)"
    "opt_field m' ''run_id'' (\<lambda>j. Option.bind (as_str j) parse_uuid) = Some (in_run_id x)"
    "opt_field m' ''node_id'' as_str = Some (in_node_id x)" "opt_field m' ''summary'' as_str = Some (in_summary x)"
    by (rule opt; simp add: fields parse)+
  show ?thesis
    by (simp add: Interaction_from_json_def struct_fields_def Let_def req_field_def fields parse opts assms(5-10)
        actor_of_json_inverse kind_of_json_inverse status_of_json_inverse list_of_json_inverse)
qed

text \<open>
  C40. Interaction records survive storage. A record whose digests have 32 bytes reads back from its
  JSON form as it was written, when the text forms of identifiers and times can be read back; and a
  record of an earlier version, which lacks the six later fields, reads with their defaults and all
  other fields as they were.
\<close>

theorem interaction_roundtrip:
  assumes "\<And>u. parse_uuid (show_uuid u) = Some u" "\<And>t. parse_time (show_time t) = Some t" "digests_ok x"
  shows "Interaction_from_json parse_uuid parse_time (Interaction_to_json show_uuid show_time x) = Some x \<and>
    Interaction_from_json parse_uuid parse_time (without_late (Interaction_to_json show_uuid show_time x)) =
      Some (x\<lparr> in_step_index := 0, in_stream_id := [], in_state_before_hash := None, in_state_after_hash := None,
              in_references := [], in_in_reply_to := None \<rparr>)"
proof -
  obtain m where m: "Interaction_to_json show_uuid show_time x = JObject m"
    by (simp add: Interaction_to_json_def Let_def)
  note fields = interaction_object [OF m]
  have digests: "digest_of_json (digest_json d) = Some d"
    if "in_state_before_hash x = Some d \<or> in_state_after_hash x = Some d" for d
    using that assms(3) by (auto simp: digests_ok_def intro: digest_of_json_inverse)
  have hashes: "opt_field m ''state_before_hash'' digest_of_json = Some (in_state_before_hash x)"
    "opt_field m ''state_after_hash'' digest_of_json = Some (in_state_after_hash x)"
    by (rule opt_field_inverse [OF fields(17)] opt_field_inverse [OF fields(18)]; simp add: digests)+
  have "Interaction_from_json parse_uuid parse_time (JObject m) =
      Some (x\<lparr> in_step_index := in_step_index x, in_stream_id := in_stream_id x,
        in_state_before_hash := in_state_before_hash x, in_state_after_hash := in_state_after_hash x,
        in_references := in_references x, in_in_reply_to := in_in_reply_to x \<rparr>)"
    by (rule from_json_object [OF assms(1,2) m])
      (auto simp: default_field_def fields assms(1) list_of_json_inverse hashes intro: opt_field_inverse [OF fields(20)])
  moreover have late: "''step_index'' \<in> set late_fields" "''stream_id'' \<in> set late_fields"
    "''state_before_hash'' \<in> set late_fields" "''state_after_hash'' \<in> set late_fields"
    "''references'' \<in> set late_fields" "''in_reply_to'' \<in> set late_fields"
    by (simp_all add: late_fields_def)
  have "Interaction_from_json parse_uuid parse_time (JObject (filter (\<lambda>(k, _). k \<notin> set late_fields) m)) =
      Some (x\<lparr> in_step_index := 0, in_stream_id := [], in_state_before_hash := None, in_state_after_hash := None,
              in_references := [], in_in_reply_to := None \<rparr>)"
    by (rule from_json_object [OF assms(1,2) m])
      (simp_all add: obj_get_without default_field_def opt_field_def optional_field_def late)
  ultimately show ?thesis by (simp add: m without_late_def)
qed

section \<open>Instance\<close>

definition sample_show_time :: "datetime \<Rightarrow> string" where
  "sample_show_time t = (if t < 0 then ''-'' else ''+'') @ show_nat (nat \<bar>t\<bar>)"

definition sample_parse_time :: "string \<Rightarrow> datetime option" where
  "sample_parse_time s = map_option (\<lambda>n. if hd s = CHR ''-'' then - int n else int n) (parse_digits (tl s))"

definition sample_interaction :: Interaction where
  "sample_interaction =
     \<lparr> in_id = 1, in_parent_id = Some 2, in_trace_id = 3, in_run_id = None, in_node_id = Some ''plan'',
       in_actor = \<lparr> actor_id = ''alice'', actor_role = UserAgent \<rparr>, in_namespace = ''konf:a'', in_target = ''tool:echo'',
       in_kind = ProductDefined ''observation'', in_attributes = JObject [(''n'', JNumber (PosInt 1))],
       in_edge_rules_fired = [''guard''], in_status = StatusFailed ''timeout'', in_summary = None,
       in_timestamp = - 7, in_step_index = 4, in_stream_id = ''s'',
       in_state_before_hash = Some (replicate 32 255), in_state_after_hash = None, in_references = [5, 6],
       in_in_reply_to = Some 7 \<rparr>"

theorem interaction_roundtrip_witness:
  "Interaction_from_json (\<lambda>s. map_option of_nat (parse_digits s)) sample_parse_time
      (Interaction_to_json (\<lambda>u. show_nat (unat u)) sample_show_time sample_interaction) = Some sample_interaction"
  by (rule interaction_roundtrip [THEN conjunct1])
    (auto simp: parse_digits_show_nat sample_show_time_def sample_parse_time_def sample_interaction_def digests_ok_def)

end
