(* ===== verification/Storage.thy ===== *)
theory Storage
  imports Boot
begin

text \<open>
  The storage handle, \<^verbatim>\<open>konf-runtime/src/storage.rs\<close>, and how its stores are opened over one redb
  file (\<^verbatim>\<open>journal/redb.rs\<close>, \<^verbatim>\<open>runner_intents.rs\<close>). The redb library is outside: whether the file can be
  created and whether a write transaction succeeds are arguments. A transaction that opens tables
  creates the missing ones, all of them or, when it fails, none.
\<close>

section \<open>Errors and settings\<close>

datatype StorageError =
    StorageOpen string string
  | StorageJournal JournalError
  | StorageIntent IntentError
  | StorageJoin string

fun show_IntentError :: "IntentError \<Rightarrow> string" where
  "show_IntentError (IntentStorage e) = ''storage: '' @ e"
| "show_IntentError (IntentSerialization e) = ''serialization: '' @ e"
| "show_IntentError (IntentJoin e) = ''task join: '' @ e"

fun show_StorageError :: "StorageError \<Rightarrow> string" where
  "show_StorageError (StorageOpen path e) = ''failed to open redb database at '' @ path @ '': '' @ e"
| "show_StorageError (StorageJournal e) = ''journal init: '' @ show_JournalError e"
| "show_StorageError (StorageIntent e) = ''runner intent init: '' @ show_IntentError e"
| "show_StorageError (StorageJoin e) = ''blocking task join: '' @ e"

record Retention =
  rt_days :: u32

definition Retention_default :: Retention where
  "Retention_default = \<lparr> rt_days = 7 \<rparr>"

section \<open>Opening\<close>

text \<open>The tables of a file, by the transaction that creates them; \<open>None\<close> before.\<close>

record RedbFile =
  rf_journal :: "RedbJournal option"
  rf_intents :: "RunnerIntentStore option"
  rf_timers :: RedbScheduler

definition from_database :: "string option \<Rightarrow> RedbFile \<Rightarrow> (JournalError + RedbJournal) \<times> RedbFile" where
  "from_database fault file =
     (case fault of
        Some e \<Rightarrow> (Inl (JStorage e), file)
      | None \<Rightarrow>
          (let journal = (case rf_journal file of Some j \<Rightarrow> j | None \<Rightarrow> RedbJournal_empty)
           in (Inr journal, file\<lparr> rf_journal := Some journal \<rparr>)))"

definition RedbJournal_open ::
  "string + RedbFile \<Rightarrow> string option \<Rightarrow> (JournalError + RedbJournal) \<times> RedbFile option" where
  "RedbJournal_open created fault =
     (case created of
        Inl e \<Rightarrow> (Inl (JStorage e), None)
      | Inr file \<Rightarrow> (case from_database fault file of (r, file') \<Rightarrow> (r, Some file')))"

definition intents_open :: "string option \<Rightarrow> RedbFile \<Rightarrow> (IntentError + RunnerIntentStore) \<times> RedbFile" where
  "intents_open fault file =
     (case fault of
        Some e \<Rightarrow> (Inl (IntentStorage e), file)
      | None \<Rightarrow>
          (let intents = (case rf_intents file of Some s \<Rightarrow> s | None \<Rightarrow> RunnerIntentStore_open)
           in (Inr intents, file\<lparr> rf_intents := Some intents \<rparr>)))"

text \<open>\<open>created\<close> is what the blocking task that creates the database gives, \<open>Inl\<close> if it cannot be joined.\<close>

definition KonfStorage_open ::
  "string + (string + RedbFile) \<Rightarrow> string option \<Rightarrow> string option \<Rightarrow> string \<Rightarrow> Retention \<Rightarrow>
   (StorageError + RedbJournal KonfStorage) \<times> RedbFile option" where
  "KonfStorage_open created journal_fault intents_fault path retention =
     (case created of
        Inl e \<Rightarrow> (Inl (StorageJoin e), None)
      | Inr (Inl e) \<Rightarrow> (Inl (StorageOpen path e), None)
      | Inr (Inr file) \<Rightarrow>
          (case from_database journal_fault file of
             (Inl e, file1) \<Rightarrow> (Inl (StorageJournal e), Some file1)
           | (Inr journal, file1) \<Rightarrow>
               (case intents_open intents_fault file1 of
                  (Inl e, file2) \<Rightarrow> (Inl (StorageIntent e), Some file2)
                | (Inr intents, file2) \<Rightarrow>
                    (Inr \<lparr> st_journal = journal, st_timers = rf_timers file2, st_runner_intents = intents,
                           st_retention = rt_days retention \<rparr>, Some file2))))"

section \<open>Durability\<close>

text \<open>Opening changes no table that exists, however it ends.\<close>

definition tables_kept :: "RedbFile \<Rightarrow> RedbFile \<Rightarrow> bool" where
  "tables_kept file file' \<longleftrightarrow>
     (\<forall>j. rf_journal file = Some j \<longrightarrow> rf_journal file' = Some j) \<and>
     (\<forall>s. rf_intents file = Some s \<longrightarrow> rf_intents file' = Some s) \<and> rf_timers file' = rf_timers file"

lemma open_keeps_tables:
  "KonfStorage_open (Inr (Inr file)) jflt iflt path retention = (r, Some file') \<Longrightarrow> tables_kept file file'"
  by (auto simp: KonfStorage_open_def from_database_def intents_open_def tables_kept_def Let_def
      split: option.splits)

text \<open>What is opened is what the file holds; a second open finds it again and writes nothing new.\<close>

lemma open_reads_file:
  assumes "KonfStorage_open (Inr (Inr file)) jflt iflt path retention = (Inr storage, Some file')"
  shows "rf_journal file' = Some (st_journal storage) \<and> rf_intents file' = Some (st_runner_intents storage) \<and>
    rf_timers file' = st_timers storage \<and>
    KonfStorage_open (Inr (Inr file')) None None path retention = (Inr storage, Some file')"
  using assms by (auto simp: KonfStorage_open_def from_database_def intents_open_def Let_def split: option.splits)

text \<open>A run's state survives a restart: an intent store that was written back is the one that boot replays from.\<close>

lemma reopen_intents:
  assumes "KonfStorage_open (Inr (Inr (file\<lparr> rf_intents := Some s \<rparr>))) jflt iflt path retention = (Inr storage, file')"
  shows "st_runner_intents storage = s"
  using assms by (auto simp: KonfStorage_open_def from_database_def intents_open_def Let_def split: option.splits)

text \<open>Opening fails exactly when the library does, and with the first failure.\<close>

lemma open_fails_iff:
  "(\<exists>storage file'. KonfStorage_open created jflt iflt path retention = (Inr storage, file')) \<longleftrightarrow>
     (\<exists>file. created = Inr (Inr file)) \<and> jflt = None \<and> iflt = None"
  by (cases created rule: sum.exhaust; cases jflt; cases iflt)
    (auto simp: KonfStorage_open_def from_database_def intents_open_def Let_def split: sum.split option.split)

end
