(* ===== verification/Mcp_Server.thy ===== *)
theory Mcp_Server
  imports Boot Memory_Tools
begin

text \<open>
  The MCP server, \<^verbatim>\<open>konf-mcp/src/lib.rs\<close>: the handlers for listing and calling tools and for listing
  and reading resources, and the scope of a session. Serving the transport, the change notification
  and \<open>get_info\<close> are calls of \<^verbatim>\<open>rmcp\<close>.

  \<open>listing\<close> is the order in which the tool registry, a hash map, gives its tools; \<open>pretty\<close> is the
  text form of a value.
\<close>

section \<open>Definitions\<close>

record ('r, 'q) KonfMcpServer =
  ms_engine :: "('r, 'q) Engine"
  ms_session_capabilities :: "string list"

definition KonfMcpServer_new :: "('r, 'q) Engine \<Rightarrow> ('r, 'q) KonfMcpServer" where
  "KonfMcpServer_new eng = \<lparr> ms_engine = eng, ms_session_capabilities = [''*''] \<rparr>"

definition KonfMcpServer_with_capabilities :: "('r, 'q) Engine \<Rightarrow> string list \<Rightarrow> ('r, 'q) KonfMcpServer" where
  "KonfMcpServer_with_capabilities eng capabilities = \<lparr> ms_engine = eng, ms_session_capabilities = capabilities \<rparr>"

definition mcp_bindings :: "json smap" where
  "mcp_bindings = [(''namespace'', JString ''konf:mcp:http'')]"

definition mcp_session_scope :: "('r, 'q) KonfMcpServer \<Rightarrow> ExecutionScope" where
  "mcp_session_scope server =
     \<lparr> scope_namespace = ''konf:mcp:http'',
       scope_capabilities = map (\<lambda>pat. with_bindings pat mcp_bindings) (ms_session_capabilities server),
       scope_limits = ResourceLimits_default,
       scope_actor = \<lparr> actor_id = ''mcp-http'', actor_role = System \<rparr>,
       scope_depth = 0 \<rparr>"

definition kernel_to_mcp_name :: "string \<Rightarrow> string" where
  "kernel_to_mcp_name name = map (\<lambda>c. if c = CHR '':'' then CHR ''_'' else c) name"

record ServedTool =
  mt_name :: string
  mt_description :: string
  mt_input_schema :: jobject

definition tool_info_to_mcp :: "ToolInfo \<Rightarrow> ServedTool" where
  "tool_info_to_mcp i =
     \<lparr> mt_name = kernel_to_mcp_name (info_name i), mt_description = info_description i,
       mt_input_schema = (case as_object (info_input_schema i) of Some m \<Rightarrow> m | None \<Rightarrow> []) \<rparr>"

definition tool_allowed_by_session :: "string \<Rightarrow> string list \<Rightarrow> bool" where
  "tool_allowed_by_session tool_name capabilities = is_ok (check_tool_access tool_name capabilities)"

definition list_tools :: "(ToolInfo list \<Rightarrow> ToolInfo list) \<Rightarrow> ('r, 'q) KonfMcpServer \<Rightarrow> ServedTool list" where
  "list_tools listing server =
     map tool_info_to_mcp
       (List.filter (\<lambda>i. tool_allowed_by_session (info_name i) (ms_session_capabilities server))
         (listing (registry_list (eng_tools (ms_engine server)))))"

datatype ErrorData = InvalidParams string | InternalError string

datatype CallToolResult = CallSuccess string | CallError string

text \<open>The kernel name a client's name stands for.\<close>

definition resolve_mcp_name :: "(ToolInfo list \<Rightarrow> ToolInfo list) \<Rightarrow> ToolRegistry \<Rightarrow> string \<Rightarrow> string" where
  "resolve_mcp_name listing reg mcp_name =
     (case find (\<lambda>i. kernel_to_mcp_name (info_name i) = mcp_name) (listing (registry_list reg)) of
        Some i \<Rightarrow> info_name i
      | None \<Rightarrow> mcp_name)"

text \<open>\<open>registry\<close> is the tool registry of the runtime that the call is routed through.\<close>

definition call_tool ::
  "(ToolInfo list \<Rightarrow> ToolInfo list) \<Rightarrow> (json \<Rightarrow> string) \<Rightarrow> uuid \<Rightarrow> ('w, 'j) DispatchEnv \<Rightarrow> ToolRegistry \<Rightarrow>
   ('r, 'q) KonfMcpServer \<Rightarrow> string \<Rightarrow> jobject option \<Rightarrow> 'j Dispatcher \<Rightarrow> 'w \<Rightarrow>
   (ErrorData + CallToolResult) \<times> 'j Dispatcher \<times> 'w" where
  "call_tool listing pretty fresh de registry server mcp_name arguments dp w =
     (let kernel_name = resolve_mcp_name listing (eng_tools (ms_engine server)) mcp_name;
          input = JObject (case arguments of Some args \<Rightarrow> args | None \<Rightarrow> [])
      in if \<not> tool_allowed_by_session kernel_name (ms_session_capabilities server)
         then (Inl (InvalidParams (''Tool not permitted in this session: '' @ mcp_name)), dp, w)
         else
           (case dispatch_tool de kernel_name input (mcp_session_scope server) (new_root fresh ''konf:mcp:http'')
                   registry dp w of
              (Inr output, st) \<Rightarrow> (Inr (CallSuccess (pretty output)), st)
            | (Inl e, st) \<Rightarrow> (Inr (CallError (show_RuntimeError (de_show_uuid de) e)), st)))"

definition list_resources :: "('r, 'q) KonfMcpServer \<Rightarrow> ResourceInfo list" where
  "list_resources server = resource_list (eng_resources (ms_engine server))"

fun show_ResourceError :: "ResourceError \<Rightarrow> string" where
  "show_ResourceError (ResourceNotFound u) = ''resource not found: '' @ u"
| "show_ResourceError (ReadFailed e) = ''failed to read resource: '' @ e"

text \<open>The text and the URI of a resource; \<open>read\<close> is the method of the registered object.\<close>

definition read_resource ::
  "(json \<Rightarrow> string) \<Rightarrow> (ResourceInfo \<times> 'r \<Rightarrow> ResourceError + json) \<Rightarrow> ('r, 'q) KonfMcpServer \<Rightarrow> string \<Rightarrow>
   ErrorData + string \<times> string" where
  "read_resource pretty read server uri =
     rbind (ok_or (InvalidParams (''Resource not found: '' @ uri)) (obj_get (eng_resources (ms_engine server)) uri)) (\<lambda>r.
     rbind (map_err (\<lambda>e. InternalError (''Failed to read resource: '' @ show_ResourceError e)) (read r)) (\<lambda>content.
     Inr (pretty content, uri)))"

section \<open>The session\<close>

lemma first_grant_with_bindings:
  "first_grant (map (\<lambda>p. with_bindings p b) ps) name =
     (if \<exists>p \<in> set ps. Capability_matches (Capability p) name then Some b else None)"
  by (induction ps) (auto simp: CapabilityGrant_matches_def with_bindings_def)

text \<open>The scope of a session grants what the session's visibility check allows, bound to its namespace.\<close>

lemma session_grants:
  "tool_allowed_by_session name (ms_session_capabilities server) \<longleftrightarrow>
     check_tool (mcp_session_scope server) name = Inr mcp_bindings"
proof -
  have "is_ok (CapSet_check_access cs name) \<longleftrightarrow> CapSet_check_access cs name = Inr ()" for cs
    by (cases "CapSet_check_access cs name") auto
  then show ?thesis
    by (auto simp: tool_allowed_by_session_def check_tool_access_def check_access_iff_permits CapSet_permits_iff
        CapSet_from_patterns_def check_tool_def mcp_session_scope_def first_grant_with_bindings)
qed

lemma mcp_binding: "obj_get mcp_bindings ''namespace'' = Some (JString ''konf:mcp:http'')" "distinct (map fst mcp_bindings)"
  by (simp_all add: mcp_bindings_def obj_get_def)

lemma check_session_bindings: "check_tool (mcp_session_scope server) name = Inr bs \<Longrightarrow> bs = mcp_bindings"
  by (auto simp: check_tool_def mcp_session_scope_def first_grant_with_bindings split: option.splits if_splits)

text \<open>The registry of a booted platform holds raw tools under their own names.\<close>

definition raw_registry :: "ToolRegistry \<Rightarrow> bool" where
  "raw_registry reg = list_all (\<lambda>(k, t). case t of RawTool i \<Rightarrow> info_name i = k | _ \<Rightarrow> False) reg"

lemma raw_registry_get:
  assumes "raw_registry reg" "registry_get reg name = Some t"
  obtains i where "t = RawTool i" "info_name i = name"
  using assms by (force simp: raw_registry_def registry_get_def obj_get_def list_all_iff dest!: map_of_SomeD split: Tool.splits)

lemma memory_raw_others: "info_name i \<notin> set memory_tool_names \<Longrightarrow> memory_raw mb others fresh now i env b = others i env b"
  by (auto simp: memory_raw_def Let_def memory_tool_names_def memory_infos_def catalog_defs)

lemma session_dispatch_confined:
  assumes "raw_registry reg"
  shows "dispatch_tool (de\<lparr> de_raw := memory_raw (confine ''konf:mcp:http'' other mb) others fresh now \<rparr>) name input
      (mcp_session_scope server) ctx reg dp w =
    dispatch_tool (de\<lparr> de_raw := memory_raw mb others fresh now \<rparr>) name input (mcp_session_scope server) ctx reg dp w"
proof (rule dispatch_raw_cong)
  fix bs t env b
  assume c: "check_tool (mcp_session_scope server) name = Inr bs" and t: "registry_get reg name = Some t"
  obtain i where i: "t = RawTool i" "info_name i = name" by (rule raw_registry_get [OF assms t])
  have bs: "bs = mcp_bindings" by (rule check_session_bindings [OF c])
  show "invoke (memory_raw (confine ''konf:mcp:http'' other mb) others fresh now) (wrap_tool (dp_guards dp) name bs t) env b =
      invoke (memory_raw mb others fresh now) (wrap_tool (dp_guards dp) name bs t) env b"
  proof (cases "info_name i \<in> set memory_tool_names")
    case True
    then show ?thesis unfolding bs i(1) by (rule invoke_wrapped_confined [OF mcp_binding])
  next
    case False
    then show ?thesis unfolding i(1) invoke_wrap_tool
      by (auto simp: memory_raw_others split: sum.split)
  qed
qed

section \<open>Properties\<close>

lemma session_permits:
  "tool_allowed_by_session n cs \<longleftrightarrow> CapSet_permits (CapSet_from_patterns cs) n"
  unfolding check_access_iff_permits [symmetric] tool_allowed_by_session_def check_tool_access_def
  by (cases "CapSet_check_access (CapSet_from_patterns cs) n") auto

text \<open>
  A session lists the tools its capabilities permit, refuses the others without an effect, and
  reaches the memory backend only under its namespace.
\<close>

lemma session_listing:
  "list_tools listing server =
     map tool_info_to_mcp (List.filter (\<lambda>i. CapSet_permits (CapSet_from_patterns (ms_session_capabilities server)) (info_name i))
       (listing (registry_list (eng_tools (ms_engine server)))))"
  by (simp add: list_tools_def session_permits)

lemma session_refuses:
  "\<not> CapSet_permits (CapSet_from_patterns (ms_session_capabilities server))
        (resolve_mcp_name listing (eng_tools (ms_engine server)) mcp_name) \<Longrightarrow>
     call_tool listing pretty fresh de reg server mcp_name arguments dp w =
       (Inl (InvalidParams (''Tool not permitted in this session: '' @ mcp_name)), dp, w)"
  by (simp add: call_tool_def session_permits Let_def)

lemma session_confined:
  assumes "raw_registry reg"
  shows "call_tool listing pretty fresh (de\<lparr> de_raw := memory_raw (confine ''konf:mcp:http'' other mb) others ids stamps \<rparr>)
      reg server mcp_name arguments dp w =
    call_tool listing pretty fresh (de\<lparr> de_raw := memory_raw mb others ids stamps \<rparr>)
      reg server mcp_name arguments dp w"
proof -
  have u: "de_show_uuid (de\<lparr> de_raw := r \<rparr>) = de_show_uuid de" for r by simp
  show ?thesis unfolding call_tool_def u session_dispatch_confined [OF assms] by (rule refl)
qed

section \<open>Names\<close>

text \<open>
  Where the translation keeps the names apart, a listed tool is called by its listed name, in any
  order of the registry. The names of the platform's own tools are kept apart.
\<close>

lemma listed_name_resolves:
  assumes "inj_on kernel_to_mcp_name (info_name ` set (registry_list reg))" "i \<in> set (registry_list reg)"
    and "set (listing (registry_list reg)) = set (registry_list reg)"
  shows "resolve_mcp_name listing reg (mt_name (tool_info_to_mcp i)) = info_name i"
proof (cases "find (\<lambda>j. kernel_to_mcp_name (info_name j) = mt_name (tool_info_to_mcp i)) (listing (registry_list reg))")
  case None
  then show ?thesis using assms(2,3) by (auto simp: find_None_iff tool_info_to_mcp_def)
next
  case (Some j)
  then have "j \<in> set (registry_list reg)" "kernel_to_mcp_name (info_name j) = kernel_to_mcp_name (info_name i)"
    using assms(3) by (auto simp: find_Some_iff tool_info_to_mcp_def)
  then have "info_name j = info_name i" using assms(1,2) by (auto dest: inj_onD)
  with Some show ?thesis by (simp add: resolve_mcp_name_def)
qed

lemma platform_names_kept_apart: "distinct (map kernel_to_mcp_name (map info_name (platform_tools modes)))"
  unfolding platform_names by (simp add: kernel_to_mcp_name_def)

text \<open>Names that differ in a colon collide: which tool a client calls then depends on the order of the registry.\<close>

lemma colliding_names:
  "resolve_mcp_name id [(''a:b'', RawTool (sample_info ''a:b'')), (''a_b'', RawTool (sample_info ''a_b''))] ''a_b'' = ''a:b''"
  "resolve_mcp_name rev [(''a:b'', RawTool (sample_info ''a:b'')), (''a_b'', RawTool (sample_info ''a_b''))] ''a_b'' = ''a_b''"
  by (simp_all add: resolve_mcp_name_def registry_list_def kernel_to_mcp_name_def sample_info_def)

text \<open>
  The scope that a tool rebuilds from the envelope of an MCP call has the session's patterns without
  their bindings: a workflow that is started through it reaches memory under any namespace.
\<close>

lemma nested_scope_unbound:
  "scope_capabilities (scope_from_envelope (dispatch_envelope de name input (mcp_session_scope server) ctx)) =
     map CapabilityGrant_new (ms_session_capabilities server)"
  by (simp add: scope_from_envelope_def dispatch_envelope_def Let_def for_tool_dispatch_def CapSet_patterns_def
      CapSet_from_patterns_def capability_patterns_def mcp_session_scope_def with_bindings_def)

end
