(* ===== verification/Backend.thy ===== *)
theory Backend
  imports Boot Mcp_Server Runtime_Props
begin

text \<open>
  The HTTP backend, \<^verbatim>\<open>konf-backend/src\<close>: token verification with its key cache (\<^verbatim>\<open>auth/jwt.rs\<close>), the
  middleware in front of the protected routes (\<^verbatim>\<open>auth/middleware.rs\<close>), error responses
  (\<^verbatim>\<open>error.rs\<close>), the handlers (\<^verbatim>\<open>api\<close>), the starter templates and the router and state that
  \<^verbatim>\<open>main.rs\<close> sets up.

  What the backend takes from outside is the record \<open>Api\<close>: the environment variables, \<^verbatim>\<open>jsonwebtoken\<close>,
  the fetch of the key set, clocks, fresh ids and the journal. A response keeps the value that is
  serialized as its body. \<open>handle\<close> is one request through router, middleware and handler; a result
  \<open>None\<close> stands for a handler that does not return.
\<close>

section \<open>Token verification\<close>

record Claims =
  cl_sub :: string
  cl_aud :: "string option"
  cl_iss :: "string option"
  cl_exp :: i64
  cl_role :: "string option"

datatype AuthError =
    InvalidHeaderFormat
  | MissingKid
  | KeyNotFound string
  | VerificationFailed string
  | JwksFetchFailed string
  | TokenExpired

fun show_AuthError :: "AuthError \<Rightarrow> string" where
  "show_AuthError InvalidHeaderFormat = ''invalid Authorization header format (expected '' @ CHR 0x27 # ''Bearer <token>'' @ CHR 0x27 # '')''"
| "show_AuthError MissingKid = ''missing '' @ CHR 0x27 # ''kid'' @ CHR 0x27 # '' in JWT header''"
| "show_AuthError (KeyNotFound kid) = ''key not found in JWKS for kid '' @ CHR 0x27 # kid @ [CHR 0x27]"
| "show_AuthError (VerificationFailed e) = ''JWT verification failed: '' @ e"
| "show_AuthError (JwksFetchFailed e) = ''failed to fetch JWKS: '' @ e"
| "show_AuthError TokenExpired = ''token expired''"

datatype Algorithm = RS256 | ES256 | OtherAlgorithm string

datatype JwtError = ExpiredSignature | OtherJwtError string

record 'k CachedJwks =
  cj_keys :: "'k list"
  cj_fetched_at :: datetime

record 'k JwtVerifier =
  jv_jwks_url :: string
  jv_audience :: string
  jv_cache :: "'k CachedJwks option"
  jv_cache_ttl :: datetime

text \<open>What is outside: \<open>'k\<close> is the type of keys, \<open>'j\<close> that of the journal.\<close>

record ('k, 'j) Api =
  api_var :: "string \<Rightarrow> string option"
  api_decode_header :: "string \<Rightarrow> string + string option \<times> Algorithm"
  api_key_id :: "'k \<Rightarrow> string option"
  api_from_jwk :: "'k \<Rightarrow> string + 'k"
  api_decode :: "string \<Rightarrow> 'k \<Rightarrow> Algorithm \<Rightarrow> string option \<Rightarrow> JwtError + Claims"
  api_fetch_jwks :: "string \<Rightarrow> string + 'k list"
  api_instant :: datetime
  api_fetched_at :: datetime
  api_from_yaml :: "string \<Rightarrow> string + WorkflowSchema"
  api_show_uuid :: "uuid \<Rightarrow> string"
  api_parse_uuid :: "string \<Rightarrow> uuid option"
  api_append :: "'j append_op"
  api_recent :: "nat \<Rightarrow> 'j \<Rightarrow> JournalError + JournalRow list"
  api_run_id :: RunId
  api_trace_id :: uuid
  api_session_id :: string
  api_now :: datetime
  api_listing :: "ToolInfo list"
  api_uptime :: u64
  api_version :: string

definition JwtVerifier_new :: "AuthConfig \<Rightarrow> 'k JwtVerifier" where
  "JwtVerifier_new config =
     \<lparr> jv_jwks_url = auth_supabase_url config @ ''/auth/v1/.well-known/jwks.json'',
       jv_audience = auth_jwt_audience config, jv_cache = None,
       jv_cache_ttl = int (unat (auth_jwks_cache_ttl_secs config)) * 1000000000 \<rparr>"

definition refresh_jwks :: "('k, 'j) Api \<Rightarrow> 'k JwtVerifier \<Rightarrow> (AuthError + 'k list) \<times> 'k JwtVerifier" where
  "refresh_jwks api v =
     (case api_fetch_jwks api (jv_jwks_url v) of
        Inl e \<Rightarrow> (Inl (JwksFetchFailed e), v)
      | Inr jwks \<Rightarrow> (Inr jwks, v\<lparr> jv_cache := Some \<lparr> cj_keys = jwks, cj_fetched_at = api_fetched_at api \<rparr> \<rparr>))"

definition get_or_refresh_jwks :: "('k, 'j) Api \<Rightarrow> 'k JwtVerifier \<Rightarrow> (AuthError + 'k list) \<times> 'k JwtVerifier" where
  "get_or_refresh_jwks api v =
     (case jv_cache v of
        Some cached \<Rightarrow>
          if api_instant api - cj_fetched_at cached < jv_cache_ttl v then (Inr (cj_keys cached), v)
          else refresh_jwks api v
      | None \<Rightarrow> refresh_jwks api v)"

text \<open>The checks of \<open>verify\<close> once the keys are there.\<close>

definition verify_with :: "('k, 'j) Api \<Rightarrow> string \<Rightarrow> string \<Rightarrow> string \<Rightarrow> Algorithm \<Rightarrow> 'k list \<Rightarrow> AuthError + Claims" where
  "verify_with api audience token kid alg jwks =
     rbind (ok_or (KeyNotFound kid) (find (\<lambda>k. api_key_id api k = Some kid) jwks)) (\<lambda>jwk.
     rbind (map_err (\<lambda>e. VerificationFailed (''invalid JWK: '' @ e)) (api_from_jwk api jwk)) (\<lambda>key.
     rbind (case alg of
              OtherAlgorithm a \<Rightarrow> Inl (VerificationFailed (''unsupported algorithm: '' @ a))
            | _ \<Rightarrow> Inr alg) (\<lambda>algorithm.
     map_err (\<lambda>e. case e of ExpiredSignature \<Rightarrow> TokenExpired | OtherJwtError m \<Rightarrow> VerificationFailed m)
       (api_decode api token key algorithm (if audience = [] then None else Some audience)))))"

definition verify :: "('k, 'j) Api \<Rightarrow> string \<Rightarrow> 'k JwtVerifier \<Rightarrow> (AuthError + Claims) \<times> 'k JwtVerifier" where
  "verify api token v =
     (case api_decode_header api token of
        Inl e \<Rightarrow> (Inl (VerificationFailed e), v)
      | Inr (None, alg) \<Rightarrow> (Inl MissingKid, v)
      | Inr (Some kid, alg) \<Rightarrow>
          (case get_or_refresh_jwks api v of
             (Inl e, v') \<Rightarrow> (Inl e, v')
           | (Inr jwks, v') \<Rightarrow> (verify_with api (jv_audience v) token kid alg jwks, v')))"

definition extract_token :: "string \<Rightarrow> AuthError + string" where
  "extract_token auth_header = ok_or InvalidHeaderFormat (strip_prefix auth_header ''Bearer '')"

section \<open>Responses\<close>

datatype ApiBody =
    JsonBody json
  | RunsBody "RunSummary list"
  | DetailBody RunDetail
  | TreeBody ProcessTree
  | MetricsBody RuntimeMetrics
  | AuditBody "JournalRow list"
  | ChatStream RunId
  | MonitorStream "string option"

type_synonym Response = "nat \<times> ApiBody"

datatype AppError =
    ApiNotFound string
  | ApiUnauthorized string
  | ApiBadRequest string
  | ApiInternal string
  | ApiStorage string
  | ApiConfig string

definition error_response :: "nat \<Rightarrow> string \<Rightarrow> Response" where
  "error_response status message =
     (status, JsonBody (JObject [(''error'', JString message), (''status'', JNumber (PosInt (of_nat status)))]))"

fun into_response :: "AppError \<Rightarrow> Response" where
  "into_response (ApiNotFound msg) = error_response 404 msg"
| "into_response (ApiUnauthorized msg) = error_response 401 msg"
| "into_response (ApiBadRequest msg) = error_response 400 msg"
| "into_response (ApiInternal _) = error_response 500 ''Internal server error''"
| "into_response (ApiStorage _) = error_response 500 ''Storage error''"
| "into_response (ApiConfig _) = error_response 500 ''Configuration error''"

definition unauthorized :: "string \<Rightarrow> Response" where
  "unauthorized message = (401, JsonBody (JObject [(''error'', JString message)]))"

section \<open>The middleware\<close>

definition eq_ignore_ascii_case :: "string \<Rightarrow> string \<Rightarrow> bool" where
  "eq_ignore_ascii_case a b = (to_lowercase a = to_lowercase b)"

definition dev_mode :: "('k, 'j) Api \<Rightarrow> bool" where
  "dev_mode api =
     (case api_var api ''KONF_DEV_MODE'' of
        Some v \<Rightarrow> v = ''1'' \<or> eq_ignore_ascii_case v ''true''
      | None \<Rightarrow> False)"

definition dev_claims :: Claims where
  "dev_claims = \<lparr> cl_sub = ''dev_user'', cl_aud = None, cl_iss = None, cl_exp = 2 ^ 63 - 1, cl_role = Some ''user'' \<rparr>"

text \<open>The claims that the middleware inserts, or its rejection; \<open>header\<close> is a readable header value.\<close>

definition auth_middleware ::
  "('k, 'j) Api \<Rightarrow> string option \<Rightarrow> 'k JwtVerifier \<Rightarrow> (Response + Claims) \<times> 'k JwtVerifier" where
  "auth_middleware api header v =
     (if dev_mode api then (Inr dev_claims, v)
      else
        (case header of
           None \<Rightarrow> (Inl (unauthorized ''Missing Authorization header''), v)
         | Some h \<Rightarrow>
             (case extract_token h of
                Inl e \<Rightarrow> (Inl (unauthorized (show_AuthError e)), v)
              | Inr token \<Rightarrow>
                  (case verify api token v of
                     (r, v') \<Rightarrow> (map_err (\<lambda>e. unauthorized (show_AuthError e)) r, v')))))"

section \<open>Handlers\<close>

record AppState =
  app_default_workflow_yaml :: string
  app_default_capabilities :: "CapabilityGrant list"
  app_default_limits :: ResourceLimits
  app_namespace_template :: string

text \<open>\<open>s.replace(p, t)\<close> for a non-empty pattern.\<close>

function replace_str :: "string \<Rightarrow> string \<Rightarrow> string \<Rightarrow> string" where
  "replace_str p t [] = []"
| "replace_str p t (c # cs) =
     (if p \<noteq> [] \<and> prefix p (c # cs) then t @ replace_str p t (drop (length p) (c # cs)) else c # replace_str p t cs)"
  by pat_completeness auto
termination
  by (relation "measure (\<lambda>(p, t, s). length s)") auto

definition health :: "('k, 'j) Api \<Rightarrow> Response" where
  "health api = (200, JsonBody (JObject [(''status'', JString ''ok''), (''version'', JString (api_version api))]))"

definition me :: "Claims \<Rightarrow> Response" where
  "me claims =
     (200, JsonBody (JObject [(''role'', case cl_role claims of Some r \<Rightarrow> JString r | None \<Rightarrow> JNull),
                              (''user_id'', JString (cl_sub claims))]))"

definition chat_scope :: "AppState \<Rightarrow> Claims \<Rightarrow> ExecutionScope" where
  "chat_scope state claims =
     \<lparr> scope_namespace = replace_str ''${user_id}'' (cl_sub claims) (app_namespace_template state),
       scope_capabilities = app_default_capabilities state,
       scope_limits = app_default_limits state,
       scope_actor = \<lparr> actor_id = cl_sub claims,
         actor_role = (case cl_role claims of Some r \<Rightarrow> role_of_metadata r | None \<Rightarrow> User) \<rparr>,
       scope_depth = 0 \<rparr>"

definition chat_input :: "Claims \<Rightarrow> string \<Rightarrow> string \<Rightarrow> json" where
  "chat_input claims message session_id =
     JObject [(''message'', JString message), (''session_id'', JString session_id), (''user_id'', JString (cl_sub claims))]"

definition chat ::
  "('k, 'j) Api \<Rightarrow> AppState \<Rightarrow> Claims \<Rightarrow> string \<Rightarrow> string option \<Rightarrow> ('r, 'q, 'j) Runtime \<Rightarrow>
   (AppError + RunId) \<times> ('r, 'q, 'j) Runtime" where
  "chat api state claims message session rt =
     (let session_id = (case session of Some s \<Rightarrow> s | None \<Rightarrow> api_session_id api) in
      case engine_parse_yaml (api_from_yaml api) (rt_engine rt) (app_default_workflow_yaml state) of
        Inl e \<Rightarrow>
          (Inl (ApiBadRequest (''Invalid workflow: '' @ show_RuntimeError (api_show_uuid api) (REngine e))), rt)
      | Inr workflow \<Rightarrow>
          (case start_streaming (api_show_uuid api) (api_append api) (api_run_id api) (api_now api) (api_listing api) workflow
                  (chat_input claims message session_id) (chat_scope state claims)
                  (new_root (api_trace_id api) session_id) rt of
             (Inl e, rt') \<Rightarrow>
               (Inl (ApiInternal (''Failed to start workflow: '' @ show_RuntimeError (api_show_uuid api) e)), rt')
           | (Inr rid, rt') \<Rightarrow> (Inr rid, rt')))"

text \<open>The frames of a chat, as event name and data; the stream ends at its first final event.\<close>

fun progress_event :: "ProgressType \<Rightarrow> string" where
  "progress_event TextDelta = ''text_delta''"
| "progress_event ToolStart = ''tool_start''"
| "progress_event ToolEnd = ''tool_end''"
| "progress_event Status = ''status''"

fun forward_chat :: "string \<Rightarrow> StreamEvent list \<Rightarrow> (string \<times> json) list" where
  "forward_chat rid [] = []"
| "forward_chat rid (StreamStart workflow_id # evs) =
     (''workflow_start'', JObject [(''workflow_id'', JString workflow_id)]) # forward_chat rid evs"
| "forward_chat rid (Progress node_id event_type data # evs) =
     (progress_event event_type, JObject [(''data'', data), (''node_id'', JString node_id)]) # forward_chat rid evs"
| "forward_chat rid (Done out # evs) = [(''done'', JObject [(''output'', out), (''run_id'', JString rid)])]"
| "forward_chat rid (StreamError code message can_retry # evs) =
     [(''error'', JObject [(''code'', JString code), (''message'', JString message), (''retryable'', JBool can_retry)])]"

definition chat_frames :: "string \<Rightarrow> StreamEvent list \<Rightarrow> (string \<times> json) list" where
  "chat_frames rid evs = (''start'', JObject [(''run_id'', JString rid)]) # forward_chat rid evs"

definition parse_run_id :: "('k, 'j) Api \<Rightarrow> string \<Rightarrow> AppError + RunId" where
  "parse_run_id api i = ok_or (ApiBadRequest ''Invalid run ID'') (api_parse_uuid api i)"

definition list_runs :: "('r, 'q, 'j) Runtime \<Rightarrow> Response" where
  "list_runs rt = (200, RunsBody (pt_list None (rt_table rt)))"

definition run_missing :: "string \<Rightarrow> AppError" where
  "run_missing i = ApiNotFound (''Run '' @ i @ '' not found'')"

definition get_run_detail :: "('k, 'j) Api \<Rightarrow> string \<Rightarrow> ('r, 'q, 'j) Runtime \<Rightarrow> AppError + ApiBody" where
  "get_run_detail api i rt =
     rbind (parse_run_id api i) (\<lambda>rid. map_ok DetailBody (ok_or (run_missing i) (get_run (rt_table rt) rid)))"

text \<open>The tree of a run has at most as many levels as the table has runs.\<close>

definition get_run_tree :: "('k, 'j) Api \<Rightarrow> string \<Rightarrow> ('r, 'q, 'j) Runtime \<Rightarrow> AppError + ApiBody" where
  "get_run_tree api i rt =
     rbind (parse_run_id api i) (\<lambda>rid.
       map_ok TreeBody (ok_or (run_missing i) (build_tree (Suc (length (rt_table rt))) (rt_table rt) rid)))"

definition metrics :: "('k, 'j) Api \<Rightarrow> ('r, 'q, 'j) Runtime \<Rightarrow> Response" where
  "metrics api rt = (200, MetricsBody (runtime_metrics (api_uptime api) rt))"

text \<open>What the receiver of the event bus yields, and the frames it becomes.\<close>

datatype BusItem = BusEvent RunEvent | BusLagged u64

fun monitor_item :: "(RunEvent \<Rightarrow> string) \<Rightarrow> string option \<Rightarrow> BusItem \<Rightarrow> (string \<times> string) option" where
  "monitor_item to_string ns (BusEvent ev) =
     (if (case ns of Some p \<Rightarrow> event_namespace ev \<noteq> [] \<and> \<not> starts_with (event_namespace ev) p | None \<Rightarrow> False)
      then None else Some (event_kind ev, to_string ev))"
| "monitor_item to_string ns (BusLagged n) = Some (''lagged'', show_u64 n)"

definition monitor_frames ::
  "(RunEvent \<Rightarrow> string) \<Rightarrow> string option \<Rightarrow> BusItem list \<Rightarrow> (string \<times> string) list" where
  "monitor_frames to_string ns items =
     (''hello'', [CHR ''{'', CHR 0x22] @ ''status'' @ [CHR 0x22, CHR '':'', CHR 0x22] @ ''connected'' @ [CHR 0x22, CHR ''}''])
     # List.map_filter (monitor_item to_string ns) items"

definition cancel_run ::
  "('k, 'j) Api \<Rightarrow> string \<Rightarrow> ('r, 'q, 'j) Runtime \<Rightarrow> ((AppError + ApiBody) \<times> ('r, 'q, 'j) Runtime) option" where
  "cancel_run api i rt =
     (case parse_run_id api i of
        Inl e \<Rightarrow> Some (Inl e, rt)
      | Inr rid \<Rightarrow>
          map_option (\<lambda>(r, t').
            (map_err (\<lambda>e. ApiInternal (show_RuntimeError (api_show_uuid api) e))
               (map_ok (\<lambda>_. JsonBody (JObject [(''cancelled'', JBool True), (''run_id'', JString i)])) r),
             rt\<lparr> rt_table := t' \<rparr>))
            (cancel (Suc (length (rt_table rt))) rid (rt_table rt)))"

definition get_config :: "('r, 'q, 'j) Runtime \<Rightarrow> Response" where
  "get_config rt =
     (let cfg = eng_config (rt_engine rt) in
      (200, JsonBody (JObject
        [(''engine'', JObject
            [(''default_timeout_ms'', JNumber (PosInt (cfg_default_timeout_ms cfg))),
             (''max_concurrent_nodes'', nat_json (cfg_max_concurrent_nodes cfg)),
             (''max_steps'', nat_json (cfg_max_steps cfg)),
             (''max_workflow_timeout_ms'', JNumber (PosInt (cfg_max_workflow_timeout_ms cfg))),
             (''stream_buffer'', nat_json (cfg_stream_buffer cfg))]),
         (''resources'', JArray (map (\<lambda>r. JObject
            [(''mime_type'', JString (res_mime_type r)), (''name'', JString (res_name r)), (''uri'', JString (res_uri r))])
            (resource_list (eng_resources (rt_engine rt))))),
         (''tools'', JArray (map (\<lambda>t. JObject
            [(''annotations'', annotations_json (info_annotations t)), (''description'', JString (info_description t)),
             (''name'', JString (info_name t))])
            (registry_list (eng_tools (rt_engine rt)))))])))"

definition get_audit :: "('k, 'j) Api \<Rightarrow> ('r, 'q, 'j) Runtime \<Rightarrow> AppError + ApiBody" where
  "get_audit api rt =
     (case rt_journal rt of
        Some journal \<Rightarrow>
          map_ok AuditBody (map_err (\<lambda>e. ApiInternal ''Journal query failed'') (api_recent api 100 journal))
      | None \<Rightarrow> Inr (JsonBody (JObject [(''events'', JArray []),
          (''note'', JString ''Event journal is not available (no database configured)'')])))"

section \<open>The router\<close>

datatype Route =
    Health
  | Me
  | Chat string "string option"
  | ListRuns
  | GetRun string
  | CancelRun string
  | GetTree string
  | Metrics
  | Stream "string option"
  | GetConfig
  | GetAudit

record ('k, 'r, 'q, 'j) Server =
  sv_verifier :: "'k JwtVerifier"
  sv_state :: AppState
  sv_runtime :: "('r, 'q, 'j) Runtime"

definition respond_with :: "AppError + ApiBody \<Rightarrow> Response" where
  "respond_with r = (case r of Inl e \<Rightarrow> into_response e | Inr body \<Rightarrow> (200, body))"

text \<open>The handler of a protected route, with the claims of the request.\<close>

definition run_handler ::
  "('k, 'j) Api \<Rightarrow> AppState \<Rightarrow> Claims \<Rightarrow> Route \<Rightarrow> ('r, 'q, 'j) Runtime \<Rightarrow> (Response \<times> ('r, 'q, 'j) Runtime) option" where
  "run_handler api state claims route rt =
     (case route of
        Health \<Rightarrow> Some (health api, rt)
      | Me \<Rightarrow> Some (me claims, rt)
      | Chat message session \<Rightarrow>
          (case chat api state claims message session rt of (r, rt') \<Rightarrow> Some (respond_with (map_ok ChatStream r), rt'))
      | ListRuns \<Rightarrow> Some (list_runs rt, rt)
      | GetRun i \<Rightarrow> Some (respond_with (get_run_detail api i rt), rt)
      | CancelRun i \<Rightarrow> map_option (\<lambda>(r, rt'). (respond_with r, rt')) (cancel_run api i rt)
      | GetTree i \<Rightarrow> Some (respond_with (get_run_tree api i rt), rt)
      | Metrics \<Rightarrow> Some (metrics api rt, rt)
      | Stream ns \<Rightarrow> Some ((200, MonitorStream ns), rt)
      | GetConfig \<Rightarrow> Some (get_config rt, rt)
      | GetAudit \<Rightarrow> Some (respond_with (get_audit api rt), rt))"

definition handle ::
  "('k, 'j) Api \<Rightarrow> Route \<Rightarrow> string option \<Rightarrow> ('k, 'r, 'q, 'j) Server \<Rightarrow> (Response \<times> ('k, 'r, 'q, 'j) Server) option" where
  "handle api route header sv =
     (if route = Health then Some (health api, sv)
      else
        (case auth_middleware api header (sv_verifier sv) of
           (Inl rejection, v') \<Rightarrow> Some (rejection, sv\<lparr> sv_verifier := v' \<rparr>)
         | (Inr claims, v') \<Rightarrow>
             map_option (\<lambda>(resp, rt'). (resp, sv\<lparr> sv_verifier := v', sv_runtime := rt' \<rparr>))
               (run_handler api (sv_state sv) claims route (sv_runtime sv))))"

section \<open>Start-up\<close>

definition get_template :: "(string \<Rightarrow> string) \<Rightarrow> string \<Rightarrow> string option" where
  "get_template embedded name =
     (if name \<in> {''chat'', ''context'', ''extraction'', ''synthesis''} then Some (embedded name) else None)"

definition list_templates :: "string list" where
  "list_templates = [''chat'', ''context'', ''extraction'', ''synthesis'']"

text \<open>
  The workflow that chats run. \<open>chat_file\<close> is the content of \<^verbatim>\<open>workflows/chat.yaml\<close> if the file exists
  (\<open>Some None\<close> if it cannot be read), \<open>entries\<close> the directory as it is listed, with contents.
\<close>

definition default_workflow ::
  "string \<Rightarrow> string option option \<Rightarrow> (string \<times> string option) list option \<Rightarrow> string" where
  "default_workflow template chat_file entries =
     (case chat_file of
        Some content \<Rightarrow> (case content of Some yaml \<Rightarrow> yaml | None \<Rightarrow> template)
      | None \<Rightarrow>
          (case entries of
             None \<Rightarrow> template
           | Some es \<Rightarrow>
               (case Option.bind (find (\<lambda>(file_name, c). is_yaml_file file_name) es) snd of
                  Some yaml \<Rightarrow> yaml
                | None \<Rightarrow> template)))"

definition app_state :: "string \<Rightarrow> ResourceLimits \<Rightarrow> AppState" where
  "app_state workflow_yaml limits =
     \<lparr> app_default_workflow_yaml = workflow_yaml, app_default_capabilities = [CapabilityGrant_new ''*''],
       app_default_limits = limits, app_namespace_template = ''konf:default:${user_id}'' \<rparr>"

text \<open>The MCP server that \<^verbatim>\<open>/mcp\<close> starts per session, and whether the route is mounted.\<close>

definition mcp_mounted :: "('k, 'j) Api \<Rightarrow> bool" where
  "mcp_mounted api = (api_var api ''KONF_MCP_HTTP'' \<noteq> None)"

definition mcp_session :: "('r, 'q, 'j) Runtime \<Rightarrow> ('r, 'q) KonfMcpServer" where
  "mcp_session rt = KonfMcpServer_new (rt_engine rt)"

section \<open>Authentication\<close>

text \<open>A key that is trusted for a token: from a cache that is not too old, or just fetched.\<close>

definition trusted_key :: "('k, 'j) Api \<Rightarrow> 'k JwtVerifier \<Rightarrow> 'k \<Rightarrow> bool" where
  "trusted_key api v jwk \<longleftrightarrow>
     (\<exists>c. jv_cache v = Some c \<and> api_instant api - cj_fetched_at c < jv_cache_ttl v \<and> jwk \<in> set (cj_keys c)) \<or>
     (\<exists>ks. api_fetch_jwks api (jv_jwks_url v) = Inr ks \<and> jwk \<in> set ks)"

lemma jwks_trusted: "get_or_refresh_jwks api v = (Inr ks, v') \<Longrightarrow> jwk \<in> set ks \<Longrightarrow> trusted_key api v jwk"
  by (auto simp: get_or_refresh_jwks_def refresh_jwks_def trusted_key_def split: option.splits if_splits sum.splits)

lemma verify_with_Inr:
  assumes "verify_with api aud token kid alg ks = Inr claims"
  shows "\<exists>jwk key. jwk \<in> set ks \<and> api_key_id api jwk = Some kid \<and> api_from_jwk api jwk = Inr key \<and> alg \<in> {RS256, ES256} \<and>
    api_decode api token key alg (if aud = [] then None else Some aud) = Inr claims"
proof -
  obtain jwk key where j: "find (\<lambda>k. api_key_id api k = Some kid) ks = Some jwk" "api_from_jwk api jwk = Inr key"
    and a: "alg \<in> {RS256, ES256}" "api_decode api token key alg (if aud = [] then None else Some aud) = Inr claims"
    using assms by (cases alg) (auto simp: verify_with_def rbind_eq_Inr map_err_eq_Inr)
  then have "jwk \<in> set ks" "api_key_id api jwk = Some kid" by (auto simp: find_Some_iff)
  with j a show ?thesis by blast
qed

text \<open>A bearer token that a trusted key verifies.\<close>

definition bears_token :: "('k, 'j) Api \<Rightarrow> 'k JwtVerifier \<Rightarrow> string option \<Rightarrow> Claims \<Rightarrow> bool" where
  "bears_token api v header claims \<longleftrightarrow>
     (\<exists>token kid alg jwk key. header = Some (''Bearer '' @ token) \<and> api_decode_header api token = Inr (Some kid, alg) \<and>
        alg \<in> {RS256, ES256} \<and> trusted_key api v jwk \<and> api_key_id api jwk = Some kid \<and> api_from_jwk api jwk = Inr key \<and>
        api_decode api token key alg (if jv_audience v = [] then None else Some (jv_audience v)) = Inr claims)"

lemma auth_middleware_Inr:
  assumes "\<not> dev_mode api" "auth_middleware api header v = (Inr claims, v')"
  shows "bears_token api v header claims"
proof -
  obtain token where t: "header = Some (''Bearer '' @ token)" "verify api token v = (Inr claims, v')"
    using assms by (auto simp: auth_middleware_def extract_token_def map_err_eq_Inr rust_str split: option.splits sum.splits prod.splits)
  then obtain kid alg ks where h: "api_decode_header api token = Inr (Some kid, alg)"
    "get_or_refresh_jwks api v = (Inr ks, v')" "verify_with api (jv_audience v) token kid alg ks = Inr claims"
    by (auto simp: verify_def split: sum.splits prod.splits option.splits)
  with verify_with_Inr [OF h(3)] jwks_trusted [OF h(2)] t(1) show ?thesis unfolding bears_token_def by blast
qed

lemma auth_middleware_Inl: "auth_middleware api header v = (Inl resp, v') \<Longrightarrow> fst resp = 401"
  by (auto simp: auth_middleware_def unauthorized_def map_err_def split: if_splits option.splits sum.splits prod.splits)


text \<open>The keys are fetched at most once per time to live.\<close>

lemma jwks_cached:
  assumes "get_or_refresh_jwks api v = (Inr ks, v')" "api_instant api' - api_fetched_at api < jv_cache_ttl v"
    and "jv_cache v = None"
  shows "get_or_refresh_jwks api' v' = (Inr ks, v')"
  using assms by (auto simp: get_or_refresh_jwks_def refresh_jwks_def split: sum.splits)

section \<open>Chats\<close>

lemma namespace_of_user: "replace_str ''${user_id}'' u ''konf:default:${user_id}'' = ''konf:default:'' @ u"
  by simp

lemma start_streaming_table:
  assumes "start_streaming show_uuid japp rid now listing wfl input scope ctx rt = (Inr rid', rt')"
  shows "rid' = rid \<and> rt_table rt' = pt_insert (new_run rid now wfl scope) (rt_table rt)"
proof -
  have "rt_table (register_run japp True rid now wfl scope ctx rt) = pt_insert (new_run rid now wfl scope) (rt_table rt)"
    by (simp add: register_run_def)
  then show ?thesis using assms by (auto simp: start_streaming_def Let_def split: sum.splits)
qed

text \<open>A request that is answered with a chat stream has started a run for the claims that the middleware accepted.\<close>

lemma chat_started:
  assumes "handle api (Chat message session) header sv = Some ((200, ChatStream rid), sv')"
  obtains claims wfl session_id where
    "dev_mode api \<and> claims = dev_claims \<or> bears_token api (sv_verifier sv) header claims"
    "start_streaming (api_show_uuid api) (api_append api) (api_run_id api) (api_now api)
      (api_listing api) wfl (chat_input claims message session_id) (chat_scope (sv_state sv) claims)
      (new_root (api_trace_id api) session_id) (sv_runtime sv) = (Inr rid, sv_runtime sv')"
proof -
  obtain claims v' where m: "auth_middleware api header (sv_verifier sv) = (Inr claims, v')"
    and c: "chat api (sv_state sv) claims message session (sv_runtime sv) = (Inr rid, sv_runtime sv')"
    using assms
    by (auto simp: handle_def run_handler_def respond_with_def unauthorized_def error_response_def map_ok_def
        dest!: auth_middleware_Inl split: prod.splits sum.splits elim!: into_response.elims)
  have who: "dev_mode api \<and> claims = dev_claims \<or> bears_token api (sv_verifier sv) header claims"
    using auth_middleware_Inr [OF _ m] m by (cases "dev_mode api") (auto simp: auth_middleware_def)
  obtain wfl session_id where "start_streaming (api_show_uuid api) (api_append api) (api_run_id api) (api_now api)
      (api_listing api) wfl (chat_input claims message session_id) (chat_scope (sv_state sv) claims)
      (new_root (api_trace_id api) session_id) (sv_runtime sv) = (Inr rid, sv_runtime sv')"
    using c by (auto simp: chat_def Let_def split: sum.splits prod.splits)
  with who show thesis by (rule that)
qed

section \<open>What the handlers do not check\<close>

text \<open>Only \<open>me\<close> and \<open>chat\<close> look at the claims: any verified user sees and cancels the runs of every user.\<close>

lemma monitor_ignores_claims:
  "(\<forall>m s. route \<noteq> Chat m s) \<Longrightarrow> route \<noteq> Me \<Longrightarrow>
   run_handler api state claims route rt = run_handler api state claims' route rt"
  by (cases route) (auto simp: run_handler_def)

text \<open>A run that does not exist is answered with 500 by the cancel route, and with 404 by the others.\<close>

lemma cancel_unknown_run:
  assumes "api_parse_uuid api i = Some rid" "tbl_get (rt_table rt) rid = None"
  shows "run_handler api state claims (CancelRun i) rt = Some (error_response 500 ''Internal server error'', rt)"
    and "run_handler api state claims (GetRun i) rt = Some (error_response 404 (''Run '' @ i @ '' not found''), rt)"
  using assms
  by (simp_all add: run_handler_def cancel_run_def parse_run_id_def pt_get_def respond_with_def get_run_detail_def get_run_def
      run_missing_def)

text \<open>The grant of a chat binds no parameter: its memory tools take the namespace from their input.\<close>

lemma chat_memory_unbound: "check_tool (chat_scope (app_state yaml limits) claims) name = Inr []"
  by (simp add: check_tool_def chat_scope_def app_state_def CapabilityGrant_matches_def CapabilityGrant_new_def
      Capability_matches_def)

text \<open>Every request is answered while no run in the table has a parent, as is the case for all runs that are started.\<close>

lemma tbl_put_entries: "x \<in> set (tbl_put k v t) \<Longrightarrow> x = (k, v) \<or> x \<in> set t"
  by (induction t) (auto simp: tbl_put_def split: if_splits)

lemma handle_returns:
  assumes "\<forall>i run. (i, run) \<in> set (rt_table (sv_runtime sv)) \<longrightarrow> run_parent_id run = None"
  shows "handle api route header sv \<noteq> None"
proof -
  let ?t = "rt_table (sv_runtime sv)"
  have "children_of rid (snd (pt_update rid (\<lambda>run. run\<lparr> run_cancelled := True \<rparr>) ?t)) = []" for rid
  proof -
    have "run_parent_id run = None" if "(i, run) \<in> set (snd (pt_update rid (\<lambda>run. run\<lparr> run_cancelled := True \<rparr>) ?t))" for i run
    proof (cases "tbl_get ?t rid")
      case (Some run0)
      then have "run_parent_id run0 = None" using assms by (auto simp: tbl_get_def dest!: map_of_SomeD)
      with that Some assms show ?thesis by (auto simp: pt_update_def tbl_modify_def dest!: tbl_put_entries)
    qed (use that assms in \<open>auto simp: pt_update_def tbl_modify_def\<close>)
    then show ?thesis by (fastforce simp: children_of_def filter_empty_conv)
  qed
  then have "cancel (Suc n) rid ?t \<noteq> None" for n rid
    by (auto simp: Let_def split: option.split bool.split)
  then have "run_handler api (sv_state sv) claims route (sv_runtime sv) \<noteq> None" for claims
    by (cases route) (auto simp: run_handler_def cancel_run_def simp del: cancel.simps split: prod.split sum.split)
  then show ?thesis by (auto simp: handle_def split: prod.split sum.split)
qed

text \<open>A chat stream has at most one final frame, and it is the last one.\<close>

lemma chat_final_frame_last:
  assumes "i < length (chat_frames rid evs)" "fst (chat_frames rid evs ! i) \<in> {''done'', ''error''}"
  shows "Suc i = length (chat_frames rid evs)"
proof -
  have "fst (forward_chat rid evs ! i) \<in> {''done'', ''error''} \<Longrightarrow> i < length (forward_chat rid evs) \<Longrightarrow>
      Suc i = length (forward_chat rid evs)" for i
  proof (induction rid evs arbitrary: i rule: forward_chat.induct)
    case (3 rid node_id event_type data evs)
    then show ?case by (cases i; cases event_type) auto
  next
    case (2 rid workflow_id evs)
    then show ?case by (cases i) auto
  qed auto
  then show ?thesis using assms by (cases i) (auto simp: chat_frames_def)
qed

section \<open>Instances\<close>

definition alice :: Claims where
  "alice = \<lparr> cl_sub = ''alice'', cl_aud = None, cl_iss = None, cl_exp = 100, cl_role = None \<rparr>"

definition demo_api :: "(string, unit) Api" where
  "demo_api =
     \<lparr> api_var = (\<lambda>_. None), api_decode_header = (\<lambda>t. if t = ''t'' then Inr (Some ''k'', RS256) else Inl ''bad token''),
       api_key_id = Some, api_from_jwk = Inr, api_decode = (\<lambda>t k a aud. Inr alice), api_fetch_jwks = (\<lambda>u. Inr [''k'']),
       api_instant = 0, api_fetched_at = 1, api_from_yaml = (\<lambda>y. Inr sample_schema), api_show_uuid = (\<lambda>_. []),
       api_parse_uuid = (\<lambda>_. None), api_append = demo_append, api_recent = (\<lambda>n j. Inr []), api_run_id = 7, api_trace_id = 8,
       api_session_id = ''s'', api_now = 0, api_listing = [], api_uptime = 0, api_version = ''0'' \<rparr>"

definition chat_server :: "(string, unit, unit, unit) Server" where
  "chat_server =
     \<lparr> sv_verifier = JwtVerifier_new AuthConfig_default, sv_state = app_state [] ResourceLimits_default,
       sv_runtime = demo_runtime\<lparr> rt_engine := Engine_new \<rparr> \<rparr>"

lemma demo_middleware:
  "\<exists>v'. auth_middleware demo_api (Some ''Bearer t'') (sv_verifier chat_server) = (Inr alice, v')"
  by (simp add: auth_middleware_def dev_mode_def demo_api_def extract_token_def strip_prefix_def verify_def chat_server_def
      JwtVerifier_new_def get_or_refresh_jwks_def refresh_jwks_def verify_with_def)


lemma chat_served:
  "\<exists>sv'. handle demo_api (Chat ''hi'' None) (Some ''Bearer t'') chat_server = Some ((200, ChatStream 7), sv')"
proof -
  obtain v' where m: "auth_middleware demo_api (Some ''Bearer t'') (sv_verifier chat_server) = (Inr alice, v')"
    using demo_middleware by blast
  obtain w where w: "parse (\<lambda>y. Inr sample_schema) [] EngineConfig_default = Inr w"
    using sample_parses by (cases "parse (\<lambda>y. Inr sample_schema) [] EngineConfig_default") auto
  let ?rt = "sv_runtime chat_server"
  have p: "engine_parse_yaml (\<lambda>y. Inr sample_schema) (rt_engine ?rt) [] = Inr w"
    by (simp add: engine_parse_yaml_def chat_server_def Engine_new_def Engine_with_config_def w)
  have v: "validate_start (chat_scope (app_state [] ResourceLimits_default) alice) (rt_table ?rt) = Inr ()"
    by (simp add: validate_start_def chat_scope_def app_state_def ResourceLimits_default_def demo_runtime_def ProcessTable_new_def
        chat_server_def active_count_in_namespace_def)
  have "CapSet_attenuate (CapSet_from_patterns [''*'']) (wf_capabilities w) = Inr (CapSet_from_patterns (wf_capabilities w))"
    by (simp add: CapSet_attenuate_Inr CapSet_from_patterns_def Capability_matches_def)
  then have g: "validate_grant (wf_capabilities w) (capability_patterns (chat_scope (app_state [] ResourceLimits_default) alice)) = Inr ()"
    by (simp add: validate_grant_def capability_patterns_def chat_scope_def app_state_def CapabilityGrant_new_def)
  have fields: "api_from_yaml demo_api = (\<lambda>y. Inr sample_schema)" "api_run_id demo_api = 7"
    "sv_state chat_server = app_state [] ResourceLimits_default" "app_default_workflow_yaml (app_state [] ResourceLimits_default) = []"
    by (simp_all add: demo_api_def chat_server_def app_state_def)
  have "\<exists>rt'. chat demo_api (sv_state chat_server) alice ''hi'' None ?rt = (Inr 7, rt')"
    by (simp add: chat_def fields p start_streaming_def v g Let_def)
  then obtain rt' where "chat demo_api (sv_state chat_server) alice ''hi'' None ?rt = (Inr 7, rt')" ..
  then show ?thesis using m by (simp add: handle_def run_handler_def respond_with_def)
qed

end
