(* ===== verification/Run_Authority.thy ===== *)
theory Run_Authority
  imports Runtime_Props Workflow_Tool Ai_Complete
begin

text \<open>
  The authority of a whole run. \<open>Runtime\<close> puts a task into the runtime with a scoped engine,
  capability patterns and metadata; \<open>Engine::run\<close> hands them to the executor, whose steps call
  tools. Replacing the behaviour of every raw tool call that would not carry the authority of the
  scope changes nothing of what a run can do. The interface \<open>agreeing_effects\<close> carries the argument
  from one tool call through retries, steps and task passes to the executor's step relation.
\<close>

section \<open>The executor of a task\<close>

text \<open>What \<open>Engine::run\<close> and \<open>Engine::run_streaming\<close> pass to \<open>Executor::new\<close>.\<close>

definition task_context :: "('r, 'q) run_task \<Rightarrow> StepContext" where
  "task_context task =
     \<lparr> sc_registry = eng_tools (rtk_engine task), sc_capabilities = rtk_capabilities task,
       sc_config = eng_config (rtk_engine task), sc_metadata = rtk_metadata task,
       sc_workflow_id = wf_id (rtk_workflow task) \<rparr>"

section \<open>Calls with the authority of a step context\<close>

definition step_authority :: "StepContext \<Rightarrow> ToolInfo \<Rightarrow> json Envelope \<Rightarrow> bool" where
  "step_authority ctx i env \<longleftrightarrow>
     CapSet_permits (CapSet_from_patterns (sc_capabilities ctx)) (info_name i) \<and>
     env_namespace env = metadata_str ctx ''namespace'' \<and> env_actor_id env = metadata_str ctx ''actor_id'' \<and>
     (\<forall>t. CapSet_permits (env_capabilities env) t \<longrightarrow>
        CapSet_permits (CapSet_from_patterns (sc_capabilities ctx)) t)"

lemma prepared_authority:
  assumes "prepare_step fx ctx step outputs w = Inr (tool, env)" "registry_named (sc_registry ctx)"
    and "same_authority e env"
  shows "step_authority ctx (info tool) e"
proof -
  have "info_name (info tool) = step_tool step"
    using prepare_step_Inr [OF assms(1)] registry_named_get [OF assms(2)] by blast
  with prepare_step_Inr [OF assms(1)] prepare_step_envelope [OF assms(1)] assms(3) show ?thesis
    by (auto simp: step_authority_def same_authority_def)
qed

locale agreeing_effects =
  fixes fx :: "'w Effects" and raw' :: "'w raw_tool" and ctx :: StepContext
  assumes named: "registry_named (sc_registry ctx)"
    and raw_agrees: "step_authority ctx i env \<Longrightarrow> raw' i env w = fx_raw fx i env w"
begin

lemma trace_id_agrees: "metadata_trace_id (fx\<lparr> fx_raw := raw' \<rparr>) = metadata_trace_id fx"
  by (simp add: metadata_trace_id_def fun_eq_iff split: option.split)

lemma prepare_step_agrees:
  "prepare_step (fx\<lparr> fx_raw := raw' \<rparr>) ctx step outputs w = prepare_step fx ctx step outputs w"
  by (simp add: prepare_step_def trace_id_agrees)

lemma invoke_agrees:
  assumes "prepare_step fx ctx step outputs w = Inr (tool, env)"
  shows "invoke raw' tool env = invoke (fx_raw fx) tool env"
proof
  fix v
  show "invoke raw' tool env v = invoke (fx_raw fx) tool env v"
    by (rule invoke_raw_cong [of env]) (simp_all add: raw_agrees prepared_authority [OF assms named])
qed

lemma clock_agrees:
  "call_duration (fx\<lparr> fx_raw := raw' \<rparr>) = call_duration fx"
  "past_deadline (fx\<lparr> fx_raw := raw' \<rparr>) = past_deadline fx"
  by (simp_all add: call_duration_def past_deadline_def Let_def fun_eq_iff split: option.split)

lemma timed_call_agrees:
  assumes "invoke raw' tool env = invoke (fx_raw fx) tool env"
  shows "timed_call (fx\<lparr> fx_raw := raw' \<rparr>) c tool env step w = timed_call fx c tool env step w"
  by (simp add: timed_call_def clock_agrees assms)

lemma retry_loop_agrees:
  assumes "invoke raw' tool env = invoke (fx_raw fx) tool env"
  shows "retry_loop (fx\<lparr> fx_raw := raw' \<rparr>) ctx tool env step attempt last_err w =
    retry_loop fx ctx tool env step attempt last_err w"
proof (induction "Suc (attempts_allowed step) - attempt" arbitrary: attempt last_err w rule: less_induct)
  case less
  have IH: "retry_loop (fx\<lparr> fx_raw := raw' \<rparr>) ctx tool env step (Suc attempt) l v =
      retry_loop fx ctx tool env step (Suc attempt) l v" if "attempt \<le> attempts_allowed step" for l v
    using that by (intro less) simp
  show ?case
    by (rule trans [OF retry_loop.simps trans [OF _ retry_loop.simps [symmetric]]])
      (simp add: IH timed_call_agrees [OF assms] clock_agrees Let_def
        cong: if_cong option.case_cong prod.case_cong sum.case_cong)
qed

lemma execute_step_agrees:
  "execute_step (fx\<lparr> fx_raw := raw' \<rparr>) ctx step outputs w = execute_step fx ctx step outputs w"
  by (auto simp: execute_step_def prepare_step_agrees Let_def invoke_with_retry_def
      retry_loop_agrees [OF invoke_agrees] split: sum.split prod.split option.split)

lemma conditions_agree:
  "check_repeat (fx\<lparr> fx_raw := raw' \<rparr>) = check_repeat fx"
  "after_success (fx\<lparr> fx_raw := raw' \<rparr>) = after_success fx"
  by (simp_all add: check_repeat_def after_success_def fun_eq_iff split: option.split)

lemma task_iter_agrees: "task_iter (fx\<lparr> fx_raw := raw' \<rparr>) ctx wfl t st w = task_iter fx ctx wfl t st w"
  unfolding task_iter_def execute_step_agrees conditions_agree by (simp add: Let_def)

lemma exec_step_agrees: "exec_step (fx\<lparr> fx_raw := raw' \<rparr>) ctx wfl = exec_step fx ctx wfl"
proof (intro ext iffI)
  fix ex ex'
  assume "exec_step (fx\<lparr> fx_raw := raw' \<rparr>) ctx wfl ex ex'"
  then show "exec_step fx ctx wfl ex ex'"
    by cases (auto simp: task_iter_agrees intro: exec_step.intros)
next
  fix ex ex'
  assume "exec_step fx ctx wfl ex ex'"
  then show "exec_step (fx\<lparr> fx_raw := raw' \<rparr>) ctx wfl ex ex'"
    by cases (auto intro: exec_step.intros simp: task_iter_agrees)
qed

lemma exec_reaches_agrees:
  "exec_reaches (fx\<lparr> fx_raw := raw' \<rparr>) ctx wfl input w = exec_reaches fx ctx wfl input w"
  by (simp add: exec_reaches_def exec_step_agrees execute_init_def fun_eq_iff)

lemma exec_returns_agrees: "exec_returns (fx\<lparr> fx_raw := raw' \<rparr>) ctx = exec_returns fx ctx"
  by (intro ext iffI; erule exec_returns.cases) (auto intro: exec_returns.intros)

lemma executed_agrees:
  "executed (fx\<lparr> fx_raw := raw' \<rparr>) ctx wfl input w sent events res \<longleftrightarrow> executed fx ctx wfl input w sent events res"
  by (simp add: executed_def exec_reaches_agrees exec_returns_agrees execute_init_def)

end

section \<open>Runs of a scope\<close>

text \<open>
  The authority of a scope on a call: the tool is one the scope permits, the envelope is in the
  namespace and from the actor of the scope, and permits no tool that the scope does not.
  \<open>scope_raw other scope raw\<close> is \<open>raw\<close> on such calls and arbitrary on all others.
\<close>

definition scope_authority :: "ExecutionScope \<Rightarrow> ToolInfo \<Rightarrow> json Envelope \<Rightarrow> bool" where
  "scope_authority scope i env \<longleftrightarrow>
     scope_permits scope (info_name i) \<and> env_namespace env = scope_namespace scope \<and>
     env_actor_id env = actor_id (scope_actor scope) \<and>
     (\<forall>t. CapSet_permits (env_capabilities env) t \<longrightarrow> scope_permits scope t)"

definition scope_raw :: "'w raw_tool \<Rightarrow> ExecutionScope \<Rightarrow> 'w raw_tool \<Rightarrow> 'w raw_tool" where
  "scope_raw other scope raw i env = (if scope_authority scope i env then raw i env else other i env)"

lemma task_context_make_task:
  "task_context (make_task show_uuid listing streaming rid wfl input scope ctx rt) =
     step_context_of show_uuid (eng_tools (build_scoped_engine (rt_engine rt) (rt_guards rt) scope listing))
       (eng_config (build_scoped_engine (rt_engine rt) (rt_guards rt) scope listing)) (wf_id wfl) scope ctx"
  by (simp add: task_context_def make_task_def step_context_of_def)

lemma step_authority_of_scope:
  "step_authority (step_context_of show_uuid registry cfg wid scope ctx) i env \<longleftrightarrow> scope_authority scope i env"
  by (simp add: step_authority_def scope_authority_def metadata_of_scope)
    (simp add: step_context_of_def scope_permits_patterns)

lemma add_scoped_named:
  "registry_named (eng_tools e) \<Longrightarrow> registry_named (eng_tools (fold (add_scoped source guards scope) listing e))"
  by (induction listing arbitrary: e)
    (simp_all add: add_scoped_def register_tool_def registry_named_register split: option.split)

lemma scoped_engine_named: "registry_named (eng_tools (build_scoped_engine eng guards scope listing))"
  unfolding build_scoped_engine_fold
  by (rule add_scoped_named) (simp add: Engine_with_config_def registry_named_def)

interpretation scoped: agreeing_effects fx "scope_raw other scope (fx_raw fx)"
    "task_context (make_task show_uuid listing streaming rid wfl input scope ctx rt)"
  for fx other scope show_uuid listing streaming rid wfl input ctx rt
  by unfold_locales
    (simp_all add: task_context_make_task step_authority_of_scope scope_raw_def,
     simp add: step_context_of_def scoped_engine_named)

text \<open>
  C5. What a run can do. Whatever the workflow, the tools and the other tasks do, every raw tool
  call of a run started under a scope is of a tool that the scope permits, in the namespace and
  from the actor of the scope, with an envelope that permits nothing the scope does not: replacing
  all other calls by anything leaves the configurations that the executor can reach, the results
  and the events of the run as they are. This holds for every order of the tasks, through retries,
  repeats and \<open>grant\<close>s, and whatever guards, aliases and tools are registered.
\<close>

theorem run_calls_carry_authority:
  "(exec_reaches (fx\<lparr> fx_raw := scope_raw other scope (fx_raw fx) \<rparr>)
      (task_context (make_task show_uuid listing streaming rid wfl input scope ctx rt)) wfl input w ex \<longleftrightarrow>
    exec_reaches fx (task_context (make_task show_uuid listing streaming rid wfl input scope ctx rt)) wfl input w ex) \<and>
   (executed (fx\<lparr> fx_raw := scope_raw other scope (fx_raw fx) \<rparr>)
      (task_context (make_task show_uuid listing streaming rid wfl input scope ctx rt)) wfl input w sent events res \<longleftrightarrow>
    executed fx (task_context (make_task show_uuid listing streaming rid wfl input scope ctx rt)) wfl input w sent events res)"
  by (simp add: scoped.exec_reaches_agrees scoped.executed_agrees)

end
