(* ===== verification/Platform.thy ===== *)
theory Platform
  imports Boot_Props Backend Run_Authority
begin

text \<open>
  The platform as a whole: what \<open>boot\<close> sets up is served by the HTTP backend and by MCP sessions
  while runs come and go and \<open>config:reload\<close> exchanges the workflows. The interfaces
  \<open>reload_contract\<close> and \<open>boot_contract\<close> say which properties of a tool registry outlast reloads and
  which hold after every boot; \<open>serves\<close> is the step relation of a running server.
\<close>

section \<open>Properties of the registry\<close>

text \<open>Reload removes workflow tools and registers workflow tools, in whatever order and however it ends.\<close>

locale reload_contract =
  fixes P :: "ToolRegistry \<Rightarrow> bool"
  assumes workflow: "P reg \<Longrightarrow> P (register (WorkflowTool_new wfl) reg)"
    and remove: "P reg \<Longrightarrow> starts_with n ''workflow:'' \<Longrightarrow> P (snd (registry_remove n reg))"
begin

lemma remove_tools_kept:
  "P (eng_tools eng) \<Longrightarrow> \<forall>n \<in> set names. starts_with n ''workflow:'' \<Longrightarrow> P (eng_tools (remove_tools names eng))"
  by (induction names arbitrary: eng) (simp_all add: remove_tools_def remove_tool_def remove)

lemma workflow_file_kept: "P (eng_tools eng) \<Longrightarrow> P (eng_tools (register_workflow_file from_yaml dir f yaml eng))"
  by (simp add: register_workflow_file_def register_resource_def register_tool_def workflow Let_def split: sum.split)

lemma entries_kept:
  "P (eng_tools eng) \<Longrightarrow> P (eng_tools (snd (register_workflow_entries from_yaml dir entries eng)))"
  by (induction from_yaml dir entries eng rule: register_workflow_entries.induct)
    (simp_all add: workflow_file_kept split: sum.split)

lemma workflows_kept:
  "P (eng_tools eng) \<Longrightarrow> P (eng_tools (snd (register_workflows from_yaml dir read_dir eng)))"
  by (simp add: register_workflows_def entries_kept split: sum.split)

lemma boot_workflows_kept:
  assumes "boot_workflows bo cd eng = Inr eng'" "P (eng_tools eng)"
  shows "P (eng_tools eng')"
proof -
  have "eng' = eng \<or> (\<exists>dir read_dir. eng' = snd (register_workflows (bo_workflow_from_yaml bo) dir read_dir eng))"
    using assms(1) by (auto simp: boot_workflows_def split: option.splits prod.splits sum.splits) (metis snd_conv)
  with assms(2) workflows_kept show ?thesis by auto
qed

lemma reload_kept:
  assumes "P (eng_tools (rt_engine rt))" "config_reload_invoke bo cd fresh now env rt = (res, rt')"
  shows "P (eng_tools (rt_engine rt'))"
proof (cases "cd_workflows cd")
  case None
  then show ?thesis using assms by (simp add: config_reload_invoke_def)
next
  case (Some read_dir)
  let ?names = "workflow_tool_names (eng_tools (rt_engine rt))"
  let ?new = "register_workflows (bo_workflow_from_yaml bo) (join_path (cd_path cd) ''workflows'') read_dir
    (remove_tools ?names (rt_engine rt))"
  have "P (eng_tools (snd ?new))"
    by (intro workflows_kept remove_tools_kept assms(1)) (simp add: workflow_tool_names_def)
  moreover have "eng_tools (rt_engine rt') = eng_tools (snd ?new)"
    using assms(2) Some
    by (auto simp: config_reload_invoke_def Let_def reload_guards_rest notify_tools_changed_def split: prod.splits sum.splits)
  ultimately show ?thesis by simp
qed

end

text \<open>Boot starts from an empty registry and registers raw tools.\<close>

locale boot_contract = reload_contract +
  assumes empty: "P []"
    and raw: "P reg \<Longrightarrow> P (register (RawTool i) reg)"
begin

lemma register_all_kept: "P reg \<Longrightarrow> P (register_all infos reg)"
  by (induction infos arbitrary: reg) (simp_all add: register_all_def raw)

lemma mcp_tools_kept: "register_mcp_tools config client tools n eng = (m, eng') \<Longrightarrow> P (eng_tools eng) \<Longrightarrow> P (eng_tools eng')"
  by (induction tools arbitrary: n eng) (auto simp: register_tool_def raw split: if_splits)

lemma discover_kept:
  "discover_and_register mo configs st w = (st', w') \<Longrightarrow> P (eng_tools (snd st)) \<Longrightarrow> P (eng_tools (snd st'))"
proof (induction configs arbitrary: st w)
  case (Cons c cs)
  obtain r st1 w1 where c: "connect_and_register mo c st w = (r, st1, w1)" by (metis prod_cases3)
  then have "P (eng_tools (snd st1))"
    using Cons.prems(2) by (auto simp: connect_and_register_def dest: mcp_tools_kept split: if_splits prod.splits sum.splits)
  then show ?case using Cons c by auto
qed simp

lemma mcp_register_kept:
  "mcp_register mo from_value config eng w = (r, (clients, eng'), w') \<Longrightarrow> P (eng_tools eng) \<Longrightarrow> P (eng_tools eng')"
  using discover_kept [of mo _ "([], eng)" w] by (fastforce simp: mcp_register_def split: sum.splits if_splits prod.splits)

lemma register_tools_kept:
  assumes "register_tools bo tools (eng, w) = Inr (eng', w')" "P (eng_tools eng)"
  shows "P (eng_tools eng')"
proof -
  obtain eng1 w1 where 1: "register_memory bo (tlc_memory tools) (eng, w) = Inr (eng1, w1)"
    using assms by (auto simp: register_tools_def rbind_eq_Inr)
  then have p1: "P (eng_tools eng1)"
    using assms(2) by (auto simp: register_memory_def memory_register_def register_infos_tools register_all_kept
        split: option.splits if_splits prod.splits sum.splits)
  obtain eng2 where 2: "(case tlc_llm tools of Some c \<Rightarrow> llm_register (bo_llm_config bo) c (http_register eng1)
      | None \<Rightarrow> Inr (http_register eng1)) = Inr eng2"
    using assms 1 by (auto simp: register_tools_def rbind_eq_Inr)
  then have p2: "P (eng_tools eng2)"
    using p1 by (auto simp: llm_register_def http_register_def register_infos_tools register_all_kept rbind_eq_Inr
        split: option.splits)
  obtain eng3 w3 where 3: "(case tlc_embed tools of Some c \<Rightarrow> embed_register (bo_embed_model bo) eng2 w1 | None \<Rightarrow> (eng2, w1)) = (eng3, w3)"
    by (metis surj_pair)
  then have p3: "P (eng_tools eng3)"
    using p2 by (auto simp: embed_register_def register_infos_tools register_all_kept split: option.splits prod.splits sum.splits)
  show ?thesis
    using assms 1 2 3 p3 by (auto simp: register_tools_def dest: mcp_register_kept split: option.splits prod.splits sum.splits)
qed

lemma boot_engine_kept:
  assumes "boot_engine bo cd config pc w = Inr (eng, w')"
  shows "P (eng_tools (system_tools eng))"
proof -
  obtain eng0 w0 where "register_tools bo (prc_tools pc) (register_infos builtin_infos (Engine_with_config (pc_engine config)), w) =
      Inr (eng0, w0)" and eng: "eng = register_resources cd (architect_tools (prc_tools pc) eng0)"
    using assms by (auto simp: boot_engine_def rbind_eq_Inr)
  then have "P (eng_tools eng0)"
    by (elim register_tools_kept) (simp add: register_infos_tools register_all_kept Engine_with_config_def empty)
  then show ?thesis by (simp add: eng architect_tools_registry register_all_kept)
qed

lemma booted:
  assumes "boot de bo cd w = Inr ki"
  shows "P (eng_tools (rt_engine (ki_runtime ki)))"
proof -
  obtain config pc eng w1 storage rt where eng: "boot_engine bo cd config pc w = Inr (eng, w1)"
    and run: "boot_runtime de bo cd config pc storage rt = Inr ki" and rt: "rt_engine rt = eng"
    using boot_stages [OF assms] by blast
  obtain eng2 where "boot_workflows bo cd (system_tools eng) = Inr eng2" and "rt_engine (ki_runtime ki) = eng2"
    using run rt by (auto simp: boot_runtime_def Let_def rbind_eq_Inr apply_tool_guards_rest case_prod_unfold)
  with boot_workflows_kept boot_engine_kept [OF eng] show ?thesis by blast
qed

end

interpretation raw: boot_contract raw_registry
  by unfold_locales
    (auto simp: raw_registry_def register_def registry_remove_def WorkflowTool_new_def list_all_iff dest!: set_obj_insert)

text \<open>The tools that are registered last at boot keep their names: workflow tools have other names.\<close>

definition provides :: "ToolInfo list \<Rightarrow> ToolRegistry \<Rightarrow> bool" where
  "provides infos reg \<longleftrightarrow> (\<forall>i \<in> set infos. registry_get reg (info_name i) = Some (RawTool i))"

lemma workflow_name_starts: "starts_with (info_name (info (WorkflowTool_new wfl))) ''workflow:''"
  by (simp add: WorkflowTool_new_def workflow_tool_info_def workflow_tool_name_def starts_with_append del: append_Cons append.simps)

interpretation late: reload_contract "provides (late_infos tools)" for tools
proof
  show "provides (late_infos tools) (register (WorkflowTool_new wfl) reg)" if "provides (late_infos tools) reg" for reg wfl
  proof -
    have "info_name i \<noteq> info_name (info (WorkflowTool_new wfl))" if "i \<in> set (late_infos tools)" for i
      using late_infos_not_workflow [OF that] workflow_name_starts [of wfl] by metis
    with that show ?thesis by (auto simp: provides_def register_def registry.lookup_put)
  qed
  show "provides (late_infos tools) (snd (registry_remove n reg))"
    if "provides (late_infos tools) reg" "starts_with n ''workflow:''" for n reg
    using that by (auto simp: provides_def registry.lookup_del dest: late_infos_not_workflow)
qed

lemma booted_late:
  assumes "boot de bo cd w = Inr ki"
  shows "provides (late_infos (prc_tools (ki_product_config ki))) (eng_tools (rt_engine (ki_runtime ki)))"
proof -
  obtain config pc eng w1 storage rt where eng: "boot_engine bo cd config pc w = Inr (eng, w1)"
    and run: "boot_runtime de bo cd config pc storage rt = Inr ki" and rt: "rt_engine rt = eng"
    using boot_stages [OF assms] by blast
  obtain eng2 where wf: "boot_workflows bo cd (system_tools eng) = Inr eng2"
    and ki: "rt_engine (ki_runtime ki) = eng2" "ki_product_config ki = pc"
    using run rt by (auto simp: boot_runtime_def Let_def rbind_eq_Inr apply_tool_guards_rest case_prod_unfold)
  obtain reg0 where "eng_tools (system_tools eng) = register_all (late_infos (prc_tools pc)) reg0"
    using boot_engine_registry [OF eng] by blast
  then have "provides (late_infos (prc_tools pc)) (eng_tools (system_tools eng))"
    by (auto simp: provides_def intro: register_all_lookup [OF late_infos_distinct])
  then show ?thesis unfolding ki by (rule late.boot_workflows_kept [OF wf])
qed

section \<open>A running server\<close>

text \<open>
  A server goes on by answering a request, by a \<open>config:reload\<close> that some run or session calls,
  with any content of the directory and any outcome, or by a step of the runtime: runs that start
  otherwise, end or report events, and garbage collection. Run ids are fresh.
\<close>

inductive serves ::
  "('j, 's) journal_wiring append_op \<Rightarrow> ('c, 'j, 's, 'w) BootOutside \<Rightarrow>
   ('k, string, 'q, ('j, 's) journal_wiring) Server \<Rightarrow> ('k, string, 'q, ('j, 's) journal_wiring) Server \<Rightarrow> bool"
  for japp bo
where
  request: "api_append api = japp \<Longrightarrow> api_run_id api \<notin> set (started_ids (sv_runtime sv)) \<Longrightarrow>
    handle api route header sv = Some (resp, sv') \<Longrightarrow> serves japp bo sv sv'"
| reload: "config_reload_invoke bo cd fresh now env (sv_runtime sv) = (res, rt') \<Longrightarrow>
    serves japp bo sv (sv\<lparr> sv_runtime := rt' \<rparr>)"
| runs: "rt_step japp (sv_runtime sv) rt' \<Longrightarrow> serves japp bo sv (sv\<lparr> sv_runtime := rt' \<rparr>)"

text \<open>Requests change the runtime by its own steps or not at all.\<close>

lemma start_streaming_steps:
  assumes s: "start_streaming show_uuid japp rid now listing wfl input scope ctx rt = (r, rt')"
    and fresh: "rid \<notin> set (started_ids rt)"
  shows "rt' = rt \<or> rt_step japp rt rt'"
proof (cases r)
  case (Inl e)
  with s show ?thesis
    by (auto simp: start_streaming_def Let_def split: sum.splits intro: rt_step.refuse_streaming [OF fresh])
next
  case (Inr rid')
  then have "rid' = rid" using start_streaming_table s by blast
  with s Inr show ?thesis using rt_step.commit_streaming [OF fresh] by blast
qed

lemma chat_steps:
  assumes "chat api state claims message session rt = (r, rt')" "api_run_id api \<notin> set (started_ids rt)"
  shows "rt' = rt \<or> rt_step (api_append api) rt rt'"
  using assms start_streaming_steps by (fastforce simp: chat_def Let_def split: sum.splits prod.splits)

lemma cancel_run_steps: "cancel_run api i rt = Some (r, rt') \<Longrightarrow> rt' = rt \<or> rt_step japp rt rt'"
  by (auto simp: cancel_run_def simp del: cancel.simps split: sum.splits intro: rt_step.cancel)

lemma handle_steps:
  assumes "handle api route header sv = Some (resp, sv')" "api_run_id api \<notin> set (started_ids (sv_runtime sv))"
  shows "sv_runtime sv' = sv_runtime sv \<or> rt_step (api_append api) (sv_runtime sv) (sv_runtime sv')"
proof (cases "\<exists>claims rt'. run_handler api (sv_state sv) claims route (sv_runtime sv) = Some (resp, rt') \<and> sv_runtime sv' = rt'")
  case True
  then obtain claims where "run_handler api (sv_state sv) claims route (sv_runtime sv) = Some (resp, sv_runtime sv')" by blast
  then show ?thesis
    by (cases route)
      (auto simp: run_handler_def split: prod.splits
        dest!: chat_steps [OF _ assms(2)] cancel_run_steps [where japp = "api_append api"])
next
  case False
  then show ?thesis using assms(1) by (auto simp: handle_def split: if_splits prod.splits sum.splits)
qed

text \<open>Reload changes the engine and the guards of the runtime; runtime steps change neither.\<close>

lemma reload_guards_frame: "\<exists>guards. reload_guards from_yaml env_var tools_yaml rt = rt\<lparr> rt_guards := guards \<rparr>"
proof -
  have "\<exists>guards. rt = rt\<lparr> rt_guards := guards \<rparr>" by (rule exI [of _ "rt_guards rt"]) simp
  then show ?thesis
    by (auto simp: reload_guards_def apply_tool_guards_def set_tool_guards_def split: option.split sum.split)
qed

lemma reload_frame:
  assumes "config_reload_invoke bo cd fresh now env rt = (res, rt')"
  obtains eng guards where "rt' = rt\<lparr> rt_engine := eng, rt_guards := guards \<rparr>"
proof -
  have "\<exists>eng guards. rt' = rt\<lparr> rt_engine := eng, rt_guards := guards \<rparr>"
  proof (cases "cd_workflows cd")
    case None
    then have "rt' = rt\<lparr> rt_engine := rt_engine rt, rt_guards := rt_guards rt \<rparr>"
      using assms by (simp add: config_reload_invoke_def)
    then show ?thesis by blast
  next
    case (Some read_dir)
    obtain r e where e: "register_workflows (bo_workflow_from_yaml bo) (join_path (cd_path cd) ''workflows'') read_dir
      (remove_tools (workflow_tool_names (eng_tools (rt_engine rt))) (rt_engine rt)) = (r, e)" by fastforce
    obtain guards where r: "reload_guards (bo_product_from_yaml bo) (bo_env_var bo) (cd_tools_yaml cd) (rt\<lparr> rt_engine := e \<rparr>) =
        rt\<lparr> rt_engine := e \<rparr>\<lparr> rt_guards := guards \<rparr>"
      using reload_guards_frame by blast
    have "rt' = rt\<lparr> rt_engine := e, rt_guards := rt_guards rt \<rparr> \<or>
        rt' = rt\<lparr> rt_engine := notify_tools_changed e, rt_guards := guards \<rparr>"
      using assms Some e r by (auto simp: config_reload_invoke_def Let_def split: sum.splits)
    then show ?thesis by blast
  qed
  with that show thesis by blast
qed

lemma rt_inv_exchange: "rt_inv (rt\<lparr> rt_engine := eng, rt_guards := guards \<rparr>) = rt_inv rt"
  by (simp add: rt_inv_def entry_ok_def counted_def started_ids_def ended_ids_def task_ids_def)

lemma count_final_engine: "rt_engine (count_final st rt) = rt_engine rt"
  by (cases st) simp_all

lemma rt_step_engine: "rt_step japp rt rt' \<Longrightarrow> rt_engine rt' = rt_engine rt"
  by (induction rule: rt_step.induct)
    (auto simp: start_commit_def start_streaming_def register_run_def finish_run_def finish_streaming_def on_event_def
      spawned_append_def count_final_engine Let_def split: sum.splits option.split prod.split)

section \<open>Every state of the server\<close>

definition quiet :: "RunEvent list \<Rightarrow> bool" where
  "quiet events \<longleftrightarrow> (\<forall>e \<in> set events. started_id e = [] \<and> ended_id e = [])"

lemma replay_intents_quiet: "quiet events \<Longrightarrow> quiet (snd (replay_intents de tools xs rn events))"
proof (induction xs arbitrary: rn events)
  case (Cons x xs)
  have "quiet (emit (IntentReplayed (ri_run_id x) (ri_workflow x) (ri_replay_count x + 1)) events)"
    using Cons.prems by (simp add: quiet_def emit_def)
  with Cons show ?case by (simp split: prod.split sum.split)
qed simp

lemma quiet_not_counted:
  assumes "quiet events"
  shows "concat (map started_id events) = []" "concat (map ended_id events) = []"
    "List.filter (\<lambda>e. \<exists>r d. e = RunCompleted r d) events = []"
    "List.filter (\<lambda>e. \<exists>r d m. e = RunFailed r d m) events = []"
    "List.filter (\<lambda>e. \<exists>r m. e = RunCancelled r m) events = []"
  using assms by (auto simp: quiet_def filter_empty_conv)

lemma rt_inv_booted:
  assumes "boot de bo cd w = Inr ki"
  shows "rt_inv (ki_runtime ki)"
proof -
  obtain rec eng journal rt config pc storage where rt: "Runtime_with_limits rec eng journal = Inr rt"
    and run: "boot_runtime de bo cd config pc storage rt = Inr ki"
    using assms by (auto simp: boot_def rbind_eq_Inr map_err_eq_Inr Let_def case_prod_unfold)
  obtain eng2 where ki: "ki_runtime ki = (apply_tool_guards pc (rt\<lparr> rt_engine := eng2 \<rparr>))
      \<lparr> rt_events := snd (replay_unterminated de (eng_tools eng2) (InlineRunner_new (map_option st_runner_intents storage)) (rt_events rt)) \<rparr>"
    using run by (auto simp: boot_runtime_def Let_def rbind_eq_Inr apply_tool_guards_rest case_prod_unfold)
  have fresh: "rt_table rt = ProcessTable_new" "rt_events rt = []" "rt_tasks rt = []" "rt_total_completed rt = 0"
    "rt_total_failed rt = 0" "rt_total_cancelled rt = 0"
    using rt by (auto simp: Runtime_with_limits_def map_ok_eq_Inr)
  have "quiet []" by (simp add: quiet_def)
  then have "quiet (rt_events (ki_runtime ki))"
    by (auto simp: ki fresh replay_unterminated_def replay_intents_quiet split: option.split sum.split)
  note events = quiet_not_counted [OF this]
  have "rt_table (ki_runtime ki) = ProcessTable_new" "rt_tasks (ki_runtime ki) = []"
    "rt_total_completed (ki_runtime ki) = 0" "rt_total_failed (ki_runtime ki) = 0" "rt_total_cancelled (ki_runtime ki) = 0"
    by (simp_all add: ki apply_tool_guards_def set_tool_guards_def fresh)
  then show ?thesis
    by (simp add: rt_inv_def task_ids_def started_ids_def ended_ids_def counted_def events) (simp add: ProcessTable_new_def)
qed

definition server_ok :: "ToolsConfig \<Rightarrow> ('k, string, 'q, 'j) Server \<Rightarrow> bool" where
  "server_ok tools sv \<longleftrightarrow>
     rt_inv (sv_runtime sv) \<and> raw_registry (eng_tools (rt_engine (sv_runtime sv))) \<and>
     provides (late_infos tools) (eng_tools (rt_engine (sv_runtime sv)))"

lemma server_ok_step: "serves japp bo sv sv' \<Longrightarrow> server_ok tools sv \<Longrightarrow> server_ok tools sv'"
proof (induction rule: serves.induct)
  case (request api sv route header resp sv')
  have "sv_runtime sv' = sv_runtime sv \<or> rt_step (api_append api) (sv_runtime sv) (sv_runtime sv')"
    by (rule handle_steps [OF request(3,2)])
  with request.prems show ?case by (auto simp: server_ok_def dest: rt_step_engine intro: rt_inv_step)
next
  case (reload cd fresh now env sv res rt')
  obtain eng guards where "rt' = (sv_runtime sv)\<lparr> rt_engine := eng, rt_guards := guards \<rparr>"
    by (rule reload_frame [OF reload.hyps])
  then have "rt_inv rt' = rt_inv (sv_runtime sv)" by (simp add: rt_inv_exchange)
  then show ?case
    using reload.prems raw.reload_kept [OF _ reload.hyps] late.reload_kept [OF _ reload.hyps] by (simp add: server_ok_def)
next
  case (runs sv rt')
  then show ?case by (auto simp: server_ok_def rt_step_engine intro: rt_inv_step)
qed

lemma server_ok_booted:
  assumes "boot de bo cd w = Inr ki" "sv_runtime sv = ki_runtime ki"
  shows "server_ok (prc_tools (ki_product_config ki)) sv"
  using rt_inv_booted [OF assms(1)] raw.booted [OF assms(1)] booted_late [OF assms(1)] by (simp add: server_ok_def assms(2))

lemma served_ok:
  assumes "boot de bo cd w = Inr ki" "sv_runtime sv0 = ki_runtime ki" "(serves japp bo)\<^sup>*\<^sup>* sv0 sv"
  shows "server_ok (prc_tools (ki_product_config ki)) sv"
  using assms(3) server_ok_booted [OF assms(1,2)] by (induction rule: rtranclp_induct) (auto intro: server_ok_step)

lemma raw_registry_named: "raw_registry reg \<Longrightarrow> registry_named reg"
  by (auto simp: raw_registry_def registry_named_def list_all_iff split: Tool.splits)

lemma rt_inv_no_parents:
  assumes "rt_inv rt" "(i, run) \<in> set (rt_table rt)"
  shows "run_parent_id run = None"
proof -
  have "tbl_get (rt_table rt) i = Some run"
    using assms by (auto simp: rt_inv_def pt_ok_def tbl_ok_def tbl_get_def)
  with assms(1) show ?thesis by (auto simp: rt_inv_def entry_ok_def)
qed



lemma start_streaming_task:
  assumes "start_streaming show_uuid japp rid now listing wfl input scope ctx rt = (Inr rid', rt')"
  shows "make_task show_uuid listing True rid' wfl input scope ctx (register_run japp True rid now wfl scope ctx rt)
    \<in> set (rt_tasks rt')"
  using assms by (auto simp: start_streaming_def Let_def split: sum.splits)

lemma make_task_run:
  "rtk_run_id (make_task show_uuid listing streaming rid wfl input scope ctx rt) = rid"
  "rtk_workflow (make_task show_uuid listing streaming rid wfl input scope ctx rt) = wfl"
  "rtk_input (make_task show_uuid listing streaming rid wfl input scope ctx rt) = input"
  by (simp_all add: make_task_def)

text \<open>
  C20. A chat runs as its user. A request that starts a chat has a verified token (or the server is
  in dev mode). The run it enters into the process table is running, in the namespace
  \<open>konf:default:\<close> followed by the subject of the token, with the subject as the actor and the role
  of the token, or \<open>user\<close> if it names none that is known. And the task that executes the run calls
  every tool in that namespace and for that actor: replacing all other raw tool calls by anything
  leaves what the run can do, its result and its events as they are. So different subjects work in
  different namespaces.
\<close>

theorem chat_tools_run_as_user:
  assumes "sv_state sv = app_state yaml limits"
    and "handle api (Chat message session) header sv = Some ((200, ChatStream rid), sv')"
  shows "\<exists>claims run task scope. (dev_mode api \<and> claims = dev_claims \<or> bears_token api (sv_verifier sv) header claims) \<and>
    tbl_get (rt_table (sv_runtime sv')) rid = Some run \<and> run_status run = StRunning \<and>
    run_namespace run = ''konf:default:'' @ cl_sub claims \<and>
    run_actor run = \<lparr> actor_id = cl_sub claims,
      actor_role = (case cl_role claims of Some r \<Rightarrow> role_of_metadata r | None \<Rightarrow> User) \<rparr> \<and>
    task \<in> set (rt_tasks (sv_runtime sv')) \<and> rtk_run_id task = rid \<and>
    scope_namespace scope = ''konf:default:'' @ cl_sub claims \<and> actor_id (scope_actor scope) = cl_sub claims \<and>
    (\<forall>(fx :: 'w Effects) other w ex sent events res.
       (exec_reaches (fx\<lparr> fx_raw := scope_raw other scope (fx_raw fx) \<rparr>) (task_context task)
          (rtk_workflow task) (rtk_input task) w ex \<longleftrightarrow>
        exec_reaches fx (task_context task) (rtk_workflow task) (rtk_input task) w ex) \<and>
       (executed (fx\<lparr> fx_raw := scope_raw other scope (fx_raw fx) \<rparr>) (task_context task)
          (rtk_workflow task) (rtk_input task) w sent events res \<longleftrightarrow>
        executed fx (task_context task) (rtk_workflow task) (rtk_input task) w sent events res))"
proof -
  obtain claims wfl session_id where
    who: "dev_mode api \<and> claims = dev_claims \<or> bears_token api (sv_verifier sv) header claims"
    and s: "start_streaming (api_show_uuid api) (api_append api) (api_run_id api) (api_now api)
      (api_listing api) wfl (chat_input claims message session_id) (chat_scope (sv_state sv) claims)
      (new_root (api_trace_id api) session_id) (sv_runtime sv) = (Inr rid, sv_runtime sv')"
    by (rule chat_started [OF assms(2)])
  let ?scope = "chat_scope (sv_state sv) claims"
  have scope: "scope_namespace ?scope = ''konf:default:'' @ cl_sub claims" "scope_actor ?scope = \<lparr> actor_id = cl_sub claims,
      actor_role = (case cl_role claims of Some r \<Rightarrow> role_of_metadata r | None \<Rightarrow> User) \<rparr>"
    by (simp_all add: chat_scope_def assms(1) app_state_def namespace_of_user del: replace_str.simps)
  have run: "tbl_get (rt_table (sv_runtime sv')) rid = Some (new_run rid (api_now api) wfl ?scope)"
    using start_streaming_table [OF s] by (simp add: pt_insert_def new_run_def)
  let ?ctx = "new_root (api_trace_id api) session_id" and ?input = "chat_input claims message session_id"
  let ?task = "make_task (api_show_uuid api) (api_listing api) True rid wfl ?input ?scope ?ctx
    (register_run (api_append api) True (api_run_id api) (api_now api) wfl ?scope ?ctx (sv_runtime sv))"
  show ?thesis
    by (intro exI [of _ claims] exI [of _ "new_run rid (api_now api) wfl ?scope"] exI [of _ ?task] exI [of _ ?scope] conjI
        who run start_streaming_task [OF s] allI)
      (simp_all add: scope new_run_def scoped.exec_reaches_agrees scoped.executed_agrees make_task_run)
qed

section \<open>Instances\<close>

definition demo_served :: "(unit, unit, unit) KonfInstance \<Rightarrow> (string, string, unit, (unit, unit) journal_wiring) Server" where
  "demo_served ki = \<lparr> sv_verifier = sv_verifier chat_server, sv_state = app_state [] ResourceLimits_default, sv_runtime = ki_runtime ki \<rparr>"

lemma demo_reloaded:
  fixes ki :: "(unit, unit, unit) KonfInstance"
  assumes "config_reload_invoke demo_bo demo_cd 1 2 env (ki_runtime ki) = (res, rt)"
  shows "(serves japp demo_bo)\<^sup>*\<^sup>* (demo_served ki) ((demo_served ki)\<lparr> sv_runtime := rt \<rparr>)"
  using assms by (intro r_into_rtranclp serves.reload) (simp add: demo_served_def)

lemma served_runtime: "sv_runtime (demo_served ki) = ki_runtime ki"
  by (simp add: demo_served_def)


text \<open>A session without capabilities can call nothing; one with all of them stays in its namespace.\<close>

definition demo_session :: "(unit, unit, unit) KonfInstance \<Rightarrow> string list \<Rightarrow> (string, unit) KonfMcpServer" where
  "demo_session ki = KonfMcpServer_with_capabilities (rt_engine (ki_runtime ki))"


theorem chat_tools_run_as_user_witness:
  "\<exists>sv' run task scope. handle demo_api (Chat ''hi'' None) (Some ''Bearer t'') chat_server = Some ((200, ChatStream 7), sv') \<and>
     tbl_get (rt_table (sv_runtime sv')) 7 = Some run \<and> run_namespace run = ''konf:default:alice'' \<and>
     task \<in> set (rt_tasks (sv_runtime sv')) \<and> scope_namespace scope = ''konf:default:alice'' \<and>
     (exec_reaches (echo_fx\<lparr> fx_raw := scope_raw echo_raw scope (fx_raw echo_fx) \<rparr>) (task_context task)
          (rtk_workflow task) (rtk_input task) 0 =
        exec_reaches echo_fx (task_context task) (rtk_workflow task) (rtk_input task) 0)"
proof -
  obtain sv' where s: "handle demo_api (Chat ''hi'' None) (Some ''Bearer t'') chat_server = Some ((200, ChatStream 7), sv')"
    using chat_served by blast
  have dev: "\<not> dev_mode demo_api" by (simp add: dev_mode_def demo_api_def)
  have st: "sv_state chat_server = app_state [] ResourceLimits_default" by (simp add: chat_server_def)
  obtain claims run task scope where
    c: "bears_token demo_api (sv_verifier chat_server) (Some ''Bearer t'') claims"
      "tbl_get (rt_table (sv_runtime sv')) 7 = Some run" "run_namespace run = ''konf:default:'' @ cl_sub claims"
      "task \<in> set (rt_tasks (sv_runtime sv'))" "scope_namespace scope = ''konf:default:'' @ cl_sub claims"
      "\<forall>ex. exec_reaches (echo_fx\<lparr> fx_raw := scope_raw echo_raw scope (fx_raw echo_fx) \<rparr>) (task_context task)
          (rtk_workflow task) (rtk_input task) 0 ex = exec_reaches echo_fx (task_context task) (rtk_workflow task) (rtk_input task) 0 ex"
    using chat_tools_run_as_user [where 'w = nat, OF st s] dev by (elim exE conjE disjE) (simp, blast)
  moreover have "claims = alice" using c(1) by (auto simp: bears_token_def demo_api_def)
  ultimately show ?thesis using s by (force simp: alice_def fun_eq_iff)
qed

end
