(* ===== verification/Spec2Isabelle.thy ===== *)
theory Spec2Isabelle
  imports Scope Tool_Guard Compiler Executor Runtime_Props Schedule_Tools Runner_Props Subscription Net_Tools
    Builtin_Tools Ai_Complete Tool_Catalog Config Boot_Props Memory_Tools Embed_Tool
    Session_Store Hybrid_Search Interaction_Json Storage Platform
begin

text \<open>
  Verification of the konf agent platform (a Rust workspace; file names below are relative to
  \<^verbatim>\<open>src/crates\<close>).

  \<^bold>\<open>The program.\<close> konf runs workflows of tool calls for language-model agents. The substrate
  (\<^verbatim>\<open>konflux-substrate\<close>) parses YAML workflows, compiles them into a graph of steps and executes the
  graph concurrently. The runtime (\<^verbatim>\<open>konf-runtime\<close>) runs workflows under execution scopes: it checks
  capabilities, injects bindings, applies tool guards, journals every interaction, keeps a process
  table and a budget, and fires durable timers. The runner (\<^verbatim>\<open>konf-tool-runner\<close>) spawns workflows in
  the background and replays them after a crash. The tool crates provide HTTP, shell, secrets,
  memory, embeddings, language models and remote MCP tools; \<^verbatim>\<open>konf-init\<close> boots all of it from a
  configuration directory; \<^verbatim>\<open>konf-backend\<close> and \<^verbatim>\<open>konf-mcp\<close> offer it over HTTP and MCP.

  \<^bold>\<open>Conventions.\<close> Structs are records, enums datatypes, fixed-width integers words (\<open>u64\<close>, \<open>i64\<close>, ...;
  a \<open>usize\<close> that only counts is a \<open>nat\<close>), strings the bytes of their UTF-8 text, JSON values the
  datatype \<open>json\<close> with objects as key-sorted lists. An operation that can fail returns a sum with the
  error on the left. State is passed explicitly; where tasks run concurrently, an inductive relation
  or a list of atomic operations in any order stands for all interleavings. Time, fresh identifiers,
  the environment, files, the network and libraries outside the workspace are arguments; what a
  theorem needs of them is a named hypothesis, shown satisfiable by its witness. Hash-map iteration
  order is an arbitrary permutation or the order of a list on which no result depends.

  \<^bold>\<open>Shared theories.\<close> \<open>Konf_Prelude\<close>: the parts of the standard library and of \<^verbatim>\<open>serde_json\<close> in use, with
  their lemmas and the simplification collections. \<open>Konf_Errors\<close>: error enums and their texts.
  \<open>Keyed_Store\<close>: the interface of keyed tables, interpreted on the hash maps, B-trees and registries.
  \<open>Graph_Search\<close>: the abstract depth-first search that both cycle checks refine. \<open>Float64\<close>: the part of
  \<open>f64\<close> the evaluator uses, on exact integers.

  \<^bold>\<open>Substrate\<close> (\<^verbatim>\<open>konflux-substrate/src\<close>).
  \<^item> \<open>Capability\<close>, \<open>Envelope\<close> (\<^verbatim>\<open>capability.rs\<close>, \<^verbatim>\<open>envelope.rs\<close>; \<^verbatim>\<open>execution_context.rs\<close> of the runtime):
    patterns, capability sets and attenuation, the typed envelope. Attenuation never amplifies; the
    locale \<open>attenuating\<close> states that contract once for capability sets and execution scopes, the
    locale \<open>causal\<close> what responses and child contexts inherit.
  \<^item> \<open>Workflow_IR\<close>, \<open>Parser\<close>, \<open>Compiler\<close> (\<^verbatim>\<open>workflow.rs\<close>, \<^verbatim>\<open>parser.rs\<close>, \<^verbatim>\<open>parser/\<close>): the representation and its
    cycle detection, the YAML schema and validator, dependency graph and compilation. What the
    validator accepts is characterised, and \<open>parse\<close> only returns valid workflows.
  \<^item> \<open>Expr_Eval\<close>, \<open>Template_Resolve\<close> (\<^verbatim>\<open>expr.rs\<close>, \<^verbatim>\<open>template.rs\<close>): conditions and input resolution.
  \<^item> \<open>Step_Exec\<close>, \<open>Executor\<close> (\<^verbatim>\<open>executor.rs\<close>, \<^verbatim>\<open>hooks.rs\<close>, \<^verbatim>\<open>stream.rs\<close>): one step with capability check,
    timeout and retries, and the main loop with its tasks as the relation \<open>exec_step\<close>; its invariant,
    termination of tasks of parsed workflows, and the reachable states in which a ready step is lost.
  \<^item> \<open>Engine\<close> (\<^verbatim>\<open>engine.rs\<close>, \<^verbatim>\<open>resource.rs\<close>, \<^verbatim>\<open>prompt.rs\<close>): registries, \<open>run\<close> and \<open>run_streaming\<close>.
  \<^item> \<open>Builtin_Tools\<close>, \<open>Tool_Catalog\<close> (\<^verbatim>\<open>builtin.rs\<close> and every \<open>info\<close> method): the small JSON tools, and the
    descriptions of all platform tools, which have distinct names and well-formed schemas.

  \<^bold>\<open>Runtime\<close> (\<^verbatim>\<open>konf-runtime/src\<close>).
  \<^item> \<open>Scope\<close>, \<open>Glob\<close>, \<open>Tool_Guard\<close> (\<^verbatim>\<open>scope.rs\<close>, \<^verbatim>\<open>guard.rs\<close>, \<^verbatim>\<open>context.rs\<close>, \<^verbatim>\<open>tool.rs\<close>): grants, child scopes,
    guards with the glob matcher against its specification, binding injection; the locale \<open>decorator\<close>
    covers both wrappers.
  \<^item> \<open>Budget\<close>, \<open>Process_Table\<close>, \<open>Event_Bus\<close> (\<^verbatim>\<open>budget.rs\<close>, \<^verbatim>\<open>process.rs\<close>, \<^verbatim>\<open>monitor.rs\<close>, \<^verbatim>\<open>hooks.rs\<close>, \<^verbatim>\<open>event_bus.rs\<close>).
  \<^item> \<open>Interaction\<close>, \<open>Journal\<close>, \<open>Journal_Store\<close>, \<open>Subscription\<close> (\<^verbatim>\<open>interaction.rs\<close>, \<^verbatim>\<open>bisimulation.rs\<close>,
    \<^verbatim>\<open>journal/\<close>): the redb journal with its four indexes refines a numbered list of entries (locale
    \<open>audit_log\<close>, interpreted on the redb store and on the fan-out store), reconciliation settles
    unfinished runs, subscriptions can miss entries. \<open>Interaction_Json\<close> reads interaction records
    back: what is written as JSON is read as it was.
  \<^item> \<open>Dispatcher\<close>, \<open>Runtime\<close>, \<open>Runtime_Props\<close>, \<open>Workflow_Tool\<close> (\<^verbatim>\<open>dispatcher.rs\<close>, \<^verbatim>\<open>runtime.rs\<close>,
    \<^verbatim>\<open>workflow_tool.rs\<close>): a dispatch passes every check before the tool is reached; the lifecycle of
    runs over all interleavings; nested workflows keep their authority. \<open>Run_Authority\<close> takes this to
    whole runs: every raw tool call of a run carries the authority of its scope, by the locale
    \<open>agreeing_effects\<close> over retries, steps, tasks and the executor.
  \<^item> \<open>Scheduler\<close>, \<open>Schedule_Tools\<close> (\<^verbatim>\<open>scheduler.rs\<close>, \<^verbatim>\<open>konf-init/src/schedule.rs\<close>): durable timers in two
    tables that agree in every reachable state; a tick fires what is due.

  \<^bold>\<open>Runner\<close> (\<^verbatim>\<open>konf-tool-runner/src\<close>, \<^verbatim>\<open>konf-runtime/src/runner_intents.rs\<close>). \<open>Runner_Intents\<close>, \<open>Runner\<close>,
  \<open>Runner_Props\<close>: the intent store refines a map; registry, tasks and cancel hooks agree under all
  interleavings; replayed runs keep their recorded authority.

  \<^bold>\<open>Tools.\<close>
  \<^item> \<open>Net_Tools\<close> (\<^verbatim>\<open>konf-tool-http\<close>, \<^verbatim>\<open>konf-tool-shell\<close>, \<^verbatim>\<open>konf-tool-secret\<close>): URL check and limits.
  \<^item> \<open>Ai_Complete\<close> (\<^verbatim>\<open>konf-tool-llm\<close>): the ReAct loop of \<open>ai:complete\<close>, introspection and workflow
    validation. Two properties rest on the locale \<open>react_view\<close>: replacing what a client may not
    reach changes no outcome.
  \<^item> \<open>Memory_Tools\<close>, \<open>Surreal\<close>, \<open>Session_Store\<close>, \<open>Hybrid_Search\<close> (\<^verbatim>\<open>konf-tool-memory\<close>,
    \<^verbatim>\<open>konf-tool-memory-surreal\<close>): the memory tools over a backend, and the SurrealDB backend over the
    statements it sends. A bound namespace confines every call; the session store refines a map
    with expiry; hybrid search is reciprocal rank fusion.
  \<^item> \<open>Embed_Tool\<close>, \<open>Mcp_Client\<close> (\<^verbatim>\<open>konf-tool-embed\<close>, \<^verbatim>\<open>konf-tool-mcp\<close>): embeddings and remote tools.

  \<^bold>\<open>Boot and servers.\<close>
  \<^item> \<open>Config\<close>, \<open>Boot\<close>, \<open>Boot_Props\<close> (\<^verbatim>\<open>konf-init/src\<close>): configuration and interpolation, the boot
    sequence and \<open>config:reload\<close>; which tools a booted platform has, what a reload replaces,
    idempotent schedules, and runs that come back after a crash. \<open>Storage\<close> (\<^verbatim>\<open>konf-runtime/src/storage.rs\<close>):
    opening the stores over one redb file keeps what it holds.
  \<^item> \<open>Mcp_Server\<close> (\<^verbatim>\<open>konf-mcp/src/lib.rs\<close>): listing and calling tools stay in the session.
  \<^item> \<open>Backend\<close> (\<^verbatim>\<open>konf-backend/src\<close>): token verification with its key cache, middleware and all
    handlers; protected routes need a verified token.
  \<^item> \<open>Platform\<close>: the parts together. \<open>serves\<close> is the step relation of a booted server under requests,
    reloads and run steps; the locales \<open>reload_contract\<close> and \<open>boot_contract\<close> say which properties of
    the registry outlast them. The platform stays up, its MCP sessions stay confined, and the tools
    of a chat run as its user.

  \<^bold>\<open>Bounds and fuel.\<close> The two cycle searches take fuel; \<open>visit_enough_fuel\<close> shows that the number of
  vertices, which their callers pass, suffices, and the properties are stated on the calls. \<open>cancel\<close>
  takes fuel for the depth of the process tree. Each theorem that claims a result proves that there is
  one. The executor is a relation; that its tasks end is a theorem about parsed workflows.
  The rounds of \<open>ai:complete\<close> recurse on \<open>max_iterations\<close>. Retry counters, budgets, replay counts,
  identifiers and delays keep their machine width.

  \<^bold>\<open>Not modelled.\<close> Serialization formats (serde, postcard, figment), the template engine, cron
  parsing, the cryptography of tokens, SurrealDB, the model providers, the rmcp, reqwest and fastembed
  libraries, and the axum router are arguments. The rounding of \<open>f64\<close> is modelled for comparison,
  sums and reciprocals only. Logging, tracing spans, CORS, listening sockets, shutdown signals, the
  stdio transport and static server information change no state of the program. The redb library is represented by the
  outcome of its transactions. State projections, which no tool has, are left out, and so are the
  receivers of the event bus. Panics of
  library code and poisoned locks are not modelled.
\<close>

end
